(* ===== verification/Prelude.thy ===== *)
theory Prelude
  imports Main "HOL-Library.Word"
begin

text \<open>
  Shared vocabulary of the development: the effect type in which the asynchronous methods
  of the backend are written (a state that survives a raised exception, as a Python object
  or an open database session does), the control operators of Python that the code uses
  (sequencing, \<open>raise\<close>, \<open>try/except\<close>, \<open>for\<close>), the invariance calculus \<open>keeps\<close> with its rule
  collection, and small facts on lists and options.
\<close>

section \<open>Results and effects\<close>

text \<open>
  An action takes a state and returns either the exception it raised (\<open>Inl\<close>) or its value
  (\<open>Inr\<close>), together with the state at that moment: effects performed before a \<open>raise\<close> stay.
\<close>

type_synonym ('s, 'e, 'a) act = "'s \<Rightarrow> ('e + 'a) \<times> 's"

definition ret :: "'a \<Rightarrow> ('s, 'e, 'a) act" where
  "ret x = (\<lambda>s. (Inr x, s))"

definition raise :: "'e \<Rightarrow> ('s, 'e, 'a) act" where
  "raise e = (\<lambda>s. (Inl e, s))"

definition bind :: "('s, 'e, 'a) act \<Rightarrow> ('a \<Rightarrow> ('s, 'e, 'b) act) \<Rightarrow> ('s, 'e, 'b) act" where
  "bind m f = (\<lambda>s. case m s of (Inl e, s') \<Rightarrow> (Inl e, s') | (Inr x, s') \<Rightarrow> f x s')"

definition gets :: "('s \<Rightarrow> 'a) \<Rightarrow> ('s, 'e, 'a) act" where
  "gets f = (\<lambda>s. (Inr (f s), s))"

definition modify :: "('s \<Rightarrow> 's) \<Rightarrow> ('s, 'e, unit) act" where
  "modify f = (\<lambda>s. (Inr (), f s))"

text \<open>\<open>try: m except e: h e\<close>; the handler re-raises what it does not catch.\<close>

definition try_except :: "('s, 'e, 'a) act \<Rightarrow> ('e \<Rightarrow> ('s, 'e, 'a) act) \<Rightarrow> ('s, 'e, 'a) act" where
  "try_except m h = (\<lambda>s. case m s of (Inl e, s') \<Rightarrow> h e s' | (Inr x, s') \<Rightarrow> (Inr x, s'))"

text \<open>A \<open>for\<close> loop that collects one value per element, and one that collects nothing.\<close>

fun map_act :: "('a \<Rightarrow> ('s, 'e, 'b) act) \<Rightarrow> 'a list \<Rightarrow> ('s, 'e, 'b list) act" where
  "map_act f [] = ret []"
| "map_act f (x # xs) = bind (f x) (\<lambda>y. bind (map_act f xs) (\<lambda>ys. ret (y # ys)))"

fun for_each :: "('a \<Rightarrow> ('s, 'e, unit) act) \<Rightarrow> 'a list \<Rightarrow> ('s, 'e, unit) act" where
  "for_each f [] = ret ()"
| "for_each f (x # xs) = bind (f x) (\<lambda>_. for_each f xs)"

subsection \<open>Evaluation\<close>

named_theorems run \<comment> \<open>equations that execute an action on a state\<close>

lemma ret_run [run, simp]: "ret x s = (Inr x, s)"
  by (simp add: ret_def)

lemma raise_run [run, simp]: "raise e s = (Inl e, s)"
  by (simp add: raise_def)

lemma gets_run [run, simp]: "gets f s = (Inr (f s), s)"
  by (simp add: gets_def)

lemma modify_run [run, simp]: "modify f s = (Inr (), f s)"
  by (simp add: modify_def)

lemma bind_run [run]:
  "bind m f s = (case m s of (Inl e, s') \<Rightarrow> (Inl e, s') | (Inr x, s') \<Rightarrow> f x s')"
  by (simp add: bind_def)

lemma try_run [run]:
  "try_except m h s = (case m s of (Inl e, s') \<Rightarrow> h e s' | (Inr x, s') \<Rightarrow> (Inr x, s'))"
  by (simp add: try_except_def)

text \<open>The monad laws, as rewrite rules, and inversion of a successful sequence.\<close>

lemma bind_ret [simp]: "bind (ret x) f = f x"
  by (rule ext) (simp add: bind_def)

lemma bind_raise [simp]: "bind (raise e) f = raise e"
  by (rule ext) (simp add: bind_def)

lemma bind_ret_right [simp]: "bind m ret = m"
  by (rule ext) (simp add: bind_def split: prod.split sum.split)

lemma bind_assoc: "bind (bind m f) g = bind m (\<lambda>x. bind (f x) g)"
  by (rule ext) (simp add: bind_def split: prod.split sum.split)

lemma bind_Inr:
  "bind m f s = (Inr y, s'') \<longleftrightarrow> (\<exists>x s'. m s = (Inr x, s') \<and> f x s' = (Inr y, s''))"
  by (auto simp: bind_def split: prod.split sum.split)

lemma bind_Inl:
  "bind m f s = (Inl e, s'') \<longleftrightarrow>
    m s = (Inl e, s'') \<or> (\<exists>x s'. m s = (Inr x, s') \<and> f x s' = (Inl e, s''))"
  by (auto simp: bind_def split: prod.split sum.split)

section \<open>Invariance\<close>

text \<open>\<open>keeps I m\<close>: whatever \<open>m\<close> does, returning or raising, \<open>I\<close> still holds afterwards.\<close>

definition keeps :: "('s \<Rightarrow> bool) \<Rightarrow> ('s, 'e, 'a) act \<Rightarrow> bool" where
  "keeps I m \<longleftrightarrow> (\<forall>s. I s \<longrightarrow> I (snd (m s)))"

named_theorems keep_rules \<comment> \<open>introduction rules for \<open>keeps\<close>\<close>

lemma keepsI: "(\<And>s. I s \<Longrightarrow> I (snd (m s))) \<Longrightarrow> keeps I m"
  by (simp add: keeps_def)

lemma keepsD: "keeps I m \<Longrightarrow> I s \<Longrightarrow> I (snd (m s))"
  by (simp add: keeps_def)

lemma keepsD_run: "keeps I m \<Longrightarrow> I s \<Longrightarrow> m s = (r, s') \<Longrightarrow> I s'"
  by (metis keepsD snd_conv)

lemma keeps_ret [keep_rules, simp]: "keeps I (ret x)"
  by (simp add: keeps_def)

lemma keeps_raise [keep_rules, simp]: "keeps I (raise e)"
  by (simp add: keeps_def)

lemma keeps_gets [keep_rules, simp]: "keeps I (gets f)"
  by (simp add: keeps_def)

lemma keeps_modify: "(\<And>s. I s \<Longrightarrow> I (f s)) \<Longrightarrow> keeps I (modify f)"
  by (simp add: keeps_def)

lemma keeps_bind [keep_rules]:
  "keeps I m \<Longrightarrow> (\<And>x. keeps I (f x)) \<Longrightarrow> keeps I (bind m f)"
  by (simp add: keeps_def bind_def split: prod.split sum.split) (metis snd_conv)

lemma keeps_try [keep_rules]:
  "keeps I m \<Longrightarrow> (\<And>e. keeps I (h e)) \<Longrightarrow> keeps I (try_except m h)"
  by (simp add: keeps_def try_except_def split: prod.split sum.split) (metis snd_conv)

lemma keeps_if [keep_rules]:
  "(b \<Longrightarrow> keeps I m) \<Longrightarrow> (\<not> b \<Longrightarrow> keeps I n) \<Longrightarrow> keeps I (if b then m else n)"
  by simp

lemma keeps_option [keep_rules]:
  "(x = None \<Longrightarrow> keeps I m) \<Longrightarrow> (\<And>y. x = Some y \<Longrightarrow> keeps I (f y)) \<Longrightarrow>
    keeps I (case x of None \<Rightarrow> m | Some y \<Rightarrow> f y)"
  by (simp split: option.split)

lemma keeps_sum [keep_rules]:
  "(\<And>y. x = Inl y \<Longrightarrow> keeps I (f y)) \<Longrightarrow> (\<And>y. x = Inr y \<Longrightarrow> keeps I (g y)) \<Longrightarrow>
    keeps I (case x of Inl y \<Rightarrow> f y | Inr y \<Rightarrow> g y)"
  by (simp split: sum.split)

lemma keeps_prod [keep_rules]:
  "(\<And>a b. x = (a, b) \<Longrightarrow> keeps I (f a b)) \<Longrightarrow> keeps I (case x of (a, b) \<Rightarrow> f a b)"
  by (simp split: prod.split)

lemma keeps_let [keep_rules]: "keeps I (f x) \<Longrightarrow> keeps I (let y = x in f y)"
  by simp

lemma keeps_map_act_in: "(\<And>x. x \<in> set xs \<Longrightarrow> keeps I (f x)) \<Longrightarrow> keeps I (map_act f xs)"
  by (induction xs) (auto intro!: keeps_bind)

lemma keeps_map_act [keep_rules]: "(\<And>x. keeps I (f x)) \<Longrightarrow> keeps I (map_act f xs)"
  by (rule keeps_map_act_in)

lemma keeps_for_each [keep_rules]: "(\<And>x. keeps I (f x)) \<Longrightarrow> keeps I (for_each f xs)"
  by (induction xs) (auto intro!: keeps_bind)

text \<open>Sequencing when the value read by \<open>m\<close> is known to satisfy \<open>V\<close> in every state with \<open>I\<close>.\<close>

lemma keeps_bind_where:
  assumes "keeps I m"
    and "\<And>s x s'. I s \<Longrightarrow> m s = (Inr x, s') \<Longrightarrow> V x"
    and "\<And>x. V x \<Longrightarrow> keeps I (f x)"
  shows "keeps I (bind m f)"
proof (rule keepsI)
  fix s assume I: "I s"
  obtain r s' where m: "m s = (r, s')" by fastforce
  with I assms(1) have "I s'" by (blast intro: keepsD_run)
  with I m assms(2,3) show "I (snd (bind m f s))"
    by (cases r) (auto simp: bind_def intro: keepsD)
qed

lemma keeps_conj: "keeps I m \<Longrightarrow> keeps J m \<Longrightarrow> keeps (\<lambda>s. I s \<and> J s) m"
  by (simp add: keeps_def)

text \<open>A relation that holds between the states before and after an action.\<close>

definition relates :: "('s \<Rightarrow> 's \<Rightarrow> bool) \<Rightarrow> ('s, 'e, 'a) act \<Rightarrow> bool" where
  "relates R m \<longleftrightarrow> (\<forall>s. R s (snd (m s)))"

lemma relatesD: "relates R m \<Longrightarrow> R s (snd (m s))"
  by (simp add: relates_def)

lemma relatesD_run: "relates R m \<Longrightarrow> m s = (r, s') \<Longrightarrow> R s s'"
  by (metis relatesD snd_conv)

text \<open>An action that cannot raise.\<close>

definition returns :: "('s, 'e, 'a) act \<Rightarrow> bool" where
  "returns m \<longleftrightarrow> (\<forall>s. \<exists>x s'. m s = (Inr x, s'))"

lemma returnsD: "returns m \<Longrightarrow> \<exists>x s'. m s = (Inr x, s')"
  by (simp add: returns_def)

lemma returns_ret [simp]: "returns (ret x)"
  by (simp add: returns_def)

lemma returns_bind: "returns m \<Longrightarrow> (\<And>x. returns (f x)) \<Longrightarrow> returns (bind m f)"
  unfolding returns_def bind_def
  by (metis (mono_tags, lifting) old.prod.case old.sum.simps(6))

lemma returns_try: "(\<And>e. returns (h e)) \<Longrightarrow> returns (try_except m h)"
  unfolding returns_def try_except_def
  by (auto split: prod.split sum.split)

lemma returns_map_act: "(\<And>x. returns (f x)) \<Longrightarrow> returns (map_act f xs)"
  by (induction xs) (auto intro!: returns_bind)

section \<open>Lists\<close>

text \<open>\<open>list(dict.fromkeys(xs))\<close>: the first occurrence of every element, in order.\<close>

fun fromkeys :: "'a list \<Rightarrow> 'a list" where
  "fromkeys [] = []"
| "fromkeys (x # xs) = x # filter (\<lambda>y. y \<noteq> x) (fromkeys xs)"

lemma set_fromkeys [simp]: "set (fromkeys xs) = set xs"
  by (induction xs) auto

lemma distinct_fromkeys [simp]: "distinct (fromkeys xs)"
  by (induction xs) auto

lemma fromkeys_distinct: "distinct xs \<Longrightarrow> fromkeys xs = xs"
  by (induction xs) (auto intro!: filter_True)

text \<open>\<open>result.scalar_one_or_none()\<close> after a select: nothing, one row, or an error.\<close>

lemma find_Some_in: "find P xs = Some x \<Longrightarrow> x \<in> set xs \<and> P x"
  by (auto simp: find_Some_iff)

lemma length_filter_partition:
  "length (filter P xs) + length (filter (\<lambda>x. \<not> P x) xs) = length xs"
  by (rule sum_length_filter_compl)

section \<open>Sums\<close>

lemma map_sum_Inl_iff [simp]: "map_sum id f r = Inl e \<longleftrightarrow> r = Inl e"
  by (cases r) auto

lemma map_sum_Inr_iff [simp]: "map_sum id f r = Inr y \<longleftrightarrow> (\<exists>x. r = Inr x \<and> y = f x)"
  by (cases r) auto

end
