(* ===== verification/PyText.thy ===== *)
theory PyText
  imports Prelude
begin

text \<open>
  The text operations of Python that the backend uses: \<open>str\<close> methods, \<open>PurePosixPath\<close>
  accessors and the textual form of a \<open>UUID\<close>. A \<open>str\<close> is a list of characters with code
  points 0 to 255 (Latin-1), on which \<open>strip\<close> and \<open>lower\<close> below are Python's own; \<open>len\<close>
  counts code points, as \<open>length\<close> does here.
\<close>

section \<open>\<open>str\<close> methods\<close>

definition char_code :: "char \<Rightarrow> nat" where
  "char_code c = of_char c"

definition is_space :: "char \<Rightarrow> bool" where
  "is_space c = (let n = char_code c in
     9 \<le> n \<and> n \<le> 13 \<or> 28 \<le> n \<and> n \<le> 32 \<or> n = 133 \<or> n = 160)"

definition lstrip_by :: "(char \<Rightarrow> bool) \<Rightarrow> string \<Rightarrow> string" where
  "lstrip_by p s = dropWhile p s"

definition rstrip_by :: "(char \<Rightarrow> bool) \<Rightarrow> string \<Rightarrow> string" where
  "rstrip_by p s = rev (dropWhile p (rev s))"

definition strip_by :: "(char \<Rightarrow> bool) \<Rightarrow> string \<Rightarrow> string" where
  "strip_by p s = rstrip_by p (lstrip_by p s)"

definition strip :: "string \<Rightarrow> string" where
  "strip s = strip_by is_space s"

definition strip_slash :: "string \<Rightarrow> string" where
  "strip_slash s = strip_by (\<lambda>c. c = CHR ''/'') s"

definition lower_char :: "char \<Rightarrow> char" where
  "lower_char c = (let n = char_code c in
     if 65 \<le> n \<and> n \<le> 90 \<or> 192 \<le> n \<and> n \<le> 222 \<and> n \<noteq> 215 then char_of (n + 32) else c)"

definition lower :: "string \<Rightarrow> string" where
  "lower s = map lower_char s"

definition backslash_to_slash :: "string \<Rightarrow> string" where
  "backslash_to_slash s = map (\<lambda>c. if c = CHR 0x5C then CHR ''/'' else c) s"

definition starts_with :: "string \<Rightarrow> string \<Rightarrow> bool" where
  "starts_with s p = (take (length p) s = p)"

definition ends_with :: "string \<Rightarrow> string \<Rightarrow> bool" where
  "ends_with s p = starts_with (rev s) (rev p)"

fun contains :: "string \<Rightarrow> string \<Rightarrow> bool" where
  "contains [] p = (p = [])"
| "contains (c # s) p = (starts_with (c # s) p \<or> contains s p)"

text \<open>\<open>s.split(c)\<close> and \<open>c.join(parts)\<close> for a one-character separator.\<close>

fun split_on :: "char \<Rightarrow> string \<Rightarrow> string list" where
  "split_on c [] = [[]]"
| "split_on c (x # s) =
     (if x = c then [] # split_on c s
      else (case split_on c s of [] \<Rightarrow> [[x]] | y # ys \<Rightarrow> (x # y) # ys))"

fun join_on :: "char \<Rightarrow> string list \<Rightarrow> string" where
  "join_on c [] = []"
| "join_on c [x] = x"
| "join_on c (x # y # ys) = x @ c # join_on c (y # ys)"

lemma starts_with_append [simp]: "starts_with (p @ s) p"
  by (simp add: starts_with_def)

lemma starts_with_iff: "starts_with s p \<longleftrightarrow> (\<exists>r. s = p @ r)"
  by (auto simp: starts_with_def) (metis append_take_drop_id)

lemma ends_with_iff: "ends_with s p \<longleftrightarrow> (\<exists>r. s = r @ p)"
  by (simp add: ends_with_def starts_with_iff) (metis rev_append rev_rev_ident)

lemma split_on_nonempty [simp]: "split_on c s \<noteq> []"
  by (induction s) (auto split: list.split)

lemma join_on_Cons: "ys \<noteq> [] \<Longrightarrow> join_on c (x # ys) = x @ c # join_on c ys"
  by (cases ys) auto

lemma join_on_Cons_Cons: "join_on c ((x # y) # ys) = x # join_on c (y # ys)"
  by (cases ys) auto

lemma join_split: "join_on c (split_on c s) = s"
proof (induction s)
  case Nil
  then show ?case by simp
next
  case (Cons x s)
  obtain y ys where s: "split_on c s = y # ys"
    by (meson neq_Nil_conv split_on_nonempty)
  with Cons.IH show ?case
    by (cases "x = c") (auto simp: join_on_Cons_Cons)
qed

lemma split_on_no_sep: "x \<in> set (split_on c s) \<Longrightarrow> c \<notin> set x"
  by (induction s arbitrary: x) (auto split: if_splits list.splits)

lemma split_on_single: "c \<notin> set x \<Longrightarrow> split_on c x = [x]"
  by (induction x) auto

lemma split_on_append: "c \<notin> set x \<Longrightarrow> split_on c (x @ c # s) = x # split_on c s"
  by (induction x) auto

lemma split_join:
  "ys \<noteq> [] \<Longrightarrow> (\<And>y. y \<in> set ys \<Longrightarrow> c \<notin> set y) \<Longrightarrow> split_on c (join_on c ys) = ys"
  by (induction c ys rule: join_on.induct) (simp_all add: split_on_single split_on_append)

lemma rstrip_by_last: "rstrip_by p s \<noteq> [] \<Longrightarrow> \<not> p (last (rstrip_by p s))"
  by (simp add: rstrip_by_def last_rev hd_dropWhile)

lemma rstrip_by_prefix: "\<exists>r. s = rstrip_by p s @ r"
proof -
  have "rev s = takeWhile p (rev s) @ dropWhile p (rev s)" by simp
  then have "s = rev (dropWhile p (rev s)) @ rev (takeWhile p (rev s))"
    by (metis rev_append rev_rev_ident)
  then show ?thesis by (auto simp: rstrip_by_def)
qed

lemma strip_by_last: "strip_by p s \<noteq> [] \<Longrightarrow> \<not> p (last (strip_by p s))"
  by (simp add: strip_by_def rstrip_by_last)

lemma strip_by_hd: "strip_by p s \<noteq> [] \<Longrightarrow> \<not> p (hd (strip_by p s))"
proof -
  assume ne: "strip_by p s \<noteq> []"
  obtain r where "dropWhile p s = strip_by p s @ r"
    using rstrip_by_prefix [of "dropWhile p s" p] by (auto simp: strip_by_def lstrip_by_def)
  then have "hd (dropWhile p s) = hd (strip_by p s)" "dropWhile p s \<noteq> []"
    using ne by (metis hd_append2, force)
  then show ?thesis using hd_dropWhile by metis
qed

lemma dropWhile_hd: "s = [] \<or> \<not> p (hd s) \<Longrightarrow> dropWhile p s = s"
  by (cases s) auto

lemma strip_by_id: "s = [] \<or> \<not> p (hd s) \<and> \<not> p (last s) \<Longrightarrow> strip_by p s = s"
  by (auto simp: strip_by_def lstrip_by_def rstrip_by_def dropWhile_hd hd_rev)

lemma strip_by_idem [simp]: "strip_by p (strip_by p s) = strip_by p s"
  using strip_by_id strip_by_hd strip_by_last by metis

lemma strip_idem [simp]: "strip (strip s) = strip s"
  by (simp add: strip_def)

lemma set_dropWhile_sub: "set (dropWhile p s) \<subseteq> set s"
  by (meson set_dropWhileD subsetI)

lemma set_strip_by: "set (strip_by p s) \<subseteq> set s"
  using set_dropWhile_sub [of p "rev (dropWhile p s)"] set_dropWhile_sub [of p s]
  by (auto simp: strip_by_def lstrip_by_def rstrip_by_def)

section \<open>\<open>PurePosixPath\<close>\<close>

text \<open>
  The components of a path: empty components and \<open>.\<close> are dropped, \<open>..\<close> is kept. The
  leading \<open>/\<close> of an absolute path is not a component here; it matters to \<open>parent\<close> only.
\<close>

definition path_parts :: "string \<Rightarrow> string list" where
  "path_parts s = filter (\<lambda>x. x \<noteq> [] \<and> x \<noteq> ''.'') (split_on (CHR ''/'') s)"

definition path_name :: "string \<Rightarrow> string" where
  "path_name s = (case path_parts s of [] \<Rightarrow> [] | x # xs \<Rightarrow> last (x # xs))"

text \<open>
  \<open>str(PurePosixPath(s).parent)\<close>. A path that begins with exactly two slashes keeps both,
  any other absolute path has one.
\<close>

definition path_root :: "string \<Rightarrow> string" where
  "path_root s =
     (if starts_with s ''//'' \<and> \<not> starts_with s ''///'' then ''//''
      else if starts_with s ''/'' then ''/'' else [])"

definition path_parent :: "string \<Rightarrow> string" where
  "path_parent s =
     (let t = path_root s @ join_on (CHR ''/'') (butlast (path_parts s))
      in if t = [] then ''.'' else t)"

text \<open>\<open>.suffix\<close> and \<open>.stem\<close> (Python 3.12): the last dot must be neither first nor last.\<close>

definition name_split :: "string \<Rightarrow> string \<times> string" where
  "name_split n =
     (let ext = rev (takeWhile (\<lambda>c. c \<noteq> CHR ''.'') (rev n));
          i = length n - length ext - 1
      in if CHR ''.'' \<in> set n \<and> 0 < i \<and> ext \<noteq> [] then (take i n, drop i n) else (n, []))"

definition path_suffix :: "string \<Rightarrow> string" where
  "path_suffix s = snd (name_split (path_name s))"

definition path_stem :: "string \<Rightarrow> string" where
  "path_stem s = fst (name_split (path_name s))"

lemma name_split_join: "fst (name_split n) @ snd (name_split n) = n"
  by (simp add: name_split_def Let_def)

lemma path_parts_no_slash: "x \<in> set (path_parts s) \<Longrightarrow> CHR ''/'' \<notin> set x \<and> x \<noteq> []"
  by (auto simp: path_parts_def split_on_no_sep)

lemma path_name_no_slash: "CHR ''/'' \<notin> set (path_name s)"
proof (cases "path_parts s")
  case (Cons x xs)
  then have "last (x # xs) \<in> set (path_parts s)" by simp
  then have "CHR ''/'' \<notin> set (last (x # xs))" using path_parts_no_slash by blast
  with Cons show ?thesis by (simp add: path_name_def del: last.simps)
qed (simp add: path_name_def)

section \<open>UUIDs\<close>

type_synonym uuid = "128 word"

definition hex_char :: "nat \<Rightarrow> char" where
  "hex_char d = (if d < 10 then char_of (d + 48) else char_of (d + 87))"

definition hex_val :: "char \<Rightarrow> nat option" where
  "hex_val c = (let n = char_code c in
     if 48 \<le> n \<and> n \<le> 57 then Some (n - 48)
     else if 97 \<le> n \<and> n \<le> 102 then Some (n - 87)
     else if 65 \<le> n \<and> n \<le> 70 then Some (n - 55)
     else None)"

text \<open>The \<open>k\<close> low hexadecimal digits of \<open>n\<close>, most significant first.\<close>

fun hex_digits :: "nat \<Rightarrow> nat \<Rightarrow> string" where
  "hex_digits 0 n = []"
| "hex_digits (Suc k) n = hex_digits k (n div 16) @ [hex_char (n mod 16)]"

definition uuid_str :: "uuid \<Rightarrow> string" where
  "uuid_str u =
     (let h = hex_digits 32 (unat u) in
      take 8 h @ ''-'' @ take 4 (drop 8 h) @ ''-'' @ take 4 (drop 12 h) @ ''-'' @
      take 4 (drop 16 h) @ ''-'' @ drop 20 h)"

text \<open>
  \<open>int(s, 16)\<close>: surrounding space, a sign, an \<open>0x\<close> prefix and single underscores between
  digits are accepted. \<open>None\<close> is Python's \<open>ValueError\<close>. No minus sign can reach it from
  \<open>UUID(raw)\<close>, which removes every hyphen first.
\<close>

fun hex_number :: "nat \<Rightarrow> string \<Rightarrow> nat option" where
  "hex_number a [] = Some a"
| "hex_number a (c # s) =
     (if c = CHR ''_'' then
        (case s of [] \<Rightarrow> None
         | d # t \<Rightarrow> (case hex_val d of None \<Rightarrow> None | Some v \<Rightarrow> hex_number (16 * a + v) t))
      else (case hex_val c of None \<Rightarrow> None | Some v \<Rightarrow> hex_number (16 * a + v) s))"

definition py_int16 :: "string \<Rightarrow> nat option" where
  "py_int16 s =
     (let t = strip s;
          u = (case t of c # r \<Rightarrow> if c = CHR ''+'' then r else t | [] \<Rightarrow> t)
      in if starts_with (lower u) ''0x'' \<and> drop 2 u \<noteq> [] then hex_number 0 (drop 2 u)
         else (case u of [] \<Rightarrow> None
               | c # _ \<Rightarrow> if c = CHR ''_'' then None else hex_number 0 u))"

fun remove_all :: "nat \<Rightarrow> string \<Rightarrow> string \<Rightarrow> string" where
  "remove_all 0 p s = s"
| "remove_all (Suc k) p s =
     (if p \<noteq> [] \<and> starts_with s p then remove_all k p (drop (length p) s)
      else (case s of [] \<Rightarrow> [] | c # t \<Rightarrow> c # remove_all k p t))"

definition replace_empty :: "string \<Rightarrow> string \<Rightarrow> string" where
  "replace_empty p s = remove_all (length s) p s"

definition parse_uuid :: "string \<Rightarrow> uuid option" where
  "parse_uuid raw =
     (let a = replace_empty ''uuid:'' (replace_empty ''urn:'' raw);
          b = filter (\<lambda>c. c \<noteq> CHR ''-'') (strip_by (\<lambda>c. c = CHR ''{'' \<or> c = CHR ''}'') a)
      in if length b \<noteq> 32 then None
         else (case py_int16 b of None \<Rightarrow> None | Some n \<Rightarrow> Some (word_of_nat n)))"

lemma hex_val_char: "d < 16 \<Longrightarrow> hex_val (hex_char d) = Some d"
  by (auto simp: hex_char_def hex_val_def char_code_def Let_def)

lemma hex_char_code: "d < 16 \<Longrightarrow>
    char_code (hex_char d) \<in> {48..57} \<union> {97..102}"
  by (auto simp: hex_char_def char_code_def)

lemma hex_digits_length [simp]: "length (hex_digits k n) = k"
  by (induction k arbitrary: n) auto

lemma hex_digits_code: "c \<in> set (hex_digits k n) \<Longrightarrow> char_code c \<in> {48..57} \<union> {97..102}"
proof (induction k arbitrary: n)
  case (Suc k)
  then show ?case using hex_char_code [of "n mod 16"] by fastforce
qed simp

lemma hex_number_digits:
  "hex_number a (hex_digits k n @ s) = hex_number (a * 16 ^ k + n mod 16 ^ k) s"
proof (induction k arbitrary: a n s)
  case 0
  then show ?case by simp
next
  case (Suc k)
  have us: "hex_char (n mod 16) \<noteq> CHR ''_''"
    using hex_char_code [of "n mod 16"] by (auto simp: char_code_def)
  have "n mod 16 ^ Suc k = 16 * (n div 16 mod 16 ^ k) + n mod 16"
    by (simp add: mod_mult2_eq)
  with us show ?case
    by (simp add: Suc.IH hex_val_char algebra_simps)
qed

text \<open>A separator-free digit string survives the cleaning that \<open>UUID(raw)\<close> performs.\<close>

lemma remove_all_absent:
  "p \<noteq> [] \<Longrightarrow> last p \<notin> set s \<Longrightarrow> remove_all k p s = s"
proof (induction k arbitrary: s)
  case 0
  then show ?case by simp
next
  case (Suc k)
  have "\<not> starts_with s p"
    using Suc.prems by (auto simp: starts_with_iff)
  with Suc show ?case by (cases s) auto
qed

lemma replace_empty_absent: "p \<noteq> [] \<Longrightarrow> last p \<notin> set s \<Longrightarrow> replace_empty p s = s"
  by (simp add: replace_empty_def remove_all_absent)

lemma uuid_str_chars: "c \<in> set (uuid_str u) \<Longrightarrow> char_code c \<in> {45} \<union> {48..57} \<union> {97..102}"
  using hex_digits_code [of c 32 "unat u"]
  by (auto simp: uuid_str_def Let_def char_code_def dest!: in_set_takeD in_set_dropD)

lemma filter_hyphen_digits: "set h \<subseteq> set (hex_digits k n) \<Longrightarrow> filter (\<lambda>c. c \<noteq> CHR ''-'') h = h"
  by (rule filter_True) (use hex_digits_code in \<open>fastforce simp: char_code_def\<close>)

lemma uuid_str_hex: "filter (\<lambda>c. c \<noteq> CHR ''-'') (uuid_str u) = hex_digits 32 (unat u)"
proof -
  let ?h = "hex_digits 32 (unat u)"
  have f: "filter (\<lambda>c. c \<noteq> CHR ''-'') x = x" if "set x \<subseteq> set ?h" for x
    using that by (rule filter_hyphen_digits)
  have "filter (\<lambda>c. c \<noteq> CHR ''-'') (uuid_str u) =
      take 8 ?h @ take 4 (drop 8 ?h) @ take 4 (drop 12 ?h) @ take 4 (drop 16 ?h) @ drop 20 ?h"
    by (simp add: uuid_str_def Let_def f [OF set_take_subset] f [OF set_drop_subset]
        f [OF subset_trans [OF set_take_subset set_drop_subset]])
  also have "\<dots> = ?h"
  proof -
    have "drop 16 ?h = take 4 (drop 16 ?h) @ drop 20 ?h"
      using append_take_drop_id [of 4 "drop 16 ?h"] by simp
    moreover have "drop 12 ?h = take 4 (drop 12 ?h) @ drop 16 ?h"
      using append_take_drop_id [of 4 "drop 12 ?h"] by simp
    moreover have "drop 8 ?h = take 4 (drop 8 ?h) @ drop 12 ?h"
      using append_take_drop_id [of 4 "drop 8 ?h"] by simp
    ultimately show ?thesis using append_take_drop_id [of 8 ?h] by argo
  qed
  finally show ?thesis .
qed

lemma uuid_str_plain:
  "char_code c \<notin> {45} \<union> {48..57} \<union> {97..102} \<Longrightarrow> c \<notin> set (uuid_str u)"
  using uuid_str_chars by blast

text \<open>Thirty-two digits are neither padded, signed, prefixed nor grouped: \<open>int(s, 16)\<close> reads them.\<close>

lemma digits_not_space: "c \<in> set (hex_digits k n) \<Longrightarrow> \<not> is_space c"
  by (drule hex_digits_code) (auto simp: is_space_def Let_def)

lemma py_int16_digits:
  assumes "k > 0" shows "py_int16 (hex_digits k n) = Some (n mod 16 ^ k)"
proof -
  let ?h = "hex_digits k n"
  obtain c r where h: "?h = c # r"
    using assms hex_digits_length by (metis length_0_conv neq_Nil_conv nat_less_le)
  have code: "char_code d \<in> {48..57} \<union> {97..102}" if "d \<in> set ?h" for d
    using hex_digits_code that .
  have strip: "strip ?h = ?h"
    unfolding strip_def using digits_not_space h
    by (metis strip_by_id last_in_set list.set_sel(1) list.distinct(1))
  have c: "c \<noteq> CHR ''+''" "c \<noteq> CHR ''_''"
    using code [of c] h by (auto simp: char_code_def)
  have x: "\<not> starts_with (lower ?h) ''0x''"
  proof
    assume "starts_with (lower ?h) ''0x''"
    then obtain d r' where r: "r = d # r'" and d: "lower_char d = CHR ''x''"
      by (auto simp: h starts_with_iff lower_def Cons_eq_append_conv map_eq_Cons_conv)
    then have "char_code d \<in> {48..57} \<union> {97..102}" using code h by simp
    then have "lower_char d = d" by (auto simp: lower_char_def Let_def)
    with d \<open>char_code d \<in> _\<close> show False by (auto simp: char_code_def)
  qed
  have "hex_number 0 ?h = Some (n mod 16 ^ k)"
    using hex_number_digits [of 0 k n "[]"] by simp
  with strip c x show ?thesis by (simp add: py_int16_def h)
qed

lemma parse_uuid_str: "parse_uuid (uuid_str u) = Some u"
proof -
  have a: "replace_empty ''uuid:'' (replace_empty ''urn:'' (uuid_str u)) = uuid_str u"
    by (simp add: replace_empty_absent uuid_str_plain char_code_def)
  have b: "strip_by (\<lambda>c. c = CHR ''{'' \<or> c = CHR ''}'') (uuid_str u) = uuid_str u"
  proof (rule strip_by_id)
    have "uuid_str u \<noteq> []" by (simp add: uuid_str_def Let_def)
    then have "hd (uuid_str u) \<in> set (uuid_str u)" "last (uuid_str u) \<in> set (uuid_str u)"
      by simp_all
    moreover have "CHR ''{'' \<notin> set (uuid_str u)" "CHR ''}'' \<notin> set (uuid_str u)"
      by (simp_all add: uuid_str_plain char_code_def)
    ultimately show "uuid_str u = [] \<or>
        \<not> (hd (uuid_str u) = CHR ''{'' \<or> hd (uuid_str u) = CHR ''}'') \<and>
        \<not> (last (uuid_str u) = CHR ''{'' \<or> last (uuid_str u) = CHR ''}'')"
      by metis
  qed
  have "unat u mod 16 ^ 32 = unat u"
    using unsigned_less [of u, where ?'a = nat] by simp
  then show ?thesis
    unfolding parse_uuid_def
    by (simp add: a b uuid_str_hex py_int16_digits Let_def)
qed

lemma uuid_str_inject [simp]: "uuid_str u = uuid_str v \<longleftrightarrow> u = v"
  by (metis parse_uuid_str option.inject)

end
