(* ===== verification/Domain.thy ===== *)
theory Domain
  imports PyText
begin

text \<open>
  The domain layer (\<open>app/domain\<close>): roles, file sections and statuses, the file record, the
  storage quota value object, and the exceptions that the services raise. A timestamp is an
  instant, a number of microseconds since the epoch in UTC; \<open>None\<close> is the \<open>None\<close> option.
\<close>

type_synonym instant = int
type_synonym bytes = "8 word list"

section \<open>Roles, sections, statuses\<close>

datatype role = STRANGER | FAMILY | ADMIN | BLOCKED

definition can_access_shared :: "role \<Rightarrow> bool" where
  "can_access_shared r = (r \<in> {FAMILY, ADMIN})"

definition can_access_admin :: "role \<Rightarrow> bool" where
  "can_access_admin r = (r = ADMIN)"

datatype file_section = PHOTOS | FILES | PRIVATE | SHARED | RESUMES | GENERATED

datatype file_status = S_PENDING | S_COMMITTED | S_ARCHIVED | S_DELETED

record file_record =
  fr_id :: uuid
  fr_user_id :: uuid
  fr_disk_id :: string
  fr_relative_path :: string
  fr_original_name :: string
  fr_size_bytes :: int
  fr_mime_type :: string
  fr_is_encrypted :: bool
  fr_section :: file_section
  fr_status :: file_status
  fr_checksum_sha256 :: "string option"
  fr_created_at :: instant
  fr_last_accessed_at :: instant
  fr_is_archived :: bool
  fr_archive_path :: "string option"

section \<open>Storage quota\<close>

record storage_quota =
  used_bytes :: int
  limit_bytes :: int

definition is_unlimited :: "storage_quota \<Rightarrow> bool" where
  "is_unlimited q = (limit_bytes q \<le> 0)"

definition available_bytes :: "storage_quota \<Rightarrow> int" where
  "available_bytes q =
     (if is_unlimited q then 0 else max 0 (limit_bytes q - used_bytes q))"

definition is_exceeded :: "storage_quota \<Rightarrow> bool" where
  "is_exceeded q = (if is_unlimited q then False else used_bytes q \<ge> limit_bytes q)"

definition would_exceed :: "storage_quota \<Rightarrow> int \<Rightarrow> bool" where
  "would_exceed q additional =
     (if is_unlimited q then False else used_bytes q + additional > limit_bytes q)"

lemma would_exceed_available:
  "\<not> is_unlimited q \<Longrightarrow> 0 < n \<Longrightarrow> would_exceed q n \<longleftrightarrow> available_bytes q < n"
  by (auto simp: would_exceed_def available_bytes_def)

lemma is_exceeded_available: "\<not> is_unlimited q \<Longrightarrow> is_exceeded q \<longleftrightarrow> available_bytes q = 0"
  by (auto simp: is_exceeded_def available_bytes_def)

section \<open>Exceptions\<close>

text \<open>
  What a call can raise: the exceptions of \<open>app/domain/exceptions.py\<close>, of \<open>app/domain/indexing.py\<close>
  and of \<open>app/application/ports/rag_index.py\<close>, the built-in ones the code raises or catches
  by name, those of SQLAlchemy and of the S3 client that reach the services, and FastAPI's
  \<open>HTTPException\<close> with its status, error code and free bytes. The texts of the messages are left
  out. The details of a RAG error are a JSON object; the code reads the member \<open>file_id\<close> of it.
\<close>

datatype detail_value = Detail_Uuid uuid | Detail_Str string | Detail_Other

datatype exn =
    Storage_File_Not_Found
  | Builtin_File_Not_Found
  | Path_Traversal
  | Quota_Exceeded "int option"
  | Access_Denied
  | Private_Index_Refused
  | Search_Query_Invalid
  | Indexing_Unavailable
  | Value_Error
  | File_Exists
  | Rag_Unavailable "int option" "string option"
  | Rag_Http int "string option" "(string \<times> detail_value) list"
  | Integrity_Error bool \<comment> \<open>whether it is a unique violation\<close>
  | Pending_Rollback
  | Multiple_Results
  | S3_Error string \<comment> \<open>the error code of a \<open>ClientError\<close>\<close>
  | Storage_Unavailable
  | Unsupported_Format
  | Private_Session_Expired
  | User_Not_Found
  | Self_User_Deletion
  | Permission_Error
  | Auth_Unauthenticated
  | Auth_Blocked
  | Auth_Access_Denied
  | Auth_Misconfigured
  | User_Service_Unavailable
  | Keys_Validation string
  | Keys_Yaml_Invalid
  | Resume_Validation string
  | Resume_Node_Exists
  | Resume_Meta_Invalid
  | Generated_Validation string
  | Generated_Meta_Invalid
  | Http_Exception int string "int option"
  | Other_Error

end
