(* ===== verification/IndexDecision.thy ===== *)
theory IndexDecision
  imports Domain
begin

text \<open>
  \<open>app/domain/indexing.py\<close>: which object, if any, is offered to the RAG index for one file
  record. Pure code; \<open>Inl\<close> is a raised exception.
\<close>

section \<open>Vocabulary\<close>

datatype index_state =
  PENDING | SUBMITTED | INDEXED | FAILED | SKIPPED | REMOVED | ARCHIVED | REINDEX_PENDING

definition all_index_states :: "index_state list" where
  "all_index_states =
     [PENDING, SUBMITTED, INDEXED, FAILED, SKIPPED, REMOVED, ARCHIVED, REINDEX_PENDING]"

definition DUE_INDEX_STATES :: "index_state list" where
  "DUE_INDEX_STATES = [PENDING, SUBMITTED, REMOVED, ARCHIVED, REINDEX_PENDING]"

datatype registration_kind = DOCUMENT | IMAGE | PREVIEW | SKIP

datatype skip_code = UNSUPPORTED_TYPE | PREVIEW_MISSING | SKIP_ARCHIVED | EXCLUDED_SECTION

fun skip_code_value :: "skip_code \<Rightarrow> string" where
  "skip_code_value UNSUPPORTED_TYPE = ''unsupported_type''"
| "skip_code_value PREVIEW_MISSING = ''preview_missing''"
| "skip_code_value SKIP_ARCHIVED = ''archived''"
| "skip_code_value EXCLUDED_SECTION = ''excluded_section''"

definition DOCUMENTS_COLLECTION :: string where "DOCUMENTS_COLLECTION = ''documents''"
definition IMAGES_COLLECTION :: string where "IMAGES_COLLECTION = ''images''"
definition PDF_CONTENT_TYPE :: string where "PDF_CONTENT_TYPE = ''application/pdf''"
definition DOCX_CONTENT_TYPE :: string where
  "DOCX_CONTENT_TYPE =
     ''application/vnd.openxmlformats-officedocument.wordprocessingml.document''"
definition XLSX_CONTENT_TYPE :: string where
  "XLSX_CONTENT_TYPE = ''application/vnd.openxmlformats-officedocument.spreadsheetml.sheet''"
definition JPEG_CONTENT_TYPE :: string where "JPEG_CONTENT_TYPE = ''image/jpeg''"
definition PNG_CONTENT_TYPE :: string where "PNG_CONTENT_TYPE = ''image/png''"
definition WEBP_CONTENT_TYPE :: string where "WEBP_CONTENT_TYPE = ''image/webp''"
definition GIF_CONTENT_TYPE :: string where "GIF_CONTENT_TYPE = ''image/gif''"
definition OCTET_STREAM_CONTENT_TYPE :: string where
  "OCTET_STREAM_CONTENT_TYPE = ''application/octet-stream''"

lemmas content_type_defs =
  PDF_CONTENT_TYPE_def DOCX_CONTENT_TYPE_def XLSX_CONTENT_TYPE_def JPEG_CONTENT_TYPE_def
  PNG_CONTENT_TYPE_def WEBP_CONTENT_TYPE_def GIF_CONTENT_TYPE_def OCTET_STREAM_CONTENT_TYPE_def

definition SEARCH_QUERY_MAX_LENGTH :: nat where "SEARCH_QUERY_MAX_LENGTH = 4000"

definition document_content_types :: "(string \<times> string) list" where
  "document_content_types =
     [(''.pdf'', PDF_CONTENT_TYPE), (''.docx'', DOCX_CONTENT_TYPE), (''.xlsx'', XLSX_CONTENT_TYPE)]"

definition image_content_types :: "(string \<times> string) list" where
  "image_content_types =
     [(''.jpg'', JPEG_CONTENT_TYPE), (''.jpeg'', JPEG_CONTENT_TYPE), (''.png'', PNG_CONTENT_TYPE),
      (''.webp'', WEBP_CONTENT_TYPE), (''.gif'', GIF_CONTENT_TYPE)]"

definition preview_source_extensions :: "string list" where
  "preview_source_extensions = [''.heic'', ''.heif'']"

definition ARCHIVE_OBJECT_SUFFIX :: string where "ARCHIVE_OBJECT_SUFFIX = ''.zst''"

definition indexed_sections :: "file_section list" where
  "indexed_sections = [FILES, PHOTOS]"

section \<open>Registration decision\<close>

record registration_decision =
  rd_kind :: registration_kind
  rd_s3_key :: string
  rd_content_type :: string
  rd_content_sha256 :: "string option"
  rd_skip_code :: "skip_code option"

text \<open>The constructor with the checks of \<open>__post_init__\<close>, each of which raises \<open>ValueError\<close>.\<close>

definition make_decision ::
  "registration_kind \<Rightarrow> string \<Rightarrow> string \<Rightarrow> string option \<Rightarrow> skip_code option \<Rightarrow>
    exn + registration_decision" where
  "make_decision kind key ctype hash code =
     (if kind = SKIP \<and> code = None then Inl Value_Error
      else if kind \<noteq> SKIP \<and> code \<noteq> None then Inl Value_Error
      else if kind = PREVIEW \<and> hash \<noteq> None then Inl Value_Error
      else if key = [] then Inl Value_Error
      else if ctype = [] then Inl Value_Error
      else Inr \<lparr>rd_kind = kind, rd_s3_key = key, rd_content_type = ctype,
                rd_content_sha256 = hash, rd_skip_code = code\<rparr>)"

definition collection :: "registration_decision \<Rightarrow> string option" where
  "collection d =
     (if rd_kind d = DOCUMENT then Some DOCUMENTS_COLLECTION
      else if rd_kind d = IMAGE \<or> rd_kind d = PREVIEW then Some IMAGES_COLLECTION
      else None)"

definition preview_object_key :: "uuid \<Rightarrow> uuid \<Rightarrow> string" where
  "preview_object_key user_id file_id =
     ''users/'' @ uuid_str user_id @ ''/photos/previews/'' @ uuid_str file_id @ ''_thumb.jpg''"

definition validate_search_query :: "string \<Rightarrow> exn + string" where
  "validate_search_query q =
     (let normalized = strip q
      in if normalized = [] \<or> length normalized > SEARCH_QUERY_MAX_LENGTH
         then Inl Search_Query_Invalid else Inr normalized)"

definition extension :: "file_record \<Rightarrow> string" where
  "extension r =
     (let suffix = lower (path_suffix (fr_original_name r))
      in if suffix \<noteq> [] then suffix else lower (path_suffix (fr_relative_path r)))"

definition content_type_for_extension :: "string \<Rightarrow> string" where
  "content_type_for_extension ext =
     (case map_of document_content_types ext of
        Some t \<Rightarrow> t
      | None \<Rightarrow> (case map_of image_content_types ext of
                   Some t \<Rightarrow> t
                 | None \<Rightarrow> OCTET_STREAM_CONTENT_TYPE))"

definition is_document_extension :: "string \<Rightarrow> bool" where
  "is_document_extension ext = (map_of document_content_types ext \<noteq> None)"

definition is_image_extension :: "string \<Rightarrow> bool" where
  "is_image_extension ext = (map_of image_content_types ext \<noteq> None)"

definition uses_photo_preview :: "string \<Rightarrow> file_record \<Rightarrow> int \<Rightarrow> bool" where
  "uses_photo_preview ext r max_image_bytes =
     (if ext \<in> set preview_source_extensions then True
      else is_image_extension ext \<and> fr_size_bytes r > max_image_bytes)"

definition is_archived_record :: "file_record \<Rightarrow> bool" where
  "is_archived_record r =
     (if fr_is_archived r \<or> fr_status r = S_ARCHIVED then True
      else ends_with (lower (fr_relative_path r)) ARCHIVE_OBJECT_SUFFIX)"

definition send_decision ::
  "file_record \<Rightarrow> registration_kind \<Rightarrow> string \<Rightarrow> exn + registration_decision" where
  "send_decision r kind ctype =
     make_decision kind (fr_relative_path r) ctype (fr_checksum_sha256 r) None"

definition preview_decision :: "file_record \<Rightarrow> exn + registration_decision" where
  "preview_decision r =
     make_decision PREVIEW (preview_object_key (fr_user_id r) (fr_id r)) JPEG_CONTENT_TYPE None None"

definition skip_decision ::
  "file_record \<Rightarrow> skip_code \<Rightarrow> string \<Rightarrow> exn + registration_decision" where
  "skip_decision r code ctype =
     make_decision SKIP (fr_relative_path r) ctype (fr_checksum_sha256 r) (Some code)"

definition decide_registration_target ::
  "file_record \<Rightarrow> int \<Rightarrow> exn + registration_decision" where
  "decide_registration_target r max_image_bytes =
     (if fr_section r = PRIVATE \<or> fr_is_encrypted r then Inl Private_Index_Refused
      else
        let ext = extension r;
            ctype = content_type_for_extension ext
        in if fr_section r \<notin> set indexed_sections then skip_decision r EXCLUDED_SECTION ctype
           else if is_archived_record r then skip_decision r SKIP_ARCHIVED ctype
           else if is_document_extension ext \<and> fr_section r = FILES
             then send_decision r DOCUMENT ctype
           else if is_image_extension ext \<and> fr_size_bytes r \<le> max_image_bytes
             then send_decision r IMAGE ctype
           else if fr_section r = PHOTOS \<and> uses_photo_preview ext r max_image_bytes
             then preview_decision r
           else skip_decision r UNSUPPORTED_TYPE ctype)"

section \<open>Facts about decisions\<close>

definition decision_ok :: "registration_decision \<Rightarrow> bool" where
  "decision_ok d \<longleftrightarrow>
     (rd_kind d = SKIP \<longleftrightarrow> rd_skip_code d \<noteq> None) \<and>
     (rd_kind d = PREVIEW \<longrightarrow> rd_content_sha256 d = None) \<and>
     rd_s3_key d \<noteq> [] \<and> rd_content_type d \<noteq> []"

lemma make_decision_ok: "make_decision k s c h e = Inr d \<Longrightarrow> decision_ok d"
  by (auto simp: make_decision_def decision_ok_def split: if_splits)

lemma content_type_nonempty: "content_type_for_extension ext \<noteq> []"
  by (auto simp: content_type_for_extension_def document_content_types_def
      image_content_types_def content_type_defs)

lemma image_not_document: "is_image_extension ext \<Longrightarrow> \<not> is_document_extension ext"
  by (auto simp: is_image_extension_def is_document_extension_def image_content_types_def
      document_content_types_def split: if_splits)

lemmas decide_defs = decide_registration_target_def send_decision_def preview_decision_def
  skip_decision_def make_decision_def Let_def

lemma preview_key_nonempty [simp]: "preview_object_key u f \<noteq> []"
  by (simp add: preview_object_key_def)

lemma decide_is_ok: "decide_registration_target r m = Inr d \<Longrightarrow> decision_ok d"
  by (auto simp: decide_registration_target_def send_decision_def preview_decision_def
      skip_decision_def Let_def split: if_splits dest: make_decision_ok)

lemma decide_private_iff:
  "decide_registration_target r m = Inl Private_Index_Refused \<longleftrightarrow>
    fr_section r = PRIVATE \<or> fr_is_encrypted r"
  by (auto simp: decide_defs)

lemma decide_total:
  "fr_relative_path r \<noteq> [] \<Longrightarrow> \<not> (fr_section r = PRIVATE \<or> fr_is_encrypted r) \<Longrightarrow>
    \<exists>d. decide_registration_target r m = Inr d"
  by (auto simp: decide_defs content_type_nonempty JPEG_CONTENT_TYPE_def)

lemma decide_excluded_iff:
  "decide_registration_target r m = Inr d \<Longrightarrow>
    rd_skip_code d = Some EXCLUDED_SECTION \<longleftrightarrow> fr_section r \<notin> {FILES, PHOTOS}"
  by (auto simp: decide_defs indexed_sections_def split: if_splits)

end
