(* ===== verification/Json.thy ===== *)
theory Json
  imports Domain Complex_Main
begin

text \<open>
  JSON values as the code sees them after \<open>response.json()\<close>, and the outcome of an HTTP request made
  with \<open>httpx\<close>: a response whose body is JSON or not, a timeout, another transport error, or an
  exception the client does not know. An object is its list of members; numbers with a fraction
  are rationals.
\<close>

datatype json =
    J_Null
  | J_Bool bool
  | J_Int int
  | J_Float rat
  | J_Str string
  | J_List "json list"
  | J_Object "(string \<times> json) list"

datatype http_outcome =
    Http_Response int "json option"
  | Http_Timeout
  | Http_Transport_Error
  | Http_Crash

text \<open>\<open>payload.get(key)\<close>, with Python's \<open>None\<close> for an absent member and for \<open>null\<close>.\<close>

definition member :: "(string \<times> json) list \<Rightarrow> string \<Rightarrow> json" where
  "member ms k = (case map_of ms k of None \<Rightarrow> J_Null | Some v \<Rightarrow> v)"

definition as_object :: "json option \<Rightarrow> (string \<times> json) list option" where
  "as_object body = (case body of Some (J_Object ms) \<Rightarrow> Some ms | _ \<Rightarrow> None)"

definition as_string :: "json \<Rightarrow> string option" where
  "as_string v = (case v of J_Str s \<Rightarrow> Some s | _ \<Rightarrow> None)"

lemma member_simps [simp]:
  "member [] k = J_Null" "member ((k', v) # ms) k = (if k = k' then v else member ms k)"
  by (simp_all add: member_def)

lemma as_object_simps [simp]:
  "as_object (Some (J_Object ms)) = Some ms" "as_object None = None"
  by (simp_all add: as_object_def)

lemma as_string_Str [simp]: "as_string (J_Str s) = Some s"
  by (simp add: as_string_def)

end
