(* ===== verification/World.thy ===== *)
theory World
  imports IndexDecision Json Complex_Main "HOL-Library.Product_Lexorder" "HOL-Library.List_Lexorder" "HOL-Library.Char_ord"
begin

text \<open>
  The state the services share and the world they talk to. A \<open>world\<close> is the content of the
  database as the open session sees it, whether a failed flush has left that session unusable,
  and the traffic with the two remote services. An \<open>env\<close> holds everything that is not code of
  the repository: the clock, the UUID generator, the settings, and the remote services, each
  an arbitrary function from the exchanges so far and the next request to a reply.
\<close>

section \<open>Rows\<close>

record index_link =
  il_id :: uuid
  il_file_record_id :: "uuid option"
  il_user_id :: uuid
  il_section :: file_section
  il_s3_key :: string
  il_content_sha256 :: "string option"
  il_content_type :: string
  il_rag_file_id :: "uuid option"
  il_state :: index_state
  il_attempts :: int
  il_next_attempt_at :: "instant option"
  il_last_error_code :: "string option"
  il_created_at :: instant
  il_updated_at :: instant

record quota_usage =
  qu_user_id :: uuid
  qu_total_bytes :: int
  qu_limit_bytes :: int
  qu_private_bytes :: int
  qu_private_limit_bytes :: int
  qu_photos_bytes :: int

record user_row =
  ur_id :: uuid
  ur_email :: string
  ur_is_active :: bool
  ur_created_at :: instant

section \<open>Remote services\<close>

text \<open>The RAG index API, \<open>app/application/ports/rag_index.py\<close>.\<close>

record rag_manifest =
  rm_s3_key :: string
  rm_file_name :: string
  rm_content_sha256 :: string
  rm_file_size :: int
  rm_content_type :: string

record rag_object_key =
  ro_s3_key :: string
  ro_file_size :: int
  ro_content_sha256 :: string

record rag_file_card =
  rc_file_id :: uuid
  rc_status :: string
  rc_error :: "string option"
  rc_content_type :: "string option"
  rc_file_name :: "string option"
  rc_file_size :: "int option"
  rc_page_count :: "int option"

record rag_image_hit =
  rh_file_id :: uuid
  rh_file_name :: string
  rh_score :: rat

datatype rag_call =
    Register_Document rag_manifest uuid
  | Register_Image rag_manifest uuid
  | Rekey uuid rag_object_key uuid
  | Get_File uuid uuid
  | Delete_Vectors uuid uuid
  | Search_Images string uuid int int
  | Rag_Health

datatype rag_reply =
    Reply_Card rag_file_card
  | Reply_Deleted
  | Reply_Hits "rag_image_hit list"
  | Reply_Health bool
  | Reply_Unavailable "int option" "string option"
  | Reply_Http_Error int "string option" "(string \<times> detail_value) list"
  | Reply_Crash

text \<open>The S3 API of the object store, as \<open>aioboto3\<close> offers it for one bucket.\<close>

datatype s3_call =
    Head_Object string
  | Get_Object string
  | Put_Object string bytes
  | Copy_Object string string
  | Delete_Object string
  | Delete_Objects "string list"
  | List_Objects string bool \<comment> \<open>prefix; whether \<open>Delimiter='/'\<close>\<close>
  | List_One string \<comment> \<open>prefix, with \<open>MaxKeys=1\<close>\<close>
  | Create_Multipart string
  | Upload_Part string string nat bytes
  | Upload_Part_Copy string string nat string int int
  | Complete_Multipart string string "(nat \<times> string) list"
  | Abort_Multipart string string

datatype s3_reply =
    S3_Done
  | S3_Length int
  | S3_Body bytes
  | S3_Listing "(string \<times> int \<times> instant) list" "string list" \<comment> \<open>contents, common prefixes\<close>
  | S3_Upload_Id string
  | S3_Etag string
  | S3_Client_Error string
  | S3_Crash

text \<open>The directory of users, \<open>app/application/ports/user_directory.py\<close>, and what its client caches.\<close>

record directory_user =
  du_id :: uuid
  du_email :: string
  du_username :: string
  du_storage_role :: role

datatype directory_value = Cached_Role role | Cached_User directory_user

section \<open>State and environment\<close>

text \<open>The last run statistics that the archive and maintenance services keep on their classes.\<close>

record archive_stats =
  xs_last_run :: "instant option"
  xs_processed :: int
  xs_skipped :: int
  xs_errors :: int
  xs_total_archived_bytes :: int

record maintenance_stats =
  ms_last_pending_cleanup :: "instant option"
  ms_pending_deleted :: int
  ms_last_tmp_cleanup :: "instant option"
  ms_tmp_deleted :: int
  ms_last_quota_reconcile :: "instant option"
  ms_quota_checked :: int
  ms_quota_fixed :: int

text \<open>
  \<open>cache\<close> is the content of Redis: a value and, where one was set, the moment it expires.
  \<open>background\<close> holds the previews that \<open>asyncio.create_task\<close> has scheduled: the root prefix of
  the adapter, the source and the target path. \<open>drawn\<close> counts the calls of \<open>os.urandom\<close>.
\<close>

record world =
  files :: "file_record list"
  links :: "index_link list"
  quotas :: "quota_usage list"
  users :: "user_row list"
  broken :: bool
  captured :: "uuid list option"
  archive_run :: "archive_stats option"
  maintenance_run :: "maintenance_stats option"
  tick :: nat
  minted :: nat
  drawn :: nat
  cache :: "(string \<times> string \<times> instant option) list"
  background :: "(string \<times> string \<times> string) list"
  directory_cache :: "(string \<times> instant \<times> directory_value) list"
  rag_log :: "(rag_call \<times> rag_reply) list"
  s3_log :: "(s3_call \<times> s3_reply) list"

record env =
  clock :: "nat \<Rightarrow> instant"
  uuid4 :: "nat \<Rightarrow> uuid"
  sha256_hex :: "bytes \<Rightarrow> string"
  guess_mime_type :: "string \<Rightarrow> string option"
  zstd_compress :: "bytes \<Rightarrow> bytes"
  zstd_decompress :: "bytes \<Rightarrow> bytes option"
  zip_file :: "(string \<times> bytes) list \<Rightarrow> bytes"
  urandom :: "nat \<Rightarrow> bytes" \<comment> \<open>the twelve bytes of the nth draw\<close>
  aes_gcm_encrypt :: "bytes \<Rightarrow> bytes \<Rightarrow> bytes \<Rightarrow> bytes" \<comment> \<open>key, nonce, text\<close>
  aes_gcm_decrypt :: "bytes \<Rightarrow> bytes \<Rightarrow> bytes \<Rightarrow> bytes option"
  pbkdf2 :: "string \<Rightarrow> uuid \<Rightarrow> bytes" \<comment> \<open>passphrase and salt\<close>
  thumbnail :: "bytes \<Rightarrow> bytes option"
  bucket_pages :: "nat \<Rightarrow> int list list option" \<comment> \<open>object sizes on the pages of a listing at the nth moment\<close>
  admin_info :: "nat \<Rightarrow> int option list list option" \<comment> \<open>\<open>totalSpace\<close> of the drives of each server\<close>
  rag_service :: "(rag_call \<times> rag_reply) list \<Rightarrow> rag_call \<Rightarrow> rag_reply"
  s3_service :: "(s3_call \<times> s3_reply) list \<Rightarrow> s3_call \<Rightarrow> s3_reply"
  user_service :: "nat \<Rightarrow> string \<Rightarrow> http_outcome" \<comment> \<open>the answer to \<open>GET\<close> of a path at the nth moment\<close>
  user_service_cache_ttl_seconds :: int
  user_race :: "uuid \<Rightarrow> bool" \<comment> \<open>another transaction inserts the user first\<close>
  race :: "uuid \<Rightarrow> index_link option option"
  row_locked :: "uuid \<Rightarrow> bool"
  rag_enabled :: bool
  rag_backfill_enabled :: bool
  rag_index_batch_size :: int
  rag_max_attempts :: int
  rag_index_max_wait_seconds :: int
  rag_max_image_bytes :: int
  default_user_quota_bytes :: int
  archive_days_threshold :: int
  min_free_space_mb :: int
  disk_space_cache_ttl :: int
  private_session_ttl_hours :: int
  photo_batch_size :: int

type_synonym 'a action = "(world, exn, 'a) act"

definition lift :: "exn + 'a \<Rightarrow> 'a action" where
  "lift r = (case r of Inl e \<Rightarrow> raise e | Inr x \<Rightarrow> ret x)"

definition utc_now :: "env \<Rightarrow> instant action" where
  "utc_now E = (\<lambda>w. (Inr (clock E (tick w)), w\<lparr>tick := Suc (tick w)\<rparr>))"

definition new_uuid :: "env \<Rightarrow> uuid action" where
  "new_uuid E = (\<lambda>w. (Inr (uuid4 E (minted w)), w\<lparr>minted := Suc (minted w)\<rparr>))"

text \<open>
  A statement executed on the session. After a failed flush SQLAlchemy refuses every further
  statement with \<open>PendingRollbackError\<close> until the caller rolls the session back.
\<close>

definition query :: "(world \<Rightarrow> 'a) \<Rightarrow> 'a action" where
  "query f = (\<lambda>w. if broken w then (Inl Pending_Rollback, w) else (Inr (f w), w))"

definition execute :: "(world \<Rightarrow> world) \<Rightarrow> unit action" where
  "execute f = (\<lambda>w. if broken w then (Inl Pending_Rollback, w) else (Inr (), f w))"

definition one_or_none :: "'a list \<Rightarrow> 'a option action" where
  "one_or_none xs = (case xs of [] \<Rightarrow> ret None | [x] \<Rightarrow> ret (Some x) | _ \<Rightarrow> raise Multiple_Results)"

text \<open>
  The outcome of the session block around a request or a job: \<open>commit\<close> keeps the database
  changes and fails on a broken session; \<open>rollback\<close> restores the rows the session began with.
  What the remote services were told is not undone.
\<close>

definition rollback :: "world \<Rightarrow> world \<Rightarrow> world" where
  "rollback before w = w\<lparr>files := files before, links := links before,
     quotas := quotas before, users := users before, broken := False\<rparr>"

definition in_session :: "'a action \<Rightarrow> 'a action" where
  "in_session m = (\<lambda>w. case m w of
       (Inl e, w') \<Rightarrow> (Inl e, rollback w w')
     | (Inr x, w') \<Rightarrow>
         if broken w' then (Inl Pending_Rollback, rollback w w') else (Inr x, w'))"

section \<open>Remote calls\<close>

definition rag_send :: "env \<Rightarrow> rag_call \<Rightarrow> rag_reply action" where
  "rag_send E c = (\<lambda>w. let r = rag_service E (rag_log w) c
                        in (Inr r, w\<lparr>rag_log := rag_log w @ [(c, r)]\<rparr>))"

definition rag_failure :: "rag_reply \<Rightarrow> exn" where
  "rag_failure r = (case r of
       Reply_Unavailable status code \<Rightarrow> Rag_Unavailable status code
     | Reply_Http_Error status code details \<Rightarrow> Rag_Http status code details
     | _ \<Rightarrow> Other_Error)"

definition rag_card :: "env \<Rightarrow> rag_call \<Rightarrow> rag_file_card action" where
  "rag_card E c = bind (rag_send E c) (\<lambda>r.
     case r of Reply_Card fc \<Rightarrow> ret fc | _ \<Rightarrow> raise (rag_failure r))"

definition rag_delete :: "env \<Rightarrow> rag_call \<Rightarrow> unit action" where
  "rag_delete E c = bind (rag_send E c) (\<lambda>r.
     case r of Reply_Deleted \<Rightarrow> ret () | _ \<Rightarrow> raise (rag_failure r))"

definition rag_hits :: "env \<Rightarrow> rag_call \<Rightarrow> rag_image_hit list action" where
  "rag_hits E c = bind (rag_send E c) (\<lambda>r.
     case r of Reply_Hits hs \<Rightarrow> ret hs | _ \<Rightarrow> raise (rag_failure r))"

definition rag_health :: "env \<Rightarrow> bool action" where
  "rag_health E = bind (rag_send E Rag_Health) (\<lambda>r.
     case r of Reply_Health b \<Rightarrow> ret b | _ \<Rightarrow> raise (rag_failure r))"

definition s3_send :: "env \<Rightarrow> s3_call \<Rightarrow> s3_reply action" where
  "s3_send E c = (\<lambda>w. let r = s3_service E (s3_log w) c in
     (case r of S3_Client_Error e \<Rightarrow> Inl (S3_Error e) | S3_Crash \<Rightarrow> Inl Other_Error | _ \<Rightarrow> Inr r,
      w\<lparr>s3_log := s3_log w @ [(c, r)]\<rparr>))"

section \<open>Frames\<close>

text \<open>
  Invariants that speak only of the database rows are kept by every action that leaves the
  rows alone: reading the clock, minting identifiers and calling a remote service.
\<close>

definition on_rows :: "(file_record list \<Rightarrow> index_link list \<Rightarrow> quota_usage list \<Rightarrow> bool) \<Rightarrow> world \<Rightarrow> bool" where
  "on_rows P w = P (files w) (links w) (quotas w)"

definition same_rows :: "world \<Rightarrow> world \<Rightarrow> bool" where
  "same_rows w w' \<longleftrightarrow> files w' = files w \<and> links w' = links w \<and> quotas w' = quotas w \<and>
     users w' = users w \<and> broken w' = broken w"

lemma same_rows_refl [simp]: "same_rows w w"
  by (simp add: same_rows_def)

lemma same_rows_trans: "same_rows a b \<Longrightarrow> same_rows b c \<Longrightarrow> same_rows a c"
  by (simp add: same_rows_def)

text \<open>\<open>rowless m\<close>: the action never touches the database rows.\<close>

definition rowless :: "'a action \<Rightarrow> bool" where
  "rowless m \<longleftrightarrow> relates same_rows m"

named_theorems rowless_rules

lemma rowless_keeps: "rowless m \<Longrightarrow> keeps (on_rows P) m"
  by (auto simp: rowless_def relates_def keeps_def on_rows_def same_rows_def)

lemma rowlessD: "rowless m \<Longrightarrow> m w = (r, w') \<Longrightarrow> same_rows w w'"
  by (metis rowless_def relatesD_run)

lemma rowless_ret [rowless_rules, simp]: "rowless (ret x)"
  and rowless_raise [rowless_rules, simp]: "rowless (raise e)"
  and rowless_gets [rowless_rules, simp]: "rowless (gets f)"
  and rowless_query [rowless_rules, simp]: "rowless (query q)"
  and rowless_utc_now [rowless_rules, simp]: "rowless (utc_now E)"
  and rowless_new_uuid [rowless_rules, simp]: "rowless (new_uuid E)"
  and rowless_rag_send [rowless_rules, simp]: "rowless (rag_send E c)"
  and rowless_s3_send [rowless_rules, simp]: "rowless (s3_send E d)"
  by (auto simp: rowless_def relates_def same_rows_def query_def utc_now_def new_uuid_def
      rag_send_def s3_send_def Let_def)

lemma rowless_bind [rowless_rules]:
  assumes "rowless m" and "\<And>x. rowless (f x)" shows "rowless (bind m f)"
  unfolding rowless_def relates_def
proof
  fix s
  obtain r s' where m: "m s = (r, s')" by fastforce
  with assms(1) have s: "same_rows s s'" by (rule rowlessD)
  show "same_rows s (snd (bind m f s))"
  proof (cases r)
    case (Inr x)
    obtain r' s'' where f: "f x s' = (r', s'')" by fastforce
    with assms(2) have "same_rows s' s''" by (rule rowlessD)
    with s m f Inr show ?thesis by (simp add: bind_def same_rows_trans [OF s])
  qed (use m s in \<open>simp add: bind_def\<close>)
qed

lemma rowless_try [rowless_rules]:
  assumes "rowless m" and "\<And>e. rowless (h e)" shows "rowless (try_except m h)"
  unfolding rowless_def relates_def
proof
  fix s
  obtain r s' where m: "m s = (r, s')" by fastforce
  with assms(1) have s: "same_rows s s'" by (rule rowlessD)
  show "same_rows s (snd (try_except m h s))"
  proof (cases r)
    case (Inl e)
    obtain r' s'' where f: "h e s' = (r', s'')" by fastforce
    with assms(2) have "same_rows s' s''" by (rule rowlessD)
    with s m f Inl show ?thesis by (simp add: try_except_def same_rows_trans [OF s])
  qed (use m s in \<open>simp add: try_except_def\<close>)
qed

lemma rowless_lift [rowless_rules, simp]: "rowless (lift r)"
  by (simp add: lift_def split: sum.split)

lemma rowless_one_or_none [rowless_rules, simp]: "rowless (one_or_none xs)"
  by (simp add: one_or_none_def split: list.split)

lemma rowless_case_sum [rowless_rules]:
  "(\<And>y. rowless (f y)) \<Longrightarrow> (\<And>y. rowless (g y)) \<Longrightarrow> rowless (case x of Inl y \<Rightarrow> f y | Inr y \<Rightarrow> g y)"
  by (simp split: sum.split)

lemma rowless_case_option [rowless_rules]:
  "rowless m \<Longrightarrow> (\<And>y. rowless (g y)) \<Longrightarrow> rowless (case x of None \<Rightarrow> m | Some y \<Rightarrow> g y)"
  by (simp split: option.split)

lemma rowless_case_prod [rowless_rules]:
  "(\<And>a b. rowless (f a b)) \<Longrightarrow> rowless (case x of (a, b) \<Rightarrow> f a b)"
  by (simp split: prod.split)

lemma rowless_if [rowless_rules]: "rowless m \<Longrightarrow> rowless n \<Longrightarrow> rowless (if b then m else n)"
  by simp

lemma rowless_let [rowless_rules]: "rowless (f x) \<Longrightarrow> rowless (let y = x in f y)"
  by simp

lemma rowless_rag [rowless_rules, simp]:
  "rowless (rag_card E c)" "rowless (rag_delete E c)" "rowless (rag_hits E c)" "rowless (rag_health E)"
  by (auto simp: rag_card_def rag_delete_def rag_hits_def rag_health_def
      intro!: rowless_bind split: rag_reply.split)

lemmas rowless_atoms_keep [keep_rules] =
  rowless_utc_now [THEN rowless_keeps] rowless_new_uuid [THEN rowless_keeps]
  rowless_rag_send [THEN rowless_keeps] rowless_s3_send [THEN rowless_keeps]
  rowless_rag [THEN rowless_keeps]

lemma keeps_lift [keep_rules]: "keeps I (lift r)"
  by (simp add: lift_def split: sum.split)

lemma keeps_query [keep_rules]: "keeps I (query f)"
  by (simp add: keeps_def query_def)

lemma keeps_one_or_none [keep_rules]: "keeps I (one_or_none xs)"
  by (simp add: one_or_none_def split: list.split)

lemma keeps_execute: "(\<And>w. I w \<Longrightarrow> I (f w)) \<Longrightarrow> keeps I (execute f)"
  by (simp add: keeps_def execute_def)

lemma query_run [run]:
  "query f w = (if broken w then (Inl Pending_Rollback, w) else (Inr (f w), w))"
  by (simp add: query_def)

lemma execute_run [run]:
  "execute f w = (if broken w then (Inl Pending_Rollback, w) else (Inr (), f w))"
  by (simp add: execute_def)

lemma lift_run [run]: "lift r w = (case r of Inl e \<Rightarrow> (Inl e, w) | Inr x \<Rightarrow> (Inr x, w))"
  by (simp add: lift_def split: sum.split)

lemma utc_now_run [run]: "utc_now E w = (Inr (clock E (tick w)), w\<lparr>tick := Suc (tick w)\<rparr>)"
  by (simp add: utc_now_def)

lemma new_uuid_run [run]: "new_uuid E w = (Inr (uuid4 E (minted w)), w\<lparr>minted := Suc (minted w)\<rparr>)"
  by (simp add: new_uuid_def)

lemma in_session_keeps_rows:
  "keeps (on_rows P) m \<Longrightarrow> keeps (on_rows P) (in_session m)"
  unfolding keeps_def in_session_def on_rows_def rollback_def
  by (auto split: prod.split sum.split)

section \<open>A sample environment\<close>

text \<open>An empty database and a quiet environment, for evaluating the model on inputs.\<close>

definition empty_world :: world where
  "empty_world = \<lparr>files = [], links = [], quotas = [], users = [], broken = False,
     captured = None, archive_run = None, maintenance_run = None, tick = 0, minted = 0, drawn = 0,
     cache = [], background = [], directory_cache = [], rag_log = [], s3_log = []\<rparr>"

definition sample_env ::
  "((rag_call \<times> rag_reply) list \<Rightarrow> rag_call \<Rightarrow> rag_reply) \<Rightarrow>
    ((s3_call \<times> s3_reply) list \<Rightarrow> s3_call \<Rightarrow> s3_reply) \<Rightarrow> env" where
  "sample_env rag s3 = \<lparr>clock = (\<lambda>n. 1700000000000000 + int n), uuid4 = (\<lambda>n. of_nat (n + 100)),
     sha256_hex = (\<lambda>b. map (\<lambda>x. char_of (unat x)) b), guess_mime_type = (\<lambda>_. None),
     zstd_compress = (\<lambda>b. b), zstd_decompress = Some, zip_file = (\<lambda>es. concat (map snd es)),
     urandom = (\<lambda>n. replicate 11 0 @ [of_nat n]), aes_gcm_encrypt = (\<lambda>k iv b. k @ b),
     aes_gcm_decrypt = (\<lambda>k iv c. if take (length k) c = k then Some (drop (length k) c) else None),
     pbkdf2 = (\<lambda>s u. map (\<lambda>c. of_nat (of_char c)) s), thumbnail = Some,
     bucket_pages = (\<lambda>_. Some []), admin_info = (\<lambda>_. None), rag_service = rag, s3_service = s3,
     user_service = (\<lambda>_ _. Http_Timeout), user_service_cache_ttl_seconds = 60,
     user_race = (\<lambda>_. False), race = (\<lambda>_. None), row_locked = (\<lambda>_. False), rag_enabled = True,
     rag_backfill_enabled = True, rag_index_batch_size = 10, rag_max_attempts = 5,
     rag_index_max_wait_seconds = 3600, rag_max_image_bytes = 10485760,
     default_user_quota_bytes = 1000, archive_days_threshold = 30,
     min_free_space_mb = 100, disk_space_cache_ttl = 60, private_session_ttl_hours = 1, photo_batch_size = 50\<rparr>"

definition sample_link :: "index_state \<Rightarrow> uuid option \<Rightarrow> index_link" where
  "sample_link st g = \<lparr>il_id = 1, il_file_record_id = Some 2, il_user_id = 3, il_section = FILES,
     il_s3_key = ''users/3/files/a.pdf'', il_content_sha256 = Some ''00'',
     il_content_type = ''application/pdf'', il_rag_file_id = g, il_state = st, il_attempts = 0,
     il_next_attempt_at = None, il_last_error_code = None, il_created_at = 1000, il_updated_at = 2000\<rparr>"

definition sample_record :: file_record where
  "sample_record = \<lparr>fr_id = 2, fr_user_id = 3, fr_disk_id = ''storage'',
     fr_relative_path = ''users/3/files/a.pdf'', fr_original_name = ''a.pdf'', fr_size_bytes = 10,
     fr_mime_type = ''application/pdf'', fr_is_encrypted = False, fr_section = FILES,
     fr_status = S_COMMITTED, fr_checksum_sha256 = Some ''00'', fr_created_at = 1000,
     fr_last_accessed_at = 1000, fr_is_archived = False, fr_archive_path = None\<rparr>"

definition sample_world :: "index_link list \<Rightarrow> world" where
  "sample_world ls = empty_world\<lparr>files := [sample_record], links := ls\<rparr>"

end
