(* ===== verification/IndexPorts.thy ===== *)
theory IndexPorts
  imports World
begin

text \<open>
  The interfaces of \<open>app/application/ports/index_links.py\<close> and of the object reader of
  \<open>sync_job.py\<close>: the value types, the operations as records of actions (the code's
  \<open>Protocol\<close> classes), and the laws that the clients rely on, as locales.
\<close>

section \<open>Column patches\<close>

text \<open>\<open>UNSET\<close> leaves a column of \<open>apply_transition\<close> unchanged.\<close>

datatype 'a column = UNSET | SET 'a

record transition =
  t_state :: "index_state column"
  t_attempts :: "int column"
  t_next_attempt_at :: "instant option column"
  t_rag_file_id :: "uuid option column"
  t_last_error_code :: "string option column"
  t_s3_key :: "string column"
  t_content_sha256 :: "string option column"
  t_content_type :: "string column"

definition no_change :: transition where
  "no_change = \<lparr>t_state = UNSET, t_attempts = UNSET, t_next_attempt_at = UNSET,
     t_rag_file_id = UNSET, t_last_error_code = UNSET, t_s3_key = UNSET,
     t_content_sha256 = UNSET, t_content_type = UNSET\<rparr>"

section \<open>Value types\<close>

record backfill_cursor =
  bc_created_at :: instant
  bc_record_id :: uuid

record user_index_counts =
  uc_indexed :: int
  uc_pending :: int
  uc_failed :: int
  uc_skipped :: int
  uc_total :: int

record admin_index_snapshot =
  as_by_state :: "(index_state \<times> int) list"
  as_oldest_pending_at :: "instant option"
  as_last_errors :: "(string \<times> int) list"

section \<open>What an update does to a row\<close>

definition clean_hash :: "string option \<Rightarrow> string option" where
  "clean_hash v = (case v of None \<Rightarrow> None
     | Some h \<Rightarrow> (let c = strip h in if c = [] then None else Some c))"

fun new_value :: "'a column \<Rightarrow> 'a \<Rightarrow> 'a" where
  "new_value UNSET old = old"
| "new_value (SET v) old = v"

definition changes :: "'a column \<Rightarrow> 'a \<Rightarrow> bool" where
  "changes c old \<longleftrightarrow> new_value c old \<noteq> old"

definition hash_changes :: "string option column \<Rightarrow> string option \<Rightarrow> bool" where
  "hash_changes c old \<longleftrightarrow> (case c of UNSET \<Rightarrow> False | SET h \<Rightarrow> clean_hash old \<noteq> clean_hash h)"

definition new_hash :: "string option column \<Rightarrow> string option \<Rightarrow> string option" where
  "new_hash c old = (case c of UNSET \<Rightarrow> old
     | SET h \<Rightarrow> if clean_hash old = clean_hash h then old else clean_hash h)"

lemma new_value_simps [simp]:
  "\<not> changes c old \<Longrightarrow> new_value c old = old"
  by (simp add: changes_def)

lemma changes_simps [simp]: "\<not> changes UNSET old" "changes (SET v) old \<longleftrightarrow> v \<noteq> old"
  by (simp_all add: changes_def)

lemma new_hash_same [simp]: "\<not> hash_changes c old \<Longrightarrow> new_hash c old = old"
  by (auto simp: hash_changes_def new_hash_def split: column.splits)

lemma clean_hash_idem [simp]: "clean_hash (clean_hash h) = clean_hash h"
  by (auto simp: clean_hash_def Let_def split: option.split)

definition patched :: "transition \<Rightarrow> index_link \<Rightarrow> index_link" where
  "patched t m =
     m\<lparr>il_state := new_value (t_state t) (il_state m),
       il_attempts := new_value (t_attempts t) (il_attempts m),
       il_next_attempt_at := new_value (t_next_attempt_at t) (il_next_attempt_at m),
       il_rag_file_id := new_value (t_rag_file_id t) (il_rag_file_id m),
       il_last_error_code := new_value (t_last_error_code t) (il_last_error_code m),
       il_s3_key := new_value (t_s3_key t) (il_s3_key m),
       il_content_sha256 := new_hash (t_content_sha256 t) (il_content_sha256 m),
       il_content_type := new_value (t_content_type t) (il_content_type m)\<rparr>"

definition payload_changes :: "transition \<Rightarrow> index_link \<Rightarrow> bool" where
  "payload_changes t m \<longleftrightarrow>
     changes (t_rag_file_id t) (il_rag_file_id m) \<or>
     changes (t_last_error_code t) (il_last_error_code m) \<or>
     changes (t_s3_key t) (il_s3_key m) \<or>
     hash_changes (t_content_sha256 t) (il_content_sha256 m) \<or>
     changes (t_content_type t) (il_content_type m)"

lemma patched_frame [simp]:
  "il_id (patched t m) = il_id m"
  "il_file_record_id (patched t m) = il_file_record_id m"
  "il_user_id (patched t m) = il_user_id m"
  "il_section (patched t m) = il_section m"
  "il_created_at (patched t m) = il_created_at m"
  "il_updated_at (patched t m) = il_updated_at m"
  by (simp_all add: patched_def)

lemma patched_fields [simp]:
  "il_state (patched t m) = new_value (t_state t) (il_state m)"
  "il_attempts (patched t m) = new_value (t_attempts t) (il_attempts m)"
  "il_next_attempt_at (patched t m) = new_value (t_next_attempt_at t) (il_next_attempt_at m)"
  "il_rag_file_id (patched t m) = new_value (t_rag_file_id t) (il_rag_file_id m)"
  "il_last_error_code (patched t m) = new_value (t_last_error_code t) (il_last_error_code m)"
  "il_s3_key (patched t m) = new_value (t_s3_key t) (il_s3_key m)"
  "il_content_sha256 (patched t m) = new_hash (t_content_sha256 t) (il_content_sha256 m)"
  "il_content_type (patched t m) = new_value (t_content_type t) (il_content_type m)"
  by (simp_all add: patched_def)


definition applied :: "transition \<Rightarrow> instant \<Rightarrow> index_link \<Rightarrow> index_link" where
  "applied t now l =
     (if changes (t_state t) (il_state l) \<or> payload_changes t l
      then (patched t l)\<lparr>il_updated_at := now\<rparr> else patched t l)"

lemma applied_frame [simp]:
  "il_id (applied t now m) = il_id m"
  "il_file_record_id (applied t now m) = il_file_record_id m"
  "il_user_id (applied t now m) = il_user_id m"
  "il_section (applied t now m) = il_section m"
  "il_created_at (applied t now m) = il_created_at m"
  "il_state (applied t now m) = new_value (t_state t) (il_state m)"
  "il_attempts (applied t now m) = new_value (t_attempts t) (il_attempts m)"
  "il_next_attempt_at (applied t now m) = new_value (t_next_attempt_at t) (il_next_attempt_at m)"
  "il_rag_file_id (applied t now m) = new_value (t_rag_file_id t) (il_rag_file_id m)"
  "il_last_error_code (applied t now m) = new_value (t_last_error_code t) (il_last_error_code m)"
  "il_s3_key (applied t now m) = new_value (t_s3_key t) (il_s3_key m)"
  "il_content_type (applied t now m) = new_value (t_content_type t) (il_content_type m)"
  by (simp_all add: applied_def)

section \<open>The repository port\<close>

record link_port =
  lp_upsert_pending ::
    "file_record \<Rightarrow> registration_decision \<Rightarrow> instant option \<Rightarrow> index_link option action"
  lp_get_by_file_record_id :: "uuid \<Rightarrow> index_link option action"
  lp_get_by_rag_file_id :: "uuid \<Rightarrow> index_link option action"
  lp_list_by_user_state :: "uuid \<Rightarrow> index_state \<Rightarrow> index_link list action"
  lp_mark_content_changed ::
    "uuid \<Rightarrow> registration_decision \<Rightarrow> instant option \<Rightarrow> index_link option action"
  lp_mark_rekey :: "uuid \<Rightarrow> string \<Rightarrow> instant option \<Rightarrow> index_link option action"
  lp_mark_removed :: "uuid list \<Rightarrow> instant option \<Rightarrow> index_link list action"
  lp_mark_archived :: "uuid \<Rightarrow> instant option \<Rightarrow> index_link option action"
  lp_claim_due :: "int \<Rightarrow> instant \<Rightarrow> index_link list action"
  lp_apply_transition :: "uuid \<Rightarrow> transition \<Rightarrow> instant option \<Rightarrow> index_link option action"
  lp_backfill_candidates :: "int \<Rightarrow> backfill_cursor option \<Rightarrow> file_record list action"
  lp_count_remaining :: "backfill_cursor option \<Rightarrow> int action"
  lp_counts_for_user :: "uuid \<Rightarrow> user_index_counts action"
  lp_admin_snapshot :: "admin_index_snapshot action"
  lp_retry_failed :: "int \<Rightarrow> instant option \<Rightarrow> int action"
  lp_indexed_photos_by_rag_file_id :: "uuid \<Rightarrow> uuid list \<Rightarrow> (uuid \<times> index_link) list action"
  lp_original_names :: "uuid list \<Rightarrow> (uuid \<times> string) list action"

text \<open>Which operations only read.\<close>

locale link_reads =
  fixes L :: link_port
  assumes reads:
    "rowless (lp_get_by_file_record_id L f)" "rowless (lp_get_by_rag_file_id L g)"
    "rowless (lp_list_by_user_state L u st)" "rowless (lp_claim_due L n now)"
    "rowless (lp_backfill_candidates L n after)" "rowless (lp_count_remaining L after)"
    "rowless (lp_counts_for_user L u)" "rowless (lp_admin_snapshot L)"
    "rowless (lp_indexed_photos_by_rag_file_id L u gs)" "rowless (lp_original_names L fs)"

text \<open>
  What \<open>apply_transition\<close> does to the links that \<open>lookup\<close> shows: a returned link is the old one
  patched and stamped, and no other link moves; without a returned link none moves.
\<close>

definition row_written ::
  "(uuid \<Rightarrow> world \<Rightarrow> index_link option) \<Rightarrow> uuid \<Rightarrow> transition \<Rightarrow> instant \<Rightarrow>
    world \<Rightarrow> exn + index_link option \<Rightarrow> world \<Rightarrow> bool" where
  "row_written lookup i t now w r w' \<longleftrightarrow>
     (case r of
        Inr (Some l) \<Rightarrow> (\<exists>m. lookup i w = Some m \<and> l = applied t now m) \<and> lookup i w' = Some l \<and>
          (\<forall>j. j \<noteq> i \<longrightarrow> lookup j w' = lookup j w)
      | _ \<Rightarrow> (\<forall>j. lookup j w' = lookup j w))"

definition is_rag_error :: "exn \<Rightarrow> bool" where
  "is_rag_error e = (case e of Rag_Unavailable _ _ \<Rightarrow> True | Rag_Http _ _ _ \<Rightarrow> True | _ \<Rightarrow> False)"

locale link_rows = link_reads L for L :: link_port +
  fixes lookup :: "uuid \<Rightarrow> world \<Rightarrow> index_link option"
  assumes lookup_frame: "same_rows w w' \<Longrightarrow> lookup i w' = lookup i w"
    and transition_row: "lp_apply_transition L i t (Some now) w = (r, w') \<Longrightarrow>
      row_written lookup i t now w r w'"
    and transition_errors: "lp_apply_transition L i t now' w = (Inl e, w') \<Longrightarrow> \<not> is_rag_error e"

text \<open>An invariant of the database rows that every operation keeps, given \<open>side\<close>.\<close>

locale link_invariant = link_reads L for L :: link_port +
  fixes inv :: "world \<Rightarrow> bool" and side :: bool
  assumes inv_frame: "same_rows w w' \<Longrightarrow> inv w \<Longrightarrow> inv w'"
    and upsert_law: "side \<Longrightarrow> keeps inv (lp_upsert_pending L r d now)"
    and mark_content_changed_law: "keeps inv (lp_mark_content_changed L f d now)"
    and mark_rekey_law: "keeps inv (lp_mark_rekey L f key now)"
    and mark_removed_law: "keeps inv (lp_mark_removed L fs now)"
    and mark_archived_law: "keeps inv (lp_mark_archived L f now)"
    and transition_law: "keeps inv (lp_apply_transition L i t now)"
    and retry_failed_law: "keeps inv (lp_retry_failed L n now)"
begin

lemma rowless_inv: "rowless m \<Longrightarrow> keeps inv m"
  by (auto intro!: keepsI dest: relatesD simp: rowless_def intro: inv_frame)

lemmas port_keeps = upsert_law mark_content_changed_law mark_rekey_law mark_removed_law
  mark_archived_law transition_law retry_failed_law reads [THEN rowless_inv]

end

section \<open>The object reader\<close>

text \<open>\<open>ObjectStorageReader\<close>: a storage adapter at the root of the disk. It never touches a row.\<close>

record object_reader =
  or_read :: "string \<Rightarrow> bytes action"
  or_exists :: "string \<Rightarrow> bool action"
  or_get_size :: "string \<Rightarrow> int action"

locale object_port =
  fixes R :: object_reader
  assumes reader_rowless:
    "rowless (or_read R k)" "rowless (or_exists R k)" "rowless (or_get_size R k)"

end
