(* ===== verification/SyncJob.thy ===== *)
theory SyncJob
  imports IndexPorts
begin

text \<open>
  \<open>app/application/indexing/sync_job.py\<close>: one tick of the index synchronisation. The job claims
  a batch of due rows and moves each through registration, polling, re-keying, re-indexing or
  removal at the RAG service. Log lines and the request identifiers of the remote calls are
  left out. The definitions follow the methods one by one; a method that returns either a
  value or an \<open>_Outcome\<close> returns a sum.
\<close>

section \<open>Constants and helpers\<close>

definition SECOND :: int where "SECOND = 1000000" \<comment> \<open>in microseconds\<close>

definition BACKOFF_BASE_SECONDS :: int where "BACKOFF_BASE_SECONDS = 30"
definition BACKOFF_CAP_SECONDS :: int where "BACKOFF_CAP_SECONDS = 3600"
definition HTTP_NOT_FOUND :: int where "HTTP_NOT_FOUND = 404"
definition HTTP_CONFLICT :: int where "HTTP_CONFLICT = 409"
definition ERROR_TIMEOUT :: string where "ERROR_TIMEOUT = ''timeout''"
definition ERROR_DEPENDENCY_UNAVAILABLE :: string where
  "ERROR_DEPENDENCY_UNAVAILABLE = ''dependency_unavailable''"
definition ERROR_DUPLICATE_FILE :: string where "ERROR_DUPLICATE_FILE = ''duplicate_file''"
definition ERROR_FILE_BUSY :: string where "ERROR_FILE_BUSY = ''file_busy''"
definition ERROR_CONTENT_CHANGED :: string where "ERROR_CONTENT_CHANGED = ''content_changed''"
definition STATUS_READY :: string where "STATUS_READY = ''ready''"
definition STATUS_ERROR :: string where "STATUS_ERROR = ''error''"
definition GONE_STATUSES :: "string list" where "GONE_STATUSES = [''deleting'', ''deleted'']"
definition OBJECT_NOT_FOUND :: string where "OBJECT_NOT_FOUND = ''object_not_found''"
definition DUPLICATE_CONFLICT :: string where "DUPLICATE_CONFLICT = ''duplicate_conflict''"
definition PREVIEW_KEY_MARKER :: string where "PREVIEW_KEY_MARKER = ''/photos/previews/''"
definition PREVIEW_SUFFIX :: string where "PREVIEW_SUFFIX = ''_thumb.jpg''"

text \<open>\<open>datetime(9999, 1, 1, tzinfo=UTC)\<close>\<close>

definition CONFIRMED_REMOVAL_AT :: instant where
  "CONFIRMED_REMOVAL_AT = 253370764800 * SECOND"

datatype outcome = TRANSITIONED | RETRIED | O_FAILED | O_SKIPPED

record sync_result =
  sr_claimed :: int
  sr_transitioned :: int
  sr_retried :: int
  sr_failed :: int
  sr_skipped :: int

fun nat_str :: "nat \<Rightarrow> string" where
  "nat_str n = (if n < 10 then [char_of (n + 48)] else nat_str (n div 10) @ [char_of (n mod 10 + 48)])"

declare nat_str.simps [simp del]

definition int_str :: "int \<Rightarrow> string" where
  "int_str i = (if i < 0 then CHR ''-'' # nat_str (nat (- i)) else nat_str (nat i))"

definition is_document :: "index_link \<Rightarrow> bool" where
  "is_document l = (il_content_type l \<in> {PDF_CONTENT_TYPE, DOCX_CONTENT_TYPE, XLSX_CONTENT_TYPE})"

definition is_image :: "index_link \<Rightarrow> bool" where
  "is_image l = (il_content_type l \<in>
     {JPEG_CONTENT_TYPE, PNG_CONTENT_TYPE, WEBP_CONTENT_TYPE, GIF_CONTENT_TYPE})"

definition is_preview_key :: "string \<Rightarrow> bool" where
  "is_preview_key key = (contains key PREVIEW_KEY_MARKER \<and> ends_with key PREVIEW_SUFFIX)"

definition file_name :: "string \<Rightarrow> string option \<Rightarrow> string" where
  "file_name key original =
     (let cleaned = (case original of None \<Rightarrow> [] | Some n \<Rightarrow> strip n) in
      if cleaned \<noteq> [] \<and> cleaned \<notin> {''.'', ''..''} then cleaned
      else (let name = path_name key
            in if name = [] \<or> name \<in> {''.'', ''..''} then ''file'' else name))"

definition backoff :: "int \<Rightarrow> int" where
  "backoff attempts =
     min BACKOFF_CAP_SECONDS (BACKOFF_BASE_SECONDS * 2 ^ nat (max attempts 0)) * SECOND"

definition hash_update :: "index_link \<Rightarrow> string \<Rightarrow> string option column" where
  "hash_update l digest =
     (if il_content_sha256 l = Some digest then UNSET else SET (Some digest))"

definition vectors_already_gone :: "int \<Rightarrow> string option \<Rightarrow> bool" where
  "vectors_already_gone status code =
     (if status = HTTP_NOT_FOUND then True
      else status = HTTP_CONFLICT \<and> code = Some ERROR_FILE_BUSY)"

definition non_empty :: "string option \<Rightarrow> string option" where
  "non_empty c = (if c = Some [] then None else c)"

definition or_else :: "string option \<Rightarrow> string \<Rightarrow> string" where
  "or_else c d = (case non_empty c of None \<Rightarrow> d | Some x \<Rightarrow> x)"

definition http_error_code :: "int \<Rightarrow> string option \<Rightarrow> string" where
  "http_error_code status code = or_else code (''http_'' @ int_str status)"

definition detail_file_id :: "(string \<times> detail_value) list \<Rightarrow> uuid option" where
  "detail_file_id details = (case map_of details ''file_id'' of
       Some (Detail_Uuid u) \<Rightarrow> Some u
     | Some (Detail_Str s) \<Rightarrow> parse_uuid s
     | _ \<Rightarrow> None)"

text \<open>\<open>except _MISSING_OBJECT\<close>\<close>

definition is_missing :: "exn \<Rightarrow> bool" where
  "is_missing e = (e \<in> {Storage_File_Not_Found, Builtin_File_Not_Found})"

definition except_missing :: "'a action \<Rightarrow> 'a action \<Rightarrow> 'a action" where
  "except_missing m h = try_except m (\<lambda>e. if is_missing e then h else raise e)"

section \<open>The job\<close>

record sync_job =
  sj_env :: env
  sj_links :: link_port
  sj_objects :: object_reader
  sj_batch_size :: int
  sj_max_attempts :: int
  sj_max_wait_seconds :: int

definition tuning :: "int option \<Rightarrow> int \<Rightarrow> int" where
  "tuning v fallback = (case v of Some n \<Rightarrow> n | None \<Rightarrow> fallback)"

definition new_sync_job ::
  "env \<Rightarrow> link_port \<Rightarrow> object_reader \<Rightarrow> int option \<Rightarrow> int option \<Rightarrow> int option \<Rightarrow> sync_job" where
  "new_sync_job E L R batch attempts wait =
     \<lparr>sj_env = E, sj_links = L, sj_objects = R,
      sj_batch_size = tuning batch (rag_index_batch_size E),
      sj_max_attempts = tuning attempts (rag_max_attempts E),
      sj_max_wait_seconds = tuning wait (rag_index_max_wait_seconds E)\<rparr>"

definition write_row :: "sync_job \<Rightarrow> index_link \<Rightarrow> instant \<Rightarrow> transition \<Rightarrow> index_link option action" where
  "write_row J l now t = lp_apply_transition (sj_links J) (il_id l) t (Some now)"

definition skip_row :: "sync_job \<Rightarrow> index_link \<Rightarrow> instant \<Rightarrow> string \<Rightarrow> outcome action" where
  "skip_row J l now code =
     bind (write_row J l now (no_change\<lparr>t_state := SET SKIPPED, t_next_attempt_at := SET None,
             t_last_error_code := SET (Some code)\<rparr>)) (\<lambda>_. ret O_SKIPPED)"

definition fail_row :: "sync_job \<Rightarrow> index_link \<Rightarrow> instant \<Rightarrow> string \<Rightarrow> outcome action" where
  "fail_row J l now code =
     bind (write_row J l now (no_change\<lparr>t_state := SET FAILED, t_next_attempt_at := SET None,
             t_last_error_code := SET (Some code)\<rparr>)) (\<lambda>_. ret O_FAILED)"

definition succeed ::
  "sync_job \<Rightarrow> index_link \<Rightarrow> instant \<Rightarrow> index_state \<Rightarrow> uuid option column \<Rightarrow> string option column \<Rightarrow>
    outcome action" where
  "succeed J l now st rag_id hash =
     bind (write_row J l now (no_change\<lparr>t_state := SET st, t_attempts := SET 0,
             t_next_attempt_at := SET None, t_rag_file_id := rag_id,
             t_last_error_code := SET None, t_content_sha256 := hash\<rparr>)) (\<lambda>_. ret TRANSITIONED)"

definition settle :: "sync_job \<Rightarrow> index_link \<Rightarrow> instant \<Rightarrow> index_state \<Rightarrow> outcome action" where
  "settle J l now terminal =
     bind (write_row J l now (no_change\<lparr>t_state := SET terminal, t_attempts := SET 0,
             t_next_attempt_at := SET (Some CONFIRMED_REMOVAL_AT),
             t_last_error_code := SET None\<rparr>)) (\<lambda>_. ret TRANSITIONED)"

definition schedule_retry :: "sync_job \<Rightarrow> index_link \<Rightarrow> instant \<Rightarrow> string \<Rightarrow> outcome action" where
  "schedule_retry J l now code =
     (let attempts = il_attempts l + 1 in
      if attempts \<ge> sj_max_attempts J then
        bind (write_row J l now (no_change\<lparr>t_state := SET FAILED, t_attempts := SET attempts,
                t_next_attempt_at := SET None, t_last_error_code := SET (Some code)\<rparr>))
          (\<lambda>_. ret O_FAILED)
      else
        bind (write_row J l now (no_change\<lparr>t_attempts := SET attempts,
                t_next_attempt_at := SET (Some (now + backoff attempts)),
                t_last_error_code := (if il_state l = SUBMITTED then UNSET else SET (Some code))\<rparr>))
          (\<lambda>_. ret RETRIED))"

section \<open>Locating the object\<close>

definition miss_object :: "sync_job \<Rightarrow> index_link \<Rightarrow> instant \<Rightarrow> outcome action" where
  "miss_object J l now =
     (if \<not> is_preview_key (il_s3_key l) then fail_row J l now OBJECT_NOT_FOUND
      else let attempts = il_attempts l + 1 in
        if attempts \<ge> sj_max_attempts J then
          bind (write_row J l now (no_change\<lparr>t_state := SET SKIPPED, t_attempts := SET attempts,
                  t_next_attempt_at := SET None,
                  t_last_error_code := SET (Some (skip_code_value PREVIEW_MISSING))\<rparr>))
            (\<lambda>_. ret O_SKIPPED)
        else
          bind (write_row J l now (no_change\<lparr>t_attempts := SET attempts,
                  t_next_attempt_at := SET (Some (now + backoff attempts)),
                  t_last_error_code := SET (Some (skip_code_value PREVIEW_MISSING))\<rparr>))
            (\<lambda>_. ret RETRIED))"

definition read_object_hash ::
  "sync_job \<Rightarrow> index_link \<Rightarrow> instant \<Rightarrow> (outcome + string \<times> int) action" where
  "read_object_hash J l now =
     bind (except_missing (or_exists (sj_objects J) (il_s3_key l)) (ret False)) (\<lambda>present.
     if \<not> present then bind (miss_object J l now) (\<lambda>o'. ret (Inl o'))
     else
       bind (except_missing (bind (or_read (sj_objects J) (il_s3_key l)) (\<lambda>b. ret (Some b)))
              (ret None)) (\<lambda>payload.
       case payload of
         None \<Rightarrow> bind (miss_object J l now) (\<lambda>o'. ret (Inl o'))
       | Some b \<Rightarrow> ret (Inr (sha256_hex (sj_env J) b, int (length b)))))"

definition locate ::
  "sync_job \<Rightarrow> index_link \<Rightarrow> instant \<Rightarrow> (outcome + string \<times> int) action" where
  "locate J l now = (case il_content_sha256 l of
       None \<Rightarrow> read_object_hash J l now
     | Some digest \<Rightarrow>
         bind (except_missing
                 (bind (or_get_size (sj_objects J) (il_s3_key l)) (\<lambda>n. ret (Some n))) (ret None))
           (\<lambda>fsize. case fsize of
              None \<Rightarrow> bind (fail_row J l now OBJECT_NOT_FOUND) (\<lambda>o'. ret (Inl o'))
            | Some n \<Rightarrow> ret (Inr (digest, n))))"

definition display_name :: "sync_job \<Rightarrow> index_link \<Rightarrow> string option action" where
  "display_name J l = (case il_file_record_id l of
       None \<Rightarrow> ret None
     | Some f \<Rightarrow> bind (lp_original_names (sj_links J) [f]) (\<lambda>names. ret (map_of names f)))"

definition manifest ::
  "sync_job \<Rightarrow> index_link \<Rightarrow> instant \<Rightarrow> (outcome + rag_manifest) action" where
  "manifest J l now =
     bind (locate J l now) (\<lambda>located.
     case located of
       Inl out \<Rightarrow> ret (Inl out)
     | Inr (digest, fsize) \<Rightarrow>
         bind (display_name J l) (\<lambda>original.
         ret (Inr \<lparr>rm_s3_key = il_s3_key l, rm_file_name = file_name (il_s3_key l) original,
                   rm_content_sha256 = digest, rm_file_size = fsize,
                   rm_content_type = il_content_type l\<rparr>)))"

section \<open>Registration and removal\<close>

definition adopt_duplicate ::
  "sync_job \<Rightarrow> index_link \<Rightarrow> instant \<Rightarrow> (string \<times> detail_value) list \<Rightarrow> string \<Rightarrow> outcome action" where
  "adopt_duplicate J l now details hash =
     (case detail_file_id details of
        None \<Rightarrow> fail_row J l now DUPLICATE_CONFLICT
      | Some adopted \<Rightarrow>
          if il_rag_file_id l \<noteq> None \<and> il_rag_file_id l \<noteq> Some adopted
          then fail_row J l now DUPLICATE_CONFLICT
          else succeed J l now SUBMITTED (SET (Some adopted)) (hash_update l hash))"

definition register_link :: "sync_job \<Rightarrow> index_link \<Rightarrow> instant \<Rightarrow> outcome action" where
  "register_link J l now =
     (if \<not> is_document l \<and> \<not> is_image l
      then skip_row J l now (skip_code_value UNSUPPORTED_TYPE)
      else
        bind (manifest J l now) (\<lambda>prepared.
        case prepared of
          Inl out \<Rightarrow> ret out
        | Inr man \<Rightarrow>
            bind (try_except
                (bind (rag_card (sj_env J)
                         (if is_document l then Register_Document man (il_user_id l)
                          else Register_Image man (il_user_id l))) (\<lambda>fc. ret (Inr fc)))
                (\<lambda>e. case e of
                    Rag_Http status code details \<Rightarrow>
                      bind (if status = HTTP_CONFLICT \<and> code = Some ERROR_DUPLICATE_FILE
                            then adopt_duplicate J l now details (rm_content_sha256 man)
                            else fail_row J l now (http_error_code status code))
                        (\<lambda>o'. ret (Inl o'))
                  | _ \<Rightarrow> raise e))
              (\<lambda>answer. case answer of
                  Inl out \<Rightarrow> ret out
                | Inr fc \<Rightarrow> succeed J l now SUBMITTED (SET (Some (rc_file_id fc)))
                    (hash_update l (rm_content_sha256 man)))))"

text \<open>\<open>None\<close> when the vectors are gone.\<close>

definition delete_vectors :: "sync_job \<Rightarrow> index_link \<Rightarrow> instant \<Rightarrow> outcome option action" where
  "delete_vectors J l now = (case il_rag_file_id l of
       None \<Rightarrow> ret None
     | Some g \<Rightarrow>
         try_except
           (bind (rag_delete (sj_env J) (Delete_Vectors g (il_user_id l))) (\<lambda>_. ret None))
           (\<lambda>e. case e of
               Rag_Http status code details \<Rightarrow>
                 if vectors_already_gone status code then ret None
                 else if il_state l \<in> {REMOVED, ARCHIVED}
                   then bind (schedule_retry J l now (http_error_code status code)) (\<lambda>o'. ret (Some o'))
                 else bind (fail_row J l now (http_error_code status code)) (\<lambda>_. ret (Some O_FAILED))
             | _ \<Rightarrow> raise e))"

definition remove_link :: "sync_job \<Rightarrow> index_link \<Rightarrow> instant \<Rightarrow> index_state \<Rightarrow> outcome action" where
  "remove_link J l now terminal =
     (if il_rag_file_id l = None then settle J l now terminal
      else bind (delete_vectors J l now) (\<lambda>out.
        case out of Some o' \<Rightarrow> ret o' | None \<Rightarrow> settle J l now terminal))"

definition reindex_link :: "sync_job \<Rightarrow> index_link \<Rightarrow> instant \<Rightarrow> outcome action" where
  "reindex_link J l now =
     (if il_rag_file_id l \<noteq> None then
        bind (delete_vectors J l now) (\<lambda>out.
        case out of
          Some o' \<Rightarrow> ret o'
        | None \<Rightarrow>
            bind (write_row J l now (no_change\<lparr>t_rag_file_id := SET None\<rparr>)) (\<lambda>cleared.
            case cleared of None \<Rightarrow> ret O_FAILED | Some l' \<Rightarrow> register_link J l' now))
      else register_link J l now)"

definition on_rekey_http ::
  "sync_job \<Rightarrow> index_link \<Rightarrow> instant \<Rightarrow> int \<Rightarrow> string option \<Rightarrow> outcome action" where
  "on_rekey_http J l now status code =
     (if status = HTTP_CONFLICT \<and> code = Some ERROR_CONTENT_CHANGED then
        bind (write_row J l now (no_change\<lparr>t_state := SET REINDEX_PENDING,
                t_next_attempt_at := SET None,
                t_last_error_code := SET (Some ERROR_CONTENT_CHANGED)\<rparr>)) (\<lambda>updated.
        case updated of None \<Rightarrow> ret O_FAILED | Some l' \<Rightarrow> reindex_link J l' now)
      else if status = HTTP_NOT_FOUND then fail_row J l now (or_else code OBJECT_NOT_FOUND)
      else fail_row J l now (http_error_code status code))"

definition rekey_link :: "sync_job \<Rightarrow> index_link \<Rightarrow> instant \<Rightarrow> outcome action" where
  "rekey_link J l now = (case il_rag_file_id l of
       None \<Rightarrow> register_link J l now
     | Some g \<Rightarrow>
         bind (locate J l now) (\<lambda>located.
         case located of
           Inl out \<Rightarrow> ret out
         | Inr (digest, fsize) \<Rightarrow>
             bind (try_except
                 (bind (rag_card (sj_env J)
                     (Rekey g \<lparr>ro_s3_key = il_s3_key l, ro_file_size = fsize,
                               ro_content_sha256 = digest\<rparr> (il_user_id l))) (\<lambda>fc. ret (Inr fc)))
                 (\<lambda>e. case e of
                     Rag_Http status code details \<Rightarrow>
                       bind (on_rekey_http J l now status code) (\<lambda>o'. ret (Inl o'))
                   | _ \<Rightarrow> raise e))
               (\<lambda>answer. case answer of
                   Inl out \<Rightarrow> ret out
                 | Inr fc \<Rightarrow> succeed J l now INDEXED (SET (Some (rc_file_id fc)))
                     (hash_update l digest))))"

definition on_polled_card :: "sync_job \<Rightarrow> index_link \<Rightarrow> instant \<Rightarrow> rag_file_card \<Rightarrow> outcome action" where
  "on_polled_card J l now fc =
     (let status = lower (strip (rc_status fc)) in
      if status = STATUS_READY
        then succeed J l now INDEXED (SET (Some (rc_file_id fc))) UNSET
      else if status = STATUS_ERROR then fail_row J l now (or_else (rc_error fc) STATUS_ERROR)
      else if status \<in> set GONE_STATUSES then settle J l now REMOVED
      else if now - il_updated_at l \<ge> sj_max_wait_seconds J * SECOND
        then fail_row J l now ERROR_TIMEOUT
      else bind (write_row J l now
                  (no_change\<lparr>t_next_attempt_at := SET (Some (now + backoff (il_attempts l)))\<rparr>))
             (\<lambda>_. ret RETRIED))"

definition poll_link :: "sync_job \<Rightarrow> index_link \<Rightarrow> instant \<Rightarrow> outcome action" where
  "poll_link J l now = (case il_rag_file_id l of
       None \<Rightarrow> register_link J l now
     | Some g \<Rightarrow>
         bind (try_except
             (bind (rag_card (sj_env J) (Get_File g (il_user_id l))) (\<lambda>fc. ret (Inr fc)))
             (\<lambda>e. case e of
                 Rag_Http status code details \<Rightarrow>
                   bind (if status = HTTP_NOT_FOUND then settle J l now REMOVED
                         else fail_row J l now (http_error_code status code))
                     (\<lambda>o'. ret (Inl o'))
               | _ \<Rightarrow> raise e))
           (\<lambda>answer. case answer of
               Inl out \<Rightarrow> ret out
             | Inr fc \<Rightarrow> on_polled_card J l now fc))"

section \<open>One row, one tick\<close>

definition dispatch :: "sync_job \<Rightarrow> index_link \<Rightarrow> instant \<Rightarrow> outcome action" where
  "dispatch J l now =
     (if il_state l = SKIPPED then ret O_SKIPPED
      else if il_state l = SUBMITTED then poll_link J l now
      else if il_state l = REMOVED then remove_link J l now REMOVED
      else if il_state l = ARCHIVED then remove_link J l now ARCHIVED
      else if il_state l = REINDEX_PENDING then reindex_link J l now
      else if il_state l = PENDING \<and> il_rag_file_id l \<noteq> None then rekey_link J l now
      else if il_state l = PENDING then register_link J l now
      else ret O_SKIPPED)"

definition process :: "sync_job \<Rightarrow> index_link \<Rightarrow> instant \<Rightarrow> outcome action" where
  "process J l now =
     try_except
       (try_except (dispatch J l now)
         (\<lambda>e. case e of
             Rag_Unavailable status code \<Rightarrow>
               schedule_retry J l now (or_else code ERROR_DEPENDENCY_UNAVAILABLE)
           | Rag_Http status code details \<Rightarrow> fail_row J l now (http_error_code status code)
           | _ \<Rightarrow> raise e))
       (\<lambda>_. ret O_FAILED)"

definition process_link :: "sync_job \<Rightarrow> index_link \<Rightarrow> instant option \<Rightarrow> outcome action" where
  "process_link J l now =
     bind (case now of None \<Rightarrow> utc_now (sj_env J) | Some t \<Rightarrow> ret t) (\<lambda>t. process J l t)"

definition count_outcome :: "outcome list \<Rightarrow> outcome \<Rightarrow> int" where
  "count_outcome os x = int (count_list os x)"

definition run_job :: "sync_job \<Rightarrow> instant option \<Rightarrow> sync_result action" where
  "run_job J now =
     (if sj_batch_size J < 1 then raise Value_Error
      else if sj_max_attempts J < 1 then raise Value_Error
      else
        bind (case now of None \<Rightarrow> utc_now (sj_env J) | Some t \<Rightarrow> ret t) (\<lambda>t.
        bind (lp_claim_due (sj_links J) (sj_batch_size J) t) (\<lambda>claimed.
        bind (map_act (\<lambda>l. process J l t) claimed) (\<lambda>outs.
        ret \<lparr>sr_claimed = int (length claimed),
             sr_transitioned = count_outcome outs TRANSITIONED,
             sr_retried = count_outcome outs RETRIED,
             sr_failed = count_outcome outs O_FAILED,
             sr_skipped = count_outcome outs O_SKIPPED\<rparr>))))"

definition run_index_sync ::
  "env \<Rightarrow> link_port \<Rightarrow> object_reader \<Rightarrow> int option \<Rightarrow> int option \<Rightarrow> int option \<Rightarrow> instant option \<Rightarrow>
    sync_result action" where
  "run_index_sync E L R batch attempts wait now = run_job (new_sync_job E L R batch attempts wait) now"

end
