(* ===== verification/SyncSpec.thy ===== *)
theory SyncSpec
  imports SyncJob
begin

text \<open>
  The life cycle of one queue row under the synchronisation job, as a step relation, and the
  proof that the job follows it. The proof is done once, over any repository and object
  reader that satisfy the laws of \<open>link_rows\<close> and \<open>object_port\<close>.
\<close>

section \<open>The step relations\<close>

text \<open>
  A tick moves a row by preparatory writes, which an exception may leave behind, and then by
  at most one final write.
\<close>

definition clear_patch :: transition where
  "clear_patch = no_change\<lparr>t_rag_file_id := SET None\<rparr>"

definition changed_patch :: transition where
  "changed_patch = no_change\<lparr>t_state := SET REINDEX_PENDING, t_next_attempt_at := SET None,
     t_last_error_code := SET (Some ERROR_CONTENT_CHANGED)\<rparr>"

definition succeed_patch ::
  "index_state \<Rightarrow> uuid option column \<Rightarrow> string option column \<Rightarrow> transition" where
  "succeed_patch st g h = no_change\<lparr>t_state := SET st, t_attempts := SET 0,
     t_next_attempt_at := SET None, t_rag_file_id := g, t_last_error_code := SET None,
     t_content_sha256 := h\<rparr>"

definition settle_patch :: "index_state \<Rightarrow> transition" where
  "settle_patch terminal = no_change\<lparr>t_state := SET terminal, t_attempts := SET 0,
     t_next_attempt_at := SET (Some CONFIRMED_REMOVAL_AT), t_last_error_code := SET None\<rparr>"

definition stop_patch :: "index_state \<Rightarrow> int column \<Rightarrow> string \<Rightarrow> transition" where
  "stop_patch st a code = no_change\<lparr>t_state := SET st, t_attempts := a,
     t_next_attempt_at := SET None, t_last_error_code := SET (Some code)\<rparr>"

definition later_patch :: "int column \<Rightarrow> instant \<Rightarrow> string option column \<Rightarrow> transition" where
  "later_patch a ts code = no_change\<lparr>t_attempts := a, t_next_attempt_at := SET (Some ts),
     t_last_error_code := code\<rparr>"

lemmas patch_defs = clear_patch_def changed_patch_def succeed_patch_def settle_patch_def
  stop_patch_def later_patch_def no_change_def

inductive prep_step :: "instant \<Rightarrow> index_link \<Rightarrow> index_link \<Rightarrow> bool" for now where
  vectors_cleared:
    "il_state l = REINDEX_PENDING \<Longrightarrow> il_rag_file_id l \<noteq> None \<Longrightarrow>
      prep_step now l (applied clear_patch now l)"
| content_changed:
    "il_state l = PENDING \<Longrightarrow> il_rag_file_id l \<noteq> None \<Longrightarrow>
      prep_step now l (applied changed_patch now l)"

text \<open>The rows that registration may start from.\<close>

definition unregistered :: "index_link \<Rightarrow> bool" where
  "unregistered l \<longleftrightarrow> il_state l \<in> {PENDING, SUBMITTED, REINDEX_PENDING} \<and> il_rag_file_id l = None"

inductive final_step :: "instant \<Rightarrow> int \<Rightarrow> int \<Rightarrow> index_link \<Rightarrow> index_link \<Rightarrow> bool"
  for now max_attempts max_wait where
  registered:
    "unregistered l \<Longrightarrow> is_document l \<or> is_image l \<Longrightarrow>
      final_step now max_attempts max_wait l (applied (succeed_patch SUBMITTED (SET (Some g)) h) now l)"
| became_ready:
    "il_state l = SUBMITTED \<Longrightarrow> il_rag_file_id l \<noteq> None \<Longrightarrow>
      final_step now max_attempts max_wait l (applied (succeed_patch INDEXED (SET (Some g)) UNSET) now l)"
| rekeyed:
    "il_state l = PENDING \<Longrightarrow> il_rag_file_id l \<noteq> None \<Longrightarrow>
      final_step now max_attempts max_wait l (applied (succeed_patch INDEXED (SET (Some g)) h) now l)"
| removal_settled:
    "il_state l = terminal \<Longrightarrow> terminal \<in> {REMOVED, ARCHIVED} \<Longrightarrow>
      final_step now max_attempts max_wait l (applied (settle_patch terminal) now l)"
| found_gone:
    "il_state l = SUBMITTED \<Longrightarrow> il_rag_file_id l \<noteq> None \<Longrightarrow>
      final_step now max_attempts max_wait l (applied (settle_patch REMOVED) now l)"
| gave_up:
    "il_state l \<in> {PENDING, SUBMITTED, REINDEX_PENDING} \<Longrightarrow>
      final_step now max_attempts max_wait l (applied (stop_patch FAILED UNSET code) now l)"
| exhausted:
    "il_state l \<in> set DUE_INDEX_STATES \<Longrightarrow> il_attempts l + 1 \<ge> max_attempts \<Longrightarrow>
      final_step now max_attempts max_wait l
        (applied (stop_patch FAILED (SET (il_attempts l + 1)) code) now l)"
| retried:
    "il_state l \<in> set DUE_INDEX_STATES \<Longrightarrow> il_attempts l + 1 < max_attempts \<Longrightarrow>
      c = UNSET \<longleftrightarrow> il_state l = SUBMITTED \<Longrightarrow>
      final_step now max_attempts max_wait l
        (applied (later_patch (SET (il_attempts l + 1)) (now + backoff (il_attempts l + 1)) c) now l)"
| still_indexing:
    "il_state l = SUBMITTED \<Longrightarrow> now - il_updated_at l < max_wait * SECOND \<Longrightarrow>
      final_step now max_attempts max_wait l
        (applied (later_patch UNSET (now + backoff (il_attempts l)) UNSET) now l)"
| unsupported:
    "unregistered l \<Longrightarrow> \<not> is_document l \<and> \<not> is_image l \<Longrightarrow>
      final_step now max_attempts max_wait l
        (applied (stop_patch SKIPPED UNSET (skip_code_value UNSUPPORTED_TYPE)) now l)"
| preview_retried:
    "unregistered l \<or> il_state l = PENDING \<Longrightarrow> il_attempts l + 1 < max_attempts \<Longrightarrow>
      is_preview_key (il_s3_key l) \<Longrightarrow>
      final_step now max_attempts max_wait l
        (applied (later_patch (SET (il_attempts l + 1)) (now + backoff (il_attempts l + 1))
           (SET (Some (skip_code_value PREVIEW_MISSING)))) now l)"
| preview_given_up:
    "unregistered l \<or> il_state l = PENDING \<Longrightarrow> il_attempts l + 1 \<ge> max_attempts \<Longrightarrow>
      is_preview_key (il_s3_key l) \<Longrightarrow>
      final_step now max_attempts max_wait l
        (applied (stop_patch SKIPPED (SET (il_attempts l + 1)) (skip_code_value PREVIEW_MISSING)) now l)"

text \<open>A whole tick of one row.\<close>

definition tick_step :: "instant \<Rightarrow> int \<Rightarrow> int \<Rightarrow> index_link \<Rightarrow> index_link \<Rightarrow> bool" where
  "tick_step now max_attempts max_wait l l' \<longleftrightarrow>
     (\<exists>m. (prep_step now)\<^sup>*\<^sup>* l m \<and> (l' = m \<or> final_step now max_attempts max_wait m l'))"

lemma prep_step_frame:
  "prep_step now l m \<Longrightarrow> il_id m = il_id l \<and> il_attempts m = il_attempts l \<and>
    il_user_id m = il_user_id l \<and> il_file_record_id m = il_file_record_id l \<and>
    il_section m = il_section l \<and> il_s3_key m = il_s3_key l \<and>
    il_content_type m = il_content_type l \<and> il_created_at m = il_created_at l \<and>
    il_state l \<in> {PENDING, REINDEX_PENDING} \<and> il_state m = REINDEX_PENDING"
  by (auto simp: patch_defs elim!: prep_step.cases)

lemma prep_steps_frame:
  "(prep_step now)\<^sup>*\<^sup>* l m \<Longrightarrow> il_id m = il_id l \<and> il_attempts m = il_attempts l \<and>
    il_user_id m = il_user_id l \<and> il_file_record_id m = il_file_record_id l \<and>
    il_section m = il_section l \<and> il_s3_key m = il_s3_key l \<and>
    il_content_type m = il_content_type l \<and> il_created_at m = il_created_at l \<and>
    (m = l \<or> il_state l \<in> {PENDING, REINDEX_PENDING} \<and> il_state m = REINDEX_PENDING)"
  by (induction rule: rtranclp_induct) (auto dest: prep_step_frame)

lemma final_step_frame:
  "final_step now n wt l l' \<Longrightarrow> il_id l' = il_id l \<and> il_user_id l' = il_user_id l \<and>
    il_file_record_id l' = il_file_record_id l \<and> il_section l' = il_section l \<and>
    il_s3_key l' = il_s3_key l \<and> il_content_type l' = il_content_type l \<and>
    il_created_at l' = il_created_at l \<and> il_state l \<in> set DUE_INDEX_STATES"
  by (erule final_step.cases)
    (auto simp: patch_defs DUE_INDEX_STATES_def unregistered_def)

section \<open>Following the relation\<close>

text \<open>
  \<open>moved\<close>: what has become of row \<open>l\<close> and of the other rows; a final step only when the action
  returned. \<open>gate C\<close>: an action that leaves the rows alone when it returns a value in \<open>C\<close> and
  otherwise moves the row along.
\<close>

definition moved ::
  "(uuid \<Rightarrow> world \<Rightarrow> index_link option) \<Rightarrow> sync_job \<Rightarrow> instant \<Rightarrow> index_link \<Rightarrow> world \<Rightarrow> bool \<Rightarrow>
    world \<Rightarrow> bool" where
  "moved lookup J now l w returned w' \<longleftrightarrow>
     (\<forall>j. j \<noteq> il_id l \<longrightarrow> lookup j w' = lookup j w) \<and>
     (\<exists>m l'. (prep_step now)\<^sup>*\<^sup>* l m \<and> lookup (il_id l) w' = Some l' \<and>
       (l' = m \<or> returned \<and> final_step now (sj_max_attempts J) (sj_max_wait_seconds J) m l'))"

definition gated ::
  "(uuid \<Rightarrow> world \<Rightarrow> index_link option) \<Rightarrow> sync_job \<Rightarrow> instant \<Rightarrow> ('a \<Rightarrow> bool) \<Rightarrow> index_link \<Rightarrow> world \<Rightarrow>
    exn + 'a \<Rightarrow> world \<Rightarrow> bool" where
  "gated lookup J now C l w r w' \<longleftrightarrow> (case r of Inl e \<Rightarrow> moved lookup J now l w False w'
     | Inr x \<Rightarrow> if C x then same_rows w w' else moved lookup J now l w True w')"

definition gate ::
  "(uuid \<Rightarrow> world \<Rightarrow> index_link option) \<Rightarrow> sync_job \<Rightarrow> instant \<Rightarrow> ('a \<Rightarrow> bool) \<Rightarrow> index_link \<Rightarrow> 'a action \<Rightarrow>
    bool" where
  "gate lookup J now C l m \<longleftrightarrow> (\<forall>w r w'. lookup (il_id l) w = Some l \<longrightarrow> m w = (r, w') \<longrightarrow>
     gated lookup J now C l w r w')"

text \<open>The rows a failure may stop, and the rows whose object is looked up.\<close>

definition active :: "index_link \<Rightarrow> bool" where
  "active l \<longleftrightarrow> il_state l \<in> {PENDING, SUBMITTED, REINDEX_PENDING}"

definition locatable :: "index_link \<Rightarrow> bool" where
  "locatable l \<longleftrightarrow> unregistered l \<or> il_state l = PENDING"

text \<open>Actions that raise no HTTP error of the RAG service.\<close>

definition no_http :: "'a action \<Rightarrow> bool" where
  "no_http m \<longleftrightarrow> (\<forall>w s c d w'. m w \<noteq> (Inl (Rag_Http s c d), w'))"

locale sync_machine = link_rows "sj_links J" lookup + object_port "sj_objects J"
  for J :: sync_job and lookup +
  fixes now :: instant
begin

lemma gateI:
  "(\<And>w r w'. lookup (il_id l) w = Some l \<Longrightarrow> m w = (r, w') \<Longrightarrow> gated lookup J now C l w r w') \<Longrightarrow> gate lookup J now C l m"
  by (simp add: gate_def)

lemma gateD: "gate lookup J now C l m \<Longrightarrow> lookup (il_id l) w = Some l \<Longrightarrow> m w = (r, w') \<Longrightarrow> gated lookup J now C l w r w'"
  by (simp add: gate_def)

lemma same_rows_moved: "same_rows w w' \<Longrightarrow> lookup (il_id l) w = Some l \<Longrightarrow> moved lookup J now l w b w'"
  by (auto simp: moved_def lookup_frame)

lemma gate_rowless: "rowless m \<Longrightarrow> gate lookup J now C l m"
  by (rule gateI) (auto simp: gated_def split: sum.split dest: rowlessD intro: same_rows_moved)

lemma gate_all_rowless: "rowless m \<Longrightarrow> gate lookup J now (\<lambda>_. True) l m"
  by (rule gate_rowless)

lemma gate_ret [simp]: "gate lookup J now C l (ret x)"
  by (rule gate_rowless) simp

lemma gate_raise [simp]: "gate lookup J now C l (raise e)"
  by (rule gate_rowless) simp

lemma moved_trans_same: "same_rows w w1 \<Longrightarrow> moved lookup J now l w1 b w' \<Longrightarrow> moved lookup J now l w b w'"
  by (simp add: moved_def lookup_frame)

lemma same_rows_at: "same_rows w w1 \<Longrightarrow> lookup (il_id l) w = Some l \<Longrightarrow> lookup (il_id l) w1 = Some l"
  by (simp add: lookup_frame)

lemma gated_trans_same: "same_rows w w1 \<Longrightarrow> gated lookup J now C l w1 r w' \<Longrightarrow> gated lookup J now C l w r w'"
  by (auto simp: gated_def split: sum.splits if_splits intro: moved_trans_same same_rows_trans)

lemma gate_bind:
  assumes m: "gate lookup J now D l m"
    and go: "\<And>x. D x \<Longrightarrow> gate lookup J now C l (f x)"
    and stop: "\<And>x. \<not> D x \<Longrightarrow> \<exists>y. f x = ret y \<and> \<not> C y"
  shows "gate lookup J now C l (bind m f)"
proof (rule gateI)
  fix w r w' assume l: "lookup (il_id l) w = Some l" and run: "bind m f w = (r, w')"
  obtain r1 w1 where m1: "m w = (r1, w1)" by fastforce
  with m l have g: "gated lookup J now D l w r1 w1" by (blast intro: gateD)
  show "gated lookup J now C l w r w'"
  proof (cases r1)
    case (Inl e)
    with g run m1 show ?thesis by (auto simp: bind_def gated_def)
  next
    case (Inr x)
    with run m1 have f: "f x w1 = (r, w')" by (simp add: bind_def)
    show ?thesis
    proof (cases "D x")
      case True
      with g Inr have s: "same_rows w w1" by (simp add: gated_def)
      with l have "lookup (il_id l) w1 = Some l" by (simp add: lookup_frame)
      with go [OF True] f have "gated lookup J now C l w1 r w'" by (blast intro: gateD)
      with s show ?thesis by (rule gated_trans_same)
    next
      case False
      with stop obtain y where y: "f x = ret y" "\<not> C y" by blast
      with f have "r = Inr y" "w' = w1" by simp_all
      with g Inr False y show ?thesis by (simp add: gated_def)
    qed
  qed
qed

lemma gate_bind_rowless:
  "rowless m \<Longrightarrow> (\<And>x. gate lookup J now C l (f x)) \<Longrightarrow> gate lookup J now C l (bind m f)"
  by (rule gate_bind [where D = "\<lambda>_. True"]) (auto intro: gate_all_rowless)

lemma gate_try:
  assumes m: "rowless m" and h: "\<And>e. gate lookup J now C l (h e)"
  shows "gate lookup J now C l (try_except m h)"
proof (rule gateI)
  fix w r w' assume l: "lookup (il_id l) w = Some l" and run: "try_except m h w = (r, w')"
  obtain r1 w1 where m1: "m w = (r1, w1)" by fastforce
  with m have s: "same_rows w w1" by (rule rowlessD)
  with l have l1: "lookup (il_id l) w1 = Some l" by (simp add: lookup_frame)
  show "gated lookup J now C l w r w'"
  proof (cases r1)
    case (Inl e)
    with run m1 have "h e w1 = (r, w')" by (simp add: try_except_def)
    with h [of e] l1 have "gated lookup J now C l w1 r w'" by (blast intro: gateD)
    with s show ?thesis by (rule gated_trans_same)
  next
    case (Inr x)
    with run m1 s l show ?thesis
      by (auto simp: try_except_def gated_def intro: same_rows_moved)
  qed
qed

lemma gate_if: "(b \<Longrightarrow> gate lookup J now C l m) \<Longrightarrow> (\<not> b \<Longrightarrow> gate lookup J now C l n) \<Longrightarrow> gate lookup J now C l (if b then m else n)"
  by simp

lemma write_row_moves:
  assumes "lookup (il_id l) w = Some l" and "il_id k = il_id l"
    and "write_row J k now t w = (r, w')"
  shows "(\<exists>l'. r = Inr (Some l') \<and> l' = applied t now l \<and> lookup (il_id l) w' = Some l' \<and>
      (\<forall>j. j \<noteq> il_id l \<longrightarrow> lookup j w' = lookup j w)) \<or>
    (\<forall>l'. r \<noteq> Inr (Some l')) \<and> (\<forall>j. lookup j w' = lookup j w)"
  using transition_row [of "il_id l" t now w r w'] assms
  by (auto simp: write_row_def row_written_def split: sum.splits option.splits)

lemma gate_write:
  assumes "final_step now (sj_max_attempts J) (sj_max_wait_seconds J) l (applied t now l)"
    and "il_id k = il_id l" and "\<not> C x"
  shows "gate lookup J now C l (bind (write_row J k now t) (\<lambda>_. ret x))"
proof (rule gateI)
  fix w r w' assume l: "lookup (il_id l) w = Some l"
    and run: "bind (write_row J k now t) (\<lambda>_. ret x) w = (r, w')"
  obtain r1 where w1: "write_row J k now t w = (r1, w')"
    using run by (auto simp: bind_def split: prod.splits sum.splits)
  with run have r: "r = map_sum id (\<lambda>_. x) r1" by (cases r1) (auto simp: bind_def)
  have "moved lookup J now l w (\<not> isl r1) w'"
    using write_row_moves [OF l assms(2) w1] assms(1) l
    by (auto simp: moved_def)
  then show "gated lookup J now C l w r w'"
    using assms(3) r by (cases r1) (auto simp: gated_def)
qed

text \<open>A preparatory write, and the action that goes on with the returned row.\<close>

lemma moved_prep:
  assumes "prep_step now l m" and "moved lookup J now m w1 b w'"
    and "\<And>j. j \<noteq> il_id l \<Longrightarrow> lookup j w1 = lookup j w"
  shows "moved lookup J now l w b w'"
proof -
  have id: "il_id m = il_id l" using prep_step_frame [OF assms(1)] by simp
  from assms(2) obtain m' l' where "(prep_step now)\<^sup>*\<^sup>* m m'" "lookup (il_id l) w' = Some l'"
    "l' = m' \<or> b \<and> final_step now (sj_max_attempts J) (sj_max_wait_seconds J) m' l'"
    "\<forall>j. j \<noteq> il_id l \<longrightarrow> lookup j w' = lookup j w1"
    by (auto simp: moved_def id)
  with assms(1,3) show ?thesis
    unfolding moved_def by (metis converse_rtranclp_into_rtranclp)
qed

lemma gate_write_prep:
  assumes prep: "prep_step now l (applied t now l)"
    and go: "gate lookup J now (\<lambda>_. False) (applied t now l) (f (Some (applied t now l)))"
    and stop: "f None = ret y"
  shows "gate lookup J now (\<lambda>_. False) l (bind (write_row J l now t) f)"
proof (rule gateI)
  fix w r w' assume l: "lookup (il_id l) w = Some l"
    and run: "bind (write_row J l now t) f w = (r, w')"
  obtain r1 w1 where w1: "write_row J l now t w = (r1, w1)" by fastforce
  let ?l = "applied t now l"
  have moves: "(\<exists>l'. r1 = Inr (Some l') \<and> l' = ?l \<and> lookup (il_id l) w1 = Some l' \<and>
      (\<forall>j. j \<noteq> il_id l \<longrightarrow> lookup j w1 = lookup j w)) \<or>
    (\<forall>l'. r1 \<noteq> Inr (Some l')) \<and> (\<forall>j. lookup j w1 = lookup j w)"
    by (rule write_row_moves [OF l refl w1])
  show "gated lookup J now (\<lambda>_. False) l w r w'"
  proof (cases "r1 = Inr (Some ?l)")
    case True
    with moves have at_id: "lookup (il_id ?l) w1 = Some ?l"
      and others: "\<And>j. j \<noteq> il_id l \<Longrightarrow> lookup j w1 = lookup j w" by auto
    from True run w1 have "f (Some ?l) w1 = (r, w')" by (simp add: bind_def)
    with go at_id have "gated lookup J now (\<lambda>_. False) ?l w1 r w'" by (blast intro: gateD)
    then have "moved lookup J now ?l w1 (\<not> isl r) w'" by (auto simp: gated_def split: sum.splits)
    then have "moved lookup J now l w (\<not> isl r) w'" using prep others by (blast intro: moved_prep)
    then show ?thesis by (auto simp: gated_def split: sum.split)
  next
    case False
    with moves have same: "\<forall>j. lookup j w1 = lookup j w" and none: "\<forall>l'. r1 \<noteq> Inr (Some l')"
      by auto
    from same l have "moved lookup J now l w b w1" for b by (auto simp: moved_def)
    moreover have "w' = w1"
      using run w1 stop none by (cases r1) (auto simp: bind_def split: option.splits)
    ultimately show ?thesis by (auto simp: gated_def split: sum.split)
  qed
qed

text \<open>The writes that end a tick.\<close>

lemma gate_skip: "unregistered l \<Longrightarrow> \<not> is_document l \<Longrightarrow> \<not> is_image l \<Longrightarrow>
    gate lookup J now (\<lambda>_. False) l (skip_row J l now (skip_code_value UNSUPPORTED_TYPE))"
  using final_step.unsupported [of l now]
  by (auto simp: skip_row_def stop_patch_def no_change_def intro!: gate_write)

lemma gate_fail: "active l \<Longrightarrow> il_id k = il_id l \<Longrightarrow> gate lookup J now (\<lambda>_. False) l (fail_row J k now c)"
  using final_step.gave_up [of l now _ _ c]
  by (auto simp: fail_row_def stop_patch_def no_change_def active_def intro!: gate_write)

lemma gate_settle: "il_state l = st \<Longrightarrow> st \<in> {REMOVED, ARCHIVED} \<Longrightarrow> gate lookup J now (\<lambda>_. False) l (settle J l now st)"
  using final_step.removal_settled [of l st now]
  by (auto simp: settle_def settle_patch_def intro!: gate_write)

lemma gate_gone: "il_state l = SUBMITTED \<Longrightarrow> il_rag_file_id l \<noteq> None \<Longrightarrow> gate lookup J now (\<lambda>_. False) l (settle J l now REMOVED)"
  using final_step.found_gone [of l now]
  by (auto simp: settle_def settle_patch_def intro!: gate_write)

lemma gate_registered: "unregistered l \<Longrightarrow> is_document l \<or> is_image l \<Longrightarrow>
    gate lookup J now (\<lambda>_. False) l (succeed J l now SUBMITTED (SET (Some g)) h)"
  using final_step.registered [of l now _ _ g h]
  by (auto simp: succeed_def succeed_patch_def intro!: gate_write)

lemma gate_ready: "il_state l = SUBMITTED \<Longrightarrow> il_rag_file_id l \<noteq> None \<Longrightarrow>
    gate lookup J now (\<lambda>_. False) l (succeed J l now INDEXED (SET (Some g)) UNSET)"
  using final_step.became_ready [of l now _ _ g]
  by (auto simp: succeed_def succeed_patch_def intro!: gate_write)

lemma gate_rekeyed: "il_state l = PENDING \<Longrightarrow> il_rag_file_id l \<noteq> None \<Longrightarrow>
    gate lookup J now (\<lambda>_. False) l (succeed J l now INDEXED (SET (Some g)) h)"
  using final_step.rekeyed [of l now _ _ g h]
  by (auto simp: succeed_def succeed_patch_def intro!: gate_write)

lemma gate_retry:
  assumes due: "il_state l \<in> set DUE_INDEX_STATES" and id: "il_id k = il_id l"
    and att: "il_attempts k = il_attempts l" and st: "il_state k = SUBMITTED \<longleftrightarrow> il_state l = SUBMITTED"
  shows "gate lookup J now (\<lambda>_. False) l (schedule_retry J k now c)"
proof (cases "il_attempts l + 1 \<ge> sj_max_attempts J")
  case True
  then show ?thesis
    using final_step.exhausted [OF due True, of now _ c] id att
    by (auto simp: schedule_retry_def Let_def stop_patch_def intro!: gate_write)
next
  case False
  let ?c = "if il_state l = SUBMITTED then UNSET else SET (Some c)"
  from False have "il_attempts l + 1 < sj_max_attempts J" by simp
  then show ?thesis
    using final_step.retried [OF due, of "sj_max_attempts J" ?c now] id att st
    by (auto simp: schedule_retry_def Let_def later_patch_def split: if_splits intro!: gate_write)
qed

text \<open>The methods of the job, each on the rows it is called for.\<close>

lemma gate_case_sum:
  "(\<And>y. x = Inl y \<Longrightarrow> gate lookup J now C l (f y)) \<Longrightarrow> (\<And>y. x = Inr y \<Longrightarrow> gate lookup J now C l (g y)) \<Longrightarrow>
    gate lookup J now C l (case x of Inl y \<Rightarrow> f y | Inr y \<Rightarrow> g y)"
  by (simp split: sum.split)

lemma gate_case_option:
  "(x = None \<Longrightarrow> gate lookup J now C l m) \<Longrightarrow> (\<And>y. x = Some y \<Longrightarrow> gate lookup J now C l (g y)) \<Longrightarrow>
    gate lookup J now C l (case x of None \<Rightarrow> m | Some y \<Rightarrow> g y)"
  by (simp split: option.split)

text \<open>An action that has ended the tick, wrapped in an early return.\<close>

lemma gate_early: "gate lookup J now (\<lambda>_. False) l m \<Longrightarrow> (\<And>x. \<not> C (f x)) \<Longrightarrow> gate lookup J now C l (bind m (\<lambda>x. ret (f x)))"
  by (rule gate_bind [where D = "\<lambda>_. False"]) auto

lemma rowless_except_missing: "rowless m \<Longrightarrow> rowless h \<Longrightarrow> rowless (except_missing m h)"
  by (auto simp: except_missing_def intro!: rowless_rules)

lemmas follow_rowless = reader_rowless reads rowless_except_missing rowless_bind

lemma locatable_active: "locatable l \<Longrightarrow> active l"
  by (auto simp: locatable_def unregistered_def active_def)

lemma gate_miss:
  assumes "locatable l" shows "gate lookup J now (\<lambda>_. False) l (miss_object J l now)"
proof (cases "is_preview_key (il_s3_key l)")
  case False
  with assms show ?thesis by (simp add: miss_object_def gate_fail locatable_active)
next
  case preview: True
  note a = assms [unfolded locatable_def]
  show ?thesis
  proof (cases "il_attempts l + 1 \<ge> sj_max_attempts J")
    case True
    then show ?thesis
      using final_step.preview_given_up [OF a True preview, of now] preview
      by (auto simp: miss_object_def Let_def stop_patch_def intro!: gate_write)
  next
    case False
    then have "il_attempts l + 1 < sj_max_attempts J" by simp
    then show ?thesis
      using final_step.preview_retried [OF a _ preview, of _ now] preview
      by (auto simp: miss_object_def Let_def later_patch_def intro!: gate_write)
  qed
qed

lemma gate_read_hash:
  assumes "locatable l" shows "gate lookup J now (\<lambda>x. \<not> isl x) l (read_object_hash J l now)"
  unfolding read_object_hash_def
  by (intro gate_bind_rowless gate_if gate_case_option gate_ret gate_early gate_miss assms
      follow_rowless rowless_ret) auto

lemma gate_locate:
  assumes "locatable l" shows "gate lookup J now (\<lambda>x. \<not> isl x) l (locate J l now)"
  unfolding locate_def
  by (intro gate_case_option gate_read_hash gate_bind_rowless gate_ret gate_early gate_fail locatable_active assms
      follow_rowless rowless_ret) auto

lemma rowless_display_name: "rowless (display_name J l)"
  unfolding display_name_def by (auto intro!: follow_rowless split: option.split)

lemma gate_manifest:
  assumes "locatable l" shows "gate lookup J now (\<lambda>x. \<not> isl x) l (manifest J l now)"
  unfolding manifest_def
proof (rule gate_bind [OF gate_locate [OF assms]])
  fix x :: "outcome + string \<times> int" assume "\<not> isl x"
  then show "gate lookup J now (\<lambda>x. \<not> isl x) l
      (case x of Inl out \<Rightarrow> ret (Inl out)
       | Inr (digest, fsize) \<Rightarrow> bind (display_name J l) (\<lambda>original. ret (Inr
          \<lparr>rm_s3_key = il_s3_key l, rm_file_name = file_name (il_s3_key l) original,
           rm_content_sha256 = digest, rm_file_size = fsize,
           rm_content_type = il_content_type l\<rparr>)))"
    by (auto split: sum.split intro!: gate_rowless rowless_bind rowless_display_name)
next
  fix x :: "outcome + string \<times> int" assume "\<not> \<not> isl x"
  then show "\<exists>y. (case x of Inl out \<Rightarrow> ret (Inl out)
       | Inr (digest, fsize) \<Rightarrow> bind (display_name J l) (\<lambda>original. ret (Inr
          \<lparr>rm_s3_key = il_s3_key l, rm_file_name = file_name (il_s3_key l) original,
           rm_content_sha256 = digest, rm_file_size = fsize,
           rm_content_type = il_content_type l\<rparr>))) = ret y \<and> \<not> \<not> isl y"
    by (auto split: sum.split)
qed

lemma gate_rest:
  "gate lookup J now (\<lambda>x. \<not> isl x) l m \<Longrightarrow> (\<And>y. gate lookup J now (\<lambda>_. False) l (g y)) \<Longrightarrow>
    gate lookup J now (\<lambda>_. False) l (bind m (\<lambda>x. case x of Inl out \<Rightarrow> ret out | Inr y \<Rightarrow> g y))"
  by (rule gate_bind [where D = "\<lambda>x. \<not> isl x"]) (auto split: sum.split)

lemma gate_on_http:
  assumes "rowless m" and "\<And>s c d. gate lookup J now (\<lambda>_. False) l (h s c d)"
  shows "gate lookup J now (\<lambda>x. \<not> isl x) l (try_except (bind m (\<lambda>fc. ret (Inr fc)))
    (\<lambda>e. case e of Rag_Http s c d \<Rightarrow> bind (h s c d) (\<lambda>o'. ret (Inl o')) | _ \<Rightarrow> raise e))"
  using assms by (auto intro!: gate_try rowless_bind gate_early split: exn.split)

lemma gate_adopt:
  "unregistered l \<Longrightarrow> is_document l \<or> is_image l \<Longrightarrow> gate lookup J now (\<lambda>_. False) l (adopt_duplicate J l now d h)"
  unfolding adopt_duplicate_def
  by (intro gate_case_option gate_if gate_fail gate_registered)
    (auto simp: unregistered_def active_def)

lemma gate_register:
  assumes l: "unregistered l" shows "gate lookup J now (\<lambda>_. False) l (register_link J l now)"
proof (cases "is_document l \<or> is_image l")
  case False
  then show ?thesis using gate_skip [OF l] by (simp add: register_link_def)
next
  case True
  have lo: "locatable l" using l by (simp add: locatable_def)
  then have a: "active l" by (rule locatable_active)
  have "gate lookup J now (\<lambda>_. False) l (bind (manifest J l now) (\<lambda>x. case x of Inl out \<Rightarrow> ret out | Inr man \<Rightarrow>
      bind (try_except (bind (rag_card (sj_env J)
              (if is_document l then Register_Document man (il_user_id l)
               else Register_Image man (il_user_id l))) (\<lambda>fc. ret (Inr fc)))
            (\<lambda>e. case e of
                Rag_Http status code details \<Rightarrow>
                  bind (if status = HTTP_CONFLICT \<and> code = Some ERROR_DUPLICATE_FILE
                        then adopt_duplicate J l now details (rm_content_sha256 man)
                        else fail_row J l now (http_error_code status code)) (\<lambda>o'. ret (Inl o'))
              | _ \<Rightarrow> raise e))
          (\<lambda>answer. case answer of Inl out \<Rightarrow> ret out
            | Inr fc \<Rightarrow> succeed J l now SUBMITTED (SET (Some (rc_file_id fc)))
                (hash_update l (rm_content_sha256 man)))))"
    by (intro gate_rest gate_manifest gate_on_http gate_if gate_adopt gate_fail gate_registered
        rowless_rag l a lo True refl)
  moreover have "\<not> (\<not> is_document l \<and> \<not> is_image l)" using True by simp
  ultimately show ?thesis by (simp only: register_link_def if_False)
qed

lemma gate_delete_vectors:
  assumes "active l \<or> il_state l \<in> {REMOVED, ARCHIVED}"
  shows "gate lookup J now (\<lambda>x. x = None) l (delete_vectors J l now)"
proof -
  have retry: "gate lookup J now (\<lambda>_. False) l (schedule_retry J l now c)" if "il_state l \<in> {REMOVED, ARCHIVED}" for c
    using that by (intro gate_retry) (auto simp: DUE_INDEX_STATES_def)
  have fail: "gate lookup J now (\<lambda>_. False) l (fail_row J l now c)" if "il_state l \<notin> {REMOVED, ARCHIVED}" for c
    using that assms by (intro gate_fail) auto
  show ?thesis
    unfolding delete_vectors_def
    by (auto intro!: gate_case_option gate_try rowless_bind gate_if gate_early retry fail
        split: exn.split)
qed

lemma gate_vectors_then:
  "active l \<or> il_state l \<in> {REMOVED, ARCHIVED} \<Longrightarrow> gate lookup J now (\<lambda>_. False) l m \<Longrightarrow>
    gate lookup J now (\<lambda>_. False) l (bind (delete_vectors J l now) (\<lambda>out. case out of Some o' \<Rightarrow> ret o' | None \<Rightarrow> m))"
  by (rule gate_bind [OF gate_delete_vectors]) (auto split: option.split)

lemma gate_remove:
  "il_state l = st \<Longrightarrow> st \<in> {REMOVED, ARCHIVED} \<Longrightarrow> gate lookup J now (\<lambda>_. False) l (remove_link J l now st)"
  unfolding remove_link_def by (intro gate_if gate_settle gate_vectors_then) auto

lemma gate_reindex:
  assumes st: "il_state l = REINDEX_PENDING"
  shows "gate lookup J now (\<lambda>_. False) l (reindex_link J l now)"
proof (cases "il_rag_file_id l")
  case None
  with st show ?thesis
    by (simp add: reindex_link_def gate_register unregistered_def)
next
  case (Some g)
  let ?l = "applied clear_patch now l"
  have "unregistered ?l" using st by (simp add: unregistered_def clear_patch_def no_change_def)
  then have "gate lookup J now (\<lambda>_. False) l (bind (write_row J l now clear_patch)
      (\<lambda>x. case x of None \<Rightarrow> ret O_FAILED | Some l' \<Rightarrow> register_link J l' now))"
    using st Some by (intro gate_write_prep prep_step.intros) (auto intro: gate_register)
  with st Some show ?thesis
    by (auto simp: reindex_link_def active_def clear_patch_def intro!: gate_vectors_then)
qed

lemma gate_on_rekey_http:
  assumes st: "il_state l = PENDING" and g: "il_rag_file_id l \<noteq> None"
  shows "gate lookup J now (\<lambda>_. False) l (on_rekey_http J l now status code)"
proof -
  let ?l = "applied changed_patch now l"
  have "il_state ?l = REINDEX_PENDING" by (simp add: changed_patch_def no_change_def)
  then have "gate lookup J now (\<lambda>_. False) l (bind (write_row J l now changed_patch)
      (\<lambda>x. case x of None \<Rightarrow> ret O_FAILED | Some l' \<Rightarrow> reindex_link J l' now))"
    using st g by (intro gate_write_prep prep_step.intros) (auto intro: gate_reindex)
  then show ?thesis
    using st by (auto simp: on_rekey_http_def changed_patch_def active_def intro!: gate_fail)
qed

lemma gate_rekey:
  assumes st: "il_state l = PENDING" and g: "il_rag_file_id l = Some g"
  shows "gate lookup J now (\<lambda>_. False) l (rekey_link J l now)"
proof -
  have a: "locatable l" by (simp add: locatable_def st)
  show ?thesis
    using g st unfolding rekey_link_def
    by (auto intro!: gate_rest gate_locate a gate_on_http gate_on_rekey_http gate_rekeyed)
qed

lemma gate_polled:
  assumes st: "il_state l = SUBMITTED" and g: "il_rag_file_id l \<noteq> None"
  shows "gate lookup J now (\<lambda>_. False) l (on_polled_card J l now fc)"
proof -
  have a: "active l" by (simp add: active_def st)
  have wait: "gate lookup J now (\<lambda>_. False) l (bind (write_row J l now
        (no_change\<lparr>t_next_attempt_at := SET (Some (now + backoff (il_attempts l)))\<rparr>)) (\<lambda>_. ret RETRIED))"
    if "\<not> sj_max_wait_seconds J * SECOND \<le> now - il_updated_at l"
    using final_step.still_indexing [OF st, of now "sj_max_wait_seconds J"] that
    by (auto simp: later_patch_def no_change_def intro!: gate_write)
  show ?thesis
    unfolding on_polled_card_def Let_def
    by (intro gate_if gate_ready gate_fail gate_gone wait a st g refl)
qed

lemma gate_poll:
  assumes st: "il_state l = SUBMITTED" shows "gate lookup J now (\<lambda>_. False) l (poll_link J l now)"
proof -
  have a: "active l" by (simp add: active_def st)
  show ?thesis
    unfolding poll_link_def
    by (intro gate_case_option gate_register gate_rest gate_on_http gate_if gate_gone gate_fail
        gate_polled rowless_rag) (use a st in \<open>auto simp: unregistered_def\<close>)
qed

lemma gate_dispatch: "gate lookup J now (\<lambda>_. False) l (dispatch J l now)"
  unfolding dispatch_def
  by (intro gate_if gate_ret gate_poll gate_remove gate_reindex gate_register)
    (auto simp: unregistered_def intro: gate_rekey)

text \<open>Which errors can leave a removal.\<close>

lemma no_http_ret [simp]: "no_http (ret x)"
  by (simp add: no_http_def)

lemma no_http_raise [simp]: "no_http (raise e) \<longleftrightarrow> (\<forall>s c d. e \<noteq> Rag_Http s c d)"
  by (simp add: no_http_def)

lemma no_http_bind: "no_http m \<Longrightarrow> (\<And>x. no_http (f x)) \<Longrightarrow> no_http (bind m f)"
  by (auto simp: no_http_def bind_Inl)

lemma no_http_try: "(\<And>e. no_http (h e)) \<Longrightarrow> no_http (try_except m h)"
  by (auto simp: no_http_def try_except_def split: prod.splits sum.splits)

lemma no_http_write [simp]: "no_http (write_row J k now t)"
  using transition_errors by (fastforce simp: no_http_def write_row_def is_rag_error_def)

lemma no_http_remove: "no_http (remove_link J l now st)"
  unfolding remove_link_def delete_vectors_def schedule_retry_def fail_row_def settle_def Let_def
  by (auto intro!: no_http_bind no_http_try split: option.split exn.split)

text \<open>A handler that runs after the method has failed, on the row as it was left.\<close>

lemma moved_then:
  assumes first: "moved lookup J now l w False w1"
    and rest: "\<And>m. (prep_step now)\<^sup>*\<^sup>* l m \<Longrightarrow> lookup (il_id m) w1 = Some m \<Longrightarrow> moved lookup J now m w1 b w'"
  shows "moved lookup J now l w b w'"
proof -
  from first obtain m where m: "(prep_step now)\<^sup>*\<^sup>* l m" "lookup (il_id l) w1 = Some m"
    and others: "\<And>j. j \<noteq> il_id l \<Longrightarrow> lookup j w1 = lookup j w"
    by (auto simp: moved_def)
  have id: "il_id m = il_id l" using prep_steps_frame [OF m(1)] by simp
  have "moved lookup J now m w1 b w'" using m by (intro rest) (simp_all add: id)
  then obtain m' l' where "(prep_step now)\<^sup>*\<^sup>* m m'" "lookup (il_id l) w' = Some l'"
    "l' = m' \<or> b \<and> final_step now (sj_max_attempts J) (sj_max_wait_seconds J) m' l'"
    "\<forall>j. j \<noteq> il_id l \<longrightarrow> lookup j w' = lookup j w1"
    by (auto simp: moved_def id)
  with m(1) others show ?thesis
    unfolding moved_def by (metis rtranclp_trans)
qed

lemma follows_moved:
  "gate lookup J now (\<lambda>_. False) l m \<Longrightarrow> lookup (il_id l) w = Some l \<Longrightarrow> m w = (r, w') \<Longrightarrow> moved lookup J now l w (\<not> isl r) w'"
  by (drule (2) gateD) (auto simp: gated_def split: sum.splits)

lemma moved_weaken: "moved lookup J now l w b w' \<Longrightarrow> moved lookup J now l w True w'"
  by (auto simp: moved_def)

lemma dispatch_idle: "il_state l \<notin> set DUE_INDEX_STATES \<Longrightarrow> dispatch J l now = ret O_SKIPPED"
  by (cases "il_state l") (auto simp: dispatch_def DUE_INDEX_STATES_def)

text \<open>The handlers of \<open>_process\<close>: they see the row as it was claimed, not as it was left.\<close>

lemma handler_moves:
  assumes steps: "(prep_step now)\<^sup>*\<^sup>* l m" and m: "lookup (il_id m) w = Some m"
    and due: "il_state l \<in> set DUE_INDEX_STATES"
  shows "schedule_retry J l now c w = (r, w') \<Longrightarrow> moved lookup J now m w (\<not> isl r) w'"
    and "il_state l \<notin> {REMOVED, ARCHIVED} \<Longrightarrow> fail_row J l now c w = (r, w') \<Longrightarrow> moved lookup J now m w (\<not> isl r) w'"
proof -
  have f: "il_id l = il_id m" "il_attempts l = il_attempts m"
    "il_state m \<in> set DUE_INDEX_STATES" "il_state l = SUBMITTED \<longleftrightarrow> il_state m = SUBMITTED"
    and a: "il_state l \<notin> {REMOVED, ARCHIVED} \<Longrightarrow> active m"
    using prep_steps_frame [OF steps] due by (auto simp: DUE_INDEX_STATES_def active_def)
  show "schedule_retry J l now c w = (r, w') \<Longrightarrow> moved lookup J now m w (\<not> isl r) w'"
    by (rule follows_moved [OF gate_retry m]) (use f in auto)
  show "il_state l \<notin> {REMOVED, ARCHIVED} \<Longrightarrow> fail_row J l now c w = (r, w') \<Longrightarrow> moved lookup J now m w (\<not> isl r) w'"
    by (rule follows_moved [OF gate_fail m]) (use f a in auto)
qed

text \<open>One tick of one row: it never raises, moves the row along the relation, and no other.\<close>

lemma process_returns: "returns (process J k now)"
  unfolding process_def by (rule returns_try) simp

lemma process_moves:
  assumes l: "lookup (il_id l) w = Some l" and run: "process J l now w = (Inr out, w')"
  shows "moved lookup J now l w True w'"
proof (cases "il_state l \<in> set DUE_INDEX_STATES")
  case False
  then have "w' = w" using run by (simp add: process_def dispatch_idle try_except_def)
  with l show ?thesis by (auto intro: same_rows_moved)
next
  case due: True
  obtain r1 w1 where d: "dispatch J l now w = (r1, w1)" by fastforce
  with l have first: "moved lookup J now l w (\<not> isl r1) w1" by (rule follows_moved [OF gate_dispatch])
  show ?thesis
  proof (cases r1)
    case (Inr x)
    with run d have "w' = w1" by (simp add: process_def try_except_def)
    with first Inr show ?thesis by simp
  next
    case (Inl e)
    define h where "h = (case e of
        Rag_Unavailable status code \<Rightarrow>
          schedule_retry J l now (or_else code ERROR_DEPENDENCY_UNAVAILABLE)
      | Rag_Http status code details \<Rightarrow> fail_row J l now (http_error_code status code)
      | _ \<Rightarrow> raise e)"
    obtain r2 w2 where h: "h w1 = (r2, w2)" by fastforce
    have w': "w' = w2"
      using run d Inl h
      by (simp add: process_def try_except_def h_def [symmetric] split: sum.splits)
    have http: "il_state l \<notin> {REMOVED, ARCHIVED}" if "e = Rag_Http s c ds" for s c ds
      using that d Inl no_http_remove
      by (auto simp: dispatch_def no_http_def DUE_INDEX_STATES_def)
    have "moved lookup J now l w (\<not> isl r2) w2"
    proof (rule moved_then)
      show "moved lookup J now l w False w1" using first Inl by simp
    next
      fix m assume steps: "(prep_step now)\<^sup>*\<^sup>* l m" and m: "lookup (il_id m) w1 = Some m"
      show "moved lookup J now m w1 (\<not> isl r2) w2"
        using h http handler_moves [OF steps m due] m
        by (auto simp: h_def split: exn.splits intro: same_rows_moved)
    qed
    then show ?thesis by (auto simp: w' intro: moved_weaken)
  qed
qed

lemma process_ticks:
  assumes "lookup (il_id l) w = Some l"
  shows "\<exists>out w' l'. process J l now w = (Inr out, w') \<and> lookup (il_id l) w' = Some l' \<and>
    tick_step now (sj_max_attempts J) (sj_max_wait_seconds J) l l' \<and>
    (\<forall>j. j \<noteq> il_id l \<longrightarrow> lookup j w' = lookup j w)"
proof -
  obtain out w' where run: "process J l now w = (Inr out, w')"
    using returnsD [OF process_returns] by blast
  have "moved lookup J now l w True w'" by (rule process_moves [OF assms run])
  then obtain m l' where "(prep_step now)\<^sup>*\<^sup>* l m" and "lookup (il_id l) w' = Some l'"
    and "l' = m \<or> final_step now (sj_max_attempts J) (sj_max_wait_seconds J) m l'"
    and "\<forall>j. j \<noteq> il_id l \<longrightarrow> lookup j w' = lookup j w"
    by (auto simp: moved_def)
  with run show ?thesis by (intro exI [of _ out] exI [of _ w'] exI [of _ l']) (auto simp: tick_step_def)
qed

text \<open>A batch: every row of it ticks once, whatever happened to the rows before it.\<close>

lemma batch_ticks:
  assumes "distinct (map il_id ls)" and "\<forall>l \<in> set ls. lookup (il_id l) w = Some l"
  shows "\<exists>outs w'. map_act (\<lambda>l. process J l now) ls w = (Inr outs, w') \<and> length outs = length ls \<and>
    (\<forall>l \<in> set ls. \<exists>l'. lookup (il_id l) w' = Some l' \<and>
      tick_step now (sj_max_attempts J) (sj_max_wait_seconds J) l l') \<and>
    (\<forall>j. j \<notin> il_id ` set ls \<longrightarrow> lookup j w' = lookup j w)"
  using assms
proof (induction ls arbitrary: w)
  case (Cons l ls)
  then have l: "lookup (il_id l) w = Some l" by simp
  from process_ticks [OF l] obtain out w1 l' where 1: "process J l now w = (Inr out, w1)"
    "lookup (il_id l) w1 = Some l'" "tick_step now (sj_max_attempts J) (sj_max_wait_seconds J) l l'"
    "\<And>j. j \<noteq> il_id l \<Longrightarrow> lookup j w1 = lookup j w" by blast
  have new: "il_id l \<notin> il_id ` set ls" using Cons.prems(1) by simp
  have "\<forall>k \<in> set ls. lookup (il_id k) w1 = Some k"
  proof
    fix k assume k: "k \<in> set ls"
    with new have "il_id k \<noteq> il_id l" by (metis image_eqI)
    with k Cons.prems(2) 1(4) show "lookup (il_id k) w1 = Some k" by simp
  qed
  with Cons.IH [of w1] Cons.prems(1) obtain outs w' where 2:
    "map_act (\<lambda>l. process J l now) ls w1 = (Inr outs, w')" "length outs = length ls"
    "\<forall>l \<in> set ls. \<exists>l'. lookup (il_id l) w' = Some l' \<and>
      tick_step now (sj_max_attempts J) (sj_max_wait_seconds J) l l'"
    "\<forall>j. j \<notin> il_id ` set ls \<longrightarrow> lookup j w' = lookup j w1" by auto
  have "map_act (\<lambda>l. process J l now) (l # ls) w = (Inr (out # outs), w')"
    using 1(1) 2(1) by (simp add: bind_def)
  moreover have "lookup (il_id l) w' = Some l'" using 2(4) new 1(2) by simp
  ultimately show ?case using 1 2 by (intro exI [of _ "out # outs"] exI [of _ w']) auto
qed simp

end

section \<open>What a tick can do to a row\<close>

inductive_cases final_stepE: "final_step now n wt l l'"

lemma tick_stepE:
  assumes "tick_step now n wt l l'"
  obtains (prep) "(prep_step now)\<^sup>*\<^sup>* l l'"
    | (final) m where "(prep_step now)\<^sup>*\<^sup>* l m" "final_step now n wt m l'"
  using assms by (auto simp: tick_step_def)

lemma prep_steps_id: "(prep_step now)\<^sup>*\<^sup>* l m \<Longrightarrow> il_state l \<notin> {PENDING, REINDEX_PENDING} \<Longrightarrow> m = l"
  using prep_steps_frame by blast

lemma tick_frame:
  "tick_step now n wt l l' \<Longrightarrow> il_id l' = il_id l \<and> il_user_id l' = il_user_id l \<and>
    il_file_record_id l' = il_file_record_id l \<and> il_section l' = il_section l \<and>
    il_s3_key l' = il_s3_key l \<and> il_created_at l' = il_created_at l"
  by (erule tick_stepE) (auto dest!: prep_steps_frame final_step_frame)

lemma tick_idle: "tick_step now n wt l l' \<Longrightarrow> il_state l \<notin> set DUE_INDEX_STATES \<Longrightarrow> l' = l"
  by (erule tick_stepE) (auto dest!: prep_steps_id final_step_frame simp: DUE_INDEX_STATES_def)

lemma tick_removed:
  assumes "tick_step now n wt l l'" and "il_state l \<in> {REMOVED, ARCHIVED}"
  shows "il_state l' \<in> {il_state l, FAILED} \<and> il_rag_file_id l' = il_rag_file_id l"
  using assms(1)
proof (cases rule: tick_stepE)
  case prep
  then show ?thesis using prep_steps_id assms(2) by (metis index_state.distinct insert_iff singletonD)
next
  case (final m)
  then have "m = l" using prep_steps_id assms(2) by (auto dest: prep_steps_id)
  with final(2) assms(2) show ?thesis
    by (auto elim!: final_stepE simp: patch_defs unregistered_def split: if_splits)
qed

lemma tick_attempts:
  assumes "tick_step now n wt l l'" and "il_attempts l < n" and "0 \<le> il_attempts l"
  shows "0 \<le> il_attempts l' \<and> il_attempts l' \<le> il_attempts l + 1 \<and>
    (il_attempts l' = n \<longrightarrow> il_state l' \<in> {FAILED, SKIPPED})"
  using assms(1)
proof (cases rule: tick_stepE)
  case prep
  then show ?thesis using prep_steps_frame assms by fastforce
next
  case (final m)
  then have "il_attempts m = il_attempts l" using prep_steps_frame by blast
  with final(2) assms(2,3) show ?thesis
    by (auto elim!: final_stepE simp: patch_defs split: if_splits)
qed

text \<open>A submitted row that stays submitted keeps its wait clock.\<close>

lemma tick_wait_clock:
  assumes "tick_step now n wt l l'" and "il_state l = SUBMITTED" and "il_rag_file_id l \<noteq> None"
    and "il_state l' = SUBMITTED"
  shows "il_updated_at l' = il_updated_at l \<and> il_rag_file_id l' = il_rag_file_id l"
  using assms(1)
proof (cases rule: tick_stepE)
  case prep
  then show ?thesis using prep_steps_id assms(2) by (metis index_state.distinct insert_iff singletonD)
next
  case (final m)
  then have "m = l" using assms(2) by (auto dest: prep_steps_id)
  with final(2) assms(2-4) show ?thesis
    by (auto elim!: final_stepE
        simp: patch_defs unregistered_def applied_def payload_changes_def hash_changes_def)
qed

text \<open>Every rescheduled attempt lies between half a minute and an hour ahead.\<close>

lemma backoff_bounds: "0 \<le> k \<Longrightarrow> 30 * SECOND \<le> backoff k \<and> backoff k \<le> 3600 * SECOND"
proof -
  have "(1::int) \<le> 2 ^ nat (max k 0)" by simp
  then have "30 \<le> min 3600 (30 * (2::int) ^ nat (max k 0))" by (simp add: min_def)
  then show ?thesis
    by (auto simp: backoff_def SECOND_def BACKOFF_CAP_SECONDS_def BACKOFF_BASE_SECONDS_def)
qed

lemma backoff_mono:
  assumes "j \<le> k" shows "backoff j \<le> backoff k"
proof -
  have "nat (max j 0) \<le> nat (max k 0)" using assms by simp
  then have p: "(2::int) ^ nat (max j 0) \<le> 2 ^ nat (max k 0)" by (rule power_increasing) simp
  show ?thesis
    unfolding backoff_def
    by (intro mult_right_mono min.mono order_refl mult_left_mono p)
      (simp_all add: SECOND_def BACKOFF_BASE_SECONDS_def)
qed

end
