(* ===== verification/LinkRepo.thy ===== *)
theory LinkRepo
  imports IndexPorts
begin

text \<open>
  \<open>FileIndexLinkRepository\<close> (\<open>infrastructure/database/repositories/file_index_link_repo.py\<close>): the
  queue table \<open>file_index_links\<close>. A select is a filter of the table, \<open>order_by\<close> a stable sort by
  the named columns, \<open>limit\<close> a prefix. A flush checks the constraints of the table
  (\<open>models.py\<close>: primary key, unique \<open>file_record_id\<close>, unique \<open>rag_file_id\<close>, foreign key);
  a failed flush outside a savepoint leaves the session unusable.
\<close>

section \<open>Rows and links\<close>

definition to_link :: "index_link \<Rightarrow> index_link" where
  "to_link m = m\<lparr>il_content_sha256 := clean_hash (il_content_sha256 m)\<rparr>"

definition insert_state :: "registration_decision \<Rightarrow> index_state \<times> string option" where
  "insert_state d =
     (if rd_kind d = SKIP then (SKIPPED, map_option skip_code_value (rd_skip_code d))
      else (PENDING, None))"

text \<open>One \<open>if not isinstance(v, UnsetType) and model.col != v: model.col = v\<close>.\<close>

definition assign_column ::
  "'a column \<Rightarrow> 'a \<Rightarrow> ('a \<Rightarrow> index_link \<Rightarrow> index_link) \<Rightarrow> index_link \<times> bool \<Rightarrow> index_link \<times> bool" where
  "assign_column c old upd mf = (case c of UNSET \<Rightarrow> mf
     | SET v \<Rightarrow> if old \<noteq> v then (upd v (fst mf), True) else mf)"

definition assign_hash ::
  "string option column \<Rightarrow> string option \<Rightarrow> index_link \<times> bool \<Rightarrow> index_link \<times> bool" where
  "assign_hash c old mf = (case c of UNSET \<Rightarrow> mf
     | SET h \<Rightarrow> assign_column (SET (clean_hash h)) (clean_hash old)
         (\<lambda>v. il_content_sha256_update (\<lambda>_. v)) mf)"

definition assign_transition :: "index_link \<Rightarrow> transition \<Rightarrow> index_link \<times> bool \<times> bool" where
  "assign_transition m t =
     (let (m1, state_changed) = assign_column (t_state t) (il_state m)
            (\<lambda>v. il_state_update (\<lambda>_. v)) (m, False);
          (m2, _) = assign_column (t_attempts t) (il_attempts m)
            (\<lambda>v. il_attempts_update (\<lambda>_. v)) (m1, False);
          (m3, _) = assign_column (t_next_attempt_at t) (il_next_attempt_at m)
            (\<lambda>v. il_next_attempt_at_update (\<lambda>_. v)) (m2, False);
          p4 = assign_column (t_rag_file_id t) (il_rag_file_id m)
            (\<lambda>v. il_rag_file_id_update (\<lambda>_. v)) (m3, False);
          p5 = assign_column (t_last_error_code t) (il_last_error_code m)
            (\<lambda>v. il_last_error_code_update (\<lambda>_. v)) p4;
          p6 = assign_column (t_s3_key t) (il_s3_key m) (\<lambda>v. il_s3_key_update (\<lambda>_. v)) p5;
          p7 = assign_hash (t_content_sha256 t) (il_content_sha256 m) p6;
          (m8, payload_changed) = assign_column (t_content_type t) (il_content_type m)
            (\<lambda>v. il_content_type_update (\<lambda>_. v)) p7
      in (m8, state_changed, payload_changed))"

section \<open>Table and constraints\<close>

fun somes :: "'a option list \<Rightarrow> 'a list" where
  "somes [] = []"
| "somes (None # xs) = somes xs"
| "somes (Some x # xs) = x # somes xs"

lemma set_somes [simp]: "x \<in> set (somes xs) \<longleftrightarrow> Some x \<in> set xs"
  by (induction xs rule: somes.induct) auto

lemma filter_unique_key:
  "distinct (somes (map f xs)) \<Longrightarrow> m \<in> set xs \<Longrightarrow> f m = Some k \<Longrightarrow>
    filter (\<lambda>x. f x = Some k) xs = [m]"
proof (induction xs)
  case (Cons x xs)
  show ?case
  proof (cases "f x = Some k")
    case True
    with Cons.prems(1) have none: "y \<in> set xs \<Longrightarrow> f y \<noteq> Some k" for y
      by (auto simp: image_iff)
    with Cons.prems(2,3) have "m = x" by auto
    with True none show ?thesis by (auto simp: filter_empty_conv)
  next
    case False
    with Cons show ?thesis by (cases "f x") auto
  qed
qed simp

definition link_constraints :: "index_link list \<Rightarrow> bool" where
  "link_constraints ls \<longleftrightarrow> distinct (map il_id ls) \<and>
     distinct (somes (map il_file_record_id ls)) \<and> distinct (somes (map il_rag_file_id ls))"

definition replace_link :: "index_link \<Rightarrow> index_link list \<Rightarrow> index_link list" where
  "replace_link m ls = map (\<lambda>l. if il_id l = il_id m then m else l) ls"

definition get_link :: "uuid \<Rightarrow> world \<Rightarrow> index_link option" where
  "get_link i w = find (\<lambda>l. il_id l = i) (links w)"

text \<open>\<open>session.flush()\<close> of one changed row.\<close>

definition flush_link :: "index_link \<Rightarrow> unit action" where
  "flush_link m = (\<lambda>w.
     if broken w then (Inl Pending_Rollback, w)
     else let ls = replace_link m (links w)
          in if link_constraints ls then (Inr (), w\<lparr>links := ls\<rparr>)
             else (Inl (Integrity_Error True), w\<lparr>broken := True\<rparr>))"

text \<open>
  The insert of one row inside \<open>begin_nested()\<close>. \<open>race\<close> says whether another session committed
  a row for the same file record after the check above it; that row is then visible. A failure
  rolls back to the savepoint and the session stays usable.
\<close>

definition insert_link :: "env \<Rightarrow> index_link \<Rightarrow> unit action" where
  "insert_link E m = (\<lambda>w.
     if broken w then (Inl Pending_Rollback, w)
     else (case (case il_file_record_id m of None \<Rightarrow> None | Some f \<Rightarrow> race E f) of
       Some (Some l) \<Rightarrow>
         (let ls = links w @ [l\<lparr>il_file_record_id := il_file_record_id m\<rparr>]
          in (Inl (Integrity_Error True), if link_constraints ls then w\<lparr>links := ls\<rparr> else w))
     | Some None \<Rightarrow> (Inl (Integrity_Error True), w)
     | None \<Rightarrow>
         if il_file_record_id m \<notin> Some ` fr_id ` set (files w) then (Inl (Integrity_Error False), w)
         else (let ls = links w @ [m]
               in if link_constraints ls then (Inr (), w\<lparr>links := ls\<rparr>)
                  else (Inl (Integrity_Error True), w))))"

definition moment :: "env \<Rightarrow> instant option \<Rightarrow> instant action" where
  "moment E now = (case now of None \<Rightarrow> utc_now E | Some t \<Rightarrow> ret t)"

definition refuse_record :: "file_record \<Rightarrow> unit action" where
  "refuse_record r =
     (if fr_section r = PRIVATE \<or> fr_is_encrypted r then raise Private_Index_Refused else ret ())"

definition refuse_model :: "index_link \<Rightarrow> unit action" where
  "refuse_model m = (if il_section m \<noteq> PRIVATE then ret () else raise Private_Index_Refused)"

definition is_excluded :: "file_record \<Rightarrow> registration_decision \<Rightarrow> bool" where
  "is_excluded r d =
     (if fr_section r \<notin> set indexed_sections then True
      else rd_skip_code d = Some EXCLUDED_SECTION)"

definition require_limit :: "int \<Rightarrow> unit action" where
  "require_limit n = (if n < 1 then raise Value_Error else ret ())"

definition model_by_file_record_id :: "uuid \<Rightarrow> index_link option action" where
  "model_by_file_record_id f =
     bind (query (\<lambda>w. filter (\<lambda>l. il_file_record_id l = Some f) (links w))) one_or_none"

section \<open>Operations\<close>

definition upsert_pending ::
  "env \<Rightarrow> file_record \<Rightarrow> registration_decision \<Rightarrow> instant option \<Rightarrow> index_link option action" where
  "upsert_pending E r d now =
     bind (refuse_record r) (\<lambda>_.
     if is_excluded r d then ret None else
     bind (model_by_file_record_id (fr_id r)) (\<lambda>existing.
     case existing of
       Some m \<Rightarrow> bind (refuse_model m) (\<lambda>_. ret (Some (to_link m)))
     | None \<Rightarrow>
         bind (moment E now) (\<lambda>t.
         bind (new_uuid E) (\<lambda>i.
         let m = \<lparr>il_id = i, il_file_record_id = Some (fr_id r), il_user_id = fr_user_id r,
                  il_section = fr_section r, il_s3_key = rd_s3_key d,
                  il_content_sha256 = rd_content_sha256 d, il_content_type = rd_content_type d,
                  il_rag_file_id = None, il_state = fst (insert_state d), il_attempts = 0,
                  il_next_attempt_at = None, il_last_error_code = snd (insert_state d),
                  il_created_at = t, il_updated_at = t\<rparr>
         in try_except
              (bind (insert_link E m) (\<lambda>_. ret (Some (to_link m))))
              (\<lambda>e. case e of
                  Integrity_Error True \<Rightarrow>
                    bind (model_by_file_record_id (fr_id r)) (\<lambda>raced.
                    case raced of None \<Rightarrow> raise e
                    | Some m' \<Rightarrow> bind (refuse_model m') (\<lambda>_. ret (Some (to_link m'))))
                | _ \<Rightarrow> raise e)))))"

definition get_by_file_record_id :: "uuid \<Rightarrow> index_link option action" where
  "get_by_file_record_id f =
     bind (model_by_file_record_id f) (\<lambda>m. ret (map_option to_link m))"

definition get_by_rag_file_id :: "uuid \<Rightarrow> index_link option action" where
  "get_by_rag_file_id g =
     bind (query (\<lambda>w. filter (\<lambda>l. il_rag_file_id l = Some g) (links w))) (\<lambda>xs.
     bind (one_or_none xs) (\<lambda>m. ret (map_option to_link m)))"

definition by_age :: "index_link list \<Rightarrow> index_link list" where
  "by_age ls = sort_key (\<lambda>l. (il_created_at l, il_id l)) ls"

definition list_by_user_state :: "uuid \<Rightarrow> index_state \<Rightarrow> index_link list action" where
  "list_by_user_state u st =
     query (\<lambda>w. map to_link (by_age (filter (\<lambda>l. il_user_id l = u \<and> il_state l = st) (links w))))"

definition apply_transition ::
  "env \<Rightarrow> uuid \<Rightarrow> transition \<Rightarrow> instant option \<Rightarrow> index_link option action" where
  "apply_transition E i t now =
     bind (query (get_link i)) (\<lambda>found.
     case found of
       None \<Rightarrow> ret None
     | Some m \<Rightarrow>
         bind (refuse_model m) (\<lambda>_.
         let (m', state_changed, payload_changed) = assign_transition m t in
         bind (if state_changed \<or> payload_changed
               then bind (moment E now) (\<lambda>ts. ret (m'\<lparr>il_updated_at := ts\<rparr>))
               else ret m') (\<lambda>m''.
         bind (flush_link m'') (\<lambda>_. ret (Some (to_link m''))))))"

definition require_file_link :: "uuid \<Rightarrow> index_link option action" where
  "require_file_link f =
     bind (model_by_file_record_id f) (\<lambda>found.
     case found of None \<Rightarrow> ret None | Some m \<Rightarrow> bind (refuse_model m) (\<lambda>_. ret (Some m)))"

definition mark_content_changed ::
  "env \<Rightarrow> uuid \<Rightarrow> registration_decision \<Rightarrow> instant option \<Rightarrow> index_link option action" where
  "mark_content_changed E f d now =
     bind (require_file_link f) (\<lambda>found.
     case found of
       None \<Rightarrow> ret None
     | Some m \<Rightarrow>
         apply_transition E (il_id m)
           (no_change\<lparr>t_state := SET (if il_rag_file_id m \<noteq> None then REINDEX_PENDING else PENDING),
              t_attempts := SET 0, t_s3_key := SET (rd_s3_key d),
              t_content_sha256 := SET (rd_content_sha256 d),
              t_content_type := SET (rd_content_type d),
              t_last_error_code := SET None, t_next_attempt_at := SET None\<rparr>) now)"

definition mark_rekey :: "env \<Rightarrow> uuid \<Rightarrow> string \<Rightarrow> instant option \<Rightarrow> index_link option action" where
  "mark_rekey E f key now =
     bind (require_file_link f) (\<lambda>found.
     case found of
       None \<Rightarrow> ret None
     | Some m \<Rightarrow>
         bind (moment E now) (\<lambda>ts.
         if il_rag_file_id m = None then
           (if il_s3_key m \<noteq> key then
              let m' = m\<lparr>il_s3_key := key, il_updated_at := ts\<rparr>
              in bind (flush_link m') (\<lambda>_. ret (Some (to_link m')))
            else ret (Some (to_link m)))
         else apply_transition E (il_id m)
                (no_change\<lparr>t_state := SET PENDING, t_s3_key := SET key,
                   t_next_attempt_at := SET (Some ts)\<rparr>) (Some ts)))"

definition mark_removed :: "env \<Rightarrow> uuid list \<Rightarrow> instant option \<Rightarrow> index_link list action" where
  "mark_removed E fs now =
     (let ordered_ids = fromkeys fs in
      if ordered_ids = [] then ret [] else
      bind (query (\<lambda>w. filter (\<lambda>l. \<exists>f \<in> set ordered_ids. il_file_record_id l = Some f) (links w))) (\<lambda>found.
      if found = [] then ret [] else
      bind (moment E now) (\<lambda>ts.
      bind (map_act (\<lambda>f.
              case find (\<lambda>l. il_file_record_id l = Some f) (rev found) of
                None \<Rightarrow> ret None
              | Some m \<Rightarrow> apply_transition E (il_id m)
                  (no_change\<lparr>t_state := SET REMOVED, t_next_attempt_at := SET None\<rparr>) (Some ts))
            ordered_ids) (\<lambda>ls. ret (somes ls)))))"

definition mark_archived :: "env \<Rightarrow> uuid \<Rightarrow> instant option \<Rightarrow> index_link option action" where
  "mark_archived E f now =
     bind (model_by_file_record_id f) (\<lambda>found.
     case found of
       None \<Rightarrow> ret None
     | Some m \<Rightarrow> apply_transition E (il_id m)
         (no_change\<lparr>t_state := SET ARCHIVED, t_next_attempt_at := SET None\<rparr>) now)"

text \<open>The \<open>where\<close> clause of \<open>claim_due\<close>.\<close>

definition due :: "instant \<Rightarrow> index_link \<Rightarrow> bool" where
  "due now l \<longleftrightarrow> il_state l \<in> set DUE_INDEX_STATES \<and> il_section l \<noteq> PRIVATE \<and>
     (case il_next_attempt_at l of None \<Rightarrow> True | Some t \<Rightarrow> t \<le> now)"

definition claim_due :: "env \<Rightarrow> int \<Rightarrow> instant \<Rightarrow> index_link list action" where
  "claim_due E n now =
     bind (require_limit n) (\<lambda>_.
     query (\<lambda>w. map to_link (take (nat n)
       (by_age (filter (\<lambda>l. due now l \<and> \<not> row_locked E (il_id l)) (links w))))))"

definition retry_failed :: "env \<Rightarrow> int \<Rightarrow> instant option \<Rightarrow> int action" where
  "retry_failed E n now =
     bind (require_limit n) (\<lambda>_.
     bind (query (\<lambda>w. take (nat n) (by_age (filter (\<lambda>l. il_state l = FAILED) (links w))))) (\<lambda>models.
     if models = [] then ret 0 else
     bind (moment E now) (\<lambda>ts.
     bind (map_act (\<lambda>m. apply_transition E (il_id m)
             (no_change\<lparr>t_state := SET (if il_rag_file_id m \<noteq> None then SUBMITTED else PENDING),
                t_attempts := SET 0, t_next_attempt_at := SET None,
                t_last_error_code := SET None\<rparr>) (Some ts)) models)
       (\<lambda>ls. ret (int (length (somes ls)))))))"

definition backfill_select :: "backfill_cursor option \<Rightarrow> world \<Rightarrow> file_record list" where
  "backfill_select after w =
     filter (\<lambda>r.
       (\<forall>l \<in> set (links w). il_file_record_id l \<noteq> Some (fr_id r)) \<and>
       fr_status r \<in> {S_COMMITTED, S_ARCHIVED} \<and> fr_section r \<in> {FILES, PHOTOS} \<and>
       (case after of None \<Rightarrow> True
        | Some c \<Rightarrow> fr_created_at r > bc_created_at c \<or>
            fr_created_at r = bc_created_at c \<and> fr_id r > bc_record_id c)) (files w)"

definition backfill_candidates :: "int \<Rightarrow> backfill_cursor option \<Rightarrow> file_record list action" where
  "backfill_candidates n after =
     bind (require_limit n) (\<lambda>_.
     query (\<lambda>w. take (nat n) (sort_key (\<lambda>r. (fr_created_at r, fr_id r)) (backfill_select after w))))"

definition count_remaining :: "backfill_cursor option \<Rightarrow> int action" where
  "count_remaining after = query (\<lambda>w. int (length (backfill_select after w)))"

definition count_state :: "index_link list \<Rightarrow> index_state \<Rightarrow> int" where
  "count_state ls st = int (length (filter (\<lambda>l. il_state l = st) ls))"

definition counts_for_user :: "uuid \<Rightarrow> user_index_counts action" where
  "counts_for_user u = query (\<lambda>w.
     let ls = filter (\<lambda>l. il_user_id l = u) (links w)
     in \<lparr>uc_indexed = count_state ls INDEXED,
         uc_pending = sum_list (map (count_state ls) [PENDING, SUBMITTED, REINDEX_PENDING]),
         uc_failed = count_state ls FAILED,
         uc_skipped = count_state ls SKIPPED,
         uc_total = sum_list (map (count_state ls) all_index_states)\<rparr>)"

definition admin_snapshot :: "admin_index_snapshot action" where
  "admin_snapshot = query (\<lambda>w.
     let pending = map il_created_at (filter (\<lambda>l. il_state l = PENDING) (links w));
         codes = somes (map il_last_error_code (links w))
     in \<lparr>as_by_state = map (\<lambda>st. (st, count_state (links w) st)) all_index_states,
         as_oldest_pending_at = (if pending = [] then None else Some (Min (set pending))),
         as_last_errors = sort_key (\<lambda>(c, n). (- n, c))
           (map (\<lambda>c. (c, int (count_list codes c))) (fromkeys codes))\<rparr>)"

definition indexed_photos_by_rag_file_id ::
  "uuid \<Rightarrow> uuid list \<Rightarrow> (uuid \<times> index_link) list action" where
  "indexed_photos_by_rag_file_id u gs =
     (if gs = [] then ret [] else
      query (\<lambda>w. map (\<lambda>l. (the (il_rag_file_id l), to_link l))
        (filter (\<lambda>l. il_user_id l = u \<and> (\<exists>g \<in> set gs. il_rag_file_id l = Some g) \<and>
                     il_section l = PHOTOS \<and> il_state l = INDEXED) (links w))))"

definition original_names :: "uuid list \<Rightarrow> (uuid \<times> string) list action" where
  "original_names fs =
     (let unique_ids = fromkeys fs in
      if unique_ids = [] then ret [] else
      query (\<lambda>w. map (\<lambda>r. (fr_id r, fr_original_name r))
        (filter (\<lambda>r. fr_id r \<in> set unique_ids \<and> fr_original_name r \<noteq> []) (files w))))"


section \<open>What an update does to a row\<close>

lemma assign_column_eq:
  "upd old m = m \<Longrightarrow>
    assign_column c old upd (m, f) = (upd (new_value c old) m, f \<or> changes c old)"
  by (cases c) (auto simp: assign_column_def)

text \<open>\<open>_assign_transition\<close> as one record update and its two change flags.\<close>

lemma assign_hash_eq:
  "il_content_sha256 m = old \<Longrightarrow>
    assign_hash c old (m, f) =
   (m\<lparr>il_content_sha256 := new_hash c old\<rparr>, f \<or> hash_changes c old)"
  by (cases m; cases c) (auto simp: hash_changes_def new_hash_def assign_column_def assign_hash_def)

lemma assign_transition_eq:
  "assign_transition m t = (patched t m, changes (t_state t) (il_state m), payload_changes t m)"
  by (cases m) (simp add: Let_def assign_transition_def assign_column_eq assign_hash_eq patched_def
      payload_changes_def)

text \<open>\<open>apply_transition\<close> in closed form: the row it writes, and when.\<close>

definition stamped :: "env \<Rightarrow> transition \<Rightarrow> instant option \<Rightarrow> world \<Rightarrow> index_link \<Rightarrow> index_link" where
  "stamped E t now w m =
     (if changes (t_state t) (il_state m) \<or> payload_changes t m
      then (patched t m)\<lparr>il_updated_at := (case now of None \<Rightarrow> clock E (tick w) | Some ts \<Rightarrow> ts)\<rparr>
      else patched t m)"

definition after_moment :: "transition \<Rightarrow> instant option \<Rightarrow> index_link \<Rightarrow> world \<Rightarrow> world" where
  "after_moment t now m w =
     (if (changes (t_state t) (il_state m) \<or> payload_changes t m) \<and> now = None
      then w\<lparr>tick := Suc (tick w)\<rparr> else w)"

lemma apply_transition_eq:
  "apply_transition E i t now w =
     (if broken w then (Inl Pending_Rollback, w)
      else case get_link i w of
        None \<Rightarrow> (Inr None, w)
      | Some m \<Rightarrow>
          if il_section m = PRIVATE then (Inl Private_Index_Refused, w)
          else let m' = stamped E t now w m; w' = after_moment t now m w;
                   ls = replace_link m' (links w)
               in if link_constraints ls then (Inr (Some (to_link m')), w'\<lparr>links := ls\<rparr>)
                  else (Inl (Integrity_Error True), w'\<lparr>broken := True\<rparr>))"
proof (cases "get_link i w")
  case None
  then show ?thesis by (simp add: apply_transition_def run)
next
  case (Some m)
  show ?thesis
  proof (cases "changes (t_state t) (il_state m) \<or> payload_changes t m")
    case True
    with Some show ?thesis
      by (cases now) (simp_all add: apply_transition_def run refuse_model_def assign_transition_eq
          moment_def flush_link_def stamped_def after_moment_def Let_def)
  next
    case False
    with Some show ?thesis
      by (simp add: apply_transition_def run refuse_model_def assign_transition_eq
          flush_link_def stamped_def after_moment_def Let_def)
  qed
qed

lemma get_link_in: "get_link i w = Some m \<Longrightarrow> m \<in> set (links w) \<and> il_id m = i"
  by (auto simp: get_link_def dest: find_Some_in)

lemma stamped_frame [simp]:
  "il_id (stamped E t now w m) = il_id m"
  "il_file_record_id (stamped E t now w m) = il_file_record_id m"
  "il_user_id (stamped E t now w m) = il_user_id m"
  "il_section (stamped E t now w m) = il_section m"
  "il_created_at (stamped E t now w m) = il_created_at m"
  by (simp_all add: stamped_def)

section \<open>The queue invariant\<close>

text \<open>
  Keys are unique, as the table's constraints say, and every row belongs to an indexed
  section: in particular no row is private. \<open>race_ok\<close> says the same of the rows that other
  sessions commit: they run this very code.
\<close>

definition queue_inv :: "file_record list \<Rightarrow> index_link list \<Rightarrow> quota_usage list \<Rightarrow> bool" where
  "queue_inv fs ls qs \<longleftrightarrow> link_constraints ls \<and> (\<forall>l \<in> set ls. il_section l \<in> {FILES, PHOTOS})"

abbreviation queue_ok :: "world \<Rightarrow> bool" where
  "queue_ok \<equiv> on_rows queue_inv"

definition race_ok :: "env \<Rightarrow> bool" where
  "race_ok E \<longleftrightarrow> (\<forall>f l. race E f = Some (Some l) \<longrightarrow> il_section l \<in> {FILES, PHOTOS})"

lemma queue_ok_iff:
  "queue_ok w \<longleftrightarrow> link_constraints (links w) \<and> (\<forall>l \<in> set (links w). il_section l \<in> {FILES, PHOTOS})"
  by (simp add: on_rows_def queue_inv_def)

lemma set_replace_link: "set (replace_link m ls) \<subseteq> insert m (set ls)"
  by (auto simp: replace_link_def)

lemma flush_link_keeps [keep_rules]:
  "il_section m \<in> {FILES, PHOTOS} \<Longrightarrow> keeps queue_ok (flush_link m)"
  using set_replace_link [of m]
  by (fastforce simp: keeps_def flush_link_def Let_def queue_ok_iff)

lemma apply_transition_keeps [keep_rules]: "keeps queue_ok (apply_transition E i t now)"
proof (rule keepsI)
  fix w assume ok: "queue_ok w"
  show "queue_ok (snd (apply_transition E i t now w))"
  proof (cases "get_link i w")
    case None
    with ok show ?thesis by (simp add: apply_transition_eq)
  next
    case (Some m)
    then have "il_section m \<in> {FILES, PHOTOS}"
      using ok by (meson get_link_in queue_ok_iff)
    moreover have "set (replace_link (stamped E t now w m) (links w)) \<subseteq>
        insert (stamped E t now w m) (set (links w))"
      by (rule set_replace_link)
    ultimately show ?thesis
      using ok Some by (fastforce simp: apply_transition_eq queue_ok_iff Let_def after_moment_def)
  qed
qed

lemma rowless_moment [rowless_rules, simp]: "rowless (moment E now)"
  by (simp add: moment_def split: option.split)

lemma rowless_refuse [rowless_rules, simp]:
  "rowless (refuse_record r)" "rowless (refuse_model m)" "rowless (require_limit n)"
  by (simp_all add: refuse_record_def refuse_model_def require_limit_def)

lemma rowless_model_by_file [rowless_rules, simp]: "rowless (model_by_file_record_id f)"
  by (auto simp: model_by_file_record_id_def intro!: rowless_rules)

lemmas repo_atoms_keep [keep_rules] =
  rowless_moment [THEN rowless_keeps] rowless_refuse [THEN rowless_keeps]
  rowless_model_by_file [THEN rowless_keeps]

lemma one_or_none_value: "one_or_none xs w = (Inr (Some m), w') \<Longrightarrow> m \<in> set xs \<and> w' = w"
  by (auto simp: one_or_none_def split: list.splits)

lemma model_by_file_value:
  "model_by_file_record_id f w = (Inr (Some m), w') \<Longrightarrow>
    m \<in> set (links w) \<and> il_file_record_id m = Some f \<and> w' = w"
  by (auto simp: model_by_file_record_id_def run split: if_splits dest!: one_or_none_value)

text \<open>The sections of the rows a lookup returns.\<close>

abbreviation listed :: "index_link option \<Rightarrow> bool" where
  "listed x \<equiv> (\<forall>m. x = Some m \<longrightarrow> il_section m \<in> {FILES, PHOTOS})"

lemma model_by_file_listed:
  "queue_ok w \<Longrightarrow> model_by_file_record_id f w = (Inr x, w') \<Longrightarrow> listed x"
  by (metis model_by_file_value queue_ok_iff)

lemma insert_link_keeps:
  "race_ok E \<Longrightarrow> il_section m \<in> {FILES, PHOTOS} \<Longrightarrow> keeps queue_ok (insert_link E m)"
  by (auto simp: keeps_def insert_link_def queue_ok_iff Let_def race_ok_def
      split: option.split)


lemma upsert_pending_keeps [keep_rules]:
  assumes "race_ok E" shows "keeps queue_ok (upsert_pending E r d now)"
proof (cases "is_excluded r d")
  case True
  then show ?thesis by (auto simp: upsert_pending_def intro!: keep_rules)
next
  case False
  then have "fr_section r \<in> {FILES, PHOTOS}"
    by (auto simp: is_excluded_def indexed_sections_def split: if_splits)
  then show ?thesis
    using assms False unfolding upsert_pending_def
    by (auto intro!: keep_rules insert_link_keeps split: exn.split bool.split)
qed

lemma require_file_link_listed:
  "queue_ok w \<Longrightarrow> require_file_link f w = (Inr x, w') \<Longrightarrow> listed x"
  by (auto simp: require_file_link_def bind_Inr split: option.splits dest: model_by_file_listed)

lemma require_file_link_keeps [keep_rules]: "keeps queue_ok (require_file_link f)"
  unfolding require_file_link_def by (intro keep_rules)

lemma mark_content_changed_keeps [keep_rules]: "keeps queue_ok (mark_content_changed E f d now)"
  unfolding mark_content_changed_def by (intro keep_rules)

lemma mark_archived_keeps [keep_rules]: "keeps queue_ok (mark_archived E f now)"
  unfolding mark_archived_def by (intro keep_rules)

lemma mark_removed_keeps [keep_rules]: "keeps queue_ok (mark_removed E fs now)"
  unfolding mark_removed_def Let_def by (intro keep_rules)

lemma retry_failed_keeps [keep_rules]: "keeps queue_ok (retry_failed E n now)"
  unfolding retry_failed_def by (intro keep_rules)

lemma mark_rekey_keeps [keep_rules]: "keeps queue_ok (mark_rekey E f key now)"
  unfolding mark_rekey_def
  by (rule keeps_bind_where [where V = listed])
    (auto intro!: keep_rules flush_link_keeps simp: Let_def dest: require_file_link_listed
      split: option.split)

text \<open>The remaining operations only read.\<close>

lemma rowless_reads [rowless_rules, simp]:
  "rowless (get_by_file_record_id f)" "rowless (get_by_rag_file_id g)"
  "rowless (list_by_user_state u st)" "rowless (claim_due E n now)"
  "rowless (backfill_candidates n after)" "rowless (count_remaining after)"
  "rowless (counts_for_user u)" "rowless admin_snapshot"
  "rowless (indexed_photos_by_rag_file_id u gs)" "rowless (original_names fs)"
  by (auto simp: get_by_file_record_id_def get_by_rag_file_id_def list_by_user_state_def
      claim_due_def backfill_candidates_def count_remaining_def counts_for_user_def
      admin_snapshot_def indexed_photos_by_rag_file_id_def original_names_def Let_def
      intro!: rowless_rules)

lemmas rowless_reads_keep [keep_rules] = rowless_reads [THEN rowless_keeps]


section \<open>One row at a time\<close>

lemma replace_link_map_id [simp]: "map il_id (replace_link m ls) = map il_id ls"
  by (auto simp: replace_link_def)

lemma find_replace_other:
  "i \<noteq> il_id m \<Longrightarrow> find (\<lambda>l. il_id l = i) (replace_link m ls) = find (\<lambda>l. il_id l = i) ls"
  by (induction ls) (auto simp: replace_link_def)

lemma find_replace_same:
  "il_id m \<in> il_id ` set ls \<Longrightarrow> find (\<lambda>l. il_id l = il_id m) (replace_link m ls) = Some m"
  by (induction ls) (auto simp: replace_link_def)

lemma get_link_replace:
  "get_link i w = Some m \<Longrightarrow> il_id m' = i \<Longrightarrow>
    get_link j (w'\<lparr>links := replace_link m' (links w)\<rparr>) = (if j = i then Some m' else get_link j w)"
proof (cases "j = i")
  case True
  assume m: "get_link i w = Some m" "il_id m' = i"
  then have "il_id m' \<in> il_id ` set (links w)" using get_link_in [OF m(1)] by (auto intro: image_eqI [of _ _ m])
  with m True show ?thesis using find_replace_same [of m' "links w"] by (simp add: get_link_def)
next
  case False
  assume "il_id m' = i"
  with False show ?thesis by (simp add: get_link_def find_replace_other)
qed

text \<open>A successful transition writes one row; this is the row, and the others stay.\<close>

lemma apply_transition_Some:
  assumes "apply_transition E i t now w = (Inr (Some l), w')"
  obtains m where "get_link i w = Some m" "il_section m \<noteq> PRIVATE" "\<not> broken w"
    "l = to_link (stamped E t now w m)"
    "links w' = replace_link (stamped E t now w m) (links w)"
    "get_link i w' = Some (stamped E t now w m)"
    "\<And>j. j \<noteq> i \<Longrightarrow> get_link j w' = get_link j w"
proof -
  from assms obtain m where m: "get_link i w = Some m" "il_section m \<noteq> PRIVATE" "\<not> broken w"
    and l: "l = to_link (stamped E t now w m)"
    and w': "w' = (after_moment t now m w)\<lparr>links := replace_link (stamped E t now w m) (links w)\<rparr>"
    by (auto simp: apply_transition_eq Let_def split: if_splits option.splits)
  show ?thesis
  proof (rule that [OF m l])
    show "links w' = replace_link (stamped E t now w m) (links w)" by (simp add: w')
    show "get_link i w' = Some (stamped E t now w m)"
      using get_link_replace [OF m(1), of "stamped E t now w m" i] get_link_in [OF m(1)]
      by (simp add: w')
    show "get_link j w' = get_link j w" if "j \<noteq> i" for j
      using get_link_replace [OF m(1), of "stamped E t now w m" j] get_link_in [OF m(1)] that
      by (simp add: w')
  qed
qed

text \<open>A transition that sets no new service identifier cannot violate a constraint.\<close>

lemma somes_weaken:
  "list_all2 (\<lambda>y x. y = x \<or> y = None) ys xs \<Longrightarrow> distinct (somes xs) \<Longrightarrow>
    distinct (somes ys) \<and> set (somes ys) \<subseteq> set (somes xs)"
proof (induction ys xs rule: list_all2_induct)
  case (Cons y ys x xs)
  then show ?case by (cases x; cases y) auto
qed simp

lemma constraints_replace:
  assumes ok: "link_constraints ls" and m: "m \<in> set ls" "il_id m' = il_id m"
    and rec: "il_file_record_id m' = il_file_record_id m"
    and rag: "il_rag_file_id m' \<in> {il_rag_file_id m, None}"
  shows "link_constraints (replace_link m' ls)"
proof -
  have d: "distinct (map il_id ls)" using ok by (simp add: link_constraints_def)
  have only: "l = m" if "l \<in> set ls" "il_id l = il_id m'" for l
    using d that m by (metis distinct_map inj_onD)
  have "map il_file_record_id (replace_link m' ls) = map il_file_record_id ls"
    using only rec by (auto simp: replace_link_def)
  moreover have weak: "list_all2 (\<lambda>y x. y = x \<or> y = None) (map il_rag_file_id (replace_link m' ls)) (map il_rag_file_id ls)"
    using only rag
    by (auto simp: replace_link_def list_all2_map1 list_all2_map2 split: if_splits
        intro!: list.rel_refl_strong)
  moreover have "distinct (somes (map il_rag_file_id (replace_link m' ls)))"
    using somes_weaken [OF weak] ok by (simp add: link_constraints_def)
  ultimately show ?thesis
    using ok by (simp add: link_constraints_def)
qed

lemma transition_succeeds:
  assumes ok: "queue_ok w" "\<not> broken w" and m: "get_link i w = Some m"
    and rag: "new_value (t_rag_file_id t) (il_rag_file_id m) \<in> {il_rag_file_id m, None}"
  obtains w' where "apply_transition E i t (Some now) w = (Inr (Some (to_link (stamped E t (Some now) w m))), w')"
    "get_link i w' = Some (stamped E t (Some now) w m)" "queue_ok w'" "\<not> broken w'"
    "rag_log w' = rag_log w" "s3_log w' = s3_log w"
proof -
  let ?m = "stamped E t (Some now) w m"
  note in_w = get_link_in [OF m]
  have sec: "il_section m \<noteq> PRIVATE" using ok(1) in_w by (auto simp: queue_ok_iff)
  have frame: "il_rag_file_id ?m = new_value (t_rag_file_id t) (il_rag_file_id m)"
    by (simp add: stamped_def)
  have "link_constraints (replace_link ?m (links w))"
    using ok(1) in_w rag by (intro constraints_replace [of _ m]) (auto simp: queue_ok_iff frame)
  then have run: "apply_transition E i t (Some now) w = (Inr (Some (to_link ?m)), w\<lparr>links := replace_link ?m (links w)\<rparr>)"
    using ok(2) m sec by (simp add: apply_transition_eq after_moment_def Let_def)
  show ?thesis
  proof (rule that [OF run])
    show "get_link i (w\<lparr>links := replace_link ?m (links w)\<rparr>) = Some ?m"
      using get_link_replace [OF m, of ?m i w] in_w by simp
    show "queue_ok (w\<lparr>links := replace_link ?m (links w)\<rparr>)"
      using keepsD_run [OF apply_transition_keeps ok(1) run] .
  qed (use ok in simp_all)
qed

section \<open>The repository implements the port\<close>

definition sql_links :: "env \<Rightarrow> link_port" where
  "sql_links E = \<lparr>
     lp_upsert_pending = upsert_pending E,
     lp_get_by_file_record_id = get_by_file_record_id,
     lp_get_by_rag_file_id = get_by_rag_file_id,
     lp_list_by_user_state = list_by_user_state,
     lp_mark_content_changed = mark_content_changed E,
     lp_mark_rekey = mark_rekey E,
     lp_mark_removed = mark_removed E,
     lp_mark_archived = mark_archived E,
     lp_claim_due = claim_due E,
     lp_apply_transition = apply_transition E,
     lp_backfill_candidates = backfill_candidates,
     lp_count_remaining = count_remaining,
     lp_counts_for_user = counts_for_user,
     lp_admin_snapshot = admin_snapshot,
     lp_retry_failed = retry_failed E,
     lp_indexed_photos_by_rag_file_id = indexed_photos_by_rag_file_id,
     lp_original_names = original_names\<rparr>"

lemma sql_links_simps [simp]:
  "lp_upsert_pending (sql_links E) = upsert_pending E"
  "lp_get_by_file_record_id (sql_links E) = get_by_file_record_id"
  "lp_get_by_rag_file_id (sql_links E) = get_by_rag_file_id"
  "lp_list_by_user_state (sql_links E) = list_by_user_state"
  "lp_mark_content_changed (sql_links E) = mark_content_changed E"
  "lp_mark_rekey (sql_links E) = mark_rekey E"
  "lp_mark_removed (sql_links E) = mark_removed E"
  "lp_mark_archived (sql_links E) = mark_archived E"
  "lp_claim_due (sql_links E) = claim_due E"
  "lp_apply_transition (sql_links E) = apply_transition E"
  "lp_backfill_candidates (sql_links E) = backfill_candidates"
  "lp_count_remaining (sql_links E) = count_remaining"
  "lp_counts_for_user (sql_links E) = counts_for_user"
  "lp_admin_snapshot (sql_links E) = admin_snapshot"
  "lp_retry_failed (sql_links E) = retry_failed E"
  "lp_indexed_photos_by_rag_file_id (sql_links E) = indexed_photos_by_rag_file_id"
  "lp_original_names (sql_links E) = original_names"
  by (simp_all add: sql_links_def)

text \<open>The link of a row, as the application layer sees it.\<close>

definition link_at :: "uuid \<Rightarrow> world \<Rightarrow> index_link option" where
  "link_at i w = map_option to_link (get_link i w)"

lemma to_link_stamped:
  "to_link (stamped E t (Some now) w m) = applied t now (to_link m)"
  by (cases m) (auto simp: to_link_def stamped_def applied_def patched_def payload_changes_def
      hash_changes_def new_hash_def split: column.split)

interpretation sql_reads: link_reads "sql_links E"
  by unfold_locales simp_all

interpretation sql_rows: link_rows "sql_links E" link_at
proof unfold_locales
  fix i and w w' :: world
  assume "same_rows w w'"
  then show "link_at i w' = link_at i w" by (simp add: link_at_def get_link_def same_rows_def)
next
  fix i t now w r w'
  assume run: "lp_apply_transition (sql_links E) i t (Some now) w = (r, w')"
  show "row_written link_at i t now w r w'"
  proof (cases "\<exists>l. r = Inr (Some l)")
    case True
    then obtain l where r: "r = Inr (Some l)" by blast
    with run have "apply_transition E i t (Some now) w = (Inr (Some l), w')" by simp
    then show ?thesis
      by (rule apply_transition_Some)
        (auto simp: row_written_def r link_at_def to_link_stamped)
  next
    case False
    then have "links w' = links w"
      using run by (auto simp: apply_transition_eq after_moment_def Let_def
          split: if_splits option.splits)
    with False show ?thesis
      by (auto simp: row_written_def link_at_def get_link_def split: sum.split option.split)
  qed
next
  fix i t now w e w'
  assume "lp_apply_transition (sql_links E) i t now w = (Inl e, w')"
  then show "\<not> is_rag_error e"
    by (auto simp: apply_transition_eq is_rag_error_def Let_def split: if_splits option.splits)
qed

interpretation sql_queue: link_invariant "sql_links E" queue_ok "race_ok E"
proof unfold_locales
  fix w w' :: world
  assume "same_rows w w'" and "queue_ok w"
  then show "queue_ok w'" by (simp add: queue_ok_iff same_rows_def)
qed (auto intro: keep_rules)

section \<open>Properties\<close>

text \<open>
  The wait clock \<open>updated_at\<close> of a queue row moves exactly when a transition changes the
  state or a payload column; rescheduling (attempts, next attempt) leaves it alone. No other row
  is touched.
\<close>

lemma transition_stamps_only_changes:
  assumes "apply_transition E i t (Some now) w = (Inr (Some l), w')"
    and "get_link i w = Some m"
  shows "il_updated_at l =
      (if changes (t_state t) (il_state m) \<or> payload_changes t m then now else il_updated_at m) \<and>
    il_state l = new_value (t_state t) (il_state m) \<and>
    il_attempts l = new_value (t_attempts t) (il_attempts m) \<and>
    (\<forall>j. j \<noteq> i \<longrightarrow> get_link j w' = get_link j w)"
  using assms(1)
  by (rule apply_transition_Some) (use assms(2) in \<open>auto simp: to_link_def stamped_def\<close>)

lemma by_age_simps [simp]: "set (by_age ls) = set ls" "length (by_age ls) = length ls"
  by (simp_all add: by_age_def)

lemma to_link_simps [simp]:
  "il_id (to_link m) = il_id m" "il_state (to_link m) = il_state m"
  "il_section (to_link m) = il_section m" "il_created_at (to_link m) = il_created_at m"
  "il_next_attempt_at (to_link m) = il_next_attempt_at m"
  "il_user_id (to_link m) = il_user_id m" "il_rag_file_id (to_link m) = il_rag_file_id m"
  "il_file_record_id (to_link m) = il_file_record_id m" "il_attempts (to_link m) = il_attempts m"
  "il_s3_key (to_link m) = il_s3_key m" "il_updated_at (to_link m) = il_updated_at m"
  "il_content_type (to_link m) = il_content_type m"
  "il_last_error_code (to_link m) = il_last_error_code m"
  by (simp_all add: to_link_def)

lemma due_to_link [simp]: "due now (to_link m) = due now m"
  by (simp add: due_def)

lemma sorted_take_drop_le:
  "sorted (map f xs) \<Longrightarrow> x \<in> set (take n xs) \<Longrightarrow> y \<in> set (drop n xs) \<Longrightarrow> f x \<le> f y"
  using sorted_append [of "map f (take n xs)" "map f (drop n xs)"]
  by (auto simp flip: map_append)

lemma transition_stamps_only_changes_witness:
  "\<exists>l w'. apply_transition (sample_env (\<lambda>_ _. Reply_Crash) (\<lambda>_ _. S3_Done)) 1
      (no_change\<lparr>t_attempts := SET 3\<rparr>) (Some 9000) (sample_world [sample_link PENDING None]) = (Inr (Some l), w') \<and>
    il_updated_at l = 2000 \<and> il_attempts l = 3"
proof -
  let ?E = "sample_env (\<lambda>_ _. Reply_Crash) (\<lambda>_ _. S3_Done)"
  let ?w = "sample_world [sample_link PENDING None]" and ?t = "no_change\<lparr>t_attempts := SET 3\<rparr>"
  have m: "get_link 1 ?w = Some (sample_link PENDING None)"
    by (simp add: get_link_def sample_world_def sample_link_def)
  have "queue_ok ?w" "\<not> broken ?w"
    by (simp_all add: queue_ok_iff sample_world_def sample_link_def link_constraints_def empty_world_def)
  then obtain l w' where run: "apply_transition ?E 1 ?t (Some 9000) ?w = (Inr (Some l), w')"
    by (rule transition_succeeds [OF _ _ m, of ?t ?E 9000]) (auto simp: no_change_def)
  show ?thesis
    using transition_stamps_only_changes [OF run m] run
    by (auto simp: no_change_def payload_changes_def hash_changes_def sample_link_def)
qed

text \<open>
  C36. One claim of the queue is bounded by the batch size, returns only due rows that are not
  private, oldest first, and takes them first-in first-out: an unlocked due row that is left
  out is not older than any row of a full batch.
\<close>

theorem claim_due_fifo:
  assumes "claim_due E n now w = (Inr ls, w')"
  shows "w' = w \<and> length ls \<le> nat n \<and>
    (\<forall>l \<in> set ls. due now l \<and> il_section l \<noteq> PRIVATE \<and> \<not> row_locked E (il_id l)) \<and>
    sorted (map (\<lambda>l. (il_created_at l, il_id l)) ls) \<and>
    (\<forall>m \<in> set (links w). due now m \<and> \<not> row_locked E (il_id m) \<longrightarrow>
       to_link m \<in> set ls \<or>
       length ls = nat n \<and>
       (\<forall>l \<in> set ls. (il_created_at l, il_id l) \<le> (il_created_at m, il_id m)))"
proof -
  define q where "q = by_age (filter (\<lambda>l. due now l \<and> \<not> row_locked E (il_id l)) (links w))"
  let ?k = "\<lambda>l. (il_created_at l, il_id l)"
  have k: "?k (to_link m) = ?k m" for m by simp
  have ls: "ls = map to_link (take (nat n) q)" and w': "w' = w"
    using assms by (auto simp: claim_due_def require_limit_def run q_def split: if_splits)
  have sorted: "sorted (map ?k q)" by (simp add: q_def by_age_def)
  have set_q: "set q = {l \<in> set (links w). due now l \<and> \<not> row_locked E (il_id l)}"
    by (auto simp: q_def)
  have "map ?k ls = take (nat n) (map ?k q)" by (simp add: ls take_map comp_def)
  then have "sorted (map ?k ls)" using sorted by (simp add: sorted_wrt_take)
  moreover have "due now l \<and> il_section l \<noteq> PRIVATE \<and> \<not> row_locked E (il_id l)"
    if l: "l \<in> set ls" for l
  proof -
    from l obtain m where "l = to_link m" "m \<in> set q" by (auto simp: ls dest: in_set_takeD)
    then show ?thesis by (auto simp: set_q due_def)
  qed
  moreover have "to_link m \<in> set ls \<or> length ls = nat n \<and> (\<forall>l \<in> set ls. ?k l \<le> ?k m)"
    if m: "m \<in> set (links w)" "due now m \<and> \<not> row_locked E (il_id m)" for m
  proof (cases "m \<in> set (take (nat n) q)")
    case True
    then show ?thesis by (simp add: ls)
  next
    case False
    from m have "m \<in> set q" by (simp add: set_q)
    with False have d: "m \<in> set (drop (nat n) q)"
      by (metis Un_iff append_take_drop_id set_append)
    then have "nat n < length q" by (metis drop_all empty_iff linorder_not_le list.set(1))
    moreover have "?k l \<le> ?k m" if l: "l \<in> set ls" for l
    proof -
      from l obtain x where "l = to_link x" "x \<in> set (take (nat n) q)" by (auto simp: ls)
      then show ?thesis using sorted_take_drop_le [OF sorted _ d] k by metis
    qed
    ultimately show ?thesis by (simp add: ls)
  qed
  ultimately show ?thesis by (simp add: ls w')
qed

theorem claim_due_fifo_witness:
  "\<exists>ls. claim_due (sample_env (\<lambda>_ _. Reply_Crash) (\<lambda>_ _. S3_Done)) 5 9000
      (sample_world [sample_link PENDING None]) = (Inr ls, sample_world [sample_link PENDING None]) \<and>
    length ls \<le> nat 5 \<and> (\<forall>l \<in> set ls. due 9000 l)"
proof -
  let ?E = "sample_env (\<lambda>_ _. Reply_Crash) (\<lambda>_ _. S3_Done)" and ?w = "sample_world [sample_link PENDING None]"
  obtain ls where run: "claim_due ?E 5 9000 ?w = (Inr ls, ?w)"
    by (simp add: claim_due_def require_limit_def run sample_world_def empty_world_def)
  show ?thesis using claim_due_fifo [OF run] run by blast
qed

text \<open>
  Queueing a record that the repository has a row for returns that row and changes nothing:
  a record is never queued twice.
\<close>

lemma upsert_pending_idempotent:
  assumes "queue_ok w" and "\<not> broken w" and "m \<in> set (links w)"
    and "il_file_record_id m = Some (fr_id r)"
    and "\<not> (fr_section r = PRIVATE \<or> fr_is_encrypted r)" and "\<not> is_excluded r d"
  shows "upsert_pending E r d now w = (Inr (Some (to_link m)), w)"
proof -
  have "distinct (somes (map il_file_record_id (links w)))"
    using assms(1) by (simp add: queue_ok_iff link_constraints_def)
  then have f: "filter (\<lambda>l. il_file_record_id l = Some (fr_id r)) (links w) = [m]"
    using assms(3,4) by (rule filter_unique_key)
  have "il_section m \<noteq> PRIVATE" using assms(1,3) by (auto simp: queue_ok_iff)
  then show ?thesis
    using assms(2,5,6) f
    by (simp add: upsert_pending_def refuse_record_def refuse_model_def model_by_file_record_id_def
        one_or_none_def run)
qed

lemma upsert_pending_idempotent_witness:
  "upsert_pending (sample_env (\<lambda>_ _. Reply_Crash) (\<lambda>_ _. S3_Done)) sample_record
      \<lparr>rd_kind = DOCUMENT, rd_s3_key = ''users/3/files/a.pdf'', rd_content_type = ''application/pdf'',
        rd_content_sha256 = Some ''00'', rd_skip_code = None\<rparr> None (sample_world [sample_link PENDING None]) =
    (Inr (Some (to_link (sample_link PENDING None))), sample_world [sample_link PENDING None])"
  by (rule upsert_pending_idempotent)
    (simp_all add: queue_ok_iff link_constraints_def sample_world_def sample_link_def empty_world_def
      sample_record_def is_excluded_def indexed_sections_def)

lemma find_unique_id:
  "distinct (map il_id ls) \<Longrightarrow> m \<in> set ls \<Longrightarrow> find (\<lambda>l. il_id l = il_id m) ls = Some m"
  by (induction ls) (auto simp: image_iff)

lemma transition_at:
  assumes ok: "queue_ok w" "\<not> broken w" and m: "get_link i w = Some m" and rag: "t_rag_file_id t = UNSET"
  obtains w' where "apply_transition E i t (Some now) w = (Inr (Some (applied t now (to_link m))), w')"
    "queue_ok w'" "\<not> broken w'" "link_at i w' = Some (applied t now (to_link m))"
    "\<And>j. j \<noteq> i \<Longrightarrow> get_link j w' = get_link j w"
proof -
  obtain w' where 1: "apply_transition E i t (Some now) w = (Inr (Some (to_link (stamped E t (Some now) w m))), w')"
    "get_link i w' = Some (stamped E t (Some now) w m)" "queue_ok w'" "\<not> broken w'"
    by (rule transition_succeeds [OF ok m, of t E now]) (simp add: rag)
  have "\<And>j. j \<noteq> i \<Longrightarrow> get_link j w' = get_link j w"
    by (rule apply_transition_Some [OF 1(1)]) blast
  with 1 show ?thesis by (intro that [of w']) (simp_all add: to_link_stamped link_at_def)
qed

definition requeue_patch :: "index_link \<Rightarrow> transition" where
  "requeue_patch m = no_change\<lparr>t_state := SET (if il_rag_file_id m \<noteq> None then SUBMITTED else PENDING),
     t_attempts := SET 0, t_next_attempt_at := SET None, t_last_error_code := SET None\<rparr>"

lemma requeue_all:
  assumes "queue_ok w" "\<not> broken w" "distinct (map il_id ms)" "\<forall>m \<in> set ms. get_link (il_id m) w = Some m"
  shows "\<exists>rs w'. map_act (\<lambda>m. apply_transition E (il_id m) (requeue_patch m) (Some ts)) ms w = (Inr rs, w') \<and>
    length (somes rs) = length ms \<and>
    (\<forall>m \<in> set ms. link_at (il_id m) w' = Some (applied (requeue_patch m) ts (to_link m))) \<and>
    (\<forall>j. j \<notin> il_id ` set ms \<longrightarrow> link_at j w' = link_at j w)"
  using assms
proof (induction ms arbitrary: w)
  case (Cons m ms)
  obtain w1 where 1: "apply_transition E (il_id m) (requeue_patch m) (Some ts) w =
      (Inr (Some (applied (requeue_patch m) ts (to_link m))), w1)" "queue_ok w1" "\<not> broken w1"
    "link_at (il_id m) w1 = Some (applied (requeue_patch m) ts (to_link m))"
    "\<And>j. j \<noteq> il_id m \<Longrightarrow> get_link j w1 = get_link j w"
    by (rule transition_at [OF Cons.prems(1,2), of "il_id m" m "requeue_patch m" E ts])
      (use Cons.prems(4) in \<open>auto simp: requeue_patch_def no_change_def\<close>)
  have fresh: "il_id m \<notin> il_id ` set ms" using Cons.prems(3) by simp
  have "\<forall>k \<in> set ms. get_link (il_id k) w1 = Some k"
  proof
    fix k assume k: "k \<in> set ms"
    with fresh have "il_id k \<noteq> il_id m" by (metis image_eqI)
    with k Cons.prems(4) 1(5) show "get_link (il_id k) w1 = Some k" by simp
  qed
  with Cons.IH [of w1] 1(2,3) Cons.prems(3) obtain rs w' where 2:
    "map_act (\<lambda>m. apply_transition E (il_id m) (requeue_patch m) (Some ts)) ms w1 = (Inr rs, w')"
    "length (somes rs) = length ms"
    "\<forall>m \<in> set ms. link_at (il_id m) w' = Some (applied (requeue_patch m) ts (to_link m))"
    "\<forall>j. j \<notin> il_id ` set ms \<longrightarrow> link_at j w' = link_at j w1" by auto
  have "\<forall>j. j \<notin> il_id ` set (m # ms) \<longrightarrow> link_at j w' = link_at j w"
    using 2(4) 1(5) by (auto simp: link_at_def)
  then show ?case
    using 1 2 fresh by (intro exI [of _ "Some (applied (requeue_patch m) ts (to_link m)) # rs"] exI [of _ w'])
      (simp add: bind_def)
qed simp

text \<open>
  A retry takes the oldest failed rows, up to the limit, and puts each back at the state its
  service identifier suggests, with fresh attempts: \<open>SUBMITTED\<close> when it has one, otherwise \<open>PENDING\<close>.
  The count returned is exact and no other row changes. A row that failed while its removal was
  pending has an identifier, so that a deleted file is polled again and can become \<open>INDEXED\<close>.
\<close>

lemma retry_failed_requeues:
  assumes ok: "queue_ok w" "\<not> broken w" and n: "1 \<le> n"
  shows "\<exists>w' ms. ms = take (nat n) (by_age (filter (\<lambda>l. il_state l = FAILED) (links w))) \<and>
    retry_failed E n (Some ts) w = (Inr (int (length ms)), w') \<and>
    (\<forall>m \<in> set ms. \<exists>l'. link_at (il_id m) w' = Some l' \<and> il_attempts l' = 0 \<and> due ts l' \<and>
       il_state l' = (if il_rag_file_id m \<noteq> None then SUBMITTED else PENDING)) \<and>
    (\<forall>j. j \<notin> il_id ` set ms \<longrightarrow> link_at j w' = link_at j w)"
proof -
  define ms where "ms = take (nat n) (by_age (filter (\<lambda>l. il_state l = FAILED) (links w)))"
  have d: "distinct (map il_id (links w))" using ok(1) by (simp add: queue_ok_iff link_constraints_def)
  then have "distinct (map il_id (by_age (filter (\<lambda>l. il_state l = FAILED) (links w))))"
    by (simp add: by_age_def distinct_map inj_on_def)
  then have dm: "distinct (map il_id ms)" by (simp add: ms_def take_map [symmetric])
  have sub: "m \<in> set (links w)" if "m \<in> set ms" for m using that by (auto simp: ms_def dest: in_set_takeD)
  have at_id: "\<forall>m \<in> set ms. get_link (il_id m) w = Some m"
  proof
    fix m assume "m \<in> set ms"
    then have "m \<in> set (links w)" by (rule sub)
    then show "get_link (il_id m) w = Some m"
      using d by (simp add: get_link_def find_unique_id)
  qed
  obtain rs w' where r:
    "map_act (\<lambda>m. apply_transition E (il_id m) (requeue_patch m) (Some ts)) ms w = (Inr rs, w')"
    "length (somes rs) = length ms"
    "\<forall>m \<in> set ms. link_at (il_id m) w' = Some (applied (requeue_patch m) ts (to_link m))"
    "\<forall>j. j \<notin> il_id ` set ms \<longrightarrow> link_at j w' = link_at j w"
    using requeue_all [OF ok dm at_id, of E ts] by blast
  have "retry_failed E n (Some ts) w = (Inr (int (length ms)), w')"
  proof (cases "ms = []")
    case True
    then have "retry_failed E n (Some ts) w = (Inr 0, w)"
      using n ok(2) by (simp add: retry_failed_def bind_def require_limit_def query_def ms_def [symmetric])
    with r(1) True show ?thesis by simp
  next
    case False
    with r(1,2) n ok(2) show ?thesis
      by (simp add: retry_failed_def bind_def require_limit_def query_def ms_def [symmetric]
          moment_def requeue_patch_def)
  qed
  moreover have "\<exists>l'. link_at (il_id m) w' = Some l' \<and> il_attempts l' = 0 \<and> due ts l' \<and>
       il_state l' = (if il_rag_file_id m \<noteq> None then SUBMITTED else PENDING)" if m: "m \<in> set ms" for m
  proof -
    have "il_section m \<noteq> PRIVATE" using ok(1) sub [OF m] by (auto simp: queue_ok_iff)
    then show ?thesis
      using r(3) m by (auto simp: requeue_patch_def due_def DUE_INDEX_STATES_def no_change_def)
  qed
  ultimately show ?thesis using r(4) ms_def by blast
qed

lemma retry_failed_requeues_witness:
  "\<exists>w' l'. retry_failed (sample_env (\<lambda>_ _. Reply_Crash) (\<lambda>_ _. S3_Done)) 3 (Some 9000)
      (sample_world [sample_link FAILED (Some 7)]) = (Inr 1, w') \<and>
    link_at 1 w' = Some l' \<and> il_state l' = SUBMITTED"
proof -
  let ?w = "sample_world [sample_link FAILED (Some 7)]"
  have "queue_ok ?w" "\<not> broken ?w" "(1::int) \<le> 3"
    "links ?w = [sample_link FAILED (Some 7)]"
    by (simp_all add: queue_ok_iff sample_world_def sample_link_def link_constraints_def empty_world_def)
  from retry_failed_requeues [OF this(1-3), of "sample_env (\<lambda>_ _. Reply_Crash) (\<lambda>_ _. S3_Done)" 9000] this(4)
  show ?thesis by (auto simp: by_age_def sample_link_def)
qed

end
