(* ===== verification/Storage.thy ===== *)
theory Storage
  imports IndexPorts
begin

text \<open>
  The storage adapter interface, \<open>app/infrastructure/storage/base_adapter.py\<close>: the normalisation
  of logical paths that confines every caller to its section, the operations as a record of
  actions, and the laws the services rely on.
\<close>

section \<open>Logical keys\<close>

definition HIDDEN_DIR_NAMES :: "string list" where "HIDDEN_DIR_NAMES = [''.tmp'']"

fun safe_parts :: "string list \<Rightarrow> exn + string list" where
  "safe_parts [] = Inr []"
| "safe_parts (p # ps) =
     (if p \<in> {[], ''.''} then safe_parts ps
      else if p = ''..'' then Inl Path_Traversal
      else map_sum id (\<lambda>qs. p # qs) (safe_parts ps))"

definition safe_logical_key :: "string \<Rightarrow> exn + string" where
  "safe_logical_key user_input =
     (let normalized = lstrip_by (\<lambda>c. c = CHR ''/'') (backslash_to_slash (strip user_input))
      in if normalized = [] then Inr []
         else map_sum id (join_on (CHR ''/'')) (safe_parts (split_on (CHR ''/'') normalized)))"

text \<open>The components of a safe key: none is empty, \<open>.\<close>, \<open>..\<close> or contains a separator.\<close>

definition plain_part :: "string \<Rightarrow> bool" where
  "plain_part p \<longleftrightarrow> p \<noteq> [] \<and> p \<noteq> ''.'' \<and> p \<noteq> ''..'' \<and> CHR ''/'' \<notin> set p"

lemma safe_parts_eq:
  "safe_parts ps = (if ''..'' \<in> set ps then Inl Path_Traversal
     else Inr (filter (\<lambda>p. p \<notin> {[], ''.''}) ps))"
  by (induction ps) auto

lemma safe_logical_key_parts:
  assumes "safe_logical_key s = Inr k"
  obtains ps where "k = join_on (CHR ''/'') ps" "\<forall>p \<in> set ps. plain_part p"
proof -
  let ?n = "lstrip_by (\<lambda>c. c = CHR ''/'') (backslash_to_slash (strip s))"
  let ?ps = "filter (\<lambda>p. p \<notin> {[], ''.''}) (split_on (CHR ''/'') ?n)"
  show ?thesis
  proof (cases "?n = []")
    case True
    with assms have "k = join_on (CHR ''/'') []" by (simp add: safe_logical_key_def)
    then show ?thesis by (rule that) simp
  next
    case False
    with assms have k: "k = join_on (CHR ''/'') ?ps" and nd: "''..'' \<notin> set (split_on (CHR ''/'') ?n)"
      by (auto simp: safe_logical_key_def safe_parts_eq Let_def split: if_splits)
    show ?thesis
      by (rule that [OF k]) (use nd in \<open>auto simp: plain_part_def split_on_no_sep\<close>)
  qed
qed

lemma split_plain:
  "\<forall>p \<in> set ps. plain_part p \<Longrightarrow> ps \<noteq> [] \<Longrightarrow> split_on (CHR ''/'') (join_on (CHR ''/'') ps) = ps"
  by (rule split_join) (auto simp: plain_part_def)

lemma split_on_snoc: "split_on c (s @ [c]) = split_on c s @ [[]]"
  by (induction s) (auto split: list.splits)

lemma split_plain_slash:
  "\<forall>p \<in> set ps. plain_part p \<Longrightarrow> ps \<noteq> [] \<Longrightarrow>
    split_on (CHR ''/'') (join_on (CHR ''/'') ps @ ''/'') = ps @ [[]]"
  by (simp add: split_on_snoc split_plain)

lemma plain_join_ends:
  assumes "\<forall>p \<in> set ps. plain_part p" "ps \<noteq> []"
  shows "join_on (CHR ''/'') ps \<noteq> [] \<and> hd (join_on (CHR ''/'') ps) \<noteq> CHR ''/'' \<and>
    last (join_on (CHR ''/'') ps) \<noteq> CHR ''/''"
  using assms
proof (induction ps rule: induct_list012)
  case (2 x)
  then have "x \<noteq> []" "CHR ''/'' \<notin> set x" by (simp_all add: plain_part_def)
  then show ?case by (auto dest: hd_in_set last_in_set)
next
  case (3 x y zs)
  then show ?case by (cases x) (auto simp: plain_part_def)
qed simp

lemma safe_key_no_slash_ends:
  "safe_logical_key s = Inr k \<Longrightarrow> k \<noteq> [] \<Longrightarrow> hd k \<noteq> CHR ''/'' \<and> last k \<noteq> CHR ''/''"
  by (metis join_on.simps(1) plain_join_ends safe_logical_key_parts)

section \<open>The adapter interface\<close>

record file_node =
  fn_name :: string
  fn_is_dir :: bool
  fn_size :: int
  fn_modified_at :: instant
  fn_uploaded_by :: "string option"

text \<open>An \<open>AsyncIterator[bytes]\<close>: chunks, and an end or a failure.\<close>

datatype source = Source_End | Source_Fail exn | Source_Chunk bytes source

fun source_bytes :: "source \<Rightarrow> bytes" where
  "source_bytes Source_End = []"
| "source_bytes (Source_Fail e) = []"
| "source_bytes (Source_Chunk c s) = c @ source_bytes s"

fun source_error :: "source \<Rightarrow> exn option" where
  "source_error Source_End = None"
| "source_error (Source_Fail e) = Some e"
| "source_error (Source_Chunk c s) = source_error s"

definition whole_source :: "bytes \<Rightarrow> source" where
  "whole_source b = Source_Chunk b Source_End"

record storage =
  st_root_prefix :: string
  st_disk_id :: string
  st_list :: "string \<Rightarrow> file_node list action"
  st_read :: "string \<Rightarrow> bytes action"
  st_write :: "string \<Rightarrow> source \<Rightarrow> int \<Rightarrow> string action"
  st_delete :: "string \<Rightarrow> unit action"
  st_mkdir :: "string \<Rightarrow> unit action"
  st_rename :: "string \<Rightarrow> string \<Rightarrow> unit action"
  st_exists :: "string \<Rightarrow> bool action"
  st_get_size :: "string \<Rightarrow> int action"
  st_stale_tmp :: "instant \<Rightarrow> string list action"
  st_encrypt_path :: "string \<Rightarrow> string action"

text \<open>\<open>disk_relative_prefix\<close> is the root prefix for every adapter of the program.\<close>

definition to_disk_relative_path :: "storage \<Rightarrow> string \<Rightarrow> exn + string" where
  "to_disk_relative_path S section_path =
     map_sum id (\<lambda>normalized. if normalized = [] then st_root_prefix S
        else st_root_prefix S @ CHR ''/'' # normalized) (safe_logical_key section_path)"

definition object_reader_of :: "storage \<Rightarrow> object_reader" where
  "object_reader_of S = \<lparr>or_read = st_read S, or_exists = st_exists S, or_get_size = st_get_size S\<rparr>"

locale storage_port =
  fixes S :: storage
  assumes storage_rowless:
    "rowless (st_list S p)" "rowless (st_read S p)" "rowless (st_write S p d n)"
    "rowless (st_delete S p)" "rowless (st_mkdir S p)" "rowless (st_rename S p q)"
    "rowless (st_exists S p)" "rowless (st_get_size S p)" "rowless (st_stale_tmp S t)"
    "rowless (st_encrypt_path S p)"

sublocale storage_port \<subseteq> reader: object_port "object_reader_of S"
  by unfold_locales (simp_all add: object_reader_of_def storage_rowless)

end
