(* ===== verification/S3Adapter.thy ===== *)
theory S3Adapter
  imports Storage
begin

text \<open>
  \<open>app/infrastructure/storage/s3_adapter.py\<close>: the storage adapter over one bucket of an
  S3-compatible object store. The store is the oracle \<open>s3_service\<close> of the environment; its
  paginators deliver all pages, here as one listing.
\<close>

section \<open>Keys\<close>

definition DIR_MARKER_SUFFIX :: string where "DIR_MARKER_SUFFIX = ''/''"
definition TMP_DIR_NAME :: string where "TMP_DIR_NAME = ''.tmp''"
definition MULTIPART_PART_SIZE :: nat where "MULTIPART_PART_SIZE = 8 * 1024 * 1024"
definition COPY_OBJECT_MAX_BYTES :: int where "COPY_OBJECT_MAX_BYTES = 5 * 1024 * 1024 * 1024"

record s3_adapter =
  sa_env :: env
  sa_disk_id :: string
  sa_root_prefix :: string

definition new_s3_adapter :: "env \<Rightarrow> string \<Rightarrow> string \<Rightarrow> s3_adapter" where
  "new_s3_adapter E disk_id root_prefix =
     \<lparr>sa_env = E, sa_disk_id = disk_id, sa_root_prefix = strip_slash (strip root_prefix)\<rparr>"

definition object_key :: "string \<Rightarrow> string \<Rightarrow> bool \<Rightarrow> exn + string" where
  "object_key base path as_dir =
     map_sum id (\<lambda>logical.
       let key = (if logical \<noteq> [] then (if base \<noteq> [] then base @ CHR ''/'' # logical else logical)
                  else base)
       in if as_dir \<and> key \<noteq> [] \<and> \<not> ends_with key DIR_MARKER_SUFFIX
          then key @ DIR_MARKER_SUFFIX else key)
     (safe_logical_key path)"

definition list_prefix :: "string \<Rightarrow> string \<Rightarrow> exn + string" where
  "list_prefix base path =
     map_sum id (\<lambda>key. if key = [] then []
       else if ends_with key DIR_MARKER_SUFFIX then key else key @ DIR_MARKER_SUFFIX)
     (object_key base path True)"

definition is_hidden_name :: "string \<Rightarrow> bool" where
  "is_hidden_name name = (name \<in> set HIDDEN_DIR_NAMES \<or> starts_with name ''.'')"

definition is_not_found :: "exn \<Rightarrow> bool" where
  "is_not_found e = (case e of
       S3_Error code \<Rightarrow> code \<in> {''404'', ''NoSuchKey'', ''NotFound'', ''NoSuchBucket''}
     | _ \<Rightarrow> False)"

text \<open>What the code reads off a successful response.\<close>

definition content_length :: "s3_reply \<Rightarrow> int" where
  "content_length r = (case r of S3_Length n \<Rightarrow> n | _ \<Rightarrow> 0)"

definition listing :: "s3_reply \<Rightarrow> (string \<times> int \<times> instant) list \<times> string list" where
  "listing r = (case r of S3_Listing contents prefixes \<Rightarrow> (contents, prefixes) | _ \<Rightarrow> ([], []))"

definition body_of :: "s3_reply \<Rightarrow> bytes action" where
  "body_of r = (case r of S3_Body b \<Rightarrow> ret b | _ \<Rightarrow> raise Other_Error)"

definition upload_id_of :: "s3_reply \<Rightarrow> string action" where
  "upload_id_of r = (case r of S3_Upload_Id u \<Rightarrow> ret u | _ \<Rightarrow> raise Other_Error)"

definition etag_of :: "s3_reply \<Rightarrow> string action" where
  "etag_of r = (case r of S3_Etag e \<Rightarrow> ret e | _ \<Rightarrow> raise Other_Error)"

definition send_unit :: "env \<Rightarrow> s3_call \<Rightarrow> unit action" where
  "send_unit E c = bind (s3_send E c) (\<lambda>_. ret ())"

text \<open>\<open>except ClientError as exc: if self._is_not_found(exc): ...\<close>\<close>

definition except_not_found :: "'a action \<Rightarrow> 'a action \<Rightarrow> 'a action" where
  "except_not_found m h = try_except m (\<lambda>e. if is_not_found e then h else raise e)"

definition head_exists :: "env \<Rightarrow> string \<Rightarrow> bool action" where
  "head_exists E key =
     (if key = [] then ret False
      else except_not_found (bind (s3_send E (Head_Object key)) (\<lambda>_. ret True)) (ret False))"

definition exists_prefix_or_marker :: "s3_adapter \<Rightarrow> string \<Rightarrow> bool action" where
  "exists_prefix_or_marker A path =
     bind (lift (object_key (sa_root_prefix A) path True)) (\<lambda>marker_key.
     bind (head_exists (sa_env A) marker_key) (\<lambda>marked.
     if marked then ret True
     else
       bind (lift (list_prefix (sa_root_prefix A) path)) (\<lambda>prefix.
       bind (s3_send (sa_env A) (List_One prefix)) (\<lambda>r.
       let (contents, prefixes) = listing r in ret (contents \<noteq> [] \<or> prefixes \<noteq> [])))))"

section \<open>Reading\<close>

definition node_key :: "file_node \<Rightarrow> bool \<times> string" where
  "node_key n = (\<not> fn_is_dir n, lower (fn_name n))"

definition dir_nodes :: "env \<Rightarrow> string \<Rightarrow> string list \<Rightarrow> file_node list action" where
  "dir_nodes E prefix commons =
     map_act (\<lambda>name. bind (utc_now E) (\<lambda>t. ret \<lparr>fn_name = name, fn_is_dir = True, fn_size = 0,
         fn_modified_at = t, fn_uploaded_by = None\<rparr>))
       (filter (\<lambda>name. \<not> (name = [] \<or> is_hidden_name name))
         (map (\<lambda>raw. rstrip_by (\<lambda>c. c = CHR ''/'') (drop (length prefix) raw)) commons))"

definition object_nodes :: "string \<Rightarrow> (string \<times> int \<times> instant) list \<Rightarrow> file_node list" where
  "object_nodes prefix contents =
     concat (map (\<lambda>(key, n, modified).
       let name = drop (length prefix) key in
       if key = prefix \<or> ends_with key DIR_MARKER_SUFFIX then []
       else if CHR ''/'' \<in> set name then []
       else if name = [] \<or> is_hidden_name name then []
       else [\<lparr>fn_name = name, fn_is_dir = False, fn_size = n, fn_modified_at = modified,
              fn_uploaded_by = None\<rparr>]) contents)"

definition s3_list :: "s3_adapter \<Rightarrow> string \<Rightarrow> file_node list action" where
  "s3_list A path =
     bind (lift (list_prefix (sa_root_prefix A) path)) (\<lambda>prefix.
     bind (if strip_slash (strip path) \<noteq> [] then exists_prefix_or_marker A path else ret True) (\<lambda>found.
     if \<not> found then raise Storage_File_Not_Found
     else
       bind (s3_send (sa_env A) (List_Objects prefix True)) (\<lambda>r.
       let (contents, prefixes) = listing r in
       bind (dir_nodes (sa_env A) prefix prefixes) (\<lambda>dirs.
       ret (sort_key node_key (dirs @ object_nodes prefix contents))))))"

definition s3_read :: "s3_adapter \<Rightarrow> string \<Rightarrow> bytes action" where
  "s3_read A path =
     bind (lift (object_key (sa_root_prefix A) path False)) (\<lambda>key.
     if key = [] \<or> ends_with key DIR_MARKER_SUFFIX then raise Storage_File_Not_Found
     else
       bind (except_not_found (s3_send (sa_env A) (Get_Object key)) (raise Storage_File_Not_Found))
         body_of)"

definition s3_get_size :: "s3_adapter \<Rightarrow> string \<Rightarrow> int action" where
  "s3_get_size A path =
     bind (lift (object_key (sa_root_prefix A) path False)) (\<lambda>key.
     if key = [] \<or> ends_with key DIR_MARKER_SUFFIX then raise Storage_File_Not_Found
     else
       bind (except_not_found (s3_send (sa_env A) (Head_Object key)) (raise Storage_File_Not_Found))
         (\<lambda>r. ret (content_length r)))"

definition s3_exists :: "s3_adapter \<Rightarrow> string \<Rightarrow> bool action" where
  "s3_exists A path =
     bind (lift (object_key (sa_root_prefix A) path False)) (\<lambda>file_key.
     bind (head_exists (sa_env A) file_key) (\<lambda>found.
     if found then ret True else exists_prefix_or_marker A path))"

section \<open>Writing\<close>

text \<open>
  The local variables of \<open>write\<close> that outlive an exception: everything hashed so far, the open
  multipart upload, the next part number, and the parts.
\<close>

record upload =
  up_seen :: bytes
  up_id :: "string option"
  up_part :: nat
  up_parts :: "(nat \<times> string) list"

type_synonym 'a uploading = "(world \<times> upload, exn, 'a) act"

definition on_world :: "'a action \<Rightarrow> 'a uploading" where
  "on_world m = (\<lambda>(w, u). case m w of (r, w') \<Rightarrow> (r, (w', u)))"

definition upd :: "(upload \<Rightarrow> upload) \<Rightarrow> unit uploading" where
  "upd f = modify (\<lambda>(w, u). (w, f u))"

definition start_multipart :: "env \<Rightarrow> string \<Rightarrow> string action" where
  "start_multipart E key = bind (s3_send E (Create_Multipart key)) upload_id_of"

definition upload_buffer_part ::
  "env \<Rightarrow> string \<Rightarrow> string \<Rightarrow> bytes \<Rightarrow> unit uploading" where
  "upload_buffer_part E key uid body =
     bind (gets (\<lambda>(w, u). up_part u)) (\<lambda>n.
     bind (on_world (bind (s3_send E (Upload_Part key uid n body)) etag_of)) (\<lambda>etag.
     upd (\<lambda>u. u\<lparr>up_parts := up_parts u @ [(n, etag)]\<rparr>)))"

text \<open>\<open>if upload_id is None: upload_id = await self._start_multipart(...)\<close>\<close>

definition ensure_multipart :: "env \<Rightarrow> string \<Rightarrow> string uploading" where
  "ensure_multipart E key =
     bind (gets (\<lambda>(w, u). up_id u)) (\<lambda>current. case current of
       Some uid \<Rightarrow> ret uid
     | None \<Rightarrow> bind (on_world (start_multipart E key)) (\<lambda>uid.
         bind (upd (\<lambda>u. u\<lparr>up_id := Some uid\<rparr>)) (\<lambda>_. ret uid)))"

lemma part_size_pos: "0 < MULTIPART_PART_SIZE"
  by (simp add: MULTIPART_PART_SIZE_def)

text \<open>The inner \<open>while\<close>: full parts are sent, the rest of the buffer is returned.\<close>

function upload_full :: "env \<Rightarrow> string \<Rightarrow> bytes \<Rightarrow> bytes uploading" where
  "upload_full E key buffer =
     (if MULTIPART_PART_SIZE \<le> length buffer then
        bind (ensure_multipart E key) (\<lambda>uid.
        bind (upload_buffer_part E key uid (take MULTIPART_PART_SIZE buffer)) (\<lambda>_.
        bind (upd (\<lambda>u. u\<lparr>up_part := up_part u + 1\<rparr>)) (\<lambda>_.
        upload_full E key (drop MULTIPART_PART_SIZE buffer))))
      else ret buffer)"
  by pat_completeness auto
termination
  by (relation "measure (\<lambda>(E, key, buffer). length buffer)") (use part_size_pos in auto)

declare upload_full.simps [simp del]

fun write_chunks :: "env \<Rightarrow> string \<Rightarrow> source \<Rightarrow> bytes \<Rightarrow> bytes uploading" where
  "write_chunks E key Source_End buffer = ret buffer"
| "write_chunks E key (Source_Fail e) buffer = raise e"
| "write_chunks E key (Source_Chunk chunk rest) buffer =
     bind (upd (\<lambda>u. u\<lparr>up_seen := up_seen u @ chunk\<rparr>)) (\<lambda>_.
     bind (upload_full E key (buffer @ chunk)) (\<lambda>buffer'.
     write_chunks E key rest buffer'))"

definition write_rest :: "env \<Rightarrow> string \<Rightarrow> bytes \<Rightarrow> unit uploading" where
  "write_rest E key buffer =
     bind (gets (\<lambda>(w, u). up_id u)) (\<lambda>current. case current of
       None \<Rightarrow> on_world (send_unit E (Put_Object key buffer))
     | Some uid \<Rightarrow>
         bind (if buffer \<noteq> [] then upload_buffer_part E key uid buffer else ret ()) (\<lambda>_.
         bind (gets (\<lambda>(w, u). up_parts u)) (\<lambda>parts.
         bind (on_world (send_unit E (Complete_Multipart key uid parts))) (\<lambda>_.
         upd (\<lambda>u. u\<lparr>up_id := None\<rparr>)))))"

definition abort_multipart :: "env \<Rightarrow> string \<Rightarrow> string \<Rightarrow> unit action" where
  "abort_multipart E key uid = try_except (send_unit E (Abort_Multipart key uid)) (\<lambda>_. ret ())"

definition no_upload :: upload where
  "no_upload = \<lparr>up_seen = [], up_id = None, up_part = 1, up_parts = []\<rparr>"

text \<open>The \<open>except\<close> clauses of \<open>write\<close>; a path traversal error passes without an abort.\<close>

definition write_failed :: "env \<Rightarrow> string \<Rightarrow> exn \<Rightarrow> upload \<Rightarrow> string action" where
  "write_failed E key e u =
     (if e = Path_Traversal then raise e
      else case up_id u of
        None \<Rightarrow> raise e
      | Some uid \<Rightarrow> bind (abort_multipart E key uid) (\<lambda>_. raise e))"

definition s3_write :: "s3_adapter \<Rightarrow> string \<Rightarrow> source \<Rightarrow> int \<Rightarrow> string action" where
  "s3_write A path data declared =
     bind (lift (object_key (sa_root_prefix A) path False)) (\<lambda>final_key.
     if final_key = [] \<or> ends_with final_key DIR_MARKER_SUFFIX then raise Path_Traversal
     else (\<lambda>w.
       case bind (write_chunks (sa_env A) final_key data []) (write_rest (sa_env A) final_key)
              (w, no_upload) of
         (Inr _, (w', u)) \<Rightarrow> (Inr (sha256_hex (sa_env A) (up_seen u)), w')
       | (Inl e, (w', u)) \<Rightarrow> write_failed (sa_env A) final_key e u w'))"

section \<open>Copying\<close>

text \<open>The loop of the multipart copy: byte ranges of one part each, and the parts so far.\<close>

function copy_parts ::
  "env \<Rightarrow> string \<Rightarrow> string \<Rightarrow> string \<Rightarrow> int \<Rightarrow> nat \<Rightarrow> int \<Rightarrow> (nat \<times> string) list \<Rightarrow>
    (nat \<times> string) list action" where
  "copy_parts E source dest uid n part_number offset parts =
     (if offset < n then
        let stop = min (offset + int MULTIPART_PART_SIZE) n - 1 in
        bind (bind (s3_send E (Upload_Part_Copy dest uid part_number source offset stop)) etag_of) (\<lambda>etag.
        copy_parts E source dest uid n (part_number + 1) (stop + 1) (parts @ [(part_number, etag)]))
      else ret parts)"
  by pat_completeness auto
termination
  by (relation "measure (\<lambda>(E, source, dest, uid, n, k, offset, parts). nat (n - offset))")
    (auto simp: MULTIPART_PART_SIZE_def)

declare copy_parts.simps [simp del]

definition copy_object :: "env \<Rightarrow> string \<Rightarrow> string \<Rightarrow> unit action" where
  "copy_object E source dest =
     bind (except_not_found (s3_send E (Head_Object source)) (raise Storage_File_Not_Found)) (\<lambda>head.
     let n = content_length head in
     if n < COPY_OBJECT_MAX_BYTES then send_unit E (Copy_Object source dest)
     else
       bind (start_multipart E dest) (\<lambda>uid.
       try_except
         (bind (copy_parts E source dest uid n 1 0 []) (\<lambda>parts.
          send_unit E (Complete_Multipart dest uid parts)))
         (\<lambda>e. bind (abort_multipart E dest uid) (\<lambda>_. raise e))))"

section \<open>Deleting, creating directories, renaming\<close>

text \<open>\<open>range(0, len(keys), 1000)\<close> slices.\<close>

function batches :: "nat \<Rightarrow> 'a list \<Rightarrow> 'a list list" where
  "batches n xs = (if xs = [] \<or> n = 0 then [] else take n xs # batches n (drop n xs))"
  by pat_completeness auto
termination
  by (relation "measure (\<lambda>(n, xs). length xs)") auto

declare batches.simps [simp del]

definition delete_batches :: "env \<Rightarrow> string list \<Rightarrow> unit action" where
  "delete_batches E keys = for_each (\<lambda>batch. send_unit E (Delete_Objects batch)) (batches 1000 keys)"

definition keys_under :: "env \<Rightarrow> string \<Rightarrow> string list action" where
  "keys_under E prefix =
     bind (s3_send E (List_Objects prefix False)) (\<lambda>r. ret (map fst (fst (listing r))))"

definition s3_delete :: "s3_adapter \<Rightarrow> string \<Rightarrow> unit action" where
  "s3_delete A path =
     bind (lift (safe_logical_key path)) (\<lambda>logical.
     if logical = [] \<and> sa_root_prefix A = [] then raise Path_Traversal
     else
       bind (lift (object_key (sa_root_prefix A) path False)) (\<lambda>file_key.
       bind (lift (list_prefix (sa_root_prefix A) path)) (\<lambda>dir_prefix.
       bind (head_exists (sa_env A) file_key) (\<lambda>found.
       bind (keys_under (sa_env A) dir_prefix) (\<lambda>below.
       let unique_keys = fromkeys ((if found then [file_key] else []) @ below) in
       if unique_keys = [] then raise Storage_File_Not_Found
       else delete_batches (sa_env A) unique_keys)))))"

definition s3_mkdir :: "s3_adapter \<Rightarrow> string \<Rightarrow> unit action" where
  "s3_mkdir A path =
     bind (lift (safe_logical_key path)) (\<lambda>logical.
     if logical = [] then ret ()
     else
       let parts = split_on (CHR ''/'') logical in
       for_each (\<lambda>i.
         bind (lift (object_key (sa_root_prefix A) (join_on (CHR ''/'') (take (i + 1) parts)) True))
           (\<lambda>marker_key. send_unit (sa_env A) (Put_Object marker_key [])))
         [0..<length parts])"

definition s3_rename :: "s3_adapter \<Rightarrow> string \<Rightarrow> string \<Rightarrow> unit action" where
  "s3_rename A old_path new_path =
     bind (lift (object_key (sa_root_prefix A) old_path False)) (\<lambda>old_key.
     bind (lift (object_key (sa_root_prefix A) new_path False)) (\<lambda>new_key.
     bind (lift (list_prefix (sa_root_prefix A) old_path)) (\<lambda>old_prefix.
     bind (lift (list_prefix (sa_root_prefix A) new_path)) (\<lambda>new_prefix.
     bind (head_exists (sa_env A) old_key) (\<lambda>found.
     if found then
       bind (copy_object (sa_env A) old_key new_key) (\<lambda>_.
       send_unit (sa_env A) (Delete_Object old_key))
     else
       bind (keys_under (sa_env A) old_prefix) (\<lambda>source_keys.
       if source_keys = [] then raise Storage_File_Not_Found
       else
         bind (for_each (\<lambda>source_key.
             copy_object (sa_env A) source_key (new_prefix @ drop (length old_prefix) source_key))
           source_keys) (\<lambda>_.
         delete_batches (sa_env A) source_keys)))))))"

section \<open>Stale temporary entries\<close>

definition tmp_entry_path :: "string \<Rightarrow> string \<Rightarrow> string option" where
  "tmp_entry_path base key =
     (let prefix = base @ ''/'' in
      if base \<noteq> [] \<and> \<not> starts_with key prefix \<and> key \<noteq> base then None
      else
        let relative = (if base \<noteq> [] then
              (if starts_with key prefix then drop (length prefix) key else []) else key) in
        if relative = [] \<or> ends_with relative DIR_MARKER_SUFFIX then
          (let parts = split_on (CHR ''/'') (rstrip_by (\<lambda>c. c = CHR ''/'') relative) in
           if length parts \<ge> 2 \<and> parts ! (length parts - 2) = TMP_DIR_NAME
           then Some (join_on (CHR ''/'') parts) else None)
        else
          (let parts = split_on (CHR ''/'') relative;
               tmp_index = length (takeWhile (\<lambda>p. p \<noteq> TMP_DIR_NAME) parts) in
           if tmp_index = length parts then None
           else if tmp_index + 1 \<ge> length parts then None
           else Some (join_on (CHR ''/'') (take (tmp_index + 2) parts))))"

text \<open>\<open>entry_mtime\<close>: the newest modification per entry, in the order of the entries.\<close>

fun note_mtime :: "string \<Rightarrow> instant \<Rightarrow> (string \<times> instant) list \<Rightarrow> (string \<times> instant) list" where
  "note_mtime p t [] = [(p, t)]"
| "note_mtime p t ((q, s) # m) = (if q = p then (q, max s t) # m else (q, s) # note_mtime p t m)"

definition entry_mtimes :: "string \<Rightarrow> (string \<times> int \<times> instant) list \<Rightarrow> (string \<times> instant) list" where
  "entry_mtimes base contents =
     fold (\<lambda>(key, n, modified) m. case tmp_entry_path base key of
         None \<Rightarrow> m | Some p \<Rightarrow> note_mtime p modified m) contents []"

definition s3_stale_tmp :: "s3_adapter \<Rightarrow> instant \<Rightarrow> string list action" where
  "s3_stale_tmp A cutoff =
     bind (s3_send (sa_env A) (List_Objects
        (if sa_root_prefix A \<noteq> [] then sa_root_prefix A @ ''/'' else []) False)) (\<lambda>r.
     ret (map fst (filter (\<lambda>(p, t). t < cutoff)
       (entry_mtimes (sa_root_prefix A) (fst (listing r))))))"

section \<open>The adapter\<close>

definition s3_storage :: "s3_adapter \<Rightarrow> storage" where
  "s3_storage A = \<lparr>st_root_prefix = sa_root_prefix A, st_disk_id = sa_disk_id A,
     st_list = s3_list A, st_read = s3_read A, st_write = s3_write A, st_delete = s3_delete A,
     st_mkdir = s3_mkdir A, st_rename = s3_rename A, st_exists = s3_exists A,
     st_get_size = s3_get_size A, st_stale_tmp = s3_stale_tmp A, st_encrypt_path = ret\<rparr>"

definition create_storage_adapter :: "env \<Rightarrow> string \<Rightarrow> string \<Rightarrow> storage" where
  "create_storage_adapter E disk_id root_prefix = s3_storage (new_s3_adapter E disk_id root_prefix)"

definition build_disk_root_adapter :: "env \<Rightarrow> string \<Rightarrow> storage" where
  "build_disk_root_adapter E disk_id = create_storage_adapter E disk_id []"

section \<open>The adapter satisfies the storage interface\<close>

definition calm :: "'a uploading \<Rightarrow> bool" where
  "calm m \<longleftrightarrow> (\<forall>w u r w' u'. m (w, u) = (r, (w', u')) \<longrightarrow> same_rows w w')"

lemma calmD: "calm m \<Longrightarrow> m (w, u) = (r, (w', u')) \<Longrightarrow> same_rows w w'"
  unfolding calm_def by blast

named_theorems calm_rules

lemma calm_base [calm_rules]: "calm (ret x)" "calm (raise e)" "calm (gets f)" "calm (upd g)"
  by (simp_all add: calm_def upd_def)

lemma calm_on_world [calm_rules]: "rowless m \<Longrightarrow> calm (on_world m)"
  by (auto simp: calm_def on_world_def dest: rowlessD split: prod.splits)

lemma calm_bind [calm_rules]:
  assumes "calm m" and "\<And>x. calm (f x)"
  shows "calm (bind m f)"
  unfolding calm_def
proof (intro allI impI)
  fix w u r w' u' assume run: "bind m f (w, u) = (r, (w', u'))"
  obtain r1 w1 u1 where m: "m (w, u) = (r1, (w1, u1))" by (metis surj_pair)
  with assms(1) have s: "same_rows w w1" by (rule calmD)
  show "same_rows w w'"
  proof (cases r1)
    case (Inl e)
    with run m s show ?thesis by (simp add: bind_def)
  next
    case (Inr x)
    with run m have "f x (w1, u1) = (r, (w', u'))" by (simp add: bind_def)
    with assms(2) have "same_rows w1 w'" by (rule calmD)
    with s show ?thesis by (rule same_rows_trans)
  qed
qed

lemma calm_if [calm_rules]: "calm m \<Longrightarrow> calm n \<Longrightarrow> calm (if b then m else n)"
  by simp

lemma calm_option [calm_rules]:
  "calm m \<Longrightarrow> (\<And>x. calm (f x)) \<Longrightarrow> calm (case v of None \<Rightarrow> m | Some x \<Rightarrow> f x)"
  by (simp split: option.split)

lemma rowless_replies [rowless_rules, simp]:
  "rowless (body_of r)" "rowless (upload_id_of r)" "rowless (etag_of r)" "rowless (send_unit E c)"
  by (auto simp: body_of_def upload_id_of_def etag_of_def send_unit_def intro!: rowless_rules
      split: s3_reply.split)

lemma rowless_not_found [rowless_rules]: "rowless m \<Longrightarrow> rowless h \<Longrightarrow> rowless (except_not_found m h)"
  by (auto simp: except_not_found_def intro!: rowless_rules)

lemma rowless_map_act [rowless_rules]: "(\<And>x. rowless (f x)) \<Longrightarrow> rowless (map_act f xs)"
  by (induction xs) (auto intro!: rowless_rules)

lemma rowless_for_each [rowless_rules]: "(\<And>x. rowless (f x)) \<Longrightarrow> rowless (for_each f xs)"
  by (induction xs) (auto intro!: rowless_rules)

lemma rowless_heads [rowless_rules, simp]:
  "rowless (head_exists E k)" "rowless (keys_under E k)" "rowless (start_multipart E k)"
  "rowless (abort_multipart E k u)" "rowless (delete_batches E ks)"
  by (auto simp: head_exists_def keys_under_def start_multipart_def abort_multipart_def
      delete_batches_def intro!: rowless_rules)

lemma rowless_prefix [rowless_rules, simp]: "rowless (exists_prefix_or_marker A p)"
  by (auto simp: exists_prefix_or_marker_def Let_def intro!: rowless_rules)

lemma rowless_copy_parts [rowless_rules, simp]: "rowless (copy_parts E s d u n k off ps)"
proof (induction E s d u n k off ps rule: copy_parts.induct)
  case (1 E s d u n k off ps)
  then show ?case
    by (subst copy_parts.simps) (auto simp: Let_def intro!: rowless_rules)
qed

lemma rowless_copy_object [rowless_rules, simp]: "rowless (copy_object E s d)"
  by (auto simp: copy_object_def Let_def intro!: rowless_rules)

lemma calm_upload_part [calm_rules]:
  "calm (upload_buffer_part E key uid b)" "calm (ensure_multipart E key)"
  by (auto simp: upload_buffer_part_def ensure_multipart_def intro!: calm_rules rowless_rules)

lemma calm_upload_full [calm_rules]: "calm (upload_full E key b)"
proof (induction E key b rule: upload_full.induct)
  case (1 E key b)
  then show ?case by (subst upload_full.simps) (auto intro!: calm_rules)
qed

lemma calm_write_chunks [calm_rules]: "calm (write_chunks E key src b)"
  by (induction E key src b rule: write_chunks.induct)
    (auto intro!: calm_rules simp del: ret_run raise_run)

lemma calm_write_rest [calm_rules]: "calm (write_rest E key b)"
  by (auto simp: write_rest_def intro!: calm_rules)

lemma rowless_write_failed: "rowless (write_failed E key e u)"
  by (auto simp: write_failed_def intro!: rowless_rules split: option.split)

lemma rowless_s3_write [simp]: "rowless (s3_write A path data n)"
proof -
  have "rowless (\<lambda>w. case bind (write_chunks E key data []) (write_rest E key) (w, no_upload) of
         (Inr _, (w', u)) \<Rightarrow> (Inr (sha256_hex E (up_seen u)), w')
       | (Inl e, (w', u)) \<Rightarrow> write_failed E key e u w')" for E key
  proof -
    have c: "calm (bind (write_chunks E key data []) (write_rest E key))"
      by (intro calm_rules)
    show ?thesis
      unfolding rowless_def relates_def
    proof
      fix w
      obtain r w1 u1 where b:
        "bind (write_chunks E key data []) (write_rest E key) (w, no_upload) = (r, (w1, u1))"
        by (metis surj_pair)
      with c have "same_rows w w1" by (rule calmD)
      then show "same_rows w (snd (case bind (write_chunks E key data []) (write_rest E key) (w, no_upload) of
         (Inr _, (w', u)) \<Rightarrow> (Inr (sha256_hex E (up_seen u)), w')
       | (Inl e, (w', u)) \<Rightarrow> write_failed E key e u w'))"
        using b relatesD [of same_rows "write_failed E key e u1" w1 for e] rowless_write_failed
        by (auto simp: rowless_def split: sum.split intro: same_rows_trans)
    qed
  qed
  then show ?thesis unfolding s3_write_def by (intro rowless_rules)
qed

interpretation s3: storage_port "s3_storage A"
  by unfold_locales
    (auto simp: s3_storage_def s3_list_def dir_nodes_def s3_read_def s3_delete_def s3_mkdir_def
      s3_rename_def s3_exists_def s3_get_size_def s3_stale_tmp_def Let_def intro!: rowless_rules)

end
