(* ===== verification/S3Spec.thy ===== *)
theory S3Spec
  imports S3Adapter
begin

text \<open>
  What the storage adapter promises when the object store behaves as the S3 API documents it.
  The content of the bucket is a function of the calls it has answered; \<open>reliable\<close> states, for
  every call, the documented answer in that content.
\<close>

section \<open>The documented object store\<close>

record bucket =
  objects :: "string \<Rightarrow> bytes option"
  uploads :: "string \<Rightarrow> (string \<times> (nat \<Rightarrow> bytes option)) option"

definition byte_range :: "int \<Rightarrow> int \<Rightarrow> bytes \<Rightarrow> bytes" where
  "byte_range a z b = take (nat (z - a + 1)) (drop (nat a) b)"

definition add_part :: "string \<Rightarrow> nat \<Rightarrow> bytes option \<Rightarrow> bucket \<Rightarrow> bucket" where
  "add_part u n b B = (case uploads B u of
       None \<Rightarrow> B
     | Some (k, P) \<Rightarrow> B\<lparr>uploads := (uploads B)(u := Some (k, P(n := b)))\<rparr>)"

definition complete_upload :: "string \<Rightarrow> string \<Rightarrow> nat list \<Rightarrow> bucket \<Rightarrow> bucket" where
  "complete_upload k u ns B = (case uploads B u of
       None \<Rightarrow> B
     | Some (k', P) \<Rightarrow> B\<lparr>objects := (objects B)(k := Some (concat (map (\<lambda>n. the (P n)) ns))),
                          uploads := (uploads B)(u := None)\<rparr>)"

fun performed :: "s3_call \<Rightarrow> s3_reply \<Rightarrow> bucket \<Rightarrow> bucket" where
  "performed (Put_Object k b) r B = B\<lparr>objects := (objects B)(k := Some b)\<rparr>"
| "performed (Copy_Object s d) r B = B\<lparr>objects := (objects B)(d := objects B s)\<rparr>"
| "performed (Delete_Object k) r B = B\<lparr>objects := (objects B)(k := None)\<rparr>"
| "performed (Delete_Objects ks) r B =
     B\<lparr>objects := (\<lambda>k. if k \<in> set ks then None else objects B k)\<rparr>"
| "performed (Create_Multipart k) (S3_Upload_Id u) B =
     B\<lparr>uploads := (uploads B)(u := Some (k, \<lambda>_. None))\<rparr>"
| "performed (Upload_Part k u n b) r B = add_part u n (Some b) B"
| "performed (Upload_Part_Copy d u n s a z) r B =
     add_part u n (map_option (byte_range a z) (objects B s)) B"
| "performed (Complete_Multipart k u ps) r B = complete_upload k u (map fst ps) B"
| "performed (Abort_Multipart k u) r B = B\<lparr>uploads := (uploads B)(u := None)\<rparr>"
| "performed c r B = B"

definition after_call :: "s3_call \<times> s3_reply \<Rightarrow> bucket \<Rightarrow> bucket" where
  "after_call = (\<lambda>(c, r) B. case r of S3_Client_Error e \<Rightarrow> B | S3_Crash \<Rightarrow> B | _ \<Rightarrow> performed c r B)"

definition bucket_of :: "bucket \<Rightarrow> (s3_call \<times> s3_reply) list \<Rightarrow> bucket" where
  "bucket_of B calls = fold after_call calls B"

definition keys_with :: "bucket \<Rightarrow> string \<Rightarrow> string set" where
  "keys_with B prefix = {k. objects B k \<noteq> None \<and> starts_with k prefix}"

definition documented_reply :: "bucket \<Rightarrow> s3_call \<Rightarrow> s3_reply \<Rightarrow> bool" where
  "documented_reply B c r \<longleftrightarrow> (case c of
       Head_Object k \<Rightarrow> r = (case objects B k of None \<Rightarrow> S3_Client_Error ''404''
                           | Some b \<Rightarrow> S3_Length (int (length b)))
     | Get_Object k \<Rightarrow> r = (case objects B k of None \<Rightarrow> S3_Client_Error ''NoSuchKey''
                          | Some b \<Rightarrow> S3_Body b)
     | Create_Multipart k \<Rightarrow> (\<exists>u. r = S3_Upload_Id u \<and> uploads B u = None)
     | Upload_Part k u n b \<Rightarrow> uploads B u \<noteq> None \<longrightarrow> (\<exists>e. r = S3_Etag e)
     | Upload_Part_Copy d u n s a z \<Rightarrow>
         uploads B u \<noteq> None \<and> objects B s \<noteq> None \<longrightarrow> (\<exists>e. r = S3_Etag e)
     | Complete_Multipart k u ps \<Rightarrow> uploads B u \<noteq> None \<longrightarrow> r = S3_Done
     | Copy_Object s d \<Rightarrow>
         r = (if objects B s = None then S3_Client_Error ''NoSuchKey''
              else if s = d then S3_Client_Error ''InvalidRequest'' else S3_Done)
     | List_Objects p delimited \<Rightarrow> (\<exists>cs ps. r = S3_Listing cs ps \<and>
         (if delimited then True else set (map fst cs) = keys_with B p))
     | List_One p \<Rightarrow> (\<exists>cs. r = S3_Listing cs [] \<and> (cs = [] \<longleftrightarrow> keys_with B p = {}))
     | _ \<Rightarrow> r = S3_Done)"

definition reliable :: "bucket \<Rightarrow> env \<Rightarrow> bool" where
  "reliable B E \<longleftrightarrow> (\<forall>calls c. documented_reply (bucket_of B calls) c (s3_service E calls c))"

text \<open>The bucket as it is in a world, and one call to a reliable store.\<close>

definition stored :: "bucket \<Rightarrow> world \<Rightarrow> bucket" where
  "stored B w = bucket_of B (s3_log w)"

lemma send_documented:
  assumes "reliable B E"
  obtains r w' where "s3_send E c w = (case r of S3_Client_Error e \<Rightarrow> Inl (S3_Error e)
      | S3_Crash \<Rightarrow> Inl Other_Error | _ \<Rightarrow> Inr r, w')"
    "documented_reply (stored B w) c r" "stored B w' = after_call (c, r) (stored B w)"
proof (rule that [of "s3_service E (s3_log w) c"])
  show "s3_send E c w = (case s3_service E (s3_log w) c of S3_Client_Error e \<Rightarrow> Inl (S3_Error e)
      | S3_Crash \<Rightarrow> Inl Other_Error | _ \<Rightarrow> Inr (s3_service E (s3_log w) c),
      w\<lparr>s3_log := s3_log w @ [(c, s3_service E (s3_log w) c)]\<rparr>)"
    by (simp add: s3_send_def Let_def split: s3_reply.split)
  show "documented_reply (stored B w) c (s3_service E (s3_log w) c)"
    using assms by (simp add: reliable_def stored_def)
qed (simp add: stored_def bucket_of_def)

text \<open>The calls whose answer is determined.\<close>

lemma send_put:
  assumes "reliable B E"
  obtains w' where "send_unit E (Put_Object k b) w = (Inr (), w')"
    "stored B w' = (stored B w)\<lparr>objects := (objects (stored B w))(k := Some b)\<rparr>"
  by (rule send_documented [OF assms, of "Put_Object k b" w])
    (auto simp: send_unit_def bind_def documented_reply_def after_call_def)

lemma send_delete:
  assumes "reliable B E"
  obtains w' where "send_unit E (Delete_Object k) w = (Inr (), w')"
    "stored B w' = (stored B w)\<lparr>objects := (objects (stored B w))(k := None)\<rparr>"
  by (rule send_documented [OF assms, of "Delete_Object k" w])
    (auto simp: send_unit_def bind_def documented_reply_def after_call_def)

lemma send_deletes:
  assumes "reliable B E"
  obtains w' where "send_unit E (Delete_Objects ks) w = (Inr (), w')"
    "stored B w' = (stored B w)\<lparr>objects := (\<lambda>k. if k \<in> set ks then None else objects (stored B w) k)\<rparr>"
  by (rule send_documented [OF assms, of "Delete_Objects ks" w])
    (auto simp: send_unit_def bind_def documented_reply_def after_call_def)

lemma send_copy:
  assumes "reliable B E" "objects (stored B w) s = Some b" "s \<noteq> d"
  obtains w' where "send_unit E (Copy_Object s d) w = (Inr (), w')"
    "stored B w' = (stored B w)\<lparr>objects := (objects (stored B w))(d := Some b)\<rparr>"
  by (rule send_documented [OF assms(1), of "Copy_Object s d" w])
    (use assms(2,3) in \<open>auto simp: send_unit_def bind_def documented_reply_def after_call_def\<close>)

lemma send_head:
  assumes "reliable B E"
  obtains w' where "s3_send E (Head_Object k) w = (case objects (stored B w) k of
      None \<Rightarrow> Inl (S3_Error ''404'') | Some b \<Rightarrow> Inr (S3_Length (int (length b))), w')"
    "stored B w' = stored B w"
  by (rule send_documented [OF assms, of "Head_Object k" w])
    (auto simp: documented_reply_def after_call_def split: option.splits)

lemma send_get:
  assumes "reliable B E"
  obtains w' where "s3_send E (Get_Object k) w = (case objects (stored B w) k of
      None \<Rightarrow> Inl (S3_Error ''NoSuchKey'') | Some b \<Rightarrow> Inr (S3_Body b), w')"
    "stored B w' = stored B w"
  by (rule send_documented [OF assms, of "Get_Object k" w])
    (auto simp: documented_reply_def after_call_def split: option.splits)

lemma keys_under_all:
  assumes "reliable B E"
  obtains ks w' where "keys_under E p w = (Inr ks, w')" "set ks = keys_with (stored B w) p"
    "stored B w' = stored B w"
  by (rule send_documented [OF assms, of "List_Objects p False" w])
    (auto simp: documented_reply_def after_call_def keys_under_def bind_def listing_def)

lemma head_exists_iff:
  assumes "reliable B E"
  obtains w' where "head_exists E k w = (Inr (k \<noteq> [] \<and> objects (stored B w) k \<noteq> None), w')"
    "stored B w' = stored B w"
proof (cases "k = []")
  case True
  then show ?thesis using that [of w] by (simp add: head_exists_def)
next
  case False
  obtain w' where "s3_send E (Head_Object k) w = (case objects (stored B w) k of
      None \<Rightarrow> Inl (S3_Error ''404'') | Some b \<Rightarrow> Inr (S3_Length (int (length b))), w')"
    "stored B w' = stored B w"
    by (rule send_head [OF assms])
  with False show ?thesis
    by (intro that [of w'])
      (auto simp: head_exists_def except_not_found_def try_except_def bind_def is_not_found_def
        split: option.splits)
qed

section \<open>Writing stores the data\<close>

text \<open>
  The invariant of the write loop: the objects are untouched; until a multipart upload is open
  everything seen is in the buffer, afterwards the parts sent and the buffer make it up.
\<close>

definition parts_sent :: "(string \<times> (nat \<Rightarrow> bytes option)) option \<Rightarrow> string \<Rightarrow> upload \<Rightarrow> bytes list \<Rightarrow> bool" where
  "parts_sent pending key u bs \<longleftrightarrow> (\<exists>P. pending = Some (key, P) \<and>
     map fst (up_parts u) = [1..<Suc (length bs)] \<and> (\<forall>i < length bs. P (Suc i) = Some (bs ! i)))"

definition writing ::
  "bucket \<Rightarrow> string \<Rightarrow> (string \<Rightarrow> bytes option) \<Rightarrow> world \<Rightarrow> upload \<Rightarrow> bytes \<Rightarrow> bool" where
  "writing B key objs w u buffer \<longleftrightarrow> objects (stored B w) = objs \<and> (case up_id u of
       None \<Rightarrow> up_parts u = [] \<and> up_part u = 1 \<and> buffer = up_seen u
     | Some uid \<Rightarrow> \<exists>bs. parts_sent (uploads (stored B w) uid) key u bs \<and>
         up_part u = Suc (length bs) \<and> concat bs @ buffer = up_seen u)"

lemma parts_sent_done:
  assumes "pending = Some (k', P)" and "parts_sent pending key u bs"
  shows "concat (map (\<lambda>n. the (P n)) (map fst (up_parts u))) = concat bs"
proof -
  from assms have fst: "map fst (up_parts u) = [1..<Suc (length bs)]"
    and P: "\<And>i. i < length bs \<Longrightarrow> P (Suc i) = Some (bs ! i)"
    by (auto simp: parts_sent_def)
  have "map (\<lambda>n. the (P n)) [1..<Suc (length bs)] = bs"
    by (rule nth_equalityI) (auto simp: P simp del: upt_Suc)
  then show ?thesis by (simp only: fst)
qed

lemma ensure_multipart_ok:
  assumes rel: "reliable B E" and I: "writing B key objs w u buffer"
  obtains uid w' u' where "ensure_multipart E key (w, u) = (Inr uid, (w', u'))"
    "writing B key objs w' u' buffer" "up_id u' = Some uid" "up_seen u' = up_seen u"
proof (cases "up_id u")
  case (Some uid)
  then show ?thesis using that [of uid w u] I by (simp add: ensure_multipart_def bind_def)
next
  case None
  obtain r w' where s: "s3_send E (Create_Multipart key) w = (case r of S3_Client_Error e \<Rightarrow> Inl (S3_Error e)
      | S3_Crash \<Rightarrow> Inl Other_Error | _ \<Rightarrow> Inr r, w')"
    and d: "documented_reply (stored B w) (Create_Multipart key) r"
    and st: "stored B w' = after_call (Create_Multipart key, r) (stored B w)"
    by (rule send_documented [OF rel])
  from d obtain uid where r: "r = S3_Upload_Id uid" by (auto simp: documented_reply_def)
  let ?u = "u\<lparr>up_id := Some uid\<rparr>"
  have "ensure_multipart E key (w, u) = (Inr uid, (w', ?u))"
    using None s r
    by (simp add: ensure_multipart_def bind_def on_world_def start_multipart_def upload_id_of_def upd_def)
  moreover have "writing B key objs w' ?u buffer"
    using I None st r by (auto simp: writing_def after_call_def parts_sent_def)
  ultimately show ?thesis using that by simp
qed

lemma upload_part_ok:
  assumes rel: "reliable B E" and I: "writing B key objs w u (part @ buffer)" and id: "up_id u = Some uid"
  obtains w' u' where
    "bind (upload_buffer_part E key uid part) (\<lambda>_. upd (\<lambda>u. u\<lparr>up_part := up_part u + 1\<rparr>)) (w, u) =
       (Inr (), (w', u'))"
    "upload_buffer_part E key uid part (w, u) = (Inr (), (w', u'\<lparr>up_part := up_part u\<rparr>))"
    "writing B key objs w' u' buffer" "up_id u' = Some uid" "up_seen u' = up_seen u"
proof -
  let ?c = "Upload_Part key uid (up_part u) part"
  from I id obtain bs P where P: "uploads (stored B w) uid = Some (key, P)"
    "map fst (up_parts u) = [1..<Suc (length bs)]" "\<forall>i < length bs. P (Suc i) = Some (bs ! i)"
    "up_part u = Suc (length bs)" "concat bs @ part @ buffer = up_seen u"
    and objs: "objects (stored B w) = objs"
    by (auto simp: writing_def parts_sent_def)
  obtain r w' where s: "s3_send E ?c w = (case r of S3_Client_Error e \<Rightarrow> Inl (S3_Error e)
      | S3_Crash \<Rightarrow> Inl Other_Error | _ \<Rightarrow> Inr r, w')"
    and d: "documented_reply (stored B w) ?c r" and st: "stored B w' = after_call (?c, r) (stored B w)"
    by (rule send_documented [OF rel])
  from d P(1) obtain e where r: "r = S3_Etag e" by (auto simp: documented_reply_def)
  let ?u = "u\<lparr>up_parts := up_parts u @ [(up_part u, e)], up_part := up_part u + 1\<rparr>"
  have run: "upload_buffer_part E key uid part (w, u) = (Inr (), (w', ?u\<lparr>up_part := up_part u\<rparr>))"
    using s r by (cases u) (simp add: upload_buffer_part_def bind_def on_world_def etag_of_def upd_def)
  have up: "uploads (stored B w') uid = Some (key, P(up_part u := Some part))"
    and ob: "objects (stored B w') = objs"
    using st r P(1) objs by (simp_all add: after_call_def add_part_def)
  have "parts_sent (uploads (stored B w') uid) key ?u (bs @ [part])"
    unfolding parts_sent_def up using P(2-4) by (auto simp: nth_append less_Suc_eq)
  then have "writing B key objs w' ?u buffer"
    using ob P(4,5) id unfolding writing_def by (auto intro!: exI [of _ "bs @ [part]"])
  moreover have "bind (upload_buffer_part E key uid part)
      (\<lambda>_. upd (\<lambda>u. u\<lparr>up_part := up_part u + 1\<rparr>)) (w, u) = (Inr (), (w', ?u))"
    using run by (cases u) (simp add: bind_def upd_def)
  ultimately show ?thesis using run id by (intro that [of w' ?u]) simp_all
qed

lemma upload_full_ok:
  assumes rel: "reliable B E"
  shows "writing B key objs w u buffer \<Longrightarrow> \<exists>buffer' w' u'.
    upload_full E key buffer (w, u) = (Inr buffer', (w', u')) \<and> writing B key objs w' u' buffer' \<and>
    up_seen u' = up_seen u"
proof (induction "length buffer" arbitrary: buffer w u rule: less_induct)
  case less
  show ?case
  proof (cases "MULTIPART_PART_SIZE \<le> length buffer")
    case False
    then show ?thesis using less.prems by (subst upload_full.simps) auto
  next
    case True
    let ?p = "take MULTIPART_PART_SIZE buffer" and ?b = "drop MULTIPART_PART_SIZE buffer"
    obtain uid w1 u1 where 1: "ensure_multipart E key (w, u) = (Inr uid, (w1, u1))"
      "writing B key objs w1 u1 buffer" "up_id u1 = Some uid" "up_seen u1 = up_seen u"
      by (rule ensure_multipart_ok [OF rel less.prems])
    have "writing B key objs w1 u1 (?p @ ?b)" using 1 by simp
    then obtain w2 u2 where 2:
      "bind (upload_buffer_part E key uid ?p) (\<lambda>_. upd (\<lambda>u. u\<lparr>up_part := up_part u + 1\<rparr>)) (w1, u1) =
         (Inr (), (w2, u2))"
      "writing B key objs w2 u2 ?b" "up_seen u2 = up_seen u1"
      using 1(3) by (rule upload_part_ok [OF rel]) (rule that)
    have "length ?b < length buffer" using True part_size_pos by simp
    from less.hyps [OF this 2(2)] obtain b3 w3 u3 where 3:
      "upload_full E key ?b (w2, u2) = (Inr b3, (w3, u3))" "writing B key objs w3 u3 b3"
      "up_seen u3 = up_seen u2" by blast
    have "upload_full E key buffer (w, u) =
        bind (bind (upload_buffer_part E key uid ?p) (\<lambda>_. upd (\<lambda>u. u\<lparr>up_part := up_part u + 1\<rparr>)))
          (\<lambda>_. upload_full E key ?b) (w1, u1)"
      using True 1(1) by (subst upload_full.simps) (simp add: bind_assoc, simp add: bind_def)
    also have "\<dots> = (Inr b3, (w3, u3))" using 2(1) 3(1) by (subst bind_run) simp
    finally show ?thesis using 3 2 1 by auto
  qed
qed

lemma write_chunks_ok:
  assumes rel: "reliable B E"
  shows "source_error data = None \<Longrightarrow> writing B key objs w u buffer \<Longrightarrow> \<exists>buffer' w' u'.
    write_chunks E key data buffer (w, u) = (Inr buffer', (w', u')) \<and>
    writing B key objs w' u' buffer' \<and> up_seen u' = up_seen u @ source_bytes data"
proof (induction data arbitrary: buffer w u)
  case (Source_Chunk chunk rest)
  let ?u = "u\<lparr>up_seen := up_seen u @ chunk\<rparr>"
  have "writing B key objs w ?u (buffer @ chunk)"
    using Source_Chunk.prems(2) by (auto simp: writing_def parts_sent_def split: option.splits)
  from upload_full_ok [OF rel this] obtain b1 w1 u1 where 1:
    "upload_full E key (buffer @ chunk) (w, ?u) = (Inr b1, (w1, u1))"
    "writing B key objs w1 u1 b1" "up_seen u1 = up_seen u @ chunk" by auto
  from Source_Chunk.IH [OF _ 1(2)] Source_Chunk.prems(1) obtain b2 w2 u2 where 2:
    "write_chunks E key rest b1 (w1, u1) = (Inr b2, (w2, u2))" "writing B key objs w2 u2 b2"
    "up_seen u2 = up_seen u1 @ source_bytes rest" by auto
  show ?case
    using 1 2 by (auto simp: bind_def upd_def)
qed auto

lemma write_rest_ok:
  assumes rel: "reliable B E" and I: "writing B key objs w u buffer"
  obtains w' u' where "write_rest E key buffer (w, u) = (Inr (), (w', u'))" "up_seen u' = up_seen u"
    "objects (stored B w') = objs(key := Some (up_seen u))"
proof (cases "up_id u")
  case None
  then have b: "buffer = up_seen u" and objs: "objects (stored B w) = objs"
    using I by (auto simp: writing_def)
  obtain w' where "send_unit E (Put_Object key buffer) w = (Inr (), w')"
    "stored B w' = (stored B w)\<lparr>objects := (objects (stored B w))(key := Some buffer)\<rparr>"
    by (rule send_put [OF rel])
  then show ?thesis
    using None b objs by (intro that [of w' u]) (simp_all add: write_rest_def bind_def on_world_def)
next
  case (Some uid)
  let ?last = "if buffer \<noteq> [] then upload_buffer_part E key uid buffer else ret ()"
  obtain w1 u1 bs where 1: "?last (w, u) = (Inr (), (w1, u1))" "up_seen u1 = up_seen u"
    "parts_sent (uploads (stored B w1) uid) key u1 bs" "concat bs = up_seen u"
    "objects (stored B w1) = objs"
  proof (cases "buffer = []")
    case True
    then show ?thesis using I Some that [of w u] by (auto simp: writing_def)
  next
    case False
    have I': "writing B key objs w u (buffer @ [])" using I by simp
    obtain w' u' where "upload_buffer_part E key uid buffer (w, u) = (Inr (), (w', u'\<lparr>up_part := up_part u\<rparr>))"
      "writing B key objs w' u' []" "up_id u' = Some uid" "up_seen u' = up_seen u"
      by (rule upload_part_ok [OF rel I' Some])
    moreover from this obtain bs where "parts_sent (uploads (stored B w') uid) key u' bs"
      "concat bs = up_seen u" "objects (stored B w') = objs" by (auto simp: writing_def)
    ultimately show ?thesis
      using False by (intro that [of w' "u'\<lparr>up_part := up_part u\<rparr>" bs]) (auto simp: parts_sent_def)
  qed
  from 1(3) obtain P where P: "uploads (stored B w1) uid = Some (key, P)" by (auto simp: parts_sent_def)
  let ?c = "Complete_Multipart key uid (up_parts u1)"
  obtain r w' where s: "s3_send E ?c w1 = (case r of S3_Client_Error e \<Rightarrow> Inl (S3_Error e)
      | S3_Crash \<Rightarrow> Inl Other_Error | _ \<Rightarrow> Inr r, w')"
    and d: "documented_reply (stored B w1) ?c r" and st: "stored B w' = after_call (?c, r) (stored B w1)"
    by (rule send_documented [OF rel])
  from d P have r: "r = S3_Done" by (simp add: documented_reply_def)
  have run: "write_rest E key buffer (w, u) = (Inr (), (w', u1\<lparr>up_id := None\<rparr>))"
    using Some 1(1) s r by (simp add: write_rest_def bind_def on_world_def upd_def send_unit_def)
  have "objects (stored B w') = objs(key := Some (up_seen u))"
    using st r P 1(4,5) parts_sent_done [OF P 1(3)]
    by (simp add: after_call_def complete_upload_def)
  then show ?thesis using run 1(2) by (intro that [of w' "u1\<lparr>up_id := None\<rparr>"]) simp_all
qed

text \<open>An object can be addressed: the path is safe and names no directory.\<close>

definition file_key :: "s3_adapter \<Rightarrow> string \<Rightarrow> string option" where
  "file_key A path = (case object_key (sa_root_prefix A) path False of
       Inl e \<Rightarrow> None
     | Inr key \<Rightarrow> if key = [] \<or> ends_with key DIR_MARKER_SUFFIX then None else Some key)"

lemma file_keyD:
  "file_key A path = Some key \<Longrightarrow> object_key (sa_root_prefix A) path False = Inr key \<and> key \<noteq> [] \<and>
    \<not> ends_with key DIR_MARKER_SUFFIX"
  by (auto simp: file_key_def split: sum.splits if_splits)

lemma s3_write_ok:
  assumes rel: "reliable B (sa_env A)" and key: "file_key A path = Some key"
    and src: "source_error data = None"
  obtains w' where "s3_write A path data n w = (Inr (sha256_hex (sa_env A) (source_bytes data)), w')"
    "objects (stored B w') = (objects (stored B w))(key := Some (source_bytes data))"
proof -
  have "writing B key (objects (stored B w)) w no_upload []"
    by (simp add: writing_def no_upload_def)
  from write_chunks_ok [OF rel src this] obtain b1 w1 u1 where 1:
    "write_chunks (sa_env A) key data [] (w, no_upload) = (Inr b1, (w1, u1))"
    "writing B key (objects (stored B w)) w1 u1 b1" "up_seen u1 = source_bytes data"
    by (auto simp: no_upload_def)
  obtain w2 u2 where 2: "write_rest (sa_env A) key b1 (w1, u1) = (Inr (), (w2, u2))"
    "up_seen u2 = up_seen u1"
    "objects (stored B w2) = (objects (stored B w))(key := Some (up_seen u1))"
    by (rule write_rest_ok [OF rel 1(2)])
  show ?thesis
    using file_keyD [OF key] 1 2
    by (intro that [of w2]) (simp_all add: s3_write_def bind_def lift_def)
qed

lemma s3_read_ok:
  assumes rel: "reliable B (sa_env A)" and key: "file_key A path = Some key"
  obtains w' where "s3_read A path w = (case objects (stored B w) key of
      None \<Rightarrow> Inl Storage_File_Not_Found | Some b \<Rightarrow> Inr b, w')" "stored B w' = stored B w"
proof -
  obtain w' where "s3_send (sa_env A) (Get_Object key) w = (case objects (stored B w) key of
      None \<Rightarrow> Inl (S3_Error ''NoSuchKey'') | Some b \<Rightarrow> Inr (S3_Body b), w')"
    "stored B w' = stored B w"
    by (rule send_get [OF rel])
  then show ?thesis
    using file_keyD [OF key]
    by (intro that [of w'])
      (auto simp: s3_read_def bind_def lift_def except_not_found_def try_except_def is_not_found_def
        body_of_def split: option.splits)
qed

section \<open>Deleting and renaming\<close>

lemma batches_Cons: "xs \<noteq> [] \<Longrightarrow> 0 < n \<Longrightarrow> batches n xs = take n xs # batches n (drop n xs)"
  by (subst batches.simps) simp

lemma batches_Nil [simp]: "batches n [] = []"
  by (subst batches.simps) simp

lemma concat_batches: "0 < n \<Longrightarrow> concat (batches n xs) = xs"
proof (induction n xs rule: batches.induct)
  case (1 n xs)
  then show ?case by (cases "xs = []") (simp_all add: batches_Cons)
qed

lemma batches_bounded: "0 < n \<Longrightarrow> b \<in> set (batches n xs) \<Longrightarrow> b \<noteq> [] \<and> length b \<le> n"
proof (induction n xs rule: batches.induct)
  case (1 n xs)
  then show ?case by (cases "xs = []") (auto simp: batches_Cons)
qed

lemma send_all_deletes:
  assumes rel: "reliable B E"
  shows "\<exists>w'. for_each (\<lambda>batch. send_unit E (Delete_Objects batch)) bs w = (Inr (), w') \<and>
    objects (stored B w') = (\<lambda>k. if k \<in> set (concat bs) then None else objects (stored B w) k)"
proof (induction bs arbitrary: w)
  case (Cons b bs)
  obtain w1 where 1: "send_unit E (Delete_Objects b) w = (Inr (), w1)"
    "stored B w1 = (stored B w)\<lparr>objects := (\<lambda>k. if k \<in> set b then None else objects (stored B w) k)\<rparr>"
    by (rule send_deletes [OF rel])
  from Cons.IH obtain w2 where "for_each (\<lambda>batch. send_unit E (Delete_Objects batch)) bs w1 = (Inr (), w2)"
    "objects (stored B w2) = (\<lambda>k. if k \<in> set (concat bs) then None else objects (stored B w1) k)"
    by blast
  with 1 show ?case by (auto simp: bind_def)
qed simp

lemma delete_batches_ok:
  assumes rel: "reliable B E"
  obtains w' where "delete_batches E ks w = (Inr (), w')"
    "objects (stored B w') = (\<lambda>k. if k \<in> set ks then None else objects (stored B w) k)"
proof -
  have all: "concat (batches 1000 ks) = ks" by (rule concat_batches) simp
  show ?thesis
    using send_all_deletes [OF rel, of "batches 1000 ks" w]
    unfolding all delete_batches_def [symmetric] by (elim exE conjE) (rule that)
qed

lemma list_prefix_key:
  assumes "object_key base path False = Inr key" "key \<noteq> []" "\<not> ends_with key DIR_MARKER_SUFFIX"
  shows "list_prefix base path = Inr (key @ DIR_MARKER_SUFFIX)"
proof -
  let ?key = "\<lambda>logical. if logical \<noteq> [] then (if base \<noteq> [] then base @ CHR ''/'' # logical else logical)
    else base"
  obtain logical where s: "safe_logical_key path = Inr logical" and key: "?key logical = key"
    using assms(1) unfolding object_key_def map_sum_Inr_iff Let_def simp_thms if_False by blast
  have "ends_with (key @ DIR_MARKER_SUFFIX) DIR_MARKER_SUFFIX" by (simp add: ends_with_def)
  then show ?thesis
    unfolding list_prefix_def object_key_def s Let_def map_sum.simps key
    using assms(2,3) by (simp only: if_True if_False simp_thms append_is_Nil_conv)
qed

lemma s3_delete_ok:
  assumes rel: "reliable B (sa_env A)" and key: "file_key A path = Some key"
    and found: "objects (stored B w) key \<noteq> None \<or> keys_with (stored B w) (key @ ''/'') \<noteq> {}"
    and safe: "safe_logical_key path = Inr logical" "logical \<noteq> [] \<or> sa_root_prefix A \<noteq> []"
  obtains w' where "s3_delete A path w = (Inr (), w')"
    "objects (stored B w') = (\<lambda>k. if k = key \<or> starts_with k (key @ ''/'') then None
       else objects (stored B w) k)"
proof -
  let ?E = "sa_env A" and ?p = "key @ DIR_MARKER_SUFFIX"
  note k = file_keyD [OF key]
  have prefix: "list_prefix (sa_root_prefix A) path = Inr ?p" using k by (auto intro: list_prefix_key)
  obtain w1 where 1: "head_exists ?E key w = (Inr (key \<noteq> [] \<and> objects (stored B w) key \<noteq> None), w1)"
    "stored B w1 = stored B w" by (rule head_exists_iff [OF rel])
  obtain ks w2 where 2: "keys_under ?E ?p w1 = (Inr ks, w2)" "set ks = keys_with (stored B w) ?p"
    "stored B w2 = stored B w"
    using keys_under_all [OF rel, of ?p w1] unfolding 1(2) by blast
  let ?all = "fromkeys ((if objects (stored B w) key \<noteq> None then [key] else []) @ ks)"
  have "set ?all \<noteq> {}"
    using found unfolding set_fromkeys set_append 2(2) DIR_MARKER_SUFFIX_def by auto
  then have ne: "?all \<noteq> []" by (metis set_empty)
  obtain w3 where 3: "delete_batches ?E ?all w2 = (Inr (), w3)"
    "objects (stored B w3) = (\<lambda>k. if k \<in> set ?all then None else objects (stored B w) k)"
    using delete_batches_ok [OF rel, of ?all w2] unfolding 2(3) by blast
  have "s3_delete A path w = (Inr (), w3)"
    using k prefix safe 1(1) 2(1) 3(1) ne
    by (simp add: s3_delete_def bind_def lift_def Let_def del: fromkeys.simps)
  moreover have "objects (stored B w3) = (\<lambda>k. if k = key \<or> starts_with k (key @ ''/'') then None
       else objects (stored B w) k)"
    unfolding 3(2) set_fromkeys set_append 2(2) keys_with_def DIR_MARKER_SUFFIX_def
    by (rule ext) auto
  ultimately show ?thesis by (rule that)
qed

text \<open>Copying in byte ranges puts the source together again.\<close>

lemma take_byte_range:
  assumes "0 \<le> a" "a \<le> z + 1"
  shows "take (nat a) b @ byte_range a z b = take (nat (z + 1)) b"
proof -
  have "nat (z + 1) = nat a + nat (z - a + 1)" using assms by simp
  then show ?thesis by (simp add: byte_range_def take_add)
qed

lemma copy_parts_ok:
  assumes rel: "reliable B E" and n: "n = int (length b)"
  shows "objects (stored B w) source = Some b \<Longrightarrow> 0 \<le> offset \<Longrightarrow> offset \<le> n \<Longrightarrow>
    uploads (stored B w) uid = Some (dest, P) \<Longrightarrow> map fst ps = [1..<k] \<Longrightarrow> 0 < k \<Longrightarrow>
    concat (map (\<lambda>i. the (P i)) [1..<k]) = take (nat offset) b \<Longrightarrow>
    \<exists>ps' w' P'. copy_parts E source dest uid n k offset ps w = (Inr ps', w') \<and>
      objects (stored B w') = objects (stored B w) \<and> uploads (stored B w') uid = Some (dest, P') \<and>
      concat (map (\<lambda>i. the (P' i)) (map fst ps')) = b"
proof (induction "nat (n - offset)" arbitrary: w P k offset ps rule: less_induct)
  case less
  show ?case
  proof (cases "offset < n")
    case False
    then have "offset = n" using less.prems(3) by simp
    with less.prems(7) n have "concat (map (\<lambda>i. the (P i)) (map fst ps)) = b"
      by (simp only: less.prems(5)) simp
    moreover have "copy_parts E source dest uid n k offset ps w = (Inr ps, w)"
      using False by (subst copy_parts.simps) simp
    ultimately show ?thesis using less.prems(4) by blast
  next
    case True
    define stop where "stop = min (offset + int MULTIPART_PART_SIZE) n - 1"
    have stop: "offset \<le> stop" "stop < n" using True part_size_pos by (auto simp: stop_def)
    let ?c = "Upload_Part_Copy dest uid k source offset stop"
    let ?P = "P(k := Some (byte_range offset stop b))"
    obtain r w' where s: "s3_send E ?c w = (case r of S3_Client_Error e \<Rightarrow> Inl (S3_Error e)
        | S3_Crash \<Rightarrow> Inl Other_Error | _ \<Rightarrow> Inr r, w')"
      and d: "documented_reply (stored B w) ?c r" and st: "stored B w' = after_call (?c, r) (stored B w)"
      by (rule send_documented [OF rel])
    from d less.prems obtain etag where r: "r = S3_Etag etag" by (auto simp: documented_reply_def)
    have st': "objects (stored B w') = objects (stored B w)" "uploads (stored B w') uid = Some (dest, ?P)"
      using st r less.prems by (simp_all add: after_call_def add_part_def)
    have "concat (map (\<lambda>i. the (?P i)) [1..<k + 1]) =
        concat (map (\<lambda>i. the (P i)) [1..<k]) @ byte_range offset stop b"
      using less.prems(6) by (auto simp: intro!: arg_cong [where f = concat])
    also have "\<dots> = take (nat (stop + 1)) b"
      using less.prems(2,7) stop by (simp add: take_byte_range)
    finally have "\<exists>ps' w'' P'. copy_parts E source dest uid n (k + 1) (stop + 1) (ps @ [(k, etag)]) w' = (Inr ps', w'') \<and>
      objects (stored B w'') = objects (stored B w') \<and> uploads (stored B w'') uid = Some (dest, P') \<and>
      concat (map (\<lambda>i. the (P' i)) (map fst ps')) = b"
      using less.prems stop st' by (intro less.hyps) auto
    moreover have "copy_parts E source dest uid n k offset ps w =
        copy_parts E source dest uid n (k + 1) (stop + 1) (ps @ [(k, etag)]) w'"
      using True s r by (subst copy_parts.simps) (simp add: Let_def bind_def etag_of_def stop_def)
    ultimately show ?thesis using st'(1) by simp
  qed
qed

lemma copy_object_ok:
  assumes rel: "reliable B E" and src: "objects (stored B w) s = Some b" and sd: "s \<noteq> d"
  obtains w' where "copy_object E s d w = (Inr (), w')"
    "objects (stored B w') = (objects (stored B w))(d := Some b)"
proof -
  obtain w1 where 1: "s3_send E (Head_Object s) w = (Inr (S3_Length (int (length b))), w1)"
    "stored B w1 = stored B w"
    using send_head [OF rel, of s w] src by auto
  show ?thesis
  proof (cases "int (length b) < COPY_OBJECT_MAX_BYTES")
    case True
    have src1: "objects (stored B w1) s = Some b" using src 1(2) by simp
    obtain w2 where "send_unit E (Copy_Object s d) w1 = (Inr (), w2)"
      "stored B w2 = (stored B w1)\<lparr>objects := (objects (stored B w1))(d := Some b)\<rparr>"
      by (rule send_copy [OF rel src1 sd])
    then show ?thesis
      using True 1 by (intro that [of w2])
        (simp_all add: copy_object_def except_not_found_def try_except_def bind_def content_length_def)
  next
    case False
    obtain r w2 where s: "s3_send E (Create_Multipart d) w1 = (case r of S3_Client_Error e \<Rightarrow> Inl (S3_Error e)
        | S3_Crash \<Rightarrow> Inl Other_Error | _ \<Rightarrow> Inr r, w2)"
      and dr: "documented_reply (stored B w1) (Create_Multipart d) r"
      and st: "stored B w2 = after_call (Create_Multipart d, r) (stored B w1)"
      by (rule send_documented [OF rel])
    from dr obtain uid where r: "r = S3_Upload_Id uid" by (auto simp: documented_reply_def)
    have 2: "objects (stored B w2) = objects (stored B w)"
      "uploads (stored B w2) uid = Some (d, \<lambda>_. None)"
      using st r 1(2) by (simp_all add: after_call_def)
    have "\<exists>ps' w' P'. copy_parts E s d uid (int (length b)) 1 0 [] w2 = (Inr ps', w') \<and>
      objects (stored B w') = objects (stored B w2) \<and> uploads (stored B w') uid = Some (d, P') \<and>
      concat (map (\<lambda>i. the (P' i)) (map fst ps')) = b"
      using src 2 by (intro copy_parts_ok [OF rel]) auto
    then obtain ps w3 P where 3: "copy_parts E s d uid (int (length b)) 1 0 [] w2 = (Inr ps, w3)"
      "objects (stored B w3) = objects (stored B w)" "uploads (stored B w3) uid = Some (d, P)"
      "concat (map (\<lambda>i. the (P i)) (map fst ps)) = b" using 2(1) by auto
    let ?c = "Complete_Multipart d uid ps"
    obtain r' w4 where s4: "s3_send E ?c w3 = (case r' of S3_Client_Error e \<Rightarrow> Inl (S3_Error e)
        | S3_Crash \<Rightarrow> Inl Other_Error | _ \<Rightarrow> Inr r', w4)"
      and d4: "documented_reply (stored B w3) ?c r'" and st4: "stored B w4 = after_call (?c, r') (stored B w3)"
      by (rule send_documented [OF rel])
    from d4 3(3) have r': "r' = S3_Done" by (simp add: documented_reply_def)
    have "copy_object E s d w = (Inr (), w4)"
      using False 1(1) s r 3(1) s4 r'
      by (simp add: copy_object_def except_not_found_def try_except_def bind_def content_length_def
          start_multipart_def upload_id_of_def send_unit_def)
    moreover have "objects (stored B w4) = (objects (stored B w))(d := Some b)"
      using st4 r' 3(2-4) by (simp add: after_call_def complete_upload_def)
    ultimately show ?thesis by (rule that)
  qed
qed

section \<open>A reference store\<close>

text \<open>
  A concrete store with the documented behaviour, from an empty bucket: it answers from the
  content the calls so far have produced. It shows that \<open>reliable\<close> can hold.
\<close>

definition empty_bucket :: bucket where
  "empty_bucket = \<lparr>objects = (\<lambda>_. None), uploads = (\<lambda>_. None)\<rparr>"

fun written_keys :: "s3_call \<Rightarrow> string list" where
  "written_keys (Put_Object k b) = [k]"
| "written_keys (Copy_Object s d) = [d]"
| "written_keys (Complete_Multipart k u ps) = [k]"
| "written_keys c = []"

fun given_ids :: "s3_reply \<Rightarrow> string list" where
  "given_ids (S3_Upload_Id u) = [u]"
| "given_ids r = []"

definition reference_store :: "(s3_call \<times> s3_reply) list \<Rightarrow> s3_call \<Rightarrow> s3_reply" where
  "reference_store calls c =
     (let B = bucket_of empty_bucket calls;
          keys = filter (\<lambda>k. objects B k \<noteq> None) (concat (map (\<lambda>(c, r). written_keys c) calls));
          under = (\<lambda>p. map (\<lambda>k. (k, int (length (the (objects B k))), 0)) (filter (\<lambda>k. starts_with k p) keys))
      in case c of
       Head_Object k \<Rightarrow> (case objects B k of None \<Rightarrow> S3_Client_Error ''404''
                           | Some b \<Rightarrow> S3_Length (int (length b)))
     | Get_Object k \<Rightarrow> (case objects B k of None \<Rightarrow> S3_Client_Error ''NoSuchKey''
                          | Some b \<Rightarrow> S3_Body b)
     | Create_Multipart k \<Rightarrow>
         S3_Upload_Id (CHR ''u'' # concat (concat (map (\<lambda>(c, r). given_ids r) calls)))
     | Upload_Part k u n b \<Rightarrow> S3_Etag ''e''
     | Upload_Part_Copy d u n s a z \<Rightarrow> S3_Etag ''e''
     | Copy_Object s d \<Rightarrow>
         (if objects B s = None then S3_Client_Error ''NoSuchKey''
          else if s = d then S3_Client_Error ''InvalidRequest'' else S3_Done)
     | List_Objects p delimited \<Rightarrow> S3_Listing (under p) []
     | List_One p \<Rightarrow> S3_Listing (take 1 (under p)) []
     | _ \<Rightarrow> S3_Done)"

lemma bucket_of_snoc: "bucket_of B (calls @ [x]) = after_call x (bucket_of B calls)"
  by (simp add: bucket_of_def)

lemma performed_objects:
  "objects (performed c r B) k \<noteq> None \<Longrightarrow> k \<in> set (written_keys c) \<or> objects B k \<noteq> None"
  by (induction c r B rule: performed.induct)
    (auto simp: add_part_def complete_upload_def split: if_splits option.splits)

lemma performed_uploads:
  "uploads (performed c r B) u \<noteq> None \<Longrightarrow> u \<in> set (given_ids r) \<or> uploads B u \<noteq> None"
  by (induction c r B rule: performed.induct)
    (auto simp: add_part_def complete_upload_def split: if_splits option.splits)

lemma objects_written:
  "objects (bucket_of empty_bucket calls) k \<noteq> None \<Longrightarrow>
    k \<in> set (concat (map (\<lambda>(c, r). written_keys c) calls))"
proof (induction calls rule: rev_induct)
  case (snoc x calls)
  obtain c r where x: "x = (c, r)" by fastforce
  have "objects (after_call x B) k \<noteq> None \<Longrightarrow> k \<in> set (written_keys c) \<or> objects B k \<noteq> None" for B
    using performed_objects [of c r B k] by (auto simp: x after_call_def split: s3_reply.splits)
  with snoc x show ?case by (auto simp: bucket_of_snoc)
qed (simp add: bucket_of_def empty_bucket_def)

lemma uploads_given:
  "uploads (bucket_of empty_bucket calls) u \<noteq> None \<Longrightarrow>
    u \<in> set (concat (map (\<lambda>(c, r). given_ids r) calls))"
proof (induction calls rule: rev_induct)
  case (snoc x calls)
  obtain c r where x: "x = (c, r)" by fastforce
  have "uploads (after_call x B) u \<noteq> None \<Longrightarrow> u \<in> set (given_ids r) \<or> uploads B u \<noteq> None" for B
    using performed_uploads [of c r B u] by (auto simp: x after_call_def split: s3_reply.splits)
  with snoc x show ?case by (auto simp: bucket_of_snoc)
qed (simp add: bucket_of_def empty_bucket_def)

lemma fresh_id: "CHR ''u'' # concat ids \<notin> set ids"
proof
  assume "CHR ''u'' # concat ids \<in> set ids"
  moreover have "length x \<le> length (concat ids)" if "x \<in> set ids" for x
    using that by (induction ids) auto
  ultimately have "length (CHR ''u'' # concat ids) \<le> length (concat ids)" by blast
  then show False by simp
qed

lemma reference_listing:
  "set (filter (\<lambda>k. starts_with k p) (filter (\<lambda>k. objects (bucket_of empty_bucket calls) k \<noteq> None)
     (concat (map (\<lambda>(c, r). written_keys c) calls)))) = keys_with (bucket_of empty_bucket calls) p"
  using objects_written [of calls] by (auto simp: keys_with_def)

lemma reference_store_reliable: "s3_service E = reference_store \<Longrightarrow> reliable empty_bucket E"
  unfolding reliable_def
proof (intro allI)
  fix calls c
  assume E: "s3_service E = reference_store"
  let ?B = "bucket_of empty_bucket calls"
  have fresh: "uploads ?B (CHR ''u'' # concat (concat (map (\<lambda>(c, r). given_ids r) calls))) = None"
    using uploads_given [of calls] fresh_id by blast
  show "documented_reply ?B c (s3_service E calls c)"
  proof (cases c)
    case (List_Objects p d)
    then show ?thesis
      using reference_listing [of p calls] unfolding E documented_reply_def
      by (simp add: reference_store_def Let_def comp_def)
  next
    case (List_One p)
    moreover have "filter (\<lambda>k. starts_with k p) (filter (\<lambda>k. objects ?B k \<noteq> None)
        (concat (map (\<lambda>(c, r). written_keys c) calls))) = [] \<longleftrightarrow> keys_with ?B p = {}"
      by (simp only: reference_listing [of p calls, symmetric] set_empty)
    ultimately show ?thesis
      by (simp add: E documented_reply_def reference_store_def Let_def)
  qed (use fresh in \<open>auto simp: E documented_reply_def reference_store_def Let_def\<close>)
qed

section \<open>Confinement\<close>

lemma object_key_under:
  assumes "object_key base path as_dir = Inr key" and "base \<noteq> []"
  obtains rest where "key = base @ rest" "rest = [] \<or> hd rest = CHR ''/''"
    "\<forall>p \<in> set (split_on (CHR ''/'') rest). p \<noteq> ''..'' \<and> p \<noteq> ''.''"
proof -
  let ?raw = "\<lambda>logical. if logical \<noteq> [] then (if base \<noteq> [] then base @ CHR ''/'' # logical else logical)
    else base"
  obtain logical where s: "safe_logical_key path = Inr logical"
    and k: "key = (if as_dir \<and> ?raw logical \<noteq> [] \<and> \<not> ends_with (?raw logical) DIR_MARKER_SUFFIX
      then ?raw logical @ DIR_MARKER_SUFFIX else ?raw logical)"
    using assms(1) unfolding object_key_def map_sum_Inr_iff Let_def by blast
  have raw: "?raw logical = (if logical \<noteq> [] then base @ CHR ''/'' # logical else base)"
    using assms(2) by simp
  have key: "key = base \<or> key = base @ ''/'' \<or>
      (logical \<noteq> [] \<and> (key = base @ CHR ''/'' # logical \<or> key = base @ CHR ''/'' # logical @ ''/''))"
    unfolding k raw DIR_MARKER_SUFFIX_def by simp
  obtain ps where ps: "logical = join_on (CHR ''/'') ps" "\<forall>p \<in> set ps. plain_part p"
    by (rule safe_logical_key_parts [OF s])
  have plain: "\<forall>p \<in> set (split_on (CHR ''/'') (logical @ e)). p \<noteq> ''..'' \<and> p \<noteq> ''.''"
    if ne: "logical \<noteq> []" and e: "e = [] \<or> e = ''/''" for e
  proof -
    have pn: "ps \<noteq> []" using ne ps(1) by auto
    then have "split_on (CHR ''/'') logical = ps" using ps by (simp add: split_plain)
    moreover have "split_on (CHR ''/'') (logical @ ''/'') = ps @ [[]]"
      using split_plain_slash ps pn by blast
    ultimately have "set (split_on (CHR ''/'') (logical @ e)) \<subseteq> insert [] (set ps)"
      using e by (elim disjE) (simp_all, blast)
    then show ?thesis using ps(2) by (auto simp: plain_part_def)
  qed
  show ?thesis
  proof (cases "key = base \<or> key = base @ ''/''")
    case True
    then show ?thesis using that [of "[]"] that [of "''/''"] by auto
  next
    case False
    with key obtain e where e: "e = [] \<or> e = ''/''" "key = base @ CHR ''/'' # logical @ e" "logical \<noteq> []"
      by auto
    show ?thesis
      by (rule that [of "CHR ''/'' # logical @ e"]) (use e plain in auto)
  qed
qed

section \<open>No upload is left open by a failed write\<close>

text \<open>
  The multipart uploads that the store has opened during a list of calls. Nothing is assumed
  of the store here.
\<close>

definition opened :: "(s3_call \<times> s3_reply) list \<Rightarrow> string list" where
  "opened calls = concat (map (\<lambda>(c, r). case c of Create_Multipart k \<Rightarrow> given_ids r | _ \<Rightarrow> []) calls)"

definition tracked :: "world \<Rightarrow> world \<times> upload \<Rightarrow> bool" where
  "tracked w0 = (\<lambda>(w, u). \<exists>calls. s3_log w = s3_log w0 @ calls \<and>
     opened calls = (case up_id u of None \<Rightarrow> [] | Some uid \<Rightarrow> [uid]))"

lemma opened_simps [simp]:
  "opened [] = []" "opened (calls @ [x]) = opened calls @ opened [x]"
  by (simp_all add: opened_def)

text \<open>Calls that open no upload keep the account.\<close>

lemma tracked_send:
  assumes "\<And>r. opened [(c, r)] = []"
  shows "keeps (tracked w0) (on_world (s3_send E c))"
  unfolding keeps_def tracked_def on_world_def s3_send_def Let_def
  using assms by (auto split: option.splits)

lemma on_world_bind: "on_world (bind m f) = bind (on_world m) (\<lambda>x. on_world (f x))"
  by (rule ext) (simp add: on_world_def bind_def split: prod.split sum.split)

lemma tracked_pure [keep_rules]:
  "keeps (tracked w0) (on_world (etag_of r))" "keeps (tracked w0) (on_world (ret x))"
  by (auto simp: keeps_def on_world_def etag_of_def split: s3_reply.split)

lemma tracked_upd: "(\<And>u. up_id (f u) = up_id u) \<Longrightarrow> keeps (tracked w0) (upd f)"
  by (auto simp: keeps_def upd_def tracked_def)

lemma tracked_part [keep_rules]: "keeps (tracked w0) (upload_buffer_part E key uid b)"
  unfolding upload_buffer_part_def on_world_bind
  by (intro keep_rules tracked_send tracked_upd) (simp_all add: opened_def)

lemma tracked_ensure [keep_rules]: "keeps (tracked w0) (ensure_multipart E key)"
proof (rule keepsI)
  fix s assume I: "tracked w0 s"
  obtain w u where s: "s = (w, u)" by fastforce
  show "tracked w0 (snd (ensure_multipart E key s))"
  proof (cases "up_id u")
    case (Some uid)
    with I s show ?thesis by (simp add: ensure_multipart_def bind_def)
  next
    case None
    from I s None obtain calls where "s3_log w = s3_log w0 @ calls" "opened calls = []"
      by (auto simp: tracked_def)
    then show ?thesis
      using None
      by (cases "s3_service E (s3_log w) (Create_Multipart key)") (auto simp: s ensure_multipart_def bind_def on_world_def
          start_multipart_def s3_send_def Let_def upload_id_of_def upd_def tracked_def opened_def)
  qed
qed

lemma tracked_upload_full [keep_rules]: "keeps (tracked w0) (upload_full E key b)"
proof (induction E key b rule: upload_full.induct)
  case (1 E key b)
  then show ?case
    by (subst upload_full.simps) (auto intro!: keep_rules tracked_upd simp del: ret_run)
qed

lemma tracked_chunks: "keeps (tracked w0) (write_chunks E key src b)"
  by (induction E key src b rule: write_chunks.induct)
    (auto intro!: keep_rules tracked_upd simp del: ret_run raise_run)

text \<open>The last step of a write forgets the upload only after the store has completed it.\<close>

lemma tracked_rest:
  assumes I: "tracked w0 s" and run: "write_rest E key b s = (Inl e, s')"
  shows "tracked w0 s'"
proof -
  define close where "close = (\<lambda>uid. bind (if b \<noteq> [] then upload_buffer_part E key uid b else ret ()) (\<lambda>_.
      bind (gets (\<lambda>(w, u). up_parts u)) (\<lambda>parts.
      on_world (send_unit E (Complete_Multipart key uid parts)))))"
  have close: "keeps (tracked w0) (close uid)" for uid
    unfolding close_def send_unit_def on_world_bind
    by (intro keep_rules tracked_send) (simp add: opened_def)
  have put: "keeps (tracked w0) (on_world (send_unit E (Put_Object key b)))"
    unfolding send_unit_def on_world_bind
    by (intro keep_rules tracked_send) (simp add: opened_def)
  have eq: "write_rest E key b = bind (gets (\<lambda>(w, u). up_id u)) (\<lambda>current. case current of
       None \<Rightarrow> on_world (send_unit E (Put_Object key b))
     | Some uid \<Rightarrow> bind (close uid) (\<lambda>_. upd (\<lambda>u. u\<lparr>up_id := None\<rparr>)))"
    by (simp only: write_rest_def close_def bind_assoc)
  show ?thesis
    using run I keepsD_run [OF put I] keepsD_run [OF close I]
    by (auto simp: eq bind_Inl upd_def split: option.splits)
qed

section \<open>Properties\<close>

definition sample_adapter :: s3_adapter where
  "sample_adapter =
     \<lparr>sa_env = sample_env (\<lambda>_ _. Reply_Crash) reference_store, sa_disk_id = ''storage'', sa_root_prefix = ''users''\<rparr>"

text \<open>
  C18. Writing a file and reading it back gives exactly the bytes of the stream, however they
  were chunked and whether they went up in one request or in parts; the returned checksum is
  that of these bytes, and no other object of the bucket changes.
\<close>

theorem write_then_read:
  assumes "reliable B (sa_env A)" and "file_key A path = Some key" and "source_error data = None"
  shows "\<exists>w1 w2. s3_write A path data n w = (Inr (sha256_hex (sa_env A) (source_bytes data)), w1) \<and>
    s3_read A path w1 = (Inr (source_bytes data), w2) \<and>
    (\<forall>k. k \<noteq> key \<longrightarrow> objects (stored B w1) k = objects (stored B w) k)"
proof -
  obtain w1 where 1: "s3_write A path data n w = (Inr (sha256_hex (sa_env A) (source_bytes data)), w1)"
    "objects (stored B w1) = (objects (stored B w))(key := Some (source_bytes data))"
    by (rule s3_write_ok [OF assms])
  obtain w2 where "s3_read A path w1 = (case objects (stored B w1) key of
      None \<Rightarrow> Inl Storage_File_Not_Found | Some b \<Rightarrow> Inr b, w2)"
    by (rule s3_read_ok [OF assms(1,2)])
  with 1 show ?thesis by simp
qed

lemma abort_run:
  "\<exists>r. abort_multipart E key uid w =
    (Inr (), w\<lparr>s3_log := s3_log w @ [(Abort_Multipart key uid, r)]\<rparr>)"
  by (auto simp: abort_multipart_def send_unit_def try_except_def bind_def s3_send_def Let_def
      split: s3_reply.split)

lemma write_failed_raises: "\<exists>w'. write_failed E key e u w = (Inl e, w')"
proof (cases "up_id u")
  case (Some uid)
  with abort_run [of E key uid w] show ?thesis by (auto simp: write_failed_def bind_def)
qed (simp add: write_failed_def)

lemma write_fails:
  assumes "s3_write A path data n w = (Inl e, w')" and "e \<noteq> Path_Traversal"
  obtains "w' = w" | key w1 u1 where "tracked w (w1, u1)" "write_failed (sa_env A) key e u1 w1 = (Inl e, w')"
proof (cases "object_key (sa_root_prefix A) path False")
  case (Inl e')
  with assms that(1) show ?thesis by (simp add: s3_write_def bind_def lift_def)
next
  case (Inr key)
  let ?body = "bind (write_chunks (sa_env A) key data []) (write_rest (sa_env A) key)"
  obtain r1 w1 u1 where body: "?body (w, no_upload) = (r1, (w1, u1))" by (metis surj_pair)
  have run: "(case r1 of Inr _ \<Rightarrow> (Inr (sha256_hex (sa_env A) (up_seen u1)), w1)
      | Inl e1 \<Rightarrow> write_failed (sa_env A) key e1 u1 w1) = (Inl e, w')"
    using assms Inr body by (auto simp: s3_write_def bind_def [of "lift _"] lift_def split: if_splits sum.splits)
  then obtain e1 where r1: "r1 = Inl e1" and f: "write_failed (sa_env A) key e1 u1 w1 = (Inl e, w')"
    by (cases r1) auto
  have "e1 = e"
    using f write_failed_raises [of "sa_env A" key e1 u1 w1] by auto
  have start: "tracked w (w, no_upload)" by (simp add: tracked_def no_upload_def)
  have "tracked w (w1, u1)"
    using body unfolding r1 bind_Inl
    by (elim disjE exE conjE)
      (rule keepsD_run [OF tracked_chunks start], assumption,
        rule tracked_rest [OF keepsD_run [OF tracked_chunks start]])
  with f \<open>e1 = e\<close> that(2) show ?thesis by blast
qed

theorem write_then_read_witness:
  "\<exists>w1 w2. s3_write sample_adapter ''docs//a.txt'' (Source_Chunk [1] (Source_Chunk [2, 3] Source_End)) 3
      empty_world = (Inr (sha256_hex (sa_env sample_adapter) [1, 2, 3]), w1) \<and>
    s3_read sample_adapter ''docs//a.txt'' w1 = (Inr [1, 2, 3], w2)"
proof -
  have r: "reliable empty_bucket (sa_env sample_adapter)"
    by (rule reference_store_reliable) (simp add: sample_adapter_def sample_env_def)
  have k: "file_key sample_adapter ''docs//a.txt'' = Some ''users/docs/a.txt''" by code_simp
  show ?thesis
    using write_then_read [OF r k, of "Source_Chunk [1] (Source_Chunk [2, 3] Source_End)" 3 empty_world]
    by auto
qed


text \<open>
  C19. A write that fails leaves no multipart upload open, whatever the store answers: when the
  store opened one for it, its last call is the abort of that very upload. (An upload stream that
  itself raises \<open>PathTraversalError\<close> is the one exception, which the code does not abort.)
\<close>

theorem failed_write_aborts:
  assumes "s3_write A path data n w = (Inl e, w')" and "e \<noteq> Path_Traversal"
  shows "\<exists>calls. s3_log w' = s3_log w @ calls \<and>
    (opened calls = [] \<or> (\<exists>key uid r. opened calls = [uid] \<and> last calls = (Abort_Multipart key uid, r)))"
  using assms
proof (cases rule: write_fails)
  case (2 key w1 u1)
  from 2(1) obtain calls where calls: "s3_log w1 = s3_log w @ calls"
    "opened calls = (case up_id u1 of None \<Rightarrow> [] | Some uid \<Rightarrow> [uid])" by (auto simp: tracked_def)
  show ?thesis
  proof (cases "up_id u1")
    case None
    with 2(2) assms(2) calls show ?thesis by (auto simp: write_failed_def)
  next
    case (Some uid)
    obtain r where "abort_multipart (sa_env A) key uid w1 =
        (Inr (), w1\<lparr>s3_log := s3_log w1 @ [(Abort_Multipart key uid, r)]\<rparr>)"
      using abort_run by blast
    with 2(2) assms(2) Some have "s3_log w' = s3_log w @ calls @ [(Abort_Multipart key uid, r)]"
      by (auto simp: write_failed_def bind_def calls)
    moreover have "opened (calls @ [(Abort_Multipart key uid, r)]) = [uid]"
      using calls(2) Some by (simp add: opened_def)
    ultimately show ?thesis by (intro exI [of _ "calls @ [(Abort_Multipart key uid, r)]"]) auto
  qed
qed auto

theorem failed_write_aborts_witness:
  "\<exists>calls w'. s3_write (sample_adapter\<lparr>sa_env := sample_env (\<lambda>_ _. Reply_Crash) (\<lambda>_ _. S3_Crash)\<rparr>)
      ''a.txt'' Source_End 0 empty_world = (Inl Other_Error, w') \<and>
    s3_log w' = s3_log empty_world @ calls \<and>
    (opened calls = [] \<or> (\<exists>key uid r. opened calls = [uid] \<and> last calls = (Abort_Multipart key uid, r)))"
proof -
  let ?A = "sample_adapter\<lparr>sa_env := sample_env (\<lambda>_ _. Reply_Crash) (\<lambda>_ _. S3_Crash)\<rparr>"
  have k: "object_key ''users'' ''a.txt'' False = Inr ''users/a.txt''"
    "\<not> ends_with ''users/a.txt'' DIR_MARKER_SUFFIX" by code_simp+
  have "\<exists>w'. s3_write ?A ''a.txt'' Source_End 0 empty_world = (Inl Other_Error, w')"
    by (simp add: s3_write_def k sample_adapter_def lift_def bind_def write_rest_def no_upload_def
        on_world_def send_unit_def s3_send_def sample_env_def write_failed_def)
  then obtain w' where w': "s3_write ?A ''a.txt'' Source_End 0 empty_world = (Inl Other_Error, w')" ..
  show ?thesis using failed_write_aborts [OF w'] w' by auto
qed


text \<open>
  C21. An adapter cannot be made to leave its root: every object key it forms is the root prefix
  followed by a path that starts with a separator and has no \<open>.\<close> or \<open>..\<close> component.
\<close>

theorem object_key_confined:
  assumes "object_key base path as_dir = Inr key" and "base \<noteq> []"
  shows "\<exists>rest. key = base @ rest \<and> (rest = [] \<or> hd rest = CHR ''/'') \<and>
    (\<forall>p \<in> set (split_on (CHR ''/'') rest). p \<noteq> ''..'' \<and> p \<noteq> ''.'')"
  using object_key_under [OF assms] by metis

theorem object_key_confined_witness:
  "\<exists>rest. ''users/a/b/'' = ''users'' @ rest \<and> (rest = [] \<or> hd rest = CHR ''/'') \<and>
    (\<forall>p \<in> set (split_on (CHR ''/'') rest). p \<noteq> ''..'' \<and> p \<noteq> ''.'')"
proof -
  have "object_key ''users'' ''/a/./b'' True = Inr ''users/a/b/''" by code_simp
  from object_key_confined [OF this] show ?thesis by simp
qed


text \<open>
  Deleting a file or directory that exists removes its object and every object below it, and
  leaves every other object of the bucket alone, in batches the store accepts.
\<close>

lemma delete_removes_exactly:
  assumes "reliable B (sa_env A)" and "file_key A path = Some key"
    and "objects (stored B w) key \<noteq> None \<or> keys_with (stored B w) (key @ ''/'') \<noteq> {}"
    and "safe_logical_key path = Inr logical" and "logical \<noteq> []"
  shows "\<exists>w'. s3_delete A path w = (Inr (), w') \<and>
    objects (stored B w') = (\<lambda>k. if k = key \<or> starts_with k (key @ ''/'') then None
      else objects (stored B w) k)"
  using s3_delete_ok [OF assms(1-4)] assms(5) by blast

text \<open>A world in which two objects have been stored.\<close>

definition two_objects :: world where
  "two_objects = empty_world\<lparr>s3_log := [(Put_Object ''users/a.txt'' [7], S3_Done),
     (Put_Object ''users/b.txt'' [8], S3_Done)]\<rparr>"

lemma two_objects_stored:
  "objects (stored empty_bucket two_objects) = [''users/a.txt'' \<mapsto> [7], ''users/b.txt'' \<mapsto> [8]]"
  by (simp add: stored_def two_objects_def bucket_of_def after_call_def empty_bucket_def)

lemma sample_reliable: "reliable empty_bucket (sa_env sample_adapter)"
  by (rule reference_store_reliable) (simp add: sample_adapter_def sample_env_def)

lemma delete_removes_exactly_witness:
  "\<exists>w'. s3_delete sample_adapter ''a.txt'' two_objects = (Inr (), w') \<and>
    objects (stored empty_bucket w') ''users/a.txt'' = None \<and>
    objects (stored empty_bucket w') ''users/b.txt'' = Some [8]"
proof -
  have k: "file_key sample_adapter ''a.txt'' = Some ''users/a.txt''"
    "safe_logical_key ''a.txt'' = Inr ''a.txt''" by code_simp+
  have "objects (stored empty_bucket two_objects) ''users/a.txt'' \<noteq> None"
    by (simp add: two_objects_stored)
  moreover have "\<not> starts_with ''users/b.txt'' (''users/a.txt'' @ ''/'')" by code_simp
  ultimately show ?thesis
    using delete_removes_exactly [OF sample_reliable k(1) _ k(2), of two_objects]
    by (auto simp: two_objects_stored)
qed


lemma s3_rename_ok:
  assumes rel: "reliable B (sa_env A)"
    and keys: "file_key A old = Some k" "file_key A new = Some k'" "k \<noteq> k'"
    and src: "objects (stored B w) k = Some b"
  shows "\<exists>w'. s3_rename A old new w = (Inr (), w') \<and>
    objects (stored B w') = (objects (stored B w))(k' := Some b, k := None)"
proof -
  note k = file_keyD [OF keys(1)] and k' = file_keyD [OF keys(2)]
  have p: "list_prefix (sa_root_prefix A) old = Inr (k @ DIR_MARKER_SUFFIX)"
    "list_prefix (sa_root_prefix A) new = Inr (k' @ DIR_MARKER_SUFFIX)"
    using k k' by (simp_all add: list_prefix_key)
  obtain w1 where 1: "head_exists (sa_env A) k w = (Inr (k \<noteq> [] \<and> objects (stored B w) k \<noteq> None), w1)"
    "stored B w1 = stored B w" by (rule head_exists_iff [OF rel])
  have src1: "objects (stored B w1) k = Some b" using 1(2) src by simp
  obtain w2 where 2: "copy_object (sa_env A) k k' w1 = (Inr (), w2)"
    "objects (stored B w2) = (objects (stored B w1))(k' := Some b)"
    by (rule copy_object_ok [OF rel src1 keys(3)])
  obtain w3 where 3: "send_unit (sa_env A) (Delete_Object k) w2 = (Inr (), w3)"
    "stored B w3 = (stored B w2)\<lparr>objects := (objects (stored B w2))(k := None)\<rparr>"
    by (rule send_delete [OF rel])
  have "s3_rename A old new w = (Inr (), w3)"
    using k k' p src 1(1) 2(1) 3(1) by (simp add: s3_rename_def bind_def lift_def)
  with 1(2) 2(2) 3(2) show ?thesis by simp
qed




end
