(* ===== verification/SyncProps.thy ===== *)
theory SyncProps
  imports SyncSpec LinkRepo S3Spec
begin

text \<open>
  The synchronisation job over the program's own repository and storage: the scheduled job of
  \<open>main.py\<close>, and the properties of a tick.
\<close>

section \<open>The scheduled job\<close>

definition STORAGE_VOLUME_ID :: string where "STORAGE_VOLUME_ID = ''storage''"

definition root_objects :: "env \<Rightarrow> object_reader" where
  "root_objects E = object_reader_of (build_disk_root_adapter E STORAGE_VOLUME_ID)"

definition index_sync_job :: "env \<Rightarrow> sync_job" where
  "index_sync_job E = new_sync_job E (sql_links E) (root_objects E) None None None"

text \<open>
  \<open>_run_index_sync_job\<close> when no other tick of the process holds the lock: one tick in a session
  of its own; an exception is logged and rolls back.
\<close>

definition run_index_sync_job :: "env \<Rightarrow> unit action" where
  "run_index_sync_job E =
     try_except
       (bind (in_session (run_index_sync E (sql_links E) (root_objects E) None None None None))
          (\<lambda>_. ret ()))
       (\<lambda>_. ret ())"

lemma index_sync_job_simps [simp]:
  "sj_env (index_sync_job E) = E" "sj_links (index_sync_job E) = sql_links E"
  "sj_objects (index_sync_job E) = root_objects E"
  "sj_batch_size (index_sync_job E) = rag_index_batch_size E"
  "sj_max_attempts (index_sync_job E) = rag_max_attempts E"
  "sj_max_wait_seconds (index_sync_job E) = rag_index_max_wait_seconds E"
  by (simp_all add: index_sync_job_def new_sync_job_def tuning_def)

lemma root_objects_port: "object_port (root_objects E)"
  unfolding root_objects_def build_disk_root_adapter_def create_storage_adapter_def
  by (rule s3.reader.object_port_axioms)

interpretation job: sync_machine "index_sync_job E" link_at now for E now
  unfolding sync_machine_def by (simp add: sql_rows.link_rows_axioms root_objects_port)

section \<open>The claimed rows\<close>

lemma link_at_in: "distinct (map il_id (links w)) \<Longrightarrow> m \<in> set (links w) \<Longrightarrow> link_at (il_id m) w = Some (to_link m)"
proof -
  assume d: "distinct (map il_id (links w))" and m: "m \<in> set (links w)"
  have "find (\<lambda>l. il_id l = il_id m) ls = Some m" if "distinct (map il_id ls)" "m \<in> set ls" for ls
    using that by (induction ls) (auto simp: image_iff)
  with d m show ?thesis by (simp add: link_at_def get_link_def)
qed

lemma distinct_by_age: "distinct (map il_id ls) \<Longrightarrow> distinct (map il_id (by_age ls))"
  by (simp add: by_age_def distinct_map inj_on_def)

lemma claim_due_rows:
  assumes ok: "queue_ok w" and cl: "claim_due E n now w = (Inr ls, w')"
  shows "distinct (map il_id ls) \<and> (\<forall>l \<in> set ls. link_at (il_id l) w = Some l \<and> due now l) \<and> w' = w"
proof -
  define q where "q = by_age (filter (\<lambda>l. due now l \<and> \<not> row_locked E (il_id l)) (links w))"
  have ls: "ls = map to_link (take (nat n) q)" and w': "w' = w"
    using cl by (auto simp: claim_due_def require_limit_def run q_def split: if_splits)
  have d: "distinct (map il_id (links w))" using ok by (simp add: queue_ok_iff link_constraints_def)
  then have "distinct (map il_id q)" unfolding q_def by (intro distinct_by_age) (simp add: distinct_map inj_on_def)
  then have "distinct (map il_id ls)" by (simp add: ls comp_def take_map [symmetric])
  moreover have "link_at (il_id l) w = Some l \<and> due now l" if "l \<in> set ls" for l
  proof -
    from that obtain m where "m \<in> set q" "l = to_link m" by (auto simp: ls dest: in_set_takeD)
    then show ?thesis using link_at_in [OF d, of m] by (auto simp: q_def)
  qed
  ultimately show ?thesis using w' by blast
qed

lemma count_outcomes:
  "count_outcome outs TRANSITIONED + count_outcome outs RETRIED + count_outcome outs O_FAILED +
    count_outcome outs O_SKIPPED = int (length outs)"
proof (induction outs)
  case (Cons x xs)
  then show ?case by (cases x) (simp_all add: count_outcome_def)
qed (simp add: count_outcome_def)

section \<open>What the job writes\<close>

text \<open>The session is usable, the queue is consistent, and the job holds the row as it is.\<close>

definition holds_row :: "index_link \<Rightarrow> world \<Rightarrow> bool" where
  "holds_row l w \<longleftrightarrow> queue_ok w \<and> \<not> broken w \<and> link_at (il_id l) w = Some l"

lemma holds_row_frame: "same_rows w w' \<Longrightarrow> holds_row l w \<Longrightarrow> holds_row l w'"
  using sql_queue.inv_frame [of w w']
  by (simp add: holds_row_def sql_rows.lookup_frame) (simp add: same_rows_def)

lemma write_ok:
  assumes h: "holds_row l w" and id: "il_id k = il_id l"
    and rag: "new_value (t_rag_file_id t) (il_rag_file_id l) \<in> {il_rag_file_id l, None}"
  obtains w' where "write_row (index_sync_job E) k now t w = (Inr (Some (applied t now l)), w')"
    "holds_row (applied t now l) w'" "rag_log w' = rag_log w" "s3_log w' = s3_log w"
proof -
  from h obtain m where m: "get_link (il_id l) w = Some m" and l: "l = to_link m"
    by (auto simp: holds_row_def link_at_def)
  from rag have rag': "new_value (t_rag_file_id t) (il_rag_file_id m) \<in> {il_rag_file_id m, None}"
    by (simp add: l)
  obtain w' where "apply_transition E (il_id l) t (Some now) w = (Inr (Some (to_link (stamped E t (Some now) w m))), w')"
    "get_link (il_id l) w' = Some (stamped E t (Some now) w m)" "queue_ok w'" "\<not> broken w'"
    "rag_log w' = rag_log w" "s3_log w' = s3_log w"
    by (rule transition_succeeds [OF _ _ m rag']) (use h in \<open>auto simp: holds_row_def\<close>)
  then show ?thesis
    using id by (intro that [of w']) (simp_all add: write_row_def to_link_stamped l holds_row_def link_at_def)
qed

text \<open>One call to the RAG service.\<close>

lemma rag_send_run:
  "rag_send E c w = (Inr (rag_service E (rag_log w) c),
     w\<lparr>rag_log := rag_log w @ [(c, rag_service E (rag_log w) c)]\<rparr>)"
  by (simp add: rag_send_def Let_def)

lemma holds_row_log [simp]: "holds_row l (w\<lparr>rag_log := x\<rparr>) = holds_row l w"
  by (auto intro: holds_row_frame simp: same_rows_def elim!: holds_row_frame [rotated])

lemma card_run:
  "rag_card E c w = (case rag_service E (rag_log w) c of
      Reply_Card fc \<Rightarrow> Inr fc | r \<Rightarrow> Inl (rag_failure r),
    w\<lparr>rag_log := rag_log w @ [(c, rag_service E (rag_log w) c)]\<rparr>)"
  by (simp add: rag_card_def bind_def rag_send_run split: rag_reply.split)

lemma delete_run:
  "rag_delete E c w = (case rag_service E (rag_log w) c of
      Reply_Deleted \<Rightarrow> Inr () | r \<Rightarrow> Inl (rag_failure r),
    w\<lparr>rag_log := rag_log w @ [(c, rag_service E (rag_log w) c)]\<rparr>)"
  by (simp add: rag_delete_def bind_def rag_send_run split: rag_reply.split)

section \<open>A sample tick\<close>

text \<open>A service that is down, one that reports every file ready, and one that deletes.\<close>

definition sample_rag :: "(rag_call \<times> rag_reply) list \<Rightarrow> rag_call \<Rightarrow> rag_reply" where
  "sample_rag calls c = (case c of
       Get_File g u \<Rightarrow> Reply_Card \<lparr>rc_file_id = g, rc_status = ''ready'', rc_error = None,
         rc_content_type = None, rc_file_name = None, rc_file_size = None, rc_page_count = None\<rparr>
     | Delete_Vectors g u \<Rightarrow> Reply_Deleted
     | _ \<Rightarrow> Reply_Unavailable None None)"

abbreviation sample_sync_env :: env where
  "sample_sync_env \<equiv> sample_env sample_rag (\<lambda>_ _. S3_Crash)"

lemma clean_hash_sample [simp]: "clean_hash (Some ''00'') = Some ''00''" "clean_hash None = None"
  by code_simp (simp add: clean_hash_def)

lemma distinct_somes_one [simp]: "distinct (somes [g])"
  by (cases g) simp_all

lemma sample_holds: "holds_row (sample_link st g) (sample_world [sample_link st g])"
  by (simp add: holds_row_def queue_ok_iff link_constraints_def sample_world_def sample_link_def
      empty_world_def link_at_def get_link_def to_link_def)

lemma sample_env_simps [simp]:
  "rag_service (sample_env rag s3) = rag" "s3_service (sample_env rag s3) = s3"
  "rag_max_attempts (sample_env rag s3) = 5" "rag_index_batch_size (sample_env rag s3) = 10"
  "rag_index_max_wait_seconds (sample_env rag s3) = 3600"
  by (simp_all add: sample_env_def)

section \<open>Properties\<close>

text \<open>
  C1. One tick of the index job: it claims due rows only, each claimed row takes exactly one step of
  the life cycle, no other row of the queue changes, whatever the RAG service and the object
  store answer, and the reported counts add up to the number of claimed rows.
\<close>

theorem sync_tick_follows_life_cycle:
  assumes ok: "queue_ok w" and claim: "claim_due E (rag_index_batch_size E) now w = (Inr ls, w)"
    and conf: "1 \<le> rag_index_batch_size E" "1 \<le> rag_max_attempts E"
  shows "\<exists>res w'. run_job (index_sync_job E) (Some now) w = (Inr res, w') \<and>
    (\<forall>l \<in> set ls. due now l \<and> (\<exists>l'. link_at (il_id l) w' = Some l' \<and>
       tick_step now (rag_max_attempts E) (rag_index_max_wait_seconds E) l l')) \<and>
    (\<forall>j. j \<notin> il_id ` set ls \<longrightarrow> link_at j w' = link_at j w) \<and>
    sr_claimed res = int (length ls) \<and>
    sr_transitioned res + sr_retried res + sr_failed res + sr_skipped res = sr_claimed res"
proof -
  let ?J = "index_sync_job E"
  note rows = claim_due_rows [OF ok claim]
  obtain outs w' where b: "map_act (\<lambda>l. process ?J l now) ls w = (Inr outs, w')" "length outs = length ls"
    "\<forall>l \<in> set ls. \<exists>l'. link_at (il_id l) w' = Some l' \<and>
       tick_step now (rag_max_attempts E) (rag_index_max_wait_seconds E) l l'"
    "\<forall>j. j \<notin> il_id ` set ls \<longrightarrow> link_at j w' = link_at j w"
    using job.batch_ticks [of ls w E now] rows by auto
  have "run_job ?J (Some now) w = (Inr \<lparr>sr_claimed = int (length ls),
      sr_transitioned = count_outcome outs TRANSITIONED, sr_retried = count_outcome outs RETRIED,
      sr_failed = count_outcome outs O_FAILED, sr_skipped = count_outcome outs O_SKIPPED\<rparr>, w')"
    using conf claim b(1) by (simp add: run_job_def bind_def)
  with b rows count_outcomes [of outs] show ?thesis by (intro exI conjI) auto
qed

theorem sync_tick_follows_life_cycle_witness:
  "\<exists>res w' l'. run_job (index_sync_job sample_sync_env) (Some 9000)
      (sample_world [sample_link SUBMITTED (Some 7)]) = (Inr res, w') \<and> sr_claimed res = 1 \<and>
    link_at 1 w' = Some l' \<and> tick_step 9000 5 3600 (sample_link SUBMITTED (Some 7)) l'"
proof -
  let ?l = "sample_link SUBMITTED (Some 7)" and ?E = sample_sync_env
  let ?w = "sample_world [?l]"
  have ok: "queue_ok ?w" using sample_holds by (simp add: holds_row_def)
  have claim: "claim_due ?E (rag_index_batch_size ?E) 9000 ?w = (Inr [?l], ?w)"
    by (simp add: claim_due_def require_limit_def run sample_world_def empty_world_def by_age_def
        due_def DUE_INDEX_STATES_def sample_env_def) (simp add: sample_link_def to_link_def)
  have id: "il_id ?l = 1" by (simp add: sample_link_def)
  show ?thesis
    using sync_tick_follows_life_cycle [OF ok claim] id by auto
qed

lemma process_tick:
  assumes "link_at (il_id l) w = Some l"
  obtains out w' l' where "process (index_sync_job E) l now w = (Inr out, w')"
    "link_at (il_id l) w' = Some l'"
    "tick_step now (rag_max_attempts E) (rag_index_max_wait_seconds E) l l'"
  using job.process_ticks [OF assms, of E now] by auto

lemma sample_link_fields:
  "il_id (sample_link st g) = 1" "il_state (sample_link st g) = st"
  "il_rag_file_id (sample_link st g) = g" "il_updated_at (sample_link st g) = 2000"
  by (simp_all add: sample_link_def)

lemma sample_at: "link_at (il_id (sample_link st g)) (sample_world [sample_link st g]) = Some (sample_link st g)"
  using sample_holds by (simp add: holds_row_def)



text \<open>
  C37. Attempts are bounded: processing a row below the limit counts at most one attempt, never
  passes the limit, and a row that reaches the limit is not due any more.
\<close>

theorem attempts_bounded:
  assumes "link_at (il_id l) w = Some l" and "0 \<le> il_attempts l" and "il_attempts l < rag_max_attempts E"
  shows "\<exists>out w' l'. process (index_sync_job E) l now w = (Inr out, w') \<and>
    link_at (il_id l) w' = Some l' \<and> 0 \<le> il_attempts l' \<and> il_attempts l' \<le> il_attempts l + 1 \<and>
    (il_attempts l' = rag_max_attempts E \<longrightarrow> (\<forall>t. \<not> due t l'))"
proof -
  obtain out w' l' where 1: "process (index_sync_job E) l now w = (Inr out, w')"
    "link_at (il_id l) w' = Some l'"
    "tick_step now (rag_max_attempts E) (rag_index_max_wait_seconds E) l l'"
    by (rule process_tick [OF assms(1)])
  show ?thesis
    using 1(1,2) tick_attempts [OF 1(3) assms(3,2)]
    by (intro exI [of _ out] exI [of _ w'] exI [of _ l']) (auto simp: due_def DUE_INDEX_STATES_def)
qed

theorem attempts_bounded_witness:
  "\<exists>out w' l'. process (index_sync_job sample_sync_env) (sample_link PENDING None) 9000
      (sample_world [sample_link PENDING None]) = (Inr out, w') \<and>
    link_at 1 w' = Some l' \<and> il_attempts l' \<le> 1"
proof -
  have l: "il_attempts (sample_link PENDING None) = 0" "il_id (sample_link PENDING None) = 1"
    by (simp_all add: sample_link_def)
  show ?thesis
    using attempts_bounded [OF sample_at [of PENDING None], of sample_sync_env 9000] l by auto
qed

text \<open>
  The wait deadline is real: while a submitted file is polled without coming to an end, neither
  the polls nor the retries of an outage move its clock \<open>updated_at\<close> or its service identifier.
\<close>

lemma polling_keeps_wait_clock:
  assumes "link_at (il_id l) w = Some l" and "il_state l = SUBMITTED" and "il_rag_file_id l \<noteq> None"
  shows "\<exists>out w' l'. process (index_sync_job E) l now w = (Inr out, w') \<and>
    link_at (il_id l) w' = Some l' \<and>
    (il_state l' = SUBMITTED \<longrightarrow>
      il_updated_at l' = il_updated_at l \<and> il_rag_file_id l' = il_rag_file_id l)"
  using process_tick [OF assms(1), of E now] tick_wait_clock [OF _ assms(2,3)] by metis

lemma polling_keeps_wait_clock_witness:
  "\<exists>out w' l'. process (index_sync_job sample_sync_env) (sample_link SUBMITTED (Some 7)) 9000
      (sample_world [sample_link SUBMITTED (Some 7)]) = (Inr out, w') \<and>
    link_at 1 w' = Some l' \<and> (il_state l' = SUBMITTED \<longrightarrow> il_updated_at l' = 2000)"
  using polling_keeps_wait_clock [OF sample_at, of SUBMITTED "Some 7" sample_sync_env 9000]
  by (auto simp: sample_link_fields)

text \<open>
  The retry delay: every rescheduled attempt lies between 30 seconds and one hour ahead, and the
  delay never shrinks as the attempts grow.
\<close>

lemma retry_delay_bounds:
  assumes "0 \<le> j" and "j \<le> k"
  shows "30 * SECOND \<le> backoff j \<and> backoff j \<le> backoff k \<and> backoff k \<le> 3600 * SECOND"
  using backoff_bounds [of j] backoff_bounds [of k] backoff_mono [of j k] assms by simp

lemma retry_delay_bounds_witness: "30 * SECOND \<le> backoff 1 \<and> backoff 1 \<le> backoff 9 \<and> backoff 9 \<le> 3600 * SECOND"
  using retry_delay_bounds [of 1 9] by simp

text \<open>
  C17. Polling a submitted file decides by the answer of the service: ready, failed with the reported
  error, gone, timed out after the maximal wait, or asked again after the backoff.
\<close>

theorem poll_decides_by_status:
  assumes h: "holds_row l w" and st: "il_state l = SUBMITTED" and g: "il_rag_file_id l = Some g"
    and reply: "rag_service E (rag_log w) (Get_File g (il_user_id l)) = Reply_Card fc"
    and same: "rc_file_id fc = g"
  shows "\<exists>out w' l'. process (index_sync_job E) l now w = (Inr out, w') \<and> holds_row l' w' \<and>
    il_id l' = il_id l \<and>
    (let status = lower (strip (rc_status fc)) in
      if status = ''ready'' then il_state l' = INDEXED \<and> il_attempts l' = 0
      else if status = ''error'' then il_state l' = FAILED \<and>
        il_last_error_code l' = Some (or_else (rc_error fc) ''error'')
      else if status \<in> {''deleting'', ''deleted''} then il_state l' = REMOVED
      else if now - il_updated_at l \<ge> rag_index_max_wait_seconds E * SECOND then
        il_state l' = FAILED \<and> il_last_error_code l' = Some ''timeout''
      else il_state l' = SUBMITTED \<and> il_next_attempt_at l' = Some (now + backoff (il_attempts l)) \<and>
        il_attempts l' = il_attempts l)"
proof -
  let ?J = "index_sync_job E" and ?s = "lower (strip (rc_status fc))"
  let ?w = "w\<lparr>rag_log := rag_log w @ [(Get_File g (il_user_id l), Reply_Card fc)]\<rparr>"
  define p where "p = (if ?s = STATUS_READY then (TRANSITIONED, succeed_patch INDEXED (SET (Some g)) UNSET)
      else if ?s = STATUS_ERROR then (O_FAILED, stop_patch FAILED UNSET (or_else (rc_error fc) STATUS_ERROR))
      else if ?s \<in> set GONE_STATUSES then (TRANSITIONED, settle_patch REMOVED)
      else if now - il_updated_at l \<ge> sj_max_wait_seconds ?J * SECOND
        then (O_FAILED, stop_patch FAILED UNSET ERROR_TIMEOUT)
      else (RETRIED, later_patch UNSET (now + backoff (il_attempts l)) UNSET))"
  have polled: "on_polled_card ?J l now fc = bind (write_row ?J l now (snd p)) (\<lambda>_. ret (fst p))"
    by (auto simp: p_def on_polled_card_def Let_def succeed_def fail_row_def settle_def patch_defs same)
  have "new_value (t_rag_file_id (snd p)) (il_rag_file_id l) \<in> {il_rag_file_id l, None}"
    by (auto simp: p_def patch_defs g)
  then obtain w' where w': "write_row ?J l now (snd p) ?w = (Inr (Some (applied (snd p) now l)), w')"
    "holds_row (applied (snd p) now l) w'"
    using write_ok [of l ?w l "snd p" E now] h by auto
  have "process ?J l now w = (Inr (fst p), w')"
    using w'(1) by (simp add: process_def dispatch_def st poll_link_def g try_except_def bind_def
        card_run reply polled)
  with w'(2) show ?thesis
    by (intro exI [of _ "fst p"] exI [of _ w'] exI [of _ "applied (snd p) now l"])
      (auto simp: p_def patch_defs Let_def st STATUS_READY_def STATUS_ERROR_def GONE_STATUSES_def
        ERROR_TIMEOUT_def)
qed

theorem poll_decides_by_status_witness:
  "\<exists>out w' l'. process (index_sync_job sample_sync_env) (sample_link SUBMITTED (Some 7)) 9000
      (sample_world [sample_link SUBMITTED (Some 7)]) = (Inr out, w') \<and> holds_row l' w' \<and>
    il_state l' = INDEXED"
proof -
  let ?l = "sample_link SUBMITTED (Some 7)"
  let ?fc = "\<lparr>rc_file_id = 7, rc_status = ''ready'', rc_error = None,
         rc_content_type = None, rc_file_name = None, rc_file_size = None, rc_page_count = None\<rparr>"
  have l: "il_state ?l = SUBMITTED" "il_rag_file_id ?l = Some 7" "il_user_id ?l = 3" by (simp_all add: sample_link_def)
  have s: "lower (strip (rc_status ?fc)) = ''ready''" by code_simp
  have r: "rag_service sample_sync_env (rag_log (sample_world [?l])) (Get_File 7 (il_user_id ?l)) = Reply_Card ?fc"
    by (simp add: sample_rag_def)
  show ?thesis
    using poll_decides_by_status [OF sample_holds l(1,2) r, of 9000] s by auto
qed

text \<open>
  C38. Removal comes to an end: when the service confirms the deletion of the vectors, or says they
  are gone or about to be, the row is settled and is not claimed again before the year 9999.
\<close>

theorem confirmed_removal_settles:
  assumes h: "holds_row l w" and st: "il_state l \<in> {REMOVED, ARCHIVED}" and g: "il_rag_file_id l = Some g"
    and reply: "rag_service E (rag_log w) (Delete_Vectors g (il_user_id l)) \<in>
      {Reply_Deleted, Reply_Http_Error 404 code details, Reply_Http_Error 409 (Some ''file_busy'') details}"
  shows "\<exists>w' l'. process (index_sync_job E) l now w = (Inr TRANSITIONED, w') \<and> holds_row l' w' \<and>
    il_id l' = il_id l \<and> il_state l' = il_state l \<and> (\<forall>t < CONFIRMED_REMOVAL_AT. \<not> due t l')"
proof -
  let ?J = "index_sync_job E" and ?t = "settle_patch (il_state l)"
  let ?c = "Delete_Vectors g (il_user_id l)"
  let ?w = "w\<lparr>rag_log := rag_log w @ [(?c, rag_service E (rag_log w) ?c)]\<rparr>"
  obtain w' where w': "write_row ?J l now ?t ?w = (Inr (Some (applied ?t now l)), w')"
    "holds_row (applied ?t now l) w'"
    using write_ok [of l ?w l ?t E now] h by (auto simp: patch_defs)
  have "delete_vectors ?J l now w = (Inr None, ?w)"
    using reply by (auto simp: delete_vectors_def g try_except_def bind_def delete_run rag_failure_def
        vectors_already_gone_def HTTP_NOT_FOUND_def HTTP_CONFLICT_def ERROR_FILE_BUSY_def)
  then have "remove_link ?J l now (il_state l) w = (Inr TRANSITIONED, w')"
    using w'(1) by (simp add: remove_link_def g bind_def settle_def settle_patch_def)
  then have "process ?J l now w = (Inr TRANSITIONED, w')"
    using st by (auto simp: process_def dispatch_def try_except_def)
  with w'(2) show ?thesis
    by (intro exI [of _ w'] exI [of _ "applied ?t now l"]) (auto simp: patch_defs due_def)
qed

theorem confirmed_removal_settles_witness:
  "\<exists>w' l'. process (index_sync_job sample_sync_env) (sample_link REMOVED (Some 7)) 9000
      (sample_world [sample_link REMOVED (Some 7)]) = (Inr TRANSITIONED, w') \<and> holds_row l' w' \<and>
    (\<forall>t < CONFIRMED_REMOVAL_AT. \<not> due t l')"
  using confirmed_removal_settles [OF sample_holds, of REMOVED "Some 7" 7 sample_sync_env None "[]" 9000]
  by (auto simp: sample_rag_def sample_link_def)

section \<open>Outages and unexpected errors\<close>

definition outage :: "env \<Rightarrow> bool" where
  "outage E \<longleftrightarrow> (\<forall>calls c. \<exists>status code. rag_service E calls c = Reply_Unavailable status code)"

text \<open>The state of a row whose next call can only be a poll or a deletion.\<close>

definition waiting :: "index_link \<Rightarrow> bool" where
  "waiting l \<longleftrightarrow> il_state l \<in> {SUBMITTED, REMOVED, ARCHIVED} \<and> il_rag_file_id l \<noteq> None"

lemma schedule_retry_ok:
  assumes h: "holds_row l w"
  obtains out w' l' where "schedule_retry (index_sync_job E) l now c w = (Inr out, w')"
    "holds_row l' w'" "il_id l' = il_id l" "il_rag_file_id l' = il_rag_file_id l"
    "il_attempts l' = il_attempts l + 1"
    "il_state l' = (if il_attempts l + 1 \<ge> rag_max_attempts E then FAILED else il_state l)"
proof -
  let ?t = "if il_attempts l + 1 \<ge> rag_max_attempts E
    then stop_patch FAILED (SET (il_attempts l + 1)) c
    else later_patch (SET (il_attempts l + 1)) (now + backoff (il_attempts l + 1))
      (if il_state l = SUBMITTED then UNSET else SET (Some c))"
  obtain w' where w': "write_row (index_sync_job E) l now ?t w = (Inr (Some (applied ?t now l)), w')"
    "holds_row (applied ?t now l) w'"
    using write_ok [of l w l ?t E now] h by (auto simp: patch_defs)
  show ?thesis
    by (rule that [of "if il_attempts l + 1 \<ge> rag_max_attempts E then O_FAILED else RETRIED" w'
          "applied ?t now l"])
      (use w' in \<open>auto simp: schedule_retry_def Let_def patch_defs bind_def split: if_splits\<close>)
qed

lemma outage_tick:
  assumes out: "outage E" and h: "holds_row l w" and wait: "waiting l"
  obtains o' w' l' where "process (index_sync_job E) l now w = (Inr o', w')"
    "holds_row l' w'" "il_id l' = il_id l" "il_rag_file_id l' = il_rag_file_id l"
    "il_attempts l' = il_attempts l + 1"
    "il_state l' = (if il_attempts l + 1 \<ge> rag_max_attempts E then FAILED else il_state l)"
proof -
  let ?J = "index_sync_job E"
  from wait obtain g where g: "il_rag_file_id l = Some g" by (auto simp: waiting_def)
  define c where "c = (if il_state l = SUBMITTED then Get_File g (il_user_id l) else Delete_Vectors g (il_user_id l))"
  obtain s code where r: "rag_service E (rag_log w) c = Reply_Unavailable s code"
    using out unfolding outage_def by blast
  let ?w = "w\<lparr>rag_log := rag_log w @ [(c, Reply_Unavailable s code)]\<rparr>"
  have d: "dispatch ?J l now w = (Inl (Rag_Unavailable s code), ?w)"
  proof (cases "il_state l = SUBMITTED")
    case True
    with r show ?thesis
      by (simp add: dispatch_def poll_link_def g bind_def try_except_def card_run rag_failure_def c_def)
  next
    case False
    with wait r show ?thesis
      by (auto simp: waiting_def dispatch_def remove_link_def delete_vectors_def g bind_def
          try_except_def delete_run rag_failure_def c_def)
  qed
  obtain o' w' l' where 1:
    "schedule_retry ?J l now (or_else code ERROR_DEPENDENCY_UNAVAILABLE) ?w = (Inr o', w')"
    "holds_row l' w'" "il_id l' = il_id l" "il_rag_file_id l' = il_rag_file_id l"
    "il_attempts l' = il_attempts l + 1"
    "il_state l' = (if il_attempts l + 1 \<ge> rag_max_attempts E then FAILED else il_state l)"
    by (rule schedule_retry_ok [of l ?w E now]) (use h in auto)
  have "process ?J l now w = (Inr o', w')"
    using d 1(1) by (simp add: process_def try_except_def)
  with 1 show ?thesis by (intro that)
qed

text \<open>One row processed at a list of moments, as the job finds it each time.\<close>

definition process_at :: "env \<Rightarrow> uuid \<Rightarrow> instant \<Rightarrow> unit action" where
  "process_at E i t = bind (query (link_at i)) (\<lambda>found. case found of
      None \<Rightarrow> ret ()
    | Some l \<Rightarrow> bind (process (index_sync_job E) l t) (\<lambda>_. ret ()))"

lemma process_failed: "il_state l = FAILED \<Longrightarrow> process J l t = ret O_SKIPPED"
  by (rule ext) (simp add: process_def dispatch_def try_except_def)

lemma failed_stays:
  "holds_row l w \<Longrightarrow> il_state l = FAILED \<Longrightarrow> for_each (process_at E (il_id l)) ts w = (Inr (), w)"
  by (induction ts) (simp_all add: process_at_def bind_def query_def holds_row_def process_failed)

lemma outage_run:
  assumes out: "outage E"
  shows "holds_row l w \<Longrightarrow> waiting l \<Longrightarrow> il_attempts l < rag_max_attempts E \<Longrightarrow>
    rag_max_attempts E \<le> il_attempts l + int (length ts) \<Longrightarrow>
    \<exists>w' l'. for_each (process_at E (il_id l)) ts w = (Inr (), w') \<and> holds_row l' w' \<and>
      il_id l' = il_id l \<and> il_state l' = FAILED \<and> il_attempts l' = rag_max_attempts E"
proof (induction ts arbitrary: l w)
  case (Cons t ts)
  obtain o' w1 l1 where 1: "process (index_sync_job E) l t w = (Inr o', w1)"
    "holds_row l1 w1" "il_id l1 = il_id l" "il_rag_file_id l1 = il_rag_file_id l"
    "il_attempts l1 = il_attempts l + 1"
    "il_state l1 = (if il_attempts l + 1 \<ge> rag_max_attempts E then FAILED else il_state l)"
    by (rule outage_tick [OF out Cons.prems(1,2)])
  have first: "for_each (process_at E (il_id l)) (t # ts) w = for_each (process_at E (il_id l1)) ts w1"
    using Cons.prems(1) 1(1,3) by (simp add: process_at_def bind_def query_def holds_row_def)
  show ?case
  proof (cases "il_attempts l + 1 \<ge> rag_max_attempts E")
    case True
    with 1 have "for_each (process_at E (il_id l1)) ts w1 = (Inr (), w1)" by (intro failed_stays) auto
    with True 1 Cons.prems(3) first show ?thesis by (intro exI [of _ w1] exI [of _ l1]) simp
  next
    case False
    with 1 Cons.prems show ?thesis
      using Cons.IH [of l1 w1] unfolding first by (simp add: waiting_def)
  qed
qed simp



text \<open>
  An error that is neither a RAG error nor a missing object (say, the object store answers
  503) leaves the row exactly as it was: no attempt is counted and no delay is set, so that
  the row is due again at once, ahead of every newer one.
\<close>

lemma unexpected_error_keeps_row_due:
  assumes h: "holds_row l w" and l: "il_state l = PENDING" "is_document l" "il_rag_file_id l = None"
      "il_content_sha256 l = None"
    and crash: "or_exists (root_objects E) (il_s3_key l) w = (Inl e, w1)"
    and odd: "\<not> is_missing e" "\<not> is_rag_error e"
  shows "process (index_sync_job E) l now w = (Inr O_FAILED, w1) \<and> holds_row l w1 \<and>
    (due now l \<longrightarrow> (\<forall>t \<ge> now. due t l))"
proof -
  have "dispatch (index_sync_job E) l now w = (Inl e, w1)"
    using l crash odd by (simp add: dispatch_def register_link_def manifest_def locate_def
        read_object_hash_def except_missing_def bind_def try_except_def)
  then have "process (index_sync_job E) l now w = (Inr O_FAILED, w1)"
    using odd(2) by (cases e) (simp_all add: process_def try_except_def is_rag_error_def)
  moreover have "same_rows w w1"
    by (rule rowlessD [of "or_exists (root_objects E) (il_s3_key l)"])
      (use crash root_objects_port in \<open>auto simp: object_port_def\<close>)
  ultimately show ?thesis using h by (auto simp: holds_row_frame due_def split: option.splits)
qed
lemma unexpected_error_keeps_row_due_witness:
  "\<exists>w1. process (index_sync_job sample_sync_env) ((sample_link PENDING None)\<lparr>il_content_sha256 := None\<rparr>)
      9000 (sample_world [(sample_link PENDING None)\<lparr>il_content_sha256 := None\<rparr>]) = (Inr O_FAILED, w1) \<and>
    due 9001 ((sample_link PENDING None)\<lparr>il_content_sha256 := None\<rparr>)"
proof -
  let ?l = "(sample_link PENDING None)\<lparr>il_content_sha256 := None\<rparr>" and ?E = sample_sync_env
  let ?w = "sample_world [?l]"
  have h: "holds_row ?l ?w"
    by (simp add: holds_row_def queue_ok_iff link_constraints_def sample_world_def sample_link_def
        empty_world_def link_at_def get_link_def to_link_def)
  have l: "il_state ?l = PENDING" "is_document ?l" "il_rag_file_id ?l = None" "il_content_sha256 ?l = None"
    "il_s3_key ?l = ''users/3/files/a.pdf''"
    by (simp_all add: sample_link_def is_document_def PDF_CONTENT_TYPE_def)
  have k: "object_key [] ''users/3/files/a.pdf'' False = Inr ''users/3/files/a.pdf''" by code_simp
  have base: "sa_root_prefix (new_s3_adapter ?E STORAGE_VOLUME_ID []) = []"
    "sa_env (new_s3_adapter ?E STORAGE_VOLUME_ID []) = ?E"
    by (simp_all add: new_s3_adapter_def strip_slash_def strip_def strip_by_def lstrip_by_def rstrip_by_def)
  have "\<exists>w1. or_exists (root_objects ?E) (il_s3_key ?l) ?w = (Inl Other_Error, w1)"
    unfolding l(5)
    by (simp add: root_objects_def object_reader_of_def build_disk_root_adapter_def
        create_storage_adapter_def s3_storage_def s3_exists_def base k lift_def bind_def head_exists_def
        except_not_found_def try_except_def s3_send_def is_not_found_def)
  then obtain w1 where crash: "or_exists (root_objects ?E) (il_s3_key ?l) ?w = (Inl Other_Error, w1)" ..
  have "due 9000 ?l" by (simp add: due_def sample_link_def DUE_INDEX_STATES_def)
  with unexpected_error_keeps_row_due [OF h l(1-4) crash] show ?thesis
    by (auto simp: is_missing_def is_rag_error_def)
qed


end
