(* ===== verification/IndexServices.thy ===== *)
theory IndexServices
  imports SyncProps
begin

text \<open>
  The application services around the index queue, \<open>app/application/indexing\<close>: \<open>enqueue.py\<close> (what a
  request writes), \<open>immediate.py\<close> with \<open>app/presentation/indexing_notify.py\<close> (the attempt right after the
  commit), \<open>backfill.py\<close>, \<open>search.py\<close> and \<open>status.py\<close>.
\<close>

section \<open>Enqueue\<close>

definition queue_of :: "env \<Rightarrow> link_port option \<Rightarrow> link_port option" where
  "queue_of E index = (case index of None \<Rightarrow> None | Some L \<Rightarrow> if rag_enabled E then Some L else None)"

definition index_enqueue_active :: "env \<Rightarrow> link_port option \<Rightarrow> bool" where
  "index_enqueue_active E index = (queue_of E index \<noteq> None)"

definition refused_without_row :: "file_record \<Rightarrow> bool" where
  "refused_without_row r =
     (if fr_section r = PRIVATE \<or> fr_is_encrypted r then True
      else fr_section r \<notin> set indexed_sections)"

text \<open>\<open>except PrivateIndexRefused\<close>: a warning, and the function ends.\<close>

definition except_private :: "'a action \<Rightarrow> 'a action \<Rightarrow> 'a action" where
  "except_private m h = try_except m (\<lambda>e. if e = Private_Index_Refused then h else raise e)"

definition note_ids :: "uuid list \<Rightarrow> uuid list \<Rightarrow> uuid list" where
  "note_ids fs bucket = fold (\<lambda>f ids. if f \<in> set ids then ids else ids @ [f]) fs bucket"

definition note_immediate_index_ids :: "uuid list \<Rightarrow> unit action" where
  "note_immediate_index_ids fs =
     modify (\<lambda>w. w\<lparr>captured := map_option (note_ids fs) (captured w)\<rparr>)"

text \<open>\<open>capture_immediate_index_ids\<close>: the ids noted inside the block, and its value.\<close>

definition capture_immediate_index_ids :: "'a action \<Rightarrow> ('a \<times> uuid list) action" where
  "capture_immediate_index_ids m = (\<lambda>w.
     let (r, w') = m (w\<lparr>captured := Some []\<rparr>);
         ids = (case captured w' of None \<Rightarrow> [] | Some ids \<Rightarrow> ids)
     in (map_sum id (\<lambda>x. (x, ids)) r, w'\<lparr>captured := captured w\<rparr>))"

text \<open>The decision both writers take; \<open>None\<close> for an excluded section.\<close>

definition queue_decision ::
  "env \<Rightarrow> file_record \<Rightarrow> (registration_decision \<Rightarrow> index_link option action) \<Rightarrow> index_link option action" where
  "queue_decision E r write =
     except_private
       (bind (lift (decide_registration_target r (rag_max_image_bytes E))) (\<lambda>d.
        if rd_skip_code d = Some EXCLUDED_SECTION then ret None else write d))
       (ret None)"

definition enqueue_upload :: "env \<Rightarrow> link_port option \<Rightarrow> file_record \<Rightarrow> unit action" where
  "enqueue_upload E index r = (case queue_of E index of
       None \<Rightarrow> ret ()
     | Some L \<Rightarrow>
         if refused_without_row r then ret ()
         else
           bind (queue_decision E r (\<lambda>d. lp_upsert_pending L r d None)) (\<lambda>link.
           case link of
             None \<Rightarrow> ret ()
           | Some l \<Rightarrow> (case il_file_record_id l of
                 None \<Rightarrow> ret ()
               | Some f \<Rightarrow> note_immediate_index_ids [f])))"

definition enqueue_content_changed :: "env \<Rightarrow> link_port option \<Rightarrow> file_record \<Rightarrow> unit action" where
  "enqueue_content_changed E index r = (case queue_of E index of
       None \<Rightarrow> ret ()
     | Some L \<Rightarrow>
         if refused_without_row r then ret ()
         else bind (queue_decision E r (\<lambda>d. lp_mark_content_changed L (fr_id r) d None)) (\<lambda>_. ret ()))"

definition rekey_linked :: "link_port \<Rightarrow> file_record \<Rightarrow> unit action" where
  "rekey_linked L r =
     (if refused_without_row r then ret ()
      else except_private (bind (lp_mark_rekey L (fr_id r) (fr_relative_path r) None) (\<lambda>_. ret ()))
             (ret ()))"

definition enqueue_rekey :: "env \<Rightarrow> link_port option \<Rightarrow> file_record \<Rightarrow> unit action" where
  "enqueue_rekey E index r = (case queue_of E index of
       None \<Rightarrow> ret () | Some L \<Rightarrow> rekey_linked L r)"

definition enqueue_rekey_many :: "env \<Rightarrow> link_port option \<Rightarrow> file_record list \<Rightarrow> unit action" where
  "enqueue_rekey_many E index rs = (case queue_of E index of
       None \<Rightarrow> ret () | Some L \<Rightarrow> for_each (rekey_linked L) rs)"

fun removed_ids :: "index_link list \<Rightarrow> uuid list" where
  "removed_ids [] = []"
| "removed_ids (l # ls) =
     (case il_file_record_id l of None \<Rightarrow> removed_ids ls | Some f \<Rightarrow> f # removed_ids ls)"

definition enqueue_removed :: "env \<Rightarrow> link_port option \<Rightarrow> uuid list \<Rightarrow> unit action" where
  "enqueue_removed E index ids =
     (if ids = [] then ret ()
      else (case queue_of E index of
         None \<Rightarrow> ret ()
       | Some L \<Rightarrow>
           bind (except_private (bind (lp_mark_removed L ids None) (\<lambda>ls. ret (Some ls))) (ret None))
             (\<lambda>removed. case removed of
                None \<Rightarrow> ret ()
              | Some ls \<Rightarrow> note_immediate_index_ids (removed_ids ls))))"

definition enqueue_archived :: "env \<Rightarrow> link_port option \<Rightarrow> file_record \<Rightarrow> unit action" where
  "enqueue_archived E index r = (case queue_of E index of
       None \<Rightarrow> ret ()
     | Some L \<Rightarrow>
         if refused_without_row r then ret ()
         else except_private (bind (lp_mark_archived L (fr_id r) None) (\<lambda>_. ret ())) (ret ()))"

section \<open>Immediate notification\<close>

definition should_notify :: "index_link \<Rightarrow> bool" where
  "should_notify l =
     (if il_section l \<notin> set indexed_sections then False
      else if il_state l = SKIPPED then False
      else if il_state l = REMOVED then True
      else il_state l = PENDING \<and> il_rag_file_id l = None)"

definition notify_one :: "sync_job \<Rightarrow> instant option \<Rightarrow> uuid \<Rightarrow> unit action" where
  "notify_one J now f =
     bind (lp_get_by_file_record_id (sj_links J) f) (\<lambda>found. case found of
       None \<Rightarrow> ret ()
     | Some l \<Rightarrow>
         if \<not> should_notify l then ret ()
         else try_except (bind (process_link J l now) (\<lambda>_. ret ())) (\<lambda>_. ret ()))"

definition notify_index_links ::
  "env \<Rightarrow> link_port \<Rightarrow> object_reader \<Rightarrow> uuid list \<Rightarrow> instant option \<Rightarrow> unit action" where
  "notify_index_links E L R fs now =
     (let ordered_ids = fromkeys fs in
      if ordered_ids = [] then ret ()
      else if \<not> rag_enabled E then ret ()
      else for_each (notify_one (new_sync_job E L R None None None) now) ordered_ids)"

definition deliver_immediate_index_notifications :: "env \<Rightarrow> uuid list \<Rightarrow> unit action" where
  "deliver_immediate_index_notifications E fs =
     (let ordered_ids = fromkeys fs in
      if ordered_ids = [] \<or> \<not> rag_enabled E then ret ()
      else try_except
        (in_session (notify_index_links E (sql_links E) (root_objects E) ordered_ids None))
        (\<lambda>_. ret ()))"

section \<open>Backfill\<close>

definition LIMIT_BATCH_FACTOR :: int where "LIMIT_BATCH_FACTOR = 10"

datatype backfill_status = BF_COMPLETED | BF_SKIPPED

record backfill_result =
  bf_examined :: int
  bf_enqueued :: int
  bf_skipped :: int
  bf_next_cursor :: "backfill_cursor option"
  bf_remaining :: int
  bf_status :: backfill_status

definition backfill_page_limit :: "int option \<Rightarrow> int \<Rightarrow> exn + int" where
  "backfill_page_limit limit index_batch_size =
     (if index_batch_size < 1 then Inl Value_Error
      else let resolved = (case limit of None \<Rightarrow> index_batch_size * LIMIT_BATCH_FACTOR | Some n \<Rightarrow> n)
        in if resolved < 1 then Inl Value_Error else Inr resolved)"

definition backfill_skipped_result :: backfill_result where
  "backfill_skipped_result = \<lparr>bf_examined = 0, bf_enqueued = 0, bf_skipped = 0,
     bf_next_cursor = None, bf_remaining = 0, bf_status = BF_SKIPPED\<rparr>"

definition cursor_after :: "file_record list \<Rightarrow> backfill_cursor option" where
  "cursor_after candidates = (if candidates = [] then None
     else let r = last candidates
          in Some \<lparr>bc_created_at = fr_created_at r, bc_record_id = fr_id r\<rparr>)"

definition enqueue_record :: "link_port \<Rightarrow> int \<Rightarrow> file_record \<Rightarrow> bool action" where
  "enqueue_record L max_image_bytes r =
     bind (try_except
         (bind (lift (decide_registration_target r max_image_bytes)) (\<lambda>d.
          bind (lp_upsert_pending L r d None) (\<lambda>link. ret link)))
         (\<lambda>_. ret None))
       (\<lambda>link. ret (\<exists>l. link = Some l \<and> il_state l = PENDING))"

definition backfill ::
  "env \<Rightarrow> link_port \<Rightarrow> int option \<Rightarrow> backfill_cursor option \<Rightarrow> bool option \<Rightarrow> int option \<Rightarrow> int option \<Rightarrow>
    backfill_result action" where
  "backfill E L limit after enabled batch image_cap =
     (let enabled' = (case enabled of None \<Rightarrow> rag_backfill_enabled E | Some b \<Rightarrow> b);
          batch' = tuning batch (rag_index_batch_size E);
          cap = tuning image_cap (rag_max_image_bytes E) in
      if \<not> enabled' then ret backfill_skipped_result
      else
        bind (lift (backfill_page_limit limit batch')) (\<lambda>page_limit.
        bind (lp_backfill_candidates L page_limit after) (\<lambda>candidates.
        bind (map_act (enqueue_record L cap) candidates) (\<lambda>accepted.
        let next_cursor = cursor_after candidates in
        bind (lp_count_remaining L (if next_cursor \<noteq> None then next_cursor else after)) (\<lambda>remaining.
        ret \<lparr>bf_examined = int (length candidates),
             bf_enqueued = int (count_list accepted True),
             bf_skipped = int (count_list accepted False),
             bf_next_cursor = next_cursor, bf_remaining = remaining, bf_status = BF_COMPLETED\<rparr>)))))"

text \<open>\<open>_run_startup_index_backfill\<close> of \<open>main.py\<close>.\<close>

definition run_startup_index_backfill :: "env \<Rightarrow> unit action" where
  "run_startup_index_backfill E =
     try_except (bind (in_session (backfill E (sql_links E) None None None None None)) (\<lambda>_. ret ()))
       (\<lambda>_. ret ())"

section \<open>Photo search\<close>

definition SEARCH_LIMIT_MIN :: int where "SEARCH_LIMIT_MIN = 1"
definition SEARCH_LIMIT_MAX :: int where "SEARCH_LIMIT_MAX = 50"
definition SEARCH_OFFSET :: int where "SEARCH_OFFSET = 0"

record photo_search_hit =
  ph_id :: uuid
  ph_file_name :: string
  ph_preview_url :: string
  ph_original_url :: string
  ph_score :: rat

record photo_search_page =
  pp_items :: "photo_search_hit list"
  pp_query :: string
  pp_total :: int

definition search_page_limit :: "int \<Rightarrow> exn + int" where
  "search_page_limit n = (if n < SEARCH_LIMIT_MIN \<or> n > SEARCH_LIMIT_MAX then Inl Value_Error else Inr n)"

definition is_caller_indexed_photo :: "index_link \<Rightarrow> uuid \<Rightarrow> uuid \<Rightarrow> bool" where
  "is_caller_indexed_photo l u g =
     (il_user_id l = u \<and> il_rag_file_id l = Some g \<and> il_section l = PHOTOS \<and> il_state l = INDEXED)"

definition visible_hit ::
  "rag_image_hit \<Rightarrow> index_link option \<Rightarrow> (uuid \<Rightarrow> string option) \<Rightarrow> uuid \<Rightarrow> photo_search_hit option" where
  "visible_hit hit link names u = (case link of
       None \<Rightarrow> None
     | Some l \<Rightarrow>
         if \<not> is_caller_indexed_photo l u (rh_file_id hit) then None
         else (case il_file_record_id l of
             None \<Rightarrow> None
           | Some f \<Rightarrow> (case names f of
               None \<Rightarrow> None
             | Some name \<Rightarrow>
                 if name = [] then None
                 else Some \<lparr>ph_id = f, ph_file_name = name,
                   ph_preview_url = ''/api/photos/'' @ uuid_str f @ ''/preview'',
                   ph_original_url = ''/api/photos/'' @ uuid_str f @ ''/original'',
                   ph_score = rh_score hit\<rparr>)))"

definition visible_hits ::
  "rag_image_hit list \<Rightarrow> (uuid \<Rightarrow> index_link option) \<Rightarrow> (uuid \<Rightarrow> string option) \<Rightarrow> uuid \<Rightarrow>
    photo_search_hit list" where
  "visible_hits hits indexed names u =
     sort_key (\<lambda>h. - ph_score h)
       (somes (map (\<lambda>hit. visible_hit hit (indexed (rh_file_id hit)) names u) hits))"

definition search_indexed_photos ::
  "env \<Rightarrow> link_port \<Rightarrow> uuid \<Rightarrow> string \<Rightarrow> int \<Rightarrow> photo_search_page action" where
  "search_indexed_photos E L u q limit =
     bind (lift (validate_search_query q)) (\<lambda>normalized.
     bind (lift (search_page_limit limit)) (\<lambda>page_limit.
     if \<not> rag_enabled E then raise Indexing_Unavailable
     else
       bind (try_except (rag_hits E (Search_Images normalized u page_limit SEARCH_OFFSET))
               (\<lambda>e. case e of Rag_Unavailable s c \<Rightarrow> raise Indexing_Unavailable | _ \<Rightarrow> raise e)) (\<lambda>hits.
       bind (lp_indexed_photos_by_rag_file_id L u (map rh_file_id hits)) (\<lambda>indexed.
       bind (lp_original_names L (removed_ids (map snd indexed))) (\<lambda>names.
       let items = visible_hits hits (map_of (rev indexed)) (map_of (rev names)) u in
       ret \<lparr>pp_items = items, pp_query = normalized, pp_total = int (length items)\<rparr>)))))"

section \<open>Status and retry\<close>

record admin_index_view =
  ai_by_state :: "(index_state \<times> int) list"
  ai_oldest_pending_seconds :: "int option"
  ai_last_errors :: "(string \<times> int) list"
  ai_rag_reachable :: bool

definition user_index_status :: "link_port \<Rightarrow> uuid \<Rightarrow> user_index_counts action" where
  "user_index_status L u = lp_counts_for_user L u"

definition rag_reachable :: "env \<Rightarrow> bool action" where
  "rag_reachable E =
     (if \<not> rag_enabled E then ret False
      else try_except (rag_health E)
        (\<lambda>e. case e of Rag_Unavailable s c \<Rightarrow> ret False | _ \<Rightarrow> raise e))"

text \<open>\<open>int(total_seconds())\<close> of a non-negative span is the floor.\<close>

definition oldest_pending_seconds :: "env \<Rightarrow> instant option \<Rightarrow> instant option \<Rightarrow> int option action" where
  "oldest_pending_seconds E oldest now = (case oldest of
       None \<Rightarrow> ret None
     | Some t0 \<Rightarrow> bind (case now of Some t \<Rightarrow> ret t | None \<Rightarrow> utc_now E) (\<lambda>t.
         ret (Some (if t - t0 < 0 then 0 else (t - t0) div SECOND))))"

definition admin_index_status :: "env \<Rightarrow> link_port \<Rightarrow> instant option \<Rightarrow> admin_index_view action" where
  "admin_index_status E L now =
     bind (lp_admin_snapshot L) (\<lambda>snapshot.
     bind (rag_reachable E) (\<lambda>reachable.
     bind (oldest_pending_seconds E (as_oldest_pending_at snapshot) now) (\<lambda>oldest.
     ret \<lparr>ai_by_state = as_by_state snapshot, ai_oldest_pending_seconds = oldest,
          ai_last_errors = as_last_errors snapshot, ai_rag_reachable = reachable\<rparr>)))"

definition retry_failed_index :: "env \<Rightarrow> link_port \<Rightarrow> string option \<Rightarrow> int action" where
  "retry_failed_index E L state =
     (if state \<noteq> None \<and> state \<noteq> Some ''FAILED'' then raise Value_Error
      else if rag_index_batch_size E < 1 then raise Value_Error
      else lp_retry_failed L (rag_index_batch_size E) None)"

section \<open>The services keep the invariant of the queue\<close>

text \<open>The job and the services as clients of the repository's contract.\<close>

lemma rowless_note [rowless_rules, simp]: "rowless (note_immediate_index_ids fs)"
  by (simp add: note_immediate_index_ids_def rowless_def relates_def same_rows_def)

lemma keeps_except_private [keep_rules]: "keeps I m \<Longrightarrow> keeps I h \<Longrightarrow> keeps I (except_private m h)"
  unfolding except_private_def by (intro keep_rules)

lemma keeps_except_missing [keep_rules]: "keeps I m \<Longrightarrow> keeps I h \<Longrightarrow> keeps I (except_missing m h)"
  unfolding except_missing_def by (intro keep_rules)

lemma keeps_exn_http [keep_rules]:
  "(\<And>s c d. keeps I (h s c d)) \<Longrightarrow> keeps I (case e of Rag_Http s c d \<Rightarrow> h s c d | _ \<Rightarrow> raise e)"
  by (simp split: exn.split)

lemma keeps_exn_rag [keep_rules]:
  "(\<And>s c. keeps I (k s c)) \<Longrightarrow> (\<And>s c d. keeps I (h s c d)) \<Longrightarrow>
    keeps I (case e of Rag_Unavailable s c \<Rightarrow> k s c | Rag_Http s c d \<Rightarrow> h s c d | _ \<Rightarrow> raise e)"
  by (simp split: exn.split)

context link_invariant
begin

lemma rag_keeps:
  "keeps inv (rag_card E c)" "keeps inv (rag_delete E c)" "keeps inv (utc_now E)"
  "keeps inv (note_immediate_index_ids fs)"
  by (simp_all add: rowless_inv)

lemma write_row_keeps: "sj_links J = L \<Longrightarrow> keeps inv (write_row J l now t)"
  unfolding write_row_def by (simp add: transition_law)

lemma outcome_keeps:
  assumes "sj_links J = L"
  shows "keeps inv (fail_row J l now c)" "keeps inv (skip_row J l now c)"
    "keeps inv (succeed J l now st g h)" "keeps inv (settle J l now st)"
    "keeps inv (schedule_retry J l now c)" "keeps inv (miss_object J l now)"
  unfolding fail_row_def skip_row_def succeed_def settle_def schedule_retry_def miss_object_def Let_def
  by (intro keep_rules write_row_keeps assms)+

lemma dispatch_keeps:
  assumes L: "sj_links J = L" and R: "object_port (sj_objects J)"
  shows "keeps inv (dispatch J l now)"
proof -
  note r = object_port.reader_rowless [OF R, THEN rowless_inv]
  note rules = keep_rules outcome_keeps [OF L] write_row_keeps [OF L] rag_keeps r
    reads [folded L, THEN rowless_inv]
  have locate: "keeps inv (locate J k now)" for k
    unfolding locate_def read_object_hash_def by (intro rules)
  have manifest: "keeps inv (manifest J k now)" for k
    unfolding manifest_def display_name_def by (intro rules locate)
  have register: "keeps inv (register_link J k now)" for k
    unfolding register_link_def adopt_duplicate_def by (intro rules manifest)
  have vectors: "keeps inv (delete_vectors J k now)" for k
    unfolding delete_vectors_def by (intro rules)
  have reindex: "keeps inv (reindex_link J k now)" for k
    unfolding reindex_link_def by (intro rules vectors register)
  have rekey: "keeps inv (rekey_link J k now)" for k
    unfolding rekey_link_def on_rekey_http_def by (intro rules locate register reindex)
  show ?thesis
    unfolding dispatch_def poll_link_def on_polled_card_def remove_link_def Let_def
    by (intro rules register vectors reindex rekey)
qed

lemma process_keeps:
  assumes "sj_links J = L" and "object_port (sj_objects J)"
  shows "keeps inv (process J l now)"
  unfolding process_def by (intro keep_rules dispatch_keeps outcome_keeps assms)

lemma run_job_keeps:
  assumes L: "sj_links J = L" and R: "object_port (sj_objects J)"
  shows "keeps inv (run_job J now)"
  unfolding run_job_def
  by (intro keep_rules process_keeps rag_keeps L R) (simp add: L rowless_inv reads)

lemma queue_decision_keeps: "(\<And>d. keeps inv (f d)) \<Longrightarrow> keeps inv (queue_decision E r f)"
  unfolding queue_decision_def by (intro keep_rules)

lemma enqueue_keeps:
  assumes index: "index = None \<or> index = Some L"
  shows "side \<Longrightarrow> keeps inv (enqueue_upload E index r)" "keeps inv (enqueue_content_changed E index r)"
    "keeps inv (enqueue_rekey E index r)" "keeps inv (enqueue_rekey_many E index rs)"
    "keeps inv (enqueue_removed E index fs)" "keeps inv (enqueue_archived E index r)"
  using index
  unfolding enqueue_upload_def enqueue_content_changed_def enqueue_rekey_def enqueue_rekey_many_def
    enqueue_removed_def enqueue_archived_def rekey_linked_def queue_of_def
  by (auto intro!: keep_rules queue_decision_keeps port_keeps rag_keeps split: option.split)

lemma notify_keeps: "object_port R \<Longrightarrow> keeps inv (notify_index_links E L R fs now)"
  unfolding notify_index_links_def notify_one_def process_link_def Let_def
  by (intro keep_rules process_keeps rag_keeps) (simp_all add: new_sync_job_def rowless_inv reads)

lemma backfill_keeps: "side \<Longrightarrow> keeps inv (backfill E L limit after enabled batch cap)"
  unfolding backfill_def enqueue_record_def Let_def
  by (intro keep_rules upsert_law) (simp_all add: rowless_inv reads)

lemma retry_keeps: "keeps inv (retry_failed_index E L st)"
  unfolding retry_failed_index_def by (intro keep_rules retry_failed_law)

end

section \<open>Histories of the queue\<close>

text \<open>
  A request may call the enqueue functions in any order, with anything between them that does not
  write the queue, may branch on what it sees and may handle errors.
\<close>

inductive request :: "env \<Rightarrow> unit action \<Rightarrow> bool" for E where
  upload: "request E (enqueue_upload E (Some (sql_links E)) r)"
| overwrite: "request E (enqueue_content_changed E (Some (sql_links E)) r)"
| rename: "request E (enqueue_rekey E (Some (sql_links E)) r)"
| rename_many: "request E (enqueue_rekey_many E (Some (sql_links E)) rs)"
| delete: "request E (enqueue_removed E (Some (sql_links E)) fs)"
| archive: "request E (enqueue_archived E (Some (sql_links E)) r)"
| retry: "request E (bind (retry_failed_index E (sql_links E) st) (\<lambda>_. ret ()))"
| backfill_page: "request E (bind (backfill E (sql_links E) limit after enabled batch cap) (\<lambda>_. ret ()))"
| other: "(\<And>w. links (snd (m w)) = links w) \<Longrightarrow> request E m"
| sequence: "request E m \<Longrightarrow> request E m' \<Longrightarrow> request E (bind m (\<lambda>_. m'))"
| branch: "(\<And>w. request E (f w)) \<Longrightarrow> request E (\<lambda>w. f w w)"
| handler: "request E m \<Longrightarrow> (\<And>e. request E (h e)) \<Longrightarrow> request E (try_except m h)"

text \<open>
  The queue changes by requests, each in a session that commits or rolls back, by the immediate
  notification after a commit, by the scheduled tick and by the backfill at startup.
\<close>

inductive queue_step :: "env \<Rightarrow> world \<Rightarrow> world \<Rightarrow> bool" for E where
  served: "request E m \<Longrightarrow> queue_step E w (snd (in_session m w))"
| notified: "queue_step E w (snd (deliver_immediate_index_notifications E fs w))"
| synchronised: "queue_step E w (snd (run_index_sync_job E w))"
| started: "queue_step E w (snd (run_startup_index_backfill E w))"

lemma request_keeps:
  assumes race: "race_ok E" shows "request E m \<Longrightarrow> keeps queue_ok m"
proof (induction rule: request.induct)
  case (other m)
  then show ?case by (simp add: keeps_def queue_ok_iff)
next
  case (branch f)
  then show ?case by (simp add: keeps_def)
qed (use race in \<open>auto intro!: keep_rules sql_queue.enqueue_keeps sql_queue.backfill_keeps
      sql_queue.retry_keeps\<close>)

lemma queue_step_ok:
  assumes race: "race_ok E" shows "queue_step E w w' \<Longrightarrow> queue_ok w \<Longrightarrow> queue_ok w'"
proof (induction rule: queue_step.induct)
  case (served m w)
  then show ?case using in_session_keeps_rows [OF request_keeps [OF race]] by (blast intro: keepsD)
next
  case (notified w fs)
  have "keeps queue_ok (deliver_immediate_index_notifications E fs)"
    unfolding deliver_immediate_index_notifications_def Let_def
    by (intro keep_rules in_session_keeps_rows sql_queue.notify_keeps root_objects_port)
  with notified show ?case by (blast intro: keepsD)
next
  case (synchronised w)
  have "keeps queue_ok (run_index_sync_job E)"
    unfolding run_index_sync_job_def run_index_sync_def
    by (intro keep_rules in_session_keeps_rows sql_queue.run_job_keeps)
      (simp_all add: new_sync_job_def root_objects_port)
  with synchronised show ?case by (blast intro: keepsD)
next
  case (started w)
  have "keeps queue_ok (run_startup_index_backfill E)"
    unfolding run_startup_index_backfill_def
    by (intro keep_rules in_session_keeps_rows sql_queue.backfill_keeps race)
  with started show ?case by (blast intro: keepsD)
qed

section \<open>Properties\<close>





lemma map_of_rev_in: "map_of (rev xs) k = Some v \<Longrightarrow> (k, v) \<in> set xs"
  using map_of_SomeD by fastforce

text \<open>
  C22. Photo search shows a user only photos of their own that are indexed, under their stored names,
  best score first, whatever hits the service returns; the count is that of the shown photos.
\<close>

theorem search_shows_own_indexed_photos:
  assumes "search_indexed_photos E (sql_links E) u q n w = (Inr page, w')"
  shows "(\<forall>h \<in> set (pp_items page). \<exists>l \<in> set (links w). \<exists>r \<in> set (files w).
      il_user_id l = u \<and> il_section l = PHOTOS \<and> il_state l = INDEXED \<and>
      il_file_record_id l = Some (ph_id h) \<and> fr_id r = ph_id h \<and> ph_file_name h = fr_original_name r \<and>
      ph_preview_url h = ''/api/photos/'' @ uuid_str (ph_id h) @ ''/preview'') \<and>
    sorted (map (\<lambda>h. - ph_score h) (pp_items page)) \<and> pp_total page = int (length (pp_items page)) \<and>
    pp_query page = strip q \<and> pp_query page \<noteq> [] \<and> length (pp_query page) \<le> SEARCH_QUERY_MAX_LENGTH"
proof -
  obtain normalized w1 hits w2 indexed w3 names w4 where
    v: "validate_search_query q = Inr normalized" and
    hits: "try_except (rag_hits E (Search_Images normalized u n SEARCH_OFFSET))
      (\<lambda>e. case e of Rag_Unavailable s c \<Rightarrow> raise Indexing_Unavailable | _ \<Rightarrow> raise e) w = (Inr hits, w2)" and
    ix: "indexed_photos_by_rag_file_id u (map rh_file_id hits) w2 = (Inr indexed, w3)" and
    nm: "original_names (removed_ids (map snd indexed)) w3 = (Inr names, w4)" and
    page: "page = \<lparr>pp_items = visible_hits hits (map_of (rev indexed)) (map_of (rev names)) u,
      pp_query = normalized,
      pp_total = int (length (visible_hits hits (map_of (rev indexed)) (map_of (rev names)) u))\<rparr>"
    using assms
    by (auto simp: search_indexed_photos_def bind_Inr lift_def search_page_limit_def Let_def
        split: sum.splits if_splits)
  have "rowless (try_except (rag_hits E (Search_Images normalized u n SEARCH_OFFSET))
      (\<lambda>e. case e of Rag_Unavailable s c \<Rightarrow> raise Indexing_Unavailable | _ \<Rightarrow> raise e))"
    by (auto intro!: rowless_rules split: exn.split)
  then have "same_rows w w2" by (rule rowlessD) (rule hits)
  then have w2: "links w2 = links w" "files w2 = files w" by (simp_all add: same_rows_def)
  have w3: "files w3 = files w"
    using ix w2 by (auto simp: indexed_photos_by_rag_file_id_def query_def split: if_splits)
  have ixd: "\<exists>m \<in> set (links w). l = to_link m \<and> il_user_id m = u \<and> il_section m = PHOTOS \<and> il_state m = INDEXED"
    if "(g, l) \<in> set indexed" for g l
    using ix that by (auto simp: indexed_photos_by_rag_file_id_def query_def w2 split: if_splits)
  have nmd: "\<exists>r \<in> set (files w). fr_id r = f \<and> name = fr_original_name r" if "(f, name) \<in> set names" for f name
    using nm that by (auto simp: original_names_def query_def w3 Let_def split: if_splits)
  have item: "\<exists>l \<in> set (links w). \<exists>r \<in> set (files w).
      il_user_id l = u \<and> il_section l = PHOTOS \<and> il_state l = INDEXED \<and>
      il_file_record_id l = Some (ph_id h) \<and> fr_id r = ph_id h \<and> ph_file_name h = fr_original_name r \<and>
      ph_preview_url h = ''/api/photos/'' @ uuid_str (ph_id h) @ ''/preview''"
    if "h \<in> set (pp_items page)" for h
  proof -
    from that obtain hit where "Some h = visible_hit hit (map_of (rev indexed) (rh_file_id hit)) (map_of (rev names)) u"
      by (auto simp: page visible_hits_def)
    then obtain l name f where l: "map_of (rev indexed) (rh_file_id hit) = Some l"
      "il_file_record_id l = Some f" "map_of (rev names) f = Some name"
      "ph_id h = f" "ph_file_name h = name" "ph_preview_url h = ''/api/photos/'' @ uuid_str f @ ''/preview''"
      by (auto simp: visible_hit_def split: option.splits if_splits)
    from ixd [OF map_of_rev_in [OF l(1)]] nmd [OF map_of_rev_in [OF l(3)]] l(2,4-6) show ?thesis by fastforce
  qed
  have s: "sorted (map (\<lambda>h. - ph_score h) (pp_items page))"
    by (simp add: page visible_hits_def)
  have n: "normalized = strip q \<and> normalized \<noteq> [] \<and> length normalized \<le> SEARCH_QUERY_MAX_LENGTH"
    using v by (auto simp: validate_search_query_def Let_def split: if_splits)
  show ?thesis
    using s n by (intro conjI ballI item) (auto simp: page)
qed

theorem search_shows_own_indexed_photos_witness:
  "\<exists>page w'. search_indexed_photos (sample_env (\<lambda>_ _. Reply_Hits []) (\<lambda>_ _. S3_Crash))
      (sql_links (sample_env (\<lambda>_ _. Reply_Hits []) (\<lambda>_ _. S3_Crash))) 3 '' cat '' 5 empty_world = (Inr page, w') \<and>
    pp_query page = ''cat'' \<and> pp_total page = int (length (pp_items page))"
proof -
  let ?E = "sample_env (\<lambda>_ _. Reply_Hits []) (\<lambda>_ _. S3_Crash)"
  have q: "strip '' cat '' = ''cat''" by code_simp
  have "\<exists>page w'. search_indexed_photos ?E (sql_links ?E) 3 '' cat '' 5 empty_world = (Inr page, w')"
    by (simp add: search_indexed_photos_def validate_search_query_def q SEARCH_QUERY_MAX_LENGTH_def
        search_page_limit_def SEARCH_LIMIT_MIN_def SEARCH_LIMIT_MAX_def lift_def bind_def sample_env_def
        rag_hits_def rag_send_def try_except_def indexed_photos_by_rag_file_id_def original_names_def Let_def)
  then obtain page w' where r: "search_indexed_photos ?E (sql_links ?E) 3 '' cat '' 5 empty_world = (Inr page, w')"
    by blast
  show ?thesis using search_shows_own_indexed_photos [OF r] r q by auto
qed

text \<open>Backfill only adds rows.\<close>

definition grown :: "world \<Rightarrow> file_record list \<Rightarrow> index_link list \<Rightarrow> quota_usage list \<Rightarrow> bool" where
  "grown w0 fs ls qs \<longleftrightarrow> fs = files w0 \<and> il_file_record_id ` set (links w0) \<subseteq> il_file_record_id ` set ls"

lemma insert_link_grows: "keeps (on_rows (grown w0)) (insert_link E m)"
  by (auto simp: keeps_def insert_link_def on_rows_def grown_def Let_def split: option.splits)

lemma keeps_exn_integrity [keep_rules]:
  "(\<And>b. keeps I (h b)) \<Longrightarrow> keeps I (case e of Integrity_Error b \<Rightarrow> h b | _ \<Rightarrow> raise e)"
  by (simp split: exn.split)

lemma upsert_grows: "keeps (on_rows (grown w0)) (upsert_pending E r d now)"
  unfolding upsert_pending_def Let_def
  by (auto intro!: keep_rules insert_link_grows split: exn.split bool.split)

lemma count_booleans: "int (count_list bs True) + int (count_list bs False) = int (length bs)"
  by (induction bs) auto

lemma map_act_length: "map_act f xs w = (Inr ys, w') \<Longrightarrow> length ys = length xs"
  by (induction xs arbitrary: ys w w') (auto simp: bind_Inr)

lemma cursor_trans:
  fixes r r0 :: file_record
  shows "(case after of None \<Rightarrow> True | Some c \<Rightarrow> fr_created_at r0 > bc_created_at c \<or>
      fr_created_at r0 = bc_created_at c \<and> fr_id r0 > bc_record_id c) \<Longrightarrow>
    fr_created_at r > fr_created_at r0 \<or> fr_created_at r = fr_created_at r0 \<and> fr_id r > fr_id r0 \<Longrightarrow>
    (case after of None \<Rightarrow> True | Some c \<Rightarrow> fr_created_at r > bc_created_at c \<or>
      fr_created_at r = bc_created_at c \<and> fr_id r > bc_record_id c)"
  by (cases after) auto

lemma backfill_select_shrinks:
  assumes sel: "r0 \<in> set (backfill_select after w)" and g: "on_rows (grown w) w'"
  shows "length (backfill_select (Some \<lparr>bc_created_at = fr_created_at r0, bc_record_id = fr_id r0\<rparr>) w') <
    length (backfill_select after w)"
proof -
  let ?c = "Some \<lparr>bc_created_at = fr_created_at r0, bc_record_id = fr_id r0\<rparr>"
  let ?P = "\<lambda>after w r. (\<forall>l \<in> set (links w). il_file_record_id l \<noteq> Some (fr_id r)) \<and>
       fr_status r \<in> {S_COMMITTED, S_ARCHIVED} \<and> fr_section r \<in> {FILES, PHOTOS} \<and>
       (case after of None \<Rightarrow> True
        | Some c \<Rightarrow> fr_created_at r > bc_created_at c \<or>
            fr_created_at r = bc_created_at c \<and> fr_id r > bc_record_id c)"
  have fs: "files w' = files w" and sub: "il_file_record_id ` set (links w) \<subseteq> il_file_record_id ` set (links w')"
    using g by (auto simp: on_rows_def grown_def)
  have imp: "?P after w r" if "?P ?c w' r" for r :: file_record
  proof -
    have "\<forall>l \<in> set (links w). il_file_record_id l \<noteq> Some (fr_id r)"
      using that sub by (metis (no_types, lifting) image_iff subset_iff)
    moreover have "case after of None \<Rightarrow> True
        | Some c \<Rightarrow> fr_created_at r > bc_created_at c \<or>
            fr_created_at r = bc_created_at c \<and> fr_id r > bc_record_id c"
      by (rule cursor_trans [where ?r0.0 = r0]) (use that sel in \<open>simp_all add: backfill_select_def\<close>)
    ultimately show ?thesis using that by blast
  qed
  define P :: "backfill_cursor option \<Rightarrow> world \<Rightarrow> file_record \<Rightarrow> bool"
    where "P = (\<lambda>after w r. ?P after w r)"
  have eq: "backfill_select a v = filter (P a v) (files v)" for a v
    by (simp add: P_def backfill_select_def)
  have "P after w r" if "P ?c w' r" for r :: file_record
    using imp that unfolding P_def by blast
  then have "filter (P ?c w') (files w) = filter (P ?c w') (filter (P after w) (files w))"
    unfolding filter_filter by (intro filter_cong refl) blast
  then have "backfill_select ?c w' = filter (P ?c w') (backfill_select after w)"
    by (simp only: eq fs)
  moreover have "\<not> P ?c w' r0" by (simp add: P_def)
  ultimately show ?thesis using length_filter_less [OF sel] by simp
qed

lemma rowless_usable: "rowless m \<Longrightarrow> keeps (\<lambda>w. \<not> broken w) m"
  by (auto simp: keeps_def rowless_def relates_def same_rows_def)

lemma upsert_usable: "keeps (\<lambda>w. \<not> broken w) (upsert_pending E r d now)"
proof -
  have "keeps (\<lambda>w. \<not> broken w) (insert_link E m)" for m
    by (auto simp: keeps_def insert_link_def Let_def split: option.splits)
  then show ?thesis
    unfolding upsert_pending_def Let_def
    by (auto intro!: keep_rules rowless_refuse [THEN rowless_usable]
        rowless_moment [THEN rowless_usable] rowless_model_by_file [THEN rowless_usable]
        rowless_new_uuid [THEN rowless_usable] split: exn.split bool.split)
qed

lemma enqueue_record_returns: "returns (enqueue_record L cap r)"
  unfolding enqueue_record_def by (intro returns_bind returns_try returns_ret)

text \<open>
  C40. Backfill makes progress: on a usable session a page returns, is never larger than asked, accounts
  for every record it examined, and, when it examined any, leaves strictly fewer records
  beyond its cursor, so that repeating it with the returned cursor comes to an end.
\<close>

theorem backfill_progress:
  assumes ok: "\<not> broken w"
    and lim: "backfill_page_limit limit (tuning batch (rag_index_batch_size E)) = Inr n"
  shows "\<exists>res w'. backfill E (sql_links E) limit after (Some True) batch cap w = (Inr res, w') \<and>
    bf_examined res \<le> n \<and> bf_enqueued res + bf_skipped res = bf_examined res \<and>
    (bf_next_cursor res = None \<longleftrightarrow> bf_examined res = 0) \<and>
    (bf_examined res > 0 \<longrightarrow> bf_remaining res < int (length (backfill_select after w)))"
proof -
  let ?cap = "tuning cap (rag_max_image_bytes E)"
  define cs where "cs = take (nat n) (sort_key (\<lambda>r. (fr_created_at r, fr_id r)) (backfill_select after w))"
  have n: "1 \<le> n" using lim by (auto simp: backfill_page_limit_def Let_def split: if_splits)
  have cs: "backfill_candidates n after w = (Inr cs, w)"
    using n ok by (simp add: backfill_candidates_def require_limit_def query_def bind_def cs_def)
  have sub: "set cs \<subseteq> set (backfill_select after w)" by (auto simp: cs_def dest: in_set_takeD)
  obtain acc w2 where acc: "map_act (enqueue_record (sql_links E) ?cap) cs w = (Inr acc, w2)"
    using returnsD [OF returns_map_act [of "enqueue_record (sql_links E) ?cap" cs], of w]
      enqueue_record_returns by blast
  have "keeps (on_rows (grown w)) (map_act (enqueue_record (sql_links E) ?cap) cs)"
    unfolding enqueue_record_def by (intro keep_rules) (simp add: upsert_grows)
  then have "on_rows (grown w) (snd (map_act (enqueue_record (sql_links E) ?cap) cs w))"
    by (rule keepsD) (simp add: on_rows_def grown_def)
  then have g: "on_rows (grown w) w2" by (simp add: acc)
  have "keeps (\<lambda>w. \<not> broken w) (map_act (enqueue_record (sql_links E) ?cap) cs)"
    unfolding enqueue_record_def by (intro keep_rules) (simp add: upsert_usable)
  then have "\<not> broken (snd (map_act (enqueue_record (sql_links E) ?cap) cs w))"
    using ok by (rule keepsD)
  then have ok2: "\<not> broken w2" by (simp add: acc)
  let ?next = "if cursor_after cs \<noteq> None then cursor_after cs else after"
  let ?rem = "int (length (backfill_select ?next w2))"
  have run: "backfill E (sql_links E) limit after (Some True) batch cap w = (Inr
      \<lparr>bf_examined = int (length cs), bf_enqueued = int (count_list acc True),
       bf_skipped = int (count_list acc False), bf_next_cursor = cursor_after cs,
       bf_remaining = ?rem, bf_status = BF_COMPLETED\<rparr>, w2)"
    using lim cs acc ok2 by (simp add: backfill_def lift_def Let_def bind_def count_remaining_def query_def)
  have fewer: "?rem < int (length (backfill_select after w))" if "cs \<noteq> []"
  proof -
    from that have "last cs \<in> set (backfill_select after w)" using sub by auto
    from backfill_select_shrinks [OF this g] show ?thesis
      using that by (simp add: cursor_after_def Let_def)
  qed
  have "length cs \<le> nat n" by (simp add: cs_def)
  note facts = fewer this n map_act_length [OF acc] count_booleans [of acc]
  show ?thesis
    by (intro exI conjI, rule run) (use facts in \<open>auto simp: cursor_after_def Let_def\<close>)
qed

theorem backfill_progress_witness:
  "\<exists>res w'. backfill sample_sync_env (sql_links sample_sync_env) (Some 5) None (Some True) None None
      (sample_world []) = (Inr res, w') \<and> bf_examined res \<le> 5 \<and>
    bf_enqueued res + bf_skipped res = bf_examined res"
proof -
  have "backfill_page_limit (Some 5) (tuning None (rag_index_batch_size sample_sync_env)) = Inr 5"
    by (simp add: backfill_page_limit_def tuning_def)
  moreover have "\<not> broken (sample_world [])" by (simp add: sample_world_def empty_world_def)
  ultimately show ?thesis using backfill_progress [of "sample_world []" "Some 5" None sample_sync_env 5 None None]
    by blast
qed

end
