(* ===== verification/RagClient.thy ===== *)
theory RagClient
  imports World
begin

text \<open>
  \<open>RagIndexClient\<close> (\<open>infrastructure/rag/client.py\<close>), the \<open>httpx\<close> client behind the port \<open>rag_index.py\<close>.
  The transport is a parameter, a function from a request to its outcome; the identifier of the
  request is the argument \<open>rid\<close>. The client turns a call into a request and an outcome into
  a value or an exception, and so supplies the \<open>rag_service\<close> of an environment.
\<close>

section \<open>Requests\<close>

datatype rag_body = No_Body | Json_Body "(string \<times> json) list" | Query_Params "(string \<times> json) list"

record rag_request =
  rq_method :: string
  rq_path :: string
  rq_headers :: "(string \<times> string) list"
  rq_body :: rag_body

type_synonym transport = "rag_request \<Rightarrow> http_outcome"

definition STORAGE_ORIGIN :: string where "STORAGE_ORIGIN = ''storage''"
definition DOCUMENTS_PATH :: string where "DOCUMENTS_PATH = ''/api/files/documents''"
definition IMAGES_PATH :: string where "IMAGES_PATH = ''/api/files/images''"
definition IMAGE_SEARCH_PATH :: string where "IMAGE_SEARCH_PATH = ''/api/chats/image-search''"
definition HEALTH_PATH :: string where "HEALTH_PATH = ''/health''"
definition OUTAGE_STATUSES :: "int list" where "OUTAGE_STATUSES = [502, 503, 504]"

definition normalize_base_url :: "string \<Rightarrow> exn + string" where
  "normalize_base_url base_url =
     (let s = strip base_url; n = (if ends_with s ''/'' then butlast s else s)
      in if n = [] then Inl Other_Error else Inr n)"

section \<open>Bodies\<close>

definition require_uuid :: "json \<Rightarrow> uuid option" where
  "require_uuid v = Option.bind (as_string v) parse_uuid"

text \<open>The outer option says whether the value has the type; the inner one is Python's \<open>None\<close>.\<close>

definition optional_str :: "json \<Rightarrow> string option option" where
  "optional_str v = (case v of J_Null \<Rightarrow> Some None | J_Str s \<Rightarrow> Some (Some s) | _ \<Rightarrow> None)"

definition optional_int :: "json \<Rightarrow> int option option" where
  "optional_int v = (case v of J_Null \<Rightarrow> Some None | J_Int n \<Rightarrow> Some (Some n) | _ \<Rightarrow> None)"

definition detail_of :: "json \<Rightarrow> detail_value" where
  "detail_of v = (case v of J_Str s \<Rightarrow> Detail_Str s | _ \<Rightarrow> Detail_Other)"

definition error_parts :: "json option \<Rightarrow> string option \<times> (string \<times> detail_value) list" where
  "error_parts body = (case as_object body of
       None \<Rightarrow> (None, [])
     | Some ms \<Rightarrow> (case member ms ''error'' of
         J_Object e \<Rightarrow>
           ((case member e ''code'' of J_Str c \<Rightarrow> if c = [] then None else Some c | _ \<Rightarrow> None),
            (case member e ''details'' of
               J_Object ds \<Rightarrow> map (\<lambda>(k, v). (k, detail_of v)) ds
             | _ \<Rightarrow> []))
       | _ \<Rightarrow> (None, [])))"

definition unreadable :: "int \<Rightarrow> exn" where
  "unreadable status = Rag_Http status None []"

text \<open>A field of a card that is missing or has the wrong type makes the body unreadable.\<close>

definition parse_file_card :: "int \<Rightarrow> json option \<Rightarrow> exn + rag_file_card" where
  "parse_file_card status body = (case as_object body of
       None \<Rightarrow> Inl (unreadable status)
     | Some ms \<Rightarrow>
         (case (require_uuid (member ms ''file_id''), as_string (member ms ''status''),
                optional_str (member ms ''error''), optional_str (member ms ''content_type''),
                optional_str (member ms ''file_name''), optional_int (member ms ''file_size''),
                optional_int (member ms ''page_count'')) of
            (Some f, Some st, Some e, Some ct, Some name, Some bytes, Some pages) \<Rightarrow>
              if st = [] then Inl (unreadable status)
              else Inr \<lparr>rc_file_id = f, rc_status = st, rc_error = e, rc_content_type = ct,
                     rc_file_name = name, rc_file_size = bytes, rc_page_count = pages\<rparr>
          | _ \<Rightarrow> Inl (unreadable status)))"

definition parse_delete :: "int \<Rightarrow> json option \<Rightarrow> uuid \<Rightarrow> exn + uuid \<times> string" where
  "parse_delete status body fallback = (case as_object body of
       None \<Rightarrow> Inl (unreadable status)
     | Some ms \<Rightarrow>
         (case (if member ms ''file_id'' = J_Null then Some fallback else require_uuid (member ms ''file_id''),
                as_string (member ms ''status'')) of
            (Some f, Some st) \<Rightarrow> if st = [] then Inl (unreadable status) else Inr (f, st)
          | _ \<Rightarrow> Inl (unreadable status)))"

definition parse_score :: "json \<Rightarrow> rat option" where
  "parse_score v = (case v of J_Int n \<Rightarrow> Some (of_int n) | J_Float x \<Rightarrow> Some x | _ \<Rightarrow> None)"

definition parse_hit :: "json \<Rightarrow> rag_image_hit option" where
  "parse_hit item = (case item of
       J_Object ms \<Rightarrow>
         (case (as_string (member ms ''file_name''), parse_score (member ms ''score''),
                require_uuid (member ms ''file_id'')) of
            (Some name, Some score, Some f) \<Rightarrow>
              Some \<lparr>rh_file_id = f, rh_file_name = name, rh_score = score\<rparr>
          | _ \<Rightarrow> None)
     | _ \<Rightarrow> None)"

fun parse_hits :: "json list \<Rightarrow> rag_image_hit list option" where
  "parse_hits [] = Some []"
| "parse_hits (j # js) = (case (parse_hit j, parse_hits js) of
     (Some h, Some hs) \<Rightarrow> Some (h # hs) | _ \<Rightarrow> None)"

record rag_search_result =
  sr_items :: "rag_image_hit list"
  sr_limit :: int
  sr_offset :: int
  sr_next_offset :: "int option"

definition parse_image_search :: "int \<Rightarrow> json option \<Rightarrow> int \<Rightarrow> int \<Rightarrow> exn + rag_search_result" where
  "parse_image_search status body fallback_limit fallback_offset = (case as_object body of
       None \<Rightarrow> Inl (unreadable status)
     | Some ms \<Rightarrow>
         (case member ms ''items'' of
            J_List js \<Rightarrow>
              (case (parse_hits js, optional_int (member ms ''limit''), optional_int (member ms ''offset''),
                     optional_int (member ms ''next_offset'')) of
                 (Some hs, Some limit, Some offset, Some nxt) \<Rightarrow>
                   Inr \<lparr>sr_items = hs,
                     sr_limit = (case limit of None \<Rightarrow> fallback_limit | Some n \<Rightarrow> n),
                     sr_offset = (case offset of None \<Rightarrow> fallback_offset | Some n \<Rightarrow> n),
                     sr_next_offset = nxt\<rparr>
               | _ \<Rightarrow> Inl (unreadable status))
          | _ \<Rightarrow> Inl (unreadable status)))"

section \<open>Sending\<close>

definition outage_code :: "int \<Rightarrow> string" where
  "outage_code status = (if status = 504 then ''timeout'' else ''dependency_unavailable'')"

definition rag_headers :: "uuid \<Rightarrow> uuid option \<Rightarrow> (string \<times> string) list" where
  "rag_headers rid user = (''X-Request-Id'', uuid_str rid) #
     (case user of None \<Rightarrow> [] | Some u \<Rightarrow> [(''X-Auth-User-Id'', uuid_str u)])"

text \<open>\<open>_send\<close>: the status and body of an accepted response, or the exception.\<close>

definition client_send ::
  "transport \<Rightarrow> uuid \<Rightarrow> string \<Rightarrow> string \<Rightarrow> uuid option \<Rightarrow> rag_body \<Rightarrow> int list \<Rightarrow> exn + int \<times> json option" where
  "client_send T rid meth path user body ok_statuses =
     (case T \<lparr>rq_method = meth, rq_path = path, rq_headers = rag_headers rid user, rq_body = body\<rparr> of
        Http_Timeout \<Rightarrow> Inl (Rag_Unavailable None (Some ''timeout''))
      | Http_Transport_Error \<Rightarrow> Inl (Rag_Unavailable None (Some ''dependency_unavailable''))
      | Http_Crash \<Rightarrow> Inl Other_Error
      | Http_Response status reply \<Rightarrow>
          if status \<in> set OUTAGE_STATUSES then
            Inl (Rag_Unavailable (Some status)
              (Some (case fst (error_parts reply) of Some c \<Rightarrow> c | None \<Rightarrow> outage_code status)))
          else if status \<notin> set ok_statuses then
            Inl (Rag_Http status (fst (error_parts reply)) (snd (error_parts reply)))
          else Inr (status, reply))"

definition manifest_json :: "rag_manifest \<Rightarrow> (string \<times> json) list" where
  "manifest_json d = [(''s3_key'', J_Str (rm_s3_key d)), (''file_name'', J_Str (rm_file_name d)),
     (''content_sha256'', J_Str (rm_content_sha256 d)), (''file_size'', J_Int (rm_file_size d)),
     (''content_type'', J_Str (rm_content_type d)), (''origin'', J_Str STORAGE_ORIGIN)]"

definition client_register :: "transport \<Rightarrow> uuid \<Rightarrow> string \<Rightarrow> rag_manifest \<Rightarrow> uuid \<Rightarrow> exn + rag_file_card" where
  "client_register T rid path d u =
     (case client_send T rid ''POST'' path (Some u) (Json_Body (manifest_json d)) [202] of
        Inl e \<Rightarrow> Inl e | Inr (status, reply) \<Rightarrow> parse_file_card status reply)"

definition client_get_file :: "transport \<Rightarrow> uuid \<Rightarrow> uuid \<Rightarrow> uuid \<Rightarrow> exn + rag_file_card" where
  "client_get_file T rid g u =
     (case client_send T rid ''GET'' (''/api/files/'' @ uuid_str g) (Some u) No_Body [200] of
        Inl e \<Rightarrow> Inl e | Inr (status, reply) \<Rightarrow> parse_file_card status reply)"

definition client_rekey :: "transport \<Rightarrow> uuid \<Rightarrow> uuid \<Rightarrow> rag_object_key \<Rightarrow> uuid \<Rightarrow> exn + rag_file_card" where
  "client_rekey T rid g target u =
     (case client_send T rid ''PUT'' (''/api/files/'' @ uuid_str g @ ''/object'') (Some u)
        (Json_Body [(''s3_key'', J_Str (ro_s3_key target)), (''file_size'', J_Int (ro_file_size target)),
           (''content_sha256'', J_Str (ro_content_sha256 target))]) [202] of
        Inl e \<Rightarrow> Inl e | Inr (status, reply) \<Rightarrow> parse_file_card status reply)"

definition client_delete_vectors :: "transport \<Rightarrow> uuid \<Rightarrow> uuid \<Rightarrow> uuid \<Rightarrow> exn + uuid \<times> string" where
  "client_delete_vectors T rid g u =
     (case client_send T rid ''DELETE'' (''/api/files/'' @ uuid_str g) (Some u) No_Body [202] of
        Inl e \<Rightarrow> Inl e | Inr (status, reply) \<Rightarrow> parse_delete status reply g)"

definition client_search_images ::
  "transport \<Rightarrow> uuid \<Rightarrow> string \<Rightarrow> uuid \<Rightarrow> int \<Rightarrow> int \<Rightarrow> exn + rag_search_result" where
  "client_search_images T rid q u limit offset =
     (case client_send T rid ''GET'' IMAGE_SEARCH_PATH (Some u)
        (Query_Params [(''q'', J_Str q), (''limit'', J_Int limit), (''offset'', J_Int offset)]) [200] of
        Inl e \<Rightarrow> Inl e | Inr (status, reply) \<Rightarrow> parse_image_search status reply limit offset)"

definition client_health :: "transport \<Rightarrow> uuid \<Rightarrow> exn + bool" where
  "client_health T rid =
     (case client_send T rid ''GET'' HEALTH_PATH None No_Body [200] of
        Inl e \<Rightarrow> Inl e
      | Inr (status, reply) \<Rightarrow>
          (case as_object reply of
             None \<Rightarrow> Inl (Rag_Unavailable (Some status) (Some ''dependency_unavailable''))
           | Some ms \<Rightarrow>
               if member ms ''status'' = J_Str ''ok'' then Inr True
               else Inl (Rag_Unavailable (Some status) (Some ''dependency_unavailable''))))"

section \<open>The client as the service of the port\<close>

definition failed :: "exn \<Rightarrow> rag_reply" where
  "failed e = (case e of
       Rag_Unavailable status code \<Rightarrow> Reply_Unavailable status code
     | Rag_Http status code details \<Rightarrow> Reply_Http_Error status code details
     | _ \<Rightarrow> Reply_Crash)"

definition answered :: "('a \<Rightarrow> rag_reply) \<Rightarrow> exn + 'a \<Rightarrow> rag_reply" where
  "answered f r = (case r of Inl e \<Rightarrow> failed e | Inr x \<Rightarrow> f x)"

fun client_service :: "transport \<Rightarrow> uuid \<Rightarrow> rag_call \<Rightarrow> rag_reply" where
  "client_service T rid (Register_Document d u) = answered Reply_Card (client_register T rid DOCUMENTS_PATH d u)"
| "client_service T rid (Register_Image d u) = answered Reply_Card (client_register T rid IMAGES_PATH d u)"
| "client_service T rid (Rekey g target u) = answered Reply_Card (client_rekey T rid g target u)"
| "client_service T rid (Get_File g u) = answered Reply_Card (client_get_file T rid g u)"
| "client_service T rid (Delete_Vectors g u) = answered (\<lambda>_. Reply_Deleted) (client_delete_vectors T rid g u)"
| "client_service T rid (Search_Images q u limit offset) =
     answered (\<lambda>r. Reply_Hits (sr_items r)) (client_search_images T rid q u limit offset)"
| "client_service T rid Rag_Health = answered Reply_Health (client_health T rid)"

section \<open>What a caller can rely on\<close>

text \<open>The replies that the docstrings of the port allow for each call.\<close>

definition allowed_reply :: "rag_call \<Rightarrow> rag_reply \<Rightarrow> bool" where
  "allowed_reply c r = (case r of
       Reply_Unavailable status code \<Rightarrow> code \<noteq> None \<and> (\<forall>s \<in> set_option status. s \<in> set OUTAGE_STATUSES \<or> c = Rag_Health)
     | Reply_Http_Error status code details \<Rightarrow> status \<notin> set OUTAGE_STATUSES
     | Reply_Card fc \<Rightarrow> rc_status fc \<noteq> [] \<and>
         (case c of Register_Document _ _ \<Rightarrow> True | Register_Image _ _ \<Rightarrow> True | Rekey _ _ _ \<Rightarrow> True
          | Get_File _ _ \<Rightarrow> True | _ \<Rightarrow> False)
     | Reply_Deleted \<Rightarrow> (case c of Delete_Vectors _ _ \<Rightarrow> True | _ \<Rightarrow> False)
     | Reply_Hits hs \<Rightarrow> (case c of Search_Images _ _ _ _ \<Rightarrow> True | _ \<Rightarrow> False)
     | Reply_Health b \<Rightarrow> b \<and> c = Rag_Health
     | Reply_Crash \<Rightarrow> False)"

lemmas client_calls = client_register_def client_get_file_def client_rekey_def
  client_delete_vectors_def client_search_images_def client_health_def

lemmas reply_simps = answered_def failed_def allowed_reply_def unreadable_def

lemma via_send:
  assumes "\<And>r. T r \<noteq> Http_Crash"
    and "\<And>status reply. status \<notin> set OUTAGE_STATUSES \<Longrightarrow> allowed_reply c (answered F (k status reply))"
  shows "allowed_reply c (answered F
    (case client_send T rid meth path user body oks of
       Inl e \<Rightarrow> Inl e | Inr (status, reply) \<Rightarrow> k status reply))"
proof (cases "T \<lparr>rq_method = meth, rq_path = path, rq_headers = rag_headers rid user, rq_body = body\<rparr>")
  case (Http_Response status reply)
  then show ?thesis
    using assms(2) by (auto simp: client_send_def reply_simps)
next
  case Http_Crash
  then show ?thesis using assms(1) by blast
qed (auto simp: client_send_def reply_simps)

lemma parse_file_card_allowed:
  assumes "status \<notin> set OUTAGE_STATUSES" and "\<And>fc. rc_status fc \<noteq> [] \<Longrightarrow> allowed_reply c (Reply_Card fc)"
  shows "allowed_reply c (answered Reply_Card (parse_file_card status reply))"
  using assms(1)
  by (auto simp: parse_file_card_def answered_def failed_def unreadable_def split: option.split
      intro!: assms(2)) (auto simp: allowed_reply_def)


text \<open>A transport that knows one file, and says 503 to everything else.\<close>

definition sample_transport :: transport where
  "sample_transport r =
     (if rq_path r = ''/api/files/'' @ uuid_str 7
      then Http_Response 200 (Some (J_Object [(''file_id'', J_Str (uuid_str 7)), (''status'', J_Str ''ready'')]))
      else Http_Response 503 None)"


text \<open>How a service writes a card down, and that the client reads the same card back.\<close>

definition nullable :: "('a \<Rightarrow> json) \<Rightarrow> 'a option \<Rightarrow> json" where
  "nullable f x = (case x of None \<Rightarrow> J_Null | Some v \<Rightarrow> f v)"

definition card_json :: "rag_file_card \<Rightarrow> json" where
  "card_json c = J_Object [(''file_id'', J_Str (uuid_str (rc_file_id c))), (''status'', J_Str (rc_status c)),
     (''error'', nullable J_Str (rc_error c)), (''content_type'', nullable J_Str (rc_content_type c)),
     (''file_name'', nullable J_Str (rc_file_name c)), (''file_size'', nullable J_Int (rc_file_size c)),
     (''page_count'', nullable J_Int (rc_page_count c))]"

lemma optional_nullable [simp]:
  "optional_str (nullable J_Str x) = Some x" "optional_int (nullable J_Int n) = Some n"
  by (simp_all add: optional_str_def optional_int_def nullable_def split: option.split)

text \<open>
  A file card that the service sends as JSON is the card the client returns, whatever its
  optional fields; a card with an empty status is refused as unreadable.
\<close>

lemma card_roundtrip:
  "parse_file_card status (Some (card_json c)) =
     (if rc_status c = [] then Inl (Rag_Http status None []) else Inr c)"
  by (simp add: parse_file_card_def card_json_def require_uuid_def parse_uuid_str unreadable_def)

end
