(* ===== verification/FileRepo.thy ===== *)
theory FileRepo
  imports LinkRepo
begin

text \<open>
  \<open>FileRepository\<close> (\<open>infrastructure/database/repositories/file_repo.py\<close>): the table of file records.
  A select without an order delivers the rows in the order of the table. A flush checks the
  column types of \<open>models.py\<close>, the primary key and the foreign keys; when it fails the session
  is unusable. \<open>relative_path.startswith(p)\<close> is SQL's \<open>LIKE p || '%'\<close>, in which the percent sign
  and the underscore of \<open>p\<close> itself are wildcards too.
\<close>

section \<open>\<open>LIKE\<close>\<close>

text \<open>PostgreSQL's \<open>LIKE\<close>, with its default escape character, the backslash.\<close>

fun sql_like :: "string \<Rightarrow> string \<Rightarrow> bool" where
  "sql_like [] s = (s = [])"
| "sql_like (c # p) s =
     (if c = CHR ''%'' then list_ex (\<lambda>k. sql_like p (drop k s)) [0..<Suc (length s)]
      else if c = CHR 0x5C then
        (case p of [] \<Rightarrow> False
         | d # p' \<Rightarrow> (case s of [] \<Rightarrow> False | x # s' \<Rightarrow> x = d \<and> sql_like p' s'))
      else (case s of [] \<Rightarrow> False
        | x # s' \<Rightarrow> (c = CHR ''_'' \<or> x = c) \<and> sql_like p s'))"

definition sql_startswith :: "string \<Rightarrow> string \<Rightarrow> bool" where
  "sql_startswith column prefix = sql_like (prefix @ ''%'') column"

definition no_wildcard :: "string \<Rightarrow> bool" where
  "no_wildcard s \<longleftrightarrow> CHR ''%'' \<notin> set s \<and> CHR ''_'' \<notin> set s \<and> CHR 0x5C \<notin> set s"

lemma sql_like_any: "sql_like ''%'' s"
  by (auto simp: list_ex_iff intro!: bexI [of _ "length s"])

lemma sql_startswith_exact: "no_wildcard p \<Longrightarrow> sql_startswith s p \<longleftrightarrow> starts_with s p"
proof (induction p arbitrary: s)
  case Nil
  show ?case by (simp add: sql_startswith_def sql_like_any starts_with_def del: sql_like.simps)
next
  case (Cons c p)
  then have c: "c \<noteq> CHR ''%''" "c \<noteq> CHR ''_''" "c \<noteq> CHR 0x5C" and p: "no_wildcard p"
    by (auto simp: no_wildcard_def)
  show ?case
  proof (cases s)
    case Nil
    with c show ?thesis by (simp add: sql_startswith_def starts_with_def)
  next
    case (Cons x s')
    with c Cons.IH [OF p, of s'] show ?thesis
      by (auto simp: sql_startswith_def starts_with_def)
  qed
qed

lemma sql_startswith_prefix: "CHR 0x5C \<notin> set p \<Longrightarrow> sql_startswith (p @ s) p"
proof (induction p)
  case Nil
  show ?case by (simp add: sql_startswith_def sql_like_any del: sql_like.simps)
next
  case (Cons c p)
  then have IH: "sql_like (p @ ''%'') (p @ s)" and c: "c \<noteq> CHR 0x5C"
    by (auto simp add: sql_startswith_def simp del: sql_like.simps)
  show ?case
  proof (cases "c = CHR ''%''")
    case True
    have "\<exists>k \<in> set [0..<Suc (length ((c # p) @ s))]. sql_like (p @ ''%'') (drop k ((c # p) @ s))"
      by (rule bexI [of _ 1]) (use IH in \<open>simp_all del: sql_like.simps upt_Suc\<close>)
    with True show ?thesis by (simp add: sql_startswith_def list_ex_iff del: upt_Suc)
  next
    case False
    with IH c show ?thesis by (simp add: sql_startswith_def)
  qed
qed

section \<open>Table and constraints\<close>

definition get_file :: "uuid \<Rightarrow> world \<Rightarrow> file_record option" where
  "get_file f w = find (\<lambda>r. fr_id r = f) (files w)"

definition replace_file :: "file_record \<Rightarrow> file_record list \<Rightarrow> file_record list" where
  "replace_file r rs = map (\<lambda>x. if fr_id x = fr_id r then r else x) rs"

definition big_int :: "int \<Rightarrow> bool" where
  "big_int n \<longleftrightarrow> - (2 ^ 63) \<le> n \<and> n < 2 ^ 63"

text \<open>\<open>String(n)\<close> and \<open>BigInteger\<close> columns refuse what does not fit.\<close>

definition row_fits :: "file_record \<Rightarrow> bool" where
  "row_fits r \<longleftrightarrow> length (fr_disk_id r) \<le> 64 \<and> length (fr_original_name r) \<le> 512 \<and>
     length (fr_mime_type r) \<le> 255 \<and> big_int (fr_size_bytes r) \<and>
     (case fr_checksum_sha256 r of None \<Rightarrow> True | Some h \<Rightarrow> length h \<le> 64)"

definition insert_file :: "file_record \<Rightarrow> unit action" where
  "insert_file r = (\<lambda>w.
     if broken w then (Inl Pending_Rollback, w)
     else if \<not> row_fits r then (Inl Other_Error, w\<lparr>broken := True\<rparr>)
     else if fr_id r \<in> fr_id ` set (files w) then (Inl (Integrity_Error True), w\<lparr>broken := True\<rparr>)
     else if fr_user_id r \<notin> ur_id ` set (users w) then (Inl (Integrity_Error False), w\<lparr>broken := True\<rparr>)
     else (Inr (), w\<lparr>files := files w @ [r]\<rparr>))"

definition flush_file :: "file_record \<Rightarrow> unit action" where
  "flush_file r = (\<lambda>w.
     if broken w then (Inl Pending_Rollback, w)
     else if \<not> row_fits r then (Inl Other_Error, w\<lparr>broken := True\<rparr>)
     else (Inr (), w\<lparr>files := replace_file r (files w)\<rparr>))"

text \<open>\<open>flush\<close> after the loop over several changed rows.\<close>

definition flush_files :: "(file_record \<Rightarrow> bool) \<Rightarrow> (file_record \<Rightarrow> file_record) \<Rightarrow> int action" where
  "flush_files sel upd = (\<lambda>w.
     if broken w then (Inl Pending_Rollback, w)
     else let rs = map (\<lambda>r. if sel r then upd r else r) (files w)
       in if \<forall>r \<in> set (files w). sel r \<longrightarrow> row_fits (upd r)
          then (Inr (int (length (filter sel (files w)))), w\<lparr>files := rs\<rparr>)
          else (Inl Other_Error, w\<lparr>broken := True\<rparr>))"

text \<open>\<open>ON DELETE SET NULL\<close> of \<open>file_index_links.file_record_id\<close>.\<close>

definition delete_row :: "uuid \<Rightarrow> unit action" where
  "delete_row f = execute (\<lambda>w. w\<lparr>files := filter (\<lambda>r. fr_id r \<noteq> f) (files w),
     links := map (\<lambda>l. if il_file_record_id l = Some f then l\<lparr>il_file_record_id := None\<rparr> else l)
       (links w)\<rparr>)"

definition some_file :: "(file_record \<Rightarrow> bool) \<Rightarrow> file_record option action" where
  "some_file P = bind (query (\<lambda>w. filter P (files w))) one_or_none"

definition all_files :: "(file_record \<Rightarrow> bool) \<Rightarrow> file_record list action" where
  "all_files P = query (\<lambda>w. filter P (files w))"

text \<open>Load, change, flush.\<close>

definition change_file ::
  "uuid \<Rightarrow> (file_record \<Rightarrow> file_record) \<Rightarrow> file_record option action" where
  "change_file f upd =
     bind (query (get_file f)) (\<lambda>found. case found of
       None \<Rightarrow> ret None
     | Some r \<Rightarrow> bind (flush_file (upd r)) (\<lambda>_. ret (Some (upd r))))"

definition is_active :: "file_record \<Rightarrow> bool" where
  "is_active r \<longleftrightarrow> fr_status r \<in> {S_COMMITTED, S_ARCHIVED}"

section \<open>Operations\<close>

definition create_file ::
  "env \<Rightarrow> uuid \<Rightarrow> string \<Rightarrow> string \<Rightarrow> string \<Rightarrow> int \<Rightarrow> string \<Rightarrow> bool \<Rightarrow> file_section \<Rightarrow> file_status \<Rightarrow>
    file_record action" where
  "create_file E u disk_id path name n mime encrypted sec st =
     bind (new_uuid E) (\<lambda>i.
     bind (utc_now E) (\<lambda>t.
     let r = \<lparr>fr_id = i, fr_user_id = u, fr_disk_id = disk_id, fr_relative_path = path,
              fr_original_name = name, fr_size_bytes = n, fr_mime_type = mime,
              fr_is_encrypted = encrypted, fr_section = sec, fr_status = st,
              fr_checksum_sha256 = None, fr_created_at = t, fr_last_accessed_at = t,
              fr_is_archived = False, fr_archive_path = None\<rparr>
     in bind (insert_file r) (\<lambda>_. ret r)))"

definition get_by_id :: "uuid \<Rightarrow> file_record option action" where
  "get_by_id f = query (get_file f)"

definition update_status ::
  "uuid \<Rightarrow> file_status \<Rightarrow> string option \<Rightarrow> string option \<Rightarrow> string option \<Rightarrow> file_record option action" where
  "update_status f st checksum path name =
     change_file f (\<lambda>r. r\<lparr>fr_status := st,
       fr_checksum_sha256 := (case checksum of None \<Rightarrow> fr_checksum_sha256 r | Some c \<Rightarrow> Some c),
       fr_relative_path := (case path of None \<Rightarrow> fr_relative_path r | Some p \<Rightarrow> p),
       fr_original_name := (case name of None \<Rightarrow> fr_original_name r | Some n \<Rightarrow> n)\<rparr>)"

definition update_size :: "uuid \<Rightarrow> int \<Rightarrow> string option \<Rightarrow> file_record option action" where
  "update_size f n checksum =
     change_file f (\<lambda>r. r\<lparr>fr_size_bytes := n,
       fr_checksum_sha256 := (case checksum of None \<Rightarrow> fr_checksum_sha256 r | Some c \<Rightarrow> Some c)\<rparr>)"

definition get_committed_by_relative_path ::
  "uuid \<Rightarrow> string \<Rightarrow> file_section \<Rightarrow> file_record option action" where
  "get_committed_by_relative_path u path sec =
     some_file (\<lambda>r. fr_user_id r = u \<and> fr_relative_path r = path \<and> fr_section r = sec \<and>
       fr_status r = S_COMMITTED)"

definition get_downloadable_by_relative_path ::
  "uuid \<Rightarrow> string \<Rightarrow> file_section \<Rightarrow> file_record option action" where
  "get_downloadable_by_relative_path u path sec =
     some_file (\<lambda>r. fr_user_id r = u \<and> fr_relative_path r = path \<and> fr_section r = sec \<and> is_active r)"

definition get_downloadable_by_relative_path_in_section ::
  "string \<Rightarrow> file_section \<Rightarrow> file_record option action" where
  "get_downloadable_by_relative_path_in_section path sec =
     some_file (\<lambda>r. fr_relative_path r = path \<and> fr_section r = sec \<and> is_active r)"

definition is_direct_child :: "string \<Rightarrow> string \<Rightarrow> bool" where
  "is_direct_child path parent_prefix =
     (let child_prefix = rstrip_by (\<lambda>c. c = CHR ''/'') parent_prefix @ ''/'' in
      if \<not> starts_with path child_prefix then False
      else let suffix = drop (length child_prefix) path in suffix \<noteq> [] \<and> CHR ''/'' \<notin> set suffix)"

definition list_archived_direct_children ::
  "file_section \<Rightarrow> string \<Rightarrow> uuid option \<Rightarrow> file_record list action" where
  "list_archived_direct_children sec parent u =
     bind (all_files (\<lambda>r. fr_section r = sec \<and> fr_status r = S_ARCHIVED \<and> fr_is_archived r \<and>
         (u = None \<or> u = Some (fr_user_id r))))
       (\<lambda>rs. ret (filter (\<lambda>r. is_direct_child (fr_relative_path r)
          (rstrip_by (\<lambda>c. c = CHR ''/'') parent)) rs))"

text \<open>The join with the users; the last row of a path wins in the dictionary.\<close>

definition get_uploaders_by_relative_paths_in_section ::
  "string list \<Rightarrow> file_section \<Rightarrow> (string \<Rightarrow> string option) action" where
  "get_uploaders_by_relative_paths_in_section paths sec =
     (if paths = [] then ret (\<lambda>_. None)
      else query (\<lambda>w. map_of (rev (concat (map (\<lambda>r. map (\<lambda>u. (fr_relative_path r, ur_email u))
          (filter (\<lambda>u. ur_id u = fr_user_id r) (users w)))
        (filter (\<lambda>r. fr_relative_path r \<in> set paths \<and> fr_section r = sec \<and> fr_status r = S_COMMITTED)
          (files w)))))))"

definition get_committed_by_relative_path_in_section ::
  "string \<Rightarrow> file_section \<Rightarrow> file_record option action" where
  "get_committed_by_relative_path_in_section path sec =
     some_file (\<lambda>r. fr_relative_path r = path \<and> fr_section r = sec \<and> fr_status r = S_COMMITTED)"

definition list_by_section :: "file_section \<Rightarrow> nat option \<Rightarrow> file_record list action" where
  "list_by_section sec limit =
     bind (all_files (\<lambda>r. fr_section r = sec \<and> fr_status r = S_COMMITTED))
       (\<lambda>rs. ret (case limit of None \<Rightarrow> rs | Some n \<Rightarrow> take n rs))"

definition list_by_user_section :: "uuid \<Rightarrow> file_section \<Rightarrow> file_record list action" where
  "list_by_user_section u sec =
     all_files (\<lambda>r. fr_user_id r = u \<and> fr_section r = sec \<and> fr_status r = S_COMMITTED)"

definition list_all_by_user :: "uuid \<Rightarrow> file_record list action" where
  "list_all_by_user u = all_files (\<lambda>r. fr_user_id r = u)"

definition count_by_user_section :: "uuid \<Rightarrow> file_section \<Rightarrow> int action" where
  "count_by_user_section u sec =
     bind (list_by_user_section u sec) (\<lambda>rs. ret (int (length rs)))"

definition list_by_user_section_paginated ::
  "uuid \<Rightarrow> file_section \<Rightarrow> nat \<Rightarrow> nat \<Rightarrow> file_record list action" where
  "list_by_user_section_paginated u sec offset limit =
     bind (list_by_user_section u sec)
       (\<lambda>rs. ret (take limit (drop offset (sort_key (\<lambda>r. - fr_created_at r) rs))))"

definition new_prefix_path :: "string \<Rightarrow> string \<Rightarrow> file_record \<Rightarrow> file_record" where
  "new_prefix_path old_prefix new_prefix r =
     r\<lparr>fr_relative_path := new_prefix @ drop (length old_prefix) (fr_relative_path r)\<rparr>"

definition update_relative_path_prefix ::
  "uuid \<Rightarrow> file_section \<Rightarrow> string \<Rightarrow> string \<Rightarrow> int action" where
  "update_relative_path_prefix u sec old_prefix new_prefix =
     flush_files (\<lambda>r. fr_user_id r = u \<and> fr_section r = sec \<and> fr_status r = S_COMMITTED \<and>
         sql_startswith (fr_relative_path r) (old_prefix @ ''/''))
       (new_prefix_path old_prefix new_prefix)"

definition list_active_under_prefix ::
  "uuid \<Rightarrow> file_section \<Rightarrow> string \<Rightarrow> file_record list action" where
  "list_active_under_prefix u sec prefix =
     all_files (\<lambda>r. fr_user_id r = u \<and> fr_section r = sec \<and> is_active r \<and>
       sql_startswith (fr_relative_path r) (rstrip_by (\<lambda>c. c = CHR ''/'') prefix @ ''/''))"

definition update_relative_path_prefix_in_section ::
  "file_section \<Rightarrow> string \<Rightarrow> string \<Rightarrow> int action" where
  "update_relative_path_prefix_in_section sec old_prefix new_prefix =
     flush_files (\<lambda>r. fr_section r = sec \<and> fr_status r = S_COMMITTED \<and>
         sql_startswith (fr_relative_path r) (old_prefix @ ''/''))
       (new_prefix_path old_prefix new_prefix)"

text \<open>What both heal methods do with the selected rows.\<close>

definition heal_single :: "string \<Rightarrow> file_record list \<Rightarrow> file_record option action" where
  "heal_single correct_path models =
     (case models of
        [r] \<Rightarrow> if fr_relative_path r = correct_path then ret (Some r)
               else change_file (fr_id r) (\<lambda>r. r\<lparr>fr_relative_path := correct_path\<rparr>)
      | _ \<Rightarrow> ret None)"

definition heal_stale_relative_path ::
  "uuid \<Rightarrow> file_section \<Rightarrow> string \<Rightarrow> string \<Rightarrow> file_record option action" where
  "heal_stale_relative_path u sec correct_path name =
     bind (all_files (\<lambda>r. fr_user_id r = u \<and> fr_section r = sec \<and> fr_status r = S_COMMITTED \<and>
       fr_original_name r = name)) (heal_single correct_path)"

definition heal_stale_relative_path_in_section ::
  "file_section \<Rightarrow> string \<Rightarrow> string \<Rightarrow> file_record option action" where
  "heal_stale_relative_path_in_section sec correct_path name =
     bind (all_files (\<lambda>r. fr_section r = sec \<and> fr_status r = S_COMMITTED \<and>
       fr_original_name r = name)) (heal_single correct_path)"

definition delete_all_by_user_section :: "uuid \<Rightarrow> file_section \<Rightarrow> int action" where
  "delete_all_by_user_section u sec =
     flush_files (\<lambda>r. fr_user_id r = u \<and> fr_section r = sec \<and> fr_status r = S_COMMITTED)
       (\<lambda>r. r\<lparr>fr_status := S_DELETED\<rparr>)"

definition list_candidates_for_archive :: "instant \<Rightarrow> file_record list action" where
  "list_candidates_for_archive cutoff =
     all_files (\<lambda>r. fr_last_accessed_at r < cutoff \<and> fr_status r = S_COMMITTED \<and> \<not> fr_is_archived r)"

definition list_archived_records :: "file_record list action" where
  "list_archived_records = all_files (\<lambda>r. fr_is_archived r \<and> fr_status r = S_ARCHIVED)"

definition mark_file_archived :: "uuid \<Rightarrow> string \<Rightarrow> file_record option action" where
  "mark_file_archived f archive_path =
     change_file f (\<lambda>r. r\<lparr>fr_is_archived := True, fr_status := S_ARCHIVED,
       fr_archive_path := Some archive_path\<rparr>)"

definition touch_last_accessed :: "env \<Rightarrow> uuid \<Rightarrow> unit action" where
  "touch_last_accessed E f =
     bind (query (get_file f)) (\<lambda>found. case found of
       None \<Rightarrow> ret ()
     | Some r \<Rightarrow> bind (utc_now E) (\<lambda>t. flush_file (r\<lparr>fr_last_accessed_at := t\<rparr>)))"

definition delete_record :: "uuid \<Rightarrow> file_record option action" where
  "delete_record f = change_file f (\<lambda>r. r\<lparr>fr_status := S_DELETED\<rparr>)"

definition list_stale_pending :: "instant \<Rightarrow> file_record list action" where
  "list_stale_pending cutoff =
     all_files (\<lambda>r. fr_status r = S_PENDING \<and> fr_created_at r < cutoff)"

definition hard_delete :: "uuid \<Rightarrow> bool action" where
  "hard_delete f =
     bind (query (get_file f)) (\<lambda>found. case found of
       None \<Rightarrow> ret False
     | Some r \<Rightarrow> bind (delete_row f) (\<lambda>_. ret True))"

definition sum_committed_bytes_by_user :: "uuid \<Rightarrow> int action" where
  "sum_committed_bytes_by_user u =
     bind (all_files (\<lambda>r. fr_user_id r = u \<and> fr_status r = S_COMMITTED))
       (\<lambda>rs. ret (sum_list (map fr_size_bytes rs)))"

definition list_distinct_user_ids_with_committed :: "uuid list action" where
  "list_distinct_user_ids_with_committed =
     bind (all_files (\<lambda>r. fr_status r = S_COMMITTED)) (\<lambda>rs. ret (fromkeys (map fr_user_id rs)))"

end
