(* ===== verification/QuotaRepo.thy ===== *)
theory QuotaRepo
  imports FileRepo
begin

text \<open>
  \<open>QuotaRepository\<close> (\<open>infrastructure/database/repositories/quota_repo.py\<close>): one row of byte counters
  per user, created on first use. An \<open>UPDATE ... RETURNING\<close> fails when a counter leaves the range
  of \<open>BigInteger\<close>; the transaction is then unusable.
\<close>

section \<open>Table and constraints\<close>

definition get_quota :: "uuid \<Rightarrow> world \<Rightarrow> quota_usage option" where
  "get_quota u w = find (\<lambda>q. qu_user_id q = u) (quotas w)"

definition quota_fits :: "quota_usage \<Rightarrow> bool" where
  "quota_fits q \<longleftrightarrow> big_int (qu_total_bytes q) \<and> big_int (qu_limit_bytes q) \<and>
     big_int (qu_private_bytes q) \<and> big_int (qu_private_limit_bytes q) \<and> big_int (qu_photos_bytes q)"

definition insert_quota :: "quota_usage \<Rightarrow> unit action" where
  "insert_quota q = (\<lambda>w.
     if broken w then (Inl Pending_Rollback, w)
     else if \<not> quota_fits q then (Inl Other_Error, w\<lparr>broken := True\<rparr>)
     else if get_quota (qu_user_id q) w \<noteq> None then (Inl (Integrity_Error True), w\<lparr>broken := True\<rparr>)
     else if qu_user_id q \<notin> ur_id ` set (users w) then (Inl (Integrity_Error False), w\<lparr>broken := True\<rparr>)
     else (Inr (), w\<lparr>quotas := quotas w @ [q]\<rparr>))"

text \<open>\<open>UPDATE ... WHERE user_id = u RETURNING\<close>, with \<open>scalar_one()\<close>.\<close>

definition update_quota :: "uuid \<Rightarrow> (quota_usage \<Rightarrow> quota_usage) \<Rightarrow> quota_usage action" where
  "update_quota u upd = (\<lambda>w.
     if broken w then (Inl Pending_Rollback, w)
     else case get_quota u w of
       None \<Rightarrow> (Inl Other_Error, w)
     | Some q \<Rightarrow>
         if \<not> quota_fits (upd q) then (Inl Other_Error, w\<lparr>broken := True\<rparr>)
         else (Inr (upd q), w\<lparr>quotas := map (\<lambda>x. if qu_user_id x = u then upd q else x) (quotas w)\<rparr>))"

section \<open>Operations\<close>

definition get_by_user_id :: "env \<Rightarrow> uuid \<Rightarrow> quota_usage action" where
  "get_by_user_id E u =
     bind (query (get_quota u)) (\<lambda>found. case found of
       Some q \<Rightarrow> ret q
     | None \<Rightarrow>
         let q = \<lparr>qu_user_id = u, qu_total_bytes = 0, qu_limit_bytes = default_user_quota_bytes E,
                  qu_private_bytes = 0, qu_private_limit_bytes = 0, qu_photos_bytes = 0\<rparr>
         in bind (insert_quota q) (\<lambda>_. ret q))"

definition increment :: "env \<Rightarrow> uuid \<Rightarrow> int \<Rightarrow> file_section \<Rightarrow> quota_usage action" where
  "increment E u n sec =
     bind (get_by_user_id E u) (\<lambda>_.
     update_quota u (\<lambda>q. q\<lparr>qu_total_bytes := qu_total_bytes q + n,
       qu_private_bytes := (if sec = PRIVATE then qu_private_bytes q + n else qu_private_bytes q),
       qu_photos_bytes := (if sec = PHOTOS then qu_photos_bytes q + n else qu_photos_bytes q)\<rparr>))"

definition decrement :: "env \<Rightarrow> uuid \<Rightarrow> int \<Rightarrow> file_section \<Rightarrow> quota_usage action" where
  "decrement E u n sec =
     bind (get_by_user_id E u) (\<lambda>_.
     update_quota u (\<lambda>q. q\<lparr>qu_total_bytes := qu_total_bytes q - n,
       qu_private_bytes := (if sec = PRIVATE then qu_private_bytes q - n else qu_private_bytes q),
       qu_photos_bytes := (if sec = PHOTOS then qu_photos_bytes q - n else qu_photos_bytes q)\<rparr>))"

definition reset_private_usage :: "env \<Rightarrow> uuid \<Rightarrow> quota_usage action" where
  "reset_private_usage E u =
     bind (get_by_user_id E u) (\<lambda>usage.
     let private_bytes = qu_private_bytes usage in
     if private_bytes = 0 then ret usage
     else update_quota u (\<lambda>q. q\<lparr>qu_total_bytes := qu_total_bytes q - private_bytes,
            qu_private_bytes := 0\<rparr>))"

definition update_limit :: "env \<Rightarrow> uuid \<Rightarrow> int \<Rightarrow> quota_usage action" where
  "update_limit E u n =
     bind (get_by_user_id E u) (\<lambda>_. update_quota u (\<lambda>q. q\<lparr>qu_limit_bytes := n\<rparr>))"

definition update_private_limit :: "env \<Rightarrow> uuid \<Rightarrow> int \<Rightarrow> quota_usage action" where
  "update_private_limit E u n =
     bind (get_by_user_id E u) (\<lambda>_. update_quota u (\<lambda>q. q\<lparr>qu_private_limit_bytes := n\<rparr>))"

definition update_total_bytes :: "env \<Rightarrow> uuid \<Rightarrow> int \<Rightarrow> quota_usage action" where
  "update_total_bytes E u n =
     bind (get_by_user_id E u) (\<lambda>_. update_quota u (\<lambda>q. q\<lparr>qu_total_bytes := n\<rparr>))"

definition list_all_user_ids :: "uuid list action" where
  "list_all_user_ids = query (\<lambda>w. map qu_user_id (quotas w))"

section \<open>Counters\<close>

text \<open>The counters of a user; without a row they are zero.\<close>

definition charged :: "uuid \<Rightarrow> world \<Rightarrow> int" where
  "charged u w = (case get_quota u w of None \<Rightarrow> 0 | Some q \<Rightarrow> qu_total_bytes q)"

definition quota_table_ok :: "world \<Rightarrow> bool" where
  "quota_table_ok w \<longleftrightarrow> distinct (map qu_user_id (quotas w))"

end
