(* ===== verification/FileService.thy ===== *)
theory FileService
  imports QuotaRepo IndexServices S3Adapter
begin

text \<open>
  \<open>FileService\<close> (\<open>application/file_service.py\<close>) with \<open>archived_file_reader.py\<close>: uploads, overwrites,
  downloads, renames and deletions of one section of the storage, for one storage adapter, with
  the records, the quota and the index queue that go with them. A stream that the code yields
  is modelled as read to its end, so that what follows the last chunk happens. Guessing a MIME
  type, reading and writing ZIP archives and \<open>zstd\<close> are parameters.
\<close>

section \<open>The service\<close>

text \<open>
  \<open>fs_decrypt\<close> is \<open>read_encrypted_blob\<close> of the adapter when it is an \<open>EncryptedStorageAdapter\<close>.
  The repositories are those of the open session.
\<close>

record file_service =
  fs_env :: env
  fs_adapter :: storage
  fs_section :: file_section
  fs_archive_manager :: bool
  fs_index :: "link_port option"
  fs_decrypt :: "(bytes \<Rightarrow> bytes action) option"

definition DEFAULT_MIME_TYPE :: string where "DEFAULT_MIME_TYPE = ''application/octet-stream''"
definition TMP_DIR :: string where "TMP_DIR = ''.tmp''"
definition ARCHIVE_EXTENSION :: string where "ARCHIVE_EXTENSION = ''.zst''"

definition normalize_path :: "string \<Rightarrow> string" where
  "normalize_path path = strip_slash (backslash_to_slash (strip path))"

definition join_path :: "string \<Rightarrow> string \<Rightarrow> string" where
  "join_path directory name = (if directory \<noteq> [] then directory @ CHR ''/'' # name else name)"

definition mime_type_of :: "env \<Rightarrow> string \<Rightarrow> string" where
  "mime_type_of E name = or_else (guess_mime_type E name) DEFAULT_MIME_TYPE"

definition to_disk :: "file_service \<Rightarrow> string \<Rightarrow> string action" where
  "to_disk S path = lift (to_disk_relative_path (fs_adapter S) path)"

definition to_section_path :: "file_service \<Rightarrow> file_record \<Rightarrow> string" where
  "to_section_path S r =
     (let prefix = st_root_prefix (fs_adapter S) @ ''/'' in
      if starts_with (fr_relative_path r) prefix then drop (length prefix) (fr_relative_path r)
      else path_name (fr_relative_path r))"

text \<open>\<open>PurePosixPath(p).parent\<close> as a section path; the empty string at the top.\<close>

definition parent_of :: "string \<Rightarrow> string" where
  "parent_of p = (let d = path_parent p in if d \<in> {''.'', []} then [] else d)"

section \<open>Archived objects\<close>

definition stream_decompressed_archived ::
  "env \<Rightarrow> file_record \<Rightarrow> (bytes \<Rightarrow> bytes action) option \<Rightarrow> bytes action" where
  "stream_decompressed_archived E r decrypt = (case fr_archive_path r of
       None \<Rightarrow> raise Builtin_File_Not_Found
     | Some p \<Rightarrow>
         if p = [] then raise Builtin_File_Not_Found
         else
           bind (st_read (build_disk_root_adapter E (fr_disk_id r)) p) (\<lambda>packed.
           case zstd_decompress E packed of
             None \<Rightarrow> raise Other_Error
           | Some b \<Rightarrow>
               if fr_is_encrypted r then
                 (case decrypt of None \<Rightarrow> raise Value_Error | Some dec \<Rightarrow> dec b)
               else ret b))"

definition delete_archived_blob :: "env \<Rightarrow> file_record \<Rightarrow> unit action" where
  "delete_archived_blob E r = (case fr_archive_path r of
       None \<Rightarrow> ret ()
     | Some p \<Rightarrow>
         if p = [] then ret ()
         else
           let A = build_disk_root_adapter E (fr_disk_id r) in
           try_except
             (bind (st_exists A p) (\<lambda>found. if found then st_delete A p else ret ()))
             (\<lambda>e. if e = Storage_File_Not_Found then ret () else raise e))"

definition stream_archived :: "file_service \<Rightarrow> file_record \<Rightarrow> bytes action" where
  "stream_archived S r =
     (if \<not> fs_archive_manager S then raise Storage_File_Not_Found
      else stream_decompressed_archived (fs_env S) r (fs_decrypt S))"

section \<open>Records\<close>

definition get_downloadable_record :: "file_service \<Rightarrow> uuid \<Rightarrow> uuid \<Rightarrow> file_record action" where
  "get_downloadable_record S f actor =
     bind (get_by_id f) (\<lambda>found. case found of
       None \<Rightarrow> raise Storage_File_Not_Found
     | Some r \<Rightarrow>
         if fr_status r \<notin> {S_COMMITTED, S_ARCHIVED} then raise Storage_File_Not_Found
         else if fs_section S \<noteq> SHARED \<and> fr_user_id r \<noteq> actor then raise Access_Denied
         else ret r)"

definition get_committed_record :: "file_service \<Rightarrow> uuid \<Rightarrow> uuid \<Rightarrow> file_record action" where
  "get_committed_record S f actor =
     bind (get_downloadable_record S f actor) (\<lambda>r.
     if fr_status r \<noteq> S_COMMITTED then raise Storage_File_Not_Found else ret r)"

definition ensure_can_delete_record ::
  "file_service \<Rightarrow> file_record \<Rightarrow> uuid \<Rightarrow> role option \<Rightarrow> unit action" where
  "ensure_can_delete_record S r actor actor_role =
     (if fs_section S = SHARED then
        (if actor_role \<noteq> Some ADMIN \<and> fr_user_id r \<noteq> actor then raise Access_Denied else ret ())
      else if fr_user_id r \<noteq> actor then raise Access_Denied
      else ret ())"

definition get_record_by_section_path ::
  "file_service \<Rightarrow> uuid \<Rightarrow> string \<Rightarrow> file_section \<Rightarrow> file_record option action" where
  "get_record_by_section_path S u section_path sec =
     bind (to_disk S section_path) (\<lambda>disk_path.
     if sec = SHARED then
       bind (get_downloadable_by_relative_path_in_section disk_path sec) (\<lambda>found. case found of
         Some r \<Rightarrow> ret (Some r)
       | None \<Rightarrow> heal_stale_relative_path_in_section sec disk_path (path_name section_path))
     else
       bind (get_downloadable_by_relative_path u disk_path sec) (\<lambda>found. case found of
         Some r \<Rightarrow> ret (Some r)
       | None \<Rightarrow> heal_stale_relative_path u sec disk_path (path_name section_path)))"

text \<open>\<open>except FileNotFoundError\<close>, the exception of the domain layer.\<close>

definition is_directory :: "file_service \<Rightarrow> string \<Rightarrow> bool action" where
  "is_directory S path =
     try_except (bind (st_list (fs_adapter S) path) (\<lambda>_. ret True))
       (\<lambda>e. if e = Storage_File_Not_Found then ret False else raise e)"

section \<open>Upload and overwrite\<close>

text \<open>What the handlers of \<open>upload_file\<close> and \<open>overwrite_file\<close> do with the temporary object.\<close>

definition discard_tmp :: "file_service \<Rightarrow> string \<Rightarrow> unit action" where
  "discard_tmp S tmp =
     bind (st_exists (fs_adapter S) tmp) (\<lambda>found.
     if found then st_delete (fs_adapter S) tmp else ret ())"

text \<open>The bodies of the \<open>try\<close> blocks: the new object, its record, the quota and the queue.\<close>

definition store_upload ::
  "file_service \<Rightarrow> uuid \<Rightarrow> file_record \<Rightarrow> string \<Rightarrow> string \<Rightarrow> source \<Rightarrow> int \<Rightarrow> file_section \<Rightarrow> file_record action" where
  "store_upload S u r tmp final_path data n sec =
     bind (st_write (fs_adapter S) tmp data n) (\<lambda>checksum.
     bind (st_rename (fs_adapter S) tmp final_path) (\<lambda>_.
     bind (to_disk S final_path) (\<lambda>p.
     bind (update_status (fr_id r) S_COMMITTED (Some checksum) (Some p) None) (\<lambda>committed.
     case committed of
       None \<Rightarrow> raise Storage_File_Not_Found
     | Some c \<Rightarrow>
         bind (increment (fs_env S) u n sec) (\<lambda>_.
         bind (enqueue_upload (fs_env S) (fs_index S) c) (\<lambda>_. ret c))))))"

definition upload_file ::
  "file_service \<Rightarrow> uuid \<Rightarrow> string \<Rightarrow> string \<Rightarrow> source \<Rightarrow> int \<Rightarrow> file_section \<Rightarrow> file_record action" where
  "upload_file S u path filename data n sec =
     (let A = fs_adapter S; E = fs_env S;
          final_path = join_path (normalize_path path) filename in
      bind (to_disk S final_path) (\<lambda>disk_path.
      bind (create_file E u (st_disk_id A) disk_path filename n (mime_type_of E filename)
              (sec = PRIVATE) sec S_PENDING) (\<lambda>r.
      let tmp = join_path TMP_DIR (uuid_str (fr_id r)) in
      try_except (store_upload S u r tmp final_path data n sec)
        (\<lambda>e. bind (discard_tmp S tmp) (\<lambda>_. bind (delete_record (fr_id r)) (\<lambda>_. raise e))))))"

definition ensure_overwrite_quota :: "file_service \<Rightarrow> uuid \<Rightarrow> int \<Rightarrow> file_section \<Rightarrow> unit action" where
  "ensure_overwrite_quota S u extra sec =
     bind (get_by_user_id (fs_env S) u) (\<lambda>usage.
     let total = \<lparr>used_bytes = qu_total_bytes usage, limit_bytes = qu_limit_bytes usage\<rparr> in
     if would_exceed total extra then raise (Quota_Exceeded (Some (available_bytes total)))
     else if sec = PRIVATE then
       let private = \<lparr>used_bytes = qu_private_bytes usage, limit_bytes = qu_private_limit_bytes usage\<rparr> in
       if would_exceed private extra then raise (Quota_Exceeded (Some (available_bytes private)))
       else ret ()
     else ret ())"

definition store_overwrite ::
  "file_service \<Rightarrow> uuid \<Rightarrow> file_record \<Rightarrow> string \<Rightarrow> string \<Rightarrow> source \<Rightarrow> int \<Rightarrow> file_section \<Rightarrow> file_record action" where
  "store_overwrite S u r tmp final_path data n sec =
     (let A = fs_adapter S; E = fs_env S; delta = n - fr_size_bytes r in
      bind (st_write A tmp data n) (\<lambda>checksum.
      bind (st_exists A final_path) (\<lambda>found.
      bind (if found then st_delete A final_path else ret ()) (\<lambda>_.
      bind (st_rename A tmp final_path) (\<lambda>_.
      bind (update_size (fr_id r) n (Some checksum)) (\<lambda>updated.
      case updated of
        None \<Rightarrow> raise Storage_File_Not_Found
      | Some c \<Rightarrow>
          bind (if delta > 0 then bind (increment E u delta sec) (\<lambda>_. ret ())
                else if delta < 0 then bind (decrement E u (- delta) sec) (\<lambda>_. ret ())
                else ret ()) (\<lambda>_.
          bind (enqueue_content_changed E (fs_index S) c) (\<lambda>_. ret c))))))))"

definition overwrite_file ::
  "file_service \<Rightarrow> uuid \<Rightarrow> string \<Rightarrow> string \<Rightarrow> source \<Rightarrow> int \<Rightarrow> file_section \<Rightarrow> file_record action" where
  "overwrite_file S u path filename data n sec =
     (let final_path = join_path (normalize_path path) filename in
      bind (get_record_by_section_path S u final_path sec) (\<lambda>existing.
      case existing of
        None \<Rightarrow> upload_file S u path filename data n sec
      | Some r \<Rightarrow>
          let delta = n - fr_size_bytes r; tmp = join_path TMP_DIR (uuid_str (fr_id r)) in
          bind (if delta > 0 then ensure_overwrite_quota S u delta sec else ret ()) (\<lambda>_.
          try_except (store_overwrite S u r tmp final_path data n sec)
            (\<lambda>e. bind (discard_tmp S tmp) (\<lambda>_. raise e)))))"

section \<open>Reading\<close>

definition path_exists :: "file_service \<Rightarrow> string \<Rightarrow> bool action" where
  "path_exists S path = st_exists (fs_adapter S) (normalize_path path)"

definition readable_object_exists :: "file_service \<Rightarrow> uuid \<Rightarrow> string \<Rightarrow> bool action" where
  "readable_object_exists S actor path =
     (let normalized = normalize_path path in
      bind (get_record_by_section_path S actor normalized (fs_section S)) (\<lambda>found.
      if \<exists>r. found = Some r \<and> fr_is_archived r \<and> non_empty (fr_archive_path r) \<noteq> None then ret True
      else st_exists (fs_adapter S) normalized))"

definition download_file :: "file_service \<Rightarrow> uuid \<Rightarrow> uuid \<Rightarrow> bytes action" where
  "download_file S actor f =
     bind (get_downloadable_record S f actor) (\<lambda>r.
     bind (if fr_is_archived r then stream_archived S r
           else st_read (fs_adapter S) (to_section_path S r)) (\<lambda>b.
     bind (touch_last_accessed (fs_env S) f) (\<lambda>_. ret b)))"

definition read_by_path :: "file_service \<Rightarrow> uuid \<Rightarrow> string \<Rightarrow> bytes action" where
  "read_by_path S actor path =
     (let normalized = normalize_path path in
      bind (get_record_by_section_path S actor normalized (fs_section S)) (\<lambda>found.
      bind (if found = None \<and> ends_with normalized ARCHIVE_EXTENSION
            then get_record_by_section_path S actor
                   (take (length normalized - length ARCHIVE_EXTENSION) normalized) (fs_section S)
            else ret found) (\<lambda>record.
      case record of
        Some r \<Rightarrow>
          bind (if fr_is_archived r then stream_archived S r
                else st_read (fs_adapter S) normalized) (\<lambda>b.
          bind (touch_last_accessed (fs_env S) (fr_id r)) (\<lambda>_. ret b))
      | None \<Rightarrow> st_read (fs_adapter S) normalized)))"

section \<open>Deleting\<close>

definition delete_file :: "file_service \<Rightarrow> uuid \<Rightarrow> uuid \<Rightarrow> role option \<Rightarrow> unit action" where
  "delete_file S actor f actor_role =
     bind (get_downloadable_record S f actor) (\<lambda>r.
     bind (ensure_can_delete_record S r actor actor_role) (\<lambda>_.
     bind (if fr_is_archived r then delete_archived_blob (fs_env S) r
           else
             let section_path = to_section_path S r in
             bind (st_exists (fs_adapter S) section_path) (\<lambda>found.
             if found then st_delete (fs_adapter S) section_path else ret ())) (\<lambda>_.
     bind (delete_record f) (\<lambda>_.
     bind (decrement (fs_env S) (fr_user_id r) (fr_size_bytes r) (fr_section r)) (\<lambda>_.
     enqueue_removed (fs_env S) (fs_index S) [f])))))"

definition delete_directory_recursive :: "file_service \<Rightarrow> uuid \<Rightarrow> string \<Rightarrow> int action" where
  "delete_directory_recursive S u path =
     (let normalized = normalize_path path; A = fs_adapter S; E = fs_env S in
      if normalized = [] then raise Storage_File_Not_Found
      else
        bind (st_exists A normalized) (\<lambda>found.
        if \<not> found then raise Storage_File_Not_Found
        else
          bind (is_directory S normalized) (\<lambda>is_dir.
          if \<not> is_dir then raise Storage_File_Not_Found
          else
            bind (to_disk S normalized) (\<lambda>disk_prefix.
            bind (list_active_under_prefix u (fs_section S) disk_prefix) (\<lambda>records.
            let released = sum_list (map fr_size_bytes records) in
            bind (st_delete A normalized) (\<lambda>_.
            bind (for_each (\<lambda>r.
                bind (if fr_is_archived r then delete_archived_blob E r else ret ()) (\<lambda>_.
                bind (delete_record (fr_id r)) (\<lambda>_. ret ()))) records) (\<lambda>_.
            bind (if released \<noteq> 0 then bind (decrement E u released (fs_section S)) (\<lambda>_. ret ())
                  else ret ()) (\<lambda>_.
            bind (enqueue_removed E (fs_index S) (map fr_id records)) (\<lambda>_.
            ret released)))))))))"

definition delete_by_path :: "file_service \<Rightarrow> uuid \<Rightarrow> string \<Rightarrow> role option \<Rightarrow> unit action" where
  "delete_by_path S actor path actor_role =
     (let normalized = normalize_path path; A = fs_adapter S in
      bind (get_record_by_section_path S actor normalized (fs_section S)) (\<lambda>record.
      case record of
        Some r \<Rightarrow> delete_file S actor (fr_id r) actor_role
      | None \<Rightarrow>
          bind (st_exists A normalized) (\<lambda>found.
          if \<not> found then raise Storage_File_Not_Found
          else
            bind (is_directory S normalized) (\<lambda>is_dir.
            if is_dir \<and> fs_section S = FILES \<and> normalized \<noteq> [] then
              bind (delete_directory_recursive S actor normalized) (\<lambda>_. ret ())
            else st_delete A normalized))))"

section \<open>Directories and renaming\<close>

definition create_directory :: "file_service \<Rightarrow> string \<Rightarrow> string \<Rightarrow> unit action" where
  "create_directory S path name = st_mkdir (fs_adapter S) (join_path (normalize_path path) name)"

definition rename_record :: "file_service \<Rightarrow> uuid \<Rightarrow> uuid \<Rightarrow> string \<Rightarrow> file_record action" where
  "rename_record S actor f new_name =
     bind (get_downloadable_record S f actor) (\<lambda>r.
     if fr_is_archived r then raise Storage_File_Not_Found
     else
       let old_path = to_section_path S r;
           new_path = (if parent_of old_path = [] then new_name else parent_of old_path @ ''/'' @ new_name) in
       bind (st_rename (fs_adapter S) old_path new_path) (\<lambda>_.
       bind (to_disk S new_path) (\<lambda>p.
       bind (update_status (fr_id r) (fr_status r) None (Some p) (Some new_name)) (\<lambda>updated.
       case updated of
         None \<Rightarrow> raise Storage_File_Not_Found
       | Some c \<Rightarrow> bind (enqueue_rekey (fs_env S) (fs_index S) c) (\<lambda>_. ret c)))))"

definition enqueue_renamed_descendants :: "file_service \<Rightarrow> uuid \<Rightarrow> string \<Rightarrow> unit action" where
  "enqueue_renamed_descendants S u disk_prefix =
     (if \<not> index_enqueue_active (fs_env S) (fs_index S) then ret ()
      else
        bind (list_active_under_prefix u (fs_section S) disk_prefix) (\<lambda>descendants.
        enqueue_rekey_many (fs_env S) (fs_index S) descendants))"

definition rename_by_path :: "file_service \<Rightarrow> uuid \<Rightarrow> string \<Rightarrow> string \<Rightarrow> file_record option action" where
  "rename_by_path S u path new_name =
     (let normalized = normalize_path path; A = fs_adapter S in
      bind (st_exists A normalized) (\<lambda>found.
      if \<not> found then raise Storage_File_Not_Found
      else
        let new_path = (if parent_of normalized = [] then new_name
                        else parent_of normalized @ ''/'' @ new_name) in
        bind (is_directory S normalized) (\<lambda>is_dir.
        if is_dir then
          bind (to_disk S normalized) (\<lambda>old_prefix.
          bind (to_disk S new_path) (\<lambda>new_prefix.
          bind (st_rename A normalized new_path) (\<lambda>_.
          bind (if fs_section S = SHARED then
                  bind (update_relative_path_prefix_in_section (fs_section S) old_prefix new_prefix)
                    (\<lambda>_. ret ())
                else
                  bind (update_relative_path_prefix u (fs_section S) old_prefix new_prefix) (\<lambda>_.
                  enqueue_renamed_descendants S u new_prefix)) (\<lambda>_.
          ret None))))
        else
          bind (get_record_by_section_path S u normalized (fs_section S)) (\<lambda>record.
          case record of
            None \<Rightarrow> raise Storage_File_Not_Found
          | Some r \<Rightarrow> bind (rename_record S u (fr_id r) new_name) (\<lambda>c. ret (Some c))))))"

section \<open>Listing\<close>

definition archive_blob_name :: "file_record \<Rightarrow> string" where
  "archive_blob_name r = (case non_empty (fr_archive_path r) of
       Some p \<Rightarrow> path_name p
     | None \<Rightarrow> path_name (fr_relative_path r) @ ARCHIVE_EXTENSION)"

definition merge_archived_nodes ::
  "file_service \<Rightarrow> uuid \<Rightarrow> string \<Rightarrow> file_node list \<Rightarrow> file_node list action" where
  "merge_archived_nodes S u normalized nodes =
     bind (to_disk S normalized) (\<lambda>parent.
     bind (list_archived_direct_children (fs_section S) parent
             (if fs_section S = SHARED then None else Some u)) (\<lambda>archived.
     ret (filter (\<lambda>n. fn_is_dir n \<or> fn_name n \<notin> archive_blob_name ` set archived) nodes @
          map (\<lambda>r. \<lparr>fn_name = fr_original_name r, fn_is_dir = False, fn_size = fr_size_bytes r,
                     fn_modified_at = fr_last_accessed_at r, fn_uploaded_by = None\<rparr>) archived)))"

text \<open>The uploader of a shared file, looked up by its path on the disk.\<close>

definition enrich_node ::
  "file_service \<Rightarrow> string \<Rightarrow> (string \<Rightarrow> string option) \<Rightarrow> file_node \<Rightarrow> file_node action" where
  "enrich_node S normalized uploaders n =
     (if fn_is_dir n then ret n
      else bind (to_disk S (join_path normalized (fn_name n))) (\<lambda>p.
        ret (n\<lparr>fn_uploaded_by := uploaders p\<rparr>)))"

definition list_directory :: "file_service \<Rightarrow> uuid \<Rightarrow> string \<Rightarrow> file_node list action" where
  "list_directory S u path =
     (let normalized = normalize_path path in
      bind (st_list (fs_adapter S) normalized) (\<lambda>found.
      bind (merge_archived_nodes S u normalized found) (\<lambda>nodes.
      if fs_section S \<noteq> SHARED \<or> filter (\<lambda>n. \<not> fn_is_dir n) nodes = [] then ret nodes
      else
        bind (map_act (\<lambda>n. to_disk S (join_path normalized (fn_name n)))
                (filter (\<lambda>n. \<not> fn_is_dir n) nodes)) (\<lambda>paths.
        bind (get_uploaders_by_relative_paths_in_section paths SHARED) (\<lambda>uploaders.
        map_act (enrich_node S normalized uploaders) nodes)))))"

end
