(* ===== verification/FileZip.thy ===== *)
theory FileZip
  imports FileService
begin

text \<open>
  The ZIP operations of \<open>FileService\<close>: extracting an uploaded archive into a directory and
  streaming a directory as an archive. The ZIP format itself (\<open>zipfile\<close>) is outside: an uploaded
  archive is \<open>None\<close> when it cannot be opened and else the list of its entries, and \<open>zip_file\<close> of
  the environment turns names and contents into an archive.
\<close>

section \<open>Extracting\<close>

record zip_entry =
  ze_filename :: string
  ze_file_size :: int
  ze_data :: source

definition zip_is_dir :: "zip_entry \<Rightarrow> bool" where
  "zip_is_dir e = ends_with (ze_filename e) ''/''"

definition zip_target :: "string \<Rightarrow> zip_entry \<Rightarrow> exn + string \<times> string \<times> zip_entry" where
  "zip_target target_root e =
     (let raw_name = ze_filename e; clean = backslash_to_slash raw_name in
      if starts_with raw_name ''/'' \<or> starts_with raw_name [CHR 0x5C] then Inl Value_Error
      else if ''..'' \<in> set (path_parts clean) then Inl Value_Error
      else Inr (if zip_is_dir e
                then join_path target_root (rstrip_by (\<lambda>c. c = CHR ''/'') clean)
                else normalize_path (join_path target_root clean), clean, e))"

fun zip_targets :: "string \<Rightarrow> zip_entry list \<Rightarrow> exn + (string \<times> string \<times> zip_entry) list" where
  "zip_targets target_root [] = Inr []"
| "zip_targets target_root (e # es) = (case zip_target target_root e of
     Inl x \<Rightarrow> Inl x
   | Inr t \<Rightarrow> map_sum id (\<lambda>ts. t # ts) (zip_targets target_root es))"

record zip_stats =
  zs_files :: int
  zs_dirs :: "string list" \<comment> \<open>the set \<open>created_dirs\<close>\<close>
  zs_total_bytes :: int
  zs_errors :: int

fun zip_make_dirs :: "storage \<Rightarrow> (string \<times> string \<times> zip_entry) list \<Rightarrow> string list \<Rightarrow> string list action" where
  "zip_make_dirs A [] created = ret created"
| "zip_make_dirs A ((path, clean, e) # ts) created =
     (if zip_is_dir e \<and> path \<notin> set created
      then bind (st_mkdir A path) (\<lambda>_. zip_make_dirs A ts (path # created))
      else zip_make_dirs A ts created)"

text \<open>The parent directory of an entry, made unless it was made before.\<close>

definition zip_parent :: "storage \<Rightarrow> string \<Rightarrow> string list \<Rightarrow> string list action" where
  "zip_parent A path created =
     (let parent = parent_of path in
      if parent \<noteq> [] \<and> parent \<notin> set created
      then try_except (bind (st_mkdir A parent) (\<lambda>_. ret (parent # created)))
             (\<lambda>e. if e = File_Exists then ret created else raise e)
      else ret created)"

text \<open>The body of the inner \<open>try\<close>: whether the entry was stored.\<close>

definition zip_extract :: "file_service \<Rightarrow> uuid \<Rightarrow> string \<times> string \<times> zip_entry \<Rightarrow> bool action" where
  "zip_extract S u t = (case t of (path, clean, e) \<Rightarrow>
     let A = fs_adapter S; E = fs_env S; n = ze_file_size e in
     bind (to_disk S path) (\<lambda>disk_path.
     bind (create_file E u (st_disk_id A) disk_path (path_name clean) n (mime_type_of E clean)
             (fs_section S = PRIVATE) (fs_section S) S_PENDING) (\<lambda>r.
     let tmp = join_path TMP_DIR (uuid_str (fr_id r)) in
     bind (st_write A tmp (ze_data e) n) (\<lambda>checksum.
     bind (st_rename A tmp path) (\<lambda>_.
     bind (to_disk S path) (\<lambda>p.
     bind (update_status (fr_id r) S_COMMITTED (Some checksum) (Some p) None) (\<lambda>committed.
     case committed of
       None \<Rightarrow> bind (delete_record (fr_id r)) (\<lambda>_. ret False)
     | Some c \<Rightarrow>
         bind (increment E u n (fs_section S)) (\<lambda>_.
         bind (enqueue_upload E (fs_index S) c) (\<lambda>_. ret True)))))))))"

fun zip_write ::
  "file_service \<Rightarrow> uuid \<Rightarrow> (string \<times> string \<times> zip_entry) list \<Rightarrow> zip_stats \<Rightarrow> zip_stats action" where
  "zip_write S u [] st = ret st"
| "zip_write S u ((path, clean, e) # ts) st =
     (if zip_is_dir e then zip_write S u ts st
      else
        bind (zip_parent (fs_adapter S) path (zs_dirs st)) (\<lambda>created.
        bind (try_except (zip_extract S u (path, clean, e)) (\<lambda>_. ret False)) (\<lambda>stored.
        zip_write S u ts
          (if stored
           then st\<lparr>zs_dirs := created, zs_files := zs_files st + 1,
                   zs_total_bytes := zs_total_bytes st + ze_file_size e\<rparr>
           else st\<lparr>zs_dirs := created, zs_errors := zs_errors st + 1\<rparr>))))"

definition upload_zip_folder ::
  "file_service \<Rightarrow> uuid \<Rightarrow> string \<Rightarrow> string \<Rightarrow> zip_entry list option \<Rightarrow> int \<Rightarrow> int \<Rightarrow> zip_stats action" where
  "upload_zip_folder S u path zip_filename packed total_uncompressed available =
     (if total_uncompressed > available then raise (Quota_Exceeded (Some available))
      else case packed of
        None \<Rightarrow> raise Value_Error
      | Some entries \<Rightarrow>
          if entries = [] then raise Value_Error
          else
            let target_root = join_path (normalize_path path) (path_stem zip_filename) in
            bind (lift (zip_targets target_root entries)) (\<lambda>targets.
            bind (st_mkdir (fs_adapter S) target_root) (\<lambda>_.
            bind (zip_make_dirs (fs_adapter S) targets [target_root]) (\<lambda>created.
            zip_write S u targets
              \<lparr>zs_files = 0, zs_dirs = created, zs_total_bytes = 0, zs_errors = 0\<rparr>))))"

section \<open>Packing\<close>

definition arcname_from :: "string \<Rightarrow> string \<Rightarrow> string \<Rightarrow> string" where
  "arcname_from storage_path base filename =
     (let relative = lstrip_by (\<lambda>c. c = CHR ''/'') (drop (length base) storage_path) in
      if relative = [] then filename else relative)"

text \<open>
  The loop over the nodes of one directory; \<open>walk\<close> is the recursive call and \<open>visited\<close> the set that
  all calls share.
\<close>

fun walk_nodes ::
  "(string \<Rightarrow> string list \<Rightarrow> ((string \<times> string) list \<times> string list) action) \<Rightarrow> string \<Rightarrow> string \<Rightarrow>
    file_node list \<Rightarrow> string list \<Rightarrow> ((string \<times> string) list \<times> string list) action" where
  "walk_nodes walk base dir [] visited = ret ([], visited)"
| "walk_nodes walk base dir (n # ns) visited =
     (let storage_path = join_path dir (fn_name n);
          arcname = arcname_from storage_path base (fn_name n) in
      if fn_is_dir n then
        bind (walk storage_path visited) (\<lambda>(below, visited1).
        bind (walk_nodes walk base dir ns visited1) (\<lambda>(others, visited2).
        ret ((storage_path, rstrip_by (\<lambda>c. c = CHR ''/'') arcname @ ''/'') # below @ others, visited2)))
      else
        bind (walk_nodes walk base dir ns visited) (\<lambda>(others, visited2).
        ret ((storage_path, arcname) # others, visited2)))"

text \<open>
  \<open>_walk_directory\<close>. The number bounds the depth of the recursion, as the recursion limit of the
  interpreter does; beyond it the call raises.
\<close>

fun walk_directory ::
  "nat \<Rightarrow> file_service \<Rightarrow> string \<Rightarrow> string \<Rightarrow> string list \<Rightarrow>
    ((string \<times> string) list \<times> string list) action" where
  "walk_directory 0 S base current visited = raise Other_Error"
| "walk_directory (Suc depth) S base current visited =
     (let normalized = normalize_path current in
      if normalized \<in> set visited then ret ([], visited)
      else
        bind (try_except (bind (st_list (fs_adapter S) normalized) (\<lambda>ns. ret (Some ns)))
               (\<lambda>e. if e = Storage_File_Not_Found then ret None else raise e)) (\<lambda>listed.
        case listed of
          None \<Rightarrow> ret ([], normalized # visited)
        | Some nodes \<Rightarrow>
            walk_nodes (walk_directory depth S base) base normalized nodes (normalized # visited)))"

definition ensure_can_download_directory :: "file_service \<Rightarrow> uuid \<Rightarrow> string \<Rightarrow> unit action" where
  "ensure_can_download_directory S actor path =
     (let normalized = normalize_path path in
      bind (st_exists (fs_adapter S) normalized) (\<lambda>found.
      if \<not> found then raise Storage_File_Not_Found
      else
        bind (is_directory S normalized) (\<lambda>is_dir.
        if \<not> is_dir then raise Storage_File_Not_Found
        else if fs_section S \<noteq> SHARED then
          bind (get_record_by_section_path S actor normalized (fs_section S)) (\<lambda>_. ret ())
        else ret ())))"

definition download_directory_as_zip :: "nat \<Rightarrow> file_service \<Rightarrow> uuid \<Rightarrow> string \<Rightarrow> bytes action" where
  "download_directory_as_zip depth S actor path =
     (let normalized = normalize_path path in
      bind (ensure_can_download_directory S actor normalized) (\<lambda>_.
      bind (walk_directory depth S normalized normalized []) (\<lambda>(entries, _).
      bind (map_act (\<lambda>(entry_path, arcname).
          if ends_with arcname ''/'' then ret (arcname, [])
          else bind (st_read (fs_adapter S) entry_path) (\<lambda>b. ret (arcname, b))) entries) (\<lambda>contents.
      ret (zip_file (fs_env S) contents)))))"

end
