(* ===== verification/Accounts.thy ===== *)
theory Accounts
  imports FileRepo SyncJob
begin

text \<open>
  Who a request speaks for: the client of the User-Service (\<open>infrastructure/user_service/client.py\<close>),
  the table of local users (\<open>repositories/user_repo.py\<close>), and the dependencies that turn the headers
  of a request into a user with a role (\<open>presentation/dependencies/auth.py\<close>,
  \<open>middleware/check_role.py\<close>). The answers of the User-Service are a parameter.
\<close>

section \<open>The directory of users\<close>

definition STORAGE_SERVICE_KEY :: string where "STORAGE_SERVICE_KEY = ''storage''"

definition role_of_string :: "string \<Rightarrow> role option" where
  "role_of_string s =
     (if s = ''STRANGER'' then Some STRANGER else if s = ''FAMILY'' then Some FAMILY
      else if s = ''ADMIN'' then Some ADMIN else if s = ''BLOCKED'' then Some BLOCKED else None)"

definition parse_role :: "json \<Rightarrow> exn + role" where
  "parse_role raw = (case raw of
       J_Str s \<Rightarrow> (case role_of_string s of Some r \<Rightarrow> Inr r | None \<Rightarrow> Inl User_Service_Unavailable)
     | _ \<Rightarrow> Inl User_Service_Unavailable)"

fun storage_role_in :: "json list \<Rightarrow> exn + role" where
  "storage_role_in [] = Inr STRANGER"
| "storage_role_in (j # js) = (case j of
     J_Object ms \<Rightarrow>
       if member ms ''service'' = J_Str STORAGE_SERVICE_KEY then parse_role (member ms ''role'')
       else storage_role_in js
   | _ \<Rightarrow> storage_role_in js)"

definition storage_role_from_services :: "json \<Rightarrow> exn + role" where
  "storage_role_from_services v = (case v of J_List js \<Rightarrow> storage_role_in js | _ \<Rightarrow> Inr STRANGER)"

text \<open>The cache with a time to live, in the process.\<close>

definition ttl_get :: "env \<Rightarrow> string \<Rightarrow> directory_value option action" where
  "ttl_get E key =
     bind (gets directory_cache) (\<lambda>entries. case map_of entries key of
       None \<Rightarrow> ret None
     | Some (expires, v) \<Rightarrow>
         bind (utc_now E) (\<lambda>now.
         if now \<ge> expires
         then bind (modify (\<lambda>w. w\<lparr>directory_cache := filter (\<lambda>e. fst e \<noteq> key) (directory_cache w)\<rparr>)) (\<lambda>_. ret None)
         else ret (Some v)))"

definition ttl_set :: "env \<Rightarrow> string \<Rightarrow> directory_value \<Rightarrow> unit action" where
  "ttl_set E key v =
     bind (utc_now E) (\<lambda>now.
     modify (\<lambda>w. w\<lparr>directory_cache := (key, now + user_service_cache_ttl_seconds E * SECOND, v) #
       filter (\<lambda>e. fst e \<noteq> key) (directory_cache w)\<rparr>))"

definition get_json :: "env \<Rightarrow> string \<Rightarrow> (string \<times> json) list action" where
  "get_json E path =
     bind (gets tick) (\<lambda>t.
     bind (utc_now E) (\<lambda>_.
     case user_service E t path of
       Http_Timeout \<Rightarrow> raise User_Service_Unavailable
     | Http_Transport_Error \<Rightarrow> raise User_Service_Unavailable
     | Http_Crash \<Rightarrow> raise Other_Error
     | Http_Response status body \<Rightarrow>
         if status \<ge> 500 \<or> status = 404 then raise User_Service_Unavailable
         else if status \<noteq> 200 then raise User_Service_Unavailable
         else (case as_object body of None \<Rightarrow> raise User_Service_Unavailable | Some ms \<Rightarrow> ret ms)))"

definition user_from_payload :: "(string \<times> json) list \<Rightarrow> role \<Rightarrow> exn + directory_user" where
  "user_from_payload ms default_role =
     (case (as_string (member ms ''id''), as_string (member ms ''email'')) of
        (Some raw_id, Some email) \<Rightarrow>
          if email = [] then Inl User_Service_Unavailable
          else (case parse_uuid raw_id of
             None \<Rightarrow> Inl User_Service_Unavailable
           | Some u \<Rightarrow> Inr \<lparr>du_id = u, du_email = email,
               du_username = (case as_string (member ms ''username'') of None \<Rightarrow> [] | Some s \<Rightarrow> s),
               du_storage_role = default_role\<rparr>)
      | _ \<Rightarrow> Inl User_Service_Unavailable)"

definition get_storage_role :: "env \<Rightarrow> uuid \<Rightarrow> role action" where
  "get_storage_role E u =
     (let key = ''storage_role:'' @ uuid_str u in
      bind (ttl_get E key) (\<lambda>cached. case cached of
        Some (Cached_Role r) \<Rightarrow> ret r
      | Some (Cached_User d) \<Rightarrow> raise Other_Error
      | None \<Rightarrow>
          bind (get_json E (''/users/'' @ uuid_str u @ ''/roles/'' @ STORAGE_SERVICE_KEY)) (\<lambda>ms.
          bind (lift (parse_role (member ms ''role''))) (\<lambda>r.
          bind (ttl_set E key (Cached_Role r)) (\<lambda>_. ret r)))))"

definition get_directory_user :: "env \<Rightarrow> uuid \<Rightarrow> directory_user action" where
  "get_directory_user E u =
     (let key = ''user:'' @ uuid_str u in
      bind (ttl_get E key) (\<lambda>cached. case cached of
        Some (Cached_User d) \<Rightarrow> ret d
      | Some (Cached_Role r) \<Rightarrow> raise Other_Error
      | None \<Rightarrow>
          bind (get_json E (''/users/'' @ uuid_str u)) (\<lambda>ms.
          bind (lift (user_from_payload ms STRANGER)) (\<lambda>d.
          bind (ttl_set E key (Cached_User d)) (\<lambda>_. ret d)))))"

fun directory_users :: "json list \<Rightarrow> exn + directory_user list" where
  "directory_users [] = Inr []"
| "directory_users (j # js) = (case j of
     J_Object ms \<Rightarrow>
       (case storage_role_from_services (member ms ''services'') of
          Inl e \<Rightarrow> Inl e
        | Inr r \<Rightarrow> (case user_from_payload ms r of
            Inl e \<Rightarrow> Inl e
          | Inr d \<Rightarrow> map_sum id (\<lambda>ds. d # ds) (directory_users js)))
   | _ \<Rightarrow> Inl User_Service_Unavailable)"

definition list_directory_users :: "env \<Rightarrow> directory_user list action" where
  "list_directory_users E =
     bind (get_json E ''/users'') (\<lambda>ms.
     case member ms ''users'' of
       J_List js \<Rightarrow> lift (directory_users js)
     | _ \<Rightarrow> raise User_Service_Unavailable)"

section \<open>The table of users\<close>

record user =
  us_id :: uuid
  us_email :: string
  us_role :: role
  us_is_active :: bool
  us_created_at :: instant

record auth_principal =
  ap_id :: uuid
  ap_email :: string
  ap_name :: string
  ap_role :: role

record user_admin_row =
  ua_user :: user
  ua_quota_used_bytes :: int
  ua_limit_bytes :: int
  ua_private_limit_bytes :: int

definition to_user :: "user_row \<Rightarrow> role \<Rightarrow> user" where
  "to_user m r = \<lparr>us_id = ur_id m, us_email = ur_email m, us_role = r,
     us_is_active = ur_is_active m, us_created_at = ur_created_at m\<rparr>"

definition find_user :: "uuid \<Rightarrow> world \<Rightarrow> user_row option" where
  "find_user u w = find (\<lambda>m. ur_id m = u) (users w)"

definition user_by_email :: "string \<Rightarrow> user option action" where
  "user_by_email email =
     bind (query (\<lambda>w. filter (\<lambda>m. ur_email m = email) (users w))) (\<lambda>ms.
     bind (one_or_none ms) (\<lambda>found. ret (map_option (\<lambda>m. to_user m STRANGER) found)))"

definition user_by_id :: "uuid \<Rightarrow> user option action" where
  "user_by_id u = query (\<lambda>w. map_option (\<lambda>m. to_user m STRANGER) (find_user u w))"

text \<open>
  An insertion inside a savepoint: when it fails the session stays usable. The table has a primary
  key and unique emails of at most 255 characters.
\<close>

definition insert_user :: "env \<Rightarrow> user_row \<Rightarrow> unit action" where
  "insert_user E m = (\<lambda>w.
     if broken w then (Inl Pending_Rollback, w)
     else if length (ur_email m) > 255 then (Inl Other_Error, w)
     else if user_race E (ur_id m) \<or> ur_id m \<in> ur_id ` set (users w) \<or> ur_email m \<in> ur_email ` set (users w)
       then (Inl (Integrity_Error True), w)
     else (Inr (), w\<lparr>users := users w @ [m]\<rparr>))"

definition flush_user :: "user_row \<Rightarrow> unit action" where
  "flush_user m = (\<lambda>w.
     if broken w then (Inl Pending_Rollback, w)
     else if length (ur_email m) > 255 then (Inl Other_Error, w\<lparr>broken := True\<rparr>)
     else if \<exists>x \<in> set (users w). ur_id x \<noteq> ur_id m \<and> ur_email x = ur_email m
       then (Inl (Integrity_Error True), w\<lparr>broken := True\<rparr>)
     else (Inr (), w\<lparr>users := map (\<lambda>x. if ur_id x = ur_id m then m else x) (users w)\<rparr>))"

definition sync_projection :: "auth_principal \<Rightarrow> user action" where
  "sync_projection p =
     bind (query (find_user (ap_id p))) (\<lambda>found. case found of
       None \<Rightarrow> raise Other_Error
     | Some m \<Rightarrow>
         let m1 = (if ap_email p \<noteq> [] \<and> ur_email m \<noteq> ap_email p then m\<lparr>ur_email := ap_email p\<rparr> else m);
             m2 = m1\<lparr>ur_is_active := True\<rparr> in
         bind (flush_user m2) (\<lambda>_. ret (to_user m2 (ap_role p))))"

definition upsert_from_principal :: "env \<Rightarrow> auth_principal \<Rightarrow> user option action" where
  "upsert_from_principal E p =
     bind (user_by_id (ap_id p)) (\<lambda>existing. case existing of
       Some _ \<Rightarrow> bind (sync_projection p) (\<lambda>u. ret (Some u))
     | None \<Rightarrow>
         bind (user_by_email (ap_email p)) (\<lambda>owner. case owner of
           Some _ \<Rightarrow> ret None
         | None \<Rightarrow>
             bind (utc_now E) (\<lambda>now.
             let m = \<lparr>ur_id = ap_id p, ur_email = ap_email p, ur_is_active = True, ur_created_at = now\<rparr> in
             bind (try_except (bind (insert_user E m) (\<lambda>_. ret True))
                    (\<lambda>e. case e of Integrity_Error _ \<Rightarrow> ret False | _ \<Rightarrow> raise e)) (\<lambda>inserted.
             ret (if inserted then Some (to_user m (ap_role p)) else None)))))"

definition set_active :: "uuid \<Rightarrow> bool \<Rightarrow> user option action" where
  "set_active u active =
     bind (query (find_user u)) (\<lambda>found. case found of
       None \<Rightarrow> ret None
     | Some m \<Rightarrow>
         bind (flush_user (m\<lparr>ur_is_active := active\<rparr>)) (\<lambda>_.
         ret (Some (to_user (m\<lparr>ur_is_active := active\<rparr>) STRANGER))))"

definition to_admin_row :: "env \<Rightarrow> user_row \<Rightarrow> quota_usage option \<Rightarrow> user_admin_row" where
  "to_admin_row E m q = \<lparr>ua_user = to_user m STRANGER,
     ua_quota_used_bytes = (case q of None \<Rightarrow> 0 | Some q \<Rightarrow> qu_total_bytes q),
     ua_limit_bytes = (case q of None \<Rightarrow> default_user_quota_bytes E | Some q \<Rightarrow> qu_limit_bytes q),
     ua_private_limit_bytes = (case q of None \<Rightarrow> 0 | Some q \<Rightarrow> qu_private_limit_bytes q)\<rparr>"

definition get_admin_rows_by_ids :: "env \<Rightarrow> uuid list \<Rightarrow> (uuid \<times> user_admin_row) list action" where
  "get_admin_rows_by_ids E us =
     (if us = [] then ret []
      else query (\<lambda>w. map (\<lambda>m. (ur_id m, to_admin_row E m (find (\<lambda>q. qu_user_id q = ur_id m) (quotas w))))
        (filter (\<lambda>m. ur_id m \<in> set us) (users w))))"

text \<open>
  Deleting a user: the files and the quota row go with it (\<open>ON DELETE CASCADE\<close>), and the index rows of
  those files lose their reference (\<open>ON DELETE SET NULL\<close>).
\<close>

definition delete_user_row :: "uuid \<Rightarrow> bool action" where
  "delete_user_row u =
     bind (query (find_user u)) (\<lambda>found. case found of
       None \<Rightarrow> ret False
     | Some _ \<Rightarrow>
         bind (execute (\<lambda>w. w\<lparr>users := filter (\<lambda>m. ur_id m \<noteq> u) (users w),
           files := filter (\<lambda>r. fr_user_id r \<noteq> u) (files w),
           quotas := filter (\<lambda>q. qu_user_id q \<noteq> u) (quotas w),
           links := map (\<lambda>l. if \<exists>r \<in> set (files w). fr_user_id r = u \<and> il_file_record_id l = Some (fr_id r)
                             then l\<lparr>il_file_record_id := None\<rparr> else l) (links w)\<rparr>)) (\<lambda>_. ret True))"

section \<open>The user of a request\<close>

type_synonym headers = "string \<Rightarrow> string option"

definition HEADER_USER_ID :: string where "HEADER_USER_ID = ''X-User-Id''"
definition HEADER_AUTH_USER_ID :: string where "HEADER_AUTH_USER_ID = ''X-Auth-User-Id''"
definition HEADER_AUTH_EMAIL :: string where "HEADER_AUTH_EMAIL = ''X-Auth-Email''"
definition HEADER_AUTH_NAME :: string where "HEADER_AUTH_NAME = ''X-Auth-Name''"
definition HEADER_STORAGE_ROLE :: string where "HEADER_STORAGE_ROLE = ''X-Storage-Role''"

definition parse_header_uuid :: "string option \<Rightarrow> uuid option" where
  "parse_header_uuid raw = (case raw of
       None \<Rightarrow> None
     | Some s \<Rightarrow> if strip s = [] then None else parse_uuid (strip s))"

text \<open>Both ways to fail raise the same exception.\<close>

definition resolve_user_id :: "headers \<Rightarrow> exn + uuid" where
  "resolve_user_id H = (case parse_header_uuid (H HEADER_USER_ID) of
       Some u \<Rightarrow> Inr u
     | None \<Rightarrow> (case parse_header_uuid (H HEADER_AUTH_USER_ID) of
         Some u \<Rightarrow> Inr u
       | None \<Rightarrow> Inl Auth_Unauthenticated))"

definition header_storage_role :: "headers \<Rightarrow> exn + role option" where
  "header_storage_role H = (case H HEADER_STORAGE_ROLE of
       None \<Rightarrow> Inr None
     | Some s \<Rightarrow>
         if strip s = [] then Inr None
         else (case role_of_string (strip s) of
             Some r \<Rightarrow> Inr (Some r)
           | None \<Rightarrow> Inl Auth_Misconfigured))"

definition user_from_principal :: "auth_principal \<Rightarrow> user \<Rightarrow> user" where
  "user_from_principal p local_user = \<lparr>us_id = ap_id p,
     us_email = (if ap_email p \<noteq> [] then ap_email p else us_email local_user), us_role = ap_role p,
     us_is_active = us_is_active local_user, us_created_at = us_created_at local_user\<rparr>"

definition header_text :: "headers \<Rightarrow> string \<Rightarrow> string" where
  "header_text H name = (case H name of None \<Rightarrow> [] | Some s \<Rightarrow> strip s)"

text \<open>The projection of the user is committed before the handler starts.\<close>

definition get_current_user :: "env \<Rightarrow> headers \<Rightarrow> user action" where
  "get_current_user E H =
     bind (lift (resolve_user_id H)) (\<lambda>u.
     bind (lift (header_storage_role H)) (\<lambda>given.
     bind (case given of None \<Rightarrow> get_storage_role E u | Some r \<Rightarrow> ret r) (\<lambda>r.
     if r = BLOCKED then raise Auth_Blocked
     else
       let name = header_text H HEADER_AUTH_NAME in
       bind (if header_text H HEADER_AUTH_EMAIL \<noteq> [] then ret (header_text H HEADER_AUTH_EMAIL, name)
             else bind (get_directory_user E u) (\<lambda>d.
               ret (du_email d, if name = [] then du_username d else name))) (\<lambda>(email, name).
       let p = \<lparr>ap_id = u, ap_email = email, ap_name = name, ap_role = r\<rparr> in
       bind (in_session (upsert_from_principal E p)) (\<lambda>local_user.
       case local_user of
         None \<Rightarrow> raise Other_Error
       | Some l \<Rightarrow> ret (user_from_principal p l))))))"

definition check_role :: "role list \<Rightarrow> user \<Rightarrow> unit action" where
  "check_role allowed_roles u =
     (if us_role u \<notin> set allowed_roles then raise (Http_Exception 403 ''ACCESS_DENIED'' None) else ret ())"

text \<open>A session that is closed without a commit.\<close>

definition without_commit :: "'a action \<Rightarrow> 'a action" where
  "without_commit m = (\<lambda>w. case m w of (r, w') \<Rightarrow> (r, rollback w w'))"

text \<open>The handlers' \<open>except\<close> clauses that turn an exception into an \<open>HTTPException\<close>.\<close>

definition as_http :: "(exn \<times> exn) list \<Rightarrow> 'a action \<Rightarrow> 'a action" where
  "as_http clauses m = try_except m (\<lambda>e. raise (case map_of clauses e of Some h \<Rightarrow> h | None \<Rightarrow> e))"

section \<open>What authentication guarantees\<close>

text \<open>Everything but the row of one user is as before.\<close>

definition only_user :: "uuid \<Rightarrow> world \<Rightarrow> world \<Rightarrow> bool" where
  "only_user u w w' \<longleftrightarrow> files w' = files w \<and> links w' = links w \<and> quotas w' = quotas w \<and>
     filter (\<lambda>m. ur_id m \<noteq> u) (users w') = filter (\<lambda>m. ur_id m \<noteq> u) (users w)"

lemma only_user_refl [simp]: "only_user u w w"
  by (simp add: only_user_def)

lemma filter_map_other:
  "ur_id m = u \<Longrightarrow> filter (\<lambda>x. ur_id x \<noteq> u) (map (\<lambda>x. if ur_id x = u then m else x) ms) =
    filter (\<lambda>x. ur_id x \<noteq> u) ms"
  by (induction ms) auto

lemma find_user_in: "find_user u w = Some m \<Longrightarrow> m \<in> set (users w) \<and> ur_id m = u"
  by (auto simp: find_user_def find_Some_iff)

lemma flush_user_Inr:
  assumes "flush_user m w = (Inr x, w')"
  shows "\<not> broken w" "w' = w\<lparr>users := map (\<lambda>x. if ur_id x = ur_id m then m else x) (users w)\<rparr>"
  using assms by (auto simp: flush_user_def split: if_splits)

lemma sync_projection_Inr:
  assumes "sync_projection p w = (Inr l, w')"
  shows "only_user (ap_id p) w w' \<and> us_is_active l \<and> (\<exists>m \<in> set (users w'). ur_id m = ap_id p \<and> ur_is_active m)"
proof -
  obtain m where m: "find_user (ap_id p) w = Some m" and b: "\<not> broken w"
    using assms by (auto simp: sync_projection_def bind_Inr query_def split: if_splits option.splits)
  let ?m = "(if ap_email p \<noteq> [] \<and> ur_email m \<noteq> ap_email p then m\<lparr>ur_email := ap_email p\<rparr> else m)\<lparr>ur_is_active := True\<rparr>"
  have l: "l = to_user ?m (ap_role p)" and "flush_user ?m w = (Inr (), w')"
    using assms m b by (auto simp: sync_projection_def Let_def bind_Inr query_def)
  then have w': "w' = w\<lparr>users := map (\<lambda>x. if ur_id x = ap_id p then ?m else x) (users w)\<rparr>"
    using flush_user_Inr find_user_in [OF m] by fastforce
  have id: "ur_id ?m = ap_id p" using find_user_in [OF m] by simp
  then have "?m \<in> set (users w')" using find_user_in [OF m] by (force simp: w')
  moreover have "only_user (ap_id p) w w'" using filter_map_other [OF id] by (simp add: only_user_def w')
  ultimately show ?thesis using id by (intro conjI bexI [of _ ?m]) (simp_all add: l to_user_def)
qed

lemma upsert_Inr:
  assumes "upsert_from_principal E p w = (Inr (Some l), w')"
  shows "only_user (ap_id p) w w' \<and> us_is_active l \<and> (\<exists>m \<in> set (users w'). ur_id m = ap_id p \<and> ur_is_active m)"
proof (cases "find_user (ap_id p) w")
  case None
  with assms show ?thesis
    by (auto simp: upsert_from_principal_def user_by_id_def user_by_email_def run bind_Inr Let_def
        one_or_none_def insert_user_def try_except_def only_user_def to_user_def
        split: if_splits option.splits list.splits sum.splits prod.splits exn.splits)
next
  case (Some m)
  with assms have "sync_projection p w = (Inr l, w')"
    by (auto simp: upsert_from_principal_def user_by_id_def bind_Inr query_def split: if_splits)
  then show ?thesis by (rule sync_projection_Inr)
qed

lemma ttl_rowless: "rowless (ttl_get E key)" "rowless (ttl_set E key v)" "rowless (get_json E path)"
proof -
  have m: "(\<And>w. same_rows w (f w)) \<Longrightarrow> rowless (modify f)" for f
    by (auto simp: rowless_def relates_def)
  show "rowless (ttl_get E key)"
    unfolding ttl_get_def by (intro rowless_rules m) (auto simp: same_rows_def)
  show "rowless (ttl_set E key v)"
    unfolding ttl_set_def by (intro rowless_rules m) (auto simp: same_rows_def)
  show "rowless (get_json E path)"
    by (auto simp: get_json_def intro!: rowless_rules split: http_outcome.split)
qed

lemma directory_rowless: "rowless (get_storage_role E u)" "rowless (get_directory_user E u)"
  unfolding get_storage_role_def get_directory_user_def Let_def
  by (auto intro!: rowless_rules ttl_rowless split: directory_value.split)

lemma only_user_rows: "same_rows w w1 \<Longrightarrow> only_user u w1 w' \<Longrightarrow> only_user u w w'"
  by (simp add: only_user_def same_rows_def)

lemma in_session_Inr: "in_session m w = (Inr x, w') \<longleftrightarrow> m w = (Inr x, w') \<and> \<not> broken w'"
  by (auto simp: in_session_def split: prod.splits sum.splits if_splits)

lemma lift_Inr: "lift r w = (Inr x, w') \<longleftrightarrow> r = Inr x \<and> w' = w"
  by (cases r) (auto simp: lift_def)

lemma current_user_facts:
  assumes "get_current_user E H w = (Inr u, w')"
  shows "resolve_user_id H = Inr (us_id u) \<and> us_role u \<noteq> BLOCKED \<and>
    header_storage_role H \<in> {Inr None, Inr (Some (us_role u))} \<and> us_is_active u \<and>
    (\<exists>m \<in> set (users w'). ur_id m = us_id u \<and> ur_is_active m) \<and> only_user (us_id u) w w' \<and> \<not> broken w'"
proof -
  obtain i given where i: "resolve_user_id H = Inr i" and given: "header_storage_role H = Inr given"
    using assms by (auto simp: get_current_user_def bind_Inr lift_Inr)
  obtain r w1 where r: "(case given of None \<Rightarrow> get_storage_role E i | Some r \<Rightarrow> ret r) w = (Inr r, w1)"
    and nb: "r \<noteq> BLOCKED"
    and rest: "(let name = header_text H HEADER_AUTH_NAME in
       bind (if header_text H HEADER_AUTH_EMAIL \<noteq> [] then ret (header_text H HEADER_AUTH_EMAIL, name)
             else bind (get_directory_user E i) (\<lambda>d.
               ret (du_email d, if name = [] then du_username d else name))) (\<lambda>(email, name).
       let p = \<lparr>ap_id = i, ap_email = email, ap_name = name, ap_role = r\<rparr> in
       bind (in_session (upsert_from_principal E p)) (\<lambda>local_user.
       case local_user of
         None \<Rightarrow> raise Other_Error
       | Some l \<Rightarrow> ret (user_from_principal p l)))) w1 = (Inr u, w')"
    using assms i given by (auto simp: get_current_user_def bind_Inr lift_Inr split: if_splits)
  have "rowless (case given of None \<Rightarrow> get_storage_role E i | Some r \<Rightarrow> ret r)"
    by (intro rowless_rules directory_rowless)
  then have s1: "same_rows w w1" using r by (rule rowlessD)
  let ?who = "if header_text H HEADER_AUTH_EMAIL \<noteq> [] then ret (header_text H HEADER_AUTH_EMAIL, header_text H HEADER_AUTH_NAME)
       else bind (get_directory_user E i) (\<lambda>d. ret (du_email d,
         if header_text H HEADER_AUTH_NAME = [] then du_username d else header_text H HEADER_AUTH_NAME))"
  obtain email name w2 where who: "?who w1 = (Inr (email, name), w2)"
    using rest by (auto simp: Let_def bind_Inr)
  have "rowless ?who" by (intro rowless_rules directory_rowless)
  then have s2: "same_rows w1 w2" using who by (rule rowlessD)
  let ?p = "\<lparr>ap_id = i, ap_email = email, ap_name = name, ap_role = r\<rparr>"
  obtain l where l: "upsert_from_principal E ?p w2 = (Inr (Some l), w')" "\<not> broken w'"
    and u: "u = user_from_principal ?p l"
    using rest who by (auto simp: Let_def bind_Inr in_session_Inr split: option.splits)
  have id: "us_id u = i" "us_role u = r" "us_is_active u = us_is_active l" by (simp_all add: u user_from_principal_def)
  have "header_storage_role H \<in> {Inr None, Inr (Some r)}"
    using r given by (cases given) auto
  with upsert_Inr [OF l(1)] l(2) i nb id only_user_rows [OF same_rows_trans [OF s1 s2]] show ?thesis by auto
qed


text \<open>A user who has a row, and whose email is the one of that row, is let through.\<close>

lemma current_user_known:
  assumes "resolve_user_id H = Inr u" "header_storage_role H = Inr (Some r)" "r \<noteq> BLOCKED"
    and m: "find_user u w = Some m" "ur_email m = header_text H HEADER_AUTH_EMAIL" "ur_email m \<noteq> []"
      "length (ur_email m) \<le> 255" "\<And>x. x \<in> set (users w) \<Longrightarrow> ur_email x = ur_email m \<Longrightarrow> ur_id x = u"
    and b: "\<not> broken w"
  shows "\<exists>v w'. get_current_user E H w = (Inr v, w')"
proof -
  let ?p = "\<lparr>ap_id = u, ap_email = ur_email m, ap_name = header_text H HEADER_AUTH_NAME, ap_role = r\<rparr>"
  have id: "ur_id m = u" using find_user_in [OF m(1)] by simp
  let ?m = "m\<lparr>ur_is_active := True\<rparr>" and
    ?w = "w\<lparr>users := map (\<lambda>x. if ur_id x = ur_id m then m\<lparr>ur_is_active := True\<rparr> else x) (users w)\<rparr>"
  have "flush_user ?m w = (Inr (), ?w)"
    using m b id by (auto simp: flush_user_def)
  then have "sync_projection ?p w = (Inr (to_user ?m r), ?w)"
    using m(1) b by (simp add: sync_projection_def run Let_def)
  then have "upsert_from_principal E ?p w = (Inr (Some (to_user ?m r)), ?w)"
    using m(1) b by (simp add: upsert_from_principal_def user_by_id_def run)
  with assms b show ?thesis
    by (simp add: get_current_user_def lift_def Let_def run in_session_def)
qed

text \<open>The headers that a gateway sends for a member of the family.\<close>

definition sample_headers :: "uuid \<Rightarrow> headers" where
  "sample_headers u = Map.empty(HEADER_USER_ID \<mapsto> uuid_str u, HEADER_AUTH_EMAIL \<mapsto> ''a@b'',
     HEADER_STORAGE_ROLE \<mapsto> ''FAMILY'')"

lemma strip_uuid_str [simp]: "strip (uuid_str u) = uuid_str u"
proof -
  have ne: "uuid_str u \<noteq> []" by (simp add: uuid_str_def Let_def)
  then have "hd (uuid_str u) \<in> set (uuid_str u)" "last (uuid_str u) \<in> set (uuid_str u)" by simp_all
  moreover have "\<not> is_space c" if "c \<in> set (uuid_str u)" for c
    using uuid_str_chars [OF that] by (auto simp: is_space_def Let_def)
  ultimately show ?thesis unfolding strip_def by (intro strip_by_id) auto
qed

lemma uuid_str_nonempty [simp]: "uuid_str u \<noteq> []"
  by (simp add: uuid_str_def Let_def)

lemma sample_strips: "strip ''a@b'' = ''a@b''" "strip ''FAMILY'' = ''FAMILY''"
  by (simp_all add: strip_def strip_by_def lstrip_by_def rstrip_by_def is_space_def char_code_def Let_def)

lemma sample_identity:
  "resolve_user_id (sample_headers u) = Inr u" "header_storage_role (sample_headers u) = Inr (Some FAMILY)"
  "header_text (sample_headers u) HEADER_AUTH_EMAIL = ''a@b''"
  by (simp_all add: resolve_user_id_def sample_headers_def header_storage_role_def header_text_def
      parse_header_uuid_def parse_uuid_str HEADER_USER_ID_def HEADER_AUTH_EMAIL_def HEADER_STORAGE_ROLE_def
      sample_strips role_of_string_def)


end
