(* ===== verification/DiskRouter.thy ===== *)
theory DiskRouter
  imports FileService
begin

text \<open>
  \<open>DiskRouter\<close> (\<open>infrastructure/disk_router.py\<close>): the one logical volume, its free space and its
  health. The object store's listing, whose pages may fail to arrive, and the capacity that the
  MinIO administration interface reports are parameters; a router caches a measurement for some
  seconds. A router lives as long as the request that builds it.
\<close>

section \<open>Volumes\<close>

definition DISK_STATUS_HEALTHY :: string where "DISK_STATUS_HEALTHY = ''HEALTHY''"
definition DISK_STATUS_LOW_SPACE :: string where "DISK_STATUS_LOW_SPACE = ''LOW_SPACE''"
definition DISK_STATUS_UNAVAILABLE :: string where "DISK_STATUS_UNAVAILABLE = ''UNAVAILABLE''"

text \<open>One tebibyte.\<close>

definition S3_FALLBACK_TOTAL_BYTES :: int where "S3_FALLBACK_TOTAL_BYTES = 2 ^ 40"

record disk_volume =
  dv_id :: string
  dv_priority :: int
  dv_is_active :: bool

definition disk_volumes :: "disk_volume list" where
  "disk_volumes = [\<lparr>dv_id = STORAGE_VOLUME_ID, dv_priority = 0, dv_is_active = True\<rparr>]"

definition get_all_disks :: "disk_volume list" where
  "get_all_disks = filter dv_is_active disk_volumes"

definition get_disk_by_id :: "string \<Rightarrow> disk_volume option" where
  "get_disk_by_id disk_id = find (\<lambda>d. dv_id d = disk_id) disk_volumes"

section \<open>Measuring\<close>

record disk_space =
  sp_total :: int
  sp_used :: int
  sp_free :: int

type_synonym space_cache = "string \<rightharpoonup> disk_space option \<times> instant"

fun s3_bucket_used_bytes :: "int list list \<Rightarrow> int" where
  "s3_bucket_used_bytes [] = 0"
| "s3_bucket_used_bytes (page # pages) = sum_list page + s3_bucket_used_bytes pages"

text \<open>The sum of the reported drives, when there is at least one.\<close>

definition admin_total_bytes :: "int option list list \<Rightarrow> int option" where
  "admin_total_bytes servers =
     (let spaces = List.map_filter (\<lambda>x. x) (concat servers)
      in if spaces = [] then None else Some (sum_list spaces))"

definition s3_resolve_capacity :: "int option list list option \<Rightarrow> int \<Rightarrow> int \<times> int" where
  "s3_resolve_capacity info used =
     (let total = (case Option.bind info admin_total_bytes of Some n \<Rightarrow> n | None \<Rightarrow> S3_FALLBACK_TOTAL_BYTES)
      in (total, max 0 (total - used)))"

definition probe_s3_disk_space :: "env \<Rightarrow> nat \<Rightarrow> disk_space option" where
  "probe_s3_disk_space E t = (case bucket_pages E t of
       None \<Rightarrow> None
     | Some pages \<Rightarrow>
         let used = s3_bucket_used_bytes pages; (total, free) = s3_resolve_capacity (admin_info E t) used
         in Some \<lparr>sp_total = total, sp_used = used, sp_free = free\<rparr>)"

definition probe_disk_space :: "env \<Rightarrow> space_cache \<Rightarrow> string \<Rightarrow> (disk_space option \<times> space_cache) action" where
  "probe_disk_space E cached disk =
     bind (gets tick) (\<lambda>t.
     bind (utc_now E) (\<lambda>now.
     case cached disk of
       Some (space, stamp) \<Rightarrow>
         if now - stamp < disk_space_cache_ttl E * SECOND then ret (space, cached)
         else ret (probe_s3_disk_space E t, cached(disk \<mapsto> (probe_s3_disk_space E t, now)))
     | None \<Rightarrow> ret (probe_s3_disk_space E t, cached(disk \<mapsto> (probe_s3_disk_space E t, now)))))"

definition min_free_bytes :: "env \<Rightarrow> int" where
  "min_free_bytes E = min_free_space_mb E * 1024 * 1024"

section \<open>Choosing a disk to write to\<close>

fun write_candidates ::
  "env \<Rightarrow> space_cache \<Rightarrow> disk_volume list \<Rightarrow> ((disk_volume \<times> int) list \<times> space_cache) action" where
  "write_candidates E cached [] = ret ([], cached)"
| "write_candidates E cached (d # ds) =
     bind (probe_disk_space E cached (dv_id d)) (\<lambda>(space, cached1).
     bind (write_candidates E cached1 ds) (\<lambda>(others, cached2).
     ret ((case space of
         None \<Rightarrow> others
       | Some s \<Rightarrow> if sp_free s < min_free_bytes E then others else (d, sp_free s) # others), cached2)))"

text \<open>\<open>max(candidates, key=...)\<close>: the first of the largest.\<close>

fun best_disk :: "(disk_volume \<times> int) list \<Rightarrow> (disk_volume \<times> int) option" where
  "best_disk [] = None"
| "best_disk (c # cs) = (case best_disk cs of
       None \<Rightarrow> Some c
     | Some b \<Rightarrow> if snd b > snd c then Some b else Some c)"

definition get_write_disk :: "env \<Rightarrow> disk_volume action" where
  "get_write_disk E =
     bind (write_candidates E Map.empty get_all_disks) (\<lambda>(candidates, _).
     case best_disk candidates of
       None \<Rightarrow> raise Storage_Unavailable
     | Some (d, _) \<Rightarrow> ret d)"

section \<open>Health\<close>

definition disk_status :: "env \<Rightarrow> disk_space option \<Rightarrow> string" where
  "disk_status E space = (case space of
       None \<Rightarrow> DISK_STATUS_UNAVAILABLE
     | Some s \<Rightarrow> if sp_free s < min_free_bytes E then DISK_STATUS_LOW_SPACE else DISK_STATUS_HEALTHY)"

fun health_of :: "env \<Rightarrow> space_cache \<Rightarrow> disk_volume list \<Rightarrow> ((string \<times> string) list \<times> space_cache) action" where
  "health_of E cached [] = ret ([], cached)"
| "health_of E cached (d # ds) =
     bind (probe_disk_space E cached (dv_id d)) (\<lambda>(space, cached1).
     bind (health_of E cached1 ds) (\<lambda>(others, cached2).
     ret ((dv_id d, disk_status E space) # others, cached2)))"

definition health_check :: "env \<Rightarrow> space_cache \<Rightarrow> ((string \<times> string) list \<times> space_cache) action" where
  "health_check E cached = health_of E cached disk_volumes"

section \<open>Frame and result\<close>

lemma probe_rowless: "rowless (probe_disk_space E cached d)"
  unfolding probe_disk_space_def by (intro rowless_rules)

lemma write_candidates_rowless: "rowless (write_candidates E cached ds)"
  by (induction ds arbitrary: cached) (auto intro!: rowless_rules probe_rowless split: prod.split)

lemma get_write_disk_rowless: "rowless (get_write_disk E)"
  unfolding get_write_disk_def
  by (intro rowless_rules write_candidates_rowless)

lemma health_check_rowless: "rowless (health_check E cached)"
proof -
  have "rowless (health_of E cached ds)" for ds
    by (induction ds arbitrary: cached) (auto intro!: rowless_rules probe_rowless split: prod.split)
  then show ?thesis by (simp add: health_check_def)
qed

lemma best_disk_None: "best_disk cs = None \<longleftrightarrow> cs = []"
  by (cases cs) (auto split: option.splits)

lemma best_disk_max:
  "best_disk cs = Some b \<Longrightarrow> b \<in> set cs \<and> (\<forall>c \<in> set cs. snd c \<le> snd b)"
  by (induction cs arbitrary: b) (auto simp: best_disk_None split: option.splits if_splits)

text \<open>A disk is offered for writing exactly when the measurement says it has enough space left.\<close>

lemma get_write_disk_run:
  "get_write_disk E w =
    (case probe_s3_disk_space E (tick w) of
       Some s \<Rightarrow> (if sp_free s < min_free_bytes E then Inl Storage_Unavailable else Inr (hd disk_volumes))
     | None \<Rightarrow> Inl Storage_Unavailable, w\<lparr>tick := Suc (tick w)\<rparr>)"
  by (auto simp: get_write_disk_def get_all_disks_def disk_volumes_def probe_disk_space_def run
      split: option.split)

end
