(* ===== verification/Codecs.thy ===== *)
theory Codecs
  imports Domain
begin

text \<open>
  The byte encodings of Python's standard library that the backend uses: UTF-8, URL-safe base64
  with the lenient decoder of CPython's \<open>binascii.a2b_base64\<close>, and big-endian 32-bit words
  (\<open>struct.pack(">I", n)\<close>). Each decoder is shown to invert its encoder.
\<close>

section \<open>UTF-8\<close>

definition utf8_char :: "char \<Rightarrow> nat list" where
  "utf8_char c = (let n = char_code c in if n < 128 then [n] else [192 + n div 64, 128 + n mod 64])"

definition encode_utf8 :: "string \<Rightarrow> bytes" where
  "encode_utf8 s = map of_nat (concat (map utf8_char s))"

text \<open>
  \<open>None\<close> is \<open>UnicodeDecodeError\<close>; it also stands for the valid sequences of code points above 255,
  which the model's strings do not hold.
\<close>

fun decode_utf8 :: "bytes \<Rightarrow> string option" where
  "decode_utf8 [] = Some []"
| "decode_utf8 (a # s) =
     (if unat a < 128 then map_option ((#) (char_of (unat a))) (decode_utf8 s)
      else if a = 194 \<or> a = 195 then
        (case s of [] \<Rightarrow> None
         | b # t \<Rightarrow> if unat b div 64 = 2
             then map_option ((#) (char_of (unat a mod 4 * 64 + unat b mod 64))) (decode_utf8 t) else None)
      else None)"

lemma char_code_less [simp]: "char_code c < 256"
  by (simp add: char_code_def)

lemma char_of_code [simp]: "char_of (char_code c) = c"
  by (simp add: char_code_def)

lemma unat_byte: "n < 256 \<Longrightarrow> unat (of_nat n :: 8 word) = n"
  by (simp add: unsigned_of_nat take_bit_nat_eq_self)

lemma decode_two_bytes:
  assumes "q = 2 \<or> q = 3" "r < 64"
  shows "decode_utf8 (of_nat (192 + q) # of_nat (128 + r) # s) = map_option ((#) (char_of (q * 64 + r))) (decode_utf8 s)"
proof -
  have "unat (of_nat (192 + q) :: 8 word) = 192 + q" "unat (of_nat (128 + r) :: 8 word) = 128 + r"
    using assms by (auto intro!: unat_byte simp del: of_nat_add)
  moreover have "(of_nat (192 + q) :: 8 word) = 194 \<or> (of_nat (192 + q) :: 8 word) = 195" using assms(1) by auto
  moreover have "(192 + q) mod 4 * 64 + (128 + r) mod 64 = q * 64 + r" "(128 + r) div 64 = 2"
    using assms mod_add_self1 [of 64 "64 + r"] mod_add_self1 [of 64 r] by (auto simp: add.assoc [symmetric])
  ultimately show ?thesis by (simp del: of_nat_add)
qed

lemma decode_utf8_char: "decode_utf8 (map of_nat (utf8_char c) @ s) = map_option ((#) c) (decode_utf8 s)"
proof (cases "char_code c < 128")
  case True
  then show ?thesis by (simp add: utf8_char_def Let_def unat_byte)
next
  case False
  have "char_code c div 64 < 4" by (rule less_mult_imp_div_less) simp
  moreover have "2 \<le> char_code c div 64" using False div_le_mono [of 128 "char_code c" 64] by simp
  ultimately have q: "char_code c div 64 = 2 \<or> char_code c div 64 = 3" by arith
  show ?thesis
    using False decode_two_bytes [OF q, of "char_code c mod 64" s]
    by (simp add: utf8_char_def Let_def div_mult_mod_eq del: of_nat_add)
qed

lemma decode_encode_utf8 [simp]: "decode_utf8 (encode_utf8 s) = Some s"
  by (induction s) (simp_all add: encode_utf8_def decode_utf8_char)

section \<open>Base64\<close>

definition b64_char :: "nat \<Rightarrow> char" where
  "b64_char v = (if v < 26 then char_of (v + 65) else if v < 52 then char_of (v + 71)
     else if v < 62 then char_of (v - 4) else if v = 62 then CHR ''-'' else CHR ''_'')"

text \<open>\<open>urlsafe_b64decode\<close> translates \<open>-_\<close> to \<open>+/\<close> and leaves the plain \<open>+/\<close> as they are.\<close>

definition b64_value :: "char \<Rightarrow> nat option" where
  "b64_value c = (let n = char_code c in
     if 65 \<le> n \<and> n \<le> 90 then Some (n - 65)
     else if 97 \<le> n \<and> n \<le> 122 then Some (n - 71)
     else if 48 \<le> n \<and> n \<le> 57 then Some (n + 4)
     else if c = CHR ''+'' \<or> c = CHR ''-'' then Some 62
     else if c = CHR ''/'' \<or> c = CHR ''_'' then Some 63
     else None)"

text \<open>The characters without padding; the encoder appends \<open>=\<close> to a multiple of four.\<close>

fun b64_body :: "bytes \<Rightarrow> string" where
  "b64_body [] = []"
| "b64_body [a] = [b64_char (unat a div 4), b64_char (unat a mod 4 * 16)]"
| "b64_body [a, b] = [b64_char (unat a div 4), b64_char (unat a mod 4 * 16 + unat b div 16),
     b64_char (unat b mod 16 * 4)]"
| "b64_body (a # b # c # s) = b64_char (unat a div 4) # b64_char (unat a mod 4 * 16 + unat b div 16) #
     b64_char (unat b mod 16 * 4 + unat c div 64) # b64_char (unat c mod 64) # b64_body s"

definition b64_pad :: "string \<Rightarrow> string" where
  "b64_pad s = replicate (nat (- int (length s) mod 4)) (CHR ''='')"

definition urlsafe_b64encode :: "bytes \<Rightarrow> string" where
  "urlsafe_b64encode b = b64_body b @ b64_pad (b64_body b)"

text \<open>
  \<open>a2b_base64(s)\<close> in its default, lenient mode: the position in the quartet, the bits left over and
  the padding seen so far. Other characters are skipped; \<open>None\<close> is \<open>binascii.Error\<close>.
\<close>

fun a2b_base64 :: "nat \<Rightarrow> nat \<Rightarrow> nat \<Rightarrow> string \<Rightarrow> bytes option" where
  "a2b_base64 quad left pads [] = (if quad = 0 then Some [] else None)"
| "a2b_base64 quad left pads (c # s) =
     (if c = CHR ''='' then
        (if 2 \<le> quad then if 4 \<le> quad + Suc pads then Some [] else a2b_base64 quad left (Suc pads) s
         else a2b_base64 quad left pads s)
      else (case b64_value c of
          None \<Rightarrow> a2b_base64 quad left pads s
        | Some v \<Rightarrow>
            if quad = 0 then a2b_base64 1 v 0 s
            else if quad = 1 then map_option ((#) (of_nat (left * 4 + v div 16))) (a2b_base64 2 (v mod 16) 0 s)
            else if quad = 2 then map_option ((#) (of_nat (left * 16 + v div 4))) (a2b_base64 3 (v mod 4) 0 s)
            else map_option ((#) (of_nat (left * 64 + v))) (a2b_base64 0 0 0 s)))"

definition urlsafe_b64decode :: "string \<Rightarrow> bytes option" where
  "urlsafe_b64decode s = (if \<forall>c \<in> set s. char_code c < 128 then a2b_base64 0 0 0 s else None)"

lemma b64_char_simps:
  assumes "v < 64"
  shows "b64_value (b64_char v) = Some v" "b64_char v \<noteq> CHR ''=''" "char_code (b64_char v) < 128"
proof -
  have n: "char_code (b64_char v) = (if v < 26 then v + 65 else if v < 52 then v + 71
      else if v < 62 then v - 4 else if v = 62 then 45 else 95)"
    using assms by (simp add: b64_char_def char_code_def)
  then show "char_code (b64_char v) < 128" using assms by auto
  have "char_code (b64_char v) \<noteq> 61" using n assms by auto
  then show "b64_char v \<noteq> CHR ''=''" by (auto simp: char_code_def)
  have "v = 62 \<or> v = 63 \<or> v < 62" using assms by arith
  then show "b64_value (b64_char v) = Some v"
    using n by (auto simp: b64_value_def Let_def b64_char_def [of 62] b64_char_def [of 63] split: if_splits)
qed

lemma byte_less: "unat (a :: 8 word) < 256"
  using unsigned_less [of a, where ?'a = nat] by simp

lemma b64_sextets:
  "unat (a :: 8 word) div 4 < 64" "unat a mod 4 * 16 < 64" "unat a mod 4 * 16 + unat (b :: 8 word) div 16 < 64"
  "unat b mod 16 * 4 < 64" "unat b mod 16 * 4 + unat (c :: 8 word) div 64 < 64" "unat c mod 64 < 64"
  using byte_less [of a] byte_less [of b] byte_less [of c] by auto

lemma b64_split: "r < k \<Longrightarrow> (q * k + r) div k = q" "r < k \<Longrightarrow> (q * k + r) mod k = r"
  for q r k :: nat
  by simp_all

lemma b64_joined:
  "unat a div 4 * 4 + (unat a mod 4 * 16 + unat (b :: 8 word) div 16) div 16 = unat (a :: 8 word)"
  "unat a div 4 * 4 + unat a mod 4 * 16 div 16 = unat a"
  "(unat a mod 4 * 16 + unat b div 16) mod 16 * 16 + (unat b mod 16 * 4 + unat (c :: 8 word) div 64) div 4 = unat b"
  "(unat a mod 4 * 16 + unat b div 16) mod 16 * 16 + unat b mod 16 * 4 div 4 = unat b"
  "(unat b mod 16 * 4 + unat c div 64) mod 4 * 64 + unat c mod 64 = unat c"
proof -
  have "unat b div 16 < 16" "unat c div 64 < 4"
    using byte_less [of b] byte_less [of c] by auto
  note s = b64_split [OF this(1)] b64_split [OF this(2)]
  show "unat a div 4 * 4 + (unat a mod 4 * 16 + unat b div 16) div 16 = unat a"
    "unat a div 4 * 4 + unat a mod 4 * 16 div 16 = unat a"
    "(unat a mod 4 * 16 + unat b div 16) mod 16 * 16 + (unat b mod 16 * 4 + unat c div 64) div 4 = unat b"
    "(unat a mod 4 * 16 + unat b div 16) mod 16 * 16 + unat b mod 16 * 4 div 4 = unat b"
    "(unat b mod 16 * 4 + unat c div 64) mod 4 * 64 + unat c mod 64 = unat c"
    unfolding s by simp_all
qed

lemmas b64_step = b64_char_simps [OF b64_sextets(1)] b64_char_simps [OF b64_sextets(2)]
  b64_char_simps [OF b64_sextets(3)] b64_char_simps [OF b64_sextets(4)]
  b64_char_simps [OF b64_sextets(5)] b64_char_simps [OF b64_sextets(6)]

lemma b64_body_chars: "c \<in> set (b64_body b) \<Longrightarrow> c \<noteq> CHR ''='' \<and> char_code c < 128"
  by (induction b rule: b64_body.induct) (auto simp: b64_step)

lemma b64_pad_cases:
  "b64_pad (b64_body b) = (case length b mod 3 of 0 \<Rightarrow> [] | Suc n \<Rightarrow> if n = 0 then ''=='' else ''='')"
proof -
  have "b64_pad (x # y # z # u # s) = b64_pad s" for x y z u s
  proof -
    have "- (int (length s) + 4) mod 4 = - int (length s) mod 4" by presburger
    then show ?thesis by (simp add: b64_pad_def algebra_simps)
  qed
  moreover have "Suc (Suc (Suc n)) mod 3 = n mod 3" for n :: nat by presburger
  ultimately show ?thesis
    by (induction b rule: b64_body.induct) (simp_all add: b64_pad_def [of "[]"] b64_pad_def [of "[_, _]"]
        b64_pad_def [of "[_, _, _]"] numeral_2_eq_2)
qed

lemma a2b_steps:
  assumes "v < 64"
  shows "a2b_base64 0 l p (b64_char v # s) = a2b_base64 1 v 0 s"
    "a2b_base64 1 l p (b64_char v # s) = map_option ((#) (of_nat (l * 4 + v div 16))) (a2b_base64 2 (v mod 16) 0 s)"
    "a2b_base64 2 l p (b64_char v # s) = map_option ((#) (of_nat (l * 16 + v div 4))) (a2b_base64 3 (v mod 4) 0 s)"
    "a2b_base64 3 l p (b64_char v # s) = map_option ((#) (of_nat (l * 64 + v))) (a2b_base64 0 0 0 s)"
  using assms by (simp_all add: b64_char_simps del: of_nat_add)

lemma a2b_ends:
  "a2b_base64 0 l p [] = Some []" "a2b_base64 2 l 0 ''=='' = Some []" "a2b_base64 3 l 0 ''='' = Some []"
  by (simp_all add: numeral_2_eq_2)

lemma a2b_body: "a2b_base64 0 left pads (b64_body b @ b64_pad (b64_body b)) = Some b"
proof (induction b arbitrary: left pads rule: b64_body.induct)
  case (4 a b c s)
  have p: "b64_pad (b64_body (a # b # c # s)) = b64_pad (b64_body s)"
    unfolding b64_pad_cases by (simp add: mod_simps)
  show ?case
    unfolding p unfolding b64_body.simps append_Cons a2b_steps [OF b64_sextets(1)] a2b_steps [OF b64_sextets(3)]
      a2b_steps [OF b64_sextets(5)] a2b_steps [OF b64_sextets(6)] b64_joined 4 by simp
next
  case (2 a)
  have p: "b64_pad (b64_body [a]) = ''==''" by (simp only: b64_pad_cases) simp
  show ?case
    unfolding p unfolding b64_body.simps append_Cons append_Nil a2b_steps [OF b64_sextets(1)]
      a2b_steps [OF b64_sextets(2)] b64_joined a2b_ends by simp
next
  case (3 a b)
  have p: "b64_pad (b64_body [a, b]) = ''=''" by (simp only: b64_pad_cases) (simp add: numeral_2_eq_2)
  show ?case
    unfolding p unfolding b64_body.simps append_Cons append_Nil a2b_steps [OF b64_sextets(1)]
      a2b_steps [OF b64_sextets(3)] a2b_steps [OF b64_sextets(4)] b64_joined a2b_ends by simp
qed (simp add: b64_pad_def)

lemma b64_ascii: "\<forall>c \<in> set (b64_body b @ b64_pad (b64_body b)). char_code c < 128"
  using b64_body_chars by (fastforce simp: b64_pad_def char_code_def)

lemma b64_decode_encode [simp]: "urlsafe_b64decode (urlsafe_b64encode b) = Some b"
  using b64_ascii by (simp add: urlsafe_b64decode_def urlsafe_b64encode_def a2b_body)

text \<open>The names of the vault drop the padding; the decoder is given it back.\<close>

lemma b64_strip_pad: "rstrip_by (\<lambda>c. c = CHR ''='') (urlsafe_b64encode b) = b64_body b"
proof -
  have p: "dropWhile (\<lambda>c. c = CHR ''='') (replicate n (CHR ''='') @ s) = dropWhile (\<lambda>c. c = CHR ''='') s" for n s
    by (induction n) auto
  have "s = [] \<or> last s \<noteq> CHR ''=''" if "s = b64_body b" for s
    using b64_body_chars [of "last s" b] that by (metis last_in_set)
  then have "rev (b64_body b) = [] \<or> hd (rev (b64_body b)) \<noteq> CHR ''=''" by (simp add: hd_rev)
  then have "dropWhile (\<lambda>c. c = CHR ''='') (rev (b64_body b)) = rev (b64_body b)"
    by (metis dropWhile_hd)
  then show ?thesis by (simp add: rstrip_by_def urlsafe_b64encode_def b64_pad_def p)
qed

lemma b64_decode_body: "urlsafe_b64decode (b64_body b @ b64_pad (b64_body b)) = Some b"
  using b64_decode_encode [of b] by (simp add: urlsafe_b64encode_def)

lemma b64_char_not_slash: "v < 64 \<Longrightarrow> b64_char v \<notin> {CHR ''/'', CHR ''.''}"
proof -
  assume v: "v < 64"
  have "char_code (b64_char v) = (if v < 26 then v + 65 else if v < 52 then v + 71
      else if v < 62 then v - 4 else if v = 62 then 45 else 95)"
    using v by (simp add: b64_char_def char_code_def)
  moreover have "char_code (CHR ''/'') = 47" "char_code (CHR ''.'') = 46" by (simp_all add: char_code_def)
  ultimately show ?thesis using v by (auto split: if_splits)
qed

lemma b64_body_plain: "c \<in> set (b64_body b) \<Longrightarrow> c \<noteq> CHR ''/'' \<and> c \<noteq> CHR ''.''"
  using b64_sextets b64_char_not_slash by (induction b rule: b64_body.induct) auto

lemma b64_body_Nil [simp]: "b64_body b = [] \<longleftrightarrow> b = []"
  by (cases b rule: b64_body.cases) auto

section \<open>Words of four bytes\<close>

definition pack_be32 :: "nat \<Rightarrow> bytes option" where
  "pack_be32 n = (if n < 2 ^ 32
     then Some (map of_nat [n div 2 ^ 24, n div 2 ^ 16 mod 256, n div 2 ^ 8 mod 256, n mod 256]) else None)"

fun unpack_be32 :: "bytes \<Rightarrow> nat" where
  "unpack_be32 [a, b, c, d] = ((unat a * 256 + unat b) * 256 + unat c) * 256 + unat d"
| "unpack_be32 _ = 0"

lemma pack_be32_length: "pack_be32 n = Some b \<Longrightarrow> length b = 4"
  by (auto simp: pack_be32_def split: if_splits)

lemma unpack_pack: "pack_be32 n = Some b \<Longrightarrow> unpack_be32 b = n"
proof -
  assume p: "pack_be32 n = Some b"
  then have n: "n < 2 ^ 32" by (auto simp: pack_be32_def split: if_splits)
  then have "n div 2 ^ 24 < 256" by simp
  then have "unpack_be32 b = ((n div 2 ^ 24 * 256 + n div 2 ^ 16 mod 256) * 256 + n div 2 ^ 8 mod 256) * 256 + n mod 256"
    using p n by (auto simp: pack_be32_def unat_byte)
  also have "\<dots> = n"
  proof -
    have "n div 2 ^ 24 = n div 2 ^ 16 div 256" "n div 2 ^ 16 = n div 2 ^ 8 div 256" "n div 2 ^ 8 = n div 256"
      by (simp_all add: div_mult2_eq [symmetric])
    then show ?thesis by (simp only: div_mult_mod_eq)
  qed
  finally show ?thesis .
qed

section \<open>Decimal numbers\<close>

definition digit :: "nat \<Rightarrow> char" where "digit d = char_of (d + 48)"

text \<open>\<open>str(n)\<close> and \<open>int(s)\<close> for natural numbers written in digits alone.\<close>

fun decimal :: "nat \<Rightarrow> string" where
  "decimal n = (if n < 10 then [digit n] else decimal (n div 10) @ [digit (n mod 10)])"

declare decimal.simps [simp del]

definition digit_value :: "char \<Rightarrow> nat option" where
  "digit_value c = (let n = char_code c in if 48 \<le> n \<and> n \<le> 57 then Some (n - 48) else None)"

fun decimal_value :: "nat \<Rightarrow> string \<Rightarrow> nat option" where
  "decimal_value a [] = Some a"
| "decimal_value a (c # s) = (case digit_value c of None \<Rightarrow> None | Some d \<Rightarrow> decimal_value (10 * a + d) s)"

definition parse_decimal :: "string \<Rightarrow> nat option" where
  "parse_decimal s = (if s = [] then None else decimal_value 0 s)"

lemma digit_value_digit [simp]: "d < 10 \<Longrightarrow> digit_value (digit d) = Some d"
  by (simp add: digit_value_def digit_def char_code_def Let_def)

lemma decimal_value_append:
  "decimal_value a (s @ t) = (case decimal_value a s of None \<Rightarrow> None | Some b \<Rightarrow> decimal_value b t)"
  by (induction a s rule: decimal_value.induct) (auto split: option.split)

lemma decimal_value_decimal: "decimal_value 0 (decimal n) = Some n"
proof (induction n rule: decimal.induct)
  case (1 n)
  then show ?case
    by (subst decimal.simps) (simp add: decimal_value_append)
qed

lemma decimal_nonempty [simp]: "decimal n \<noteq> []"
  by (subst decimal.simps) simp

lemma parse_decimal_decimal [simp]: "parse_decimal (decimal n) = Some n"
  by (simp add: parse_decimal_def decimal_value_decimal)

end
