(* ===== verification/FileApi.thy ===== *)
theory FileApi
  imports FileZip Accounts DiskRouter Codecs
begin

text \<open>
  The HTTP endpoints of the file sections: \<open>presentation/routers/file_router.py\<close> (\<open>/api/files\<close> and
  \<open>/api/shared\<close>), the factory \<open>file_router_factory.py\<close> for the other sections, the dependencies that
  build a \<open>FileService\<close> for a user, and the translation of exceptions into responses
  (\<open>exception_handlers.py\<close>). An endpoint is an action; parsing the request and writing JSON are
  FastAPI's. The body of an upload is its bytes with the size the form reports.
\<close>

section \<open>Responses to exceptions\<close>

record error_response =
  er_status :: int
  er_code :: string
  er_available_bytes :: "int option"

definition plain_error :: "int \<Rightarrow> string \<Rightarrow> error_response" where
  "plain_error status code = \<lparr>er_status = status, er_code = code, er_available_bytes = None\<rparr>"

fun error_response_of :: "exn \<Rightarrow> error_response" where
  "error_response_of Storage_Unavailable = plain_error 503 ''DISK_UNAVAILABLE''"
| "error_response_of (Quota_Exceeded free) =
     \<lparr>er_status = 413, er_code = ''QUOTA_EXCEEDED'', er_available_bytes = free\<rparr>"
| "error_response_of Path_Traversal = plain_error 400 ''PATH_TRAVERSAL_DETECTED''"
| "error_response_of Private_Session_Expired = plain_error 401 ''PRIVATE_SESSION_EXPIRED''"
| "error_response_of Storage_File_Not_Found = plain_error 404 ''FILE_NOT_FOUND''"
| "error_response_of Access_Denied = plain_error 403 ''ACCESS_DENIED''"
| "error_response_of Permission_Error = plain_error 403 ''ACCESS_DENIED''"
| "error_response_of Auth_Unauthenticated = plain_error 401 ''UNAUTHORIZED''"
| "error_response_of Auth_Blocked = plain_error 403 ''ACCESS_DENIED''"
| "error_response_of Auth_Access_Denied = plain_error 403 ''ACCESS_DENIED''"
| "error_response_of User_Service_Unavailable = plain_error 503 ''USER_SERVICE_UNAVAILABLE''"
| "error_response_of (Keys_Validation code) = plain_error 400 code"
| "error_response_of Keys_Yaml_Invalid = plain_error 409 ''KEYS_YAML_INVALID''"
| "error_response_of (Resume_Validation code) = plain_error 400 code"
| "error_response_of Resume_Node_Exists = plain_error 409 ''RESUME_NODE_EXISTS''"
| "error_response_of Resume_Meta_Invalid = plain_error 409 ''RESUME_META_INVALID''"
| "error_response_of (Generated_Validation code) = plain_error 400 code"
| "error_response_of Generated_Meta_Invalid = plain_error 409 ''GENERATED_META_INVALID''"
| "error_response_of Search_Query_Invalid = plain_error 400 ''SEARCH_QUERY_INVALID''"
| "error_response_of Indexing_Unavailable = plain_error 503 ''INDEXING_UNAVAILABLE''"
| "error_response_of Auth_Misconfigured = plain_error 500 ''INTERNAL_ERROR''"
| "error_response_of (Http_Exception status code free) =
     \<lparr>er_status = status, er_code = code, er_available_bytes = free\<rparr>"
| "error_response_of e = plain_error 500 ''INTERNAL_ERROR''"

section \<open>Paths, names and bodies\<close>

definition normalize_api_path :: "string \<Rightarrow> string" where
  "normalize_api_path path = strip_slash (backslash_to_slash (strip path))"

definition rstrip_slash :: "string \<Rightarrow> string" where
  "rstrip_slash s = rstrip_by (\<lambda>c. c = CHR ''/'') s"

definition build_api_path :: "string \<Rightarrow> string \<Rightarrow> string" where
  "build_api_path parent_path name =
     (let parent = rstrip_slash (backslash_to_slash (strip parent_path)) in
      if parent = [] \<or> parent = ''/'' then CHR ''/'' # name else parent @ CHR ''/'' # name)"

definition validated_filename :: "string option \<Rightarrow> exn + string" where
  "validated_filename given = (case non_empty given of
       None \<Rightarrow> Inl (Http_Exception 400 ''UNSUPPORTED_FORMAT'' None)
     | Some raw \<Rightarrow>
         let name = path_name raw in
         if name = [] \<or> name \<in> {''.'', ''..''} then Inl (Http_Exception 400 ''PATH_TRAVERSAL_DETECTED'' None)
         else Inr name)"

definition READ_CHUNK_SIZE :: nat where "READ_CHUNK_SIZE = 64 * 1024"

text \<open>Chunks of at most \<open>k + 1\<close> bytes, until a read is empty.\<close>

function chunked :: "nat \<Rightarrow> bytes \<Rightarrow> source" where
  "chunked k b = (if b = [] then Source_End else Source_Chunk (take (Suc k) b) (chunked k (drop (Suc k) b)))"
  by pat_completeness auto
termination
  by (relation "measure (\<lambda>(k, b). length b)") auto

declare chunked.simps [simp del]

record uploaded_file =
  uf_filename :: "string option"
  uf_size :: "int option"
  uf_body :: bytes

definition iter_upload_chunks :: "uploaded_file \<Rightarrow> source" where
  "iter_upload_chunks f = chunked (READ_CHUNK_SIZE - 1) (uf_body f)"

definition file_size_of :: "uploaded_file \<Rightarrow> int" where
  "file_size_of f = (case uf_size f of None \<Rightarrow> 0 | Some n \<Rightarrow> n)"

record node_response =
  nr_name :: string
  nr_is_dir :: bool
  nr_size :: int
  nr_modified_at :: instant
  nr_path :: string
  nr_uploaded_by :: "string option"

record record_response =
  re_id :: uuid
  re_name :: string
  re_size :: int
  re_section :: file_section
  re_status :: file_status
  re_created_at :: instant

text \<open>The response models demand sizes that are not negative.\<close>

definition node_response :: "file_node \<Rightarrow> string \<Rightarrow> exn + node_response" where
  "node_response n path =
     (if fn_size n < 0 then Inl Other_Error
      else Inr \<lparr>nr_name = fn_name n, nr_is_dir = fn_is_dir n, nr_size = fn_size n,
        nr_modified_at = fn_modified_at n, nr_path = path, nr_uploaded_by = fn_uploaded_by n\<rparr>)"

definition file_record_response :: "file_record \<Rightarrow> exn + record_response" where
  "file_record_response r =
     (if fr_size_bytes r < 0 then Inl Other_Error
      else Inr \<lparr>re_id = fr_id r, re_name = fr_original_name r, re_size = fr_size_bytes r,
        re_section = fr_section r, re_status = fr_status r, re_created_at = fr_created_at r\<rparr>)"

section \<open>\<open>Content-Disposition\<close>\<close>

text \<open>\<open>urllib.parse.quote(s, safe="")\<close>: the UTF-8 bytes of what is not a letter, a digit or one of \<open>_.-~\<close>.\<close>

definition unreserved :: "char \<Rightarrow> bool" where
  "unreserved c \<longleftrightarrow> (let n = char_code c in
     48 \<le> n \<and> n \<le> 57 \<or> 65 \<le> n \<and> n \<le> 90 \<or> 97 \<le> n \<and> n \<le> 122 \<or> c \<in> set ''_.-~'')"

definition upper_hex :: "nat \<Rightarrow> char" where
  "upper_hex d = (if d < 10 then char_of (48 + d) else char_of (55 + d))"

definition percent :: "nat \<Rightarrow> string" where
  "percent n = [CHR ''%'', upper_hex (n div 16), upper_hex (n mod 16)]"

definition quote :: "string \<Rightarrow> string" where
  "quote s = concat (map (\<lambda>c. if unreserved c then [c] else concat (map percent (utf8_char c))) s)"

definition ascii_fallback :: "string \<Rightarrow> string" where
  "ascii_fallback filename =
     (let a = strip (map (\<lambda>c. if char_code c < 128 then c else CHR ''_'') filename);
          b = (if a = [] then ''download'' else a)
      in map (\<lambda>c. if c = CHR 0x22 then CHR 0x27 else c) b)"

definition build_attachment_content_disposition :: "string \<Rightarrow> string" where
  "build_attachment_content_disposition filename =
     ''attachment; filename='' @ [CHR 0x22] @ ascii_fallback filename @ [CHR 0x22] @
     ''; filename*=UTF-8'' @ [CHR 0x27, CHR 0x27] @ quote filename"

record file_response =
  fp_media_type :: string
  fp_disposition :: string
  fp_body :: bytes

section \<open>Quota\<close>

definition total_quota :: "quota_usage \<Rightarrow> storage_quota" where
  "total_quota usage = \<lparr>used_bytes = qu_total_bytes usage, limit_bytes = qu_limit_bytes usage\<rparr>"

definition available_upload_bytes :: "storage_quota \<Rightarrow> int \<Rightarrow> int" where
  "available_upload_bytes q requested = (if is_unlimited q then requested else available_bytes q)"

definition ensure_upload_quota :: "env \<Rightarrow> uuid \<Rightarrow> int \<Rightarrow> storage_quota action" where
  "ensure_upload_quota E u n =
     bind (get_by_user_id E u) (\<lambda>usage.
     let q = total_quota usage in
     if would_exceed q n then raise (Quota_Exceeded (Some (available_bytes q))) else ret q)"

text \<open>\<open>_validate_zip_archive\<close>: the sum of the uncompressed sizes.\<close>

definition validate_zip_archive :: "zip_entry list option \<Rightarrow> exn + int" where
  "validate_zip_archive packed =
     (let bad = Inl (Http_Exception 400 ''UNSUPPORTED_FORMAT'' None) in
      case packed of
        None \<Rightarrow> bad
      | Some entries \<Rightarrow>
          if entries = [] then bad
          else if \<exists>e \<in> set entries. starts_with (backslash_to_slash (ze_filename e)) ''/'' then bad
          else if \<exists>e \<in> set entries. ''..'' \<in> set (path_parts (backslash_to_slash (ze_filename e))) then bad
          else Inr (sum_list (map ze_file_size entries)))"

section \<open>Services for a user\<close>

definition user_files_root_prefix :: "uuid \<Rightarrow> string" where
  "user_files_root_prefix u = ''users/'' @ uuid_str u @ ''/files''"

definition user_photos_root_prefix :: "uuid \<Rightarrow> string" where
  "user_photos_root_prefix u = ''users/'' @ uuid_str u @ ''/photos''"

definition user_private_root_prefix :: "uuid \<Rightarrow> string" where
  "user_private_root_prefix u = ''users/'' @ uuid_str u @ ''/private''"

definition user_resumes_root_prefix :: "uuid \<Rightarrow> string" where
  "user_resumes_root_prefix u = ''users/'' @ uuid_str u @ ''/resumes''"

definition user_generated_root_prefix :: "uuid \<Rightarrow> string" where
  "user_generated_root_prefix u = ''users/'' @ uuid_str u @ ''/generated''"

definition shared_root_prefix :: string where
  "shared_root_prefix = ''shared''"

definition build_section_adapter :: "env \<Rightarrow> string \<Rightarrow> string \<Rightarrow> string list \<Rightarrow> storage action" where
  "build_section_adapter E disk_id root_prefix ensure_subdirs =
     (let A = create_storage_adapter E disk_id root_prefix in
      bind (st_mkdir A []) (\<lambda>_.
      bind (for_each (st_mkdir A) ensure_subdirs) (\<lambda>_. ret A)))"

text \<open>The disk of the first record the user has in the sections, in their order, or a disk to write to.\<close>

fun resolve_disk_id :: "env \<Rightarrow> uuid \<Rightarrow> file_section list \<Rightarrow> string action" where
  "resolve_disk_id E u [] = bind (get_write_disk E) (\<lambda>d. ret (dv_id d))"
| "resolve_disk_id E u (sec # secs) =
     bind (list_by_user_section u sec) (\<lambda>records. case records of
       r # _ \<Rightarrow> ret (fr_disk_id r)
     | [] \<Rightarrow> resolve_disk_id E u secs)"

definition resolve_shared_disk_id :: "env \<Rightarrow> string action" where
  "resolve_shared_disk_id E =
     bind (list_by_section SHARED (Some 1)) (\<lambda>records. case records of
       r # _ \<Rightarrow> ret (fr_disk_id r)
     | [] \<Rightarrow> bind (get_write_disk E) (\<lambda>d. ret (dv_id d)))"

definition DISK_UNAVAILABLE_503 :: "exn \<times> exn" where
  "DISK_UNAVAILABLE_503 = (Storage_Unavailable, Http_Exception 503 ''DISK_UNAVAILABLE'' None)"

text \<open>A service on an adapter whose objects are not encrypted.\<close>

definition plain_service :: "env \<Rightarrow> storage \<Rightarrow> file_section \<Rightarrow> link_port option \<Rightarrow> file_service" where
  "plain_service E A sec index = \<lparr>fs_env = E, fs_adapter = A, fs_section = sec,
     fs_archive_manager = True, fs_index = index, fs_decrypt = None\<rparr>"

definition get_file_service :: "env \<Rightarrow> user \<Rightarrow> file_service action" where
  "get_file_service E u =
     bind (as_http [DISK_UNAVAILABLE_503]
       (bind (resolve_disk_id E (us_id u) [FILES]) (\<lambda>disk.
        build_section_adapter E disk (user_files_root_prefix (us_id u)) []))) (\<lambda>A.
     ret (plain_service E A FILES (Some (sql_links E))))"

definition get_shared_file_service :: "env \<Rightarrow> user \<Rightarrow> file_service action" where
  "get_shared_file_service E u =
     bind (check_role [FAMILY, ADMIN] u) (\<lambda>_.
     bind (as_http [DISK_UNAVAILABLE_503]
       (bind (resolve_shared_disk_id E) (\<lambda>disk.
        build_section_adapter E disk shared_root_prefix []))) (\<lambda>A.
     ret (plain_service E A SHARED None)))"

definition get_resumes_file_service :: "env \<Rightarrow> user \<Rightarrow> file_service action" where
  "get_resumes_file_service E u =
     bind (check_role [FAMILY, ADMIN] u) (\<lambda>_.
     bind (as_http [DISK_UNAVAILABLE_503]
       (bind (resolve_disk_id E (us_id u) [RESUMES]) (\<lambda>disk.
        build_section_adapter E disk (user_resumes_root_prefix (us_id u)) []))) (\<lambda>A.
     ret (plain_service E A RESUMES None)))"

definition get_generated_file_service :: "env \<Rightarrow> user \<Rightarrow> file_service action" where
  "get_generated_file_service E u =
     bind (as_http [DISK_UNAVAILABLE_503]
       (bind (resolve_disk_id E (us_id u) [GENERATED]) (\<lambda>disk.
        build_section_adapter E disk (user_generated_root_prefix (us_id u)) []))) (\<lambda>A.
     ret (plain_service E A GENERATED None))"

section \<open>Endpoints\<close>

text \<open>
  One set of endpoints: the section new files are stored in, whether the router notifies the index
  after the commit (only \<open>/api/files\<close> does), and the dependency that supplies the service.
\<close>

record file_api =
  fa_section :: file_section
  fa_notifies :: bool
  fa_service :: "user \<Rightarrow> file_service action"

definition files_api :: "env \<Rightarrow> file_api" where
  "files_api E = \<lparr>fa_section = FILES, fa_notifies = True, fa_service = get_file_service E\<rparr>"

definition shared_api :: "env \<Rightarrow> file_api" where
  "shared_api E = \<lparr>fa_section = SHARED, fa_notifies = False, fa_service = get_shared_file_service E\<rparr>"

definition resumes_api :: "env \<Rightarrow> file_api" where
  "resumes_api E = \<lparr>fa_section = RESUMES, fa_notifies = False, fa_service = get_resumes_file_service E\<rparr>"

text \<open>A handler's block \<open>try: ...; commit; except: rollback; raise\<close>, with the notifications after it.\<close>

definition committed :: "env \<Rightarrow> file_api \<Rightarrow> 'a action \<Rightarrow> 'a action" where
  "committed E api m =
     (if fa_notifies api then
        bind (capture_immediate_index_ids (in_session m)) (\<lambda>(x, queued_ids).
        bind (deliver_immediate_index_notifications E queued_ids) (\<lambda>_. ret x))
      else in_session m)"

definition list_files :: "file_service \<Rightarrow> user \<Rightarrow> string \<Rightarrow> node_response list action" where
  "list_files S u path =
     bind (list_directory S (us_id u) (normalize_api_path path)) (\<lambda>nodes.
     let stripped = rstrip_slash (backslash_to_slash (strip path));
         api_base = (if stripped = [] then ''/'' else stripped) in
     map_act (\<lambda>n. lift (node_response n (build_api_path api_base (fn_name n)))) nodes)"

definition upload_endpoint ::
  "env \<Rightarrow> file_api \<Rightarrow> file_service \<Rightarrow> user \<Rightarrow> string \<Rightarrow> uploaded_file \<Rightarrow> record_response action" where
  "upload_endpoint E api S u path f =
     bind (lift (validated_filename (uf_filename f))) (\<lambda>filename.
     bind (committed E api
       (bind (ensure_upload_quota E (us_id u) (file_size_of f)) (\<lambda>_.
        upload_file S (us_id u) (normalize_api_path path) filename (iter_upload_chunks f)
          (file_size_of f) (fa_section api)))) (\<lambda>r.
     lift (file_record_response r)))"

record zip_response =
  zr_files :: int
  zr_dirs :: int
  zr_total_bytes :: int

definition upload_zip_endpoint ::
  "env \<Rightarrow> file_api \<Rightarrow> file_service \<Rightarrow> user \<Rightarrow> string \<Rightarrow> string option \<Rightarrow> zip_entry list option \<Rightarrow>
    zip_response action" where
  "upload_zip_endpoint E api S u path given packed =
     bind (lift (validated_filename given)) (\<lambda>filename.
     if \<not> ends_with (lower filename) ''.zip'' then raise (Http_Exception 400 ''UNSUPPORTED_FORMAT'' None)
     else
       bind (lift (validate_zip_archive packed)) (\<lambda>unpacked.
       bind (try_except
         (committed E api
           (bind (ensure_upload_quota E (us_id u) unpacked) (\<lambda>q.
            upload_zip_folder S (us_id u) (normalize_api_path path) filename packed unpacked
              (available_upload_bytes q unpacked))))
         (\<lambda>e. raise (case e of
             Quota_Exceeded free \<Rightarrow> Http_Exception 413 ''QUOTA_EXCEEDED'' free
           | Value_Error \<Rightarrow> Http_Exception 400 ''UNSUPPORTED_FORMAT'' None
           | _ \<Rightarrow> e))) (\<lambda>stats.
       ret \<lparr>zr_files = zs_files stats, zr_dirs = int (card (set (zs_dirs stats))),
            zr_total_bytes = zs_total_bytes stats\<rparr>)))"

definition download_endpoint :: "env \<Rightarrow> file_service \<Rightarrow> user \<Rightarrow> string \<Rightarrow> file_response action" where
  "download_endpoint E S u path =
     (let normalized = normalize_api_path path; filename = path_name normalized in
      bind (read_by_path S (us_id u) normalized) (\<lambda>b.
      ret \<lparr>fp_media_type = mime_type_of E filename,
           fp_disposition = build_attachment_content_disposition filename, fp_body = b\<rparr>))"

definition download_folder_endpoint :: "nat \<Rightarrow> file_service \<Rightarrow> user \<Rightarrow> string \<Rightarrow> file_response action" where
  "download_folder_endpoint depth S u path =
     (let normalized = normalize_api_path path;
          dir_name = (if path_name normalized = [] then ''folder'' else path_name normalized) in
      bind (download_directory_as_zip depth S (us_id u) normalized) (\<lambda>b.
      ret \<lparr>fp_media_type = ''application/zip'',
           fp_disposition = build_attachment_content_disposition (dir_name @ ''.zip''), fp_body = b\<rparr>))"

definition delete_endpoint :: "env \<Rightarrow> file_api \<Rightarrow> file_service \<Rightarrow> user \<Rightarrow> string \<Rightarrow> unit action" where
  "delete_endpoint E api S u path =
     committed E api (delete_by_path S (us_id u) path (Some (us_role u)))"

text \<open>The request models demand names of at least one character.\<close>

definition mkdir_endpoint :: "file_service \<Rightarrow> user \<Rightarrow> string \<Rightarrow> string \<Rightarrow> (string \<times> string) action" where
  "mkdir_endpoint S u path name =
     (if name = [] then raise (Http_Exception 422 [] None)
      else
        bind (in_session (create_directory S (normalize_api_path path) name)) (\<lambda>_.
        ret (build_api_path path name, name)))"

definition rename_endpoint :: "file_service \<Rightarrow> user \<Rightarrow> string \<Rightarrow> string \<Rightarrow> record_response option action" where
  "rename_endpoint S u path new_name =
     (if new_name = [] then raise (Http_Exception 422 [] None)
      else
        bind (in_session (rename_by_path S (us_id u) path new_name)) (\<lambda>renamed.
        case renamed of
          None \<Rightarrow> ret None
        | Some r \<Rightarrow> bind (lift (file_record_response r)) (\<lambda>x. ret (Some x))))"

definition search_endpoint :: "string \<Rightarrow> unit action" where
  "search_endpoint q =
     (if q = [] then raise (Http_Exception 422 [] None)
      else raise (Http_Exception 501 ''NOT_IMPLEMENTED'' None))"

text \<open>A request: its user, its service, its handler. What is not committed is lost when the session closes.\<close>

definition requested :: "env \<Rightarrow> file_api \<Rightarrow> headers \<Rightarrow> (file_service \<Rightarrow> user \<Rightarrow> 'a action) \<Rightarrow> 'a action" where
  "requested E api H handler =
     bind (get_current_user E H) (\<lambda>u. bind (fa_service api u) (\<lambda>S. handler S u))"

datatype file_request =
    R_List string
  | R_Upload string uploaded_file
  | R_Upload_Zip string "string option" "zip_entry list option"
  | R_Download string
  | R_Download_Folder string
  | R_Delete string
  | R_Mkdir string string
  | R_Rename string string
  | R_Search string

text \<open>The handler of a request; the number bounds the depth of directories that are packed.\<close>

fun handle :: "env \<Rightarrow> nat \<Rightarrow> file_api \<Rightarrow> file_request \<Rightarrow> file_service \<Rightarrow> user \<Rightarrow> unit action" where
  "handle E depth api (R_List path) S u =
     without_commit (bind (list_files S u path) (\<lambda>_. ret ()))"
| "handle E depth api (R_Upload path f) S u = bind (upload_endpoint E api S u path f) (\<lambda>_. ret ())"
| "handle E depth api (R_Upload_Zip path name packed) S u =
     bind (upload_zip_endpoint E api S u path name packed) (\<lambda>_. ret ())"
| "handle E depth api (R_Download path) S u =
     without_commit (bind (download_endpoint E S u path) (\<lambda>_. ret ()))"
| "handle E depth api (R_Download_Folder path) S u =
     without_commit (bind (download_folder_endpoint depth S u path) (\<lambda>_. ret ()))"
| "handle E depth api (R_Delete path) S u = delete_endpoint E api S u path"
| "handle E depth api (R_Mkdir path name) S u = bind (mkdir_endpoint S u path name) (\<lambda>_. ret ())"
| "handle E depth api (R_Rename path name) S u = bind (rename_endpoint S u path name) (\<lambda>_. ret ())"
| "handle E depth api (R_Search q) S u = search_endpoint q"

text \<open>The search needs a user but no service. Serving a request: nothing, or the error response.\<close>

definition respond :: "env \<Rightarrow> nat \<Rightarrow> file_api \<Rightarrow> headers \<Rightarrow> file_request \<Rightarrow> unit action" where
  "respond E depth api H req = (case req of
       R_Search q \<Rightarrow> bind (get_current_user E H) (\<lambda>_. search_endpoint q)
     | _ \<Rightarrow> requested E api H (handle E depth api req))"

definition serve :: "env \<Rightarrow> nat \<Rightarrow> file_api \<Rightarrow> headers \<Rightarrow> file_request \<Rightarrow> error_response option action" where
  "serve E depth api H req =
     try_except (bind (respond E depth api H req) (\<lambda>_. ret None))
       (\<lambda>e. ret (Some (error_response_of e)))"

end
