(* ===== verification/Triples.thy ===== *)
theory Triples
  imports World
begin

text \<open>
  Hoare triples for actions, with one postcondition for a returned value and one for a raised
  exception. The file services are verified with them: an assertion follows a record and the
  byte counters from statement to statement.
\<close>

definition triple ::
  "('s \<Rightarrow> bool) \<Rightarrow> ('s, 'e, 'a) act \<Rightarrow> ('a \<Rightarrow> 's \<Rightarrow> bool) \<Rightarrow> ('e \<Rightarrow> 's \<Rightarrow> bool) \<Rightarrow> bool" where
  "triple P m Q X \<longleftrightarrow> (\<forall>s. P s \<longrightarrow> (case m s of (Inl e, s') \<Rightarrow> X e s' | (Inr x, s') \<Rightarrow> Q x s'))"

lemma tripleI:
  "(\<And>s x s'. P s \<Longrightarrow> m s = (Inr x, s') \<Longrightarrow> Q x s') \<Longrightarrow>
   (\<And>s e s'. P s \<Longrightarrow> m s = (Inl e, s') \<Longrightarrow> X e s') \<Longrightarrow> triple P m Q X"
  by (auto simp: triple_def split: prod.split sum.split)

lemma tripleD: "triple P m Q X \<Longrightarrow> P s \<Longrightarrow> m s = (Inr x, s') \<Longrightarrow> Q x s'"
  by (fastforce simp: triple_def)

lemma tripleD_error: "triple P m Q X \<Longrightarrow> P s \<Longrightarrow> m s = (Inl e, s') \<Longrightarrow> X e s'"
  by (fastforce simp: triple_def)

lemma triple_weaken:
  "triple P' m Q' X' \<Longrightarrow> (\<And>s. P s \<Longrightarrow> P' s) \<Longrightarrow> (\<And>x s. Q' x s \<Longrightarrow> Q x s) \<Longrightarrow>
   (\<And>e s. X' e s \<Longrightarrow> X e s) \<Longrightarrow> triple P m Q X"
  by (fastforce simp: triple_def split: prod.splits sum.splits)

lemma triple_pre: "triple P' m Q X \<Longrightarrow> (\<And>s. P s \<Longrightarrow> P' s) \<Longrightarrow> triple P m Q X"
  by (rule triple_weaken)

lemma triple_fact: "(b \<Longrightarrow> triple P m Q X) \<Longrightarrow> triple (\<lambda>s. b \<and> P s) m Q X"
  by (auto simp: triple_def)

lemma triple_fact_right: "(b \<Longrightarrow> triple P m Q X) \<Longrightarrow> triple (\<lambda>s. P s \<and> b) m Q X"
  by (auto simp: triple_def)

lemma triple_ret: "(\<And>s. P s \<Longrightarrow> Q x s) \<Longrightarrow> triple P (ret x) Q X"
  by (simp add: triple_def)

lemma triple_raise: "(\<And>s. P s \<Longrightarrow> X e s) \<Longrightarrow> triple P (raise e) Q X"
  by (simp add: triple_def)

lemma triple_bind: "triple P m R X \<Longrightarrow> (\<And>x. triple (R x) (f x) Q X) \<Longrightarrow> triple P (bind m f) Q X"
  by (fastforce simp: triple_def bind_def split: prod.splits sum.splits)

lemma triple_seq:
  "triple P m R Y \<Longrightarrow> (\<And>x. triple (R x) (f x) Q X) \<Longrightarrow> (\<And>e s. Y e s \<Longrightarrow> X e s) \<Longrightarrow>
   triple P (bind m f) Q X"
  by (rule triple_bind) (rule triple_weaken)

lemma triple_try: "triple P m Q Y \<Longrightarrow> (\<And>e. triple (Y e) (h e) Q X) \<Longrightarrow> triple P (try_except m h) Q X"
  by (fastforce simp: triple_def try_except_def split: prod.splits sum.splits)

lemma triple_if:
  "(b \<Longrightarrow> triple P m Q X) \<Longrightarrow> (\<not> b \<Longrightarrow> triple P n Q X) \<Longrightarrow> triple P (if b then m else n) Q X"
  by simp

lemma triple_option:
  "(x = None \<Longrightarrow> triple P m Q X) \<Longrightarrow> (\<And>y. x = Some y \<Longrightarrow> triple P (f y) Q X) \<Longrightarrow>
   triple P (case x of None \<Rightarrow> m | Some y \<Rightarrow> f y) Q X"
  by (simp split: option.split)

lemma triple_prod: "(\<And>a b. x = (a, b) \<Longrightarrow> triple P (f a b) Q X) \<Longrightarrow> triple P (case x of (a, b) \<Rightarrow> f a b) Q X"
  by (simp split: prod.split)

lemma triple_let: "triple P (f x) Q X \<Longrightarrow> triple P (let y = x in f y) Q X"
  by simp

lemma triple_keeps: "keeps I m \<Longrightarrow> triple I m (\<lambda>_. I) (\<lambda>_. I)"
  by (auto intro!: tripleI dest: keepsD_run)

lemma triple_imp_keeps:
  assumes "triple I m (\<lambda>_. I) (\<lambda>_. I)"
  shows "keeps I m"
proof (rule keepsI)
  fix s assume "I s"
  moreover obtain r s' where "m s = (r, s')" by fastforce
  ultimately show "I (snd (m s))"
    using assms by (cases r) (auto dest: tripleD tripleD_error)
qed

lemma triple_true: "triple P m (\<lambda>_ _. True) (\<lambda>_ _. True)"
  by (auto simp: triple_def split: prod.split sum.split)

text \<open>A handler that cleans up and raises again does not return.\<close>

lemma triple_reraise:
  "triple P (bind m (\<lambda>_. raise e)) Q (\<lambda>_ _. True)"
  "triple P (bind m (\<lambda>_. bind m' (\<lambda>_. raise e))) Q (\<lambda>_ _. True)"
  by (rule triple_bind [OF triple_true], (rule triple_bind [OF triple_true])?, rule triple_raise, rule TrueI)+

lemma triple_for_each:
  assumes "\<And>x ys. triple (I (x # ys)) (f x) (\<lambda>_. I ys) X"
  shows "triple (I xs) (for_each f xs) (\<lambda>_. I []) X"
proof (induction xs)
  case Nil
  show ?case unfolding for_each.simps by (rule triple_ret)
next
  case (Cons x xs)
  show ?case
    unfolding for_each.simps by (rule triple_bind) (use assms Cons in auto)
qed

lemma triple_conj:
  "triple P m Q X \<Longrightarrow> triple P' m Q' X' \<Longrightarrow>
   triple (\<lambda>s. P s \<and> P' s) m (\<lambda>x s. Q x s \<and> Q' x s) (\<lambda>e s. X e s \<and> X' e s)"
  by (auto simp: triple_def split: prod.splits sum.splits)

text \<open>The session block: what a request leaves behind, committed or rolled back.\<close>

lemma triple_in_session:
  assumes "triple I m (\<lambda>_ w. broken w \<or> I w) (\<lambda>_ _. True)"
    and "\<And>w w'. I w \<Longrightarrow> I (rollback w w')"
  shows "keeps I (in_session m)"
proof (rule keepsI)
  fix w assume I: "I w"
  obtain r w' where m: "m w = (r, w')" by fastforce
  show "I (snd (in_session m w))"
  proof (cases r)
    case (Inr x)
    with m I assms(1) have "broken w' \<or> I w'" by (blast dest: tripleD)
    with m Inr I assms(2) show ?thesis by (auto simp: in_session_def)
  qed (use m I assms(2) in \<open>simp add: in_session_def\<close>)
qed

end
