(* ===== verification/FileTables.thy ===== *)
theory FileTables
  imports FileService Triples
begin

text \<open>
  How the operations of the file and quota repositories change the two tables. \<open>desk A w0 d\<close> is the
  assertion that runs through the file services: since \<open>w0\<close> only rows of users in \<open>A\<close> have changed,
  and the counter of every user is the size of the active records, up to the difference \<open>d\<close> of
  the statement just executed. A broken session satisfies it, since nothing of it is committed.
\<close>

section \<open>Actions that leave the two tables alone\<close>

definition same_files :: "world \<Rightarrow> world \<Rightarrow> bool" where
  "same_files w w' \<longleftrightarrow> files w' = files w \<and> quotas w' = quotas w \<and> users w' = users w \<and>
     (broken w \<longrightarrow> broken w')"

lemma same_files_refl [simp]: "same_files w w"
  by (simp add: same_files_def)

lemma same_files_trans: "same_files a b \<Longrightarrow> same_files b c \<Longrightarrow> same_files a c"
  by (simp add: same_files_def)

lemma same_rows_files: "same_rows w w' \<Longrightarrow> same_files w w'"
  by (simp add: same_rows_def same_files_def)

definition quiet :: "'a action \<Rightarrow> bool" where
  "quiet m \<longleftrightarrow> (\<forall>w0. keeps (same_files w0) m)"

named_theorems quiet_rules

lemma quietD: "quiet m \<Longrightarrow> m w = (r, w') \<Longrightarrow> same_files w w'"
  using same_files_refl keepsD_run unfolding quiet_def by metis

lemma quiet_keeps: "quiet m \<Longrightarrow> keeps (same_files w0) m"
  by (simp add: quiet_def)

lemma rowless_quiet: "rowless m \<Longrightarrow> quiet m"
  unfolding quiet_def keeps_def
  by (metis rowlessD same_files_trans same_rows_files surjective_pairing)

lemma quiet_bind [quiet_rules]: "quiet m \<Longrightarrow> (\<And>x. quiet (f x)) \<Longrightarrow> quiet (bind m f)"
  by (auto simp: quiet_def intro: keep_rules)

lemma quiet_try [quiet_rules]: "quiet m \<Longrightarrow> (\<And>e. quiet (h e)) \<Longrightarrow> quiet (try_except m h)"
  by (auto simp: quiet_def intro: keep_rules)

lemma quiet_if [quiet_rules]: "quiet m \<Longrightarrow> quiet n \<Longrightarrow> quiet (if b then m else n)"
  by simp

lemma quiet_option [quiet_rules]:
  "quiet m \<Longrightarrow> (\<And>y. quiet (g y)) \<Longrightarrow> quiet (case x of None \<Rightarrow> m | Some y \<Rightarrow> g y)"
  by (simp split: option.split)

lemma quiet_let [quiet_rules]: "quiet (f x) \<Longrightarrow> quiet (let y = x in f y)"
  by simp

lemma quiet_rowless_atoms [quiet_rules, simp]: "quiet (ret x)" "quiet (raise e)" "quiet (lift v)"
  "quiet (query q)" "quiet (utc_now E)" "quiet (new_uuid E)" "quiet (one_or_none xs)"
  by (rule rowless_quiet, simp)+

text \<open>The queue operations change only the table of links.\<close>

lemma flush_link_quiet: "keeps (same_files w0) (flush_link m)"
  by (auto simp: keeps_def flush_link_def Let_def same_files_def)

lemma insert_link_quiet: "keeps (same_files w0) (insert_link E m)"
  by (auto simp: keeps_def insert_link_def Let_def same_files_def split: option.split)

lemma rowless_same_files: "rowless m \<Longrightarrow> keeps (same_files w0) m"
  by (rule quiet_keeps) (rule rowless_quiet)

lemma require_file_link_rowless: "rowless (require_file_link f)"
  unfolding require_file_link_def by (intro rowless_rules)

lemmas repo_atoms_quiet = rowless_moment [THEN rowless_same_files]
  rowless_refuse [THEN rowless_same_files] rowless_model_by_file [THEN rowless_same_files]
  require_file_link_rowless [THEN rowless_same_files] rowless_utc_now [THEN rowless_same_files]
  rowless_new_uuid [THEN rowless_same_files]

lemma apply_transition_quiet: "keeps (same_files w0) (apply_transition E i t now)"
  unfolding apply_transition_def Let_def
  by (intro keep_rules flush_link_quiet repo_atoms_quiet)

lemma upsert_pending_quiet: "keeps (same_files w0) (upsert_pending E r d now)"
  unfolding upsert_pending_def Let_def
  by (auto intro!: keep_rules insert_link_quiet repo_atoms_quiet split: exn.split bool.split)

interpretation files_alone: link_invariant "sql_links E" "same_files w0" True for E w0
proof unfold_locales
  fix w w' :: world
  assume "same_rows w w'" and "same_files w0 w"
  then show "same_files w0 w'" by (blast intro: same_files_trans same_rows_files)
next
  fix f key now
  show "keeps (same_files w0) (lp_mark_rekey (sql_links E) f key now)"
    unfolding sql_links_simps mark_rekey_def Let_def
    by (intro keep_rules flush_link_quiet apply_transition_quiet repo_atoms_quiet)
next
  fix fs now
  show "keeps (same_files w0) (lp_mark_removed (sql_links E) fs now)"
    unfolding sql_links_simps mark_removed_def Let_def
    by (intro keep_rules apply_transition_quiet repo_atoms_quiet)
next
  fix n now
  show "keeps (same_files w0) (lp_retry_failed (sql_links E) n now)"
    unfolding sql_links_simps retry_failed_def Let_def
    by (intro keep_rules apply_transition_quiet repo_atoms_quiet)
qed (auto simp: mark_content_changed_def mark_archived_def
    intro!: keep_rules upsert_pending_quiet apply_transition_quiet repo_atoms_quiet)

text \<open>The enqueue functions, on the repository or without one.\<close>

definition sql_index :: "env \<Rightarrow> link_port option \<Rightarrow> bool" where
  "sql_index E index \<longleftrightarrow> index = None \<or> index = Some (sql_links E)"

lemma enqueue_quiet [quiet_rules]:
  assumes "sql_index E index"
  shows "quiet (enqueue_upload E index r)" "quiet (enqueue_content_changed E index r)"
    "quiet (enqueue_rekey E index r)" "quiet (enqueue_rekey_many E index rs)"
    "quiet (enqueue_removed E index fs)" "quiet (enqueue_archived E index r)"
  using files_alone.enqueue_keeps [OF assms [unfolded sql_index_def]] by (simp_all add: quiet_def)

section \<open>Assertions that survive them\<close>

definition steady :: "(world \<Rightarrow> bool) \<Rightarrow> bool" where
  "steady P \<longleftrightarrow> (\<forall>w w'. same_files w w' \<longrightarrow> P w \<longrightarrow> P w')"

lemma steadyD: "steady P \<Longrightarrow> same_files w w' \<Longrightarrow> P w \<Longrightarrow> P w'"
  by (auto simp: steady_def)

lemma steady_conj [intro]: "steady P \<Longrightarrow> steady Q \<Longrightarrow> steady (\<lambda>w. P w \<and> Q w)"
  by (auto simp: steady_def)

lemma steady_all [intro]: "(\<And>x. steady (P x)) \<Longrightarrow> steady (\<lambda>w. \<forall>x. P x w)"
  by (auto simp: steady_def)

lemma steady_ball [intro]: "(\<And>x. steady (P x)) \<Longrightarrow> steady (\<lambda>w. \<forall>x \<in> X. P x w)"
  by (auto simp: steady_def)

lemma triple_quiet: "quiet m \<Longrightarrow> steady P \<Longrightarrow> triple P m (\<lambda>_. P) (\<lambda>_. P)"
  by (auto intro!: tripleI dest: quietD steadyD)

lemma quiet_seq:
  assumes "quiet m" and "steady P" and "\<And>x. triple P (f x) Q X" and "\<And>e w. P w \<Longrightarrow> X e w"
  shows "triple P (bind m f) Q X"
proof (rule triple_bind [where R = "\<lambda>_. P"])
  show "triple P m (\<lambda>_. P) X" by (rule triple_weaken [OF triple_quiet [OF assms(1,2)]]) (use assms(4) in auto)
qed (rule assms(3))

text \<open>\<open>on_files F\<close>: the table of files satisfies \<open>F\<close>, unless the session is broken.\<close>

definition on_files :: "(file_record list \<Rightarrow> bool) \<Rightarrow> world \<Rightarrow> bool" where
  "on_files F w \<longleftrightarrow> broken w \<or> F (files w)"

lemma steady_on_files [intro]: "steady (on_files F)"
  by (auto simp: steady_def on_files_def same_files_def)

definition holds :: "file_record \<Rightarrow> world \<Rightarrow> bool" where
  "holds r w \<longleftrightarrow> on_files (\<lambda>fs. find (\<lambda>x. fr_id x = fr_id r) fs = Some r) w"

lemma steady_holds [intro]: "steady (holds r)"
  unfolding holds_def by (rule steady_on_files)

section \<open>The ledger\<close>

definition weight :: "uuid \<Rightarrow> file_record \<Rightarrow> int" where
  "weight u r = (if fr_user_id r = u \<and> is_active r then fr_size_bytes r else 0)"

definition active_bytes :: "uuid \<Rightarrow> world \<Rightarrow> int" where
  "active_bytes u w = sum_list (map (weight u) (files w))"

text \<open>The tables are well formed, and every counter is the size of the user's active records.\<close>

definition ledger :: "(uuid \<Rightarrow> int) \<Rightarrow> world \<Rightarrow> bool" where
  "ledger d w \<longleftrightarrow> distinct (map fr_id (files w)) \<and> quota_table_ok w \<and>
     (\<forall>u. charged u w = active_bytes u w + d u)"

abbreviation balanced :: "world \<Rightarrow> bool" where
  "balanced w \<equiv> ledger (\<lambda>_. 0) w"

definition others_same :: "uuid set \<Rightarrow> world \<Rightarrow> world \<Rightarrow> bool" where
  "others_same A w0 w \<longleftrightarrow>
     filter (\<lambda>r. fr_user_id r \<notin> A) (files w) = filter (\<lambda>r. fr_user_id r \<notin> A) (files w0) \<and>
     filter (\<lambda>q. qu_user_id q \<notin> A) (quotas w) = filter (\<lambda>q. qu_user_id q \<notin> A) (quotas w0)"

definition desk :: "uuid set \<Rightarrow> world \<Rightarrow> (uuid \<Rightarrow> int) \<Rightarrow> world \<Rightarrow> bool" where
  "desk A w0 d w \<longleftrightarrow> broken w \<or> ledger d w \<and> others_same A w0 w"

lemma steady_desk [intro]: "steady (desk A w0 d)"
  by (auto simp: steady_def desk_def ledger_def others_same_def same_files_def quota_table_ok_def
      charged_def get_quota_def active_bytes_def)

lemma desk_broken [simp]: "broken w \<Longrightarrow> desk A w0 d w" "broken w \<Longrightarrow> holds r w"
  by (simp_all add: desk_def holds_def on_files_def)

section \<open>Changing one record\<close>

lemma find_key: "distinct (map k xs) \<Longrightarrow> x \<in> set xs \<Longrightarrow> find (\<lambda>y. k y = k x) xs = Some x"
  by (induction xs) (auto simp: rev_image_eqI)

lemma replace_file_absent: "fr_id r \<notin> fr_id ` set fs \<Longrightarrow> replace_file r fs = fs"
  unfolding replace_file_def by (rule map_idI) (auto simp: rev_image_eqI)

lemma replace_file_Cons:
  "replace_file r (x # fs) = (if fr_id x = fr_id r then r else x) # replace_file r fs"
  by (simp add: replace_file_def)

lemma sum_replace_file:
  fixes g :: "file_record \<Rightarrow> int"
  assumes "distinct (map fr_id fs)" "find (\<lambda>x. fr_id x = fr_id r') fs = Some r"
  shows "sum_list (map g (replace_file r' fs)) = sum_list (map g fs) - g r + g r'"
  using assms
proof (induction fs)
  case (Cons x fs)
  then show ?case
    by (auto simp: replace_file_Cons replace_file_absent split: if_splits)
qed simp

lemma replace_file_ids [simp]: "map fr_id (replace_file r fs) = map fr_id fs"
  by (auto simp: replace_file_def)

lemma filter_replace_file:
  assumes "find (\<lambda>x. fr_id x = fr_id r') fs = Some r" "distinct (map fr_id fs)" "\<not> P r" "\<not> P r'"
  shows "filter P (replace_file r' fs) = filter P fs"
  using assms
proof (induction fs)
  case (Cons x fs)
  then show ?case
    by (auto simp: replace_file_Cons replace_file_absent split: if_splits)
qed simp

lemma find_replace_file:
  "find (\<lambda>x. fr_id x = i) (replace_file r fs) =
    (if i = fr_id r then map_option (\<lambda>_. r) (find (\<lambda>x. fr_id x = i) fs) else find (\<lambda>x. fr_id x = i) fs)"
  by (induction fs) (auto simp: replace_file_def)

definition moved_weight :: "file_record \<Rightarrow> file_record \<Rightarrow> (uuid \<Rightarrow> int) \<Rightarrow> uuid \<Rightarrow> int" where
  "moved_weight r r' d = (\<lambda>u. d u + weight u r - weight u r')"

lemma desk_replace:
  assumes desk: "desk A w0 d w" "\<not> broken w" and r: "get_file (fr_id r) w = Some r"
    and r': "fr_id r' = fr_id r" "fr_user_id r' = fr_user_id r" "fr_user_id r \<in> A"
  shows "desk A w0 (moved_weight r r' d) (w\<lparr>files := replace_file r' (files w)\<rparr>)"
proof -
  have f: "find (\<lambda>x. fr_id x = fr_id r') (files w) = Some r" using r r'(1) by (simp add: get_file_def)
  have l: "ledger d w" "others_same A w0 w" using desk by (simp_all add: desk_def)
  then have dist: "distinct (map fr_id (files w))" by (simp add: ledger_def)
  have "filter (\<lambda>x. fr_user_id x \<notin> A) (replace_file r' (files w)) = filter (\<lambda>x. fr_user_id x \<notin> A) (files w)"
    by (rule filter_replace_file [OF f dist]) (use r' in simp_all)
  with l sum_replace_file [OF dist f] show ?thesis
    by (auto simp: desk_def ledger_def others_same_def moved_weight_def active_bytes_def charged_def
        get_quota_def quota_table_ok_def)
qed

lemma triple_change_file:
  assumes same: "fr_id (change r) = fr_id r" "fr_user_id (change r) = fr_user_id r" and A: "fr_user_id r \<in> A"
  shows "triple (\<lambda>w. desk A w0 d w \<and> holds r w) (change_file (fr_id r) change)
    (\<lambda>res w. res = Some (change r) \<and> desk A w0 (moved_weight r (change r) d) w \<and> holds (change r) w)
    (\<lambda>_ w. broken w)"
proof (rule tripleI)
  fix w res w'
  assume pre: "desk A w0 d w \<and> holds r w" and exec: "change_file (fr_id r) change w = (Inr res, w')"
  then have b: "\<not> broken w" by (auto simp: change_file_def bind_Inr query_def split: if_splits)
  with pre have g: "get_file (fr_id r) w = Some r" by (simp add: holds_def on_files_def get_file_def)
  with b have "res = Some (change r)" and w': "w' = w\<lparr>files := replace_file (change r) (files w)\<rparr>"
    using exec by (auto simp: change_file_def flush_file_def run split: if_splits)
  moreover have "holds (change r) w'"
    using g same by (simp add: w' holds_def on_files_def get_file_def find_replace_file)
  ultimately show "res = Some (change r) \<and> desk A w0 (moved_weight r (change r) d) w' \<and> holds (change r) w'"
    using desk_replace [OF _ b g same A] pre by simp
next
  fix w e w'
  assume pre: "desk A w0 d w \<and> holds r w" and exec: "change_file (fr_id r) change w = (Inl e, w')"
  then show "broken w'"
    using exec by (auto simp: change_file_def flush_file_def run holds_def on_files_def split: if_splits option.splits)
qed

text \<open>The operations of the repository that change one record.\<close>

lemma triple_update_status:
  assumes "fr_user_id r \<in> A"
  shows "triple (\<lambda>w. desk A w0 d w \<and> holds r w) (update_status (fr_id r) st checksum path name)
    (\<lambda>res w. \<exists>c. res = Some c \<and> fr_user_id c = fr_user_id r \<and> fr_size_bytes c = fr_size_bytes r \<and>
       fr_status c = st \<and> fr_id c = fr_id r \<and> desk A w0 (moved_weight r c d) w \<and> holds c w)
    (\<lambda>_ w. broken w)"
  unfolding update_status_def
  by (rule triple_weaken [OF triple_change_file [OF _ _ assms]]) auto

lemma triple_update_size:
  assumes "fr_user_id r \<in> A"
  shows "triple (\<lambda>w. desk A w0 d w \<and> holds r w) (update_size (fr_id r) n checksum)
    (\<lambda>res w. \<exists>c. res = Some c \<and> fr_user_id c = fr_user_id r \<and> fr_size_bytes c = n \<and>
       fr_status c = fr_status r \<and> fr_id c = fr_id r \<and> desk A w0 (moved_weight r c d) w \<and> holds c w)
    (\<lambda>_ w. broken w)"
  unfolding update_size_def
  by (rule triple_weaken [OF triple_change_file [OF _ _ assms]]) auto

lemma triple_delete_record:
  assumes "fr_user_id r \<in> A"
  shows "triple (\<lambda>w. desk A w0 d w \<and> holds r w) (delete_record (fr_id r))
    (\<lambda>_. desk A w0 (\<lambda>u. d u + weight u r)) (\<lambda>_ w. broken w)"
  unfolding delete_record_def
  by (rule triple_weaken [OF triple_change_file [OF _ _ assms]])
    (auto simp: moved_weight_def weight_def is_active_def)

lemma triple_touch:
  assumes "fr_user_id r \<in> A"
  shows "triple (\<lambda>w. desk A w0 d w \<and> holds r w) (touch_last_accessed E (fr_id r))
    (\<lambda>_. desk A w0 d) (\<lambda>_ w. broken w)"
proof (rule tripleI)
  fix w x w'
  assume pre: "desk A w0 d w \<and> holds r w" and exec: "touch_last_accessed E (fr_id r) w = (Inr x, w')"
  then have b: "\<not> broken w" by (auto simp: touch_last_accessed_def bind_Inr query_def split: if_splits)
  with pre have g: "get_file (fr_id r) w = Some r" by (simp add: holds_def on_files_def get_file_def)
  let ?r = "r\<lparr>fr_last_accessed_at := clock E (tick w)\<rparr>" and ?w = "w\<lparr>tick := Suc (tick w)\<rparr>"
  have "w' = ?w\<lparr>files := replace_file ?r (files ?w)\<rparr>"
    using b g exec by (auto simp: touch_last_accessed_def flush_file_def run split: if_splits)
  moreover have "desk A w0 d ?w"
    by (rule steadyD [OF steady_desk]) (use pre in \<open>auto simp: same_files_def\<close>)
  then have "desk A w0 (moved_weight r ?r d) (?w\<lparr>files := replace_file ?r (files ?w)\<rparr>)"
    by (rule desk_replace) (use b g assms in \<open>simp_all add: get_file_def\<close>)
  moreover have "moved_weight r ?r d = d" by (rule ext) (auto simp: moved_weight_def weight_def is_active_def)
  ultimately show "desk A w0 d w'" by simp
next
  fix w e w'
  assume pre: "desk A w0 d w \<and> holds r w" and exec: "touch_last_accessed E (fr_id r) w = (Inl e, w')"
  then show "broken w'"
    by (auto simp: touch_last_accessed_def flush_file_def run holds_def on_files_def
        split: if_splits option.splits)
qed

section \<open>Creating a record\<close>

lemma find_append_new: "i \<notin> fr_id ` set fs \<Longrightarrow> fr_id r = i \<Longrightarrow> find (\<lambda>x. fr_id x = i) (fs @ [r]) = Some r"
  by (induction fs) auto

lemma triple_create_pending:
  assumes "u \<in> A"
  shows "triple (desk A w0 d) (create_file E u disk_id path name n mime enc sec S_PENDING)
    (\<lambda>r w. (fr_user_id r = u \<and> fr_size_bytes r = n \<and> fr_status r = S_PENDING) \<and>
       desk A w0 d w \<and> holds r w)
    (\<lambda>_. desk A w0 d)"
proof (rule tripleI)
  fix w r w'
  assume pre: "desk A w0 d w"
    and exec: "create_file E u disk_id path name n mime enc sec S_PENDING w = (Inr r, w')"
  then have r: "fr_user_id r = u" "fr_size_bytes r = n" "fr_status r = S_PENDING"
    and b: "\<not> broken w" and new: "fr_id r \<notin> fr_id ` set (files w)"
    and w': "w' = w\<lparr>tick := Suc (tick w), minted := Suc (minted w), files := files w @ [r]\<rparr>"
    by (auto simp: create_file_def insert_file_def run Let_def split: if_splits)
  show "(fr_user_id r = u \<and> fr_size_bytes r = n \<and> fr_status r = S_PENDING) \<and> desk A w0 d w' \<and> holds r w'"
    using pre b new r assms
    by (auto simp: w' desk_def ledger_def others_same_def active_bytes_def weight_def is_active_def
        charged_def get_quota_def quota_table_ok_def holds_def on_files_def find_append_new)
next
  fix w e w'
  assume pre: "desk A w0 d w"
    and exec: "create_file E u disk_id path name n mime enc sec S_PENDING w = (Inl e, w')"
  then have "broken w'" by (auto simp: create_file_def insert_file_def run Let_def split: if_splits)
  then show "desk A w0 d w'" by simp
qed

section \<open>The counters\<close>

lemma find_map_key:
  fixes q :: quota_usage
  assumes "qu_user_id q = u"
  shows "find (\<lambda>x. qu_user_id x = v) (map (\<lambda>x. if qu_user_id x = u then q else x) qs) =
    (if v = u then map_option (\<lambda>_. q) (find (\<lambda>x. qu_user_id x = u) qs) else find (\<lambda>x. qu_user_id x = v) qs)"
  using assms by (induction qs) auto

lemma find_append_key:
  fixes q :: quota_usage
  assumes "u \<notin> qu_user_id ` set qs" and "qu_user_id q = u"
  shows "find (\<lambda>x. qu_user_id x = v) (qs @ [q]) = (if v = u then Some q else find (\<lambda>x. qu_user_id x = v) qs)"
  using assms by (induction qs) auto

text \<open>An insertion of a fresh row with a zero counter, and an update that adds \<open>k\<close> to it.\<close>

lemma get_by_user_id_desk:
  assumes "u \<in> A" and F: "steady F" "\<And>w qs. F (w\<lparr>quotas := qs\<rparr>) = F w"
  shows "triple (\<lambda>w. desk A w0 d w \<and> F w) (get_by_user_id E u)
    (\<lambda>_ w. (\<not> broken w \<longrightarrow> get_quota u w \<noteq> None) \<and> desk A w0 d w \<and> F w) (\<lambda>_ w. broken w)"
proof (rule tripleI)
  fix w q w'
  assume pre: "desk A w0 d w \<and> F w" and exec: "get_by_user_id E u w = (Inr q, w')"
  then have b: "\<not> broken w" by (auto simp: get_by_user_id_def bind_Inr query_def split: if_splits)
  show "(\<not> broken w' \<longrightarrow> get_quota u w' \<noteq> None) \<and> desk A w0 d w' \<and> F w'"
  proof (cases "get_quota u w")
    case (Some q0)
    with exec b pre show ?thesis by (auto simp: get_by_user_id_def run)
  next
    case None
    with exec b have q: "qu_user_id q = u" "qu_total_bytes q = 0" and w': "w' = w\<lparr>quotas := quotas w @ [q]\<rparr>"
      by (auto simp: get_by_user_id_def insert_quota_def run Let_def split: if_splits)
    have fresh: "u \<notin> qu_user_id ` set (quotas w)"
      using None by (auto simp: get_quota_def find_None_iff)
    have old: "find (\<lambda>x. qu_user_id x = v) (quotas w @ [q]) =
        (if v = u then Some q else find (\<lambda>x. qu_user_id x = v) (quotas w))" for v
      using find_append_key [of u "quotas w" q v] fresh q(1) by simp
    have l: "ledger d w" "others_same A w0 w" using pre b by (simp_all add: desk_def)
    have "charged v w' = charged v w" for v
      using None q(2) by (simp add: w' charged_def get_quota_def old)
    then have "ledger d w'"
      using l(1) fresh q(1) by (simp add: ledger_def quota_table_ok_def active_bytes_def w')
    moreover have "others_same A w0 w'" using l(2) q(1) assms(1) by (simp add: others_same_def w')
    ultimately show ?thesis using pre by (simp add: desk_def w' F(2) get_quota_def old)
  qed
next
  fix w e w'
  assume "desk A w0 d w \<and> F w" and "get_by_user_id E u w = (Inl e, w')"
  then show "broken w'"
    by (auto simp: get_by_user_id_def insert_quota_def run Let_def split: if_splits option.splits)
qed

lemma update_quota_desk:
  assumes "u \<in> A" and F: "\<And>w qs. F (w\<lparr>quotas := qs\<rparr>) = F w"
    and total: "\<And>q. qu_total_bytes (change q) = qu_total_bytes q + k" "\<And>q. qu_user_id (change q) = qu_user_id q"
  shows "triple (\<lambda>w. (\<not> broken w \<longrightarrow> get_quota u w \<noteq> None) \<and> desk A w0 d w \<and> F w) (update_quota u change)
    (\<lambda>_ w. desk A w0 (\<lambda>v. d v + (if v = u then k else 0)) w \<and> F w) (\<lambda>_ w. broken w)"
proof (rule tripleI)
  fix w q' w'
  assume pre: "(\<not> broken w \<longrightarrow> get_quota u w \<noteq> None) \<and> desk A w0 d w \<and> F w"
    and exec: "update_quota u change w = (Inr q', w')"
  then obtain q where b: "\<not> broken w" and q: "get_quota u w = Some q" and q': "q' = change q"
    and w': "w' = w\<lparr>quotas := map (\<lambda>x. if qu_user_id x = u then q' else x) (quotas w)\<rparr>"
    by (auto simp: update_quota_def split: if_splits option.splits)
  have u: "qu_user_id q = u" using q by (auto simp: get_quota_def find_Some_iff)
  then have u': "qu_user_id q' = u" using q' total(2) by simp
  have ids: "map qu_user_id (map (\<lambda>x. if qu_user_id x = u then q' else x) (quotas w)) = map qu_user_id (quotas w)"
    using u' by simp
  have keep: "filter (\<lambda>x. qu_user_id x \<notin> A) (map (\<lambda>x. if qu_user_id x = u then q' else x) qs) =
      filter (\<lambda>x. qu_user_id x \<notin> A) qs" for qs
    using u' assms(1) by (induction qs) auto
  have l: "ledger d w" "others_same A w0 w" using pre b by (simp_all add: desk_def)
  have "charged v w' = charged v w + (if v = u then k else 0)" for v
    using q total(1) by (simp add: w' charged_def get_quota_def find_map_key [OF u'] q')
  then have "ledger (\<lambda>v. d v + (if v = u then k else 0)) w'"
    using l(1) ids by (simp add: ledger_def quota_table_ok_def active_bytes_def w' del: map_map)
  moreover have "others_same A w0 w'" using l(2) keep by (simp add: others_same_def w')
  ultimately show "desk A w0 (\<lambda>v. d v + (if v = u then k else 0)) w' \<and> F w'"
    using pre by (simp add: desk_def w' F)
next
  fix w e w'
  assume "(\<not> broken w \<longrightarrow> get_quota u w \<noteq> None) \<and> desk A w0 d w \<and> F w"
    and "update_quota u change w = (Inl e, w')"
  then show "broken w'"
    by (auto simp: update_quota_def split: if_splits option.splits)
qed

text \<open>Assertions about the files only.\<close>

definition filed :: "(world \<Rightarrow> bool) \<Rightarrow> bool" where
  "filed F \<longleftrightarrow> steady F \<and> (\<forall>w qs. F (w\<lparr>quotas := qs\<rparr>) = F w)"

lemma filed_on_files [intro]: "filed (on_files F)"
  by (auto simp: filed_def on_files_def steady_def same_files_def)

lemma filed_holds [intro]: "filed (holds r)"
  unfolding holds_def by (rule filed_on_files)

lemma filed_true [intro]: "filed (\<lambda>_. True)"
  by (simp add: filed_def steady_def)

lemma triple_increment:
  assumes "u \<in> A" and "filed F"
  shows "triple (\<lambda>w. desk A w0 d w \<and> F w) (increment E u k sec)
    (\<lambda>_ w. desk A w0 (\<lambda>v. d v + (if v = u then k else 0)) w \<and> F w) (\<lambda>_ w. broken w)"
  unfolding increment_def
  by (rule triple_bind [OF get_by_user_id_desk update_quota_desk])
    (use assms in \<open>auto simp: filed_def\<close>)

lemma triple_decrement:
  assumes "u \<in> A" and "filed F"
  shows "triple (\<lambda>w. desk A w0 d w \<and> F w) (decrement E u k sec)
    (\<lambda>_ w. desk A w0 (\<lambda>v. d v + (if v = u then - k else 0)) w \<and> F w) (\<lambda>_ w. broken w)"
  unfolding decrement_def
  by (rule triple_bind [OF get_by_user_id_desk update_quota_desk])
    (use assms in \<open>auto simp: filed_def\<close>)

end
