(* ===== verification/ArchiveService.thy ===== *)
theory ArchiveService
  imports FileService
begin

text \<open>
  \<open>ArchiveService\<close> (\<open>application/archive_service.py\<close>) with \<open>archive_manager.py\<close>: the daily job that
  compresses records nobody has accessed for the configured number of days. The temporary
  files of the code hold the bytes that are passed on here.
\<close>

definition DAY :: int where "DAY = 24 * 3600 * SECOND"

record archive_report =
  ar_processed :: int
  ar_skipped :: int
  ar_errors :: int

definition VALID_COMPRESS_MODES :: "string list" where
  "VALID_COMPRESS_MODES = [''pre_encrypt'', ''post_encrypt'']"

text \<open>\<open>ArchiveManager.compress\<close> and \<open>decompress\<close> on the contents of the files.\<close>

definition compress :: "env \<Rightarrow> bytes \<Rightarrow> string \<Rightarrow> bytes action" where
  "compress E b compress_mode =
     (if compress_mode \<notin> set VALID_COMPRESS_MODES then raise Value_Error else ret (zstd_compress E b))"

definition archive_record :: "env \<Rightarrow> link_port option \<Rightarrow> file_record \<Rightarrow> bool action" where
  "archive_record E index r =
     (let A = build_disk_root_adapter E (fr_disk_id r) in
      bind (st_exists A (fr_relative_path r)) (\<lambda>found.
      if \<not> found then ret False
      else
        let archive_path = fr_relative_path r @ ARCHIVE_EXTENSION;
            compress_mode = (if fr_is_encrypted r then ''post_encrypt'' else ''pre_encrypt'') in
        bind (st_read A (fr_relative_path r)) (\<lambda>b.
        bind (compress E b compress_mode) (\<lambda>packed.
        bind (st_write A archive_path (whole_source packed) (int (length packed))) (\<lambda>_.
        bind (st_delete A (fr_relative_path r)) (\<lambda>_.
        bind (mark_file_archived (fr_id r) archive_path) (\<lambda>updated.
        case updated of
          None \<Rightarrow> ret False
        | Some c \<Rightarrow> bind (enqueue_archived E index r) (\<lambda>_. ret True))))))))"

text \<open>The loop, with the counters of the report.\<close>

fun archive_all :: "env \<Rightarrow> link_port option \<Rightarrow> file_record list \<Rightarrow> archive_report \<Rightarrow> archive_report action" where
  "archive_all E index [] rep = ret rep"
| "archive_all E index (r # rs) rep =
     bind (try_except
         (bind (archive_record E index r) (\<lambda>archived.
          ret (if archived then rep\<lparr>ar_processed := ar_processed rep + 1\<rparr>
               else rep\<lparr>ar_skipped := ar_skipped rep + 1\<rparr>)))
         (\<lambda>_. ret (rep\<lparr>ar_errors := ar_errors rep + 1\<rparr>)))
       (\<lambda>rep'. archive_all E index rs rep')"

definition archived_size :: "env \<Rightarrow> file_record \<Rightarrow> int action" where
  "archived_size E r = (case non_empty (fr_archive_path r) of
       None \<Rightarrow> ret 0
     | Some p \<Rightarrow>
         try_except (st_get_size (build_disk_root_adapter E (fr_disk_id r)) p)
           (\<lambda>e. if is_missing e then ret 0 else raise e))"

definition compute_total_archived_bytes :: "env \<Rightarrow> int action" where
  "compute_total_archived_bytes E =
     bind list_archived_records (\<lambda>rs.
     bind (map_act (archived_size E) rs) (\<lambda>ns. ret (sum_list ns)))"

definition run_daily_archive :: "env \<Rightarrow> link_port option \<Rightarrow> archive_report action" where
  "run_daily_archive E index =
     bind (utc_now E) (\<lambda>now.
     let cutoff = now - archive_days_threshold E * DAY in
     bind (list_candidates_for_archive cutoff) (\<lambda>candidates.
     bind (archive_all E index candidates \<lparr>ar_processed = 0, ar_skipped = 0, ar_errors = 0\<rparr>) (\<lambda>report.
     bind (compute_total_archived_bytes E) (\<lambda>total.
     bind (utc_now E) (\<lambda>t.
     bind (modify (\<lambda>w. w\<lparr>archive_run := Some \<lparr>xs_last_run = Some t,
        xs_processed = ar_processed report, xs_skipped = ar_skipped report,
        xs_errors = ar_errors report, xs_total_archived_bytes = total\<rparr>\<rparr>)) (\<lambda>_.
     ret report))))))"

definition archive_get_stats :: "env \<Rightarrow> archive_stats action" where
  "archive_get_stats E =
     bind (compute_total_archived_bytes E) (\<lambda>total.
     bind (gets archive_run) (\<lambda>last. case last of
       None \<Rightarrow> ret \<lparr>xs_last_run = None, xs_processed = 0, xs_skipped = 0, xs_errors = 0,
         xs_total_archived_bytes = total\<rparr>
     | Some s \<Rightarrow> ret (s\<lparr>xs_total_archived_bytes := total\<rparr>)))"

end
