(* ===== verification/MaintenanceService.thy ===== *)
theory MaintenanceService
  imports DiskRouter
begin

text \<open>
  \<open>MaintenanceService\<close> (\<open>application/maintenance_service.py\<close>): removal of upload records that never
  committed, of left-over temporary objects, and the reconciliation of the byte counters.
\<close>

definition PENDING_STALE_HOURS :: int where "PENDING_STALE_HOURS = 1"
definition TMP_STALE_HOURS :: int where "TMP_STALE_HOURS = 1"
definition QUOTA_MISMATCH_THRESHOLD_BYTES :: int where "QUOTA_MISMATCH_THRESHOLD_BYTES = 1000000"
definition HOUR :: int where "HOUR = 3600 * SECOND"

record reconcile_report =
  rr_checked :: int
  rr_fixed :: int

definition section_disk_prefix :: "file_record \<Rightarrow> string" where
  "section_disk_prefix r =
     (let user_id = uuid_str (fr_user_id r) in
      case fr_section r of
        FILES \<Rightarrow> ''users/'' @ user_id @ ''/files''
      | PHOTOS \<Rightarrow> ''users/'' @ user_id @ ''/photos/originals''
      | PRIVATE \<Rightarrow> ''users/'' @ user_id @ ''/private''
      | SHARED \<Rightarrow> ''shared''
      | RESUMES \<Rightarrow> ''users/'' @ user_id @ ''/resumes''
      | GENERATED \<Rightarrow> ''users/'' @ user_id @ ''/generated'')"

definition resolve_tmp_logical_path :: "file_record \<Rightarrow> string" where
  "resolve_tmp_logical_path r =
     section_disk_prefix r @ ''/'' @ TMP_DIR_NAME @ ''/'' @ uuid_str (fr_id r)"

definition delete_tmp_file :: "env \<Rightarrow> file_record \<Rightarrow> unit action" where
  "delete_tmp_file E r =
     (let A = build_disk_root_adapter E (fr_disk_id r); tmp = resolve_tmp_logical_path r in
      try_except
        (bind (st_exists A tmp) (\<lambda>found. if \<not> found then ret () else st_delete A tmp))
        (\<lambda>e. if e = Storage_File_Not_Found then ret () else raise e))"

definition no_stats :: maintenance_stats where
  "no_stats = \<lparr>ms_last_pending_cleanup = None, ms_pending_deleted = 0, ms_last_tmp_cleanup = None,
     ms_tmp_deleted = 0, ms_last_quota_reconcile = None, ms_quota_checked = 0, ms_quota_fixed = 0\<rparr>"

text \<open>
  \<open>_update_stats\<close>: each of the three jobs writes its own columns and the moment, and keeps the others.
\<close>

definition update_stats ::
  "env \<Rightarrow> (instant \<Rightarrow> maintenance_stats \<Rightarrow> maintenance_stats) \<Rightarrow> unit action" where
  "update_stats E change =
     bind (utc_now E) (\<lambda>now.
     modify (\<lambda>w. w\<lparr>maintenance_run := Some (change now
       (case maintenance_run w of None \<Rightarrow> no_stats | Some s \<Rightarrow> s))\<rparr>))"

text \<open>One stale record: whether it was deleted.\<close>

definition cleanup_one_pending :: "env \<Rightarrow> file_record \<Rightarrow> bool action" where
  "cleanup_one_pending E r =
     try_except (bind (delete_tmp_file E r) (\<lambda>_. hard_delete (fr_id r))) (\<lambda>_. ret False)"

definition cleanup_pending_records :: "env \<Rightarrow> int action" where
  "cleanup_pending_records E =
     bind (utc_now E) (\<lambda>now.
     bind (list_stale_pending (now - PENDING_STALE_HOURS * HOUR)) (\<lambda>stale.
     bind (map_act (cleanup_one_pending E) stale) (\<lambda>done.
     let deleted = int (count_list done True) in
     bind (update_stats E (\<lambda>t s. s\<lparr>ms_last_pending_cleanup := Some t, ms_pending_deleted := deleted\<rparr>)) (\<lambda>_.
     ret deleted))))"

definition cleanup_one_tmp :: "storage \<Rightarrow> string \<Rightarrow> bool action" where
  "cleanup_one_tmp A path = try_except (bind (st_delete A path) (\<lambda>_. ret True)) (\<lambda>_. ret False)"

definition cleanup_tmp_dirs :: "env \<Rightarrow> int action" where
  "cleanup_tmp_dirs E =
     bind (utc_now E) (\<lambda>now.
     bind (map_act (\<lambda>disk.
         let A = build_disk_root_adapter E disk in
         bind (st_stale_tmp A (now - TMP_STALE_HOURS * HOUR)) (\<lambda>stale.
         map_act (cleanup_one_tmp A) stale)) (map dv_id get_all_disks)) (\<lambda>done.
     let deleted = int (count_list (concat done) True) in
     bind (update_stats E (\<lambda>t s. s\<lparr>ms_last_tmp_cleanup := Some t, ms_tmp_deleted := deleted\<rparr>)) (\<lambda>_.
     ret deleted)))"

text \<open>One user: whether the counter was corrected.\<close>

definition reconcile_user :: "env \<Rightarrow> uuid \<Rightarrow> bool action" where
  "reconcile_user E u =
     bind (sum_committed_bytes_by_user u) (\<lambda>real_total.
     bind (get_by_user_id E u) (\<lambda>usage.
     if \<bar>real_total - qu_total_bytes usage\<bar> \<le> QUOTA_MISMATCH_THRESHOLD_BYTES then ret False
     else bind (update_total_bytes E u real_total) (\<lambda>_. ret True)))"

text \<open>The set of users, in the order of its first occurrences.\<close>

definition reconcile_quotas :: "env \<Rightarrow> reconcile_report action" where
  "reconcile_quotas E =
     bind list_distinct_user_ids_with_committed (\<lambda>us.
     bind list_all_user_ids (\<lambda>vs.
     bind (map_act (reconcile_user E) (fromkeys (us @ vs))) (\<lambda>done.
     let checked = int (length done); fixed = int (count_list done True) in
     bind (update_stats E (\<lambda>t s. s\<lparr>ms_last_quota_reconcile := Some t, ms_quota_checked := checked,
        ms_quota_fixed := fixed\<rparr>)) (\<lambda>_.
     ret \<lparr>rr_checked = checked, rr_fixed = fixed\<rparr>))))"

definition maintenance_get_stats :: "maintenance_stats action" where
  "maintenance_get_stats =
     bind (gets maintenance_run) (\<lambda>last. ret (case last of None \<Rightarrow> no_stats | Some s \<Rightarrow> s))"

end
