(* ===== verification/FileBooks.thy ===== *)
theory FileBooks
  imports FileTables FileZip ArchiveService MaintenanceService
begin

text \<open>
  The file services keep the books: after every operation that a session commits, the counter of
  every user is the size of the user's active records, and only rows of the permitted users
  have changed. The operations are verified once, inside a locale, for any storage adapter.
\<close>

section \<open>Pieces that several operations share\<close>

text \<open>A record that was pending is committed and its size is charged.\<close>

lemma commit_desk:
  assumes r: "fr_user_id r = u" "fr_size_bytes r = n" "fr_status r = S_PENDING" and u: "u \<in> A"
    and f: "\<And>c. triple (desk A w0 d) (f c) Q X" and X: "\<And>e w. broken w \<Longrightarrow> X e w"
  shows "triple (\<lambda>w. desk A w0 d w \<and> holds r w)
    (bind (update_status (fr_id r) S_COMMITTED checksum path name) (\<lambda>res. case res of
       None \<Rightarrow> m | Some c \<Rightarrow> bind (increment E u n sec) (\<lambda>_. f c))) Q X"
proof (rule triple_bind)
  show "triple (\<lambda>w. desk A w0 d w \<and> holds r w) (update_status (fr_id r) S_COMMITTED checksum path name)
    (\<lambda>res w. (\<exists>c. res = Some c \<and> fr_user_id c = u \<and> fr_size_bytes c = n \<and> fr_status c = S_COMMITTED) \<and>
       desk A w0 (\<lambda>v. d v - (if v = u then n else 0)) w) X"
  proof (rule triple_weaken [OF triple_update_status])
    fix res w
    assume "\<exists>c. res = Some c \<and> fr_user_id c = fr_user_id r \<and> fr_size_bytes c = fr_size_bytes r \<and>
       fr_status c = S_COMMITTED \<and> fr_id c = fr_id r \<and> desk A w0 (moved_weight r c d) w \<and> holds c w"
    then obtain c where c: "res = Some c" "fr_user_id c = u" "fr_size_bytes c = n" "fr_status c = S_COMMITTED"
      and dk: "desk A w0 (moved_weight r c d) w" using r by auto
    have "moved_weight r c d = (\<lambda>v. d v - (if v = u then n else 0))"
      using r c by (auto simp: moved_weight_def weight_def is_active_def)
    with c dk show "(\<exists>c. res = Some c \<and> fr_user_id c = u \<and> fr_size_bytes c = n \<and> fr_status c = S_COMMITTED) \<and>
       desk A w0 (\<lambda>v. d v - (if v = u then n else 0)) w" by auto
  qed (use r u X in auto)
next
  fix res
  show "triple (\<lambda>w. (\<exists>c. res = Some c \<and> fr_user_id c = u \<and> fr_size_bytes c = n \<and> fr_status c = S_COMMITTED) \<and>
       desk A w0 (\<lambda>v. d v - (if v = u then n else 0)) w)
    (case res of None \<Rightarrow> m | Some c \<Rightarrow> bind (increment E u n sec) (\<lambda>_. f c)) Q X"
  proof (rule triple_fact)
    assume "\<exists>c. res = Some c \<and> fr_user_id c = u \<and> fr_size_bytes c = n \<and> fr_status c = S_COMMITTED"
    then obtain c where c: "res = Some c" by blast
    have "triple (desk A w0 (\<lambda>v. d v - (if v = u then n else 0))) (increment E u n sec) (\<lambda>_. desk A w0 d) X"
      by (rule triple_weaken [OF triple_increment [OF u filed_true]]) (auto simp: X)
    then show "triple (desk A w0 (\<lambda>v. d v - (if v = u then n else 0)))
        (case res of None \<Rightarrow> m | Some c \<Rightarrow> bind (increment E u n sec) (\<lambda>_. f c)) Q X"
      unfolding c option.case by (rule triple_bind) (rule f)
  qed
qed

text \<open>A record is marked deleted and its size, when it was active, is credited.\<close>

lemma retire_desk:
  assumes r: "fr_user_id r \<in> A" "is_active r"
    and f: "triple (desk A w0 d) m Q X" and X: "\<And>e w. broken w \<Longrightarrow> X e w"
  shows "triple (\<lambda>w. desk A w0 d w \<and> holds r w)
    (bind (delete_record (fr_id r)) (\<lambda>_. bind (decrement E (fr_user_id r) (fr_size_bytes r) sec) (\<lambda>_. m))) Q X"
proof (rule triple_bind)
  show "triple (\<lambda>w. desk A w0 d w \<and> holds r w) (delete_record (fr_id r))
    (\<lambda>_. desk A w0 (\<lambda>u. d u + weight u r)) X"
    by (rule triple_weaken [OF triple_delete_record]) (use r X in auto)
  have "(\<lambda>v. d v + weight v r + (if v = fr_user_id r then - fr_size_bytes r else 0)) = d"
    using r by (auto simp: weight_def)
  then have "triple (desk A w0 (\<lambda>u. d u + weight u r)) (decrement E (fr_user_id r) (fr_size_bytes r) sec)
      (\<lambda>_. desk A w0 d) X"
    by (intro triple_weaken [OF triple_decrement [OF r(1) filed_true]]) (auto simp: X)
  then show "triple (desk A w0 (\<lambda>u. d u + weight u r))
      (bind (decrement E (fr_user_id r) (fr_size_bytes r) sec) (\<lambda>_. m)) Q X"
    by (rule triple_bind) (rule f)
qed

section \<open>Looking records up\<close>

definition owned :: "uuid set \<Rightarrow> uuid \<Rightarrow> file_section \<Rightarrow> file_record \<Rightarrow> bool" where
  "owned A u sec r \<longleftrightarrow> fr_user_id r \<in> A \<and> is_active r \<and> (sec \<noteq> SHARED \<longrightarrow> fr_user_id r = u)"

lemma desk_holds:
  "desk A w0 d w \<Longrightarrow> \<not> broken w \<Longrightarrow> r \<in> set (files w) \<Longrightarrow> holds r w"
  by (simp add: desk_def ledger_def holds_def on_files_def find_key)

lemma triple_some_file:
  assumes "\<And>r. P r \<Longrightarrow> owned A u sec r"
  shows "triple (desk A w0 d) (some_file P)
    (\<lambda>res w. (\<forall>r. res = Some r \<longrightarrow> owned A u sec r) \<and> desk A w0 d w \<and> (\<forall>r. res = Some r \<longrightarrow> holds r w))
    (\<lambda>_. desk A w0 d)"
proof (rule tripleI)
  fix w res w'
  assume desk: "desk A w0 d w" and exec: "some_file P w = (Inr res, w')"
  then have b: "\<not> broken w" and w': "w' = w" and "\<forall>r. res = Some r \<longrightarrow> r \<in> set (filter P (files w))"
    by (auto simp: some_file_def bind_Inr query_def split: if_splits dest: one_or_none_value)
       (auto simp: one_or_none_def split: list.splits)
  with assms desk desk_holds
  show "(\<forall>r. res = Some r \<longrightarrow> owned A u sec r) \<and> desk A w0 d w' \<and> (\<forall>r. res = Some r \<longrightarrow> holds r w')"
    by (auto intro: desk_holds)
next
  fix w e w'
  assume "desk A w0 d w" and "some_file P w = (Inl e, w')"
  moreover have "rowless (some_file P)" by (simp add: some_file_def rowless_rules)
  ultimately show "desk A w0 d w'" by (blast intro: steadyD [OF steady_desk] same_rows_files rowlessD)
qed

lemma triple_all_files:
  "triple (desk A w0 d) (all_files P)
    (\<lambda>rs w. distinct (map fr_id rs) \<and> (\<forall>r \<in> set rs. P r) \<and> desk A w0 d w \<and> (\<forall>r \<in> set rs. holds r w))
    (\<lambda>_ w. broken w)"
proof (rule tripleI)
  fix w rs w'
  assume desk: "desk A w0 d w" and exec: "all_files P w = (Inr rs, w')"
  then have b: "\<not> broken w" and w': "w' = w" and rs: "rs = filter P (files w)"
    by (auto simp: all_files_def query_def split: if_splits)
  then have "distinct (map fr_id (files w))" using desk by (simp add: desk_def ledger_def)
  then have "distinct (map fr_id rs)" unfolding rs by (rule distinct_map_filter)
  with desk desk_holds [OF desk b] show "distinct (map fr_id rs) \<and> (\<forall>r \<in> set rs. P r) \<and> desk A w0 d w' \<and> (\<forall>r \<in> set rs. holds r w')"
    by (auto simp: w' rs)
qed (auto simp: all_files_def query_def split: if_splits)

lemma triple_heal:
  assumes "\<And>r. P r \<Longrightarrow> owned A u sec r"
  shows "triple (desk A w0 d) (bind (all_files P) (heal_single path))
    (\<lambda>res w. (\<forall>r. res = Some r \<longrightarrow> owned A u sec r) \<and> desk A w0 d w \<and> (\<forall>r. res = Some r \<longrightarrow> holds r w))
    (\<lambda>_. desk A w0 d)"
proof (rule triple_bind)
  show "triple (desk A w0 d) (all_files P)
    (\<lambda>rs w. (\<forall>r \<in> set rs. P r) \<and> desk A w0 d w \<and> (\<forall>r \<in> set rs. holds r w)) (\<lambda>_. desk A w0 d)"
    by (rule triple_weaken [OF triple_all_files]) auto
  fix rs
  show "triple (\<lambda>w. (\<forall>r \<in> set rs. P r) \<and> desk A w0 d w \<and> (\<forall>r \<in> set rs. holds r w)) (heal_single path rs)
    (\<lambda>res w. (\<forall>r. res = Some r \<longrightarrow> owned A u sec r) \<and> desk A w0 d w \<and> (\<forall>r. res = Some r \<longrightarrow> holds r w))
    (\<lambda>_. desk A w0 d)"
  proof (cases "\<exists>r. rs = [r] \<and> fr_relative_path r \<noteq> path")
    case True
    then obtain r where rs: "rs = [r]" and p: "fr_relative_path r \<noteq> path" by blast
    show ?thesis
    proof (rule triple_fact)
      assume P: "\<forall>r \<in> set rs. P r"
      let ?c = "\<lambda>r. r\<lparr>fr_relative_path := path\<rparr>"
      have o: "owned A u sec r" using P rs assms by simp
      then have A: "fr_user_id r \<in> A" by (simp add: owned_def)
      have "moved_weight r (?c r) d = d"
        by (rule ext) (auto simp: moved_weight_def weight_def is_active_def)
      moreover have "owned A u sec (?c r)" using o by (simp add: owned_def is_active_def)
      ultimately show "triple (\<lambda>w. desk A w0 d w \<and> (\<forall>r \<in> set rs. holds r w)) (heal_single path rs)
          (\<lambda>res w. (\<forall>r. res = Some r \<longrightarrow> owned A u sec r) \<and> desk A w0 d w \<and> (\<forall>r. res = Some r \<longrightarrow> holds r w))
          (\<lambda>_. desk A w0 d)"
        unfolding heal_single_def rs using p
        by (auto intro!: triple_weaken [OF triple_change_file [OF _ _ A, where change = ?c]])
    qed
  next
    case False
    then have "heal_single path rs = ret (case rs of [r] \<Rightarrow> Some r | _ \<Rightarrow> None)"
      by (auto simp: heal_single_def split: list.split)
    then show ?thesis
      by (auto intro!: triple_ret simp: assms split: list.splits)
  qed
qed

section \<open>The operations of the service\<close>

text \<open>
  What a file service needs of its storage adapter, of the index and of the decryption, and who may
  be touched: in the shared section every user, since an administrator deletes for others.
\<close>

locale file_desk = storage_port "fs_adapter S" for S :: file_service +
  fixes A :: "uuid set" and w0 :: world and u :: uuid
  assumes index: "sql_index (fs_env S) (fs_index S)"
    and decrypt: "fs_decrypt S = Some dec \<Longrightarrow> rowless (dec b)"
    and actor: "u \<in> A"
    and shared: "fs_section S = SHARED \<Longrightarrow> A = UNIV"
begin

lemmas quiet_storage = storage_rowless [THEN rowless_quiet]

lemma quiet_to_disk: "quiet (to_disk S p)"
  by (simp add: to_disk_def)

lemma quiet_discard_tmp: "quiet (discard_tmp S tmp)"
  unfolding discard_tmp_def by (intro quiet_rules quiet_storage)

lemma quiet_is_directory: "quiet (is_directory S p)"
  unfolding is_directory_def by (intro quiet_rules quiet_storage)

lemma disk_root_rowless:
  "rowless (st_exists (build_disk_root_adapter E disk) p)" "rowless (st_delete (build_disk_root_adapter E disk) p)"
  "rowless (st_read (build_disk_root_adapter E disk) p)"
  unfolding build_disk_root_adapter_def create_storage_adapter_def by (rule s3.storage_rowless)+

lemma quiet_archived_blob: "quiet (delete_archived_blob E r)"
  unfolding delete_archived_blob_def Let_def
  by (intro quiet_rules rowless_quiet disk_root_rowless)

lemma quiet_stream_archived: "quiet (stream_archived S r)"
proof (cases "fs_decrypt S")
  case None
  show ?thesis unfolding stream_archived_def stream_decompressed_archived_def None option.case by (intro rowless_quiet rowless_rules disk_root_rowless)
next
  case (Some dec)
  show ?thesis unfolding stream_archived_def stream_decompressed_archived_def Some option.case
    by (intro rowless_quiet rowless_rules disk_root_rowless decrypt [OF Some])
qed

lemmas skip = quiet_storage [THEN quiet_seq] quiet_to_disk [THEN quiet_seq] quiet_discard_tmp [THEN quiet_seq]
  quiet_is_directory [THEN quiet_seq] quiet_archived_blob [THEN quiet_seq] quiet_stream_archived [THEN quiet_seq]
  enqueue_quiet [OF index, THEN quiet_seq]

lemmas steadies = steady_conj steady_desk steady_holds

lemmas quiet_service = quiet_to_disk quiet_discard_tmp quiet_is_directory quiet_archived_blob
  quiet_stream_archived quiet_storage quiet_bind quiet_try quiet_if quiet_option quiet_let
  quiet_rowless_atoms enqueue_quiet [OF index]

text \<open>Storing one new file, as an upload and an entry of an archive do.\<close>

lemma store_upload_desk:
  assumes "fr_user_id r = u" "fr_size_bytes r = n" "fr_status r = S_PENDING"
  shows "triple (\<lambda>w. desk A w0 d w \<and> holds r w) (store_upload S u r tmp final_path data n sec)
    (\<lambda>_. desk A w0 d) (\<lambda>_ _. True)"
  unfolding store_upload_def
  by (intro skip steadies commit_desk assms actor triple_ret) auto

lemma upload_file_desk:
  "triple (desk A w0 d) (upload_file S u path filename data n sec) (\<lambda>_. desk A w0 d) (\<lambda>_ _. True)"
  unfolding upload_file_def Let_def
  by (intro skip steadies triple_seq [OF triple_create_pending [OF actor]] triple_fact
      triple_try [OF store_upload_desk triple_reraise(2)]) auto

text \<open>The record at a path, possibly after healing, and the record of an identifier.\<close>

definition found_record :: "file_record option \<Rightarrow> (uuid \<Rightarrow> int) \<Rightarrow> file_section \<Rightarrow> world \<Rightarrow> bool" where
  "found_record res d sec w \<longleftrightarrow> (\<forall>r. res = Some r \<longrightarrow> owned A u sec r) \<and> desk A w0 d w \<and>
     (\<forall>r. res = Some r \<longrightarrow> holds r w)"

lemma get_record_desk:
  assumes sec: "sec = SHARED \<Longrightarrow> A = UNIV"
  shows "triple (desk A w0 d) (get_record_by_section_path S u path sec)
    (\<lambda>res. found_record res d sec) (\<lambda>_. desk A w0 d)"
proof -
  have next_try: "triple (\<lambda>w. (\<forall>r. res = Some r \<longrightarrow> owned A u sec r) \<and> desk A w0 d w \<and> (\<forall>r. res = Some r \<longrightarrow> holds r w))
      (case res of Some r \<Rightarrow> ret (Some r) | None \<Rightarrow> bind (all_files P) (heal_single p))
      (\<lambda>res. found_record res d sec) (\<lambda>_. desk A w0 d)"
    if P: "\<And>r. P r \<Longrightarrow> owned A u sec r" for res P p
  proof (cases res)
    case None
    then show ?thesis unfolding found_record_def option.case
      by (auto intro: triple_pre [OF triple_heal [OF P]])
  next
    case (Some r)
    then show ?thesis by (auto intro!: triple_ret simp: found_record_def)
  qed
  show ?thesis
    unfolding get_record_by_section_path_def get_downloadable_by_relative_path_in_section_def
      get_downloadable_by_relative_path_def heal_stale_relative_path_in_section_def heal_stale_relative_path_def
    by (intro skip steadies triple_if triple_seq [OF triple_some_file next_try]) (use sec actor in \<open>auto simp: owned_def is_active_def\<close>)
qed

lemma get_downloadable_desk:
  "triple (desk A w0 d) (get_downloadable_record S f u)
    (\<lambda>r w. (fr_id r = f \<and> owned A u (fs_section S) r) \<and> desk A w0 d w \<and> holds r w) (\<lambda>_. desk A w0 d)"
proof (rule tripleI)
  fix w r w'
  assume desk: "desk A w0 d w" and exec: "get_downloadable_record S f u w = (Inr r, w')"
  then have b: "\<not> broken w" and w': "w' = w" and g: "get_file f w = Some r"
    and r: "fr_status r \<in> {S_COMMITTED, S_ARCHIVED}" "fs_section S \<noteq> SHARED \<Longrightarrow> fr_user_id r = u"
    by (auto simp: get_downloadable_record_def get_by_id_def bind_Inr query_def split: if_splits option.splits)
  then have "r \<in> set (files w)" "fr_id r = f" by (auto simp: get_file_def find_Some_iff)
  with desk_holds [OF desk b] r desk shared actor
  show "(fr_id r = f \<and> owned A u (fs_section S) r) \<and> desk A w0 d w' \<and> holds r w'"
    by (cases "fs_section S = SHARED") (auto simp: w' owned_def is_active_def)
next
  fix w e w'
  assume "desk A w0 d w" and "get_downloadable_record S f u w = (Inl e, w')"
  then show "desk A w0 d w'"
    by (auto simp: get_downloadable_record_def get_by_id_def bind_Inl query_def split: if_splits option.splits)
qed

text \<open>Reading moves only the access times.\<close>

lemma download_desk: "triple (desk A w0 d) (download_file S u f) (\<lambda>_. desk A w0 d) (\<lambda>_. desk A w0 d)"
  unfolding download_file_def
proof (intro triple_seq [OF get_downloadable_desk] triple_fact)
  fix r assume r: "fr_id r = f \<and> owned A u (fs_section S) r"
  then have A: "fr_user_id r \<in> A" and f: "f = fr_id r" by (simp_all add: owned_def)
  have q: "quiet (if fr_is_archived r then stream_archived S r else st_read (fs_adapter S) (to_section_path S r))"
    by (intro quiet_service)
  show "triple (\<lambda>w. desk A w0 d w \<and> holds r w)
     (bind (if fr_is_archived r then stream_archived S r else st_read (fs_adapter S) (to_section_path S r)) (\<lambda>b.
      bind (touch_last_accessed (fs_env S) f) (\<lambda>_. ret b))) (\<lambda>_. desk A w0 d) (\<lambda>_. desk A w0 d)"
    unfolding f
    by (intro quiet_seq [OF q] steadies triple_seq [OF triple_touch [OF A]] triple_ret) auto
qed auto

text \<open>Deleting one record.\<close>

lemma delete_file_desk: "triple (desk A w0 d) (delete_file S u f who) (\<lambda>_. desk A w0 d) (\<lambda>_ _. True)"
  unfolding delete_file_def Let_def
proof (intro triple_seq [OF get_downloadable_desk] triple_fact)
  fix r assume r: "fr_id r = f \<and> owned A u (fs_section S) r"
  then have A: "fr_user_id r \<in> A" "is_active r" and f: "f = fr_id r" by (simp_all add: owned_def)
  have q: "quiet (ensure_can_delete_record S r u who)"
    by (simp add: ensure_can_delete_record_def)
  have q': "quiet (if fr_is_archived r then delete_archived_blob (fs_env S) r
      else bind (st_exists (fs_adapter S) (to_section_path S r)) (\<lambda>found.
        if found then st_delete (fs_adapter S) (to_section_path S r) else ret ()))"
    by (intro quiet_service)
  show "triple (\<lambda>w. desk A w0 d w \<and> holds r w)
     (bind (ensure_can_delete_record S r u who) (\<lambda>_.
      bind (if fr_is_archived r then delete_archived_blob (fs_env S) r
           else bind (st_exists (fs_adapter S) (to_section_path S r)) (\<lambda>found.
             if found then st_delete (fs_adapter S) (to_section_path S r) else ret ())) (\<lambda>_.
     bind (delete_record f) (\<lambda>_.
     bind (decrement (fs_env S) (fr_user_id r) (fr_size_bytes r) (fr_section r)) (\<lambda>_.
     enqueue_removed (fs_env S) (fs_index S) [f]))))) (\<lambda>_. desk A w0 d) (\<lambda>_ _. True)"
    unfolding f
    by (intro quiet_seq [OF q] quiet_seq [OF q'] steadies retire_desk A
        triple_weaken [OF triple_quiet [OF enqueue_quiet(5) [OF index] steady_desk]]) auto
qed auto

text \<open>Renaming.\<close>

lemma moved_weight_same:
  "fr_user_id c = fr_user_id r \<Longrightarrow> fr_size_bytes c = fr_size_bytes r \<Longrightarrow> is_active c = is_active r \<Longrightarrow>
    moved_weight r c d = d"
  by (rule ext) (simp add: moved_weight_def weight_def)

lemma rename_record_desk:
  "triple (desk A w0 d) (rename_record S u f new_name) (\<lambda>_. desk A w0 d) (\<lambda>_ _. True)"
  unfolding rename_record_def Let_def
proof (intro triple_seq [OF get_downloadable_desk] triple_fact triple_if skip steadies)
  fix r p
  assume r: "fr_id r = f \<and> owned A u (fs_section S) r"
  then have A: "fr_user_id r \<in> A" by (simp add: owned_def)
  show "triple (\<lambda>w. desk A w0 d w \<and> holds r w)
     (bind (update_status (fr_id r) (fr_status r) None (Some p) (Some new_name)) (\<lambda>updated.
       case updated of None \<Rightarrow> raise Storage_File_Not_Found
       | Some c \<Rightarrow> bind (enqueue_rekey (fs_env S) (fs_index S) c) (\<lambda>_. ret c)))
     (\<lambda>_. desk A w0 d) (\<lambda>_ _. True)"
  proof (rule triple_seq [OF triple_update_status [OF A]])
    fix res
    show "triple (\<lambda>w. \<exists>c. res = Some c \<and> fr_user_id c = fr_user_id r \<and> fr_size_bytes c = fr_size_bytes r \<and>
       fr_status c = fr_status r \<and> fr_id c = fr_id r \<and> desk A w0 (moved_weight r c d) w \<and> holds c w)
      (case res of None \<Rightarrow> raise Storage_File_Not_Found
       | Some c \<Rightarrow> bind (enqueue_rekey (fs_env S) (fs_index S) c) (\<lambda>_. ret c)) (\<lambda>_. desk A w0 d) (\<lambda>_ _. True)"
    proof (cases res)
      case None
      then show ?thesis by (simp add: triple_def)
    next
      case (Some c)
      have "triple (desk A w0 d) (bind (enqueue_rekey (fs_env S) (fs_index S) c) (\<lambda>_. ret c))
          (\<lambda>_. desk A w0 d) (\<lambda>_ _. True)"
        by (intro skip steadies triple_ret) auto
      then show ?thesis
        unfolding Some option.case by (rule triple_pre) (auto simp: moved_weight_same is_active_def)
    qed
  qed simp
qed (auto intro: triple_raise)

text \<open>The bulk change of paths keeps owners, sizes and states.\<close>

lemma flush_files_desk:
  assumes change: "\<And>r. fr_id (change r) = fr_id r \<and> fr_user_id (change r) = fr_user_id r \<and>
      fr_size_bytes (change r) = fr_size_bytes r \<and> fr_status (change r) = fr_status r"
    and sel: "\<And>r. sel r \<Longrightarrow> fr_user_id r \<in> A"
  shows "triple (desk A w0 d) (flush_files sel change) (\<lambda>_. desk A w0 d) (\<lambda>_ _. True)"
proof (rule tripleI)
  fix w n w'
  assume desk: "desk A w0 d w" and exec: "flush_files sel change w = (Inr n, w')"
  then have b: "\<not> broken w" and w': "w' = w\<lparr>files := map (\<lambda>r. if sel r then change r else r) (files w)\<rparr>"
    by (auto simp: flush_files_def Let_def split: if_splits)
  have ids: "map fr_id (map (\<lambda>r. if sel r then change r else r) fs) = map fr_id fs" for fs
    using change by simp
  have weights: "map (weight v) (map (\<lambda>r. if sel r then change r else r) fs) = map (weight v) fs" for v fs
    using change by (auto simp: weight_def is_active_def)
  have rest: "filter (\<lambda>r. fr_user_id r \<notin> A) (map (\<lambda>r. if sel r then change r else r) fs) =
      filter (\<lambda>r. fr_user_id r \<notin> A) fs" for fs
    using change sel by (induction fs) auto
  have l: "ledger d w" "others_same A w0 w" using desk b by (simp_all add: desk_def)
  then have "ledger d w'" "others_same A w0 w'"
    by (simp_all add: w' ledger_def others_same_def active_bytes_def charged_def get_quota_def
        quota_table_ok_def ids weights rest del: map_map)
  then show "desk A w0 d w'" by (simp add: desk_def)
qed simp

lemma quiet_list_active: "quiet (list_active_under_prefix v sec p)"
  by (simp add: list_active_under_prefix_def all_files_def)

lemma quiet_renamed_descendants: "quiet (enqueue_renamed_descendants S u p)"
  unfolding enqueue_renamed_descendants_def by (intro quiet_service quiet_list_active)

lemma rename_by_path_desk:
  "triple (desk A w0 d) (rename_by_path S u path new_name) (\<lambda>_. desk A w0 d) (\<lambda>_ _. True)"
  unfolding rename_by_path_def Let_def
proof (intro skip steadies triple_if)
  fix old_prefix new_prefix
  have update: "triple (desk A w0 d)
     (if fs_section S = SHARED then
        bind (update_relative_path_prefix_in_section (fs_section S) old_prefix new_prefix) (\<lambda>_. ret ())
      else bind (update_relative_path_prefix u (fs_section S) old_prefix new_prefix) (\<lambda>_.
           enqueue_renamed_descendants S u new_prefix)) (\<lambda>_. desk A w0 d) (\<lambda>_ _. True)"
    unfolding update_relative_path_prefix_in_section_def update_relative_path_prefix_def
    by (intro triple_if triple_bind [OF flush_files_desk] triple_ret
        triple_weaken [OF triple_quiet [OF quiet_renamed_descendants steady_desk]])
      (auto simp: new_prefix_path_def actor shared)
  show "triple (desk A w0 d)
     (bind (if fs_section S = SHARED then
        bind (update_relative_path_prefix_in_section (fs_section S) old_prefix new_prefix) (\<lambda>_. ret ())
      else bind (update_relative_path_prefix u (fs_section S) old_prefix new_prefix) (\<lambda>_.
           enqueue_renamed_descendants S u new_prefix)) (\<lambda>_. ret None)) (\<lambda>_. desk A w0 d) (\<lambda>_ _. True)"
    by (rule triple_bind [OF update]) (auto intro: triple_ret)
next
  show "triple (desk A w0 d)
     (bind (get_record_by_section_path S u (normalize_path path) (fs_section S)) (\<lambda>record.
          case record of None \<Rightarrow> raise Storage_File_Not_Found
          | Some r \<Rightarrow> bind (rename_record S u (fr_id r) new_name) (\<lambda>c. ret (Some c))))
     (\<lambda>_. desk A w0 d) (\<lambda>_ _. True)"
    by (intro triple_seq [OF get_record_desk [OF shared]] triple_option triple_raise
        triple_pre [OF triple_bind [OF rename_record_desk triple_ret]])
      (auto simp: found_record_def)
qed (auto intro: triple_raise)

text \<open>Overwriting charges or credits the difference.\<close>

lemma ensure_quota_desk:
  "triple (\<lambda>w. desk A w0 d w \<and> holds r w) (ensure_overwrite_quota S u k sec)
    (\<lambda>_ w. desk A w0 d w \<and> holds r w) (\<lambda>_ _. True)"
  unfolding ensure_overwrite_quota_def Let_def
  by (intro triple_seq [OF get_by_user_id_desk [OF actor]] triple_if triple_raise)
    (use filed_holds in \<open>auto simp: filed_def intro!: triple_ret\<close>)

lemma settle_difference:
  assumes r: "fr_user_id r = u" "is_active r"
    and f: "\<And>c. triple (desk A w0 d) (f c) Q (\<lambda>_ _. True)"
  shows "triple (\<lambda>w. desk A w0 d w \<and> holds r w)
    (bind (update_size (fr_id r) n checksum) (\<lambda>updated. case updated of
       None \<Rightarrow> raise Storage_File_Not_Found
     | Some c \<Rightarrow>
         bind (if n - fr_size_bytes r > 0 then bind (increment E u (n - fr_size_bytes r) sec) (\<lambda>_. ret ())
               else if n - fr_size_bytes r < 0 then bind (decrement E u (- (n - fr_size_bytes r)) sec) (\<lambda>_. ret ())
               else ret ()) (\<lambda>_. f c))) Q (\<lambda>_ _. True)"
proof (rule triple_seq [OF triple_update_size])
  let ?k = "n - fr_size_bytes r"
  let ?d = "\<lambda>v. d v - (if v = u then ?k else 0)"
  fix res
  have inc: "triple (desk A w0 ?d) (bind (increment E u ?k sec) (\<lambda>_. ret ())) (\<lambda>_. desk A w0 d) (\<lambda>_ _. True)"
  proof (rule triple_bind)
    show "triple (desk A w0 ?d) (increment E u ?k sec) (\<lambda>_. desk A w0 d) (\<lambda>_ _. True)"
      by (rule triple_weaken [OF triple_increment [OF actor filed_true]]) auto
  qed (rule triple_ret)
  have dec: "triple (desk A w0 ?d) (bind (decrement E u (- ?k) sec) (\<lambda>_. ret ())) (\<lambda>_. desk A w0 d) (\<lambda>_ _. True)"
  proof (rule triple_bind)
    have "(\<lambda>v. ?d v + (if v = u then - (- ?k) else 0)) = d" by auto
    then show "triple (desk A w0 ?d) (decrement E u (- ?k) sec) (\<lambda>_. desk A w0 d) (\<lambda>_ _. True)"
      by (intro triple_weaken [OF triple_decrement [OF actor filed_true]]) auto
  qed (rule triple_ret)
  have pay: "triple (desk A w0 ?d) (if ?k > 0 then bind (increment E u ?k sec) (\<lambda>_. ret ())
      else if ?k < 0 then bind (decrement E u (- ?k) sec) (\<lambda>_. ret ()) else ret ())
      (\<lambda>_. desk A w0 d) (\<lambda>_ _. True)"
  proof (intro triple_if inc dec)
    assume "\<not> 0 < ?k" "\<not> ?k < 0"
    then have "?d = d" by auto
    then show "triple (desk A w0 ?d) (ret ()) (\<lambda>_. desk A w0 d) (\<lambda>_ _. True)" by (intro triple_ret) simp
  qed
  show "triple (\<lambda>w. \<exists>c. res = Some c \<and> fr_user_id c = fr_user_id r \<and> fr_size_bytes c = n \<and>
       fr_status c = fr_status r \<and> fr_id c = fr_id r \<and> desk A w0 (moved_weight r c d) w \<and> holds c w)
     (case res of None \<Rightarrow> raise Storage_File_Not_Found
     | Some c \<Rightarrow> bind (if ?k > 0 then bind (increment E u ?k sec) (\<lambda>_. ret ())
          else if ?k < 0 then bind (decrement E u (- ?k) sec) (\<lambda>_. ret ()) else ret ()) (\<lambda>_. f c))
     Q (\<lambda>_ _. True)"
  proof (cases res)
    case None
    then show ?thesis by (simp add: triple_def)
  next
    case (Some c)
    have eq: "moved_weight r c d = ?d"
      if "fr_user_id c = fr_user_id r" "fr_size_bytes c = n" "fr_status c = fr_status r"
      using that r by (auto simp: moved_weight_def weight_def is_active_def)
    show ?thesis
      unfolding Some option.case
      by (rule triple_pre [OF triple_bind [OF pay f]]) (auto simp: eq)
  qed
qed (use r actor in auto)

lemma store_overwrite_desk:
  assumes "fr_user_id r = u" "is_active r"
  shows "triple (\<lambda>w. desk A w0 d w \<and> holds r w) (store_overwrite S u r tmp final_path data n sec)
    (\<lambda>_. desk A w0 d) (\<lambda>_ _. True)"
proof -
  have del: "quiet (if found then st_delete (fs_adapter S) final_path else ret ())" for found
    by (intro quiet_service)
  show ?thesis
    unfolding store_overwrite_def Let_def
    by (intro skip quiet_seq [OF del] steadies settle_difference assms triple_ret) auto
qed

lemma overwrite_file_desk:
  assumes sec: "sec \<noteq> SHARED"
  shows "triple (desk A w0 d) (overwrite_file S u path filename data n sec) (\<lambda>_. desk A w0 d) (\<lambda>_ _. True)"
  unfolding overwrite_file_def Let_def
proof (intro triple_seq [OF get_record_desk] triple_option)
  fix existing and r :: file_record
  assume existing: "existing = Some r"
  have check: "triple (\<lambda>w. desk A w0 d w \<and> holds r w)
      (if 0 < n - fr_size_bytes r then ensure_overwrite_quota S u (n - fr_size_bytes r) sec else ret ())
      (\<lambda>_ w. desk A w0 d w \<and> holds r w) (\<lambda>_ _. True)"
    by (intro triple_if ensure_quota_desk triple_ret)
  have "triple (\<lambda>w. owned A u sec r \<and> desk A w0 d w \<and> holds r w)
      (bind (if 0 < n - fr_size_bytes r then ensure_overwrite_quota S u (n - fr_size_bytes r) sec else ret ()) (\<lambda>_.
       try_except (store_overwrite S u r (join_path TMP_DIR (uuid_str (fr_id r)))
           (join_path (normalize_path path) filename) data n sec)
         (\<lambda>e. bind (discard_tmp S (join_path TMP_DIR (uuid_str (fr_id r)))) (\<lambda>_. raise e))))
      (\<lambda>_. desk A w0 d) (\<lambda>_ _. True)"
    by (rule triple_fact, rule triple_bind [OF check], rule triple_try [OF store_overwrite_desk triple_reraise(1)])
      (use sec in \<open>auto simp: owned_def\<close>)
  then show "triple (found_record existing d sec)
      (bind (if 0 < n - fr_size_bytes r then ensure_overwrite_quota S u (n - fr_size_bytes r) sec else ret ()) (\<lambda>_.
       try_except (store_overwrite S u r (join_path TMP_DIR (uuid_str (fr_id r)))
           (join_path (normalize_path path) filename) data n sec)
         (\<lambda>e. bind (discard_tmp S (join_path TMP_DIR (uuid_str (fr_id r)))) (\<lambda>_. raise e))))
      (\<lambda>_. desk A w0 d) (\<lambda>_ _. True)"
    by (rule triple_pre) (simp add: found_record_def existing)
qed (use sec in \<open>auto intro: triple_pre [OF upload_file_desk] simp: found_record_def\<close>)

text \<open>Deleting a directory: the released bytes are those of the deleted records.\<close>

lemma delete_loop_desk:
  assumes "distinct (map fr_id rs)" "\<forall>r \<in> set rs. fr_user_id r = u \<and> is_active r"
  shows "triple (\<lambda>w. desk A w0 d w \<and> (\<forall>r \<in> set rs. holds r w))
    (for_each (\<lambda>r.
        bind (if fr_is_archived r then delete_archived_blob E r else ret ()) (\<lambda>_.
        bind (delete_record (fr_id r)) (\<lambda>_. ret ()))) rs)
    (\<lambda>_. desk A w0 (\<lambda>v. d v + (if v = u then sum_list (map fr_size_bytes rs) else 0))) (\<lambda>_ _. True)"
  using assms
proof (induction rs arbitrary: d)
  case Nil
  show ?case unfolding for_each.simps list.map sum_list.Nil if_cancel add_0_right by (rule triple_ret) simp
next
  case (Cons r rs)
  let ?d = "\<lambda>v. d v + (if v = u then fr_size_bytes r else 0)"
  have A: "fr_user_id r \<in> A" and r: "fr_user_id r = u" "is_active r" using Cons.prems actor by auto
  have q: "quiet (if fr_is_archived r then delete_archived_blob E r else ret ())"
    by (intro quiet_service)
  have d: "(\<lambda>v. d v + weight v r) = ?d" using r by (auto simp: weight_def)
  have others: "triple (\<lambda>w. holds r w \<and> (\<forall>x \<in> set rs. holds x w)) (delete_record (fr_id r))
      (\<lambda>_ w. \<forall>x \<in> set rs. holds x w) (\<lambda>_ _. True)"
    using Cons.prems(1)
    by (intro tripleI) (auto simp: delete_record_def change_file_def flush_file_def run holds_def
        on_files_def get_file_def find_replace_file image_iff split: if_splits option.splits)
  have first: "triple (\<lambda>w. desk A w0 d w \<and> (\<forall>x \<in> set (r # rs). holds x w)) (delete_record (fr_id r))
      (\<lambda>_ w. desk A w0 ?d w \<and> (\<forall>x \<in> set rs. holds x w)) (\<lambda>_ _. True)"
    by (rule triple_weaken [OF triple_conj [OF triple_delete_record [OF A, of w0 d] others]]) (auto simp: d)
  have sum: "(\<lambda>v. ?d v + (if v = u then sum_list (map fr_size_bytes rs) else 0)) =
      (\<lambda>v. d v + (if v = u then sum_list (map fr_size_bytes (r # rs)) else 0))" by auto
  have IH: "triple (\<lambda>w. desk A w0 ?d w \<and> (\<forall>x \<in> set rs. holds x w))
    (for_each (\<lambda>r.
        bind (if fr_is_archived r then delete_archived_blob E r else ret ()) (\<lambda>_.
        bind (delete_record (fr_id r)) (\<lambda>_. ret ()))) rs)
    (\<lambda>_. desk A w0 (\<lambda>v. d v + (if v = u then sum_list (map fr_size_bytes (r # rs)) else 0))) (\<lambda>_ _. True)"
    unfolding sum [symmetric] by (rule Cons.IH) (use Cons.prems in auto)
  show ?case
    unfolding for_each.simps bind_assoc bind_ret
    by (intro quiet_seq [OF q] triple_bind [OF first IH] steady_conj steady_desk steady_ball steady_holds TrueI)
qed

lemma delete_directory_desk:
  "triple (desk A w0 d) (delete_directory_recursive S u path) (\<lambda>_. desk A w0 d) (\<lambda>_ _. True)"
proof -
  have pay: "triple (desk A w0 (\<lambda>v. d v + (if v = u then n else 0)))
      (if n \<noteq> 0 then bind (decrement (fs_env S) u n (fs_section S)) (\<lambda>_. ret ()) else ret ())
      (\<lambda>_. desk A w0 d) (\<lambda>_ _. True)" for n
  proof (rule triple_if)
    have "(\<lambda>v. (d v + (if v = u then n else 0)) + (if v = u then - n else 0)) = d" by auto
    then have "triple (desk A w0 (\<lambda>v. d v + (if v = u then n else 0))) (decrement (fs_env S) u n (fs_section S))
        (\<lambda>_. desk A w0 d) (\<lambda>_ _. True)"
      by (intro triple_weaken [OF triple_decrement [OF actor filed_true]]) auto
    then show "triple (desk A w0 (\<lambda>v. d v + (if v = u then n else 0)))
        (bind (decrement (fs_env S) u n (fs_section S)) (\<lambda>_. ret ())) (\<lambda>_. desk A w0 d) (\<lambda>_ _. True)"
      by (rule triple_bind) (auto intro: triple_ret)
  next
    assume "\<not> n \<noteq> 0"
    then have "(\<lambda>v. d v + (if v = u then n else 0)) = d" by auto
    then show "triple (desk A w0 (\<lambda>v. d v + (if v = u then n else 0))) (ret ()) (\<lambda>_. desk A w0 d) (\<lambda>_ _. True)"
      by (intro triple_ret) simp
  qed
  show ?thesis
    unfolding delete_directory_recursive_def list_active_under_prefix_def Let_def
    by (intro skip steadies triple_if triple_raise triple_seq [OF triple_all_files] triple_fact
        steady_ball triple_bind [OF delete_loop_desk] triple_bind [OF pay] triple_ret TrueI) auto
qed

lemma delete_by_path_desk:
  "triple (desk A w0 d) (delete_by_path S u path who) (\<lambda>_. desk A w0 d) (\<lambda>_ _. True)"
  unfolding delete_by_path_def Let_def
proof (intro triple_seq [OF get_record_desk [OF shared]] triple_option)
  fix res
  have dir: "triple (desk A w0 d)
      (bind (delete_directory_recursive S u (normalize_path path)) (\<lambda>_. ret ())) (\<lambda>_. desk A w0 d) (\<lambda>_ _. True)"
    by (rule triple_bind [OF delete_directory_desk]) (auto intro: triple_ret)
  have "triple (desk A w0 d)
      (bind (st_exists (fs_adapter S) (normalize_path path)) (\<lambda>found.
       if \<not> found then raise Storage_File_Not_Found
       else bind (is_directory S (normalize_path path)) (\<lambda>is_dir.
         if is_dir \<and> fs_section S = FILES \<and> normalize_path path \<noteq> [] then
           bind (delete_directory_recursive S u (normalize_path path)) (\<lambda>_. ret ())
         else st_delete (fs_adapter S) (normalize_path path)))) (\<lambda>_. desk A w0 d) (\<lambda>_ _. True)"
    by (intro skip steadies triple_if triple_raise dir
        triple_weaken [OF triple_quiet [OF quiet_storage(4) steady_desk]]) auto
  then show "triple (found_record res d (fs_section S))
      (bind (st_exists (fs_adapter S) (normalize_path path)) (\<lambda>found.
       if \<not> found then raise Storage_File_Not_Found
       else bind (is_directory S (normalize_path path)) (\<lambda>is_dir.
         if is_dir \<and> fs_section S = FILES \<and> normalize_path path \<noteq> [] then
           bind (delete_directory_recursive S u (normalize_path path)) (\<lambda>_. ret ())
         else st_delete (fs_adapter S) (normalize_path path)))) (\<lambda>_. desk A w0 d) (\<lambda>_ _. True)"
    by (rule triple_pre) (simp add: found_record_def)
next
  fix res r
  show "triple (found_record res d (fs_section S)) (delete_file S u (fr_id r) who) (\<lambda>_. desk A w0 d) (\<lambda>_ _. True)"
    by (rule triple_pre [OF delete_file_desk]) (simp add: found_record_def)
qed auto

text \<open>Unpacking an archive; an entry that fails leaves the books balanced, too.\<close>

lemma quiet_zip_parent: "quiet (zip_parent (fs_adapter S) path created)"
  unfolding zip_parent_def by (intro quiet_service)

lemma quiet_zip_make_dirs: "quiet (zip_make_dirs (fs_adapter S) ts created)"
proof (induction ts arbitrary: created)
  case (Cons t ts)
  obtain path clean e where t: "t = (path, clean, e)" by (cases t)
  show ?case unfolding t zip_make_dirs.simps by (intro quiet_service Cons.IH)
qed (simp add: quiet_rowless_atoms)

lemma zip_extract_desk: "triple (desk A w0 d) (zip_extract S u t) (\<lambda>_. desk A w0 d) (\<lambda>_. desk A w0 d)"
  unfolding zip_extract_def Let_def
proof (intro triple_prod triple_fact skip steadies triple_seq [OF triple_create_pending [OF actor]])
  fix p c e and r :: file_record and checksum path name
  assume r: "fr_user_id r = u \<and> fr_size_bytes r = ze_file_size e \<and> fr_status r = S_PENDING"
  show "triple (\<lambda>w. desk A w0 d w \<and> holds r w)
     (bind (update_status (fr_id r) S_COMMITTED checksum path name) (\<lambda>committed.
     case committed of
       None \<Rightarrow> bind (delete_record (fr_id r)) (\<lambda>_. ret False)
     | Some c \<Rightarrow>
         bind (increment (fs_env S) u (ze_file_size e) (fs_section S)) (\<lambda>_.
         bind (enqueue_upload (fs_env S) (fs_index S) c) (\<lambda>_. ret True))))
     (\<lambda>_. desk A w0 d) (\<lambda>_. desk A w0 d)"
    by (rule commit_desk) (use r actor in \<open>auto intro!: skip steadies triple_ret\<close>)
qed auto

lemma zip_write_desk: "triple (desk A w0 d) (zip_write S u ts st) (\<lambda>_. desk A w0 d) (\<lambda>_ _. True)"
proof (induction ts arbitrary: st)
  case Nil
  show ?case unfolding zip_write.simps by (rule triple_ret)
next
  case (Cons t ts)
  obtain path clean e where t: "t = (path, clean, e)" by (cases t)
  have one: "triple (desk A w0 d) (try_except (zip_extract S u (path, clean, e)) (\<lambda>_. ret False))
      (\<lambda>_. desk A w0 d) (\<lambda>_ _. True)"
    by (rule triple_try [OF zip_extract_desk]) (rule triple_ret)
  show ?case
    unfolding t zip_write.simps
    by (intro triple_if Cons.IH quiet_seq [OF quiet_zip_parent] steadies triple_bind [OF one] TrueI)
qed

lemma upload_zip_desk:
  "triple (desk A w0 d) (upload_zip_folder S u path name packed unpacked available)
    (\<lambda>_. desk A w0 d) (\<lambda>_ _. True)"
proof -
  have quiet_targets: "quiet (lift v)" "quiet (st_mkdir (fs_adapter S) p)" for v :: "exn + 'z" and p
    by (intro quiet_service)+
  show ?thesis
    unfolding upload_zip_folder_def Let_def
    by (intro triple_if triple_option triple_raise skip steadies quiet_seq [OF quiet_rowless_atoms(3)]
        quiet_seq [OF quiet_zip_make_dirs] zip_write_desk TrueI)
qed

text \<open>Reading by path moves access times, and heals a path.\<close>

lemma read_by_path_desk: "triple (desk A w0 d) (read_by_path S u path) (\<lambda>_. desk A w0 d) (\<lambda>_. desk A w0 d)"
  unfolding read_by_path_def Let_def
proof (intro triple_seq [OF get_record_desk [OF shared]])
  fix first
  have again: "triple (found_record first d (fs_section S))
     (if first = None \<and> ends_with (normalize_path path) ARCHIVE_EXTENSION
      then get_record_by_section_path S u
             (take (length (normalize_path path) - length ARCHIVE_EXTENSION) (normalize_path path)) (fs_section S)
      else ret first) (\<lambda>res. found_record res d (fs_section S)) (\<lambda>_. desk A w0 d)"
    by (intro triple_if triple_ret triple_pre [OF get_record_desk [OF shared]]) (auto simp: found_record_def)
  have read: "triple (found_record res d (fs_section S))
     (case res of
        Some r \<Rightarrow>
          bind (if fr_is_archived r then stream_archived S r
                else st_read (fs_adapter S) (normalize_path path)) (\<lambda>b.
          bind (touch_last_accessed (fs_env S) (fr_id r)) (\<lambda>_. ret b))
      | None \<Rightarrow> st_read (fs_adapter S) (normalize_path path)) (\<lambda>_. desk A w0 d) (\<lambda>_. desk A w0 d)" for res
  proof (rule triple_option)
    show "triple (found_record res d (fs_section S)) (st_read (fs_adapter S) (normalize_path path))
        (\<lambda>_. desk A w0 d) (\<lambda>_. desk A w0 d)"
      by (rule triple_pre [OF triple_quiet [OF _ steady_desk]])
        (auto intro: quiet_service simp: found_record_def)
  next
    fix r assume r: "res = Some r"
    have q: "quiet (if fr_is_archived r then stream_archived S r else st_read (fs_adapter S) (normalize_path path))"
      by (intro quiet_service)
    have "triple (\<lambda>w. owned A u (fs_section S) r \<and> desk A w0 d w \<and> holds r w)
       (bind (if fr_is_archived r then stream_archived S r
                else st_read (fs_adapter S) (normalize_path path)) (\<lambda>b.
          bind (touch_last_accessed (fs_env S) (fr_id r)) (\<lambda>_. ret b))) (\<lambda>_. desk A w0 d) (\<lambda>_. desk A w0 d)"
    proof (rule triple_fact)
      assume "owned A u (fs_section S) r"
      then have A: "fr_user_id r \<in> A" by (simp add: owned_def)
      show "triple (\<lambda>w. desk A w0 d w \<and> holds r w)
         (bind (if fr_is_archived r then stream_archived S r
                else st_read (fs_adapter S) (normalize_path path)) (\<lambda>b.
          bind (touch_last_accessed (fs_env S) (fr_id r)) (\<lambda>_. ret b))) (\<lambda>_. desk A w0 d) (\<lambda>_. desk A w0 d)"
        by (intro quiet_seq [OF q] steadies triple_seq [OF triple_touch [OF A]] triple_ret) auto
    qed
    then show "triple (found_record res d (fs_section S))
       (bind (if fr_is_archived r then stream_archived S r
                else st_read (fs_adapter S) (normalize_path path)) (\<lambda>b.
          bind (touch_last_accessed (fs_env S) (fr_id r)) (\<lambda>_. ret b))) (\<lambda>_. desk A w0 d) (\<lambda>_. desk A w0 d)"
      by (rule triple_pre) (simp add: found_record_def r)
  qed
  show "triple (found_record first d (fs_section S))
     (bind (if first = None \<and> ends_with (normalize_path path) ARCHIVE_EXTENSION
            then get_record_by_section_path S u
                   (take (length (normalize_path path) - length ARCHIVE_EXTENSION) (normalize_path path)) (fs_section S)
            else ret first) (\<lambda>res.
      case res of
        Some r \<Rightarrow>
          bind (if fr_is_archived r then stream_archived S r
                else st_read (fs_adapter S) (normalize_path path)) (\<lambda>b.
          bind (touch_last_accessed (fs_env S) (fr_id r)) (\<lambda>_. ret b))
      | None \<Rightarrow> st_read (fs_adapter S) (normalize_path path))) (\<lambda>_. desk A w0 d) (\<lambda>_. desk A w0 d)"
    by (rule triple_bind [OF again read])
qed auto

end

end
