(* ===== verification/AdminService.thy ===== *)
theory AdminService
  imports Accounts ArchiveService MaintenanceService
begin

text \<open>
  \<open>AdminService\<close> (\<open>application/admin_service.py\<close>) and the administration endpoints
  (\<open>presentation/routers/admin_router.py\<close>): the directory joined with local quotas, limits, blocking and
  deleting users, storage statistics, and the jobs an administrator starts by hand. A limit that
  comes as a float is the rational number it denotes; scaling it by a power of two is exact.
\<close>

definition BYTES_PER_MB :: int where "BYTES_PER_MB = 1024 * 1024"
definition BYTES_PER_GB :: int where "BYTES_PER_GB = 1024 * 1024 * 1024"

section \<open>Listing users\<close>

record user_admin_view =
  uv_id :: uuid
  uv_email :: string
  uv_role :: role
  uv_is_active :: bool
  uv_created_at :: instant
  uv_quota_used_bytes :: int
  uv_limit_bytes :: int
  uv_private_limit_bytes :: int

definition casefold :: "string \<Rightarrow> string" where
  "casefold s = concat (map (\<lambda>c. if char_code c = 223 then ''ss'' else [lower_char c]) s)"

definition filter_directory_users ::
  "directory_user list \<Rightarrow> role option \<Rightarrow> string option \<Rightarrow> directory_user list" where
  "filter_directory_users ds role_filter email_search =
     (let by_role = (case role_filter of None \<Rightarrow> ds | Some r \<Rightarrow> filter (\<lambda>d. du_storage_role d = r) ds) in
      case email_search of
        None \<Rightarrow> by_role
      | Some q \<Rightarrow> if q = [] then by_role
                 else filter (\<lambda>d. contains (casefold (du_email d)) (casefold q)) by_role)"

definition view_from_directory_user :: "env \<Rightarrow> directory_user \<Rightarrow> user_admin_row option \<Rightarrow> user_admin_view action" where
  "view_from_directory_user E d row = (case row of
       None \<Rightarrow> bind (utc_now E) (\<lambda>now. ret \<lparr>uv_id = du_id d, uv_email = du_email d, uv_role = du_storage_role d,
         uv_is_active = True, uv_created_at = now, uv_quota_used_bytes = 0,
         uv_limit_bytes = default_user_quota_bytes E, uv_private_limit_bytes = 0\<rparr>)
     | Some r \<Rightarrow> ret \<lparr>uv_id = du_id d, uv_email = du_email d, uv_role = du_storage_role d,
         uv_is_active = us_is_active (ua_user r), uv_created_at = us_created_at (ua_user r),
         uv_quota_used_bytes = ua_quota_used_bytes r, uv_limit_bytes = ua_limit_bytes r,
         uv_private_limit_bytes = ua_private_limit_bytes r\<rparr>)"

definition list_users ::
  "env \<Rightarrow> directory_user list \<Rightarrow> nat \<Rightarrow> nat \<Rightarrow> role option \<Rightarrow> string option \<Rightarrow>
    (user_admin_view list \<times> nat) action" where
  "list_users E ds page limit role_filter email_search =
     (let filtered = filter_directory_users ds role_filter email_search;
          page_users = take limit (drop ((page - 1) * limit) filtered) in
      bind (get_admin_rows_by_ids E (map du_id page_users)) (\<lambda>rows.
      bind (map_act (\<lambda>d. view_from_directory_user E d (map_of (rev rows) (du_id d))) page_users) (\<lambda>views.
      ret (views, length filtered))))"

section \<open>Quotas\<close>

definition ensure_local_user :: "env \<Rightarrow> uuid \<Rightarrow> directory_user list \<Rightarrow> unit action" where
  "ensure_local_user E target ds = (case find (\<lambda>d. du_id d = target) ds of
       None \<Rightarrow> raise User_Not_Found
     | Some d \<Rightarrow>
         bind (upsert_from_principal E \<lparr>ap_id = du_id d, ap_email = du_email d, ap_name = du_username d,
                 ap_role = du_storage_role d\<rparr>) (\<lambda>u.
         if u = None then raise Other_Error else ret ()))"

definition update_user_quota ::
  "env \<Rightarrow> uuid \<Rightarrow> directory_user list \<Rightarrow> rat option \<Rightarrow> rat option \<Rightarrow> unit action" where
  "update_user_quota E target ds limit_mb private_limit_gb =
     (if limit_mb = None \<and> private_limit_gb = None then raise Value_Error
      else if (\<exists>x \<in> set_option limit_mb. x < 0) then raise Value_Error
      else if (\<exists>x \<in> set_option private_limit_gb. x < 0) then raise Value_Error
      else
        bind (ensure_local_user E target ds) (\<lambda>_.
        bind (case limit_mb of None \<Rightarrow> ret ()
              | Some x \<Rightarrow> bind (update_limit E target \<lfloor>x * of_int BYTES_PER_MB\<rfloor>) (\<lambda>_. ret ())) (\<lambda>_.
        (case private_limit_gb of None \<Rightarrow> ret ()
         | Some x \<Rightarrow> bind (update_private_limit E target \<lfloor>x * of_int BYTES_PER_GB\<rfloor>) (\<lambda>_. ret ())))))"

section \<open>Blocking and deleting\<close>

definition block_user :: "uuid \<Rightarrow> unit action" where
  "block_user target =
     bind (set_active target False) (\<lambda>u. if u = None then raise User_Not_Found else ret ())"

definition ignore_errors :: "unit action \<Rightarrow> unit action" where
  "ignore_errors m = try_except m (\<lambda>_. ret ())"

definition cleanup_shared_file :: "env \<Rightarrow> file_record \<Rightarrow> unit action" where
  "cleanup_shared_file E r =
     (if fr_section r \<noteq> SHARED then ret ()
      else if get_disk_by_id (fr_disk_id r) = None then ret ()
      else
        let A = build_disk_root_adapter E (fr_disk_id r);
            path = or_else (fr_archive_path r) (fr_relative_path r) in
        ignore_errors (bind (st_exists A path) (\<lambda>found. if found then st_delete A path else ret ())))"

definition cleanup_user_storage :: "env \<Rightarrow> uuid \<Rightarrow> file_record list \<Rightarrow> unit action" where
  "cleanup_user_storage E u records =
     bind (for_each (\<lambda>d.
        let A = build_disk_root_adapter E (dv_id d); user_prefix = ''users/'' @ uuid_str u in
        ignore_errors (bind (st_exists A user_prefix) (\<lambda>found.
          if found then st_delete A user_prefix else ret ()))) get_all_disks) (\<lambda>_.
     for_each (cleanup_shared_file E) records)"

definition delete_user :: "env \<Rightarrow> uuid \<Rightarrow> uuid \<Rightarrow> unit action" where
  "delete_user E admin target =
     (if admin = target then raise Self_User_Deletion
      else
        bind (user_by_id target) (\<lambda>found.
        if found = None then raise User_Not_Found
        else
          bind (list_all_by_user target) (\<lambda>records.
          bind (cleanup_user_storage E target records) (\<lambda>_.
          bind (delete_user_row target) (\<lambda>deleted.
          if \<not> deleted then raise User_Not_Found else ret ())))))"

section \<open>Storage statistics\<close>

record disk_stat =
  dk_id :: string
  dk_total_bytes :: int
  dk_used_bytes :: int
  dk_free_bytes :: int
  dk_status :: string

definition disk_stat_of :: "string \<Rightarrow> disk_space option \<Rightarrow> string \<Rightarrow> disk_stat" where
  "disk_stat_of disk space health = (case space of
       None \<Rightarrow> \<lparr>dk_id = disk, dk_total_bytes = 0, dk_used_bytes = 0, dk_free_bytes = 0, dk_status = health\<rparr>
     | Some s \<Rightarrow> \<lparr>dk_id = disk, dk_total_bytes = sp_total s, dk_used_bytes = sp_used s,
                  dk_free_bytes = sp_free s, dk_status = health\<rparr>)"

fun storage_stats_of ::
  "env \<Rightarrow> (string \<times> string) list \<Rightarrow> space_cache \<Rightarrow> disk_volume list \<Rightarrow> disk_stat list action" where
  "storage_stats_of E health cached [] = ret []"
| "storage_stats_of E health cached (d # ds) =
     bind (probe_disk_space E cached (dv_id d)) (\<lambda>(space, cached1).
     bind (storage_stats_of E health cached1 ds) (\<lambda>others.
     ret (disk_stat_of (dv_id d) space
       (case map_of health (dv_id d) of None \<Rightarrow> DISK_STATUS_UNAVAILABLE | Some s \<Rightarrow> s) # others)))"

definition get_storage_stats :: "env \<Rightarrow> disk_stat list action" where
  "get_storage_stats E =
     bind (health_check E Map.empty) (\<lambda>(health, cached).
     storage_stats_of E health cached get_all_disks)"

section \<open>Endpoints\<close>

definition as_admin :: "env \<Rightarrow> headers \<Rightarrow> (user \<Rightarrow> 'a action) \<Rightarrow> 'a action" where
  "as_admin E H handler =
     bind (get_current_user E H) (\<lambda>u. bind (check_role [ADMIN] u) (\<lambda>_. handler u))"

definition USER_NOT_FOUND_404 :: "exn \<times> exn" where
  "USER_NOT_FOUND_404 = (User_Not_Found, Http_Exception 404 ''USER_NOT_FOUND'' None)"

definition list_users_endpoint ::
  "env \<Rightarrow> headers \<Rightarrow> nat \<Rightarrow> nat \<Rightarrow> role option \<Rightarrow> string option \<Rightarrow> (user_admin_view list \<times> nat) action" where
  "list_users_endpoint E H page limit r email =
     as_admin E H (\<lambda>_.
       bind (list_directory_users E) (\<lambda>ds.
       without_commit (list_users E ds page limit r (map_option strip email))))"

definition update_user_role_endpoint :: "env \<Rightarrow> headers \<Rightarrow> unit action" where
  "update_user_role_endpoint E H =
     as_admin E H (\<lambda>_. raise (Http_Exception 410 ''ACCESS_DENIED'' None))"

definition update_user_quota_endpoint ::
  "env \<Rightarrow> headers \<Rightarrow> uuid \<Rightarrow> rat option \<Rightarrow> rat option \<Rightarrow> unit action" where
  "update_user_quota_endpoint E H target limit_mb private_limit_gb =
     as_admin E H (\<lambda>_. as_http [USER_NOT_FOUND_404, (Value_Error, Http_Exception 400 ''ACCESS_DENIED'' None)]
       (in_session (bind (list_directory_users E) (\<lambda>ds.
          update_user_quota E target ds limit_mb private_limit_gb))))"

definition block_user_endpoint :: "env \<Rightarrow> headers \<Rightarrow> uuid \<Rightarrow> unit action" where
  "block_user_endpoint E H target =
     as_admin E H (\<lambda>_. as_http [USER_NOT_FOUND_404] (in_session (block_user target)))"

definition delete_user_endpoint :: "env \<Rightarrow> headers \<Rightarrow> uuid \<Rightarrow> unit action" where
  "delete_user_endpoint E H target =
     as_admin E H (\<lambda>admin. as_http
       [(Self_User_Deletion, Http_Exception 403 ''ACCESS_DENIED'' None), USER_NOT_FOUND_404]
       (in_session (delete_user E (us_id admin) target)))"

definition storage_stats_endpoint :: "env \<Rightarrow> headers \<Rightarrow> disk_stat list action" where
  "storage_stats_endpoint E H = as_admin E H (\<lambda>_. get_storage_stats E)"

definition storage_health_endpoint :: "env \<Rightarrow> headers \<Rightarrow> (string \<times> string) list action" where
  "storage_health_endpoint E H =
     as_admin E H (\<lambda>_. bind (health_check E Map.empty) (\<lambda>(health, _). ret health))"

definition run_archive_endpoint :: "env \<Rightarrow> headers \<Rightarrow> archive_report action" where
  "run_archive_endpoint E H =
     as_admin E H (\<lambda>_. in_session (run_daily_archive E (Some (sql_links E))))"

definition archive_stats_endpoint :: "env \<Rightarrow> headers \<Rightarrow> archive_stats action" where
  "archive_stats_endpoint E H = as_admin E H (\<lambda>_. without_commit (archive_get_stats E))"

definition run_maintenance_endpoint ::
  "env \<Rightarrow> headers \<Rightarrow> (int \<times> int \<times> reconcile_report \<times> archive_report) action" where
  "run_maintenance_endpoint E H =
     as_admin E H (\<lambda>_. in_session (
       bind (cleanup_pending_records E) (\<lambda>pending.
       bind (cleanup_tmp_dirs E) (\<lambda>tmp.
       bind (reconcile_quotas E) (\<lambda>reconcile.
       bind (run_daily_archive E (Some (sql_links E))) (\<lambda>archive.
       ret (pending, tmp, reconcile, archive)))))))"

definition maintenance_stats_endpoint :: "env \<Rightarrow> headers \<Rightarrow> maintenance_stats action" where
  "maintenance_stats_endpoint E H = as_admin E H (\<lambda>_. maintenance_get_stats)"

section \<open>What blocking does\<close>

lemma block_user_Inr:
  assumes "in_session (block_user u) w = (Inr (), w1)"
  obtains m where "find_user u w = Some m" "\<not> broken w" "\<not> broken w1"
    "w1 = w\<lparr>users := map (\<lambda>x. if ur_id x = u then m\<lparr>ur_is_active := False\<rparr> else x) (users w)\<rparr>"
proof -
  have exec: "block_user u w = (Inr (), w1)" "\<not> broken w1" using assms by (simp_all add: in_session_Inr)
  then obtain m where m: "find_user u w = Some m" "\<not> broken w"
    by (auto simp: block_user_def set_active_def bind_Inr query_def split: if_splits option.splits)
  with exec have "flush_user (m\<lparr>ur_is_active := False\<rparr>) w = (Inr (), w1)"
    by (auto simp: block_user_def set_active_def bind_Inr query_def split: if_splits)
  with m exec find_user_in [OF m(1)] show ?thesis by (auto dest!: flush_user_Inr intro: that)
qed

lemma find_user_map:
  "ur_id m' = u \<Longrightarrow> find (\<lambda>x. ur_id x = u) (map (\<lambda>x. if ur_id x = u then m' else x) ms) =
    map_option (\<lambda>_. m') (find (\<lambda>x. ur_id x = u) ms)"
  by (induction ms) auto

text \<open>
  C28. Blocking a user in the administration has no effect on what the user may do: after the block
  has been committed the row says inactive, and the user's next request is let through as before
  and makes the row active again.
\<close>

theorem block_is_undone:
  assumes "in_session (block_user u) w = (Inr (), w1)"
    and "resolve_user_id H = Inr u" "header_storage_role H = Inr (Some r)" "r \<noteq> BLOCKED"
    and "\<And>m. m \<in> set (users w) \<Longrightarrow> ur_id m = u \<longleftrightarrow> ur_email m = header_text H HEADER_AUTH_EMAIL"
    and "header_text H HEADER_AUTH_EMAIL \<noteq> []" "length (header_text H HEADER_AUTH_EMAIL) \<le> 255"
  shows "(\<exists>m \<in> set (users w1). ur_id m = u \<and> \<not> ur_is_active m) \<and>
    (\<exists>v w2. get_current_user E H w1 = (Inr v, w2) \<and> us_id v = u \<and> us_is_active v \<and>
      (\<exists>m \<in> set (users w2). ur_id m = u \<and> ur_is_active m))"
proof -
  obtain m where m: "find_user u w = Some m" "\<not> broken w" "\<not> broken w1"
    and w1: "w1 = w\<lparr>users := map (\<lambda>x. if ur_id x = u then m\<lparr>ur_is_active := False\<rparr> else x) (users w)\<rparr>"
    by (rule block_user_Inr [OF assms(1)])
  let ?m = "m\<lparr>ur_is_active := False\<rparr>"
  have id: "m \<in> set (users w)" "ur_id m = u" "ur_email m = header_text H HEADER_AUTH_EMAIL"
    using find_user_in [OF m(1)] assms(5) by auto
  have f: "find_user u w1 = Some ?m" using m(1) id(2) by (simp add: find_user_def w1 find_user_map)
  have "\<exists>v w2. get_current_user E H w1 = (Inr v, w2)"
    by (rule current_user_known [OF assms(2-4) f]) (use assms(5-7) id m in \<open>auto simp: w1 split: if_splits\<close>)
  then obtain v w2 where exec: "get_current_user E H w1 = (Inr v, w2)" by blast
  have "\<exists>x \<in> set (users w1). ur_id x = u \<and> \<not> ur_is_active x"
    by (rule bexI [of _ ?m]) (use find_user_in [OF f] in simp_all)
  with exec current_user_facts [OF exec] assms(2) show ?thesis by auto
qed

theorem block_is_undone_witness:
  "\<exists>w1. in_session (block_user 3) (empty_world\<lparr>users := [\<lparr>ur_id = 3, ur_email = ''a@b'', ur_is_active = True,
      ur_created_at = 0\<rparr>]\<rparr>) = (Inr (), w1) \<and> (\<exists>m \<in> set (users w1). ur_id m = 3 \<and> \<not> ur_is_active m) \<and>
    (\<exists>v w2. get_current_user (sample_env (\<lambda>_ _. Reply_Crash) (\<lambda>_ _. S3_Crash)) (sample_headers 3) w1 = (Inr v, w2) \<and>
      us_id v = 3 \<and> us_is_active v \<and> (\<exists>m \<in> set (users w2). ur_id m = 3 \<and> ur_is_active m))"
proof -
  let ?w = "empty_world\<lparr>users := [\<lparr>ur_id = 3, ur_email = ''a@b'', ur_is_active = True, ur_created_at = 0\<rparr>]\<rparr>"
  have "\<exists>w1. in_session (block_user 3) ?w = (Inr (), w1)"
    by (simp add: in_session_def block_user_def set_active_def find_user_def flush_user_def run empty_world_def)
  then obtain w1 where exec: "in_session (block_user 3) ?w = (Inr (), w1)" by blast
  from block_is_undone [OF exec sample_identity(1,2)] sample_identity(3) exec show ?thesis by auto
qed

end
