(* ===== verification/Sessions.thy ===== *)
theory Sessions
  imports FileApi FileBooks AdminService
begin

text \<open>
  The books across sessions: \<open>sound A m\<close> says that an action that opens its own sessions leaves the
  counters equal to the sizes of the active files, and changes only rows of users in \<open>A\<close>. The rules
  compose it along the code of a request.
\<close>

section \<open>From one session to the next\<close>

text \<open>\<open>settled A w w'\<close>: the books still balance and only rows of users in \<open>A\<close> have changed.\<close>

definition settled :: "uuid set \<Rightarrow> world \<Rightarrow> world \<Rightarrow> bool" where
  "settled A w w' \<longleftrightarrow> \<not> broken w' \<and> balanced w' \<and> others_same A w w'"

definition sound :: "uuid set \<Rightarrow> 'a action \<Rightarrow> bool" where
  "sound A m \<longleftrightarrow> (\<forall>w. \<not> broken w \<longrightarrow> balanced w \<longrightarrow> settled A w (snd (m w)))"

named_theorems sound_rules

lemma others_same_refl [simp]: "others_same A w w"
  by (simp add: others_same_def)

lemma settled_refl: "\<not> broken w \<Longrightarrow> balanced w \<Longrightarrow> settled A w w"
  by (simp add: settled_def)

lemma settled_trans: "settled A w w1 \<Longrightarrow> settled A w1 w2 \<Longrightarrow> settled A w w2"
  by (simp add: settled_def others_same_def)

lemma settled_same:
  "files w' = files w \<Longrightarrow> quotas w' = quotas w \<Longrightarrow> \<not> broken w' \<Longrightarrow> balanced w \<Longrightarrow> settled A w w'"
  by (simp add: settled_def ledger_def others_same_def quota_table_ok_def charged_def get_quota_def active_bytes_def)

lemma soundD: "sound A m \<Longrightarrow> \<not> broken w \<Longrightarrow> balanced w \<Longrightarrow> m w = (r, w') \<Longrightarrow> settled A w w'"
  by (force simp: sound_def)

lemma sound_mono: "sound A m \<Longrightarrow> sound UNIV m"
  by (simp add: sound_def settled_def others_same_def)

lemma sound_ret [sound_rules]: "sound A (ret x)"
  by (simp add: sound_def settled_refl)

lemma sound_raise [sound_rules]: "sound A (raise e)"
  by (simp add: sound_def settled_refl)

lemma sound_lift [sound_rules]: "sound A (lift r)"
  by (simp add: lift_def sound_rules split: sum.split)

lemma sound_bind [sound_rules]:
  assumes "sound A m" "\<And>x. sound A (f x)"
  shows "sound A (bind m f)"
  unfolding sound_def
proof (intro allI impI)
  fix w assume w: "\<not> broken w" "balanced w"
  obtain r w1 where m: "m w = (r, w1)" by fastforce
  with assms(1) w have s: "settled A w w1" by (blast intro: soundD)
  then have w1: "\<not> broken w1" "balanced w1" by (simp_all add: settled_def)
  show "settled A w (snd (bind m f w))"
  proof (cases r)
    case (Inr x)
    obtain r' w2 where "f x w1 = (r', w2)" by fastforce
    with soundD [OF assms(2) w1] s m Inr show ?thesis by (auto simp: bind_def intro: settled_trans)
  qed (use m s in \<open>simp add: bind_def\<close>)
qed

lemma sound_try [sound_rules]:
  assumes "sound A m" "\<And>e. sound A (h e)"
  shows "sound A (try_except m h)"
  unfolding sound_def
proof (intro allI impI)
  fix w assume w: "\<not> broken w" "balanced w"
  obtain r w1 where m: "m w = (r, w1)" by fastforce
  with assms(1) w have s: "settled A w w1" by (blast intro: soundD)
  then have w1: "\<not> broken w1" "balanced w1" by (simp_all add: settled_def)
  show "settled A w (snd (try_except m h w))"
  proof (cases r)
    case (Inl e)
    obtain r' w2 where "h e w1 = (r', w2)" by fastforce
    with soundD [OF assms(2) w1] s m Inl show ?thesis by (auto simp: try_except_def intro: settled_trans)
  qed (use m s in \<open>simp add: try_except_def\<close>)
qed

lemma sound_if [sound_rules]: "sound A m \<Longrightarrow> sound A n \<Longrightarrow> sound A (if b then m else n)"
  by simp

lemma sound_option [sound_rules]:
  "sound A m \<Longrightarrow> (\<And>x. sound A (f x)) \<Longrightarrow> sound A (case y of None \<Rightarrow> m | Some x \<Rightarrow> f x)"
  by (simp split: option.split)

lemma sound_list [sound_rules]:
  "sound A m \<Longrightarrow> (\<And>x xs. sound A (f x xs)) \<Longrightarrow> sound A (case y of [] \<Rightarrow> m | x # xs \<Rightarrow> f x xs)"
  by (simp split: list.split)

lemma sound_prod [sound_rules]: "(\<And>x y. sound A (f x y)) \<Longrightarrow> sound A (case z of (x, y) \<Rightarrow> f x y)"
  by (simp split: prod.split)

lemma sound_let [sound_rules]: "sound A (f x) \<Longrightarrow> sound A (let y = x in f y)"
  by simp

lemma sound_as_http [sound_rules]: "sound A m \<Longrightarrow> sound A (as_http clauses m)"
  unfolding as_http_def by (intro sound_rules)

lemma sound_for_each [sound_rules]: "(\<And>x. sound A (f x)) \<Longrightarrow> sound A (for_each f xs)"
  by (induction xs) (auto intro: sound_rules)

lemma sound_map_act [sound_rules]: "(\<And>x. sound A (f x)) \<Longrightarrow> sound A (map_act f xs)"
  by (induction xs) (auto intro!: sound_rules)

lemma rowless_sound: "rowless m \<Longrightarrow> sound A m"
  unfolding sound_def
  by (intro allI impI settled_same) (auto dest: rowlessD [where w' = "snd (m w)" for w, OF _ prod.collapse [symmetric]] simp: same_rows_def)

text \<open>A session commits a balanced state, or restores the one it began with.\<close>

lemma sound_in_session:
  assumes "\<And>w. triple (desk A w (\<lambda>_. 0)) m (\<lambda>_. desk A w (\<lambda>_. 0)) (\<lambda>_ _. True)"
  shows "sound A (in_session m)"
  unfolding sound_def
proof (intro allI impI)
  fix w assume w: "\<not> broken w" "balanced w"
  then have pre: "desk A w (\<lambda>_. 0) w" by (simp add: desk_def)
  have undone: "settled A w (rollback w w')" for w'
    by (rule settled_same) (use w in \<open>simp_all add: rollback_def\<close>)
  obtain r w' where m: "m w = (r, w')" by fastforce
  show "settled A w (snd (in_session m w))"
  proof (cases r)
    case (Inr x)
    with tripleD [OF assms pre] m have "desk A w (\<lambda>_. 0) w'" by blast
    with m Inr undone show ?thesis by (auto simp: in_session_def desk_def settled_def)
  qed (use m undone in \<open>simp add: in_session_def\<close>)
qed

lemma sound_without_commit [sound_rules]: "sound A (without_commit m)"
  unfolding sound_def
  by (auto simp: without_commit_def rollback_def intro: settled_same split: prod.split)

text \<open>What changes only the table of links is sound, and so are the notifications after a commit.\<close>

lemma quiet_in_session: "quiet m \<Longrightarrow> sound A (in_session m)"
  by (rule sound_in_session) (rule triple_weaken [OF triple_quiet [OF _ steady_desk]], simp_all)

lemma sound_deliver [sound_rules]: "sound A (deliver_immediate_index_notifications E fs)"
  unfolding deliver_immediate_index_notifications_def Let_def
  by (intro sound_rules quiet_in_session)
    (simp add: quiet_def files_alone.notify_keeps root_objects_port)

lemma sound_capture [sound_rules]:
  assumes "sound A m"
  shows "sound A (capture_immediate_index_ids m)"
  unfolding sound_def
proof (intro allI impI)
  fix w assume w: "\<not> broken w" "balanced w"
  let ?w = "w\<lparr>captured := Some []\<rparr>"
  have "\<not> broken ?w" "settled A w ?w" using w by (simp_all add: settled_same)
  moreover from this have "balanced ?w" by (simp add: settled_def)
  ultimately have "settled A w (snd (m ?w))"
    using assms by (auto simp: sound_def intro: settled_trans)
  then have "settled A w ((snd (m ?w))\<lparr>captured := captured w\<rparr>)"
    by (rule settled_trans) (rule settled_same, use \<open>settled A w (snd (m ?w))\<close> in \<open>simp_all add: settled_def\<close>)
  then show "settled A w (snd (capture_immediate_index_ids m w))"
    by (simp add: capture_immediate_index_ids_def Let_def split: prod.split)
       (metis prod.collapse snd_conv)
qed

lemma sound_committed:
  assumes "\<And>w. triple (desk A w (\<lambda>_. 0)) m (\<lambda>_. desk A w (\<lambda>_. 0)) (\<lambda>_ _. True)"
  shows "sound A (committed E api m)"
  unfolding committed_def by (intro sound_rules sound_in_session assms)

text \<open>A session that changes neither files nor counters, such as the projection of the user.\<close>

lemma sound_frame_session:
  assumes "\<And>fs qs. keeps (\<lambda>w. files w = fs \<and> quotas w = qs) m"
  shows "sound A (in_session m)"
  unfolding sound_def
proof (intro allI impI)
  fix w assume w: "\<not> broken w" "balanced w"
  have "files (snd (m w)) = files w \<and> quotas (snd (m w)) = quotas w"
    using assms [of "files w" "quotas w"] by (auto dest: keepsD)
  then have "files (snd (in_session m w)) = files w \<and> quotas (snd (in_session m w)) = quotas w"
    by (auto simp: in_session_def rollback_def split: prod.split sum.split)
  moreover have "\<not> broken (snd (in_session m w))"
    by (auto simp: in_session_def rollback_def split: prod.split sum.split)
  ultimately show "settled A w (snd (in_session m w))" by (intro settled_same w) simp_all
qed

lemma upsert_frame: "keeps (\<lambda>w. files w = fs \<and> quotas w = qs) (upsert_from_principal E p)"
proof -
  have atoms: "keeps (\<lambda>w. files w = fs \<and> quotas w = qs) (insert_user E m)"
    "keeps (\<lambda>w. files w = fs \<and> quotas w = qs) (flush_user m)"
    "keeps (\<lambda>w. files w = fs \<and> quotas w = qs) (utc_now E)" for m
    by (auto simp: keeps_def insert_user_def flush_user_def utc_now_def)
  show ?thesis
    unfolding upsert_from_principal_def sync_projection_def user_by_id_def user_by_email_def Let_def
    by (auto intro!: keep_rules atoms split: exn.split)
qed

lemma sound_current_user [sound_rules]: "sound A (get_current_user E H)"
  unfolding get_current_user_def Let_def
  by (intro sound_rules directory_rowless [THEN rowless_sound] sound_frame_session upsert_frame)

lemma sound_check_role [sound_rules]: "sound A (check_role rs u)"
  unfolding check_role_def by (intro sound_rules)

end
