(* ===== verification/ApiBooks.thy ===== *)
theory ApiBooks
  imports Sessions
begin

text \<open>
  The endpoints of the file sections keep the books, and a request in a user's own section touches
  no row of another user.
\<close>

section \<open>Handlers\<close>

text \<open>A service that keeps the contract of \<open>file_desk\<close> from every world on.\<close>

locale section_desk =
  fixes S :: file_service and A :: "uuid set" and u :: uuid
  assumes service: "file_desk S A u"

sublocale section_desk \<subseteq> desk: file_desk S A w u for w
  by (rule service)

context section_desk begin

lemma quota_desk:
  "triple (desk A w (\<lambda>_. 0)) (ensure_upload_quota E u n) (\<lambda>_. desk A w (\<lambda>_. 0)) (\<lambda>_ _. True)"
  unfolding ensure_upload_quota_def Let_def
proof (rule triple_bind)
  show "triple (desk A w (\<lambda>_. 0)) (get_by_user_id E u) (\<lambda>_. desk A w (\<lambda>_. 0)) (\<lambda>_ _. True)"
    by (rule triple_weaken [OF get_by_user_id_desk [OF desk.actor, where F = "\<lambda>_. True"]])
      (auto simp: steady_def)
qed (auto intro: triple_if triple_ret triple_raise)

lemma sound_upload:
  assumes "us_id v = u"
  shows "sound A (upload_endpoint E api S v path f)"
  unfolding upload_endpoint_def assms
  by (intro sound_rules sound_committed triple_bind [OF quota_desk] desk.upload_file_desk)

lemma sound_upload_zip:
  assumes "us_id v = u"
  shows "sound A (upload_zip_endpoint E api S v path name packed)"
  unfolding upload_zip_endpoint_def assms
  by (intro sound_rules sound_committed triple_bind [OF quota_desk] desk.upload_zip_desk)

lemma sound_delete:
  assumes "us_id v = u"
  shows "sound A (delete_endpoint E api S v path)"
  unfolding delete_endpoint_def assms by (rule sound_committed) (rule desk.delete_by_path_desk)

lemma sound_mkdir: "sound A (mkdir_endpoint S v path name)"
  unfolding mkdir_endpoint_def create_directory_def
  by (intro sound_rules quiet_in_session desk.quiet_storage)

lemma sound_rename:
  assumes "us_id v = u"
  shows "sound A (rename_endpoint S v path name)"
  unfolding rename_endpoint_def assms
  by (intro sound_rules sound_in_session desk.rename_by_path_desk)

lemma sound_handle: "us_id v = u \<Longrightarrow> sound A (handle E depth api req S v)"
  by (cases req) (auto simp: search_endpoint_def
      intro!: sound_rules sound_upload sound_upload_zip sound_delete sound_mkdir sound_rename)

end

section \<open>The services of the sections\<close>

text \<open>
  The contract of the file services holds for each section on the S3 adapter: the user's own
  sections change only rows of the user, the shared one may change any user's.
\<close>

lemma plain_service_desk:
  assumes "sec = SHARED \<Longrightarrow> A = UNIV" and "u \<in> A" and "index = None \<or> index = Some (sql_links E)"
  shows "file_desk (plain_service E (create_storage_adapter E disk root_prefix) sec index) A u"
  by unfold_locales
    (use assms in \<open>auto simp: plain_service_def sql_index_def create_storage_adapter_def s3.storage_rowless\<close>)

interpretation files_desk:
  section_desk "plain_service E (create_storage_adapter E disk root_prefix) FILES (Some (sql_links E))" "{u}" u
  for E disk root_prefix u
  by (rule section_desk.intro, rule plain_service_desk) simp_all

interpretation shared_desk:
  section_desk "plain_service E (create_storage_adapter E disk root_prefix) SHARED None" UNIV u
  for E disk root_prefix u
  by (rule section_desk.intro, rule plain_service_desk) simp_all

interpretation resumes_desk:
  section_desk "plain_service E (create_storage_adapter E disk root_prefix) RESUMES None" "{u}" u
  for E disk root_prefix u
  by (rule section_desk.intro, rule plain_service_desk) simp_all

section \<open>Requests\<close>

lemma sound_bind_where:
  assumes "sound A m" and "\<And>w x w'. m w = (Inr x, w') \<Longrightarrow> sound A (f x)"
  shows "sound A (bind m f)"
  unfolding sound_def
proof (intro allI impI)
  fix w assume w: "\<not> broken w" "balanced w"
  obtain r w1 where m: "m w = (r, w1)" by fastforce
  with assms(1) w have s: "settled A w w1" by (blast intro: soundD)
  then have w1: "\<not> broken w1" "balanced w1" by (simp_all add: settled_def)
  show "settled A w (snd (bind m f w))"
  proof (cases r)
    case (Inr x)
    obtain r' w2 where "f x w1 = (r', w2)" by fastforce
    with soundD [OF assms(2) w1] s m Inr show ?thesis by (auto simp: bind_def intro: settled_trans)
  qed (use m s in \<open>simp add: bind_def\<close>)
qed

lemma resolve_disk_rowless: "rowless (resolve_disk_id E u secs)" "rowless (resolve_shared_disk_id E)"
proof -
  show "rowless (resolve_disk_id E u secs)"
    by (induction secs) (auto simp: list_by_user_section_def all_files_def
        intro!: rowless_rules get_write_disk_rowless split: list.split)
  show "rowless (resolve_shared_disk_id E)"
    unfolding resolve_shared_disk_id_def list_by_section_def all_files_def
    by (auto intro!: rowless_rules get_write_disk_rowless split: list.split)
qed

lemma build_adapter_rowless: "rowless (build_section_adapter E disk root_prefix dirs)"
proof -
  have "storage_port (create_storage_adapter E disk root_prefix)"
    unfolding create_storage_adapter_def by (rule s3.storage_port_axioms)
  then show ?thesis
    unfolding build_section_adapter_def Let_def
    by (intro rowless_rules rowless_for_each storage_port.storage_rowless)
qed

lemma build_adapter_Inr:
  "build_section_adapter E disk root_prefix dirs w = (Inr A, w') \<Longrightarrow> A = create_storage_adapter E disk root_prefix"
  by (auto simp: build_section_adapter_def Let_def bind_Inr)

lemma sound_services [sound_rules]:
  "sound A (get_file_service E v)" "sound A (get_shared_file_service E v)" "sound A (get_resumes_file_service E v)"
  "sound A (get_generated_file_service E v)"
  unfolding get_file_service_def get_shared_file_service_def get_resumes_file_service_def get_generated_file_service_def
  by (intro sound_rules resolve_disk_rowless [THEN rowless_sound] build_adapter_rowless [THEN rowless_sound])+

lemma try_Inr_reraise: "try_except m (\<lambda>e. raise (h e)) w = (Inr x, w') \<longleftrightarrow> m w = (Inr x, w')"
  by (auto simp: try_except_def split: prod.splits sum.splits)

lemma service_Inr:
  "get_file_service E v w = (Inr S, w') \<Longrightarrow>
    \<exists>disk p. S = plain_service E (create_storage_adapter E disk p) FILES (Some (sql_links E))"
  "get_shared_file_service E v w = (Inr S, w') \<Longrightarrow>
    \<exists>disk p. S = plain_service E (create_storage_adapter E disk p) SHARED None"
  "get_resumes_file_service E v w = (Inr S, w') \<Longrightarrow>
    \<exists>disk p. S = plain_service E (create_storage_adapter E disk p) RESUMES None"
  by (auto simp: get_file_service_def get_shared_file_service_def get_resumes_file_service_def
      as_http_def try_Inr_reraise bind_Inr dest!: build_adapter_Inr)

text \<open>The sections whose rows belong to the user of the request alone.\<close>

definition own_apis :: "env \<Rightarrow> file_api set" where
  "own_apis E = {files_api E, resumes_api E}"

definition section_apis :: "env \<Rightarrow> file_api set" where
  "section_apis E = insert (shared_api E) (own_apis E)"

lemma sound_requested:
  assumes "\<And>v w S w'. resolve_user_id H = Inr (us_id v) \<Longrightarrow> fa_service api v w = (Inr S, w') \<Longrightarrow> sound A (h S v)"
    and "\<And>v. sound A (fa_service api v)"
  shows "sound A (requested E api H h)"
  unfolding requested_def
  by (intro sound_bind_where [OF sound_current_user] sound_bind_where [OF assms(2)] assms(1))
    (auto dest: current_user_facts)

lemma sound_serve: "sound A (requested E api H (handle E depth api req)) \<Longrightarrow> sound A (serve E depth api H req)"
  unfolding serve_def respond_def by (cases req) (auto simp: search_endpoint_def intro!: sound_rules)

lemma sound_serve_own:
  assumes "resolve_user_id H = Inr i" and "api \<in> own_apis E"
  shows "sound {i} (serve E depth api H req)"
proof (rule sound_serve, rule sound_requested)
  fix v w S w' assume v: "resolve_user_id H = Inr (us_id v)" and S: "fa_service api v w = (Inr S, w')"
  have i: "us_id v = i" using v assms(1) by simp
  show "sound {i} (handle E depth api req S v)"
    using assms(2) S i files_desk.sound_handle resumes_desk.sound_handle
    by (auto simp: own_apis_def files_api_def resumes_api_def dest!: service_Inr)
qed (use assms(2) in \<open>auto simp: own_apis_def files_api_def resumes_api_def intro: sound_services\<close>)

lemma sound_serve_all:
  assumes "api \<in> section_apis E"
  shows "sound UNIV (serve E depth api H req)"
proof (rule sound_serve, rule sound_requested)
  fix v w S w' assume S: "fa_service api v w = (Inr S, w')"
  show "sound UNIV (handle E depth api req S v)"
    using assms S shared_desk.sound_handle [of v "us_id v"]
      sound_mono [OF files_desk.sound_handle [of v "us_id v"]] sound_mono [OF resumes_desk.sound_handle [of v "us_id v"]]
    by (auto simp: section_apis_def own_apis_def files_api_def shared_api_def resumes_api_def dest!: service_Inr)
qed (use assms in \<open>auto simp: section_apis_def own_apis_def files_api_def shared_api_def resumes_api_def intro: sound_services\<close>)

end
