(* ===== verification/EncryptedAdapter.thy ===== *)
theory EncryptedAdapter
  imports Storage Codecs
begin

text \<open>
  \<open>app/infrastructure/storage/encrypted_adapter.py\<close>: the storage adapter of the private section. It
  wraps another adapter and keeps names and contents encrypted: every path component is the
  URL-safe base64 of a nonce and a ciphertext, and a file is a sequence of frames, each a nonce, a
  four-byte length and a ciphertext. AES-GCM, PBKDF2 and \<open>os.urandom\<close> are fields of the environment.
\<close>

definition IV_SIZE :: nat where "IV_SIZE = 12"
definition CHUNK_SIZE_FIELD :: nat where "CHUNK_SIZE_FIELD = 4"
definition PLAIN_TMP_PREFIX :: string where "PLAIN_TMP_PREFIX = ''.tmp''"
definition MARKER_FILENAME :: string where "MARKER_FILENAME = ''.marker''"
definition MARKER_PLAINTEXT :: string where "MARKER_PLAINTEXT = ''HOMECLOUD_MARKER_V1''"

record enc_adapter =
  ea_inner :: storage
  ea_key :: bytes
  ea_env :: env

definition derive_encryption_key :: "env \<Rightarrow> string \<Rightarrow> uuid \<Rightarrow> bytes" where
  "derive_encryption_key E passphrase user_id = pbkdf2 E passphrase user_id"

definition os_urandom :: "env \<Rightarrow> bytes action" where
  "os_urandom E = (\<lambda>w. (Inr (urandom E (drawn w)), w\<lparr>drawn := Suc (drawn w)\<rparr>))"

section \<open>Blobs and names\<close>

definition encrypt_blob :: "env \<Rightarrow> bytes \<Rightarrow> bytes \<Rightarrow> bytes action" where
  "encrypt_blob E key plaintext = bind (os_urandom E) (\<lambda>iv. ret (iv @ aes_gcm_encrypt E key iv plaintext))"

text \<open>\<open>None\<close> is \<open>InvalidTag\<close>.\<close>

definition decrypt_blob :: "env \<Rightarrow> bytes \<Rightarrow> bytes \<Rightarrow> bytes option" where
  "decrypt_blob E key payload = aes_gcm_decrypt E key (take IV_SIZE payload) (drop IV_SIZE payload)"

definition encrypt_name :: "enc_adapter \<Rightarrow> string \<Rightarrow> string action" where
  "encrypt_name A name = bind (os_urandom (ea_env A)) (\<lambda>iv.
     ret (rstrip_by (\<lambda>c. c = CHR ''='')
       (urlsafe_b64encode (iv @ aes_gcm_encrypt (ea_env A) (ea_key A) iv (encode_utf8 name)))))"

text \<open>Every caller catches whatever \<open>decrypt_name\<close> raises: \<open>None\<close>.\<close>

definition decrypt_name :: "enc_adapter \<Rightarrow> string \<Rightarrow> string option" where
  "decrypt_name A enc_name =
     (let padding = replicate (nat (- int (length enc_name) mod 4)) (CHR ''='') in
      case urlsafe_b64decode (enc_name @ padding) of
        None \<Rightarrow> None
      | Some payload \<Rightarrow>
          (case aes_gcm_decrypt (ea_env A) (ea_key A) (take IV_SIZE payload) (drop IV_SIZE payload) of
             None \<Rightarrow> None | Some plaintext \<Rightarrow> decode_utf8 plaintext))"

section \<open>Frames\<close>

definition encrypt_chunk :: "enc_adapter \<Rightarrow> bytes \<Rightarrow> (bytes \<times> bytes) action" where
  "encrypt_chunk A plaintext = bind (os_urandom (ea_env A)) (\<lambda>iv.
     ret (iv, aes_gcm_encrypt (ea_env A) (ea_key A) iv plaintext))"

text \<open>
  \<open>encrypted_stream\<close>: one frame per chunk. The generator draws a nonce when the inner adapter asks
  for the next chunk; here all of them are drawn before the inner write, which draws none itself.
\<close>

fun encrypted_stream :: "enc_adapter \<Rightarrow> source \<Rightarrow> source action" where
  "encrypted_stream A Source_End = ret Source_End"
| "encrypted_stream A (Source_Fail e) = ret (Source_Fail e)"
| "encrypted_stream A (Source_Chunk plaintext_chunk rest) =
     bind (encrypt_chunk A plaintext_chunk) (\<lambda>(iv, ciphertext).
     case pack_be32 (length ciphertext) of
       None \<Rightarrow> ret (Source_Fail Other_Error)
     | Some length_field \<Rightarrow> bind (encrypted_stream A rest) (\<lambda>frames.
         ret (Source_Chunk (iv @ length_field @ ciphertext) frames)))"

text \<open>
  \<open>_decrypt_stream\<close> over \<open>_AsyncByteStream\<close>: exact-sized reads of a buffered stream; the chunks it
  yields, or the exception it ends with.
\<close>

function decrypt_stream :: "env \<Rightarrow> bytes \<Rightarrow> bytes \<Rightarrow> exn + bytes list" where
  "decrypt_stream E key b =
     (let iv = take IV_SIZE b; b1 = drop IV_SIZE b;
          size_bytes = take CHUNK_SIZE_FIELD b1; b2 = drop CHUNK_SIZE_FIELD b1;
          encrypted_size = unpack_be32 size_bytes; ciphertext = take encrypted_size b2
      in if iv = [] then Inr []
         else if length iv < IV_SIZE then Inl Value_Error
         else if length size_bytes < CHUNK_SIZE_FIELD then Inl Value_Error
         else if length ciphertext < encrypted_size then Inl Value_Error
         else (case aes_gcm_decrypt E key iv ciphertext of
             None \<Rightarrow> Inl Other_Error
           | Some plaintext \<Rightarrow> map_sum id ((#) plaintext) (decrypt_stream E key (drop encrypted_size b2))))"
  by pat_completeness auto
termination
  by (relation "measure (\<lambda>(E, key, b). length b)") (auto simp: IV_SIZE_def)

declare decrypt_stream.simps [simp del]

text \<open>\<open>read_encrypted_blob\<close> on the content of a local file, \<open>None\<close> when there is no such file.\<close>

definition read_encrypted_blob :: "enc_adapter \<Rightarrow> bytes option \<Rightarrow> exn + bytes" where
  "read_encrypted_blob A content = (case content of
       None \<Rightarrow> Inl Storage_File_Not_Found
     | Some b \<Rightarrow> map_sum id concat (decrypt_stream (ea_env A) (ea_key A) b))"

section \<open>Paths\<close>

definition enc_normalize_path :: "string \<Rightarrow> string" where
  "enc_normalize_path path = strip_slash (backslash_to_slash (strip path))"

definition is_plain_storage_path :: "string \<Rightarrow> bool" where
  "is_plain_storage_path path = (let normalized = enc_normalize_path path in
     normalized = PLAIN_TMP_PREFIX \<or> starts_with normalized (PLAIN_TMP_PREFIX @ ''/''))"

definition join_encrypted_path :: "string \<Rightarrow> string \<Rightarrow> string" where
  "join_encrypted_path parent name = (if parent = [] then name else parent @ CHR ''/'' # name)"

fun resolve_segments :: "enc_adapter \<Rightarrow> string list \<Rightarrow> string list \<Rightarrow> string action" where
  "resolve_segments A encrypted_parts [] = ret (join_on (CHR ''/'') encrypted_parts)"
| "resolve_segments A encrypted_parts (segment # segments) =
     bind (st_list (ea_inner A) (join_on (CHR ''/'') encrypted_parts)) (\<lambda>entries.
     case find (\<lambda>entry. decrypt_name A (fn_name entry) = Some segment) entries of
       None \<Rightarrow> raise Storage_File_Not_Found
     | Some entry \<Rightarrow> resolve_segments A (encrypted_parts @ [fn_name entry]) segments)"

definition resolve_encrypted_path :: "enc_adapter \<Rightarrow> string \<Rightarrow> string action" where
  "resolve_encrypted_path A logical_path = (let normalized = enc_normalize_path logical_path in
     if normalized = [] then ret []
     else if is_plain_storage_path normalized then ret normalized
     else resolve_segments A [] (split_on (CHR ''/'') normalized))"

definition to_encrypted_path :: "enc_adapter \<Rightarrow> string \<Rightarrow> string action" where
  "to_encrypted_path A logical_path = (let normalized = enc_normalize_path logical_path in
     if normalized = [] then ret []
     else if is_plain_storage_path normalized then ret normalized
     else let segments = split_on (CHR ''/'') normalized in
       if length segments = 1 then encrypt_name A (hd segments)
       else bind (resolve_encrypted_path A (join_on (CHR ''/'') (butlast segments))) (\<lambda>parent_encrypted.
         bind (encrypt_name A (last segments)) (\<lambda>leaf_encrypted.
         ret (join_encrypted_path parent_encrypted leaf_encrypted))))"

section \<open>The adapter\<close>

definition decrypted_chunks :: "enc_adapter \<Rightarrow> string \<Rightarrow> bytes list action" where
  "decrypted_chunks A encrypted_path = bind (st_read (ea_inner A) encrypted_path) (\<lambda>b.
     lift (decrypt_stream (ea_env A) (ea_key A) b))"

definition decrypted_file_size :: "enc_adapter \<Rightarrow> string \<Rightarrow> int action" where
  "decrypted_file_size A encrypted_path = bind (decrypted_chunks A encrypted_path) (\<lambda>chunks.
     ret (int (length (concat chunks))))"

fun decrypt_nodes :: "enc_adapter \<Rightarrow> string \<Rightarrow> file_node list \<Rightarrow> file_node list action" where
  "decrypt_nodes A encrypted_path [] = ret []"
| "decrypt_nodes A encrypted_path (node # nodes) = (case decrypt_name A (fn_name node) of
       None \<Rightarrow> decrypt_nodes A encrypted_path nodes
     | Some decrypted_name \<Rightarrow>
         bind (if fn_is_dir node then ret (fn_size node)
               else decrypted_file_size A (join_encrypted_path encrypted_path (fn_name node))) (\<lambda>plain_size.
         bind (decrypt_nodes A encrypted_path nodes) (\<lambda>rest.
         ret (\<lparr>fn_name = decrypted_name, fn_is_dir = fn_is_dir node, fn_size = plain_size,
            fn_modified_at = fn_modified_at node, fn_uploaded_by = None\<rparr> # rest))))"

definition enc_list :: "enc_adapter \<Rightarrow> string \<Rightarrow> file_node list action" where
  "enc_list A path = bind (resolve_encrypted_path A path) (\<lambda>encrypted_path.
     bind (st_list (ea_inner A) encrypted_path) (\<lambda>encrypted_nodes.
     decrypt_nodes A encrypted_path encrypted_nodes))"

definition enc_read :: "enc_adapter \<Rightarrow> string \<Rightarrow> bytes action" where
  "enc_read A path = bind (resolve_encrypted_path A path) (\<lambda>encrypted_path.
     bind (st_exists (ea_inner A) encrypted_path) (\<lambda>found.
     if \<not> found then raise Storage_File_Not_Found
     else bind (decrypted_chunks A encrypted_path) (\<lambda>chunks. ret (concat chunks))))"

definition enc_write :: "enc_adapter \<Rightarrow> string \<Rightarrow> source \<Rightarrow> int \<Rightarrow> string action" where
  "enc_write A path data declared = bind (to_encrypted_path A path) (\<lambda>encrypted_path.
     bind (encrypted_stream A data) (\<lambda>frames.
     bind (st_write (ea_inner A) encrypted_path frames 0) (\<lambda>_.
     ret (sha256_hex (ea_env A) (source_bytes data)))))"

definition enc_delete :: "enc_adapter \<Rightarrow> string \<Rightarrow> unit action" where
  "enc_delete A path = bind (resolve_encrypted_path A path) (st_delete (ea_inner A))"

definition enc_mkdir :: "enc_adapter \<Rightarrow> string \<Rightarrow> unit action" where
  "enc_mkdir A path = bind (to_encrypted_path A path) (st_mkdir (ea_inner A))"

definition enc_rename :: "enc_adapter \<Rightarrow> string \<Rightarrow> string \<Rightarrow> unit action" where
  "enc_rename A old_path new_path = bind (resolve_encrypted_path A old_path) (\<lambda>encrypted_old.
     bind (to_encrypted_path A new_path) (st_rename (ea_inner A) encrypted_old))"

definition enc_exists :: "enc_adapter \<Rightarrow> string \<Rightarrow> bool action" where
  "enc_exists A path =
     (if is_plain_storage_path path then st_exists (ea_inner A) path
      else bind (try_except
          (bind (resolve_encrypted_path A path) (\<lambda>encrypted_path. ret (Some encrypted_path)))
          (\<lambda>e. if e = Storage_File_Not_Found then ret None else raise e)) (\<lambda>resolved.
        case resolved of
          None \<Rightarrow> ret False
        | Some encrypted_path \<Rightarrow> st_exists (ea_inner A) encrypted_path))"

definition enc_get_size :: "enc_adapter \<Rightarrow> string \<Rightarrow> int action" where
  "enc_get_size A path =
     (if is_plain_storage_path path then st_get_size (ea_inner A) path
      else bind (resolve_encrypted_path A path) (decrypted_file_size A))"

definition enc_storage :: "enc_adapter \<Rightarrow> storage" where
  "enc_storage A = \<lparr>st_root_prefix = st_root_prefix (ea_inner A), st_disk_id = st_disk_id (ea_inner A),
     st_list = enc_list A, st_read = enc_read A, st_write = enc_write A, st_delete = enc_delete A,
     st_mkdir = enc_mkdir A, st_rename = enc_rename A, st_exists = enc_exists A,
     st_get_size = enc_get_size A, st_stale_tmp = st_stale_tmp (ea_inner A),
     st_encrypt_path = to_encrypted_path A\<rparr>"

section \<open>The marker\<close>

definition marker_exists :: "enc_adapter \<Rightarrow> bool action" where
  "marker_exists A = st_exists (ea_inner A) MARKER_FILENAME"

definition validate_marker :: "enc_adapter \<Rightarrow> bool action" where
  "validate_marker A = bind (marker_exists A) (\<lambda>found.
     if \<not> found then ret False
     else try_except (bind (st_read (ea_inner A) MARKER_FILENAME) (\<lambda>payload.
         ret (case decrypt_blob (ea_env A) (ea_key A) payload of
             None \<Rightarrow> False
           | Some plaintext \<Rightarrow> decode_utf8 plaintext = Some MARKER_PLAINTEXT)))
       (\<lambda>_. ret False))"

definition write_marker :: "enc_adapter \<Rightarrow> unit action" where
  "write_marker A = bind (encrypt_blob (ea_env A) (ea_key A) (encode_utf8 MARKER_PLAINTEXT)) (\<lambda>m.
     bind (st_write (ea_inner A) MARKER_FILENAME (whole_source m) (int (length m))) (\<lambda>_. ret ()))"

section \<open>Frames of the database\<close>

lemma rowless_urandom [rowless_rules, simp]: "rowless (os_urandom E)"
  by (simp add: rowless_def relates_def os_urandom_def same_rows_def)

lemma rowless_enc_name [rowless_rules, simp]: "rowless (encrypt_name A n)"
  by (simp add: encrypt_name_def rowless_bind)

lemma rowless_encrypted_stream [rowless_rules, simp]: "rowless (encrypted_stream A src)"
proof (induction src)
  case (Source_Chunk c src)
  then show ?case
    by (auto simp: encrypt_chunk_def intro!: rowless_rules)
qed (simp_all only: encrypted_stream.simps rowless_ret)

lemmas port_rules = storage_port.storage_rowless rowless_rules

lemma rowless_resolve_segments:
  "storage_port (ea_inner A) \<Longrightarrow> rowless (resolve_segments A ps segs)"
  by (induction segs arbitrary: ps) (auto intro!: port_rules)

lemma rowless_paths:
  assumes "storage_port (ea_inner A)"
  shows "rowless (resolve_encrypted_path A p)" "rowless (to_encrypted_path A p)"
  using rowless_resolve_segments [OF assms]
  by (auto simp: resolve_encrypted_path_def to_encrypted_path_def Let_def intro!: rowless_rules)

lemma rowless_size: "storage_port (ea_inner A) \<Longrightarrow> rowless (decrypted_file_size A p)"
  by (auto simp: decrypted_file_size_def decrypted_chunks_def intro!: port_rules)

lemma rowless_nodes: "storage_port (ea_inner A) \<Longrightarrow> rowless (decrypt_nodes A p ns)"
  by (induction ns) (auto intro!: rowless_rules rowless_size)

text \<open>The encrypted adapter keeps the contract of the adapter it wraps.\<close>

lemma enc_storage_port: "storage_port (ea_inner A) \<Longrightarrow> storage_port (enc_storage A)"
  by (unfold_locales)
    (auto simp: enc_storage_def enc_list_def enc_read_def enc_write_def enc_delete_def enc_mkdir_def
      enc_rename_def enc_exists_def enc_get_size_def decrypted_chunks_def
      intro!: port_rules rowless_paths rowless_size rowless_nodes)

lemma rowless_marker:
  "storage_port (ea_inner A) \<Longrightarrow> rowless (marker_exists A)"
  "storage_port (ea_inner A) \<Longrightarrow> rowless (validate_marker A)"
  "storage_port (ea_inner A) \<Longrightarrow> rowless (write_marker A)"
  by (auto simp: marker_exists_def validate_marker_def write_marker_def encrypt_blob_def intro!: port_rules)

section \<open>Decryption undoes encryption\<close>

text \<open>What AES-GCM and \<open>os.urandom\<close> promise: a nonce of twelve bytes, and decryption with the same key and nonce.\<close>

definition sound_cipher :: "env \<Rightarrow> bool" where
  "sound_cipher E \<longleftrightarrow> (\<forall>n. length (urandom E n) = IV_SIZE) \<and>
     (\<forall>key iv b. aes_gcm_decrypt E key iv (aes_gcm_encrypt E key iv b) = Some b)"

lemma iv_length [simp]: "sound_cipher E \<Longrightarrow> length (urandom E n) = IV_SIZE"
  by (simp add: sound_cipher_def)

lemma aes_round [simp]: "sound_cipher E \<Longrightarrow> aes_gcm_decrypt E key iv (aes_gcm_encrypt E key iv b) = Some b"
  by (simp add: sound_cipher_def)

lemma decrypt_encrypted_name:
  assumes "sound_cipher (ea_env A)" and "encrypt_name A name w = (Inr enc, w')"
  shows "decrypt_name A enc = Some name" "enc \<noteq> []" "\<forall>c \<in> set enc. c \<noteq> CHR ''/'' \<and> c \<noteq> CHR ''.''"
proof -
  define payload where "payload = urandom (ea_env A) (drawn w) @
      aes_gcm_encrypt (ea_env A) (ea_key A) (urandom (ea_env A) (drawn w)) (encode_utf8 name)"
  have enc: "enc = b64_body payload"
    using assms(2) by (simp add: encrypt_name_def bind_def os_urandom_def b64_strip_pad payload_def)
  have "urlsafe_b64decode (enc @ replicate (nat (- int (length enc) mod 4)) (CHR ''='')) = Some payload"
    using b64_decode_body [of payload] by (simp add: enc b64_pad_def)
  then show "decrypt_name A enc = Some name"
    using assms(1) by (simp add: decrypt_name_def payload_def)
  have "payload \<noteq> []" using iv_length [OF assms(1), of "drawn w"] by (auto simp: payload_def IV_SIZE_def)
  then show "enc \<noteq> []" "\<forall>c \<in> set enc. c \<noteq> CHR ''/'' \<and> c \<noteq> CHR ''.''"
    using b64_body_plain by (auto simp: enc)
qed

fun source_chunks :: "source \<Rightarrow> bytes list" where
  "source_chunks Source_End = []"
| "source_chunks (Source_Fail e) = []"
| "source_chunks (Source_Chunk c s) = c # source_chunks s"

lemma concat_source_chunks: "concat (source_chunks src) = source_bytes src"
  by (induction src) auto

lemma decrypt_frame:
  assumes "sound_cipher E" and "length iv = IV_SIZE" and "pack_be32 (length ct) = Some field"
    and "aes_gcm_decrypt E key iv ct = Some p"
  shows "decrypt_stream E key ((iv @ field @ ct) @ b) = map_sum id ((#) p) (decrypt_stream E key b)"
  using assms pack_be32_length [OF assms(3)] unpack_pack [OF assms(3)]
  by (subst decrypt_stream.simps) (auto simp: Let_def CHUNK_SIZE_FIELD_def IV_SIZE_def)

lemma decrypt_stream_Nil [simp]: "decrypt_stream E key [] = Inr []"
  by (subst decrypt_stream.simps) simp

lemma stream_round:
  assumes "sound_cipher (ea_env A)" and "encrypted_stream A src w = (Inr frames, w')" and "source_error frames = None"
  shows "decrypt_stream (ea_env A) (ea_key A) (source_bytes frames) = Inr (source_chunks src)"
  using assms(2,3)
proof (induction src arbitrary: w frames w')
  case (Source_Chunk c rest)
  let ?iv = "urandom (ea_env A) (drawn w)"
  let ?ct = "aes_gcm_encrypt (ea_env A) (ea_key A) ?iv c"
  obtain len_bytes tail_frames where f: "pack_be32 (length ?ct) = Some len_bytes"
    and r: "encrypted_stream A rest (w\<lparr>drawn := Suc (drawn w)\<rparr>) = (Inr tail_frames, w')"
    and fr: "frames = Source_Chunk (?iv @ len_bytes @ ?ct) tail_frames" "source_error tail_frames = None"
    using Source_Chunk.prems
    by (auto simp: bind_def encrypt_chunk_def os_urandom_def split: option.splits sum.splits prod.splits)
  have "decrypt_stream (ea_env A) (ea_key A) (source_bytes tail_frames) = Inr (source_chunks rest)"
    by (rule Source_Chunk.IH [OF r fr(2)])
  then show ?case
    using fr(1) f assms(1) decrypt_frame [of "ea_env A" ?iv ?ct len_bytes "ea_key A" c "source_bytes tail_frames"]
    by simp
qed auto

end
