(* ===== verification/SessionStore.thy ===== *)
theory SessionStore
  imports SyncJob Codecs
begin

text \<open>
  \<open>app/infrastructure/session_store.py\<close>: the keys of unlocked vaults and the counters of attempts in
  Redis, and the rate limit of \<open>middleware/rate_limit.py\<close>. Redis is a table of texts in which an entry
  may have an expiry; each command reads the clock, and an entry past its expiry is absent. A
  connection that fails is not modelled.
\<close>

section \<open>Redis\<close>

type_synonym redis = "(string \<times> string \<times> instant option) list"

definition live :: "instant \<Rightarrow> instant option \<Rightarrow> bool" where
  "live now expiry = (case expiry of None \<Rightarrow> True | Some t \<Rightarrow> now < t)"

text \<open>The value and the expiry of a key that has not expired.\<close>

definition entry :: "redis \<Rightarrow> instant \<Rightarrow> string \<Rightarrow> (string \<times> instant option) option" where
  "entry C now k = (case map_of C k of
       None \<Rightarrow> None
     | Some (v, expiry) \<Rightarrow> if live now expiry then Some (v, expiry) else None)"

definition drop_key :: "string \<Rightarrow> redis \<Rightarrow> redis" where
  "drop_key k C = filter (\<lambda>(k', _). k' \<noteq> k) C"

definition put_key :: "string \<Rightarrow> string \<Rightarrow> instant option \<Rightarrow> redis \<Rightarrow> redis" where
  "put_key k v expiry C = (k, v, expiry) # drop_key k C"

text \<open>A command: what it answers and leaves, at the time it is executed.\<close>

definition redis_command :: "env \<Rightarrow> (instant \<Rightarrow> redis \<Rightarrow> (exn + 'a) \<times> redis) \<Rightarrow> 'a action" where
  "redis_command E f = bind (utc_now E) (\<lambda>now. (\<lambda>w.
     case f now (cache w) of (r, C) \<Rightarrow> (r, w\<lparr>cache := C\<rparr>)))"

definition redis_get :: "env \<Rightarrow> string \<Rightarrow> string option action" where
  "redis_get E k = redis_command E (\<lambda>now C. (Inr (map_option fst (entry C now k)), C))"

text \<open>\<open>SETEX\<close> refuses a lifetime that is not positive.\<close>

definition redis_setex :: "env \<Rightarrow> string \<Rightarrow> int \<Rightarrow> string \<Rightarrow> unit action" where
  "redis_setex E k seconds v = redis_command E (\<lambda>now C.
     if seconds \<le> 0 then (Inl Other_Error, C)
     else (Inr (), put_key k v (Some (now + seconds * SECOND)) C))"

definition redis_delete :: "env \<Rightarrow> string \<Rightarrow> bool action" where
  "redis_delete E k = redis_command E (\<lambda>now C. (Inr (entry C now k \<noteq> None), drop_key k C))"

definition redis_getdel :: "env \<Rightarrow> string \<Rightarrow> string option action" where
  "redis_getdel E k = redis_command E (\<lambda>now C. (Inr (map_option fst (entry C now k)), drop_key k C))"

text \<open>\<open>INCR\<close> keeps the expiry; \<open>EXPIRE\<close> sets it; \<open>TTL\<close> answers -2 for no key and -1 for no expiry.\<close>

definition redis_incr :: "env \<Rightarrow> string \<Rightarrow> nat action" where
  "redis_incr E k = redis_command E (\<lambda>now C. case entry C now k of
       None \<Rightarrow> (Inr 1, put_key k (decimal 1) None C)
     | Some (v, expiry) \<Rightarrow> (case parse_decimal v of
           None \<Rightarrow> (Inl Other_Error, C)
         | Some n \<Rightarrow> (Inr (Suc n), put_key k (decimal (Suc n)) expiry C)))"

definition redis_expire :: "env \<Rightarrow> string \<Rightarrow> int \<Rightarrow> unit action" where
  "redis_expire E k seconds = redis_command E (\<lambda>now C. case entry C now k of
       None \<Rightarrow> (Inr (), C)
     | Some (v, _) \<Rightarrow> (Inr (), if seconds \<le> 0 then drop_key k C
         else put_key k v (Some (now + seconds * SECOND)) C))"

definition redis_ttl :: "env \<Rightarrow> string \<Rightarrow> int action" where
  "redis_ttl E k = redis_command E (\<lambda>now C. (Inr (case entry C now k of
       None \<Rightarrow> -2
     | Some (_, None) \<Rightarrow> -1
     | Some (_, Some t) \<Rightarrow> (t - now + SECOND div 2) div SECOND), C))"

section \<open>The store\<close>

definition PRIVATE_KEY_PREFIX :: string where "PRIVATE_KEY_PREFIX = ''private_key:''"
definition OAUTH_STATE_PREFIX :: string where "OAUTH_STATE_PREFIX = ''oauth_state:''"
definition OAUTH_TICKET_PREFIX :: string where "OAUTH_TICKET_PREFIX = ''oauth_ticket:''"
definition OAUTH_STATE_TTL_SECONDS :: int where "OAUTH_STATE_TTL_SECONDS = 600"
definition OAUTH_TICKET_TTL_SECONDS :: int where "OAUTH_TICKET_TTL_SECONDS = 120"
definition AUTH_RATE_LIMIT_PREFIX :: string where "AUTH_RATE_LIMIT_PREFIX = ''auth_rate:''"
definition UNLOCK_ATTEMPTS_PREFIX :: string where "UNLOCK_ATTEMPTS_PREFIX = ''unlock_attempts:''"
definition UNLOCK_RATE_LIMIT_MAX_ATTEMPTS :: int where "UNLOCK_RATE_LIMIT_MAX_ATTEMPTS = 5"
definition UNLOCK_RATE_LIMIT_TTL_SECONDS :: int where "UNLOCK_RATE_LIMIT_TTL_SECONDS = 900"

definition set_private_key :: "env \<Rightarrow> string \<Rightarrow> string \<Rightarrow> int \<Rightarrow> unit action" where
  "set_private_key E session_id key ttl = redis_setex E (PRIVATE_KEY_PREFIX @ session_id) ttl key"

definition get_private_key :: "env \<Rightarrow> string \<Rightarrow> string option action" where
  "get_private_key E session_id = redis_get E (PRIVATE_KEY_PREFIX @ session_id)"

definition delete_private_key :: "env \<Rightarrow> string \<Rightarrow> unit action" where
  "delete_private_key E session_id = bind (redis_delete E (PRIVATE_KEY_PREFIX @ session_id)) (\<lambda>_. ret ())"

definition get_private_key_ttl :: "env \<Rightarrow> string \<Rightarrow> int action" where
  "get_private_key_ttl E session_id = bind (redis_ttl E (PRIVATE_KEY_PREFIX @ session_id)) (\<lambda>ttl.
     ret (if ttl < 0 then 0 else ttl))"

definition unlock_key :: "string \<Rightarrow> string \<Rightarrow> string" where
  "unlock_key user_id client_ip = UNLOCK_ATTEMPTS_PREFIX @ user_id @ CHR '':'' # client_ip"

definition increment_unlock_attempts :: "env \<Rightarrow> string \<Rightarrow> string \<Rightarrow> int action" where
  "increment_unlock_attempts E user_id client_ip =
     bind (redis_incr E (unlock_key user_id client_ip)) (\<lambda>count.
     bind (if count = 1 then redis_expire E (unlock_key user_id client_ip) UNLOCK_RATE_LIMIT_TTL_SECONDS
           else ret ()) (\<lambda>_. ret (int count)))"

definition reset_unlock_attempts :: "env \<Rightarrow> string \<Rightarrow> string \<Rightarrow> unit action" where
  "reset_unlock_attempts E user_id client_ip =
     bind (redis_delete E (unlock_key user_id client_ip)) (\<lambda>_. ret ())"

text \<open>\<open>int(value)\<close> of a text that is not a number raises \<open>ValueError\<close>.\<close>

definition get_unlock_attempts :: "env \<Rightarrow> string \<Rightarrow> string \<Rightarrow> int action" where
  "get_unlock_attempts E user_id client_ip =
     bind (redis_get E (unlock_key user_id client_ip)) (\<lambda>value.
     case value of
       None \<Rightarrow> ret 0
     | Some v \<Rightarrow> (case parse_decimal v of None \<Rightarrow> raise Value_Error | Some n \<Rightarrow> ret (int n)))"

definition increment_auth_requests :: "env \<Rightarrow> string \<Rightarrow> string \<Rightarrow> int \<Rightarrow> (int \<times> int) action" where
  "increment_auth_requests E endpoint client_ip window_seconds =
     (let k = AUTH_RATE_LIMIT_PREFIX @ endpoint @ CHR '':'' # client_ip in
      bind (redis_incr E k) (\<lambda>count.
      bind (if count = 1 then redis_expire E k window_seconds else ret ()) (\<lambda>_.
      bind (redis_ttl E k) (\<lambda>ttl.
      ret (int count, if ttl > 0 then ttl else window_seconds)))))"

definition store_oauth_state :: "env \<Rightarrow> string \<Rightarrow> unit action" where
  "store_oauth_state E oauth_state =
     redis_setex E (OAUTH_STATE_PREFIX @ oauth_state) OAUTH_STATE_TTL_SECONDS ''1''"

definition consume_oauth_state :: "env \<Rightarrow> string \<Rightarrow> bool action" where
  "consume_oauth_state E oauth_state = redis_delete E (OAUTH_STATE_PREFIX @ oauth_state)"

definition store_oauth_ticket :: "env \<Rightarrow> string \<Rightarrow> string \<Rightarrow> unit action" where
  "store_oauth_ticket E ticket access_token =
     redis_setex E (OAUTH_TICKET_PREFIX @ ticket) OAUTH_TICKET_TTL_SECONDS access_token"

definition consume_oauth_ticket :: "env \<Rightarrow> string \<Rightarrow> string option action" where
  "consume_oauth_ticket E ticket = redis_getdel E (OAUTH_TICKET_PREFIX @ ticket)"

section \<open>The rate limit of the login pages\<close>

definition AUTH_RATE_LIMITS :: "string \<Rightarrow> (int \<times> int) option" where
  "AUTH_RATE_LIMITS = [''/api/auth/login'' \<mapsto> (10, 60), ''/api/auth/register'' \<mapsto> (5, 60)]"

text \<open>The first address of \<open>X-Forwarded-For\<close>, which the client may have sent itself, or the peer.\<close>

definition client_ip_of :: "string option \<Rightarrow> string option \<Rightarrow> string" where
  "client_ip_of forwarded peer = (case forwarded of
       Some f \<Rightarrow> if f \<noteq> [] then strip (hd (split_on (CHR '','') f))
                else (case peer of Some p \<Rightarrow> p | None \<Rightarrow> ''unknown'')
     | None \<Rightarrow> (case peer of Some p \<Rightarrow> p | None \<Rightarrow> ''unknown''))"

text \<open>\<open>AuthRateLimitMiddleware\<close>: \<open>Some s\<close> is the 429 answer with its \<open>retry_after\<close>, \<open>None\<close> lets the request pass.\<close>

definition auth_rate_limit :: "env \<Rightarrow> bool \<Rightarrow> string \<Rightarrow> string \<Rightarrow> int option action" where
  "auth_rate_limit E is_post path client_ip =
     (if \<not> is_post then ret None
      else (case AUTH_RATE_LIMITS path of
          None \<Rightarrow> ret None
        | Some (max_requests, window_seconds) \<Rightarrow>
            bind (increment_auth_requests E path client_ip window_seconds) (\<lambda>(count, retry_after).
            ret (if count > max_requests then Some retry_after else None))))"

end
