(* ===== verification/PrivateService.thy ===== *)
theory PrivateService
  imports FileApi EncryptedAdapter SessionStore
begin

text \<open>
  \<open>application/private_service.py\<close>, \<open>dependencies/private.py\<close> and \<open>routers/private_router.py\<close>: the
  encrypted section. A passphrase is tried against the marker of the user's vault; the derived key is
  kept for the session, and a request without a key for its session has no file service.
\<close>

section \<open>PrivateService\<close>

definition private_session_ttl_seconds :: "env \<Rightarrow> int" where
  "private_session_ttl_seconds E = private_session_ttl_hours E * 3600"

definition private_disk_id :: "env \<Rightarrow> uuid \<Rightarrow> string action" where
  "private_disk_id E user_id = resolve_disk_id E user_id [PRIVATE, FILES]"

definition build_vault :: "env \<Rightarrow> uuid \<Rightarrow> bytes \<Rightarrow> enc_adapter action" where
  "build_vault E user_id key =
     bind (private_disk_id E user_id) (\<lambda>disk_id.
     bind (build_section_adapter E disk_id (user_private_root_prefix user_id) []) (\<lambda>inner.
     ret \<lparr>ea_inner = inner, ea_key = key, ea_env = E\<rparr>))"

text \<open>The \<open>except StorageUnavailableError\<close> clause only logs.\<close>

definition unlock :: "env \<Rightarrow> uuid \<Rightarrow> string \<Rightarrow> string \<Rightarrow> bool action" where
  "unlock E user_id session_id passphrase =
     (let key = derive_encryption_key E passphrase user_id in
      bind (build_vault E user_id key) (\<lambda>encrypted.
      bind (marker_exists encrypted) (\<lambda>marked.
      bind (if marked then validate_marker encrypted
            else bind (write_marker encrypted) (\<lambda>_. ret True)) (\<lambda>valid.
      if \<not> valid then ret False
      else
        bind (set_private_key E session_id (urlsafe_b64encode key) (private_session_ttl_seconds E)) (\<lambda>_.
        ret True)))))"

definition lock :: "env \<Rightarrow> string \<Rightarrow> unit action" where
  "lock E session_id = delete_private_key E session_id"

definition reset_storage :: "env \<Rightarrow> uuid \<Rightarrow> string \<Rightarrow> unit action" where
  "reset_storage E user_id session_id =
     bind (delete_private_key E session_id) (\<lambda>_.
     bind (private_disk_id E user_id) (\<lambda>disk_id.
     let root_prefix = user_private_root_prefix user_id in
     bind (build_section_adapter E disk_id root_prefix []) (\<lambda>inner.
     bind (try_except
         (bind (st_exists inner []) (\<lambda>found. if found then st_delete inner [] else ret ()))
         (\<lambda>e. if e = Storage_File_Not_Found then ret () else raise e)) (\<lambda>_.
     bind (build_section_adapter E disk_id root_prefix []) (\<lambda>_.
     bind (delete_all_by_user_section user_id PRIVATE) (\<lambda>_.
     bind (reset_private_usage E user_id) (\<lambda>_. ret ())))))))"

definition vault_service :: "env \<Rightarrow> enc_adapter \<Rightarrow> file_service" where
  "vault_service E A = \<lparr>fs_env = E, fs_adapter = enc_storage A, fs_section = PRIVATE,
     fs_archive_manager = True, fs_index = None, fs_decrypt = Some (\<lambda>b. lift (read_encrypted_blob A (Some b)))\<rparr>"

text \<open>A key that is not base64 raises; the store only holds what \<open>unlock\<close> wrote.\<close>

definition private_file_service :: "env \<Rightarrow> uuid \<Rightarrow> string \<Rightarrow> file_service action" where
  "private_file_service E user_id session_id =
     bind (get_private_key E session_id) (\<lambda>encoded_key.
     case non_empty encoded_key of
       None \<Rightarrow> raise Private_Session_Expired
     | Some encoded \<Rightarrow> (case urlsafe_b64decode encoded of
           None \<Rightarrow> raise Value_Error
         | Some key \<Rightarrow> bind (build_vault E user_id key) (\<lambda>A. ret (vault_service E A))))"

definition private_quota :: "env \<Rightarrow> uuid \<Rightarrow> (int \<times> int) action" where
  "private_quota E user_id =
     bind (get_by_user_id E user_id) (\<lambda>usage. ret (qu_private_bytes usage, qu_private_limit_bytes usage))"

definition get_session_status :: "env \<Rightarrow> string \<Rightarrow> (bool \<times> int) action" where
  "get_session_status E session_id =
     bind (get_private_key E session_id) (\<lambda>encoded_key.
     bind (get_private_key_ttl E session_id) (\<lambda>expires_in_seconds.
     ret (encoded_key \<noteq> None, expires_in_seconds)))"

section \<open>Endpoints\<close>

text \<open>What the handlers read of a request beside the headers of the user: the session cookie and the address.\<close>

record origin =
  og_cookie :: "string option"
  og_forwarded_for :: "string option"
  og_client :: "string option"

definition session_id_of :: "origin \<Rightarrow> exn + string" where
  "session_id_of og = (case non_empty (og_cookie og) of
       None \<Rightarrow> Inl (Http_Exception 401 ''UNAUTHORIZED'' None)
     | Some token \<Rightarrow> Inr token)"

definition client_ip :: "origin \<Rightarrow> string" where
  "client_ip og = client_ip_of (og_forwarded_for og) (og_client og)"

definition TOO_MANY_ATTEMPTS_429 :: exn where
  "TOO_MANY_ATTEMPTS_429 = Http_Exception 429 ''TOO_MANY_ATTEMPTS'' None"

definition unlock_private_section :: "env \<Rightarrow> user \<Rightarrow> origin \<Rightarrow> string \<Rightarrow> bool action" where
  "unlock_private_section E u og passphrase =
     (if passphrase = [] then raise (Http_Exception 422 [] None) else
      bind (lift (session_id_of og)) (\<lambda>session_id.
      let user_id = uuid_str (us_id u); ip = client_ip og in
      bind (get_unlock_attempts E user_id ip) (\<lambda>attempts.
      if attempts \<ge> UNLOCK_RATE_LIMIT_MAX_ATTEMPTS then raise TOO_MANY_ATTEMPTS_429
      else
        bind (without_commit (unlock E (us_id u) session_id passphrase)) (\<lambda>success.
        if success then bind (reset_unlock_attempts E user_id ip) (\<lambda>_. ret True)
        else
          bind (increment_unlock_attempts E user_id ip) (\<lambda>_.
          bind (get_unlock_attempts E user_id ip) (\<lambda>updated_attempts.
          if updated_attempts \<ge> UNLOCK_RATE_LIMIT_MAX_ATTEMPTS then raise TOO_MANY_ATTEMPTS_429
          else ret False))))))"

text \<open>Locking and the state of the session need the cookie only.\<close>

definition lock_private_section :: "env \<Rightarrow> origin \<Rightarrow> unit action" where
  "lock_private_section E og = bind (lift (session_id_of og)) (lock E)"

definition get_private_session :: "env \<Rightarrow> origin \<Rightarrow> (bool \<times> int) action" where
  "get_private_session E og = bind (lift (session_id_of og)) (get_session_status E)"

definition reset_private_storage :: "env \<Rightarrow> user \<Rightarrow> origin \<Rightarrow> unit action" where
  "reset_private_storage E u og =
     bind (lift (session_id_of og)) (\<lambda>session_id.
     let user_id = uuid_str (us_id u); ip = client_ip og in
     bind (get_unlock_attempts E user_id ip) (\<lambda>attempts.
     if attempts < UNLOCK_RATE_LIMIT_MAX_ATTEMPTS then raise (Http_Exception 403 ''ACCESS_DENIED'' None)
     else in_session
       (bind (reset_storage E (us_id u) session_id) (\<lambda>_. reset_unlock_attempts E user_id ip))))"

definition get_private_quota :: "env \<Rightarrow> user \<Rightarrow> (int \<times> int) action" where
  "get_private_quota E u =
     bind (in_session (private_quota E (us_id u))) (\<lambda>(private_bytes, private_limit_bytes).
     if private_bytes < 0 \<or> private_limit_bytes < 0 then raise Other_Error
     else ret (private_bytes, private_limit_bytes))"

definition ensure_private_upload_quota :: "env \<Rightarrow> uuid \<Rightarrow> int \<Rightarrow> unit action" where
  "ensure_private_upload_quota E user_id n =
     bind (ensure_upload_quota E user_id n) (\<lambda>_.
     bind (private_quota E user_id) (\<lambda>(private_bytes, private_limit).
     if private_limit > 0 \<and> private_bytes + n > private_limit
     then raise (Quota_Exceeded (Some (max 0 (private_limit - private_bytes))))
     else ret ()))"

text \<open>\<open>get_private_file_service\<close>: the dependency of the handlers that reach into the vault.\<close>

definition vault_of :: "env \<Rightarrow> origin \<Rightarrow> user \<Rightarrow> file_service action" where
  "vault_of E og u = bind (lift (session_id_of og)) (private_file_service E (us_id u))"

definition upload_private_file ::
  "env \<Rightarrow> file_service \<Rightarrow> user \<Rightarrow> string \<Rightarrow> uploaded_file \<Rightarrow> record_response action" where
  "upload_private_file E S u path f =
     bind (lift (validated_filename (uf_filename f))) (\<lambda>filename.
     bind (in_session
       (bind (ensure_private_upload_quota E (us_id u) (file_size_of f)) (\<lambda>_.
        upload_file S (us_id u) (normalize_api_path path) filename (iter_upload_chunks f)
          (file_size_of f) PRIVATE))) (\<lambda>r.
     lift (file_record_response r)))"

definition delete_private_file :: "file_service \<Rightarrow> user \<Rightarrow> string \<Rightarrow> unit action" where
  "delete_private_file S u path = in_session (delete_by_path S (us_id u) path None)"

text \<open>This handler puts the name of the directory into the header as it is.\<close>

definition download_private_folder :: "nat \<Rightarrow> file_service \<Rightarrow> user \<Rightarrow> string \<Rightarrow> file_response action" where
  "download_private_folder depth S u path =
     (let normalized = normalize_api_path path;
          folder_name = (if path_name normalized = [] then ''folder'' else path_name normalized) in
      bind (download_directory_as_zip depth S (us_id u) normalized) (\<lambda>b.
      ret \<lparr>fp_media_type = ''application/zip'',
           fp_disposition = ''attachment; filename='' @ [CHR 0x22] @ folder_name @ ''.zip'' @ [CHR 0x22],
           fp_body = b\<rparr>))"

text \<open>The handlers that read as those of \<open>file_router.py\<close> do, on the service of the vault.\<close>

definition list_private_files :: "file_service \<Rightarrow> user \<Rightarrow> string \<Rightarrow> node_response list action" where
  "list_private_files S u path = list_files S u path"

definition download_private_file :: "env \<Rightarrow> file_service \<Rightarrow> user \<Rightarrow> string \<Rightarrow> file_response action" where
  "download_private_file E S u path = download_endpoint E S u path"

definition create_private_directory :: "file_service \<Rightarrow> user \<Rightarrow> string \<Rightarrow> string \<Rightarrow> (string \<times> string) action" where
  "create_private_directory S u path name = mkdir_endpoint S u path name"

definition rename_private_file :: "file_service \<Rightarrow> user \<Rightarrow> string \<Rightarrow> string \<Rightarrow> record_response option action" where
  "rename_private_file S u path new_name = rename_endpoint S u path new_name"

definition search_private_files :: "string \<Rightarrow> unit action" where
  "search_private_files q = search_endpoint q"

datatype private_request =
    P_Unlock string
  | P_Lock
  | P_Reset
  | P_Quota
  | P_Session
  | P_File file_request

fun handle_private :: "env \<Rightarrow> nat \<Rightarrow> file_request \<Rightarrow> file_service \<Rightarrow> user \<Rightarrow> unit action" where
  "handle_private E depth (R_List path) S u =
     without_commit (bind (list_private_files S u path) (\<lambda>_. ret ()))"
| "handle_private E depth (R_Upload path f) S u = bind (upload_private_file E S u path f) (\<lambda>_. ret ())"
| "handle_private E depth (R_Download path) S u =
     without_commit (bind (download_private_file E S u path) (\<lambda>_. ret ()))"
| "handle_private E depth (R_Download_Folder path) S u =
     without_commit (bind (download_private_folder depth S u path) (\<lambda>_. ret ()))"
| "handle_private E depth (R_Delete path) S u = delete_private_file S u path"
| "handle_private E depth (R_Mkdir path name) S u = bind (create_private_directory S u path name) (\<lambda>_. ret ())"
| "handle_private E depth (R_Rename path name) S u = bind (rename_private_file S u path name) (\<lambda>_. ret ())"
| "handle_private E depth (R_Upload_Zip path name packed) S u = raise (Http_Exception 404 [] None)"
| "handle_private E depth (R_Search q) S u = search_private_files q"

definition respond_private :: "env \<Rightarrow> nat \<Rightarrow> headers \<Rightarrow> origin \<Rightarrow> private_request \<Rightarrow> unit action" where
  "respond_private E depth H og req = (case req of
       P_Unlock passphrase \<Rightarrow> bind (get_current_user E H) (\<lambda>u.
         bind (unlock_private_section E u og passphrase) (\<lambda>_. ret ()))
     | P_Lock \<Rightarrow> lock_private_section E og
     | P_Reset \<Rightarrow> bind (get_current_user E H) (\<lambda>u. reset_private_storage E u og)
     | P_Quota \<Rightarrow> bind (get_current_user E H) (\<lambda>u. bind (get_private_quota E u) (\<lambda>_. ret ()))
     | P_Session \<Rightarrow> bind (get_private_session E og) (\<lambda>_. ret ())
     | P_File (R_Search q) \<Rightarrow> bind (get_current_user E H) (\<lambda>u. search_private_files q)
     | P_File (R_Upload_Zip path name packed) \<Rightarrow> raise (Http_Exception 404 [] None)
     | P_File r \<Rightarrow> bind (get_current_user E H) (\<lambda>u.
         bind (vault_of E og u) (\<lambda>S. handle_private E depth r S u)))"

definition serve_private :: "env \<Rightarrow> nat \<Rightarrow> headers \<Rightarrow> origin \<Rightarrow> private_request \<Rightarrow> error_response option action" where
  "serve_private E depth H og req =
     try_except (bind (respond_private E depth H og req) (\<lambda>_. ret None))
       (\<lambda>e. ret (Some (error_response_of e)))"

end
