(* ===== verification/Yaml.thy ===== *)
theory Yaml
  imports Codecs Complex_Main
begin

text \<open>
  YAML documents and numbers as the services see them. PyYAML and the conversion of numbers from and
  to text are parameters: how a document is written, what is read from a text, what \<open>str\<close> makes of a
  scalar, and the double-precision number nearest to a text or an integer (a finite one is given by
  its exact value).
\<close>

datatype py_float = Finite rat | Not_Finite

datatype yaml =
    Y_Null
  | Y_Bool bool
  | Y_Int int
  | Y_Float py_float
  | Y_Str string
  | Y_Scalar string \<comment> \<open>dates and other scalars\<close>
  | Y_Sequence "yaml list"
  | Y_Mapping "(yaml \<times> yaml) list"

record yaml_library =
  yaml_dump :: "yaml \<Rightarrow> string" \<comment> \<open>block style, unicode allowed, keys in their order\<close>
  yaml_dump_quoted :: "yaml \<Rightarrow> string" \<comment> \<open>the same with every string in double quotes\<close>
  yaml_safe_load :: "string \<Rightarrow> yaml option" \<comment> \<open>\<open>None\<close> is \<open>YAMLError\<close>\<close>
  scalar_str :: "yaml \<Rightarrow> string"
  float_parse :: "string \<Rightarrow> py_float option" \<comment> \<open>\<open>None\<close> is \<open>ValueError\<close>\<close>
  float_of_int :: "int \<Rightarrow> py_float option" \<comment> \<open>\<open>None\<close> is \<open>OverflowError\<close>\<close>

text \<open>\<open>mapping.get(key)\<close> for a key that is a string; \<open>None\<close> for an absent one.\<close>

definition yaml_get :: "(yaml \<times> yaml) list \<Rightarrow> string \<Rightarrow> yaml" where
  "yaml_get ms k = (case map_of ms (Y_Str k) of None \<Rightarrow> Y_Null | Some v \<Rightarrow> v)"

definition is_collection :: "yaml \<Rightarrow> bool" where
  "is_collection v = (case v of Y_Sequence ys \<Rightarrow> True | Y_Mapping ms \<Rightarrow> True | _ \<Rightarrow> False)"

text \<open>\<open>"" if value is None else str(value)\<close>.\<close>

definition text_of_scalar :: "yaml_library \<Rightarrow> yaml \<Rightarrow> string" where
  "text_of_scalar Y v = (case v of Y_Null \<Rightarrow> [] | Y_Str s \<Rightarrow> s | _ \<Rightarrow> scalar_str Y v)"

text \<open>
  \<open>bytes.decode("utf-8", errors="replace")\<close>. The replacement character U+FFFD and the code points
  above 255 are not in the model's alphabet; a question mark stands for them.
\<close>

fun decode_utf8_replace :: "bytes \<Rightarrow> string" where
  "decode_utf8_replace [] = []"
| "decode_utf8_replace (a # s) =
     (if unat a < 128 then char_of (unat a) # decode_utf8_replace s
      else if a = 194 \<or> a = 195 then
        (case s of [] \<Rightarrow> ''?''
         | b # t \<Rightarrow> if unat b div 64 = 2
             then char_of (unat a mod 4 * 64 + unat b mod 64) # decode_utf8_replace t
             else CHR ''?'' # decode_utf8_replace (b # t))
      else CHR ''?'' # decode_utf8_replace s)"

lemma decode_utf8_agree: "decode_utf8 b = Some s \<Longrightarrow> decode_utf8_replace b = s"
proof (induction "length b" arbitrary: b s rule: less_induct)
  case less
  show ?case
  proof (cases b)
    case Nil
    then show ?thesis using less.prems by simp
  next
    case (Cons a r)
    show ?thesis
    proof (cases "unat a < 128")
      case True
      then obtain q where "decode_utf8 r = Some q" "s = char_of (unat a) # q"
        using less.prems by (auto simp: Cons)
      then show ?thesis using less.hyps [of r q] True by (simp add: Cons)
    next
      case False
      then obtain x t q where x: "a = 194 \<or> a = 195" "r = x # t" "unat x div 64 = 2" "decode_utf8 t = Some q"
        "s = char_of (unat a mod 4 * 64 + unat x mod 64) # q"
        using less.prems by (cases r) (auto simp: Cons split: if_splits)
      then have "decode_utf8_replace t = q" using less.hyps [of t q] by (simp add: Cons)
      then show ?thesis using x False by (simp add: Cons)
    qed
  qed
qed

lemma decode_replace_encode [simp]: "decode_utf8_replace (encode_utf8 s) = s"
  by (rule decode_utf8_agree) simp

text \<open>
  The documents the program writes, and what PyYAML promises for them: a text that is not blank and
  is read back as the document.
\<close>

fun plain_document :: "yaml \<Rightarrow> bool" where
  "plain_document (Y_Sequence ys) = list_all plain_document ys"
| "plain_document (Y_Mapping ms) = (distinct (map fst ms) \<and>
     list_all (\<lambda>m. (case fst m of Y_Str k \<Rightarrow> True | _ \<Rightarrow> False) \<and> plain_document (snd m)) ms)"
| "plain_document (Y_Scalar s) = False"
| "plain_document (Y_Float x) = (x \<noteq> Not_Finite)"
| "plain_document _ = True"

definition yaml_faithful :: "yaml_library \<Rightarrow> bool" where
  "yaml_faithful Y \<longleftrightarrow> (\<forall>d. plain_document d \<and> is_collection d \<longrightarrow>
     strip (yaml_dump Y d) \<noteq> [] \<and> yaml_safe_load Y (yaml_dump Y d) = Some d \<and>
     strip (yaml_dump_quoted Y d) \<noteq> [] \<and> yaml_safe_load Y (yaml_dump_quoted Y d) = Some d)"

lemma strip_nonempty: "strip s \<noteq> [] \<Longrightarrow> s \<noteq> []"
  by (auto simp: strip_def strip_by_def lstrip_by_def rstrip_by_def)

section \<open>Integers as text\<close>

text \<open>\<open>int(text)\<close> of a stripped text: a sign, digits with single underscores between them, at most 4300 digits.\<close>

fun int_digits :: "nat \<Rightarrow> string \<Rightarrow> nat option" where
  "int_digits a [] = Some a"
| "int_digits a (c # s) =
     (if c = CHR ''_'' then
        (case s of [] \<Rightarrow> None
         | d # t \<Rightarrow> (case digit_value d of None \<Rightarrow> None | Some v \<Rightarrow> int_digits (10 * a + v) t))
      else (case digit_value c of None \<Rightarrow> None | Some v \<Rightarrow> int_digits (10 * a + v) s))"

definition py_int10 :: "string \<Rightarrow> int option" where
  "py_int10 s =
     (let negative = (case s of c # r \<Rightarrow> c = CHR ''-'' | [] \<Rightarrow> False);
          u = (case s of c # r \<Rightarrow> if c = CHR ''-'' \<or> c = CHR ''+'' then r else s | [] \<Rightarrow> s)
      in if u = [] \<or> hd u = CHR ''_'' \<or> length (filter (\<lambda>c. c \<noteq> CHR ''_'') u) > 4300 then None
         else map_option (\<lambda>n. if negative then - int n else int n) (int_digits 0 u))"

end
