(* ===== verification/KeysRegistry.thy ===== *)
theory KeysRegistry
  imports PrivateService Yaml
begin

text \<open>
  \<open>application/keys_registry_service.py\<close> and its endpoints in \<open>private_router.py\<close>: a flat mapping of
  names to values, kept as \<open>Keys/keys.yaml\<close> in the vault.
\<close>

definition KEYS_FOLDER_NAME :: string where "KEYS_FOLDER_NAME = ''Keys''"
definition KEYS_FILENAME :: string where "KEYS_FILENAME = ''keys.yaml''"
definition KEYS_RELATIVE_PATH :: string where "KEYS_RELATIVE_PATH = KEYS_FOLDER_NAME @ CHR ''/'' # KEYS_FILENAME"

type_synonym key_entry = "string \<times> string" \<comment> \<open>name and value\<close>

definition mapping_document :: "key_entry list \<Rightarrow> yaml" where
  "mapping_document es = Y_Mapping (map (\<lambda>(k, v). (Y_Str k, Y_Str v)) es)"

section \<open>Validation, reading and writing of the mapping\<close>

fun validate_entries_from :: "string list \<Rightarrow> key_entry list \<Rightarrow> exn + key_entry list" where
  "validate_entries_from seen [] = Inr []"
| "validate_entries_from seen ((raw_name, raw_value) # entries) =
     (let name = strip raw_name; value = strip raw_value in
      if name = [] then Inl (Keys_Validation ''KEY_NAME_EMPTY'')
      else if value = [] then Inl (Keys_Validation ''KEY_VALUE_EMPTY'')
      else if name \<in> set seen then Inl (Keys_Validation ''KEY_NAME_DUPLICATE'')
      else map_sum id ((#) (name, value)) (validate_entries_from (name # seen) entries))"

definition validate_entries :: "key_entry list \<Rightarrow> exn + key_entry list" where
  "validate_entries entries = validate_entries_from [] entries"

definition dump_mapping :: "yaml_library \<Rightarrow> key_entry list \<Rightarrow> string" where
  "dump_mapping Y mapping =
     (let dumped = yaml_dump Y (mapping_document mapping) in if dumped \<noteq> [] then dumped else ''{}'' @ [CHR 0x0A])"

fun parse_members :: "yaml_library \<Rightarrow> (yaml \<times> yaml) list \<Rightarrow> exn + key_entry list" where
  "parse_members Y [] = Inr []"
| "parse_members Y ((Y_Str name, value) # members) =
     (if name = [] \<or> is_collection value then Inl Keys_Yaml_Invalid
      else map_sum id ((#) (name, text_of_scalar Y value)) (parse_members Y members))"
| "parse_members Y ((_, value) # members) = Inl Keys_Yaml_Invalid"

definition parse_mapping :: "yaml_library \<Rightarrow> bytes \<Rightarrow> exn + key_entry list" where
  "parse_mapping Y raw = (case decode_utf8 raw of
       None \<Rightarrow> Inl Other_Error
     | Some t \<Rightarrow>
         if strip t = [] then Inr []
         else (case yaml_safe_load Y t of
             None \<Rightarrow> Inl Keys_Yaml_Invalid
           | Some Y_Null \<Rightarrow> Inr []
           | Some (Y_Mapping ms) \<Rightarrow> parse_members Y ms
           | Some _ \<Rightarrow> Inl Keys_Yaml_Invalid))"

section \<open>The service\<close>

definition ensure_keys_folder :: "file_service \<Rightarrow> unit action" where
  "ensure_keys_folder S =
     bind (path_exists S KEYS_FOLDER_NAME) (\<lambda>found.
     if found then ret () else create_directory S [] KEYS_FOLDER_NAME)"

definition read_keys_file :: "file_service \<Rightarrow> uuid \<Rightarrow> bytes option action" where
  "read_keys_file S u =
     bind (path_exists S KEYS_RELATIVE_PATH) (\<lambda>found.
     if \<not> found then ret None
     else try_except (bind (read_by_path S u KEYS_RELATIVE_PATH) (\<lambda>b. ret (Some b)))
       (\<lambda>e. if e = Storage_File_Not_Found then ret None else raise e))"

definition write_mapping :: "yaml_library \<Rightarrow> file_service \<Rightarrow> uuid \<Rightarrow> key_entry list \<Rightarrow> unit action" where
  "write_mapping Y S u mapping =
     (let payload = encode_utf8 (dump_mapping Y mapping) in
      bind (overwrite_file S u KEYS_FOLDER_NAME KEYS_FILENAME (whole_source payload) (int (length payload)) PRIVATE)
        (\<lambda>_. ret ()))"

definition list_keys :: "yaml_library \<Rightarrow> file_service \<Rightarrow> uuid \<Rightarrow> key_entry list action" where
  "list_keys Y S u =
     bind (ensure_keys_folder S) (\<lambda>_.
     bind (read_keys_file S u) (\<lambda>raw. case raw of
       None \<Rightarrow> bind (write_mapping Y S u []) (\<lambda>_. ret [])
     | Some b \<Rightarrow> lift (parse_mapping Y b)))"

definition save_keys :: "yaml_library \<Rightarrow> file_service \<Rightarrow> uuid \<Rightarrow> key_entry list \<Rightarrow> key_entry list action" where
  "save_keys Y S u keys =
     bind (lift (validate_entries keys)) (\<lambda>normalized.
     bind (ensure_keys_folder S) (\<lambda>_.
     bind (write_mapping Y S u normalized) (\<lambda>_. ret normalized)))"

section \<open>Endpoints\<close>

definition get_keys_registry :: "yaml_library \<Rightarrow> env \<Rightarrow> headers \<Rightarrow> origin \<Rightarrow> key_entry list action" where
  "get_keys_registry Y E H og =
     bind (get_current_user E H) (\<lambda>u. bind (vault_of E og u) (\<lambda>S. in_session (list_keys Y S (us_id u))))"

definition put_keys_registry ::
  "yaml_library \<Rightarrow> env \<Rightarrow> headers \<Rightarrow> origin \<Rightarrow> key_entry list \<Rightarrow> key_entry list action" where
  "put_keys_registry Y E H og keys =
     bind (get_current_user E H) (\<lambda>u. bind (vault_of E og u) (\<lambda>S. in_session (save_keys Y S (us_id u) keys)))"

datatype keys_request = Keys_Get | Keys_Put "key_entry list"

fun respond_keys :: "yaml_library \<Rightarrow> env \<Rightarrow> headers \<Rightarrow> origin \<Rightarrow> keys_request \<Rightarrow> key_entry list action" where
  "respond_keys Y E H og Keys_Get = get_keys_registry Y E H og"
| "respond_keys Y E H og (Keys_Put keys) = put_keys_registry Y E H og keys"

definition serve_keys ::
  "env \<Rightarrow> yaml_library \<Rightarrow> headers \<Rightarrow> origin \<Rightarrow> keys_request \<Rightarrow> error_response option action" where
  "serve_keys E Y H og req =
     try_except (bind (respond_keys Y E H og req) (\<lambda>_. ret None))
       (\<lambda>e. ret (Some (error_response_of e)))"

section \<open>What is stored is read back\<close>

lemma validate_entries_Inr:
  "validate_entries_from seen entries = Inr es \<Longrightarrow>
    es = map (\<lambda>(n, v). (strip n, strip v)) entries \<and> distinct (map fst es) \<and> set (map fst es) \<inter> set seen = {} \<and>
    (\<forall>(n, v) \<in> set es. n \<noteq> [] \<and> v \<noteq> [])"
proof (induction entries arbitrary: seen es)
  case (Cons e entries)
  obtain n v where e: "e = (n, v)" by fastforce
  from Cons.prems obtain rest where rest: "validate_entries_from (strip n # seen) entries = Inr rest"
    and es: "es = (strip n, strip v) # rest" "strip n \<noteq> []" "strip v \<noteq> []" "strip n \<notin> set seen"
    by (auto simp: e Let_def split: if_splits)
  have IH: "rest = map (\<lambda>(n, v). (strip n, strip v)) entries" "distinct (map fst rest)"
    "set (map fst rest) \<inter> set (strip n # seen) = {}" "\<forall>(n, v) \<in> set rest. n \<noteq> [] \<and> v \<noteq> []"
    using Cons.IH [OF rest] by blast+
  show ?case
  proof (intro conjI)
    show "es = map (\<lambda>(n, v). (strip n, strip v)) (e # entries)" by (simp add: es(1) e flip: IH(1))
    show "distinct (map fst es)" using IH(2,3) by (simp add: es(1))
    show "set (map fst es) \<inter> set seen = {}" using IH(3) es(4) by (simp add: es(1))
    show "\<forall>(n, v) \<in> set es. n \<noteq> [] \<and> v \<noteq> []" using IH(4) es(2,3) by (simp add: es(1))
  qed
qed simp

lemma parse_members_strings:
  "(\<forall>(n, v) \<in> set es. n \<noteq> []) \<Longrightarrow> parse_members Y (map (\<lambda>(k, v). (Y_Str k, Y_Str v)) es) = Inr es"
  by (induction es) (auto simp: is_collection_def text_of_scalar_def)

lemma plain_mapping: "distinct (map fst es) \<Longrightarrow> plain_document (mapping_document es)"
  by (induction es) (auto simp: mapping_document_def comp_def split_def)

lemma mapping_round_trip:
  assumes "yaml_faithful Y" and "distinct (map fst es)" and "\<forall>(n, v) \<in> set es. n \<noteq> []"
  shows "parse_mapping Y (encode_utf8 (dump_mapping Y es)) = Inr es"
proof -
  have "is_collection (mapping_document es)" by (simp add: mapping_document_def is_collection_def)
  then have *: "strip (yaml_dump Y (mapping_document es)) \<noteq> []"
    "yaml_safe_load Y (yaml_dump Y (mapping_document es)) = Some (mapping_document es)"
    using assms(1) plain_mapping [OF assms(2)] by (simp_all add: yaml_faithful_def)
  then show ?thesis
    using strip_nonempty [OF *(1)]
    by (simp add: parse_mapping_def dump_mapping_def parse_members_strings [OF assms(3)] mapping_document_def)
qed

end
