(* ===== verification/ResumeService.thy ===== *)
theory ResumeService
  imports FileApi Yaml
begin

text \<open>
  \<open>application/resume_service.py\<close> with \<open>dependencies/resumes.py\<close> and \<open>routers/resume_router.py\<close>: the tree of
  countries, companies and vacancies, which are directories of the section RESUMES, and the YAML
  files in it, \<open>meta.yaml\<close> of each vacancy and \<open>statuses.yaml\<close> of the root. PyYAML is a parameter.
\<close>

section \<open>Data\<close>

definition STATUSES_FILENAME :: string where "STATUSES_FILENAME = ''statuses.yaml''"
definition VACANCY_META_FILENAME :: string where "VACANCY_META_FILENAME = ''meta.yaml''"
definition RESERVED_NODE_NAMES :: "string set" where
  "RESERVED_NODE_NAMES = {STATUSES_FILENAME, VACANCY_META_FILENAME}"
definition MAX_NODE_NAME_LENGTH :: nat where "MAX_NODE_NAME_LENGTH = 128"
definition MAX_TREE_DEPTH :: nat where "MAX_TREE_DEPTH = 3"

definition DEFAULT_STATUSES :: "(string \<times> string) list" where
  "DEFAULT_STATUSES = [(''Applied'', ''#38BDF8''), (''Interview'', ''#A78BFA''),
     (''Offer'', ''#34D399''), (''Rejected'', ''#F87171'')]"

datatype resume_level = COUNTRY | COMPANY | VACANCY

definition LEVEL_BY_DEPTH :: "resume_level list" where
  "LEVEL_BY_DEPTH = [COUNTRY, COMPANY, VACANCY]"

record resume_node =
  rn_name :: string
  rn_path :: string
  rn_level :: "resume_level option"
  rn_child_count :: nat
  rn_modified_at :: instant
  rn_status_id :: "string option"
  rn_website_url :: "string option"

record resume_tree =
  rt_path :: string
  rt_level :: "resume_level option"
  rt_items :: "resume_node list"

record vacancy_field =
  vf_name :: string
  vf_value :: string

record vacancy_meta =
  vm_path :: string
  vm_name :: string
  vm_website_url :: string
  vm_status_id :: "string option"
  vm_fields :: "vacancy_field list"

record resume_status =
  rs_id :: string
  rs_name :: string
  rs_color :: string

record vacancy_item =
  vi_country :: string
  vi_company :: string
  vi_name :: string
  vi_path :: string
  vi_status_id :: "string option"
  vi_website_url :: string
  vi_modified_at :: instant

section \<open>Paths, names and values\<close>

definition resume_path :: "string \<Rightarrow> string" where
  "resume_path path = strip_slash (backslash_to_slash (strip path))"

definition resume_depth :: "string \<Rightarrow> nat" where
  "resume_depth normalized = (if normalized = [] then 0 else length (split_on (CHR ''/'') normalized))"

definition resume_parent :: "string \<Rightarrow> string" where
  "resume_parent normalized = join_on (CHR ''/'') (butlast (split_on (CHR ''/'') normalized))"

definition resume_join :: "string \<Rightarrow> string \<Rightarrow> string" where
  "resume_join directory name =
     (if directory \<noteq> [] \<and> name \<noteq> [] then directory @ CHR ''/'' # name
      else if name \<noteq> [] then name else directory)"

definition validate_node_name :: "string \<Rightarrow> exn + string" where
  "validate_node_name name =
     (let clean = strip name in
      if clean = [] \<or> length clean > MAX_NODE_NAME_LENGTH \<or> CHR ''/'' \<in> set clean \<or> CHR 0x5C \<in> set clean \<or>
         clean \<in> {''.'', ''..''} \<or> lower clean \<in> RESERVED_NODE_NAMES
      then Inl (Resume_Validation ''RESUME_NAME_INVALID'') else Inr clean)"

definition hex_digit_char :: "char \<Rightarrow> bool" where
  "hex_digit_char c = (let n = char_code c in 48 \<le> n \<and> n \<le> 57 \<or> 65 \<le> n \<and> n \<le> 70 \<or> 97 \<le> n \<and> n \<le> 102)"

text \<open>The pattern \<open>^#[0-9A-Fa-f]{6}$\<close>; its \<open>$\<close> also matches before a final line feed.\<close>

definition color_pattern :: "string \<Rightarrow> bool" where
  "color_pattern s \<longleftrightarrow> length s \<ge> 7 \<and> s ! 0 = CHR ''#'' \<and> list_all hex_digit_char (take 6 (drop 1 s)) \<and>
     drop 7 s \<in> {[], [CHR 0x0A]}"

definition ascii_letter :: "char \<Rightarrow> bool" where
  "ascii_letter c = (let n = char_code c in 65 \<le> n \<and> n \<le> 90 \<or> 97 \<le> n \<and> n \<le> 122)"

definition scheme_char :: "char \<Rightarrow> bool" where
  "scheme_char c \<longleftrightarrow> ascii_letter c \<or> 48 \<le> char_code c \<and> char_code c \<le> 57 \<or> c \<in> set ''+.-''"

definition has_scheme :: "string \<Rightarrow> bool" where
  "has_scheme s = (case s of [] \<Rightarrow> False
     | c # r \<Rightarrow> ascii_letter c \<and> starts_with (dropWhile scheme_char r) ''://'')"

definition normalize_url :: "string option \<Rightarrow> string" where
  "normalize_url website_url =
     (let url = strip (or_else website_url []) in
      if url = [] then [] else if has_scheme url then url else ''https://'' @ url)"

text \<open>\<open>(status_id or "").strip() or None\<close>.\<close>

definition clean_status_id :: "string option \<Rightarrow> string option" where
  "clean_status_id status_id = non_empty (Some (strip (or_else status_id [])))"

fun validate_fields_from :: "string list \<Rightarrow> vacancy_field list \<Rightarrow> exn + vacancy_field list" where
  "validate_fields_from seen [] = Inr []"
| "validate_fields_from seen (f # fs) =
     (let name = strip (vf_name f) in
      if name = [] then Inl (Resume_Validation ''RESUME_FIELD_INVALID'')
      else if lower name \<in> set seen then Inl (Resume_Validation ''RESUME_FIELD_INVALID'')
      else map_sum id ((#) \<lparr>vf_name = name, vf_value = strip (vf_value f)\<rparr>)
             (validate_fields_from (lower name # seen) fs))"

definition validate_fields :: "vacancy_field list \<Rightarrow> exn + vacancy_field list" where
  "validate_fields fs = validate_fields_from [] fs"

definition uuid_hex :: "env \<Rightarrow> string action" where
  "uuid_hex E = bind (new_uuid E) (\<lambda>u. ret (hex_digits 32 (unat u)))"

definition INVALID_STATUS :: exn where "INVALID_STATUS = Resume_Validation ''RESUME_STATUS_INVALID''"

fun validate_statuses_from ::
  "env \<Rightarrow> string list \<Rightarrow> string list \<Rightarrow> resume_status list \<Rightarrow> resume_status list action" where
  "validate_statuses_from E seen_names seen_ids [] = ret []"
| "validate_statuses_from E seen_names seen_ids (s # ss) =
     (let name = strip (rs_name s); color = strip (rs_color s); given = strip (rs_id s) in
      bind (if given \<noteq> [] then ret given else uuid_hex E) (\<lambda>status_id.
      if name = [] then raise INVALID_STATUS
      else if lower name \<in> set seen_names then raise INVALID_STATUS
      else if \<not> color_pattern color then raise INVALID_STATUS
      else if status_id \<in> set seen_ids then raise INVALID_STATUS
      else
        bind (validate_statuses_from E (lower name # seen_names) (status_id # seen_ids) ss) (\<lambda>rest.
        ret (\<lparr>rs_id = status_id, rs_name = name, rs_color = color\<rparr> # rest))))"

definition validate_statuses :: "env \<Rightarrow> resume_status list \<Rightarrow> resume_status list action" where
  "validate_statuses E statuses = validate_statuses_from E [] [] statuses"

section \<open>The YAML files\<close>

text \<open>\<open>_load_yaml\<close>: \<open>None\<close> for a blank text as for a null document.\<close>

definition load_yaml :: "yaml_library \<Rightarrow> bytes \<Rightarrow> exn + yaml option" where
  "load_yaml Y raw =
     (let t = decode_utf8_replace raw in
      if strip t = [] then Inr None
      else (case yaml_safe_load Y t of
          None \<Rightarrow> Inl Resume_Meta_Invalid
        | Some Y_Null \<Rightarrow> Inr None
        | Some d \<Rightarrow> Inr (Some d)))"

fun parse_fields :: "yaml_library \<Rightarrow> yaml list \<Rightarrow> exn + vacancy_field list" where
  "parse_fields Y [] = Inr []"
| "parse_fields Y (Y_Mapping ms # ys) = (case yaml_get ms ''name'' of
       Y_Str field_name \<Rightarrow>
         if strip field_name = [] \<or> is_collection (yaml_get ms ''value'') then Inl Resume_Meta_Invalid
         else map_sum id ((#) \<lparr>vf_name = field_name, vf_value = text_of_scalar Y (yaml_get ms ''value'')\<rparr>)
                (parse_fields Y ys)
     | _ \<Rightarrow> Inl Resume_Meta_Invalid)"
| "parse_fields Y (_ # ys) = Inl Resume_Meta_Invalid"

definition empty_meta :: "string \<Rightarrow> vacancy_meta" where
  "empty_meta vacancy_path = \<lparr>vm_path = vacancy_path, vm_name = path_name vacancy_path,
     vm_website_url = [], vm_status_id = None, vm_fields = []\<rparr>"

text \<open>A key that must hold a string or null; a null stands for the text given.\<close>

definition optional_text :: "yaml \<Rightarrow> exn + string option" where
  "optional_text v = (case v of Y_Null \<Rightarrow> Inr None | Y_Str s \<Rightarrow> Inr (Some s) | _ \<Rightarrow> Inl Resume_Meta_Invalid)"

definition parse_meta :: "yaml_library \<Rightarrow> bytes \<Rightarrow> string \<Rightarrow> exn + vacancy_meta" where
  "parse_meta Y raw vacancy_path = (case load_yaml Y raw of
       Inl e \<Rightarrow> Inl e
     | Inr None \<Rightarrow> Inr (empty_meta vacancy_path)
     | Inr (Some (Y_Mapping ms)) \<Rightarrow>
         (case optional_text (yaml_get ms ''website_url'') of
            Inl e \<Rightarrow> Inl e
          | Inr website_url \<Rightarrow> (case optional_text (yaml_get ms ''status_id'') of
              Inl e \<Rightarrow> Inl e
            | Inr status_id \<Rightarrow>
                (case (case yaml_get ms ''fields'' of
                     Y_Null \<Rightarrow> Inr []
                   | Y_Sequence ys \<Rightarrow> parse_fields Y ys
                   | _ \<Rightarrow> Inl Resume_Meta_Invalid) of
                   Inl e \<Rightarrow> Inl e
                 | Inr fs \<Rightarrow> Inr \<lparr>vm_path = vacancy_path, vm_name = path_name vacancy_path,
                     vm_website_url = or_else website_url [], vm_status_id = clean_status_id status_id,
                     vm_fields = fs\<rparr>)))
     | Inr (Some _) \<Rightarrow> Inl Resume_Meta_Invalid)"

fun parse_status_entries :: "yaml list \<Rightarrow> exn + resume_status list" where
  "parse_status_entries [] = Inr []"
| "parse_status_entries (Y_Mapping ms # ys) =
     (case (yaml_get ms ''id'', yaml_get ms ''name'', yaml_get ms ''color'') of
        (Y_Str status_id, Y_Str name, Y_Str color) \<Rightarrow>
          if strip status_id = [] \<or> strip name = [] \<or> \<not> color_pattern color then Inl Resume_Meta_Invalid
          else map_sum id ((#) \<lparr>rs_id = status_id, rs_name = name, rs_color = color\<rparr>)
                 (parse_status_entries ys)
      | _ \<Rightarrow> Inl Resume_Meta_Invalid)"
| "parse_status_entries (_ # ys) = Inl Resume_Meta_Invalid"

definition parse_statuses :: "yaml_library \<Rightarrow> bytes \<Rightarrow> exn + resume_status list" where
  "parse_statuses Y raw = (case load_yaml Y raw of
       Inl e \<Rightarrow> Inl e
     | Inr None \<Rightarrow> Inr []
     | Inr (Some (Y_Mapping ms)) \<Rightarrow>
         (case map_of ms (Y_Str ''statuses'') of
            None \<Rightarrow> Inl Resume_Meta_Invalid
          | Some Y_Null \<Rightarrow> Inr []
          | Some (Y_Sequence ys) \<Rightarrow> parse_status_entries ys
          | Some _ \<Rightarrow> Inl Resume_Meta_Invalid)
     | Inr (Some _) \<Rightarrow> Inl Resume_Meta_Invalid)"

definition meta_document :: "string \<Rightarrow> string option \<Rightarrow> vacancy_field list \<Rightarrow> yaml" where
  "meta_document website_url status_id fs = Y_Mapping
     [(Y_Str ''website_url'', Y_Str website_url),
      (Y_Str ''status_id'', case status_id of None \<Rightarrow> Y_Null | Some s \<Rightarrow> Y_Str s),
      (Y_Str ''fields'', Y_Sequence (map (\<lambda>f. Y_Mapping
         [(Y_Str ''name'', Y_Str (vf_name f)), (Y_Str ''value'', Y_Str (vf_value f))]) fs))]"

definition statuses_document :: "resume_status list \<Rightarrow> yaml" where
  "statuses_document statuses = Y_Mapping [(Y_Str ''statuses'', Y_Sequence (map (\<lambda>s. Y_Mapping
     [(Y_Str ''id'', Y_Str (rs_id s)), (Y_Str ''name'', Y_Str (rs_name s)),
      (Y_Str ''color'', Y_Str (rs_color s))]) statuses))]"

definition write_yaml :: "yaml_library \<Rightarrow> file_service \<Rightarrow> uuid \<Rightarrow> string \<Rightarrow> string \<Rightarrow> yaml \<Rightarrow> unit action" where
  "write_yaml Y S u path filename document =
     (let payload = encode_utf8 (yaml_dump Y document) in
      bind (overwrite_file S u path filename (whole_source payload) (int (length payload)) RESUMES)
        (\<lambda>_. ret ()))"

definition write_meta ::
  "yaml_library \<Rightarrow> file_service \<Rightarrow> uuid \<Rightarrow> string \<Rightarrow> string \<Rightarrow> string option \<Rightarrow> vacancy_field list \<Rightarrow> unit action" where
  "write_meta Y S u vacancy_path website_url status_id fs =
     write_yaml Y S u vacancy_path VACANCY_META_FILENAME (meta_document website_url status_id fs)"

definition write_statuses :: "yaml_library \<Rightarrow> file_service \<Rightarrow> uuid \<Rightarrow> resume_status list \<Rightarrow> unit action" where
  "write_statuses Y S u statuses = write_yaml Y S u [] STATUSES_FILENAME (statuses_document statuses)"

text \<open>\<open>except FileNotFoundError\<close>, the exception of the domain layer, answered with a value.\<close>

definition when_missing :: "'a \<Rightarrow> 'a action \<Rightarrow> 'a action" where
  "when_missing d m = try_except m (\<lambda>e. if e = Storage_File_Not_Found then ret d else raise e)"

definition read_resume_file :: "file_service \<Rightarrow> uuid \<Rightarrow> string \<Rightarrow> bytes option action" where
  "read_resume_file S u relative_path =
     bind (path_exists S relative_path) (\<lambda>found.
     if \<not> found then ret None
     else when_missing None (bind (read_by_path S u relative_path) (\<lambda>b. ret (Some b))))"

definition read_meta :: "yaml_library \<Rightarrow> file_service \<Rightarrow> uuid \<Rightarrow> string \<Rightarrow> vacancy_meta action" where
  "read_meta Y S u vacancy_path =
     bind (read_resume_file S u (resume_join vacancy_path VACANCY_META_FILENAME)) (\<lambda>raw. case raw of
       None \<Rightarrow> ret (empty_meta vacancy_path)
     | Some b \<Rightarrow> lift (parse_meta Y b vacancy_path))"

definition try_read_meta :: "yaml_library \<Rightarrow> file_service \<Rightarrow> uuid \<Rightarrow> string \<Rightarrow> vacancy_meta option action" where
  "try_read_meta Y S u vacancy_path =
     try_except (bind (read_meta Y S u vacancy_path) (\<lambda>m. ret (Some m)))
       (\<lambda>e. if e = Resume_Meta_Invalid then ret None else raise e)"

section \<open>Helpers of the tree\<close>

definition list_child_dirs :: "file_service \<Rightarrow> uuid \<Rightarrow> string \<Rightarrow> file_node list action" where
  "list_child_dirs S u path =
     bind (when_missing [] (list_directory S u path)) (\<lambda>nodes.
     ret (sort_key (\<lambda>n. lower (fn_name n)) (filter fn_is_dir nodes)))"

definition node_modified_at :: "file_service \<Rightarrow> uuid \<Rightarrow> string \<Rightarrow> instant action" where
  "node_modified_at S u node_path =
     bind (when_missing [] (list_directory S u (resume_parent node_path))) (\<lambda>nodes.
     case find (\<lambda>n. fn_is_dir n \<and> fn_name n = path_name node_path) nodes of
       Some n \<Rightarrow> ret (fn_modified_at n)
     | None \<Rightarrow> utc_now (fs_env S))"

definition count_children :: "file_service \<Rightarrow> uuid \<Rightarrow> string \<Rightarrow> resume_level option \<Rightarrow> nat action" where
  "count_children S u node_path level =
     bind (when_missing [] (list_directory S u node_path)) (\<lambda>nodes.
     ret (if level = Some VACANCY
          then length (filter (\<lambda>n. fn_is_dir n \<or> fn_name n \<noteq> VACANCY_META_FILENAME) nodes)
          else length (filter fn_is_dir nodes)))"

definition build_node ::
  "yaml_library \<Rightarrow> file_service \<Rightarrow> uuid \<Rightarrow> string \<Rightarrow> resume_level option \<Rightarrow> instant option \<Rightarrow> resume_node action" where
  "build_node Y S u node_path level modified_at =
     bind (case modified_at of Some t \<Rightarrow> ret t | None \<Rightarrow> node_modified_at S u node_path) (\<lambda>resolved.
     bind (count_children S u node_path level) (\<lambda>child_count.
     bind (if level = Some VACANCY then
             bind (try_read_meta Y S u node_path) (\<lambda>m. ret (case m of
                 Some meta \<Rightarrow> (vm_status_id meta, Some (vm_website_url meta))
               | None \<Rightarrow> (None, Some [])))
           else ret (None, None)) (\<lambda>(status_id, website_url).
     ret \<lparr>rn_name = path_name node_path, rn_path = node_path, rn_level = level, rn_child_count = child_count,
          rn_modified_at = resolved, rn_status_id = status_id, rn_website_url = website_url\<rparr>)))"

definition ensure_root :: "file_service \<Rightarrow> unit action" where
  "ensure_root S = bind (path_exists S []) (\<lambda>found. if found then ret () else create_directory S [] [])"

definition ensure_node_exists :: "file_service \<Rightarrow> string \<Rightarrow> bool \<Rightarrow> unit action" where
  "ensure_node_exists S path required =
     (if path = [] then (if required then raise Storage_File_Not_Found else ret ())
      else bind (path_exists S path) (\<lambda>found. if found then ret () else raise Storage_File_Not_Found))"

definition INVALID_DEPTH :: exn where "INVALID_DEPTH = Resume_Validation ''RESUME_DEPTH_INVALID''"

definition ensure_node_depth :: "nat \<Rightarrow> exn + unit" where
  "ensure_node_depth depth = (if 1 \<le> depth \<and> depth \<le> MAX_TREE_DEPTH then Inr () else Inl INVALID_DEPTH)"

definition vacancy_path_of :: "string \<Rightarrow> exn + string" where
  "vacancy_path_of path =
     (let normalized = resume_path path in
      if resume_depth normalized \<noteq> MAX_TREE_DEPTH then Inl INVALID_DEPTH else Inr normalized)"

definition ensure_unique_sibling :: "file_service \<Rightarrow> uuid \<Rightarrow> string \<Rightarrow> string \<Rightarrow> unit action" where
  "ensure_unique_sibling S u parent name =
     bind (when_missing [] (list_directory S u parent)) (\<lambda>nodes.
     if \<exists>n \<in> set nodes. lower (fn_name n) = lower name then raise Resume_Node_Exists else ret ())"

section \<open>Statuses\<close>

definition list_statuses :: "yaml_library \<Rightarrow> file_service \<Rightarrow> uuid \<Rightarrow> resume_status list action" where
  "list_statuses Y S u =
     bind (ensure_root S) (\<lambda>_.
     bind (read_resume_file S u STATUSES_FILENAME) (\<lambda>raw. case raw of
       None \<Rightarrow>
         bind (map_act (\<lambda>(name, color). bind (uuid_hex (fs_env S)) (\<lambda>i.
                 ret \<lparr>rs_id = i, rs_name = name, rs_color = color\<rparr>)) DEFAULT_STATUSES) (\<lambda>seeded.
         bind (write_statuses Y S u seeded) (\<lambda>_. ret seeded))
     | Some b \<Rightarrow> lift (parse_statuses Y b)))"

definition save_statuses :: "yaml_library \<Rightarrow> file_service \<Rightarrow> uuid \<Rightarrow> resume_status list \<Rightarrow> resume_status list action" where
  "save_statuses Y S u statuses =
     bind (validate_statuses (fs_env S) statuses) (\<lambda>normalized.
     bind (ensure_root S) (\<lambda>_.
     bind (write_statuses Y S u normalized) (\<lambda>_. ret normalized)))"

definition resolve_status_id :: "yaml_library \<Rightarrow> file_service \<Rightarrow> uuid \<Rightarrow> string option \<Rightarrow> string option action" where
  "resolve_status_id Y S u status_id = (case clean_status_id status_id of
       None \<Rightarrow> ret None
     | Some candidate \<Rightarrow>
         bind (list_statuses Y S u) (\<lambda>statuses.
         if candidate \<notin> rs_id ` set statuses then raise INVALID_STATUS else ret (Some candidate)))"

section \<open>Nodes and vacancies\<close>

definition list_nodes :: "yaml_library \<Rightarrow> file_service \<Rightarrow> uuid \<Rightarrow> string \<Rightarrow> resume_tree action" where
  "list_nodes Y S u path =
     (let normalized = resume_path path; depth = resume_depth normalized;
          child_level = (if depth < MAX_TREE_DEPTH then Some (LEVEL_BY_DEPTH ! depth) else None) in
      bind (ensure_root S) (\<lambda>_.
      bind (ensure_node_exists S normalized False) (\<lambda>_.
      bind (list_child_dirs S u normalized) (\<lambda>dirs.
      bind (map_act (\<lambda>n. build_node Y S u (resume_join normalized (fn_name n)) child_level
              (Some (fn_modified_at n))) dirs) (\<lambda>items.
      ret \<lparr>rt_path = normalized, rt_level = child_level, rt_items = items\<rparr>)))))"

definition create_node ::
  "yaml_library \<Rightarrow> file_service \<Rightarrow> uuid \<Rightarrow> string \<Rightarrow> string \<Rightarrow> string option \<Rightarrow> resume_node action" where
  "create_node Y S u path name status_id =
     (let parent = resume_path path; depth = resume_depth parent in
      if depth \<ge> MAX_TREE_DEPTH then raise INVALID_DEPTH
      else
        bind (lift (validate_node_name name)) (\<lambda>clean_name.
        bind (ensure_root S) (\<lambda>_.
        bind (ensure_node_exists S parent False) (\<lambda>_.
        bind (ensure_unique_sibling S u parent clean_name) (\<lambda>_.
        let level = LEVEL_BY_DEPTH ! depth; node_path = resume_join parent clean_name in
        bind (if level = VACANCY then resolve_status_id Y S u status_id else ret None) (\<lambda>resolved_status_id.
        bind (create_directory S parent clean_name) (\<lambda>_.
        bind (if level = VACANCY then write_meta Y S u node_path [] resolved_status_id [] else ret ()) (\<lambda>_.
        build_node Y S u node_path (Some level) None))))))))"

definition rename_node :: "yaml_library \<Rightarrow> file_service \<Rightarrow> uuid \<Rightarrow> string \<Rightarrow> string \<Rightarrow> resume_node action" where
  "rename_node Y S u path new_name =
     (let normalized = resume_path path; depth = resume_depth normalized in
      bind (lift (ensure_node_depth depth)) (\<lambda>_.
      bind (lift (validate_node_name new_name)) (\<lambda>clean_name.
      bind (ensure_node_exists S normalized True) (\<lambda>_.
      let parent = resume_parent normalized; current_name = path_name normalized in
      bind (if lower clean_name \<noteq> lower current_name then ensure_unique_sibling S u parent clean_name
            else ret ()) (\<lambda>_.
      bind (if clean_name \<noteq> current_name
            then bind (rename_by_path S u normalized clean_name) (\<lambda>_. ret ()) else ret ()) (\<lambda>_.
      build_node Y S u (resume_join parent clean_name) (Some (LEVEL_BY_DEPTH ! (depth - 1))) None))))))"

definition delete_node :: "file_service \<Rightarrow> uuid \<Rightarrow> string \<Rightarrow> unit action" where
  "delete_node S u path =
     (let normalized = resume_path path in
      bind (lift (ensure_node_depth (resume_depth normalized))) (\<lambda>_.
      bind (delete_directory_recursive S u normalized) (\<lambda>_. ret ())))"

definition get_vacancy :: "yaml_library \<Rightarrow> file_service \<Rightarrow> uuid \<Rightarrow> string \<Rightarrow> vacancy_meta action" where
  "get_vacancy Y S u path =
     bind (lift (vacancy_path_of path)) (\<lambda>normalized.
     bind (ensure_node_exists S normalized True) (\<lambda>_. read_meta Y S u normalized))"

definition save_vacancy ::
  "yaml_library \<Rightarrow> file_service \<Rightarrow> uuid \<Rightarrow> string \<Rightarrow> string option \<Rightarrow> string option \<Rightarrow> vacancy_field list \<Rightarrow>
    vacancy_meta action" where
  "save_vacancy Y S u path website_url status_id fs =
     bind (lift (vacancy_path_of path)) (\<lambda>normalized.
     bind (ensure_node_exists S normalized True) (\<lambda>_.
     let normalized_url = normalize_url website_url in
     bind (lift (validate_fields fs)) (\<lambda>normalized_fields.
     let normalized_status_id = clean_status_id status_id in
     bind (write_meta Y S u normalized normalized_url normalized_status_id normalized_fields) (\<lambda>_.
     ret \<lparr>vm_path = normalized, vm_name = path_name normalized, vm_website_url = normalized_url,
          vm_status_id = normalized_status_id, vm_fields = normalized_fields\<rparr>))))"

definition list_all_vacancies :: "yaml_library \<Rightarrow> file_service \<Rightarrow> uuid \<Rightarrow> vacancy_item list action" where
  "list_all_vacancies Y S u =
     bind (ensure_root S) (\<lambda>_.
     bind (list_child_dirs S u []) (\<lambda>countries.
     bind (map_act (\<lambda>country.
       bind (list_child_dirs S u (fn_name country)) (\<lambda>companies.
       bind (map_act (\<lambda>company.
         let company_path = resume_join (fn_name country) (fn_name company) in
         bind (list_child_dirs S u company_path) (\<lambda>vacancies.
         map_act (\<lambda>vacancy.
           let vacancy_path = resume_join company_path (fn_name vacancy) in
           bind (try_read_meta Y S u vacancy_path) (\<lambda>meta.
           ret \<lparr>vi_country = fn_name country, vi_company = fn_name company, vi_name = fn_name vacancy,
                vi_path = vacancy_path,
                vi_status_id = (case meta of None \<Rightarrow> None | Some m \<Rightarrow> vm_status_id m),
                vi_website_url = (case meta of None \<Rightarrow> [] | Some m \<Rightarrow> vm_website_url m),
                vi_modified_at = fn_modified_at vacancy\<rparr>)) vacancies)) companies) (\<lambda>items.
       ret (concat items)))) countries) (\<lambda>items.
     ret (concat items))))"

section \<open>Endpoints\<close>

datatype resume_request =
    Resume_Tree string
  | Resume_Create string string "string option"
  | Resume_Rename string string
  | Resume_Delete string
  | Resume_Vacancy string
  | Resume_Save_Vacancy string string "string option" "vacancy_field list"
  | Resume_Vacancies
  | Resume_Statuses
  | Resume_Save_Statuses "(string option \<times> string \<times> string) list"

definition status_entry :: "string option \<times> string \<times> string \<Rightarrow> resume_status" where
  "status_entry = (\<lambda>(i, name, color). \<lparr>rs_id = or_else i [], rs_name = name, rs_color = color\<rparr>)"

text \<open>The handlers; \<open>in_session\<close> is the commit and the rollback of each.\<close>

definition list_resume_tree :: "yaml_library \<Rightarrow> file_service \<Rightarrow> user \<Rightarrow> string \<Rightarrow> resume_tree action" where
  "list_resume_tree Y S u path = in_session (list_nodes Y S (us_id u) path)"

definition create_resume_node ::
  "yaml_library \<Rightarrow> file_service \<Rightarrow> user \<Rightarrow> string \<Rightarrow> string \<Rightarrow> string option \<Rightarrow> resume_node action" where
  "create_resume_node Y S u path name status_id = in_session (create_node Y S (us_id u) path name status_id)"

definition rename_resume_node :: "yaml_library \<Rightarrow> file_service \<Rightarrow> user \<Rightarrow> string \<Rightarrow> string \<Rightarrow> resume_node action" where
  "rename_resume_node Y S u path new_name = in_session (rename_node Y S (us_id u) path new_name)"

definition delete_resume_node :: "file_service \<Rightarrow> user \<Rightarrow> string \<Rightarrow> unit action" where
  "delete_resume_node S u path = in_session (delete_node S (us_id u) path)"

definition get_vacancy_endpoint :: "yaml_library \<Rightarrow> file_service \<Rightarrow> user \<Rightarrow> string \<Rightarrow> vacancy_meta action" where
  "get_vacancy_endpoint Y S u path = in_session (get_vacancy Y S (us_id u) path)"

text \<open>The request model gives the address an empty text by default.\<close>

definition save_vacancy_endpoint ::
  "yaml_library \<Rightarrow> file_service \<Rightarrow> user \<Rightarrow> string \<Rightarrow> string \<Rightarrow> string option \<Rightarrow> vacancy_field list \<Rightarrow>
    vacancy_meta action" where
  "save_vacancy_endpoint Y S u path website_url status_id fs =
     in_session (save_vacancy Y S (us_id u) path (Some website_url) status_id fs)"

definition list_all_vacancies_endpoint :: "yaml_library \<Rightarrow> file_service \<Rightarrow> user \<Rightarrow> vacancy_item list action" where
  "list_all_vacancies_endpoint Y S u = in_session (list_all_vacancies Y S (us_id u))"

definition list_statuses_endpoint :: "yaml_library \<Rightarrow> file_service \<Rightarrow> user \<Rightarrow> resume_status list action" where
  "list_statuses_endpoint Y S u = in_session (list_statuses Y S (us_id u))"

definition save_statuses_endpoint ::
  "yaml_library \<Rightarrow> file_service \<Rightarrow> user \<Rightarrow> (string option \<times> string \<times> string) list \<Rightarrow> resume_status list action" where
  "save_statuses_endpoint Y S u statuses =
     in_session (save_statuses Y S (us_id u) (map status_entry statuses))"

fun handle_resume :: "yaml_library \<Rightarrow> resume_request \<Rightarrow> file_service \<Rightarrow> user \<Rightarrow> unit action" where
  "handle_resume Y (Resume_Tree path) S u = bind (list_resume_tree Y S u path) (\<lambda>_. ret ())"
| "handle_resume Y (Resume_Create path name status_id) S u =
     bind (create_resume_node Y S u path name status_id) (\<lambda>_. ret ())"
| "handle_resume Y (Resume_Rename path new_name) S u = bind (rename_resume_node Y S u path new_name) (\<lambda>_. ret ())"
| "handle_resume Y (Resume_Delete path) S u = delete_resume_node S u path"
| "handle_resume Y (Resume_Vacancy path) S u = bind (get_vacancy_endpoint Y S u path) (\<lambda>_. ret ())"
| "handle_resume Y (Resume_Save_Vacancy path website_url status_id fs) S u =
     bind (save_vacancy_endpoint Y S u path website_url status_id fs) (\<lambda>_. ret ())"
| "handle_resume Y Resume_Vacancies S u = bind (list_all_vacancies_endpoint Y S u) (\<lambda>_. ret ())"
| "handle_resume Y Resume_Statuses S u = bind (list_statuses_endpoint Y S u) (\<lambda>_. ret ())"
| "handle_resume Y (Resume_Save_Statuses statuses) S u =
     bind (save_statuses_endpoint Y S u statuses) (\<lambda>_. ret ())"

definition serve_resume :: "env \<Rightarrow> yaml_library \<Rightarrow> headers \<Rightarrow> resume_request \<Rightarrow> error_response option action" where
  "serve_resume E Y H req =
     try_except
       (bind (get_current_user E H) (\<lambda>u.
        bind (get_resumes_file_service E u) (\<lambda>S.
        bind (handle_resume Y req S u) (\<lambda>_. ret None))))
       (\<lambda>e. ret (Some (error_response_of e)))"

end
