(* ===== verification/Dates.thy ===== *)
theory Dates
  imports Codecs
begin

text \<open>
  Moments as text: the proleptic Gregorian calendar, \<open>strftime\<close> and \<open>strptime\<close> with the formats the
  services use. A moment is a number of seconds since 1970. What is written is read back, for the
  years that have four digits.
\<close>

section \<open>The calendar\<close>

definition leap :: "int \<Rightarrow> bool" where
  "leap y \<longleftrightarrow> y mod 4 = 0 \<and> (y mod 100 \<noteq> 0 \<or> y mod 400 = 0)"

definition month_days :: "int \<Rightarrow> int \<Rightarrow> int" where
  "month_days y m = (if m = 2 then (if leap y then 29 else 28) else if m \<in> {4, 6, 9, 11} then 30 else 31)"

definition days_before_year :: "int \<Rightarrow> int" where
  "days_before_year y = (y - 1) * 365 + (y - 1) div 4 - (y - 1) div 100 + (y - 1) div 400"

definition days_before_month :: "int \<Rightarrow> int \<Rightarrow> int" where
  "days_before_month y m = [0, 31, 59, 90, 120, 151, 181, 212, 243, 273, 304, 334] ! nat (m - 1) +
     (if m > 2 \<and> leap y then 1 else 0)"

text \<open>Days since the 1st of January of the year 1, which is day 0.\<close>

definition day_number :: "int \<Rightarrow> int \<Rightarrow> int \<Rightarrow> int" where
  "day_number y m d = days_before_year y + days_before_month y m + d - 1"

definition EPOCH_DAY :: int where "EPOCH_DAY = 719162"

text \<open>The year of a day and the day's place in it: centuries, four-year cycles and years in turn.\<close>

definition year_of_day :: "int \<Rightarrow> int \<times> int" where
  "year_of_day n =
     (let n1 = n mod 146097; b = min 3 (n1 div 36524); n2 = n1 - b * 36524;
          c = n2 div 1461; n3 = n2 mod 1461; e = min 3 (n3 div 365)
      in (400 * (n div 146097) + 100 * b + 4 * c + e + 1, n3 - e * 365))"

fun month_from :: "int \<Rightarrow> int \<Rightarrow> int list \<Rightarrow> int \<times> int" where
  "month_from y k [] = (12, k)"
| "month_from y k (m # ms) = (if k < month_days y m then (m, k) else month_from y (k - month_days y m) ms)"

definition date_of_day :: "int \<Rightarrow> int \<times> int \<times> int" where
  "date_of_day n = (let (y, k) = year_of_day n; (m, d) = month_from y k [1..12]
     in (y, m, d + 1))"

lemma multiple_place: "0 < M \<Longrightarrow> 1 \<le> t \<Longrightarrow> t \<le> M \<Longrightarrow> (M * q + t) mod M = 0 \<longleftrightarrow> t = M" for M t q :: int
  by (cases "t = M") auto

lemma year_of_day:
  assumes "year_of_day n = (y, k)"
  shows "days_before_year y + k = n" "0 \<le> k" "k < (if leap y then 366 else 365)"
proof -
  define a n1 where "a = n div 146097" and "n1 = n mod 146097"
  define b n2 where "b = min 3 (n1 div 36524)" and "n2 = n1 - b * 36524"
  define c n3 where "c = n2 div 1461" and "n3 = n2 mod 1461"
  define e where "e = min 3 (n3 div 365)"
  have place: "year_of_day n = (400 * a + 100 * b + 4 * c + e + 1, n3 - e * 365)"
    by (simp only: year_of_day_def Let_def a_def n1_def b_def n2_def c_def n3_def e_def)
  have y: "y - 1 = 400 * a + 100 * b + 4 * c + e" and k: "k = n3 - e * 365"
    using assms place by simp_all
  have n1: "0 \<le> n1" "n1 \<le> 146096" "n = 146097 * a + n1" by (simp_all add: n1_def a_def)
  have b: "0 \<le> b" "b \<le> 3" "0 \<le> n2" "n2 \<le> (if b = 3 then 36524 else 36523)" using n1 by (auto simp: b_def n2_def min_def)
  have "n2 \<le> 36524" using b(4) by (simp split: if_splits)
  from zdiv_mono1 [OF this, of 1461] have "c \<le> 24" by (simp add: c_def)
  moreover have "n3 < 1461" by (simp add: n3_def)
  ultimately have c: "0 \<le> c" "c \<le> 24" "n2 = 1461 * c + n3" "0 \<le> n3" "n3 \<le> 1460"
    using b(3) by (simp_all add: c_def n3_def pos_imp_zdiv_nonneg_iff)
  have e: "0 \<le> e" "e \<le> 3" "0 \<le> k" "k \<le> (if e = 3 then 365 else 364)" using c by (auto simp: e_def k min_def)
  have d4: "(y - 1) div 4 = 100 * a + 25 * b + c" "(y - 1) div 100 = 4 * a + b" "(y - 1) div 400 = a"
    using b(1,2) c(1,2) e(1,2) by (simp_all add: y)
  show "days_before_year y + k = n"
    unfolding days_before_year_def d4 using y k n1(3) c(3) by (simp add: n2_def)
  show "0 \<le> k" by (rule e(3))
  have l: "leap y \<longleftrightarrow> e = 3 \<and> (c \<noteq> 24 \<or> b = 3)"
  proof -
    have yy: "y = 4 * (100 * a + 25 * b + c) + (e + 1)" "y = 100 * (4 * a + b) + (4 * c + e + 1)"
      "y = 400 * a + (100 * b + 4 * c + e + 1)" using y by simp_all
    have "y mod 4 = 0 \<longleftrightarrow> e + 1 = 4"
      by (subst yy(1), rule multiple_place) (use e(1,2) in simp_all)
    moreover have "y mod 100 = 0 \<longleftrightarrow> 4 * c + e + 1 = 100"
      by (subst yy(2), rule multiple_place) (use e(1,2) c(1,2) in simp_all)
    moreover have "y mod 400 = 0 \<longleftrightarrow> 100 * b + 4 * c + e + 1 = 400"
      by (subst yy(3), rule multiple_place) (use e(1,2) c(1,2) b(1,2) in simp_all)
    ultimately have "y mod 4 = 0 \<longleftrightarrow> e = 3" "y mod 100 = 0 \<longleftrightarrow> e = 3 \<and> c = 24" "y mod 400 = 0 \<longleftrightarrow> e = 3 \<and> c = 24 \<and> b = 3"
      using e(1,2) c(1,2) b(1,2) by auto
    then show ?thesis by (auto simp: leap_def)
  qed
  have "k \<le> 364" if "e = 3" "c = 24" "b \<noteq> 3" using that b(4) c(3) k by simp
  then show "k < (if leap y then 366 else 365)" using e(4) l by (auto split: if_splits)
qed

lemma days_before_next_month:
  assumes "1 \<le> m" "m < 12"
  shows "days_before_month y (m + 1) = days_before_month y m + month_days y m"
proof -
  have "m \<in> {1, 2, 3, 4, 5, 6, 7, 8, 9, 10, 11}" using assms by (simp; arith)
  then show ?thesis by (elim insertE) (simp_all add: days_before_month_def month_days_def)
qed

lemma days_before_december: "days_before_month y 12 + 31 = (if leap y then 366 else 365)"
  by (simp add: days_before_month_def)

lemma month_from:
  assumes "month_from y k [p..12] = (m, j)" and "1 \<le> p" "p \<le> 12" and "0 \<le> k"
    and "days_before_month y p + k < (if leap y then 366 else 365)"
  shows "1 \<le> m \<and> m \<le> 12 \<and> 0 \<le> j \<and> j < month_days y m \<and> days_before_month y m + j = days_before_month y p + k"
  using assms
proof (induction "nat (12 - p)" arbitrary: p k)
  case 0
  then have "p = 12" by simp
  with 0 days_before_december [of y] show ?case by (auto simp: month_days_def split: if_splits)
next
  case (Suc x)
  then have p: "p < 12" "[p..12] = p # [p + 1..12]" by (auto simp: upto_rec1)
  note next_month = days_before_next_month [OF Suc.prems(2) p(1)]
  show ?case
  proof (cases "k < month_days y p")
    case True
    with Suc.prems p show ?thesis by auto
  next
    case False
    have "1 \<le> m \<and> m \<le> 12 \<and> 0 \<le> j \<and> j < month_days y m \<and>
        days_before_month y m + j = days_before_month y (p + 1) + (k - month_days y p)"
      by (rule Suc.hyps(1)) (use Suc.hyps(2) Suc.prems p False next_month in auto)
    then show ?thesis using next_month by simp
  qed
qed

lemma date_of_day:
  assumes "date_of_day n = (y, m, d)"
  shows "1 \<le> m" "m \<le> 12" "1 \<le> d" "d \<le> month_days y m" "day_number y m d = n"
proof -
  obtain k where yk: "year_of_day n = (y, k)" and md: "month_from y k [1..12] = (m, d - 1)"
    using assms by (auto simp: date_of_day_def split: prod.splits)
  note year = year_of_day [OF yk]
  from month_from [OF md] year(2,3) have
    "1 \<le> m \<and> m \<le> 12 \<and> 0 \<le> d - 1 \<and> d - 1 < month_days y m \<and> days_before_month y m + (d - 1) = k"
    by (simp add: days_before_month_def)
  then show "1 \<le> m" "m \<le> 12" "1 \<le> d" "d \<le> month_days y m" "day_number y m d = n"
    using year(1) by (simp_all add: day_number_def)
qed

section \<open>Text\<close>

text \<open>\<open>n\<close> in \<open>k\<close> decimal digits.\<close>

fun padded :: "nat \<Rightarrow> nat \<Rightarrow> string" where
  "padded 0 n = []"
| "padded (Suc k) n = padded k (n div 10) @ [digit (n mod 10)]"

definition date_parts :: "int \<Rightarrow> nat \<times> nat \<times> nat \<times> nat \<times> nat \<times> nat" where
  "date_parts seconds =
     (let (y, m, d) = date_of_day (seconds div 86400 + EPOCH_DAY); s = seconds mod 86400
      in (nat y, nat m, nat d, nat (s div 3600), nat (s mod 3600 div 60), nat (s mod 60)))"

text \<open>\<open>strftime\<close> with \<open>%Y-%m-%dT%H:%M:%SZ\<close> and \<open>%Y%m%dT%H%M%SZ\<close>, for years of four digits.\<close>

definition format_timestamp :: "int \<Rightarrow> string" where
  "format_timestamp seconds = (case date_parts seconds of (y, m, d, h, i, s) \<Rightarrow>
     padded 4 y @ ''-'' @ padded 2 m @ ''-'' @ padded 2 d @ ''T'' @
     padded 2 h @ '':'' @ padded 2 i @ '':'' @ padded 2 s @ ''Z'')"

definition format_stamp :: "int \<Rightarrow> string" where
  "format_stamp seconds = (case date_parts seconds of (y, m, d, h, i, s) \<Rightarrow>
     padded 4 y @ padded 2 m @ padded 2 d @ ''T'' @ padded 2 h @ padded 2 i @ padded 2 s @ ''Z'')"

definition all_digits :: "string \<Rightarrow> bool" where
  "all_digits s = list_all (\<lambda>c. digit_value c \<noteq> None) s"

definition number_at :: "string \<Rightarrow> nat \<Rightarrow> nat \<Rightarrow> int" where
  "number_at s i k = (case parse_decimal (take k (drop i s)) of None \<Rightarrow> 0 | Some n \<Rightarrow> int n)"

text \<open>The pattern \<open>\d{4}-\d{2}-\d{2}T\d{2}:\d{2}:\d{2}Z\<close>.\<close>

definition timestamp_shape :: "string \<Rightarrow> bool" where
  "timestamp_shape s \<longleftrightarrow> length s = 20 \<and>
     s ! 4 = CHR ''-'' \<and> s ! 7 = CHR ''-'' \<and> s ! 10 = CHR ''T'' \<and> s ! 13 = CHR '':'' \<and> s ! 16 = CHR '':'' \<and>
     s ! 19 = CHR ''Z'' \<and> all_digits (take 4 s) \<and> all_digits (take 2 (drop 5 s)) \<and> all_digits (take 2 (drop 8 s)) \<and>
     all_digits (take 2 (drop 11 s)) \<and> all_digits (take 2 (drop 14 s)) \<and> all_digits (take 2 (drop 17 s))"

text \<open>\<open>strptime\<close> on a text of that shape: the seconds since 1970, or \<open>ValueError\<close>.\<close>

definition parse_timestamp :: "string \<Rightarrow> int option" where
  "parse_timestamp t =
     (let y = number_at t 0 4; m = number_at t 5 2; d = number_at t 8 2;
          h = number_at t 11 2; i = number_at t 14 2; s = number_at t 17 2
      in if 1 \<le> y \<and> 1 \<le> m \<and> m \<le> 12 \<and> 1 \<le> d \<and> d \<le> month_days y m \<and> h < 24 \<and> i < 60 \<and> s < 60
         then Some ((day_number y m d - EPOCH_DAY) * 86400 + h * 3600 + i * 60 + s) else None)"

section \<open>A moment is read back\<close>

lemma length_padded [simp]: "length (padded k n) = k"
  by (induction k n rule: padded.induct) simp_all

lemma all_digits_padded [simp]: "all_digits (padded k n)"
  by (induction k n rule: padded.induct) (simp_all add: all_digits_def)

lemma all_digits_append [simp]: "all_digits (s @ t) \<longleftrightarrow> all_digits s \<and> all_digits t"
  by (simp add: all_digits_def)

lemma decimal_value_padded: "n < 10 ^ k \<Longrightarrow> decimal_value a (padded k n) = Some (a * 10 ^ k + n)"
proof (induction k n arbitrary: a rule: padded.induct)
  case (2 k n)
  have "n div 10 < 10 ^ k" using 2(2) by (simp add: less_mult_imp_div_less)
  then show ?case using 2(1) by (simp add: decimal_value_append algebra_simps)
qed simp

lemma parse_padded: "n < 10 ^ k \<Longrightarrow> k \<noteq> 0 \<Longrightarrow> parse_decimal (padded k n) = Some n"
  using decimal_value_padded [of n k 0] length_padded [of k n] by (auto simp: parse_decimal_def simp del: length_padded)

lemma days_before_year_bounds:
  "1461 * (y - 1) \<le> 4 * days_before_year y + 4 * ((y - 1) div 100) + 3 - 4 * ((y - 1) div 400)"
  "4 * days_before_year y \<le> 1461 * (y - 1) - 4 * ((y - 1) div 100) + 4 * ((y - 1) div 400)"
  unfolding days_before_year_def by presburger+

lemma year_within:
  assumes "days_before_year y \<le> n" "n < days_before_year y + 366" "0 \<le> n" "n < 3652059" "y \<noteq> 0"
  shows "1 \<le> y" "y < 10000"
proof -
  define x where "x = y - 1"
  have c: "x - 99 \<le> 100 * (x div 100)" "100 * (x div 100) \<le> x" "x - 399 \<le> 400 * (x div 400)" "400 * (x div 400) \<le> x"
    by presburger+
  note b = days_before_year_bounds [of y, folded x_def]
  show "1 \<le> y"
  proof (rule ccontr)
    assume "\<not> 1 \<le> y"
    then have "x \<le> -2" using assms(5) by (simp add: x_def)
    with b(2) c assms(2,3) show False by linarith
  qed
  show "y < 10000"
  proof (rule ccontr)
    assume "\<not> y < 10000"
    then have "9999 \<le> x" by (simp add: x_def)
    with b(1) c assms(1,4) show False by linarith
  qed
qed

lemma month_days_less: "month_days y m < 32"
  by (simp add: month_days_def)

lemma div_below: "a < k * q \<Longrightarrow> 0 < q \<Longrightarrow> a div q < k" for a k q :: int
  using pos_mod_sign [of q a] div_mult_mod_eq [of a q] mult_le_cancel_right [of k q "a div q"] by linarith

lemma clock_parts: "t = t div 3600 * 3600 + t mod 3600 div 60 * 60 + t mod 60" for t :: int
proof -
  have "t mod 3600 mod 60 = t mod 60" by (rule mod_mod_cancel) simp
  with div_mult_mod_eq [of t 3600] div_mult_mod_eq [of "t mod 3600" 60] show ?thesis by linarith
qed

lemma date_parts:
  assumes "0 \<le> s" "s < 253402300800" and "date_parts s = (y, m, d, h, i, c)"
  shows "1 \<le> y" "y < 10000" "1 \<le> m" "m \<le> 12" "1 \<le> d" "int d \<le> month_days (int y) (int m)" "h < 24" "i < 60" "c < 60"
    "(day_number (int y) (int m) (int d) - EPOCH_DAY) * 86400 + int h * 3600 + int i * 60 + int c = s"
proof -
  define n where "n = s div 86400 + EPOCH_DAY"
  obtain yy mm dd where date: "date_of_day n = (yy, mm, dd)" by (metis prod_cases3)
  obtain k where yk: "year_of_day n = (yy, k)"
    using date by (auto simp: date_of_day_def split: prod.splits)
  note day = date_of_day [OF date] and year = year_of_day [OF yk]
  have n: "719162 \<le> n" "n < 3652059" using assms(1,2) by (simp_all add: n_def EPOCH_DAY_def)
  have "yy \<noteq> 0" using year n(1) by (auto simp: days_before_year_def split: if_splits)
  then have yy: "1 \<le> yy" "yy < 10000"
    using year_within [of yy n] year n by (auto split: if_splits)
  have parts: "int y = yy" "int m = mm" "int d = dd" "int h = s mod 86400 div 3600" "int i = s mod 86400 mod 3600 div 60"
    "int c = s mod 86400 mod 60"
  proof -
    have eqs: "nat yy = y" "nat mm = m" "nat dd = d" "nat (s mod 86400 div 3600) = h"
      "nat (s mod 86400 mod 3600 div 60) = i" "nat (s mod 86400 mod 60) = c"
      using assms(3) by (simp_all only: date_parts_def n_def [symmetric] Let_def date prod.case prod.inject)
    have "0 \<le> s mod 86400" "0 \<le> s mod 86400 mod 3600" "0 \<le> s mod 86400 mod 60" by simp_all
    then have "0 \<le> s mod 86400 div 3600" "0 \<le> s mod 86400 mod 3600 div 60" "0 \<le> s mod 86400 mod 60"
      by (simp_all only: pos_imp_zdiv_nonneg_iff)
    then show "int y = yy" "int m = mm" "int d = dd" "int h = s mod 86400 div 3600"
      "int i = s mod 86400 mod 3600 div 60" "int c = s mod 86400 mod 60"
      using yy day(1,3) by (simp_all only: eqs [symmetric] int_nat_eq if_True) simp_all
  qed
  show "1 \<le> y" "y < 10000" using yy parts(1) by simp_all
  show "1 \<le> m" "m \<le> 12" "1 \<le> d" "int d \<le> month_days (int y) (int m)"
    using day parts(1-3) by simp_all
  have "int h < 24" "int i < 60" unfolding parts by (rule div_below, simp, simp)+
  moreover have "int c < 60" unfolding parts by (rule pos_mod_bound) simp
  ultimately show "h < 24" "i < 60" "c < 60" by simp_all
  have "int h * 3600 + int i * 60 + int c = s mod 86400" unfolding parts by (rule clock_parts [symmetric])
  moreover have "day_number (int y) (int m) (int d) - EPOCH_DAY = s div 86400"
    using day(5) unfolding parts(1-3) n_def by simp
  ultimately show "(day_number (int y) (int m) (int d) - EPOCH_DAY) * 86400 + int h * 3600 + int i * 60 + int c = s"
    by (simp only: add.assoc div_mult_mod_eq)
qed

lemma timestamp_round_trip:
  assumes "0 \<le> s" "s < 253402300800"
  shows "timestamp_shape (format_timestamp s)" "parse_timestamp (format_timestamp s) = Some s"
proof -
  obtain y m d h i c where parts: "date_parts s = (y, m, d, h, i, c)" by (metis prod_cases6)
  note b = date_parts [OF assms parts]
  have t: "format_timestamp s = padded 4 y @ ''-'' @ padded 2 m @ ''-'' @ padded 2 d @ ''T'' @
     padded 2 h @ '':'' @ padded 2 i @ '':'' @ padded 2 c @ ''Z''"
    by (simp add: format_timestamp_def parts)
  show "timestamp_shape (format_timestamp s)"
    unfolding t timestamp_shape_def by (simp add: nth_append)
  have "int d < 32" using b(6) month_days_less [of "int y" "int m"] by linarith
  then have small: "y < 10 ^ 4" "m < 10 ^ 2" "d < 10 ^ 2" "h < 10 ^ 2" "i < 10 ^ 2" "c < 10 ^ 2"
    using b by simp_all
  have numbers: "number_at (format_timestamp s) 0 4 = int y" "number_at (format_timestamp s) 5 2 = int m"
    "number_at (format_timestamp s) 8 2 = int d" "number_at (format_timestamp s) 11 2 = int h"
    "number_at (format_timestamp s) 14 2 = int i" "number_at (format_timestamp s) 17 2 = int c"
    unfolding t number_at_def using small by (simp_all add: parse_padded)
  show "parse_timestamp (format_timestamp s) = Some s"
    using b unfolding parse_timestamp_def numbers Let_def by simp
qed

lemma format_stamp_parts:
  obtains a b where "format_stamp s = a @ ''T'' @ b @ ''Z''" "length a = 8" "length b = 6" "all_digits a" "all_digits b"
proof -
  obtain y m d h i c where parts: "date_parts s = (y, m, d, h, i, c)" by (metis prod_cases6)
  show ?thesis
    by (rule that [of "padded 4 y @ padded 2 m @ padded 2 d" "padded 2 h @ padded 2 i @ padded 2 c"])
      (simp_all add: format_stamp_def parts)
qed

end
