(* ===== verification/GeneratedService.thy ===== *)
theory GeneratedService
  imports FileApi Yaml Dates
begin

text \<open>
  \<open>application/generated_service.py\<close> with \<open>routers/generated_router.py\<close>: a generated image is a directory of
  the section GENERATED, named after the time and a random suffix, with \<open>meta.yaml\<close>, the reference images
  and \<open>result.png\<close>. PyYAML and the parsing of floating-point numbers are parameters.
\<close>

section \<open>Data\<close>

definition META_FILENAME :: string where "META_FILENAME = ''meta.yaml''"
definition RESULT_FILENAME :: string where "RESULT_FILENAME = ''result.png''"
definition MAX_REFERENCE_COUNT :: nat where "MAX_REFERENCE_COUNT = 10"
definition RUN_ID_SUFFIX_HEX_CHARS :: nat where "RUN_ID_SUFFIX_HEX_CHARS = 8"
definition RUN_ID_ALLOCATION_ATTEMPTS :: nat where "RUN_ID_ALLOCATION_ATTEMPTS = 5"

record stored_run =
  sr_id :: string
  sr_created_at :: string

record generated_item =
  gi_id :: string
  gi_created_at :: string
  gi_prompt :: string

record generated_meta =
  gm_prompt :: string
  gm_negative_prompt :: string
  gm_seed :: int
  gm_steps :: int
  gm_true_cfg_scale :: rat
  gm_width :: int
  gm_height :: int
  gm_duration :: rat
  gm_created_at :: string
  gm_references :: "string list"
  gm_result :: string

text \<open>The pattern \<open>\d{8}T\d{6}Z-[0-9a-f]{8}\<close> on the whole name.\<close>

definition run_id_pattern :: "string \<Rightarrow> bool" where
  "run_id_pattern s \<longleftrightarrow> length s = 25 \<and> all_digits (take 8 s) \<and> s ! 8 = CHR ''T'' \<and>
     all_digits (take 6 (drop 9 s)) \<and> s ! 15 = CHR ''Z'' \<and> s ! 16 = CHR ''-'' \<and>
     list_all (\<lambda>c. c \<in> set ''0123456789abcdef'') (drop 17 s)"

text \<open>The pattern \<open>ref-([1-9][0-9]*)\.png\<close> on the whole name.\<close>

definition reference_name_pattern :: "string \<Rightarrow> bool" where
  "reference_name_pattern s \<longleftrightarrow> starts_with s ''ref-'' \<and> ends_with s ''.png'' \<and> length s \<ge> 9 \<and>
     (let number = take (length s - 8) (drop 4 s) in all_digits number \<and> hd number \<noteq> CHR ''0'')"

definition reference_name :: "nat \<Rightarrow> string" where
  "reference_name i = ''ref-'' @ decimal i @ ''.png''"

section \<open>The form of a new run\<close>

definition INVALID_RUN :: exn where "INVALID_RUN = Generated_Validation ''GENERATED_INVALID''"

definition and_then :: "exn + 'a \<Rightarrow> ('a \<Rightarrow> exn + 'b) \<Rightarrow> exn + 'b" where
  "and_then r f = (case r of Inl e \<Rightarrow> Inl e | Inr x \<Rightarrow> f x)"

lemma and_then_simps [simp]: "and_then (Inl e) f = Inl e" "and_then (Inr x) f = f x"
  by (simp_all add: and_then_def)

lemma and_then_Inr: "and_then r f = Inr y \<longleftrightarrow> (\<exists>x. r = Inr x \<and> f x = Inr y)"
  by (cases r) auto

definition require_prompt :: "string option \<Rightarrow> exn + string" where
  "require_prompt prompt = (case prompt of
       None \<Rightarrow> Inl INVALID_RUN
     | Some p \<Rightarrow> if strip p = [] then Inl INVALID_RUN else Inr p)"

definition require_reference_count :: "nat \<Rightarrow> exn + unit" where
  "require_reference_count count = (if count > MAX_REFERENCE_COUNT then Inl INVALID_RUN else Inr ())"

definition require_int :: "yaml_library \<Rightarrow> string option \<Rightarrow> exn + int" where
  "require_int Y raw =
     (let t = strip (or_else raw []) in
      if t = [] then Inl INVALID_RUN
      else if \<exists>c \<in> set t. c \<in> set ''.eE'' then
        (case float_parse Y t of
           Some (Finite q) \<Rightarrow> if of_int \<lfloor>q\<rfloor> = q then Inr \<lfloor>q\<rfloor> else Inl INVALID_RUN
         | _ \<Rightarrow> Inl INVALID_RUN)
      else (case py_int10 t of Some n \<Rightarrow> Inr n | None \<Rightarrow> Inl INVALID_RUN))"

definition require_float :: "yaml_library \<Rightarrow> string option \<Rightarrow> exn + rat" where
  "require_float Y raw =
     (let t = strip (or_else raw []) in
      if t = [] then Inl INVALID_RUN
      else (case float_parse Y t of Some (Finite q) \<Rightarrow> Inr q | _ \<Rightarrow> Inl INVALID_RUN))"

record run_form =
  rf_prompt :: "string option"
  rf_negative_prompt :: "string option"
  rf_seed :: "string option"
  rf_steps :: "string option"
  rf_true_cfg_scale :: "string option"
  rf_width :: "string option"
  rf_height :: "string option"
  rf_duration :: "string option"
  rf_references :: "bytes list"
  rf_result :: "bytes option"

text \<open>
  The first half of \<open>store_run\<close>: the parsed fields as the meta data without its time, and the result.
\<close>

definition parse_run :: "yaml_library \<Rightarrow> run_form \<Rightarrow> exn + generated_meta \<times> bytes" where
  "parse_run Y f =
     and_then (require_prompt (rf_prompt f)) (\<lambda>prompt.
     and_then (require_int Y (rf_seed f)) (\<lambda>seed.
     and_then (require_int Y (rf_steps f)) (\<lambda>steps.
     and_then (require_float Y (rf_true_cfg_scale f)) (\<lambda>cfg.
     and_then (require_int Y (rf_width f)) (\<lambda>width.
     and_then (require_int Y (rf_height f)) (\<lambda>height.
     and_then (require_float Y (rf_duration f)) (\<lambda>duration.
     case rf_result f of
       None \<Rightarrow> Inl INVALID_RUN
     | Some result \<Rightarrow>
         and_then (require_reference_count (length (rf_references f))) (\<lambda>_.
         Inr (\<lparr>gm_prompt = prompt, gm_negative_prompt = or_else (rf_negative_prompt f) [], gm_seed = seed,
               gm_steps = steps, gm_true_cfg_scale = cfg, gm_width = width, gm_height = height,
               gm_duration = duration, gm_created_at = [],
               gm_references = map reference_name [1..<Suc (length (rf_references f))],
               gm_result = RESULT_FILENAME\<rparr>, result)))))))))"

definition run_document :: "generated_meta \<Rightarrow> yaml" where
  "run_document m = Y_Mapping
     [(Y_Str ''prompt'', Y_Str (gm_prompt m)), (Y_Str ''negative_prompt'', Y_Str (gm_negative_prompt m)),
      (Y_Str ''seed'', Y_Int (gm_seed m)), (Y_Str ''steps'', Y_Int (gm_steps m)),
      (Y_Str ''true_cfg_scale'', Y_Float (Finite (gm_true_cfg_scale m))),
      (Y_Str ''width'', Y_Int (gm_width m)), (Y_Str ''height'', Y_Int (gm_height m)),
      (Y_Str ''duration'', Y_Float (Finite (gm_duration m))), (Y_Str ''created_at'', Y_Str (gm_created_at m)),
      (Y_Str ''references'', Y_Sequence (map Y_Str (gm_references m))),
      (Y_Str ''result'', Y_Str RESULT_FILENAME)]"

definition render_meta :: "yaml_library \<Rightarrow> generated_meta \<Rightarrow> bytes" where
  "render_meta Y m = encode_utf8 (yaml_dump_quoted Y (run_document m))"

section \<open>Reading \<open>meta.yaml\<close>\<close>

definition meta_text :: "yaml \<Rightarrow> exn + string" where
  "meta_text v = (case v of Y_Str s \<Rightarrow> Inr s | _ \<Rightarrow> Inl Generated_Meta_Invalid)"

definition parse_meta_int :: "yaml \<Rightarrow> exn + int" where
  "parse_meta_int v = (case v of Y_Int n \<Rightarrow> Inr n | _ \<Rightarrow> Inl Generated_Meta_Invalid)"

definition finite_float :: "py_float \<Rightarrow> exn + rat" where
  "finite_float x = (case x of Finite q \<Rightarrow> Inr q | Not_Finite \<Rightarrow> Inl Generated_Meta_Invalid)"

text \<open>\<open>float(value)\<close> of an integer beyond the range of a double is an \<open>OverflowError\<close>, which nothing catches.\<close>

definition parse_meta_float :: "yaml_library \<Rightarrow> yaml \<Rightarrow> exn + rat" where
  "parse_meta_float Y v = (case v of
       Y_Int n \<Rightarrow> (case float_of_int Y n of None \<Rightarrow> Inl Other_Error | Some x \<Rightarrow> finite_float x)
     | Y_Float x \<Rightarrow> finite_float x
     | _ \<Rightarrow> Inl Generated_Meta_Invalid)"

fun parse_references_from :: "string list \<Rightarrow> yaml list \<Rightarrow> exn + string list" where
  "parse_references_from seen [] = Inr []"
| "parse_references_from seen (y # ys) = (case y of
       Y_Str name \<Rightarrow>
         if \<not> reference_name_pattern name \<or> name \<in> set seen then Inl Generated_Meta_Invalid
         else map_sum id ((#) name) (parse_references_from (name # seen) ys)
     | _ \<Rightarrow> Inl Generated_Meta_Invalid)"

definition parse_references :: "yaml \<Rightarrow> exn + string list" where
  "parse_references v = (case v of Y_Sequence ys \<Rightarrow> parse_references_from [] ys | _ \<Rightarrow> Inl Generated_Meta_Invalid)"

definition parse_created_at :: "string \<Rightarrow> exn + int" where
  "parse_created_at value = (case parse_timestamp value of None \<Rightarrow> Inl Generated_Meta_Invalid | Some t \<Rightarrow> Inr t)"

definition parse_run_meta :: "yaml_library \<Rightarrow> bytes \<Rightarrow> exn + generated_meta" where
  "parse_run_meta Y raw = (case yaml_safe_load Y (decode_utf8_replace raw) of
       Some (Y_Mapping ms) \<Rightarrow>
         and_then (meta_text (yaml_get ms ''prompt'')) (\<lambda>prompt.
         if strip prompt = [] then Inl Generated_Meta_Invalid
         else
           and_then (meta_text (yaml_get ms ''negative_prompt'')) (\<lambda>negative_prompt.
           and_then (meta_text (yaml_get ms ''created_at'')) (\<lambda>created_at.
           if \<not> timestamp_shape created_at then Inl Generated_Meta_Invalid
           else
             and_then (parse_created_at created_at) (\<lambda>_.
             and_then (parse_references (yaml_get ms ''references'')) (\<lambda>references.
             if yaml_get ms ''result'' \<noteq> Y_Str RESULT_FILENAME then Inl Generated_Meta_Invalid
             else
               and_then (parse_meta_int (yaml_get ms ''seed'')) (\<lambda>seed.
               and_then (parse_meta_int (yaml_get ms ''steps'')) (\<lambda>steps.
               and_then (parse_meta_float Y (yaml_get ms ''true_cfg_scale'')) (\<lambda>cfg.
               and_then (parse_meta_int (yaml_get ms ''width'')) (\<lambda>width.
               and_then (parse_meta_int (yaml_get ms ''height'')) (\<lambda>height.
               and_then (parse_meta_float Y (yaml_get ms ''duration'')) (\<lambda>duration.
               Inr \<lparr>gm_prompt = prompt, gm_negative_prompt = negative_prompt, gm_seed = seed,
                    gm_steps = steps, gm_true_cfg_scale = cfg, gm_width = width, gm_height = height,
                    gm_duration = duration, gm_created_at = created_at, gm_references = references,
                    gm_result = RESULT_FILENAME\<rparr>)))))))))))
     | _ \<Rightarrow> Inl Generated_Meta_Invalid)"

section \<open>The service\<close>

definition write_run_file :: "file_service \<Rightarrow> uuid \<Rightarrow> string \<Rightarrow> string \<Rightarrow> bytes \<Rightarrow> unit action" where
  "write_run_file S u run_id filename payload =
     bind (upload_file S u run_id filename (whole_source payload) (int (length payload)) GENERATED) (\<lambda>_. ret ())"

definition remove_partial_run :: "file_service \<Rightarrow> uuid \<Rightarrow> string \<Rightarrow> unit action" where
  "remove_partial_run S u run_id =
     try_except (bind (delete_directory_recursive S u run_id) (\<lambda>_. ret ())) (\<lambda>_. ret ())"

definition ensure_run_quota :: "env \<Rightarrow> uuid \<Rightarrow> int \<Rightarrow> unit action" where
  "ensure_run_quota E u total_bytes =
     bind (get_by_user_id E u) (\<lambda>usage.
     let q = total_quota usage in
     if would_exceed q total_bytes then raise (Quota_Exceeded (Some (available_bytes q))) else ret ())"

fun try_run_ids :: "file_service \<Rightarrow> string \<Rightarrow> nat \<Rightarrow> string action" where
  "try_run_ids S stamp 0 = raise INVALID_RUN"
| "try_run_ids S stamp (Suc attempts) =
     bind (new_uuid (fs_env S)) (\<lambda>random.
     let run_id = stamp @ CHR ''-'' # take RUN_ID_SUFFIX_HEX_CHARS (hex_digits 32 (unat random)) in
     bind (path_exists S run_id) (\<lambda>found.
     if \<not> found then ret run_id else try_run_ids S stamp attempts))"

definition allocate_run_id :: "file_service \<Rightarrow> int \<Rightarrow> string action" where
  "allocate_run_id S created_at = try_run_ids S (format_stamp created_at) RUN_ID_ALLOCATION_ATTEMPTS"

text \<open>The body of the \<open>try\<close> block: the meta data, the references in their order, the result.\<close>

definition write_run ::
  "file_service \<Rightarrow> uuid \<Rightarrow> string \<Rightarrow> bytes \<Rightarrow> (string \<times> bytes) list \<Rightarrow> bytes \<Rightarrow> unit action" where
  "write_run S u run_id meta_bytes references result =
     bind (write_run_file S u run_id META_FILENAME meta_bytes) (\<lambda>_.
     bind (for_each (\<lambda>(name, payload). write_run_file S u run_id name payload) references) (\<lambda>_.
     write_run_file S u run_id RESULT_FILENAME result))"

text \<open>The clock of the service is \<open>datetime.now\<close>, cut to the second.\<close>

definition store_run :: "yaml_library \<Rightarrow> file_service \<Rightarrow> uuid \<Rightarrow> run_form \<Rightarrow> stored_run action" where
  "store_run Y S u f =
     bind (lift (parse_run Y f)) (\<lambda>(parsed, result).
     bind (utc_now (fs_env S)) (\<lambda>now.
     let created_at = now div SECOND; created_at_text = format_timestamp created_at;
         meta_bytes = render_meta Y (parsed\<lparr>gm_created_at := created_at_text\<rparr>);
         total_bytes = int (length meta_bytes + sum_list (map length (rf_references f)) + length result) in
     bind (ensure_run_quota (fs_env S) u total_bytes) (\<lambda>_.
     bind (allocate_run_id S created_at) (\<lambda>run_id.
     bind (create_directory S [] run_id) (\<lambda>_.
     bind (try_except
         (write_run S u run_id meta_bytes (zip (gm_references parsed) (rf_references f)) result)
         (\<lambda>e. bind (remove_partial_run S u run_id) (\<lambda>_. raise e))) (\<lambda>_.
     ret \<lparr>sr_id = run_id, sr_created_at = created_at_text\<rparr>))))))"

definition read_run_bytes :: "file_service \<Rightarrow> uuid \<Rightarrow> string \<Rightarrow> bytes option action" where
  "read_run_bytes S u path =
     try_except (bind (read_by_path S u path) (\<lambda>b. ret (Some b)))
       (\<lambda>e. if e = Storage_File_Not_Found then ret None else raise e)"

definition read_run_meta :: "yaml_library \<Rightarrow> file_service \<Rightarrow> uuid \<Rightarrow> string \<Rightarrow> generated_meta action" where
  "read_run_meta Y S u run_id =
     bind (read_run_bytes S u (run_id @ CHR ''/'' # META_FILENAME)) (\<lambda>raw. case raw of
       None \<Rightarrow> raise Generated_Meta_Invalid
     | Some b \<Rightarrow> lift (parse_run_meta Y b))"

definition try_read_run_meta :: "yaml_library \<Rightarrow> file_service \<Rightarrow> uuid \<Rightarrow> string \<Rightarrow> generated_meta option action" where
  "try_read_run_meta Y S u run_id =
     try_except (bind (read_run_meta Y S u run_id) (\<lambda>m. ret (Some m)))
       (\<lambda>e. if e = Generated_Meta_Invalid then ret None else raise e)"

definition listed_run :: "yaml_library \<Rightarrow> file_service \<Rightarrow> uuid \<Rightarrow> file_node \<Rightarrow> (int \<times> generated_item) list action" where
  "listed_run Y S u n =
     (if \<not> fn_is_dir n \<or> starts_with (fn_name n) ''.'' then ret []
      else if \<not> run_id_pattern (fn_name n) then ret []
      else
        bind (try_read_run_meta Y S u (fn_name n)) (\<lambda>meta. case meta of
          None \<Rightarrow> ret []
        | Some m \<Rightarrow>
            bind (lift (parse_created_at (gm_created_at m))) (\<lambda>created_at.
            ret [(created_at, \<lparr>gi_id = fn_name n, gi_created_at = gm_created_at m, gi_prompt = gm_prompt m\<rparr>)])))"

definition list_runs :: "yaml_library \<Rightarrow> file_service \<Rightarrow> uuid \<Rightarrow> generated_item list action" where
  "list_runs Y S u =
     bind (list_directory S u []) (\<lambda>nodes.
     bind (map_act (listed_run Y S u) nodes) (\<lambda>items.
     ret (map snd (sort_key (\<lambda>(created_at, _). - created_at) (concat items)))))"

text \<open>\<open>_ensure_known_run\<close> and the check of the directory that follows it.\<close>

definition ensure_run_exists :: "file_service \<Rightarrow> string \<Rightarrow> unit action" where
  "ensure_run_exists S run_id =
     (if \<not> run_id_pattern run_id then raise Storage_File_Not_Found
      else bind (path_exists S run_id) (\<lambda>found. if found then ret () else raise Storage_File_Not_Found))"

definition get_run :: "yaml_library \<Rightarrow> file_service \<Rightarrow> uuid \<Rightarrow> string \<Rightarrow> generated_meta action" where
  "get_run Y S u run_id = bind (ensure_run_exists S run_id) (\<lambda>_. read_run_meta Y S u run_id)"

definition listed_file_names :: "yaml_library \<Rightarrow> file_service \<Rightarrow> uuid \<Rightarrow> string \<Rightarrow> string list action" where
  "listed_file_names Y S u run_id =
     bind (try_read_run_meta Y S u run_id) (\<lambda>meta. case meta of
       None \<Rightarrow> ret []
     | Some m \<Rightarrow> ret (gm_result m # gm_references m))"

definition prepare_file :: "yaml_library \<Rightarrow> file_service \<Rightarrow> uuid \<Rightarrow> string \<Rightarrow> string \<Rightarrow> string action" where
  "prepare_file Y S u run_id name =
     bind (ensure_run_exists S run_id) (\<lambda>_.
     bind (listed_file_names Y S u run_id) (\<lambda>allowed.
     if name \<notin> set allowed then raise Storage_File_Not_Found
     else
       let relative_path = run_id @ CHR ''/'' # name in
       bind (readable_object_exists S u relative_path) (\<lambda>readable.
       if readable then ret relative_path else raise Storage_File_Not_Found)))"

definition delete_run :: "file_service \<Rightarrow> uuid \<Rightarrow> string \<Rightarrow> unit action" where
  "delete_run S u run_id =
     (if \<not> run_id_pattern run_id then raise Storage_File_Not_Found
      else bind (delete_directory_recursive S u run_id) (\<lambda>_. ret ()))"

section \<open>Endpoints\<close>

definition run_file_url :: "string \<Rightarrow> string \<Rightarrow> string" where
  "run_file_url run_id name = ''/api/generated/'' @ run_id @ ''/files/'' @ name"

text \<open>An upload with neither a name nor a body is no upload.\<close>

definition read_uploads :: "uploaded_file list \<Rightarrow> bytes list" where
  "read_uploads given =
     map uf_body (filter (\<lambda>f. non_empty (uf_filename f) \<noteq> None \<or> uf_body f \<noteq> []) given)"

definition read_upload :: "uploaded_file option \<Rightarrow> bytes option" where
  "read_upload upload = (case upload of
       None \<Rightarrow> None
     | Some f \<Rightarrow> if non_empty (uf_filename f) = None \<and> uf_body f = [] then None else Some (uf_body f))"

definition store_generated_run ::
  "yaml_library \<Rightarrow> file_service \<Rightarrow> user \<Rightarrow> run_form \<Rightarrow> uploaded_file list \<Rightarrow> uploaded_file option \<Rightarrow>
    stored_run action" where
  "store_generated_run Y S u form images result =
     in_session (store_run Y S (us_id u)
       (form\<lparr>rf_references := read_uploads images, rf_result := read_upload result\<rparr>))"

definition list_generated_runs :: "yaml_library \<Rightarrow> file_service \<Rightarrow> user \<Rightarrow> generated_item list action" where
  "list_generated_runs Y S u = in_session (list_runs Y S (us_id u))"

definition delete_generated_run :: "file_service \<Rightarrow> user \<Rightarrow> string \<Rightarrow> unit action" where
  "delete_generated_run S u run_id = in_session (delete_run S (us_id u) run_id)"

text \<open>The same data with addresses in the place of names.\<close>

definition run_response :: "string \<Rightarrow> generated_meta \<Rightarrow> generated_meta" where
  "run_response run_id m = m\<lparr>gm_references := map (run_file_url run_id) (gm_references m),
     gm_result := run_file_url run_id (gm_result m)\<rparr>"

definition get_generated_run :: "yaml_library \<Rightarrow> file_service \<Rightarrow> user \<Rightarrow> string \<Rightarrow> generated_meta action" where
  "get_generated_run Y S u run_id =
     bind (in_session (get_run Y S (us_id u) run_id)) (\<lambda>m.
     ret (run_response run_id m))"

text \<open>The commit follows the last chunk; a failure before or during the stream rolls back.\<close>

definition get_generated_file :: "yaml_library \<Rightarrow> file_service \<Rightarrow> user \<Rightarrow> string \<Rightarrow> string \<Rightarrow> file_response action" where
  "get_generated_file Y S u run_id name =
     in_session
       (bind (prepare_file Y S (us_id u) run_id name) (\<lambda>relative_path.
        bind (read_by_path S (us_id u) relative_path) (\<lambda>b.
        ret \<lparr>fp_media_type = ''image/png'',
             fp_disposition = ''inline; filename='' @ [CHR 0x22] @ name @ [CHR 0x22], fp_body = b\<rparr>)))"

datatype generated_request =
    Generated_Store run_form "uploaded_file list" "uploaded_file option"
  | Generated_List
  | Generated_Get string
  | Generated_File string string
  | Generated_Delete string

fun handle_generated :: "yaml_library \<Rightarrow> generated_request \<Rightarrow> file_service \<Rightarrow> user \<Rightarrow> unit action" where
  "handle_generated Y (Generated_Store form images result) S u =
     bind (store_generated_run Y S u form images result) (\<lambda>_. ret ())"
| "handle_generated Y Generated_List S u = bind (list_generated_runs Y S u) (\<lambda>_. ret ())"
| "handle_generated Y (Generated_Get run_id) S u = bind (get_generated_run Y S u run_id) (\<lambda>_. ret ())"
| "handle_generated Y (Generated_File run_id name) S u =
     bind (get_generated_file Y S u run_id name) (\<lambda>_. ret ())"
| "handle_generated Y (Generated_Delete run_id) S u = delete_generated_run S u run_id"

definition serve_generated :: "env \<Rightarrow> yaml_library \<Rightarrow> headers \<Rightarrow> generated_request \<Rightarrow> error_response option action" where
  "serve_generated E Y H req =
     try_except
       (bind (get_current_user E H) (\<lambda>u.
        bind (get_generated_file_service E u) (\<lambda>S.
        bind (handle_generated Y req S u) (\<lambda>_. ret None))))
       (\<lambda>e. ret (Some (error_response_of e)))"

end
