(* ===== verification/PhotoService.thy ===== *)
theory PhotoService
  imports FileApi
begin

text \<open>
  \<open>application/photo_service.py\<close> with \<open>dependencies/photos.py\<close> and \<open>routers/photo_router.py\<close>: originals
  and previews of a user's photos. A preview is produced by a background task, which \<open>upload_photo\<close>
  schedules and which swallows every failure; scaling the image itself (Pillow) is a parameter.
\<close>

section \<open>PhotoService\<close>

definition ORIGINALS_DIR :: string where "ORIGINALS_DIR = ''originals''"
definition PREVIEWS_DIR :: string where "PREVIEWS_DIR = ''previews''"

definition SUPPORTED_EXTENSIONS :: "string set" where
  "SUPPORTED_EXTENSIONS = {''.jpg'', ''.jpeg'', ''.png'', ''.webp'', ''.gif'', ''.heic'', ''.heif''}"

record photo_service =
  po_env :: env
  po_adapter :: storage
  po_archive_manager :: bool
  po_index :: "link_port option"

record photo_item =
  pi_id :: uuid
  pi_preview_url :: string
  pi_original_url :: string
  pi_created_at :: instant
  pi_size :: int

record photos_page =
  pg_items :: "photo_item list"
  pg_total :: int
  pg_has_next :: bool

definition to_photo_item :: "file_record \<Rightarrow> photo_item" where
  "to_photo_item r = \<lparr>pi_id = fr_id r,
     pi_preview_url = ''/api/photos/'' @ uuid_str (fr_id r) @ ''/preview'',
     pi_original_url = ''/api/photos/'' @ uuid_str (fr_id r) @ ''/original'',
     pi_created_at = fr_created_at r, pi_size = fr_size_bytes r\<rparr>"

definition original_path :: "uuid \<Rightarrow> string \<Rightarrow> string" where
  "original_path f ext = ORIGINALS_DIR @ CHR ''/'' # uuid_str f @
     (if ext \<noteq> [] then ext else ''.jpg'')"

definition preview_path :: "uuid \<Rightarrow> string" where
  "preview_path f = PREVIEWS_DIR @ CHR ''/'' # uuid_str f @ ''_thumb.jpg''"

definition validate_photo_filename :: "string \<Rightarrow> exn + unit" where
  "validate_photo_filename filename =
     (if lower (path_suffix filename) \<notin> SUPPORTED_EXTENSIONS then Inl Unsupported_Format else Inr ())"

definition photo_section_path :: "photo_service \<Rightarrow> file_record \<Rightarrow> string" where
  "photo_section_path S r =
     (let prefix = st_root_prefix (po_adapter S) @ ''/'' in
      if starts_with (fr_relative_path r) prefix then drop (length prefix) (fr_relative_path r)
      else path_name (fr_relative_path r))"

text \<open>The task: \<open>asyncio.create_task\<close> puts it in \<open>background\<close>, \<open>generate_preview\<close> is its body.\<close>

definition schedule_preview :: "photo_service \<Rightarrow> string \<Rightarrow> string \<Rightarrow> unit action" where
  "schedule_preview S source_path target_path =
     modify (\<lambda>w. w\<lparr>background := background w @ [(st_root_prefix (po_adapter S), source_path, target_path)]\<rparr>)"

definition generate_preview :: "photo_service \<Rightarrow> string \<Rightarrow> string \<Rightarrow> unit action" where
  "generate_preview S source_path target_path =
     (let A = po_adapter S in
      try_except
        (bind (st_mkdir A PREVIEWS_DIR) (\<lambda>_.
         bind (st_read A source_path) (\<lambda>source_bytes.
         case thumbnail (po_env S) source_bytes of
           None \<Rightarrow> raise Value_Error
         | Some preview \<Rightarrow>
             bind (st_write A target_path (whole_source preview) (int (length preview))) (\<lambda>_. ret ()))))
        (\<lambda>_. ret ()))"

text \<open>The \<open>try\<close> block of \<open>upload_photo\<close> and its handler.\<close>

definition store_photo ::
  "photo_service \<Rightarrow> uuid \<Rightarrow> file_record \<Rightarrow> string \<Rightarrow> string \<Rightarrow> source \<Rightarrow> int \<Rightarrow> file_record action" where
  "store_photo S u r section_path disk_path data n =
     bind (st_write (po_adapter S) section_path data n) (\<lambda>checksum.
     bind (update_status (fr_id r) S_COMMITTED (Some checksum) (Some disk_path) None) (\<lambda>committed_row.
     case committed_row of
       None \<Rightarrow> raise Storage_File_Not_Found
     | Some c \<Rightarrow>
         bind (increment (po_env S) u n PHOTOS) (\<lambda>_.
         bind (schedule_preview S section_path (preview_path (fr_id r))) (\<lambda>_.
         bind (enqueue_upload (po_env S) (po_index S) c) (\<lambda>_. ret c)))))"

definition upload_photo :: "photo_service \<Rightarrow> uuid \<Rightarrow> string \<Rightarrow> source \<Rightarrow> int \<Rightarrow> file_record action" where
  "upload_photo S u filename data n =
     bind (lift (validate_photo_filename filename)) (\<lambda>_.
     let A = po_adapter S; E = po_env S; ext = lower (path_suffix filename) in
     bind (create_file E u (st_disk_id A) [] filename n (mime_type_of E filename) False PHOTOS S_PENDING) (\<lambda>r.
     let section_path = original_path (fr_id r) ext in
     bind (lift (to_disk_relative_path A section_path)) (\<lambda>disk_path.
     try_except (store_photo S u r section_path disk_path data n)
       (\<lambda>e. bind (st_exists A section_path) (\<lambda>found.
            bind (if found then st_delete A section_path else ret ()) (\<lambda>_.
            bind (delete_record (fr_id r)) (\<lambda>_. raise e)))))))"

definition list_photos :: "uuid \<Rightarrow> int \<Rightarrow> int \<Rightarrow> photos_page action" where
  "list_photos u page limit =
     (let page1 = (if page < 1 then 1 else page); limit1 = (if limit < 1 then 1 else limit);
          offset = (page1 - 1) * limit1 in
      bind (count_by_user_section u PHOTOS) (\<lambda>total_count.
      bind (list_by_user_section_paginated u PHOTOS (nat offset) (nat limit1)) (\<lambda>records.
      ret \<lparr>pg_items = map to_photo_item records, pg_total = total_count,
           pg_has_next = offset + int (length records) < total_count\<rparr>)))"

definition downloadable_photo :: "uuid \<Rightarrow> uuid \<Rightarrow> file_record action" where
  "downloadable_photo u f =
     bind (get_by_id f) (\<lambda>found. case found of
       None \<Rightarrow> raise Storage_File_Not_Found
     | Some r \<Rightarrow>
         if fr_status r \<notin> {S_COMMITTED, S_ARCHIVED} then raise Storage_File_Not_Found
         else if fr_user_id r \<noteq> u then raise Access_Denied
         else if fr_section r \<noteq> PHOTOS then raise Storage_File_Not_Found
         else ret r)"

definition stream_archived_photo :: "photo_service \<Rightarrow> file_record \<Rightarrow> bytes action" where
  "stream_archived_photo S r =
     (if \<not> po_archive_manager S then raise Storage_File_Not_Found
      else stream_decompressed_archived (po_env S) r None)"

definition get_preview :: "photo_service \<Rightarrow> uuid \<Rightarrow> uuid \<Rightarrow> (bytes \<times> string) action" where
  "get_preview S u f =
     bind (downloadable_photo u f) (\<lambda>r.
     bind (st_exists (po_adapter S) (preview_path f)) (\<lambda>found.
     if found then bind (st_read (po_adapter S) (preview_path f)) (\<lambda>b. ret (b, ''image/jpeg''))
     else if fr_is_archived r then bind (stream_archived_photo S r) (\<lambda>b. ret (b, fr_mime_type r))
     else bind (st_read (po_adapter S) (photo_section_path S r)) (\<lambda>b. ret (b, fr_mime_type r))))"

definition get_original :: "photo_service \<Rightarrow> uuid \<Rightarrow> uuid \<Rightarrow> bytes action" where
  "get_original S u f =
     bind (downloadable_photo u f) (\<lambda>r.
     bind (if fr_is_archived r then stream_archived_photo S r
           else st_read (po_adapter S) (photo_section_path S r)) (\<lambda>b.
     bind (touch_last_accessed (po_env S) f) (\<lambda>_. ret b)))"

definition stream_original :: "photo_service \<Rightarrow> uuid \<Rightarrow> uuid \<Rightarrow> (string \<times> string \<times> bytes) action" where
  "stream_original S u f =
     bind (downloadable_photo u f) (\<lambda>r.
     bind (get_original S u f) (\<lambda>b. ret (fr_mime_type r, fr_original_name r, b)))"

definition delete_photo :: "photo_service \<Rightarrow> uuid \<Rightarrow> uuid \<Rightarrow> unit action" where
  "delete_photo S u f =
     (let A = po_adapter S in
      bind (downloadable_photo u f) (\<lambda>r.
      bind (if fr_is_archived r then delete_archived_blob (po_env S) r
            else bind (st_exists A (photo_section_path S r)) (\<lambda>found.
              if found then st_delete A (photo_section_path S r) else ret ())) (\<lambda>_.
      bind (st_exists A (preview_path f)) (\<lambda>found.
      bind (if found then st_delete A (preview_path f) else ret ()) (\<lambda>_.
      bind (delete_record f) (\<lambda>_.
      bind (decrement (po_env S) u (fr_size_bytes r) PHOTOS) (\<lambda>_.
      enqueue_removed (po_env S) (po_index S) [f])))))))"

section \<open>Endpoints\<close>

definition get_photo_service :: "env \<Rightarrow> user \<Rightarrow> photo_service action" where
  "get_photo_service E u =
     bind (as_http [DISK_UNAVAILABLE_503]
       (bind (resolve_disk_id E (us_id u) [PHOTOS, FILES]) (\<lambda>disk_id.
        build_section_adapter E disk_id (user_photos_root_prefix (us_id u)) [ORIGINALS_DIR, PREVIEWS_DIR]))) (\<lambda>A.
     ret \<lparr>po_env = E, po_adapter = A, po_archive_manager = True, po_index = Some (sql_links E)\<rparr>)"

definition photo_errors :: "'a action \<Rightarrow> 'a action" where
  "photo_errors m = as_http [(Unsupported_Format, Http_Exception 400 ''UNSUPPORTED_FORMAT'' None)] m"

text \<open>The response model demands a size that is not negative.\<close>

definition photo_item_response :: "photo_item \<Rightarrow> exn + photo_item" where
  "photo_item_response i = (if pi_size i < 0 then Inl Other_Error else Inr i)"

definition photo_list_response :: "photos_page \<Rightarrow> photos_page action" where
  "photo_list_response page =
     bind (map_act (\<lambda>i. lift (photo_item_response i)) (pg_items page)) (\<lambda>items.
     ret (page\<lparr>pg_items := items\<rparr>))"

definition list_photos_endpoint :: "env \<Rightarrow> user \<Rightarrow> int \<Rightarrow> int option \<Rightarrow> photos_page action" where
  "list_photos_endpoint E u page limit =
     (if page < 1 \<or> (case limit of Some n \<Rightarrow> n < 1 | None \<Rightarrow> False) then raise (Http_Exception 422 [] None)
      else
        let page_limit = (case limit of Some n \<Rightarrow> n | None \<Rightarrow> photo_batch_size E) in
        bind (photo_errors (list_photos (us_id u) page page_limit)) photo_list_response)"

definition photo_committed :: "env \<Rightarrow> 'a action \<Rightarrow> 'a action" where
  "photo_committed E m =
     bind (capture_immediate_index_ids (photo_errors (in_session m))) (\<lambda>(x, queued_ids).
     bind (deliver_immediate_index_notifications E queued_ids) (\<lambda>_. ret x))"

definition upload_photo_endpoint :: "env \<Rightarrow> photo_service \<Rightarrow> user \<Rightarrow> uploaded_file \<Rightarrow> photo_item action" where
  "upload_photo_endpoint E S u f =
     bind (lift (validated_filename (uf_filename f))) (\<lambda>filename.
     bind (photo_committed E
       (bind (ensure_upload_quota E (us_id u) (file_size_of f)) (\<lambda>_.
        upload_photo S (us_id u) filename (iter_upload_chunks f) (file_size_of f)))) (\<lambda>r.
     lift (photo_item_response (to_photo_item r))))"

definition photo_preview_endpoint :: "photo_service \<Rightarrow> user \<Rightarrow> uuid \<Rightarrow> (bytes \<times> string) action" where
  "photo_preview_endpoint S u f = photo_errors (get_preview S (us_id u) f)"

definition photo_original_endpoint :: "photo_service \<Rightarrow> user \<Rightarrow> uuid \<Rightarrow> file_response action" where
  "photo_original_endpoint S u f =
     bind (photo_errors (stream_original S (us_id u) f)) (\<lambda>(mime_type, filename, b).
     ret \<lparr>fp_media_type = mime_type, fp_disposition = build_attachment_content_disposition filename, fp_body = b\<rparr>)"

definition delete_photo_endpoint :: "env \<Rightarrow> photo_service \<Rightarrow> user \<Rightarrow> uuid \<Rightarrow> unit action" where
  "delete_photo_endpoint E S u f = photo_committed E (delete_photo S (us_id u) f)"

datatype photo_request =
    F_List int "int option"
  | F_Upload uploaded_file
  | F_Preview uuid
  | F_Original uuid
  | F_Delete uuid

fun handle_photo :: "env \<Rightarrow> photo_request \<Rightarrow> photo_service \<Rightarrow> user \<Rightarrow> unit action" where
  "handle_photo E (F_List page limit) S u =
     without_commit (bind (list_photos_endpoint E u page limit) (\<lambda>_. ret ()))"
| "handle_photo E (F_Upload f) S u = bind (upload_photo_endpoint E S u f) (\<lambda>_. ret ())"
| "handle_photo E (F_Preview f) S u = without_commit (bind (photo_preview_endpoint S u f) (\<lambda>_. ret ()))"
| "handle_photo E (F_Original f) S u = without_commit (bind (photo_original_endpoint S u f) (\<lambda>_. ret ()))"
| "handle_photo E (F_Delete f) S u = delete_photo_endpoint E S u f"

definition serve_photo :: "env \<Rightarrow> headers \<Rightarrow> photo_request \<Rightarrow> error_response option action" where
  "serve_photo E H req =
     try_except
       (bind (get_current_user E H) (\<lambda>u. bind (get_photo_service E u) (\<lambda>S.
        bind (handle_photo E req S u) (\<lambda>_. ret None))))
       (\<lambda>e. ret (Some (error_response_of e)))"

end
