(* ===== verification/SectionBooks.thy ===== *)
theory SectionBooks
  imports ApiBooks KeysRegistry ResumeService GeneratedService PhotoService
begin

text \<open>
  The books of the remaining sections: photos, the private vault with the registry of keys, resumes and
  generated images. Their services are built on a file service, or on an adapter as the photos are, and
  keep the contract of the file services; a request in one of them touches no row of another user.
\<close>

section \<open>Sessions that keep the books\<close>

text \<open>
  \<open>booked A w m\<close>: begun with balanced books, a session that runs \<open>m\<close> to its end leaves them so; an action
  of which \<open>keeps (desk A w (\<lambda>_. 0))\<close> holds does so when it fails, too.
\<close>

definition booked :: "uuid set \<Rightarrow> world \<Rightarrow> 'a action \<Rightarrow> bool" where
  "booked A w m \<longleftrightarrow> triple (desk A w (\<lambda>_. 0)) m (\<lambda>_. desk A w (\<lambda>_. 0)) (\<lambda>_ _. True)"

named_theorems booked_rules

lemma booked_session: "(\<And>w. booked A w m) \<Longrightarrow> sound A (in_session m)"
  unfolding booked_def by (rule sound_in_session)

lemma keeps_booked: "keeps (desk A w (\<lambda>_. 0)) m \<Longrightarrow> booked A w m"
  unfolding booked_def by (rule triple_weaken [OF triple_keeps]) auto

lemma quiet_desk: "quiet m \<Longrightarrow> keeps (desk A w d) m"
  by (rule triple_imp_keeps) (rule triple_quiet [OF _ steady_desk])

lemma booked_atoms [booked_rules]: "booked A w (ret x)" "booked A w (raise e)" "booked A w (lift r)"
  "booked A w (new_uuid E)" "booked A w (utc_now E)"
  by (auto intro!: keeps_booked quiet_desk)

lemma booked_bind [booked_rules]: "booked A w m \<Longrightarrow> (\<And>x. booked A w (f x)) \<Longrightarrow> booked A w (bind m f)"
  unfolding booked_def by (rule triple_bind)

lemma booked_if [booked_rules]: "booked A w m \<Longrightarrow> booked A w n \<Longrightarrow> booked A w (if b then m else n)"
  by simp

lemma booked_option [booked_rules]:
  "booked A w m \<Longrightarrow> (\<And>x. booked A w (f x)) \<Longrightarrow> booked A w (case y of None \<Rightarrow> m | Some x \<Rightarrow> f x)"
  by (simp split: option.split)

lemma booked_prod [booked_rules]: "(\<And>x y. booked A w (f x y)) \<Longrightarrow> booked A w (case z of (x, y) \<Rightarrow> f x y)"
  by (simp split: prod.split)

lemma booked_let [booked_rules]: "booked A w (f x) \<Longrightarrow> booked A w (let y = x in f y)"
  by simp

lemma booked_map_act [booked_rules]: "(\<And>x. booked A w (f x)) \<Longrightarrow> booked A w (map_act f xs)"
  by (induction xs) (auto intro!: booked_rules)

lemma booked_for_each [booked_rules]: "(\<And>x. booked A w (f x)) \<Longrightarrow> booked A w (for_each f xs)"
  by (induction xs) (auto intro!: booked_rules)

lemma booked_reraise [booked_rules]: "booked A w m \<Longrightarrow> booked A w (try_except m (\<lambda>e. bind (c e) (\<lambda>_. raise e)))"
  unfolding booked_def by (erule triple_try) (rule triple_reraise)

lemma booked_try: "keeps (desk A w (\<lambda>_. 0)) m \<Longrightarrow> (\<And>e. booked A w (h e)) \<Longrightarrow> booked A w (try_except m h)"
  unfolding booked_def by (rule triple_try [OF triple_keeps])

section \<open>What the sections use of a file service\<close>

context file_desk begin

lemma quiet_map_act: "(\<And>x. quiet (f x)) \<Longrightarrow> quiet (map_act f xs)"
  by (induction xs) (auto intro!: quiet_rules)

lemma quiet_list_directory: "quiet (list_directory S u p)"
proof -
  have select: "quiet (all_files P)" "quiet (get_uploaders_by_relative_paths_in_section ps sec)" for P ps sec
    by (auto simp: all_files_def get_uploaders_by_relative_paths_in_section_def intro!: quiet_rules)
  have nodes: "quiet (merge_archived_nodes S u n found)" "quiet (enrich_node S n up node)" for n found up node
    unfolding merge_archived_nodes_def list_archived_direct_children_def enrich_node_def
    by (intro quiet_service select quiet_rowless_atoms)+
  show ?thesis
    unfolding list_directory_def by (intro quiet_service nodes select quiet_map_act)
qed

lemma quiet_reads: "quiet (path_exists S p)" "quiet (create_directory S p q)"
  by (simp_all add: path_exists_def create_directory_def quiet_storage)

lemma read_keeps: "keeps (desk A w0 d) (read_by_path S u p)"
  by (rule triple_imp_keeps) (rule read_by_path_desk)

lemma readable_keeps: "keeps (desk A w0 d) (readable_object_exists S u p)"
proof (rule triple_imp_keeps)
  have look: "triple (found_record res d (fs_section S))
     (if \<exists>r. res = Some r \<and> fr_is_archived r \<and> non_empty (fr_archive_path r) \<noteq> None then ret True
      else st_exists (fs_adapter S) (normalize_path p)) (\<lambda>_. desk A w0 d) (\<lambda>_. desk A w0 d)" for res
    by (intro triple_if triple_ret triple_pre [OF triple_quiet [OF quiet_storage(7) steady_desk]])
      (auto simp: found_record_def)
  show "triple (desk A w0 d) (readable_object_exists S u p) (\<lambda>_. desk A w0 d) (\<lambda>_. desk A w0 d)"
    unfolding readable_object_exists_def Let_def
    by (rule triple_bind [OF get_record_desk [OF shared] look])
qed

lemmas firm = keep_rules quiet_desk [OF quiet_reads(1)] quiet_desk [OF quiet_reads(2)]
  quiet_desk [OF quiet_list_directory] quiet_desk [OF quiet_is_directory] read_keeps readable_keeps keeps_lift

lemmas atoms = booked_rules keeps_booked [OF read_keeps] keeps_booked [OF readable_keeps]
  keeps_booked [OF quiet_desk [OF quiet_reads(1)]] keeps_booked [OF quiet_desk [OF quiet_reads(2)]]
  keeps_booked [OF quiet_desk [OF quiet_list_directory]]

lemma booked_operations:
  "booked A w0 (upload_file S u path filename data n sec)"
  "sec \<noteq> SHARED \<Longrightarrow> booked A w0 (overwrite_file S u path filename data n sec)"
  "booked A w0 (rename_by_path S u path filename)"
  "booked A w0 (delete_directory_recursive S u path)"
  "booked A w0 (delete_by_path S u path who)"
  unfolding booked_def
  by (rule upload_file_desk overwrite_file_desk rename_by_path_desk delete_directory_desk delete_by_path_desk;
      assumption?)+

section \<open>Keys\<close>

lemma booked_keys: "booked A w0 (list_keys Y S u)" "booked A w0 (save_keys Y S u ks)"
proof -
  have parts: "booked A w0 (ensure_keys_folder S)" "booked A w0 (read_keys_file S u)" "booked A w0 (write_mapping Y S u es)" for es
    unfolding ensure_keys_folder_def read_keys_file_def write_mapping_def Let_def
    by (intro atoms booked_try firm booked_operations; simp)+
  show "booked A w0 (list_keys Y S u)" "booked A w0 (save_keys Y S u ks)"
    unfolding list_keys_def save_keys_def by (intro atoms parts)+
qed

section \<open>Resumes\<close>

lemma keeps_when_missing: "keeps I m \<Longrightarrow> keeps I (when_missing d m)"
  unfolding when_missing_def by (intro keep_rules)

lemma resume_reads:
  "keeps (desk A w0 d) (list_child_dirs S u p)" "keeps (desk A w0 d) (node_modified_at S u p)"
  "keeps (desk A w0 d) (count_children S u p level)" "keeps (desk A w0 d) (ensure_unique_sibling S u p n)"
  "keeps (desk A w0 d) (read_resume_file S u p)" "keeps (desk A w0 d) (read_meta Y S u p)"
  "keeps (desk A w0 d) (try_read_meta Y S u p)" "keeps (desk A w0 d) (ensure_root S)"
  "keeps (desk A w0 d) (ensure_node_exists S p required)"
  unfolding list_child_dirs_def node_modified_at_def count_children_def ensure_unique_sibling_def
    try_read_meta_def read_meta_def read_resume_file_def ensure_root_def ensure_node_exists_def
  by (intro firm keeps_when_missing quiet_desk [OF quiet_rowless_atoms(5)])+

lemma build_node_keeps: "keeps (desk A w0 d) (build_node Y S u p level t)"
  unfolding build_node_def by (intro firm resume_reads)

lemmas resume_atoms = atoms resume_reads [THEN keeps_booked] build_node_keeps [THEN keeps_booked]

lemma booked_yaml: "booked A w0 (write_meta Y S u p url st fs)" "booked A w0 (write_statuses Y S u ss)"
  unfolding write_meta_def write_statuses_def write_yaml_def by (intro atoms booked_operations; simp)+

lemma booked_statuses: "booked A w0 (list_statuses Y S u)" "booked A w0 (validate_statuses_from E seen ids ss)"
  "booked A w0 (resolve_status_id Y S u st)"
proof -
  show l: "booked A w0 (list_statuses Y S u)"
    unfolding list_statuses_def uuid_hex_def by (intro resume_atoms booked_yaml)
  show "booked A w0 (validate_statuses_from E seen ids ss)"
    by (induction ss arbitrary: seen ids) (auto simp: uuid_hex_def intro!: booked_rules)
  show "booked A w0 (resolve_status_id Y S u st)"
    unfolding resolve_status_id_def by (intro resume_atoms l)
qed

lemma booked_resumes:
  "booked A w0 (list_nodes Y S u p)" "booked A w0 (create_node Y S u p n st)" "booked A w0 (rename_node Y S u p n)"
  "booked A w0 (delete_node S u p)" "booked A w0 (get_vacancy Y S u p)"
  "booked A w0 (save_vacancy Y S u p url st fs)" "booked A w0 (list_all_vacancies Y S u)"
  "booked A w0 (save_statuses Y S u ss)"
  unfolding list_nodes_def create_node_def rename_node_def delete_node_def get_vacancy_def save_vacancy_def
    list_all_vacancies_def save_statuses_def validate_statuses_def
  by (intro resume_atoms booked_yaml booked_statuses booked_operations)+

section \<open>Generated images\<close>

lemma run_reads:
  "keeps (desk A w0 d) (read_run_meta Y S u i)" "keeps (desk A w0 d) (try_read_run_meta Y S u i)"
  "keeps (desk A w0 d) (ensure_run_exists S i)"
  unfolding try_read_run_meta_def read_run_meta_def read_run_bytes_def ensure_run_exists_def by (intro firm)+

lemma booked_quota: "booked A w0 (ensure_run_quota E u n)"
  unfolding ensure_run_quota_def Let_def booked_def
proof (rule triple_bind)
  show "triple (desk A w0 (\<lambda>_. 0)) (get_by_user_id E u) (\<lambda>_. desk A w0 (\<lambda>_. 0)) (\<lambda>_ _. True)"
    by (rule triple_weaken [OF get_by_user_id_desk [OF actor, where F = "\<lambda>_. True"]]) (auto simp: steady_def)
qed (auto intro: triple_if triple_ret triple_raise)

lemma booked_ids: "booked A w0 (try_run_ids S stamp k)"
proof (induction k)
  case (Suc k)
  then show ?case unfolding try_run_ids.simps Let_def by (intro atoms)
qed (simp only: try_run_ids.simps booked_atoms)

lemma booked_generated:
  "booked A w0 (store_run Y S u f)" "booked A w0 (list_runs Y S u)" "booked A w0 (get_run Y S u i)"
  "booked A w0 (prepare_file Y S u i n)" "booked A w0 (delete_run S u i)"
  unfolding store_run_def write_run_def write_run_file_def allocate_run_id_def list_runs_def listed_run_def
    get_run_def prepare_file_def listed_file_names_def delete_run_def
  by (intro atoms run_reads [THEN keeps_booked] booked_quota booked_ids booked_operations)+

end

section \<open>Photos\<close>

text \<open>What the photo service needs: an adapter that leaves the rows alone, the index, and the user it acts for.\<close>

locale photo_desk = storage_port "po_adapter S" for S :: photo_service +
  fixes A :: "uuid set" and w0 :: world and u :: uuid
  assumes index: "sql_index (po_env S) (po_index S)" and actor: "u \<in> A"
begin

lemmas quiet_storage = storage_rowless [THEN rowless_quiet]

lemma quiet_schedule: "quiet (schedule_preview S p q)"
  by (simp add: quiet_def keeps_def schedule_preview_def same_files_def)

lemma quiet_blob: "quiet (delete_archived_blob E r)"
  unfolding delete_archived_blob_def Let_def build_disk_root_adapter_def create_storage_adapter_def
  by (intro quiet_rules rowless_quiet s3.storage_rowless)

lemmas steadies = steady_conj steady_desk steady_holds

lemma store_photo_desk:
  assumes "fr_user_id r = u" "fr_size_bytes r = n" "fr_status r = S_PENDING"
  shows "triple (\<lambda>w. desk A w0 d w \<and> holds r w) (store_photo S u r p q data n) (\<lambda>_. desk A w0 d) (\<lambda>_ _. True)"
  unfolding store_photo_def
  by (intro quiet_storage [THEN quiet_seq] quiet_schedule [THEN quiet_seq] enqueue_quiet [OF index, THEN quiet_seq]
      steadies commit_desk assms actor triple_ret TrueI)

lemma upload_photo_desk: "triple (desk A w0 d) (upload_photo S u name data n) (\<lambda>_. desk A w0 d) (\<lambda>_ _. True)"
  unfolding upload_photo_def Let_def
  by (intro quiet_rowless_atoms(3) [THEN quiet_seq] steadies triple_seq [OF triple_create_pending [OF actor]] triple_fact
      triple_try [OF store_photo_desk] triple_bind [OF triple_true] triple_raise) auto

lemma downloadable_desk:
  "triple (desk A w0 d) (downloadable_photo u f)
    (\<lambda>r w. (fr_id r = f \<and> fr_user_id r = u \<and> is_active r) \<and> desk A w0 d w \<and> holds r w) (\<lambda>_. desk A w0 d)"
proof (rule tripleI)
  fix w r w'
  assume desk: "desk A w0 d w" and exec: "downloadable_photo u f w = (Inr r, w')"
  then have b: "\<not> broken w" and w': "w' = w" and g: "get_file f w = Some r"
    and r: "fr_status r \<in> {S_COMMITTED, S_ARCHIVED}" "fr_user_id r = u"
    by (auto simp: downloadable_photo_def get_by_id_def bind_Inr query_def split: if_splits option.splits)
  then have "r \<in> set (files w)" "fr_id r = f" by (auto simp: get_file_def find_Some_iff)
  with desk_holds [OF desk b] r desk
  show "(fr_id r = f \<and> fr_user_id r = u \<and> is_active r) \<and> desk A w0 d w' \<and> holds r w'"
    by (auto simp: w' is_active_def)
next
  fix w e w'
  assume "desk A w0 d w" and "downloadable_photo u f w = (Inl e, w')"
  then show "desk A w0 d w'"
    by (auto simp: downloadable_photo_def get_by_id_def bind_Inl query_def split: if_splits option.splits)
qed

lemma delete_photo_desk: "triple (desk A w0 d) (delete_photo S u f) (\<lambda>_. desk A w0 d) (\<lambda>_ _. True)"
  unfolding delete_photo_def Let_def
proof (intro triple_seq [OF downloadable_desk] triple_fact)
  fix r assume r: "fr_id r = f \<and> fr_user_id r = u \<and> is_active r"
  then have A: "fr_user_id r \<in> A" "is_active r" and eq: "f = fr_id r" "u = fr_user_id r" using actor by auto
  have objects: "quiet (if fr_is_archived r then delete_archived_blob (po_env S) r
      else bind (st_exists (po_adapter S) p) (\<lambda>found. if found then st_delete (po_adapter S) p else ret ()))"
    "quiet (if b then st_delete (po_adapter S) p else ret ())" for p b
    by (intro quiet_rules quiet_blob quiet_storage)+
  show "triple (\<lambda>w. desk A w0 d w \<and> holds r w)
     (bind (if fr_is_archived r then delete_archived_blob (po_env S) r
            else bind (st_exists (po_adapter S) (photo_section_path S r)) (\<lambda>found.
              if found then st_delete (po_adapter S) (photo_section_path S r) else ret ())) (\<lambda>_.
      bind (st_exists (po_adapter S) (preview_path f)) (\<lambda>found.
      bind (if found then st_delete (po_adapter S) (preview_path f) else ret ()) (\<lambda>_.
      bind (delete_record f) (\<lambda>_.
      bind (decrement (po_env S) u (fr_size_bytes r) PHOTOS) (\<lambda>_.
      enqueue_removed (po_env S) (po_index S) [f])))))) (\<lambda>_. desk A w0 d) (\<lambda>_ _. True)"
    unfolding eq
    by (intro quiet_seq [OF objects(1)] quiet_seq [OF objects(2)] quiet_seq [OF quiet_storage(7)] steadies retire_desk A
        triple_weaken [OF triple_quiet [OF enqueue_quiet(5) [OF index] steady_desk]]) auto
qed auto

end

section \<open>Handlers\<close>

context section_desk begin

lemma booked_upload_quota: "booked A w (ensure_upload_quota E u n)"
  unfolding booked_def by (rule quota_desk)

lemma booked_private_quota: "booked A w (private_quota E u)" "booked A w (ensure_private_upload_quota E u n)"
proof -
  show q: "booked A w (private_quota E u)"
    unfolding private_quota_def booked_def
  proof (rule triple_bind)
    show "triple (desk A w (\<lambda>_. 0)) (get_by_user_id E u) (\<lambda>_. desk A w (\<lambda>_. 0)) (\<lambda>_ _. True)"
      by (rule triple_weaken [OF get_by_user_id_desk [OF desk.actor, where F = "\<lambda>_. True"]]) (auto simp: steady_def)
  qed (auto intro: triple_ret)
  show "booked A w (ensure_private_upload_quota E u n)"
    unfolding ensure_private_upload_quota_def by (intro booked_rules booked_upload_quota q)
qed

lemma sound_handle_private:
  assumes "us_id v = u"
  shows "sound A (handle_private E depth req S v)"
proof (cases req)
  case (R_Upload path f)
  show ?thesis
    unfolding R_Upload handle_private.simps upload_private_file_def assms
    by (intro sound_rules booked_session booked_rules booked_private_quota desk.booked_operations)
next
  case (R_Delete path)
  show ?thesis
    unfolding R_Delete handle_private.simps delete_private_file_def assms
    by (intro booked_session desk.booked_operations)
next
  case (R_Mkdir path name)
  show ?thesis
    unfolding R_Mkdir handle_private.simps create_private_directory_def by (intro sound_rules sound_mkdir)
next
  case (R_Rename path name)
  show ?thesis
    unfolding R_Rename handle_private.simps rename_private_file_def by (intro sound_rules sound_rename assms)
qed (auto simp: search_private_files_def search_endpoint_def intro!: sound_rules)

lemma sound_keys: "sound A (in_session (list_keys Y S u))" "sound A (in_session (save_keys Y S u ks))"
  by (intro booked_session desk.booked_keys)+

lemmas resume_handlers = list_resume_tree_def create_resume_node_def rename_resume_node_def delete_resume_node_def
  get_vacancy_endpoint_def save_vacancy_endpoint_def list_all_vacancies_endpoint_def list_statuses_endpoint_def
  save_statuses_endpoint_def

lemma sound_handle_resume:
  assumes "us_id v = u"
  shows "sound A (handle_resume Y req S v)"
  by (cases req) (auto simp: resume_handlers assms
      intro!: sound_rules booked_session desk.booked_resumes desk.booked_statuses)

lemmas generated_handlers = store_generated_run_def list_generated_runs_def get_generated_run_def
  get_generated_file_def delete_generated_run_def

lemma sound_handle_generated:
  assumes "us_id v = u"
  shows "sound A (handle_generated Y req S v)"
proof (cases req)
  case (Generated_File i n)
  show ?thesis
    unfolding Generated_File handle_generated.simps get_generated_file_def assms
    by (intro sound_rules booked_session booked_rules desk.booked_generated keeps_booked [OF desk.read_keeps])
qed (auto simp: generated_handlers assms intro!: sound_rules booked_session desk.booked_generated)

end

section \<open>The services\<close>

interpretation generated_desk:
  section_desk "plain_service E (create_storage_adapter E disk root_prefix) GENERATED None" "{u}" u
  for E disk root_prefix u
  by (rule section_desk.intro, rule plain_service_desk) simp_all

text \<open>The vault on the S3 adapter, and the photos on it.\<close>

definition s3_vault :: "env \<Rightarrow> string \<Rightarrow> string \<Rightarrow> bytes \<Rightarrow> enc_adapter" where
  "s3_vault E disk root_prefix key =
     \<lparr>ea_inner = create_storage_adapter E disk root_prefix, ea_key = key, ea_env = E\<rparr>"

definition s3_photos :: "env \<Rightarrow> string \<Rightarrow> string \<Rightarrow> photo_service" where
  "s3_photos E disk root_prefix = \<lparr>po_env = E, po_adapter = create_storage_adapter E disk root_prefix,
     po_archive_manager = True, po_index = Some (sql_links E)\<rparr>"

lemma s3_port: "storage_port (create_storage_adapter E disk root_prefix)"
  unfolding create_storage_adapter_def by (rule s3.storage_port_axioms)

interpretation vault_desk: section_desk "vault_service E (s3_vault E disk root_prefix key)" "{u}" u
  for E disk root_prefix key u
proof (rule section_desk.intro)
  fix w
  have "storage_port (enc_storage (s3_vault E disk root_prefix key))"
    by (rule enc_storage_port) (simp add: s3_vault_def s3_port)
  then show "file_desk (vault_service E (s3_vault E disk root_prefix key)) {u} u"
    unfolding file_desk_def file_desk_axioms_def
    by (auto simp: vault_service_def sql_index_def)
qed

interpretation photos_desk: photo_desk "s3_photos E disk root_prefix" "{u}" w0 u
  for E disk root_prefix w0 u
  by (simp add: photo_desk_def photo_desk_axioms_def s3_photos_def s3_port sql_index_def)

section \<open>Requests\<close>

lemma redis_rowless: "rowless (redis_command E f)"
  unfolding redis_command_def
  by (intro rowless_rules) (auto simp: rowless_def relates_def same_rows_def split: prod.split)

lemma store_rowless: "rowless (get_private_key E s)" "rowless (set_private_key E s k n)" "rowless (delete_private_key E s)"
  "rowless (get_private_key_ttl E s)" "rowless (get_unlock_attempts E i a)" "rowless (increment_unlock_attempts E i a)"
  "rowless (reset_unlock_attempts E i a)"
  unfolding get_private_key_def set_private_key_def delete_private_key_def get_private_key_ttl_def
    get_unlock_attempts_def increment_unlock_attempts_def reset_unlock_attempts_def redis_get_def redis_setex_def
    redis_delete_def redis_ttl_def redis_incr_def redis_expire_def
  by (intro rowless_rules redis_rowless)+

lemma build_vault_rowless: "rowless (build_vault E u key)"
  unfolding build_vault_def private_disk_id_def by (intro rowless_rules resolve_disk_rowless build_adapter_rowless)

lemma vault_of_rowless: "rowless (vault_of E og v)"
  unfolding vault_of_def private_file_service_def by (intro rowless_rules store_rowless build_vault_rowless)

lemma vault_of_Inr:
  assumes "vault_of E og v w = (Inr S, w')"
  shows "\<exists>disk p key. S = vault_service E (s3_vault E disk p key)"
proof -
  have vault: "\<exists>disk p. A = s3_vault E disk p key" if "build_vault E u key w1 = (Inr A, w2)" for u key A w1 w2
    using that by (auto simp: build_vault_def s3_vault_def bind_Inr dest!: build_adapter_Inr)
  from assms obtain encoded w1 where "(case non_empty encoded of
       None \<Rightarrow> raise Private_Session_Expired
     | Some encoded \<Rightarrow> (case urlsafe_b64decode encoded of
           None \<Rightarrow> raise Value_Error
         | Some key \<Rightarrow> bind (build_vault E (us_id v) key) (\<lambda>A. ret (vault_service E A)))) w1 = (Inr S, w')"
    by (auto simp: vault_of_def private_file_service_def bind_Inr)
  then show ?thesis by (fastforce simp: bind_Inr dest: vault split: option.splits)
qed

lemma get_photo_service_Inr: "get_photo_service E v w = (Inr S, w') \<Longrightarrow> \<exists>disk p. S = s3_photos E disk p"
  by (auto simp: get_photo_service_def s3_photos_def as_http_def try_Inr_reraise bind_Inr dest!: build_adapter_Inr)

lemma get_generated_service_Inr:
  "get_generated_file_service E v w = (Inr S, w') \<Longrightarrow>
    \<exists>disk p. S = plain_service E (create_storage_adapter E disk p) GENERATED None"
  by (auto simp: get_generated_file_service_def as_http_def try_Inr_reraise bind_Inr dest!: build_adapter_Inr)

text \<open>A user, a service of the user, a handler.\<close>

lemma sound_for_user:
  assumes "resolve_user_id H = Inr i" and "\<And>v. us_id v = i \<Longrightarrow> sound {i} (f v)"
  shows "sound {i} (bind (get_current_user E H) f)"
  by (rule sound_bind_where [OF sound_current_user]) (use assms in \<open>auto dest: current_user_facts\<close>)

lemma sound_serve_photo:
  assumes user: "resolve_user_id H = Inr i"
  shows "sound {i} (serve_photo E H req)"
proof -
  have "sound {i} (get_photo_service E v)" for v
    unfolding get_photo_service_def
    by (intro sound_rules resolve_disk_rowless [THEN rowless_sound] build_adapter_rowless [THEN rowless_sound])
  moreover have "sound {i} (handle_photo E req (s3_photos E disk p) v)" if v: "us_id v = i" for v disk p
  proof (cases req)
    case (F_Upload f)
    show ?thesis
      unfolding F_Upload handle_photo.simps upload_photo_endpoint_def photo_committed_def photo_errors_def v
      by (intro sound_rules sound_in_session triple_bind [OF files_desk.quota_desk] photos_desk.upload_photo_desk)
  next
    case (F_Delete f)
    show ?thesis
      unfolding F_Delete handle_photo.simps delete_photo_endpoint_def photo_committed_def photo_errors_def v
      by (intro sound_rules sound_in_session photos_desk.delete_photo_desk)
  qed (auto intro!: sound_rules)
  ultimately show ?thesis
    unfolding serve_photo_def
    by (intro sound_rules sound_for_user user sound_bind_where [where m = "get_photo_service E v" for v])
      (auto dest!: get_photo_service_Inr intro!: sound_rules)
qed

lemma sound_serve_resume:
  assumes user: "resolve_user_id H = Inr i"
  shows "sound {i} (serve_resume E Y H req)"
  unfolding serve_resume_def
  by (intro sound_rules sound_for_user user sound_bind_where [where m = "get_resumes_file_service E v" for v])
    (auto dest!: service_Inr(3) intro!: sound_rules resumes_desk.sound_handle_resume)

lemma sound_serve_generated:
  assumes user: "resolve_user_id H = Inr i"
  shows "sound {i} (serve_generated E Y H req)"
  unfolding serve_generated_def
  by (intro sound_rules sound_for_user user sound_bind_where [where m = "get_generated_file_service E v" for v])
    (auto dest!: get_generated_service_Inr intro!: sound_rules generated_desk.sound_handle_generated)

lemma sound_serve_keys:
  assumes user: "resolve_user_id H = Inr i"
  shows "sound {i} (serve_keys E Y H og req)"
proof -
  have via: "sound {i} (bind (get_current_user E H) (\<lambda>v. bind (vault_of E og v) (h v)))"
    if h: "\<And>v disk p key. us_id v = i \<Longrightarrow> sound {i} (h v (vault_service E (s3_vault E disk p key)))"
    for h :: "user \<Rightarrow> file_service \<Rightarrow> key_entry list action"
    by (intro sound_for_user user sound_bind_where [OF rowless_sound [OF vault_of_rowless]])
      (use h in \<open>auto dest!: vault_of_Inr\<close>)
  have "sound {i} (respond_keys Y E H og req)"
  proof (cases req)
    case Keys_Get
    show ?thesis unfolding Keys_Get respond_keys.simps get_keys_registry_def
      by (rule via) (auto intro: vault_desk.sound_keys)
  next
    case (Keys_Put ks)
    show ?thesis unfolding Keys_Put respond_keys.simps put_keys_registry_def
      by (rule via) (auto intro: vault_desk.sound_keys)
  qed
  then show ?thesis unfolding serve_keys_def by (intro sound_rules)
qed

lemma sound_unlock: "sound A (unlock_private_section E v og passphrase)"
proof -
  have "sound A (without_commit m)" for m :: "bool action" by (rule sound_without_commit)
  then show ?thesis
    unfolding unlock_private_section_def Let_def
    by (intro sound_rules store_rowless [THEN rowless_sound])
qed

text \<open>Resetting the vault is left out: it credits archived files whose records it keeps.\<close>

lemma sound_serve_private:
  assumes user: "resolve_user_id H = Inr i" and "req \<noteq> P_Reset"
  shows "sound {i} (serve_private E depth H og req)"
proof -
  have via: "sound {i} (bind (get_current_user E H) (\<lambda>v. bind (vault_of E og v) (\<lambda>S. handle_private E depth r S v)))" for r
    by (intro sound_for_user user sound_bind_where [OF rowless_sound [OF vault_of_rowless]])
      (auto dest!: vault_of_Inr intro: vault_desk.sound_handle_private)
  have quota: "sound {i} (get_private_quota E v)" if "us_id v = i" for v
    unfolding get_private_quota_def that
    by (intro sound_rules booked_session vault_desk.booked_private_quota)
  have "sound {i} (respond_private E depth H og req)"
  proof (cases req)
    case (P_File r)
    have "sound {i} (search_private_files q)" for q
      unfolding search_private_files_def search_endpoint_def by (intro sound_rules)
    then show ?thesis
      unfolding P_File respond_private_def private_request.case
      by (cases r) (simp_all only: file_request.case via sound_raise sound_bind [OF sound_current_user])
  next
    case P_Quota
    show ?thesis unfolding P_Quota respond_private_def private_request.case
      by (intro sound_for_user user sound_rules quota)
  qed (use assms(2) in \<open>auto simp: respond_private_def lock_private_section_def lock_def get_private_session_def
      get_session_status_def intro!: sound_rules sound_unlock store_rowless [THEN rowless_sound]\<close>)
  then show ?thesis unfolding serve_private_def by (intro sound_rules)
qed

text \<open>The preview task that an upload schedules.\<close>

lemma sound_preview: "sound A (generate_preview (s3_photos E disk p) source target)"
proof -
  have "rowless (generate_preview (s3_photos E disk p) source target)"
    unfolding generate_preview_def Let_def s3_photos_def photo_service.simps
    by (intro rowless_rules storage_port.storage_rowless [OF s3_port])
  then show ?thesis by (rule rowless_sound)
qed

text \<open>A request without a user is refused by every section before it reaches a service.\<close>

lemma sound_nobody: "resolve_user_id H = Inl e \<Longrightarrow> sound A (bind (get_current_user E H) f)"
  by (simp add: get_current_user_def lift_def sound_raise)

lemma sound_any_user:
  assumes "\<And>i. resolve_user_id H = Inr i \<Longrightarrow> sound {i} m" and "\<And>e. resolve_user_id H = Inl e \<Longrightarrow> sound UNIV m"
  shows "sound UNIV m"
proof (cases "resolve_user_id H")
  case (Inr i)
  show ?thesis by (rule sound_mono [OF assms(1) [OF Inr]])
qed (rule assms(2))

lemma sound_sections:
  "sound UNIV (serve_photo E H preq)" "sound UNIV (serve_resume E Y H rreq)" "sound UNIV (serve_generated E Y H greq)"
  "sound UNIV (serve_keys E Y H og kreq)" "req \<noteq> P_Reset \<Longrightarrow> sound UNIV (serve_private E depth H og req)"
proof -
  show "sound UNIV (serve_photo E H preq)"
    by (rule sound_any_user [OF sound_serve_photo]) (auto simp: serve_photo_def intro!: sound_rules sound_nobody)
  show "sound UNIV (serve_resume E Y H rreq)"
    by (rule sound_any_user [OF sound_serve_resume]) (auto simp: serve_resume_def intro!: sound_rules sound_nobody)
  show "sound UNIV (serve_generated E Y H greq)"
    by (rule sound_any_user [OF sound_serve_generated]) (auto simp: serve_generated_def intro!: sound_rules sound_nobody)
  show "sound UNIV (serve_keys E Y H og kreq)"
  proof (rule sound_any_user [OF sound_serve_keys])
    fix e assume "resolve_user_id H = Inl e"
    note none = sound_nobody [OF this]
    have "sound UNIV (respond_keys Y E H og kreq)"
      by (cases kreq) (simp_all only: respond_keys.simps get_keys_registry_def put_keys_registry_def none)
    then show "sound UNIV (serve_keys E Y H og kreq)" unfolding serve_keys_def by (intro sound_rules)
  qed
  show "sound UNIV (serve_private E depth H og req)" if "req \<noteq> P_Reset"
  proof (rule sound_any_user [OF sound_serve_private [OF _ that]])
    fix e assume "resolve_user_id H = Inl e"
    note none = sound_nobody [OF this]
    have "sound UNIV (respond_private E depth H og req)"
    proof (cases req)
      case (P_File r)
      show ?thesis unfolding P_File respond_private_def private_request.case
        by (cases r) (simp_all only: file_request.case none sound_raise)
    qed (auto simp: respond_private_def lock_private_section_def lock_def get_private_session_def
        get_session_status_def none intro!: sound_rules store_rowless [THEN rowless_sound])
    then show "sound UNIV (serve_private E depth H og req)" unfolding serve_private_def by (intro sound_rules)
  qed
qed

end
