(* ===== verification/OtherApi.thy ===== *)
theory OtherApi
  imports AdminService FileApi
begin

text \<open>
  The remaining routers: indexing (\<open>indexing_router.py\<close>), the counter of a user (\<open>quota_router.py\<close>) and
  the identity of a user with the retired login pages (\<open>auth_router.py\<close>).
\<close>

section \<open>Indexing\<close>

text \<open>\<open>_unit_of_work\<close> is \<open>in_session\<close>. A malformed request identifier is ignored.\<close>

definition request_id :: "headers \<Rightarrow> uuid option" where
  "request_id H = (case H ''X-Request-Id'' of
       None \<Rightarrow> None
     | Some raw \<Rightarrow> if strip raw = [] then None else parse_uuid (strip raw))"

definition search_photos :: "env \<Rightarrow> headers \<Rightarrow> string \<Rightarrow> int \<Rightarrow> photo_search_page action" where
  "search_photos E H q limit =
     bind (get_current_user E H) (\<lambda>u.
     if limit < SEARCH_LIMIT_MIN \<or> limit > SEARCH_LIMIT_MAX then raise (Http_Exception 422 [] None)
     else in_session (search_indexed_photos E (sql_links E) (us_id u) q limit))"

definition indexing_status :: "env \<Rightarrow> headers \<Rightarrow> user_index_counts action" where
  "indexing_status E H =
     bind (get_current_user E H) (\<lambda>u. in_session (user_index_status (sql_links E) (us_id u)))"

definition admin_indexing :: "env \<Rightarrow> headers \<Rightarrow> admin_index_view action" where
  "admin_indexing E H = as_admin E H (\<lambda>_. in_session (admin_index_status E (sql_links E) None))"

definition admin_indexing_backfill :: "env \<Rightarrow> headers \<Rightarrow> int option \<Rightarrow> backfill_result action" where
  "admin_indexing_backfill E H limit =
     as_admin E H (\<lambda>_.
       if (case limit of Some n \<Rightarrow> n < 1 | None \<Rightarrow> False) then raise (Http_Exception 422 [] None)
       else if \<not> rag_enabled E then ret backfill_skipped_result
       else in_session (backfill E (sql_links E) limit None (Some True) None None))"

definition admin_indexing_retry :: "env \<Rightarrow> headers \<Rightarrow> string option \<Rightarrow> int action" where
  "admin_indexing_retry E H requested_state =
     as_admin E H (\<lambda>_.
       if requested_state \<notin> {None, Some ''FAILED''} then raise (Http_Exception 422 [] None)
       else in_session (retry_failed_index E (sql_links E) requested_state))"

section \<open>Quota and identity\<close>

record quota_response =
  qr_used_bytes :: int
  qr_limit_bytes :: int
  qr_private_bytes :: int
  qr_private_limit_bytes :: int

definition get_my_quota :: "env \<Rightarrow> headers \<Rightarrow> quota_response action" where
  "get_my_quota E H =
     bind (get_current_user E H) (\<lambda>u.
     bind (in_session (get_by_user_id E (us_id u))) (\<lambda>usage.
     if qu_total_bytes usage < 0 \<or> qu_limit_bytes usage < 0 \<or> qu_private_bytes usage < 0 \<or>
        qu_private_limit_bytes usage < 0 then raise Other_Error
     else ret \<lparr>qr_used_bytes = qu_total_bytes usage, qr_limit_bytes = qu_limit_bytes usage,
       qr_private_bytes = qu_private_bytes usage, qr_private_limit_bytes = qu_private_limit_bytes usage\<rparr>))"

record user_response =
  ue_user_id :: uuid
  ue_email :: string
  ue_role :: role

definition user_response_of :: "user \<Rightarrow> user_response" where
  "user_response_of u = \<lparr>ue_user_id = us_id u, ue_email = us_email u, ue_role = us_role u\<rparr>"

definition me :: "env \<Rightarrow> headers \<Rightarrow> user_response action" where
  "me E H = bind (get_current_user E H) (\<lambda>u. ret (user_response_of u))"

definition retired_auth_endpoint :: "unit action" where
  "retired_auth_endpoint = raise (Http_Exception 410 ''UNAUTHORIZED'' None)"

definition logout :: "unit action" where
  "logout = raise (Http_Exception 410 ''ACCESS_DENIED'' None)"

end
