(* ===== verification/BackupService.thy ===== *)
theory BackupService
  imports AdminService Dates
begin

text \<open>
  \<open>application/backup_service.py\<close>, its endpoints in \<open>admin_router.py\<close> and its job in \<open>main.py\<close>: a dump of the
  database, compressed and stored under \<open>_meta/backups\<close>, and the removal of old ones. What \<open>pg_dump\<close> makes of
  the rows, and \<open>zstd\<close> at its highest level, are parameters. \<open>RuntimeError\<close> is among \<open>Other_Error\<close>.
\<close>

section \<open>BackupService\<close>

definition BACKUP_RETENTION_DAYS :: int where "BACKUP_RETENTION_DAYS = 30"
definition BACKUP_DIR :: string where "BACKUP_DIR = ''_meta/backups''"
definition BACKUP_FILENAME_PREFIX :: string where "BACKUP_FILENAME_PREFIX = ''db_backup_''"
definition BACKUP_FILENAME_SUFFIX :: string where "BACKUP_FILENAME_SUFFIX = ''.sql.zst''"

record backup_entry =
  be_filename :: string
  be_created_at :: instant
  be_size_bytes :: int

record backup_result =
  bk_filename :: string
  bk_logical_path :: string
  bk_size_bytes :: int
  bk_disk_id :: string

text \<open>\<open>bt_pg_dump\<close> is the output of the process, or \<open>None\<close> when it fails or is not installed.\<close>

record backup_tools =
  bt_env :: env
  bt_database_url :: string
  bt_pg_dump :: "string \<Rightarrow> world \<Rightarrow> bytes option"
  bt_compress :: "bytes \<Rightarrow> bytes"

text \<open>\<open>get_all_disks()[0]\<close>: there always is the one volume.\<close>

definition meta_adapter :: "env \<Rightarrow> storage action" where
  "meta_adapter E = (case get_all_disks of
       [] \<Rightarrow> raise Other_Error
     | d # _ \<Rightarrow> ret (build_disk_root_adapter E (dv_id d)))"

text \<open>\<open>s.replace(p, "", 1)\<close>.\<close>

fun drop_first :: "string \<Rightarrow> string \<Rightarrow> string" where
  "drop_first p [] = []"
| "drop_first p (c # s) = (if starts_with (c # s) p then drop (length p) (c # s) else c # drop_first p s)"

definition build_pg_dump_dsn :: "string \<Rightarrow> string" where
  "build_pg_dump_dsn database_url =
     (if contains database_url ''+asyncpg'' then drop_first ''+asyncpg'' database_url else database_url)"

text \<open>\<open>strftime\<close> with \<open>%Y-%m-%d_%H-%M-%S\<close>.\<close>

definition format_backup_stamp :: "int \<Rightarrow> string" where
  "format_backup_stamp seconds = (case date_parts seconds of (y, m, d, h, i, s) \<Rightarrow>
     padded 4 y @ ''-'' @ padded 2 m @ ''-'' @ padded 2 d @ ''_'' @
     padded 2 h @ ''-'' @ padded 2 i @ ''-'' @ padded 2 s)"

definition is_backup_node :: "file_node \<Rightarrow> bool" where
  "is_backup_node n \<longleftrightarrow> \<not> fn_is_dir n \<and> starts_with (fn_name n) BACKUP_FILENAME_PREFIX \<and>
     ends_with (fn_name n) BACKUP_FILENAME_SUFFIX"

definition listed_backups :: "storage \<Rightarrow> file_node list action" where
  "listed_backups A =
     bind (try_except (st_list A BACKUP_DIR)
       (\<lambda>e. if e = Storage_File_Not_Found then ret [] else raise e)) (\<lambda>nodes.
     ret (filter is_backup_node nodes))"

definition cleanup_old_backups :: "env \<Rightarrow> storage \<Rightarrow> nat action" where
  "cleanup_old_backups E A =
     bind (utc_now E) (\<lambda>now.
     let cutoff = now - BACKUP_RETENTION_DAYS * 86400 * SECOND in
     bind (listed_backups A) (\<lambda>nodes.
     let old = filter (\<lambda>n. fn_modified_at n < cutoff) nodes in
     bind (for_each (\<lambda>n. st_delete A (BACKUP_DIR @ CHR ''/'' # fn_name n)) old) (\<lambda>_.
     ret (length old))))"

definition run_db_backup :: "backup_tools \<Rightarrow> backup_result action" where
  "run_db_backup T =
     (let E = bt_env T in
      bind (meta_adapter E) (\<lambda>A.
      bind (st_mkdir A BACKUP_DIR) (\<lambda>_.
      bind (utc_now E) (\<lambda>now.
      let filename = BACKUP_FILENAME_PREFIX @ format_backup_stamp (now div SECOND) @ BACKUP_FILENAME_SUFFIX;
          logical_path = BACKUP_DIR @ CHR ''/'' # filename in
      bind (gets (bt_pg_dump T (build_pg_dump_dsn (bt_database_url T)))) (\<lambda>dump.
      case dump of
        None \<Rightarrow> raise Other_Error
      | Some b \<Rightarrow>
          let compressed = bt_compress T b in
          bind (st_write A logical_path (whole_source compressed) (int (length compressed))) (\<lambda>_.
          bind (cleanup_old_backups E A) (\<lambda>_.
          bind (st_get_size A logical_path) (\<lambda>size_bytes.
          ret \<lparr>bk_filename = filename, bk_logical_path = logical_path, bk_size_bytes = size_bytes,
               bk_disk_id = st_disk_id A\<rparr>))))))))"

definition list_backups :: "env \<Rightarrow> backup_entry list action" where
  "list_backups E =
     bind (meta_adapter E) (\<lambda>A.
     bind (listed_backups A) (\<lambda>nodes.
     ret (sort_key (\<lambda>b. - be_created_at b)
       (map (\<lambda>n. \<lparr>be_filename = fn_name n, be_created_at = fn_modified_at n, be_size_bytes = fn_size n\<rparr>) nodes))))"

section \<open>Endpoints and job\<close>

definition run_backup_endpoint :: "backup_tools \<Rightarrow> headers \<Rightarrow> backup_result action" where
  "run_backup_endpoint T H = as_admin (bt_env T) H (\<lambda>admin.
     try_except (run_db_backup T)
       (\<lambda>e. raise (if e = Other_Error then Http_Exception 500 ''INTERNAL_ERROR'' None else e)))"

definition list_backups_endpoint :: "env \<Rightarrow> headers \<Rightarrow> backup_entry list action" where
  "list_backups_endpoint E H = as_admin E H (\<lambda>admin. list_backups E)"

definition run_db_backup_job :: "backup_tools \<Rightarrow> unit action" where
  "run_db_backup_job T = try_except (bind (run_db_backup T) (\<lambda>_. ret ())) (\<lambda>_. ret ())"

end
