(* ===== verification/SystemBooks.thy ===== *)
theory SystemBooks
  imports SectionBooks OtherApi BackupService
begin

text \<open>
  The scheduled jobs of \<open>main.py\<close>, and the books along every history of requests, administration and
  jobs: the counter of every user stays the size of the user's active files.
\<close>

section \<open>Scheduled jobs\<close>

text \<open>A job runs in a session of its own; an exception is logged and rolls back.\<close>

definition scheduled :: "'a action \<Rightarrow> unit action" where
  "scheduled m = try_except (bind (in_session m) (\<lambda>_. ret ())) (\<lambda>_. ret ())"

definition run_daily_archive_job :: "env \<Rightarrow> unit action" where
  "run_daily_archive_job E = scheduled (run_daily_archive E (Some (sql_links E)))"

definition run_cleanup_pending_job :: "env \<Rightarrow> unit action" where
  "run_cleanup_pending_job E = scheduled (cleanup_pending_records E)"

definition run_cleanup_tmp_job :: "env \<Rightarrow> unit action" where
  "run_cleanup_tmp_job E = scheduled (cleanup_tmp_dirs E)"

definition run_reconcile_quotas_job :: "env \<Rightarrow> unit action" where
  "run_reconcile_quotas_job E = scheduled (reconcile_quotas E)"

section \<open>Archiving\<close>

text \<open>Every record with one of the identifiers \<open>F\<close> satisfies \<open>P\<close>.\<close>

definition those :: "uuid set \<Rightarrow> (file_record \<Rightarrow> bool) \<Rightarrow> world \<Rightarrow> bool" where
  "those F P = on_files (\<lambda>fs. \<forall>x \<in> set fs. fr_id x \<in> F \<longrightarrow> P x)"

lemma steady_those [intro]: "steady (those F P)"
  unfolding those_def by (rule steady_on_files)

lemma quiet_steady_keeps: "quiet m \<Longrightarrow> steady I \<Longrightarrow> keeps I m"
  by (rule triple_imp_keeps) (rule triple_quiet)

lemma rowless_steady_keeps: "rowless m \<Longrightarrow> steady I \<Longrightarrow> keeps I m"
  by (rule quiet_steady_keeps) (rule rowless_quiet)

lemma change_active_keeps:
  assumes "f \<in> F" and change: "\<And>r. fr_id (change r) = fr_id r" "\<And>r. fr_user_id (change r) = fr_user_id r"
    "\<And>r. fr_size_bytes (change r) = fr_size_bytes r" "\<And>r. is_active (change r)"
  shows "keeps (\<lambda>w. desk UNIV w0 d w \<and> those F is_active w) (change_file f change)"
proof (rule triple_imp_keeps, rule tripleI)
  fix w res w'
  assume pre: "desk UNIV w0 d w \<and> those F is_active w" and exec: "change_file f change w = (Inr res, w')"
  then have b: "\<not> broken w" by (auto simp: change_file_def bind_Inr query_def split: if_splits)
  show "desk UNIV w0 d w' \<and> those F is_active w'"
  proof (cases "get_file f w")
    case None
    with exec b pre show ?thesis by (auto simp: change_file_def run)
  next
    case (Some r)
    then have r: "r \<in> set (files w)" "fr_id r = f" by (auto simp: get_file_def find_Some_iff)
    have h: "holds r w" using desk_holds pre b r(1) by blast
    have a: "is_active r" using pre r b assms(1) by (auto simp: those_def on_files_def)
    have w': "w' = w\<lparr>files := replace_file (change r) (files w)\<rparr>"
      using exec b Some by (auto simp: change_file_def flush_file_def run split: if_splits)
    have "desk UNIV w0 (moved_weight r (change r) d) w'"
      using tripleD [OF triple_change_file [where r = r and change = change and A = UNIV and ?w0.0 = w0 and d = d]] change(1,2) pre h exec r(2) by blast
    moreover have "moved_weight r (change r) d = d"
      using a change by (intro ext) (simp add: moved_weight_def weight_def)
    moreover have "those F is_active w'"
      using pre b change by (auto simp: those_def on_files_def w' replace_file_def)
    ultimately show ?thesis by simp
  qed
next
  fix w e w'
  assume "desk UNIV w0 d w \<and> those F is_active w" and "change_file f change w = (Inl e, w')"
  then have "broken w'"
    by (auto simp: change_file_def flush_file_def run split: if_splits option.splits)
  then show "desk UNIV w0 d w' \<and> those F is_active w'" by (simp add: those_def on_files_def)
qed

lemma disk_root_storage:
  "rowless (st_exists (build_disk_root_adapter E disk) p)" "rowless (st_delete (build_disk_root_adapter E disk) p)"
  "rowless (st_read (build_disk_root_adapter E disk) p)" "rowless (st_write (build_disk_root_adapter E disk) p b n)"
  "rowless (st_get_size (build_disk_root_adapter E disk) p)" "rowless (st_stale_tmp (build_disk_root_adapter E disk) t)"
  unfolding build_disk_root_adapter_def create_storage_adapter_def by (rule s3.storage_rowless)+

lemma archive_record_keeps:
  assumes "fr_id r \<in> F"
  shows "keeps (\<lambda>w. desk UNIV w0 d w \<and> those F is_active w) (archive_record E (Some (sql_links E)) r)"
proof -
  note quiet = rowless_steady_keeps [OF _ steady_conj [OF steady_desk steady_those]]
    quiet_steady_keeps [OF _ steady_conj [OF steady_desk steady_those]]
  show ?thesis
    unfolding archive_record_def Let_def compress_def mark_file_archived_def
    by (intro keep_rules quiet(1) [OF disk_root_storage(1)] quiet(1) [OF disk_root_storage(2)]
        quiet(1) [OF disk_root_storage(3)] quiet(1) [OF disk_root_storage(4)]
        change_active_keeps assms quiet(2) [OF enqueue_quiet(6)])
      (simp_all add: sql_index_def is_active_def)
qed

lemma archive_all_keeps:
  "fr_id ` set rs \<subseteq> F \<Longrightarrow>
    keeps (\<lambda>w. desk UNIV w0 d w \<and> those F is_active w) (archive_all E (Some (sql_links E)) rs rep)"
  by (induction rs arbitrary: rep) (auto intro!: keep_rules archive_record_keeps)

lemma archived_bytes_rowless: "rowless (compute_total_archived_bytes E)"
  unfolding compute_total_archived_bytes_def list_archived_records_def all_files_def archived_size_def Let_def
  by (intro rowless_rules rowless_map_act disk_root_storage)

lemma archive_desk:
  "triple (desk UNIV w0 d) (run_daily_archive E (Some (sql_links E))) (\<lambda>_. desk UNIV w0 d) (\<lambda>_ _. True)"
  unfolding run_daily_archive_def list_candidates_for_archive_def Let_def
proof (rule quiet_seq, simp, rule steady_desk, rule triple_seq [OF triple_all_files])
  fix t and rs :: "file_record list"
  let ?F = "fr_id ` set rs"
  let ?I = "\<lambda>w. desk UNIV w0 d w \<and> those ?F is_active w"
  let ?rest = "\<lambda>report. bind (compute_total_archived_bytes E) (\<lambda>total.
     bind (utc_now E) (\<lambda>t.
     bind (modify (\<lambda>w. w\<lparr>archive_run := Some \<lparr>xs_last_run = Some t, xs_processed = ar_processed report,
       xs_skipped = ar_skipped report, xs_errors = ar_errors report, xs_total_archived_bytes = total\<rparr>\<rparr>)) (\<lambda>_.
     ret report)))"
  have tail: "triple ?I (?rest report) (\<lambda>_. desk UNIV w0 d) (\<lambda>_ _. True)" for report
  proof -
    have "keeps (desk UNIV w0 d) (?rest report)"
      by (intro keep_rules rowless_steady_keeps [OF archived_bytes_rowless steady_desk]
          rowless_steady_keeps [OF rowless_utc_now steady_desk] keeps_modify)
        (auto elim: steadyD [OF steady_desk, rotated] simp: same_files_def)
    from triple_keeps [OF this] show ?thesis by (rule triple_weaken) auto
  qed
  have "triple ?I (bind (archive_all E (Some (sql_links E)) rs rep) ?rest) (\<lambda>_. desk UNIV w0 d) (\<lambda>_ _. True)" for rep
    by (rule triple_seq [OF triple_keeps [OF archive_all_keeps]]) (auto intro: tail)
  then show "triple (\<lambda>w. distinct (map fr_id rs) \<and>
       (\<forall>r\<in>set rs. fr_last_accessed_at r < t - archive_days_threshold E * DAY \<and> fr_status r = S_COMMITTED \<and> \<not> fr_is_archived r) \<and>
       desk UNIV w0 d w \<and> (\<forall>r\<in>set rs. holds r w))
     (bind (archive_all E (Some (sql_links E)) rs \<lparr>ar_processed = 0, ar_skipped = 0, ar_errors = 0\<rparr>) ?rest)
     (\<lambda>_. desk UNIV w0 d) (\<lambda>_ _. True)"
    by (rule triple_pre) (auto simp: those_def on_files_def holds_def is_active_def desk_def ledger_def
        dest: find_key)
qed simp_all

section \<open>Cleaning up\<close>

lemma delete_row_desk:
  assumes "desk UNIV w0 d w" and "\<not> broken w" and "\<forall>x \<in> set (files w). fr_id x = f \<longrightarrow> \<not> is_active x"
  shows "desk UNIV w0 d (w\<lparr>files := filter (\<lambda>r. fr_id r \<noteq> f) (files w), links := ls\<rparr>)"
proof -
  have "sum_list (map (weight u) (filter (\<lambda>r. fr_id r \<noteq> f) fs)) = sum_list (map (weight u) fs)"
    if "\<forall>x \<in> set fs. fr_id x = f \<longrightarrow> \<not> is_active x" for u fs
    using that by (induction fs) (auto simp: weight_def)
  from this [OF assms(3)] show ?thesis
    using assms(1,2)
    by (simp add: desk_def ledger_def others_same_def quota_table_ok_def charged_def get_quota_def
        active_bytes_def distinct_map_filter)
qed

lemma keeps_execute_usable: "(\<And>w. I w \<Longrightarrow> \<not> broken w \<Longrightarrow> I (f w)) \<Longrightarrow> keeps I (execute f)"
  by (simp add: keeps_def execute_def)

lemma hard_delete_keeps:
  assumes "f \<in> F"
  shows "keeps (\<lambda>w. desk UNIV w0 d w \<and> those F (\<lambda>r. \<not> is_active r) w) (hard_delete f)"
  unfolding hard_delete_def delete_row_def
  by (intro keep_rules keeps_execute_usable)
    (use assms in \<open>auto simp: those_def on_files_def intro!: delete_row_desk\<close>)

lemma stats_keeps: "keeps (desk A w0 d) (update_stats E f)"
  unfolding update_stats_def
  by (intro keep_rules keeps_modify rowless_steady_keeps [OF rowless_utc_now steady_desk])
    (auto elim: steadyD [OF steady_desk, rotated] simp: same_files_def)

lemma tmp_rowless: "rowless (delete_tmp_file E r)" "rowless (cleanup_one_tmp (build_disk_root_adapter E disk) p)"
  unfolding delete_tmp_file_def cleanup_one_tmp_def Let_def by (intro rowless_rules disk_root_storage)+

lemma cleanup_pending_desk:
  "triple (desk UNIV w0 d) (cleanup_pending_records E) (\<lambda>_. desk UNIV w0 d) (\<lambda>_ _. True)"
  unfolding cleanup_pending_records_def list_stale_pending_def Let_def
proof (rule quiet_seq, simp, rule steady_desk, rule triple_seq [OF triple_all_files])
  fix t and rs :: "file_record list"
  let ?F = "fr_id ` set rs"
  let ?I = "\<lambda>w. desk UNIV w0 d w \<and> those ?F (\<lambda>r. \<not> is_active r) w"
  let ?rest = "\<lambda>done. bind (update_stats E (\<lambda>t s. s\<lparr>ms_last_pending_cleanup := Some t,
      ms_pending_deleted := int (count_list done True)\<rparr>)) (\<lambda>_. ret (int (count_list done True)))"
  have one: "keeps ?I (cleanup_one_pending E r)" if "r \<in> set rs" for r
    unfolding cleanup_one_pending_def
    by (intro keep_rules hard_delete_keeps
        rowless_steady_keeps [OF tmp_rowless(1) steady_conj [OF steady_desk steady_those]]) (use that in simp)
  have "keeps ?I (map_act (cleanup_one_pending E) xs)" if "set xs \<subseteq> set rs" for xs
    using that by (induction xs) (auto intro!: keep_rules one)
  then have all: "keeps ?I (map_act (cleanup_one_pending E) rs)" by blast
  have tail: "keeps (desk UNIV w0 d) (?rest ds)" for ds
    by (intro keep_rules stats_keeps)
  have "triple ?I (bind (map_act (cleanup_one_pending E) rs) ?rest) (\<lambda>_. desk UNIV w0 d) (\<lambda>_ _. True)"
    by (rule triple_seq [OF triple_keeps [OF all] triple_weaken [OF triple_keeps [OF tail]]]) auto
  then show "triple (\<lambda>w. distinct (map fr_id rs) \<and>
       (\<forall>r\<in>set rs. fr_status r = S_PENDING \<and> fr_created_at r < t - PENDING_STALE_HOURS * HOUR) \<and>
       desk UNIV w0 d w \<and> (\<forall>r\<in>set rs. holds r w))
     (bind (map_act (cleanup_one_pending E) rs) ?rest) (\<lambda>_. desk UNIV w0 d) (\<lambda>_ _. True)"
    by (rule triple_pre) (auto simp: those_def on_files_def holds_def is_active_def desk_def ledger_def
        dest: find_key)
qed simp_all

lemma cleanup_tmp_desk: "triple (desk A w0 d) (cleanup_tmp_dirs E) (\<lambda>_. desk A w0 d) (\<lambda>_ _. True)"
proof -
  have "keeps (desk A w0 d) (cleanup_tmp_dirs E)"
    unfolding cleanup_tmp_dirs_def Let_def
    by (intro keep_rules stats_keeps rowless_steady_keeps [OF _ steady_desk]) (simp_all add: disk_root_storage tmp_rowless)
  from triple_keeps [OF this] show ?thesis by (rule triple_weaken) auto
qed

section \<open>Administration\<close>

lemma weight_other: "fr_user_id r \<noteq> v \<Longrightarrow> weight v r = 0"
  by (simp add: weight_def)

lemma delete_user_row_desk:
  "triple (desk UNIV w0 (\<lambda>_. 0)) (delete_user_row u) (\<lambda>_. desk UNIV w0 (\<lambda>_. 0)) (\<lambda>_ _. True)"
proof (rule tripleI)
  fix w x w'
  assume pre: "desk UNIV w0 (\<lambda>_. 0) w" and exec: "delete_user_row u w = (Inr x, w')"
  have fs: "sum_list (map (weight v) (filter (\<lambda>r. fr_user_id r \<noteq> u) fs)) = (if v = u then 0 else sum_list (map (weight v) fs))" for v fs
    by (induction fs) (auto simp: weight_other)
  have qs: "find (\<lambda>q. qu_user_id q = v) (filter (\<lambda>q. qu_user_id q \<noteq> u) qs) = (if v = u then None else find (\<lambda>q. qu_user_id q = v) qs)" for v qs
    by (induction qs) auto
  have b: "\<not> broken w" using exec by (auto simp: delete_user_row_def bind_Inr query_def split: if_splits)
  show "desk UNIV w0 (\<lambda>_. 0) w'"
  proof (cases "find_user u w")
    case None
    with exec b pre show ?thesis by (simp add: delete_user_row_def run)
  next
    case (Some m)
    with exec b have w': "files w' = filter (\<lambda>r. fr_user_id r \<noteq> u) (files w)"
      "quotas w' = filter (\<lambda>q. qu_user_id q \<noteq> u) (quotas w)"
      by (auto simp: delete_user_row_def run)
    have "charged v w' = (if v = u then 0 else charged v w)" "active_bytes v w' = (if v = u then 0 else active_bytes v w)" for v
      by (simp_all add: charged_def get_quota_def active_bytes_def w' fs qs)
    with pre b show ?thesis
      by (simp add: desk_def ledger_def others_same_def quota_table_ok_def w' distinct_map_filter)
  qed
qed simp

lemma cleanup_user_rowless: "rowless (cleanup_user_storage E u rs)"
  unfolding cleanup_user_storage_def cleanup_shared_file_def ignore_errors_def Let_def
  by (intro rowless_rules rowless_for_each disk_root_storage)

lemma delete_user_desk:
  "triple (desk UNIV w0 (\<lambda>_. 0)) (delete_user E a u) (\<lambda>_. desk UNIV w0 (\<lambda>_. 0)) (\<lambda>_ _. True)"
  unfolding delete_user_def user_by_id_def list_all_by_user_def all_files_def
  by (intro triple_if triple_raise quiet_seq [OF _ steady_desk] triple_seq [OF delete_user_row_desk] triple_ret
      rowless_quiet cleanup_user_rowless) auto

lemma upsert_desk: "keeps (desk A w0 d) (upsert_from_principal E p)"
proof -
  have atoms: "keeps (desk A w0 d) (insert_user E m)" "keeps (desk A w0 d) (flush_user m)" for m
    by (auto simp: keeps_def insert_user_def flush_user_def desk_def ledger_def others_same_def quota_table_ok_def
        charged_def get_quota_def active_bytes_def)
  show ?thesis
    unfolding upsert_from_principal_def sync_projection_def user_by_id_def user_by_email_def Let_def
    by (auto intro!: keep_rules atoms rowless_steady_keeps [OF rowless_utc_now steady_desk] split: exn.split)
qed

lemma limits_desk:
  "triple (desk UNIV w0 d) (update_limit E u n) (\<lambda>_. desk UNIV w0 d) (\<lambda>_ _. True)"
  "triple (desk UNIV w0 d) (update_private_limit E u n) (\<lambda>_. desk UNIV w0 d) (\<lambda>_ _. True)"
proof -
  have quota: "triple (desk UNIV w0 d) (bind (get_by_user_id E u) (\<lambda>_. update_quota u change))
      (\<lambda>_. desk UNIV w0 d) (\<lambda>_ _. True)"
    if "\<And>q. qu_total_bytes (change q) = qu_total_bytes q" "\<And>q. qu_user_id (change q) = qu_user_id q" for change
    by (rule triple_weaken [OF triple_bind [OF get_by_user_id_desk [where F = "\<lambda>_. True" and d = d and A = UNIV and ?w0.0 = w0]
        update_quota_desk [where k = 0]]]) (use that in \<open>auto simp: steady_def\<close>)
  show "triple (desk UNIV w0 d) (update_limit E u n) (\<lambda>_. desk UNIV w0 d) (\<lambda>_ _. True)"
    "triple (desk UNIV w0 d) (update_private_limit E u n) (\<lambda>_. desk UNIV w0 d) (\<lambda>_ _. True)"
    unfolding update_limit_def update_private_limit_def by (rule quota; simp)+
qed

lemma update_user_quota_desk:
  "triple (desk UNIV w0 d) (update_user_quota E u ds x y) (\<lambda>_. desk UNIV w0 d) (\<lambda>_ _. True)"
proof -
  have local: "triple (desk UNIV w0 d) (ensure_local_user E u ds) (\<lambda>_. desk UNIV w0 d) (\<lambda>_ _. True)"
    unfolding ensure_local_user_def
    by (intro triple_option triple_raise triple_seq [OF triple_keeps [OF upsert_desk]] triple_if triple_ret) auto
  show ?thesis
    unfolding update_user_quota_def
    by (intro triple_if triple_raise triple_bind [OF local] triple_bind triple_option triple_ret) (auto intro: limits_desk)
qed

section \<open>The system\<close>

text \<open>The scheduled jobs and the administration, as actions that open their own sessions.\<close>

lemma sound_scheduled:
  assumes "\<And>w. triple (desk UNIV w (\<lambda>_. 0)) m (\<lambda>_. desk UNIV w (\<lambda>_. 0)) (\<lambda>_ _. True)"
  shows "sound UNIV (scheduled m)"
  unfolding scheduled_def by (intro sound_rules sound_in_session assms)

lemma sound_jobs:
  "sound UNIV (run_daily_archive_job E)" "sound UNIV (run_cleanup_pending_job E)" "sound UNIV (run_cleanup_tmp_job E)"
  unfolding run_daily_archive_job_def run_cleanup_pending_job_def run_cleanup_tmp_job_def
  by (intro sound_scheduled archive_desk cleanup_pending_desk cleanup_tmp_desk)+

lemma sound_index_jobs: "sound UNIV (run_index_sync_job E)" "sound UNIV (run_startup_index_backfill E)"
proof -
  have "quiet (run_index_sync E (sql_links E) (root_objects E) None None None None)"
    "quiet (backfill E (sql_links E) None None None None None)"
    unfolding run_index_sync_def quiet_def
    by (auto intro!: keep_rules files_alone.run_job_keeps files_alone.backfill_keeps repo_atoms_quiet
        simp: new_sync_job_def root_objects_port Let_def split: option.split)
  then show "sound UNIV (run_index_sync_job E)" "sound UNIV (run_startup_index_backfill E)"
    unfolding run_index_sync_job_def run_startup_index_backfill_def
    by - (intro sound_rules quiet_in_session; assumption)+
qed

lemma sound_as_admin: "(\<And>u. sound A (f u)) \<Longrightarrow> sound A (as_admin E H f)"
  unfolding as_admin_def by (intro sound_rules)

lemma block_frame: "keeps (\<lambda>w. files w = fs \<and> quotas w = qs) (block_user u)"
proof -
  have "keeps (\<lambda>w. files w = fs \<and> quotas w = qs) (flush_user m)" for m
    by (auto simp: keeps_def flush_user_def)
  then show ?thesis unfolding block_user_def set_active_def by (intro keep_rules)
qed

lemma list_directory_rowless: "rowless (list_directory_users E)"
  unfolding list_directory_users_def get_json_def
  by (auto intro!: rowless_rules split: json.split http_outcome.split)

lemma sound_administration:
  "sound UNIV (update_user_quota_endpoint E H u x y)" "sound UNIV (block_user_endpoint E H u)"
  "sound UNIV (delete_user_endpoint E H u)" "sound UNIV (run_archive_endpoint E H)"
proof -
  have quota: "triple (desk UNIV w (\<lambda>_. 0))
      (bind (list_directory_users E) (\<lambda>ds. update_user_quota E u ds x y)) (\<lambda>_. desk UNIV w (\<lambda>_. 0)) (\<lambda>_ _. True)" for w
    by (intro quiet_seq [OF rowless_quiet [OF list_directory_rowless] steady_desk] update_user_quota_desk) simp
  show "sound UNIV (update_user_quota_endpoint E H u x y)"
    unfolding update_user_quota_endpoint_def by (intro sound_as_admin sound_rules sound_in_session quota)
  show "sound UNIV (block_user_endpoint E H u)"
    unfolding block_user_endpoint_def by (intro sound_as_admin sound_rules sound_frame_session block_frame)
  show "sound UNIV (delete_user_endpoint E H u)"
    unfolding delete_user_endpoint_def by (intro sound_as_admin sound_rules sound_in_session delete_user_desk)
  show "sound UNIV (run_archive_endpoint E H)"
    unfolding run_archive_endpoint_def by (intro sound_as_admin sound_in_session archive_desk)
qed

lemma sound_other_requests:
  "sound UNIV (get_my_quota E H)" "sound UNIV (admin_indexing_backfill E H n)" "sound UNIV (admin_indexing_retry E H st)"
proof -
  have "quiet (backfill E (sql_links E) n None (Some True) None None)" "quiet (retry_failed_index E (sql_links E) st)"
    unfolding quiet_def by (auto intro!: files_alone.backfill_keeps files_alone.retry_keeps)
  then show "sound UNIV (admin_indexing_backfill E H n)" "sound UNIV (admin_indexing_retry E H st)"
    unfolding admin_indexing_backfill_def admin_indexing_retry_def
    by - (intro sound_as_admin sound_rules quiet_in_session; assumption)+
  have "booked UNIV w (get_by_user_id E u)" for w u
    unfolding booked_def
    by (rule triple_weaken [OF get_by_user_id_desk [where F = "\<lambda>_. True" and A = UNIV]]) (auto simp: steady_def)
  then show "sound UNIV (get_my_quota E H)"
    unfolding get_my_quota_def by (intro sound_rules booked_session)
qed

lemma meta_adapter_run: "meta_adapter E = ret (build_disk_root_adapter E STORAGE_VOLUME_ID)"
  by (simp add: meta_adapter_def get_all_disks_def disk_volumes_def)

lemma sound_backup: "sound UNIV (run_db_backup_job T)" "sound UNIV (run_backup_endpoint T H)"
proof -
  note ports = storage_port.storage_rowless [OF s3_port [of E STORAGE_VOLUME_ID "[]" for E], folded build_disk_root_adapter_def]
  have "rowless (cleanup_old_backups E (build_disk_root_adapter E STORAGE_VOLUME_ID))" for E
    unfolding cleanup_old_backups_def listed_backups_def Let_def
    by (intro rowless_rules rowless_for_each ports)
  moreover have "sound UNIV (gets g)" for g :: "world \<Rightarrow> bytes option"
    by (simp add: sound_def settled_refl)
  ultimately have "sound UNIV (run_db_backup T)"
    unfolding run_db_backup_def Let_def meta_adapter_run bind_ret
    by (intro sound_rules ports [THEN rowless_sound] rowless_utc_now [THEN rowless_sound])
      (simp_all add: rowless_sound)
  then show "sound UNIV (run_db_backup_job T)" "sound UNIV (run_backup_endpoint T H)"
    unfolding run_db_backup_job_def run_backup_endpoint_def by (intro sound_rules sound_as_admin; assumption)+
qed

text \<open>
  A step of the system: a request to any section, a change by an administrator, a scheduled job or a
  preview task. Only the reset of a vault is left out.
\<close>

inductive storage_step :: "env \<Rightarrow> world \<Rightarrow> world \<Rightarrow> bool" for E where
  requested: "api \<in> section_apis E \<Longrightarrow> storage_step E w (snd (serve E depth api H req w))"
| photo_requested: "storage_step E w (snd (serve_photo E H preq w))"
| private_requested: "vreq \<noteq> P_Reset \<Longrightarrow> storage_step E w (snd (serve_private E depth H og vreq w))"
| keys_requested: "storage_step E w (snd (serve_keys E Y H og kreq w))"
| resume_requested: "storage_step E w (snd (serve_resume E Y H rreq w))"
| generated_requested: "storage_step E w (snd (serve_generated E Y H greq w))"
| quota_requested: "storage_step E w (snd (get_my_quota E H w))"
| preview_made: "storage_step E w (snd (generate_preview (s3_photos E disk root_prefix) p q w))"
| archived: "storage_step E w (snd (run_daily_archive_job E w))"
| pending_cleaned: "storage_step E w (snd (run_cleanup_pending_job E w))"
| tmp_cleaned: "storage_step E w (snd (run_cleanup_tmp_job E w))"
| index_synced: "storage_step E w (snd (run_index_sync_job E w))"
| started: "storage_step E w (snd (run_startup_index_backfill E w))"
| backed_up: "storage_step E w (snd (run_db_backup_job T w))"
| backup_started: "storage_step E w (snd (run_backup_endpoint T H w))"
| quota_set: "storage_step E w (snd (update_user_quota_endpoint E H u x y w))"
| blocked: "storage_step E w (snd (block_user_endpoint E H u w))"
| deleted: "storage_step E w (snd (delete_user_endpoint E H u w))"
| archive_started: "storage_step E w (snd (run_archive_endpoint E H w))"
| backfill_started: "storage_step E w (snd (admin_indexing_backfill E H n w))"
| failed_retried: "storage_step E w (snd (admin_indexing_retry E H st w))"

lemma storage_step_settled:
  "storage_step E w w' \<Longrightarrow> \<not> broken w \<Longrightarrow> balanced w \<Longrightarrow> settled UNIV w w'"
  by (cases rule: storage_step.cases)
    (auto intro: sound_serve_all [unfolded sound_def, rule_format] sound_jobs [unfolded sound_def, rule_format]
      sound_sections [unfolded sound_def, rule_format] sound_preview [unfolded sound_def, rule_format]
      sound_other_requests [unfolded sound_def, rule_format] sound_backup [unfolded sound_def, rule_format]
      sound_index_jobs [unfolded sound_def, rule_format] sound_administration [unfolded sound_def, rule_format])


text \<open>A user with one file of ten bytes, charged for it; every remote service is down.\<close>

definition dark_env :: env where
  "dark_env = sample_env (\<lambda>_ _. Reply_Crash) (\<lambda>_ _. S3_Crash)"

definition ledger_world :: world where
  "ledger_world = (sample_world [])\<lparr>
     users := [\<lparr>ur_id = 3, ur_email = ''a@b'', ur_is_active = True, ur_created_at = 0\<rparr>],
     quotas := [\<lparr>qu_user_id = 3, qu_total_bytes = 10, qu_limit_bytes = 100, qu_private_bytes = 0,
       qu_private_limit_bytes = 0, qu_photos_bytes = 0\<rparr>]\<rparr>"

lemma ledger_world_balanced: "\<not> broken ledger_world" "balanced ledger_world"
  by (auto simp: ledger_world_def sample_world_def empty_world_def sample_record_def ledger_def quota_table_ok_def
      charged_def get_quota_def active_bytes_def weight_def is_active_def)


text \<open>The requests of a user in sections of the user's own.\<close>

inductive own_step :: "env \<Rightarrow> headers \<Rightarrow> world \<Rightarrow> world \<Rightarrow> bool" for E H where
  own_files: "api \<in> own_apis E \<Longrightarrow> own_step E H w (snd (serve E depth api H req w))"
| own_photos: "own_step E H w (snd (serve_photo E H preq w))"
| own_vault: "vreq \<noteq> P_Reset \<Longrightarrow> own_step E H w (snd (serve_private E depth H og vreq w))"
| own_keys: "own_step E H w (snd (serve_keys E Y H og kreq w))"
| own_resumes: "own_step E H w (snd (serve_resume E Y H rreq w))"
| own_images: "own_step E H w (snd (serve_generated E Y H greq w))"

lemma own_step_settled:
  assumes "resolve_user_id H = Inr u"
  shows "own_step E H w w' \<Longrightarrow> \<not> broken w \<Longrightarrow> balanced w \<Longrightarrow> settled {u} w w'"
  by (cases rule: own_step.cases)
    (auto intro: sound_serve_own [OF assms, unfolded sound_def, rule_format]
      sound_serve_photo [OF assms, unfolded sound_def, rule_format] sound_serve_private [OF assms, unfolded sound_def, rule_format]
      sound_serve_keys [OF assms, unfolded sound_def, rule_format] sound_serve_resume [OF assms, unfolded sound_def, rule_format]
      sound_serve_generated [OF assms, unfolded sound_def, rule_format])



end
