(* ===== verification/FileProps.thy ===== *)
theory FileProps
  imports SystemBooks
begin

text \<open>
  Properties of the file services that do not follow from the books alone: who is refused, what an
  upload costs, what the two checks of an archive accept, which rows a renamed directory moves, and
  what the nightly reconciliation does to archived files.
\<close>

section \<open>Refused requests\<close>

text \<open>
  A request without a usable user identifier is answered with 401, whatever it asks for, and
  leaves the whole state as it is: no row, no call to the store, the RAG service or the User-Service.
\<close>

lemma unauthenticated_refused:
  assumes "resolve_user_id H = Inl e"
  shows "serve E depth api H req w = (Inr (Some (plain_error 401 ''UNAUTHORIZED'')), w)"
proof -
  have "e = Auth_Unauthenticated"
    using assms by (auto simp: resolve_user_id_def split: option.splits)
  with assms have "get_current_user E H w = (Inl Auth_Unauthenticated, w)"
    by (simp add: get_current_user_def bind_def lift_def)
  then show ?thesis
    by (cases req) (simp_all add: serve_def respond_def requested_def bind_def try_except_def)
qed

lemma unauthenticated_refused_witness:
  "serve dark_env 5 (files_api dark_env) Map.empty (R_Delete ''a.pdf'') ledger_world =
    (Inr (Some (plain_error 401 ''UNAUTHORIZED'')), ledger_world)"
  by (rule unauthenticated_refused [of _ Auth_Unauthenticated])
    (simp add: resolve_user_id_def parse_header_uuid_def)

text \<open>What a request reads and writes of the store and of the rows of files.\<close>

definition untouched :: "world \<Rightarrow> world \<Rightarrow> bool" where
  "untouched w w' \<longleftrightarrow> files w' = files w \<and> links w' = links w \<and> quotas w' = quotas w \<and> s3_log w' = s3_log w \<and> cache w' = cache w"

lemma ttl_untouched: "keeps (untouched w) (ttl_get E k)" "keeps (untouched w) (ttl_set E k v)"
  "keeps (untouched w) (get_json E p)"
  unfolding ttl_get_def ttl_set_def get_json_def
  by (auto intro!: keep_rules keeps_modify split: http_outcome.split) (auto simp: keeps_def untouched_def utc_now_def)

lemma session_untouched:
  assumes "\<And>v. keeps (untouched v) m"
  shows "keeps (untouched w) (in_session m)"
proof (rule keepsI)
  fix s assume I: "untouched w s"
  have "untouched s (snd (m s))" by (rule keepsD [OF assms]) (simp add: untouched_def)
  with I show "untouched w (snd (in_session m s))"
    by (auto simp: in_session_def rollback_def untouched_def split: prod.split sum.split)
qed

lemma current_user_untouched: "keeps (untouched w) (get_current_user E H)"
proof -
  have dir: "keeps (untouched w) (get_storage_role E u)" "keeps (untouched w) (get_directory_user E u)" for u
    unfolding get_storage_role_def get_directory_user_def Let_def
    by (auto intro!: keep_rules ttl_untouched split: directory_value.split)
  have atoms: "keeps (untouched v) (insert_user E m)" "keeps (untouched v) (flush_user m)"
    "keeps (untouched v) (utc_now E)" for m v
    by (auto simp: keeps_def untouched_def insert_user_def flush_user_def utc_now_def)
  have "keeps (untouched v) (upsert_from_principal E p)" for p v
    unfolding upsert_from_principal_def sync_projection_def user_by_id_def user_by_email_def Let_def
    by (auto intro!: keep_rules atoms split: exn.split)
  then show ?thesis
    unfolding get_current_user_def Let_def by (intro keep_rules dir session_untouched)
qed

lemma stranger_kept_out:
  assumes "api = shared_api E \<or> api = resumes_api E" and "us_role u \<notin> {FAMILY, ADMIN}"
  shows "fa_service api u w = (Inl (Http_Exception 403 ''ACCESS_DENIED'' None), w)"
  using assms
  by (auto simp: shared_api_def resumes_api_def get_shared_file_service_def get_resumes_file_service_def
      check_role_def bind_def)


definition stranger_headers :: headers where
  "stranger_headers = (sample_headers 3)(HEADER_STORAGE_ROLE \<mapsto> ''STRANGER'')"


section \<open>The two checks of an archive\<close>

lemma backslash_start:
  "starts_with (backslash_to_slash s) ''/'' \<longleftrightarrow> starts_with s ''/'' \<or> starts_with s [CHR 0x5C]"
  by (cases s) (auto simp: starts_with_def backslash_to_slash_def)

lemma zip_target_ok:
  "(\<exists>t. zip_target base e = Inr t) \<longleftrightarrow>
    \<not> starts_with (backslash_to_slash (ze_filename e)) ''/'' \<and>
    ''..'' \<notin> set (path_parts (backslash_to_slash (ze_filename e)))"
  by (auto simp: zip_target_def Let_def backslash_start)

lemma zip_targets_ok: "(\<exists>ts. zip_targets base es = Inr ts) \<longleftrightarrow> (\<forall>e \<in> set es. \<exists>t. zip_target base e = Inr t)"
proof (induction es)
  case (Cons e es)
  then show ?case by (cases "zip_target base e"; cases "zip_targets base es") auto
qed simp

text \<open>
  The check that the endpoint makes of an uploaded archive before it looks at the quota, and the
  check the service makes before it extracts, accept exactly the same archives: those that open,
  have an entry, and whose entries are all relative paths without a parent component.
\<close>

lemma zip_checks_agree:
  "(\<exists>n. validate_zip_archive packed = Inr n) \<longleftrightarrow>
    (\<exists>entries ts. packed = Some entries \<and> entries \<noteq> [] \<and> zip_targets base entries = Inr ts)"
proof (cases packed)
  case (Some es)
  have "(\<exists>n. validate_zip_archive packed = Inr n) \<longleftrightarrow> es \<noteq> [] \<and> (\<forall>e \<in> set es. \<exists>t. zip_target base e = Inr t)"
    unfolding zip_target_ok by (auto simp: Some validate_zip_archive_def Let_def)
  then show ?thesis using zip_targets_ok [of base es] by (simp add: Some)
qed (simp add: validate_zip_archive_def Let_def)

section \<open>Reconciliation\<close>

definition bytes_in :: "file_status \<Rightarrow> uuid \<Rightarrow> world \<Rightarrow> int" where
  "bytes_in st u w =
     sum_list (map fr_size_bytes (filter (\<lambda>r. fr_user_id r = u \<and> fr_status r = st) (files w)))"

lemma active_bytes_split: "active_bytes u w = bytes_in S_COMMITTED u w + bytes_in S_ARCHIVED u w"
proof -
  have "sum_list (map (weight u) fs) =
      sum_list (map fr_size_bytes (filter (\<lambda>r. fr_user_id r = u \<and> fr_status r = S_COMMITTED) fs)) +
      sum_list (map fr_size_bytes (filter (\<lambda>r. fr_user_id r = u \<and> fr_status r = S_ARCHIVED) fs))" for fs
    by (induction fs) (auto simp: weight_def is_active_def)
  then show ?thesis by (simp add: active_bytes_def bytes_in_def)
qed

lemma quota_found: "get_quota u w = Some q \<Longrightarrow> \<not> broken w \<Longrightarrow> get_by_user_id E u w = (Inr q, w)"
  by (simp add: get_by_user_id_def run)

text \<open>
  C34. The nightly reconciliation recomputes the counter of a user from the committed files alone.
  From balanced books it therefore takes the archived files off the counter as soon as they are
  larger than the tolerance of a million bytes together, and leaves the counter alone otherwise.
\<close>

theorem reconcile_forgets_archived:
  assumes "\<not> broken w" and "balanced w" and "get_quota u w \<noteq> None"
    and "reconcile_user E u w = (Inr fixed, w')"
  shows "charged u w' = charged u w -
      (if \<bar>bytes_in S_ARCHIVED u w\<bar> \<le> QUOTA_MISMATCH_THRESHOLD_BYTES then 0 else bytes_in S_ARCHIVED u w) \<and>
    (fixed \<longleftrightarrow> \<bar>bytes_in S_ARCHIVED u w\<bar> > QUOTA_MISMATCH_THRESHOLD_BYTES) \<and> files w' = files w"
proof -
  obtain q where q: "get_quota u w = Some q" using assms(3) by blast
  then have qid: "qu_user_id q = u" by (auto simp: get_quota_def find_Some_iff)
  have total: "qu_total_bytes q = bytes_in S_COMMITTED u w + bytes_in S_ARCHIVED u w"
    using assms(2) q by (simp add: ledger_def charged_def active_bytes_split)
      (metis (no_types, lifting) option.simps(5))
  let ?real = "bytes_in S_COMMITTED u w"
  have run: "reconcile_user E u w =
      (if \<bar>?real - qu_total_bytes q\<bar> \<le> QUOTA_MISMATCH_THRESHOLD_BYTES then (Inr False, w)
       else bind (update_total_bytes E u ?real) (\<lambda>_. ret True) w)"
    using q assms(1)
    by (simp add: reconcile_user_def sum_committed_bytes_by_user_def all_files_def get_by_user_id_def run
        bytes_in_def)
  have diff: "?real - qu_total_bytes q = - bytes_in S_ARCHIVED u w" using total by simp
  show ?thesis
  proof (cases "\<bar>bytes_in S_ARCHIVED u w\<bar> \<le> QUOTA_MISMATCH_THRESHOLD_BYTES")
    case True
    with run assms(4) show ?thesis by (simp add: diff)
  next
    case False
    then have x: "bind (update_total_bytes E u ?real) (\<lambda>_. ret True) w = (Inr fixed, w')"
      using run assms(4) by (simp add: diff)
    then have w': "w' = w\<lparr>quotas := map (\<lambda>x. if qu_user_id x = u then q\<lparr>qu_total_bytes := ?real\<rparr> else x) (quotas w)\<rparr>"
      and fixed: fixed
      using q assms(1) quota_found [OF q assms(1), of E]
      by (auto simp: update_total_bytes_def update_quota_def bind_run split: if_splits)
    have "charged u w' = ?real"
      using q qid by (simp add: charged_def get_quota_def w' find_map_key)
    with False fixed total q show ?thesis by (simp add: charged_def w')
  qed
qed

text \<open>Three million archived bytes, charged.\<close>

definition archived_world :: world where
  "archived_world = ledger_world\<lparr>
     files := [sample_record\<lparr>fr_size_bytes := 3000000, fr_status := S_ARCHIVED, fr_is_archived := True\<rparr>],
     quotas := [\<lparr>qu_user_id = 3, qu_total_bytes = 3000000, qu_limit_bytes = 4000000, qu_private_bytes = 0,
       qu_private_limit_bytes = 0, qu_photos_bytes = 0\<rparr>]\<rparr>"

theorem reconcile_forgets_archived_witness:
  "\<exists>w'. reconcile_user dark_env 3 archived_world = (Inr True, w') \<and> charged 3 archived_world = 3000000 \<and>
     charged 3 w' = 0 \<and> files w' = files archived_world"
proof -
  have defs: "\<not> broken archived_world" "balanced archived_world" "get_quota 3 archived_world \<noteq> None"
    "bytes_in S_ARCHIVED 3 archived_world = 3000000" "charged 3 archived_world = 3000000"
    by (auto simp: archived_world_def ledger_world_def sample_world_def empty_world_def sample_record_def
        ledger_def quota_table_ok_def charged_def get_quota_def active_bytes_def weight_def is_active_def bytes_in_def)
  have "\<exists>w'. reconcile_user dark_env 3 archived_world = (Inr True, w')"
    by (simp add: archived_world_def ledger_world_def sample_world_def empty_world_def sample_record_def
        reconcile_user_def sum_committed_bytes_by_user_def all_files_def get_by_user_id_def get_quota_def
        update_total_bytes_def update_quota_def quota_fits_def big_int_def QUOTA_MISMATCH_THRESHOLD_BYTES_def run)
  then obtain w' where r: "reconcile_user dark_env 3 archived_world = (Inr True, w')" by blast
  from reconcile_forgets_archived [OF defs(1-3) r] r defs(4,5) show ?thesis
    by (auto simp: QUOTA_MISMATCH_THRESHOLD_BYTES_def)
qed

section \<open>Renaming a directory\<close>

text \<open>The rows a renamed directory should take along, and where: a reference by path components.\<close>

definition moved_along :: "uuid \<Rightarrow> file_section \<Rightarrow> string \<Rightarrow> string \<Rightarrow> file_record \<Rightarrow> file_record" where
  "moved_along u sec old_dir new_dir r =
     (let p = split_on (CHR ''/'') (fr_relative_path r); d = split_on (CHR ''/'') old_dir in
      if fr_user_id r = u \<and> fr_section r = sec \<and> fr_status r = S_COMMITTED \<and>
         length d < length p \<and> take (length d) p = d
      then r\<lparr>fr_relative_path := new_dir @ ''/'' @ join_on (CHR ''/'') (drop (length d) p)\<rparr> else r)"

lemma join_on_append:
  "xs \<noteq> [] \<Longrightarrow> ys \<noteq> [] \<Longrightarrow> join_on c (xs @ ys) = join_on c xs @ c # join_on c ys"
proof (induction xs)
  case (Cons x xs)
  then show ?case by (cases "xs = []") (auto simp: join_on_Cons)
qed simp

lemma split_on_below: "split_on c (d @ c # rest) = split_on c d @ split_on c rest"
proof (induction d)
  case Nil
  show ?case by simp
next
  case (Cons x d)
  then show ?case by (cases "split_on c d") (simp_all split: list.split)
qed

lemma split_below:
  "(let p = split_on c s; d = split_on c old_dir in length d < length p \<and> take (length d) p = d) \<longleftrightarrow>
    starts_with s (old_dir @ [c])" (is "?l = ?r")
proof
  assume ?r
  then obtain rest where s: "s = old_dir @ c # rest" by (auto simp: starts_with_iff)
  then have "split_on c s = split_on c old_dir @ split_on c rest" by (simp add: split_on_below)
  then show ?l by (simp add: Let_def)
next
  assume l: ?l
  let ?p = "split_on c s" and ?d = "split_on c old_dir"
  have "?p = ?d @ drop (length ?d) ?p" "drop (length ?d) ?p \<noteq> []"
    using l by (auto simp: Let_def) (metis append_take_drop_id)
  then have "s = join_on c ?d @ c # join_on c (drop (length ?d) ?p)"
    by (metis join_on_append join_split split_on_nonempty)
  then show ?r by (auto simp: starts_with_iff join_split)
qed

lemma new_path_below:
  assumes "starts_with s (old_dir @ [c])"
  shows "drop (length old_dir) s = c # join_on c (drop (length (split_on c old_dir)) (split_on c s))"
proof -
  obtain rest where s: "s = old_dir @ c # rest" using assms by (auto simp: starts_with_iff)
  then show ?thesis by (simp add: split_on_below join_split)
qed

text \<open>
  C29. Where the name of a directory has no wildcard of \<open>LIKE\<close>, the update by path prefix agrees with the
  reference by path components: it moves exactly the committed rows of that user and section that lie
  below the directory, each to the same place below the new one, and changes no other row.
\<close>

theorem directory_rename_moves_descendants:
  assumes "no_wildcard old_dir"
    and "update_relative_path_prefix u sec old_dir new_dir w = (Inr n, w')"
  shows "files w' = map (moved_along u sec old_dir new_dir) (files w)"
proof -
  have "sql_startswith s (old_dir @ ''/'') = starts_with s (old_dir @ ''/'')" for s
    using assms(1) by (intro sql_startswith_exact) (simp add: no_wildcard_def)
  then have "(if fr_user_id r = u \<and> fr_section r = sec \<and> fr_status r = S_COMMITTED \<and>
        sql_startswith (fr_relative_path r) (old_dir @ ''/'')
      then new_prefix_path old_dir new_dir r else r) = moved_along u sec old_dir new_dir r" for r
    using split_below [of "CHR ''/''" "fr_relative_path r" old_dir]
      new_path_below [of "fr_relative_path r" old_dir "CHR ''/''"]
    by (simp add: moved_along_def new_prefix_path_def Let_def)
  with assms(2) show ?thesis
    by (auto simp: update_relative_path_prefix_def flush_files_def Let_def split: if_splits)
qed

definition two_directories :: world where
  "two_directories = ledger_world\<lparr>files := [sample_record\<lparr>fr_relative_path := ''d/docs/a.pdf''\<rparr>,
     sample_record\<lparr>fr_id := 5, fr_relative_path := ''d/docs2/b.pdf''\<rparr>]\<rparr>"

theorem directory_rename_moves_descendants_witness:
  "\<exists>n w'. update_relative_path_prefix 3 FILES ''d/docs'' ''d/old'' two_directories = (Inr n, w') \<and>
     map fr_relative_path (files w') = [''d/old/a.pdf'', ''d/docs2/b.pdf'']"
proof -
  have exec: "\<exists>n w'. update_relative_path_prefix 3 FILES ''d/docs'' ''d/old'' two_directories = (Inr n, w')"
    by (auto simp: update_relative_path_prefix_def flush_files_def Let_def two_directories_def ledger_world_def
        sample_world_def empty_world_def row_fits_def sample_record_def big_int_def new_prefix_path_def)
  then obtain n w' where exec: "update_relative_path_prefix 3 FILES ''d/docs'' ''d/old'' two_directories = (Inr n, w')"
    by blast
  have "no_wildcard ''d/docs''" by (simp add: no_wildcard_def)
  from directory_rename_moves_descendants [OF this exec]
  have "map fr_relative_path (files w') = map (\<lambda>r. fr_relative_path (moved_along 3 FILES ''d/docs'' ''d/old'' r)) (files two_directories)"
    by simp
  also have "\<dots> = [''d/old/a.pdf'', ''d/docs2/b.pdf'']"
    by (simp add: two_directories_def ledger_world_def sample_world_def empty_world_def sample_record_def moved_along_def Let_def)
  finally have "map fr_relative_path (files w') = [''d/old/a.pdf'', ''d/docs2/b.pdf'']" .
  with exec show ?thesis by (intro exI conjI)
qed

lemma sql_like_plain: "no_wildcard a \<Longrightarrow> sql_like (a @ p) (a @ s) = sql_like p s"
  by (induction a) (auto simp: no_wildcard_def)

text \<open>
  C33. An underscore in the name of a renamed directory matches any character: the files of a sibling
  directory that differs only there are moved into the renamed directory too.
\<close>

theorem underscore_rename_takes_sibling:
  assumes "no_wildcard a" and "no_wildcard b"
    and "update_relative_path_prefix u sec (a @ ''_'' @ b) new_dir w = (Inr n, w')"
    and "r \<in> set (files w)" and "fr_user_id r = u" "fr_section r = sec" "fr_status r = S_COMMITTED"
    and path: "fr_relative_path r = a @ [c] @ b @ ''/'' @ rest"
  shows "r\<lparr>fr_relative_path := new_dir @ ''/'' @ rest\<rparr> \<in> set (files w')"
proof -
  have "sql_like ((b @ ''/'') @ ''%'') ((b @ ''/'') @ rest)"
    using assms(2) by (subst sql_like_plain) (simp_all add: no_wildcard_def sql_like_any del: sql_like.simps)
  then have "sql_like (''_'' @ b @ ''/'' @ ''%'') ([c] @ b @ ''/'' @ rest)" by simp
  then have "sql_startswith (fr_relative_path r) ((a @ ''_'' @ b) @ ''/'')"
    using sql_like_plain [OF assms(1), of "''_'' @ b @ ''/'' @ ''%''" "[c] @ b @ ''/'' @ rest"]
    by (simp add: sql_startswith_def path del: sql_like.simps)
  moreover have "new_prefix_path (a @ ''_'' @ b) new_dir r = r\<lparr>fr_relative_path := new_dir @ ''/'' @ rest\<rparr>"
    by (simp add: new_prefix_path_def path)
  ultimately show ?thesis
    using assms(3-7)
    by (auto simp: update_relative_path_prefix_def flush_files_def Let_def rev_image_eqI split: if_splits)
qed

theorem underscore_rename_takes_sibling_witness:
  "\<exists>n w'. update_relative_path_prefix 3 FILES ''d/my_docs'' ''d/old''
      (ledger_world\<lparr>files := [sample_record\<lparr>fr_relative_path := ''d/my-docs/a.pdf''\<rparr>]\<rparr>) = (Inr n, w') \<and>
     sample_record\<lparr>fr_relative_path := ''d/old/a.pdf''\<rparr> \<in> set (files w')"
proof -
  let ?r = "sample_record\<lparr>fr_relative_path := ''d/my-docs/a.pdf''\<rparr>"
  let ?w = "ledger_world\<lparr>files := [?r]\<rparr>"
  have exec: "\<exists>n w'. update_relative_path_prefix 3 FILES (''d/my'' @ ''_'' @ ''docs'') ''d/old'' ?w = (Inr n, w')"
    by (auto simp: update_relative_path_prefix_def flush_files_def Let_def ledger_world_def
        sample_world_def empty_world_def row_fits_def sample_record_def big_int_def new_prefix_path_def)
  then obtain n w' where exec: "update_relative_path_prefix 3 FILES (''d/my'' @ ''_'' @ ''docs'') ''d/old'' ?w = (Inr n, w')"
    by blast
  have "?r\<lparr>fr_relative_path := ''d/old'' @ ''/'' @ ''a.pdf''\<rparr> \<in> set (files w')"
    by (rule underscore_rename_takes_sibling [OF _ _ exec, where c = "CHR ''-''"])
      (simp_all add: no_wildcard_def sample_record_def)
  with exec show ?thesis by simp
qed

section \<open>What an upload costs\<close>

definition priced :: "uuid \<Rightarrow> int \<Rightarrow> world \<Rightarrow> bool" where
  "priced u c w \<longleftrightarrow> broken w \<or> charged u w = c"

lemma steady_priced [intro]: "steady (priced u c)"
  by (auto simp: steady_def priced_def same_files_def charged_def get_quota_def)

lemma get_quota_append:
  assumes "get_quota u w = None" and "qu_user_id q = u"
  shows "get_quota v (w\<lparr>quotas := quotas w @ [q]\<rparr>) = (if v = u then Some q else get_quota v w)"
proof -
  have "u \<notin> qu_user_id ` set (quotas w)" using assms(1) by (auto simp: get_quota_def find_None_iff)
  from find_append_key [OF this assms(2)] show ?thesis by (simp add: get_quota_def)
qed

lemma get_by_user_priced:
  "triple (priced v c) (get_by_user_id E u)
    (\<lambda>q w. priced v c w \<and> (broken w \<or> get_quota u w = Some q)) (\<lambda>_ w. broken w)"
proof (rule tripleI)
  fix w q w'
  assume pre: "priced v c w" and exec: "get_by_user_id E u w = (Inr q, w')"
  show "priced v c w' \<and> (broken w' \<or> get_quota u w' = Some q)"
  proof (cases "get_quota u w")
    case None
    with exec have q: "qu_user_id q = u" "qu_total_bytes q = 0" and w': "w' = w\<lparr>quotas := quotas w @ [q]\<rparr>"
      by (auto simp: get_by_user_id_def insert_quota_def run Let_def split: if_splits)
    from None q pre show ?thesis by (auto simp: priced_def charged_def w' get_quota_append)
  qed (use pre exec in \<open>auto simp: get_by_user_id_def run split: if_splits\<close>)
qed (auto simp: get_by_user_id_def insert_quota_def run Let_def split: if_splits option.splits)

lemma increment_priced:
  "triple (priced u c) (increment E u k sec) (\<lambda>_. priced u (c + k)) (\<lambda>_ w. broken w)"
  unfolding increment_def
proof (rule triple_bind [OF get_by_user_priced], rule tripleI)
  fix q w x w'
  assume pre: "priced u c w \<and> (broken w \<or> get_quota u w = Some q)"
    and exec: "update_quota u (\<lambda>q. q\<lparr>qu_total_bytes := qu_total_bytes q + k,
       qu_private_bytes := (if sec = PRIVATE then qu_private_bytes q + k else qu_private_bytes q),
       qu_photos_bytes := (if sec = PHOTOS then qu_photos_bytes q + k else qu_photos_bytes q)\<rparr>) w = (Inr x, w')"
  then have q: "get_quota u w = Some q" "qu_total_bytes q = c" "qu_total_bytes x = c + k" "qu_user_id x = qu_user_id q"
    and w': "w' = w\<lparr>quotas := map (\<lambda>y. if qu_user_id y = u then x else y) (quotas w)\<rparr>"
    by (auto simp: update_quota_def priced_def charged_def split: if_splits)
  then have "qu_user_id x = u" by (auto simp: get_quota_def find_Some_iff)
  with q w' show "priced u (c + k) w'" by (simp add: priced_def charged_def get_quota_def find_map_key)
qed (auto simp: update_quota_def split: if_splits option.splits)

lemma files_priced: "keeps (priced u c) (change_file f change)"
  "triple (priced u c) (create_file E v d p nm n mime enc sec st) (\<lambda>_. priced u c) (\<lambda>_ _. True)"
proof -
  have "keeps (priced u c) (flush_file r)" for r
    by (auto simp: keeps_def flush_file_def priced_def charged_def get_quota_def)
  then show "keeps (priced u c) (change_file f change)" unfolding change_file_def by (intro keep_rules)
  have "keeps (priced u c) (insert_file r)" for r
    by (auto simp: keeps_def insert_file_def priced_def charged_def get_quota_def)
  then have "keeps (priced u c) (create_file E v d p nm n mime enc sec st)"
    unfolding create_file_def Let_def
    by (intro keep_rules rowless_steady_keeps [OF rowless_new_uuid steady_priced] rowless_steady_keeps [OF rowless_utc_now steady_priced])
  from triple_keeps [OF this]
  show "triple (priced u c) (create_file E v d p nm n mime enc sec st) (\<lambda>_. priced u c) (\<lambda>_ _. True)"
    by (rule triple_weaken) auto
qed

context file_desk begin

lemma upload_priced:
  "triple (priced u c) (upload_file S u path filename data n sec) (\<lambda>_. priced u (c + n)) (\<lambda>_ _. True)"
proof -
  note seq = quiet_seq [OF _ steady_priced]
  have enq: "triple (priced u k) (bind (enqueue_upload (fs_env S) (fs_index S) r) (\<lambda>_. ret r)) (\<lambda>_. priced u k) (\<lambda>_ _. True)" for r k
    by (rule seq [OF enqueue_quiet(1) [OF index]]) (auto intro: triple_ret)
  have status: "triple (priced u c) (update_status f st h p nm) (\<lambda>_. priced u c) (\<lambda>_ _. True)" for f st h p nm
    unfolding update_status_def by (rule triple_weaken [OF triple_keeps [OF files_priced(1)]]) auto
  have inc: "triple (priced u c) (increment (fs_env S) u n sec) (\<lambda>_. priced u (c + n)) (\<lambda>_ _. True)"
    by (rule triple_weaken [OF increment_priced]) auto
  have "triple (priced u c) (store_upload S u r tmp final_path data n sec) (\<lambda>_. priced u (c + n)) (\<lambda>_ _. True)" for r tmp final_path
    unfolding store_upload_def
    by (intro seq [OF quiet_storage(3)] seq [OF quiet_storage(6)] seq [OF quiet_to_disk] triple_bind [OF status]
        triple_option triple_raise triple_bind [OF inc] enq) auto
  then show ?thesis
    unfolding upload_file_def Let_def
    by (intro seq [OF quiet_to_disk] triple_bind [OF files_priced(2)] triple_try [OF _ triple_reraise(2)]) auto
qed

end

text \<open>The limit of a user; a user without a row gets the default.\<close>

definition limit_of :: "env \<Rightarrow> uuid \<Rightarrow> world \<Rightarrow> int" where
  "limit_of E u w = (case get_quota u w of None \<Rightarrow> default_user_quota_bytes E | Some q \<Rightarrow> qu_limit_bytes q)"

lemma quota_checked:
  assumes "ensure_upload_quota E u n w = (Inr q, w')"
  shows "charged u w' = charged u w \<and> (limit_of E u w \<le> 0 \<or> charged u w + n \<le> limit_of E u w) \<and> \<not> broken w \<and> \<not> broken w'"
proof -
  obtain usage where g: "get_by_user_id E u w = (Inr usage, w')" and q: "\<not> would_exceed (total_quota usage) n"
    using assms by (auto simp: ensure_upload_quota_def bind_Inr Let_def split: if_splits)
  have b: "\<not> broken w" "\<not> broken w'"
    using g by (auto simp: get_by_user_id_def insert_quota_def run Let_def split: if_splits option.splits)
  have c: "charged u w' = charged u w"
    using tripleD [OF get_by_user_priced [of u "charged u w"], of w] g b by (auto simp: priced_def)
  have "qu_limit_bytes usage = limit_of E u w \<and> qu_total_bytes usage = charged u w"
    using g b by (auto simp: get_by_user_id_def limit_of_def charged_def run Let_def
        split: if_splits option.splits prod.splits sum.splits)
  with q b c show ?thesis
    by (cases "limit_of E u w \<le> 0") (auto simp: would_exceed_def is_unlimited_def total_quota_def)
qed

lemma quiet_session_quotas: "quiet m \<Longrightarrow> quotas (snd (in_session m w)) = quotas w"
  by (cases "m w") (auto simp: in_session_def rollback_def same_files_def dest: quietD split: sum.split)

lemma deliver_quotas: "quotas (snd (deliver_immediate_index_notifications E ids w)) = quotas w"
proof -
  have "quiet (notify_index_links E (sql_links E) (root_objects E) ids None)" for ids
    by (simp add: quiet_def files_alone.notify_keeps root_objects_port)
  from quiet_session_quotas [OF this] show ?thesis
    by (auto simp: deliver_immediate_index_notifications_def Let_def try_except_def split: prod.split sum.split)
      (metis snd_conv)+
qed

lemma committed_inner:
  assumes "committed E api m w = (Inr x, w')"
  obtains w0 w1 where "m w0 = (Inr x, w1)" "\<not> broken w1" "quotas w' = quotas w1" "quotas w0 = quotas w"
proof (cases "fa_notifies api")
  case False
  with assms that [of w w'] show ?thesis by (auto simp: committed_def in_session_Inr)
next
  case True
  with assms obtain ids w1 d where cap: "capture_immediate_index_ids (in_session m) w = (Inr (x, ids), w1)"
    and del: "deliver_immediate_index_notifications E ids w1 = (Inr d, w')"
    by (auto simp: committed_def bind_Inr)
  obtain r w2 where s: "in_session m (w\<lparr>captured := Some []\<rparr>) = (r, w2)" by fastforce
  with cap have "r = Inr x" and w1: "w1 = w2\<lparr>captured := captured w\<rparr>"
    by (auto simp: capture_immediate_index_ids_def Let_def map_sum_Inr_iff)
  with s have "m (w\<lparr>captured := Some []\<rparr>) = (Inr x, w2)" "\<not> broken w2" by (simp_all add: in_session_Inr)
  moreover have "quotas w' = quotas w2" using deliver_quotas [of E ids w1] del w1 by simp
  ultimately show ?thesis by (rule that) simp_all
qed

text \<open>
  C9. An upload to the files of a user that is answered with success adds exactly the size of the
  uploaded body to the user's counter, and the counter is then within the user's limit; a limit of zero
  or less is none. Users without a quota row have the default limit.
\<close>

theorem upload_stays_within_limit:
  assumes "get_file_service E v w0 = (Inr S, w)"
    and "upload_endpoint E (files_api E) S v path f w = (Inr resp, w')"
  shows "charged (us_id v) w' = charged (us_id v) w + file_size_of f \<and>
    (limit_of E (us_id v) w \<le> 0 \<or> charged (us_id v) w' \<le> limit_of E (us_id v) w)"
proof -
  let ?u = "us_id v" and ?n = "file_size_of f"
  obtain name r where c: "committed E (files_api E) (bind (ensure_upload_quota E ?u ?n) (\<lambda>_.
      upload_file S ?u (normalize_api_path path) name (iter_upload_chunks f) ?n (fa_section (files_api E)))) w = (Inr r, w')"
    using assms(2) by (auto simp: upload_endpoint_def bind_Inr lift_Inr)
  obtain w1 w2 where inner: "bind (ensure_upload_quota E ?u ?n) (\<lambda>_.
      upload_file S ?u (normalize_api_path path) name (iter_upload_chunks f) ?n (fa_section (files_api E))) w1 = (Inr r, w2)"
    and w2: "\<not> broken w2" "quotas w' = quotas w2" and w1: "quotas w1 = quotas w"
    by (rule committed_inner [OF c])
  then obtain q w3 where q: "ensure_upload_quota E ?u ?n w1 = (Inr q, w3)"
    and up: "upload_file S ?u (normalize_api_path path) name (iter_upload_chunks f) ?n (fa_section (files_api E)) w3 = (Inr r, w2)"
    by (auto simp: bind_Inr)
  obtain disk p where S: "S = plain_service E (create_storage_adapter E disk p) FILES (Some (sql_links E))"
    using service_Inr(1) [OF assms(1)] by blast
  have "charged ?u w3 = charged ?u w1" and lim: "limit_of E ?u w1 \<le> 0 \<or> charged ?u w1 + ?n \<le> limit_of E ?u w1"
    using quota_checked [OF q] by blast+
  then have "priced ?u (charged ?u w1) w3" by (simp add: priced_def)
  from tripleD [OF files_desk.desk.upload_priced, OF this, of E disk p] up S
  have "priced ?u (charged ?u w1 + ?n) w2" by blast
  with w1 w2 lim show ?thesis by (simp add: priced_def charged_def limit_of_def get_quota_def)
qed

end
