(* ===== verification/RoundTrips.thy ===== *)
theory RoundTrips
  imports FileProps S3Spec
begin

text \<open>
  Round trips through the service, the repositories and a reliable object store: a file that is
  uploaded is read back, and a file that the archive job compressed is read back as it was.
\<close>

section \<open>One step after another\<close>

lemma rows_frame: "same_rows w w' \<Longrightarrow> get_file i w' = get_file i w \<and> get_quota u w' = get_quota u w \<and> (broken w' = broken w)"
  by (simp add: same_rows_def get_file_def get_quota_def)

lemma write_reached:
  assumes "reliable B (sa_env A)" and "file_key A path = Some key" and "source_error data = None"
  obtains w' where "st_write (s3_storage A) path data n w = (Inr (sha256_hex (sa_env A) (source_bytes data)), w')"
    "same_rows w w'" "objects (stored B w') = (objects (stored B w))(key := Some (source_bytes data))"
proof -
  obtain w' where w': "s3_write A path data n w = (Inr (sha256_hex (sa_env A) (source_bytes data)), w')"
    "objects (stored B w') = (objects (stored B w))(key := Some (source_bytes data))"
    by (rule s3_write_ok [OF assms])
  have "rowless (s3_write A path data n)" using s3.storage_rowless(3) [of A path] by (simp add: s3_storage_def)
  then have "same_rows w w'" using w'(1) by (rule rowlessD)
  with w' show ?thesis by (intro that) (simp_all add: s3_storage_def)
qed

lemma rename_reached:
  assumes "reliable B (sa_env A)" and "file_key A old = Some k" "file_key A new = Some k'" "k \<noteq> k'"
    and "objects (stored B w) k = Some b"
  obtains w' where "st_rename (s3_storage A) old new w = (Inr (), w')" "same_rows w w'"
    "objects (stored B w') = (objects (stored B w))(k' := Some b, k := None)"
proof -
  obtain w' where w': "s3_rename A old new w = (Inr (), w')"
    "objects (stored B w') = (objects (stored B w))(k' := Some b, k := None)"
    using s3_rename_ok [OF assms] by blast
  have "rowless (s3_rename A old new)" using s3.storage_rowless(6) [of A old new] by (simp add: s3_storage_def)
  then have "same_rows w w'" using w'(1) by (rule rowlessD)
  with w' show ?thesis by (intro that) (simp_all add: s3_storage_def)
qed

lemma read_reached:
  assumes "reliable B (sa_env A)" and "file_key A path = Some key" and "objects (stored B w) key = Some b"
  obtains w' where "st_read (s3_storage A) path w = (Inr b, w')" "same_rows w w'" "stored B w' = stored B w"
proof -
  obtain w' where w': "s3_read A path w = (case objects (stored B w) key of
      None \<Rightarrow> Inl Storage_File_Not_Found | Some b \<Rightarrow> Inr b, w')" "stored B w' = stored B w"
    by (rule s3_read_ok [OF assms(1,2)])
  have "rowless (s3_read A path)" using s3.storage_rowless(2) [of A path] by (simp add: s3_storage_def)
  then have "same_rows w w'" using w'(1) by (rule rowlessD)
  with w' assms(3) show ?thesis by (intro that [of w']) (simp_all add: s3_storage_def)
qed

section \<open>Uploading\<close>

definition committed_record ::
  "env \<Rightarrow> uuid \<Rightarrow> string \<Rightarrow> string \<Rightarrow> string \<Rightarrow> int \<Rightarrow> file_section \<Rightarrow> bytes \<Rightarrow> world \<Rightarrow> file_record" where
  "committed_record E u disk_id disk_path name n sec b w =
     \<lparr>fr_id = uuid4 E (minted w), fr_user_id = u, fr_disk_id = disk_id, fr_relative_path = disk_path,
      fr_original_name = name, fr_size_bytes = n, fr_mime_type = mime_type_of E name,
      fr_is_encrypted = (sec = PRIVATE), fr_section = sec, fr_status = S_COMMITTED,
      fr_checksum_sha256 = Some (sha256_hex E b), fr_created_at = clock E (tick w),
      fr_last_accessed_at = clock E (tick w), fr_is_archived = False, fr_archive_path = None\<rparr>"

definition charge :: "int \<Rightarrow> file_section \<Rightarrow> quota_usage \<Rightarrow> quota_usage" where
  "charge n sec q = q\<lparr>qu_total_bytes := qu_total_bytes q + n,
     qu_private_bytes := (if sec = PRIVATE then qu_private_bytes q + n else qu_private_bytes q),
     qu_photos_bytes := (if sec = PHOTOS then qu_photos_bytes q + n else qu_photos_bytes q)\<rparr>"

lemma replace_last: "fr_id r' \<notin> fr_id ` set fs \<Longrightarrow> fr_id r = fr_id r' \<Longrightarrow> replace_file r' (fs @ [r]) = fs @ [r']"
  by (simp add: replace_file_def) (rule map_idI, auto simp: rev_image_eqI)

lemma upload_file_ok:
  fixes A :: s3_adapter
  assumes S: "fs_adapter S = s3_storage A" "fs_env S = sa_env A" "queue_of (sa_env A) (fs_index S) = None"
    and rel: "reliable B (sa_env A)" and src: "source_error data = None"
    and final: "final = join_path (normalize_path path) name" "to_disk_relative_path (s3_storage A) final = Inr dp"
    and r: "r = committed_record (sa_env A) u (sa_disk_id A) dp name n sec (source_bytes data) w"
    and keys: "file_key A (join_path TMP_DIR (uuid_str (fr_id r))) = Some kt" "file_key A final = Some k" "kt \<noteq> k"
    and new: "fr_id r \<notin> fr_id ` set (files w)" "u \<in> ur_id ` set (users w)" "\<not> broken w" "row_fits r"
    and quota: "get_quota u w = Some q" "quota_fits (charge n sec q)"
  obtains w' where "upload_file S u path name data n sec w = (Inr r, w')" "files w' = files w @ [r]" "\<not> broken w'"
    "objects (stored B w') = (objects (stored B w))(k := Some (source_bytes data), kt := None)"
proof -
  let ?E = "sa_env A" and ?tmp = "join_path TMP_DIR (uuid_str (fr_id r))" and ?b = "source_bytes data"
  let ?r0 = "r\<lparr>fr_status := S_PENDING, fr_checksum_sha256 := None\<rparr>"
  let ?w1 = "w\<lparr>tick := Suc (tick w), minted := Suc (minted w), files := files w @ [?r0]\<rparr>"
  have 1: "create_file ?E u (sa_disk_id A) dp name n (mime_type_of ?E name) (sec = PRIVATE) sec S_PENDING w = (Inr ?r0, ?w1)"
    using new by (auto simp: create_file_def insert_file_def run r committed_record_def row_fits_def Let_def)
  obtain w2 where 2: "st_write (s3_storage A) ?tmp data n ?w1 = (Inr (sha256_hex ?E ?b), w2)" "same_rows ?w1 w2"
    "objects (stored B w2) = (objects (stored B ?w1))(kt := Some ?b)"
    by (rule write_reached [OF rel keys(1) src])
  obtain w3 where 3: "st_rename (s3_storage A) ?tmp final w2 = (Inr (), w3)" "same_rows w2 w3"
    "objects (stored B w3) = (objects (stored B w2))(k := Some ?b, kt := None)"
    by (rule rename_reached [OF rel keys(1,2,3), of w2 ?b]) (simp_all add: 2)
  have rows: "files w3 = files w @ [?r0]" "quotas w3 = quotas w" "\<not> broken w3"
    using 2(2) 3(2) new by (simp_all add: same_rows_def)
  let ?w4 = "w3\<lparr>files := files w @ [r]\<rparr>"
  have g: "get_file (fr_id r) w3 = Some ?r0"
    using new(1) by (simp add: get_file_def rows find_append_new)
  have up: "?r0\<lparr>fr_status := S_COMMITTED, fr_checksum_sha256 := Some (sha256_hex ?E ?b), fr_relative_path := dp,
      fr_original_name := name\<rparr> = r"
    by (simp add: r committed_record_def)
  have 4: "update_status (fr_id r) S_COMMITTED (Some (sha256_hex ?E ?b)) (Some dp) None w3 = (Inr (Some r), ?w4)"
    using g rows new replace_last [of r "files w" ?r0] up
    by (simp add: update_status_def change_file_def flush_file_def run)
       (simp add: r committed_record_def)
  let ?w5 = "?w4\<lparr>quotas := map (\<lambda>x. if qu_user_id x = u then charge n sec q else x) (quotas w)\<rparr>"
  have q4: "get_quota u ?w4 = Some q" using quota(1) rows by (simp add: get_quota_def)
  have 5: "increment ?E u n sec ?w4 = (Inr (charge n sec q), ?w5)"
    using quota_found [OF q4, of ?E] q4 quota(2) rows
    by (simp add: increment_def bind_run update_quota_def charge_def)
  have td: "to_disk S final v = (Inr dp, v)" for v by (simp add: to_disk_def S final(2) lift_def)
  have store: "store_upload S u ?r0 ?tmp final data n sec ?w1 = (Inr r, ?w5)"
    using 2(1) 3(1) td 4 5 by (simp add: store_upload_def S bind_run enqueue_upload_def)
  have "upload_file S u path name data n sec w = (Inr r, ?w5)"
    using td 1 store by (simp add: upload_file_def S Let_def final(1) [symmetric] bind_run try_run s3_storage_def)
  moreover have "objects (stored B ?w5) = (objects (stored B w))(k := Some ?b, kt := None)"
    using 2(3) 3(3) keys(3) by (auto simp: stored_def fun_eq_iff)
  ultimately show ?thesis using rows by (intro that [of ?w5]) simp_all
qed

section \<open>Reading\<close>

lemma one_match: "filter P xs = [] \<Longrightarrow> P x \<Longrightarrow> filter P (xs @ [x]) = [x]"
  by simp

lemma lookup_new:
  assumes "files w = fs @ [r]" and "\<not> broken w" and "dp \<notin> fr_relative_path ` set fs"
    and r: "fr_relative_path r = dp" "fr_section r = fs_section S" "is_active r" "fr_user_id r = u"
    and path: "to_disk_relative_path (fs_adapter S) final = Inr dp"
  shows "get_record_by_section_path S u final (fs_section S) w = (Inr (Some r), w)"
proof -
  have "filter (\<lambda>x. fr_user_id x = u \<and> fr_relative_path x = dp \<and> fr_section x = fs_section S \<and> is_active x) fs = []"
    "filter (\<lambda>x. fr_relative_path x = dp \<and> fr_section x = fs_section S \<and> is_active x) fs = []"
    using assms(3) by (auto simp: filter_empty_conv)
  then show ?thesis
    using assms
    by (cases "fs_section S = SHARED") (simp_all add: get_record_by_section_path_def to_disk_def lift_def run some_file_def one_or_none_def
        get_downloadable_by_relative_path_def get_downloadable_by_relative_path_in_section_def)
qed

lemma touch_ok:
  assumes "get_file i w = Some r" and "row_fits r" and "\<not> broken w"
  obtains w' where "touch_last_accessed E i w = (Inr (), w')" "s3_log w' = s3_log w"
proof -
  have "row_fits (r\<lparr>fr_last_accessed_at := t\<rparr>)" for t using assms(2) by (simp add: row_fits_def)
  with assms that show ?thesis by (simp add: touch_last_accessed_def flush_file_def run)
qed


text \<open>A user uploads three bytes to the resumes; the reference store is up.\<close>

definition store_env :: env where
  "store_env = sample_env (\<lambda>_ _. Reply_Crash) reference_store"

definition resumes_adapter :: s3_adapter where
  "resumes_adapter = \<lparr>sa_env = store_env, sa_disk_id = ''storage'', sa_root_prefix = ''users/3/resumes''\<rparr>"

definition resumes_service :: file_service where
  "resumes_service = plain_service store_env (s3_storage resumes_adapter) RESUMES None"

lemma store_env_reliable: "reliable empty_bucket store_env"
  by (rule reference_store_reliable) (simp add: store_env_def sample_env_def)


section \<open>Archiving\<close>

lemma exists_reached:
  assumes "reliable B (sa_env A)" and "file_key A path = Some key" and "objects (stored B w) key = Some b"
  obtains w' where "st_exists (s3_storage A) path w = (Inr True, w')" "same_rows w w'" "stored B w' = stored B w"
proof -
  obtain w' where "head_exists (sa_env A) key w = (Inr (key \<noteq> [] \<and> objects (stored B w) key \<noteq> None), w')"
    "stored B w' = stored B w" by (rule head_exists_iff [OF assms(1)])
  then have w': "s3_exists A path w = (Inr True, w')" "stored B w' = stored B w"
    using file_keyD [OF assms(2)] assms(3) by (simp_all add: s3_exists_def bind_def lift_def)
  have "rowless (s3_exists A path)" using s3.storage_rowless(7) [of A path] by (simp add: s3_storage_def)
  then have "same_rows w w'" using w'(1) by (rule rowlessD)
  with w' show ?thesis by (intro that [of w']) (simp_all add: s3_storage_def)
qed

lemma delete_reached:
  assumes "reliable B (sa_env A)" and "file_key A path = Some key" and "objects (stored B w) key = Some b"
    and "sa_root_prefix A = []"
  obtains w' where "st_delete (s3_storage A) path w = (Inr (), w')" "same_rows w w'"
    "objects (stored B w') = (\<lambda>k. if k = key \<or> starts_with k (key @ ''/'') then None else objects (stored B w) k)"
proof -
  have key: "object_key [] path False = Inr key" "key \<noteq> []" using file_keyD [OF assms(2)] assms(4) by auto
  then obtain l where l: "safe_logical_key path = Inr l" "l \<noteq> [] \<or> sa_root_prefix A \<noteq> []"
    by (auto simp: object_key_def map_sum_Inr_iff Let_def split: if_splits)
  have "objects (stored B w) key \<noteq> None \<or> keys_with (stored B w) (key @ ''/'') \<noteq> {}" using assms(3) by simp
  from s3_delete_ok [OF assms(1,2) this l] obtain w' where w': "s3_delete A path w = (Inr (), w')"
    "objects (stored B w') = (\<lambda>k. if k = key \<or> starts_with k (key @ ''/'') then None else objects (stored B w) k)"
    by blast
  have "rowless (s3_delete A path)" using s3.storage_rowless(4) [of A path] by (simp add: s3_storage_def)
  then have "same_rows w w'" using w'(1) by (rule rowlessD)
  with w' show ?thesis by (intro that [of w']) (simp_all add: s3_storage_def)
qed

lemma enqueue_archived_log:
  assumes "sql_index E index"
  shows "keeps (\<lambda>w. s3_log w = l) (enqueue_archived E index r)"
proof -
  have atoms: "keeps (\<lambda>w. s3_log w = l) (flush_link m)" "keeps (\<lambda>w. s3_log w = l) (utc_now E)" for m
    by (auto simp: keeps_def flush_link_def utc_now_def Let_def)
  have "keeps (\<lambda>w. s3_log w = l) (mark_archived E f now)" for f now
    unfolding mark_archived_def apply_transition_def model_by_file_record_id_def moment_def refuse_model_def Let_def
    by (auto intro!: keep_rules atoms)
  with assms show ?thesis
    unfolding enqueue_archived_def queue_of_def sql_index_def except_private_def by (auto intro!: keep_rules split: if_splits exn.split)
qed

text \<open>
  C7. The daily job archives a file of a reliable store without loss: whatever the index queue says to
  it, the record is then marked archived, the plain object is gone, and the archived one decompresses to
  the bytes the file had. That \<open>zstd\<close> decompresses what it compressed is assumed.
\<close>

theorem archive_then_read:
  assumes A: "A = new_s3_adapter E (fr_disk_id r) []"
    and rel: "reliable B E" and zstd: "\<And>x. zstd_decompress E (zstd_compress E x) = Some x"
    and index: "sql_index E index"
    and row: "get_file (fr_id r) w = Some r" "row_fits r" "\<not> broken w" "\<not> fr_is_encrypted r"
    and keys: "file_key A (fr_relative_path r) = Some k"
      "file_key A (fr_relative_path r @ ARCHIVE_EXTENSION) = Some (k @ ARCHIVE_EXTENSION)"
    and body: "objects (stored B w) k = Some b"
  shows "\<exists>res w1 w2 c. archive_record E index r w = (res, w1) \<and> get_file (fr_id r) w1 = Some c \<and>
    fr_is_archived c \<and> fr_status c = S_ARCHIVED \<and> objects (stored B w1) k = None \<and>
    stream_decompressed_archived E c None w1 = (Inr b, w2)"
proof -
  have "strip_slash (strip []) = []" by code_simp
  then have E: "sa_env A = E" "sa_root_prefix A = []" by (simp_all add: A new_s3_adapter_def)
  have adapter: "build_disk_root_adapter E (fr_disk_id r) = s3_storage A"
    by (simp add: build_disk_root_adapter_def create_storage_adapter_def A)
  have relA: "reliable B (sa_env A)" using rel E by simp
  let ?p = "fr_relative_path r" and ?k' = "k @ ARCHIVE_EXTENSION" and ?packed = "zstd_compress E b"
  let ?c = "r\<lparr>fr_is_archived := True, fr_status := S_ARCHIVED, fr_archive_path := Some (?p @ ARCHIVE_EXTENSION)\<rparr>"
  obtain w1 where 1: "st_exists (s3_storage A) ?p w = (Inr True, w1)" "same_rows w w1" "stored B w1 = stored B w"
    by (rule exists_reached [OF relA keys(1) body])
  have body1: "objects (stored B w1) k = Some b" using 1(3) body by simp
  obtain w2 where 2: "st_read (s3_storage A) ?p w1 = (Inr b, w2)" "same_rows w1 w2" "stored B w2 = stored B w1"
    by (rule read_reached [OF relA keys(1) body1])
  have src: "source_error (whole_source ?packed) = None" by (simp add: whole_source_def)
  obtain w3 where 3: "st_write (s3_storage A) (?p @ ARCHIVE_EXTENSION) (whole_source ?packed) (int (length ?packed)) w2 =
      (Inr (sha256_hex E (source_bytes (whole_source ?packed))), w3)" "same_rows w2 w3"
    "objects (stored B w3) = (objects (stored B w2))(?k' := Some (source_bytes (whole_source ?packed)))"
    by (rule write_reached [OF relA keys(2) src, unfolded E(1)])
  have k': "k \<noteq> ?k'" "\<not> starts_with ?k' (k @ ''/'')" by (simp_all add: ARCHIVE_EXTENSION_def starts_with_def)
  have body3: "objects (stored B w3) k = Some b" using 3(3) 2(3) body1 k' by simp
  obtain w4 where 4: "st_delete (s3_storage A) ?p w3 = (Inr (), w4)" "same_rows w3 w4"
    "objects (stored B w4) = (\<lambda>x. if x = k \<or> starts_with x (k @ ''/'') then None else objects (stored B w3) x)"
    by (rule delete_reached [OF relA keys(1) body3 E(2)])
  have rows: "files w4 = files w" "\<not> broken w4"
    using 1(2) 2(2) 3(2) 4(2) row(3) by (simp_all add: same_rows_def)
  let ?w5 = "w4\<lparr>files := replace_file ?c (files w)\<rparr>"
  have 5: "mark_file_archived (fr_id r) (?p @ ARCHIVE_EXTENSION) w4 = (Inr (Some ?c), ?w5)"
    using row rows by (simp add: mark_file_archived_def change_file_def flush_file_def run get_file_def row_fits_def)
  obtain res w6 where 6: "enqueue_archived E index r ?w5 = (res, w6)" by fastforce
  have log: "s3_log w6 = s3_log ?w5" by (rule keepsD_run [OF enqueue_archived_log [OF index] refl 6])
  have "files w6 = files ?w5" using quietD [OF enqueue_quiet(6) [OF index] 6] by (simp add: same_files_def)
  then have g: "get_file (fr_id r) w6 = Some ?c" using row(1) by (simp add: get_file_def find_replace_file)
  have objs: "objects (stored B w6) k = None" "objects (stored B w6) ?k' = Some ?packed"
    using 4(3) 3(3) k' log by (simp_all add: stored_def whole_source_def)
  have exec: "archive_record E index r w = (case res of Inl e \<Rightarrow> Inl e | Inr x \<Rightarrow> Inr True, w6)"
    using 1(1) 2(1) 3(1) 4(1) 5 6 row(4)
    by (simp add: archive_record_def adapter compress_def VALID_COMPRESS_MODES_def bind_run Let_def split: sum.split)
  obtain w7 where 7: "st_read (s3_storage A) (?p @ ARCHIVE_EXTENSION) w6 = (Inr ?packed, w7)"
    by (rule read_reached [OF relA keys(2) objs(2)])
  then have "stream_decompressed_archived E ?c None w6 = (Inr b, w7)"
    using row(4) zstd adapter by (simp add: stream_decompressed_archived_def ARCHIVE_EXTENSION_def bind_run)
  with exec g objs(1) show ?thesis by (intro exI conjI) simp_all
qed

text \<open>A stored file of two bytes, due for the archive.\<close>

definition due_world :: world where
  "due_world = ledger_world\<lparr>s3_log := [(Put_Object ''users/3/files/a.pdf'' [1, 2], S3_Done)]\<rparr>"

theorem archive_then_read_witness:
  "\<exists>res w1 w2 c. archive_record store_env (Some (sql_links store_env)) sample_record due_world = (res, w1) \<and>
     get_file 2 w1 = Some c \<and> fr_is_archived c \<and> fr_status c = S_ARCHIVED \<and>
     objects (stored empty_bucket w1) ''users/3/files/a.pdf'' = None \<and>
     stream_decompressed_archived store_env c None w1 = (Inr [1, 2], w2)"
proof -
  let ?A = "new_s3_adapter store_env (fr_disk_id sample_record) []"
  have zstd: "zstd_decompress store_env (zstd_compress store_env x) = Some x" for x
    by (simp add: store_env_def sample_env_def)
  have row: "get_file (fr_id sample_record) due_world = Some sample_record" "row_fits sample_record" "\<not> broken due_world"
    "\<not> fr_is_encrypted sample_record" "fr_id sample_record = 2"
    by (simp_all add: due_world_def ledger_world_def sample_world_def empty_world_def sample_record_def get_file_def
        row_fits_def big_int_def)
  have keys: "file_key ?A (fr_relative_path sample_record) = Some ''users/3/files/a.pdf''"
    "file_key ?A (fr_relative_path sample_record @ ARCHIVE_EXTENSION) = Some (''users/3/files/a.pdf'' @ ARCHIVE_EXTENSION)"
    by code_simp+
  have body: "objects (stored empty_bucket due_world) ''users/3/files/a.pdf'' = Some [1, 2]"
    by (simp add: due_world_def stored_def bucket_of_def after_call_def empty_bucket_def)
  have "sql_index store_env (Some (sql_links store_env))" by (simp add: sql_index_def)
  from archive_then_read [OF refl store_env_reliable zstd this row(1-4) keys body]
  show ?thesis by (simp add: row(5))
qed

section \<open>An upload within the limit\<close>

definition plain_env :: env where
  "plain_env = store_env\<lparr>rag_enabled := False\<rparr>"

definition sample_user :: user where
  "sample_user = \<lparr>us_id = 3, us_email = ''a@b'', us_role = FAMILY, us_is_active = True, us_created_at = 0\<rparr>"

definition sample_upload :: uploaded_file where
  "sample_upload = \<lparr>uf_filename = Some ''b.txt'', uf_size = Some 2, uf_body = [7, 8]\<rparr>"

lemma safe_empty: "safe_logical_key [] = Inr []"
  by code_simp

lemma plain_upload:
  obtains S r w' where "get_file_service plain_env sample_user ledger_world = (Inr S, ledger_world)"
    "upload_endpoint plain_env (files_api plain_env) S sample_user ''/'' sample_upload ledger_world = (Inr r, w')"
proof -
  define A where "A = new_s3_adapter plain_env ''storage'' ''users/00000000-0000-0000-0000-000000000003/files''"
  define S where "S = plain_service plain_env (s3_storage A) FILES (Some (sql_links plain_env))"
  have A: "A = \<lparr>sa_env = plain_env, sa_disk_id = ''storage'', sa_root_prefix = ''users/00000000-0000-0000-0000-000000000003/files''\<rparr>"
    unfolding A_def new_s3_adapter_def by simp code_simp
  have prefix: "user_files_root_prefix 3 = ''users/00000000-0000-0000-0000-000000000003/files''" by code_simp
  have "st_mkdir (create_storage_adapter plain_env ''storage'' p) [] w = (Inr (), w)" for p w
    by (simp add: create_storage_adapter_def s3_storage_def s3_mkdir_def safe_empty lift_def)
  then have svc: "get_file_service plain_env sample_user ledger_world = (Inr S, ledger_world)"
    by (simp add: get_file_service_def as_http_def list_by_user_section_def all_files_def run sample_user_def
        build_section_adapter_def S_def A_def create_storage_adapter_def prefix ledger_world_def sample_world_def
        empty_world_def sample_record_def Let_def)
  let ?w = "ledger_world\<lparr>captured := Some []\<rparr>"
  let ?data = "Source_Chunk [7, 8] Source_End"
  define r where "r = committed_record (sa_env A) 3 (sa_disk_id A)
    ''users/00000000-0000-0000-0000-000000000003/files/b.txt'' ''b.txt'' 2 FILES (source_bytes ?data) ?w"
  have r: "fr_id r = 100" "fr_size_bytes r = 2" by (simp_all add: r_def committed_record_def A plain_env_def store_env_def sample_env_def
      ledger_world_def sample_world_def empty_world_def)
  have S: "fs_adapter S = s3_storage A" "fs_env S = sa_env A" "queue_of (sa_env A) (fs_index S) = None"
    by (simp_all add: S_def plain_service_def A queue_of_def plain_env_def)
  have paths: "''b.txt'' = join_path (normalize_path []) ''b.txt''"
    "to_disk_relative_path (s3_storage A) ''b.txt'' = Inr ''users/00000000-0000-0000-0000-000000000003/files/b.txt''"
    unfolding A by code_simp+
  have keys: "file_key A (join_path TMP_DIR (uuid_str (fr_id r))) =
      Some (''users/00000000-0000-0000-0000-000000000003/files/.tmp/'' @ uuid_str 100)"
    "file_key A ''b.txt'' = Some ''users/00000000-0000-0000-0000-000000000003/files/b.txt''"
    "''users/00000000-0000-0000-0000-000000000003/files/.tmp/'' @ uuid_str 100 \<noteq>
      ''users/00000000-0000-0000-0000-000000000003/files/b.txt''"
    unfolding r A by code_simp+
  have rows: "fr_id r \<notin> fr_id ` set (files ?w)" "3 \<in> ur_id ` set (users ?w)" "\<not> broken ?w" "row_fits r"
    by (simp_all add: r) (simp_all add: ledger_world_def sample_world_def empty_world_def sample_record_def r_def committed_record_def
        A plain_env_def store_env_def sample_env_def row_fits_def big_int_def mime_type_of_def or_else_def non_empty_def DEFAULT_MIME_TYPE_def)
  obtain q where q: "get_quota 3 ?w = Some q" "quota_fits (charge 2 FILES q)" "qu_total_bytes q = 10" "qu_limit_bytes q = 100"
    by (simp add: ledger_world_def get_quota_def charge_def quota_fits_def big_int_def)
  have rel: "reliable empty_bucket (sa_env A)"
    by (rule reference_store_reliable) (simp add: A plain_env_def store_env_def sample_env_def)
  have src: "source_error ?data = None" by simp
  obtain w1 where 1: "upload_file S 3 [] ''b.txt'' ?data 2 FILES ?w = (Inr r, w1)" "\<not> broken w1"
    by (rule upload_file_ok [OF S rel src paths r_def keys rows q(1,2)])
  have ensure: "ensure_upload_quota plain_env 3 2 ?w = (Inr (total_quota q), ?w)"
    using quota_found [OF q(1) rows(3), of plain_env] q(3,4)
    by (simp add: ensure_upload_quota_def bind_run total_quota_def would_exceed_def is_unlimited_def Let_def)
  have data: "iter_upload_chunks sample_upload = ?data"
    by (simp add: iter_upload_chunks_def sample_upload_def chunked.simps READ_CHUNK_SIZE_def)
  have names: "validated_filename (uf_filename sample_upload) = Inr ''b.txt''" "normalize_api_path ''/'' = []"
    by code_simp+
  have deliver: "deliver_immediate_index_notifications plain_env ids v = (Inr (), v)" for ids v
    by (simp add: deliver_immediate_index_notifications_def plain_env_def Let_def)
  have size: "file_size_of sample_upload = 2" by (simp add: sample_upload_def file_size_of_def)
  have "\<exists>w'. committed plain_env (files_api plain_env) (bind (ensure_upload_quota plain_env 3 2) (\<lambda>_.
      upload_file S 3 [] ''b.txt'' ?data 2 FILES)) ledger_world = (Inr r, w')"
    using 1 ensure
    by (simp add: committed_def files_api_def capture_immediate_index_ids_def in_session_def bind_run deliver Let_def)
  then obtain w' where "committed plain_env (files_api plain_env) (bind (ensure_upload_quota plain_env 3 2) (\<lambda>_.
      upload_file S 3 [] ''b.txt'' ?data 2 FILES)) ledger_world = (Inr r, w')" by blast
  then have "\<exists>x. upload_endpoint plain_env (files_api plain_env) S sample_user ''/'' sample_upload ledger_world = (Inr x, w')"
    using r(2)
    by (simp add: upload_endpoint_def names data size sample_user_def bind_run lift_def file_record_response_def)
       (simp add: files_api_def)
  with svc show ?thesis using that by blast
qed

theorem upload_stays_within_limit_witness:
  "\<exists>S resp w'. get_file_service plain_env sample_user ledger_world = (Inr S, ledger_world) \<and>
     upload_endpoint plain_env (files_api plain_env) S sample_user ''/'' sample_upload ledger_world = (Inr resp, w') \<and>
     charged 3 w' = 12"
proof -
  obtain S resp w' where s: "get_file_service plain_env sample_user ledger_world = (Inr S, ledger_world)"
    "upload_endpoint plain_env (files_api plain_env) S sample_user ''/'' sample_upload ledger_world = (Inr resp, w')"
    by (rule plain_upload)
  from upload_stays_within_limit [OF s] have "charged 3 w' = 12"
    by (simp add: sample_user_def sample_upload_def file_size_of_def ledger_world_def charged_def get_quota_def)
  with s show ?thesis by blast
qed

end
