(* ===== verification/PrivateProps.thy ===== *)
theory PrivateProps
  imports PrivateService FileProps
begin

text \<open>
  What guards the private section: without a key for its session no request reaches the vault, and
  passphrases cannot be tried without end.
\<close>

section \<open>A locked vault\<close>

lemma entry_drop: "entry (drop_key k C) now k' = (if k' = k then None else entry C now k')"
proof -
  have "map_of (drop_key k C) k' = (if k' = k then None else map_of C k')"
    by (induction C) (auto simp: drop_key_def)
  then show ?thesis by (simp add: entry_def)
qed

lemma entry_put: "entry (put_key k v x C) now k' = (if k' = k then if live now x then Some (v, x) else None else entry C now k')"
  by (auto simp: put_key_def entry_def entry_drop [unfolded entry_def])

lemma redis_run [run]:
  "redis_command E f w = (case f (clock E (tick w)) (cache w) of (r, C) \<Rightarrow> (r, w\<lparr>tick := Suc (tick w), cache := C\<rparr>))"
  by (simp add: redis_command_def bind_def utc_now_def split: prod.split)

text \<open>The requests that need the vault.\<close>

definition vault_requests :: "file_request set" where
  "vault_requests = {r. case r of R_Search q \<Rightarrow> False | R_Upload_Zip p n z \<Rightarrow> False | _ \<Rightarrow> True}"

lemma private_key_missing:
  assumes "session_id_of og = Inr sid" and "\<And>now. entry (cache w) now (PRIVATE_KEY_PREFIX @ sid) = None"
  shows "vault_of E og u w = (Inl Private_Session_Expired, w\<lparr>tick := Suc (tick w)\<rparr>)"
  using assms by (simp add: vault_of_def lift_def private_file_service_def get_private_key_def redis_get_def
      run non_empty_def)

lemma vault_request_refused:
  assumes "session_id_of og = Inr sid" and "\<And>now. entry (cache w1) now (PRIVATE_KEY_PREFIX @ sid) = None"
    and "get_current_user E H w1 = (Inr u, w2)" and "req \<in> vault_requests"
  shows "serve_private E depth H og (P_File req) w1 =
    (Inr (Some (plain_error 401 ''PRIVATE_SESSION_EXPIRED'')), w2\<lparr>tick := Suc (tick w2)\<rparr>)"
proof -
  have "cache w2 = cache w1"
    using keepsD_run [OF current_user_untouched _ assms(3), of w1] by (simp add: untouched_def)
  then have v: "vault_of E og u w2 = (Inl Private_Session_Expired, w2\<lparr>tick := Suc (tick w2)\<rparr>)"
    using private_key_missing [OF assms(1)] assms(2) by simp
  show ?thesis
    using assms(3,4) v
    by (cases req) (simp_all add: vault_requests_def serve_private_def respond_private_def bind_def try_except_def)
qed


definition sample_origin :: origin where
  "sample_origin = \<lparr>og_cookie = Some ''s1'', og_forwarded_for = None, og_client = Some ''10.0.0.1''\<rparr>"


section \<open>Guessing a passphrase\<close>

text \<open>\<open>frozen C\<close>: the content of Redis is \<open>C\<close> and the session is usable.\<close>

definition frozen :: "redis \<Rightarrow> world \<Rightarrow> bool" where
  "frozen C w \<longleftrightarrow> cache w = C \<and> \<not> broken w"

lemma frozen_atoms [keep_rules]: "keeps (frozen C) (utc_now E)" "keeps (frozen C) (s3_send E c)"
  by (auto simp: keeps_def frozen_def utc_now_def s3_send_def Let_def)

lemma frozen_probe: "keeps (frozen C) (probe_disk_space E cached d)"
  unfolding probe_disk_space_def by (intro keep_rules)

lemma frozen_candidates: "keeps (frozen C) (write_candidates E cached ds)"
  by (induction ds arbitrary: cached) (auto intro!: keep_rules frozen_probe)

lemma frozen_disk: "keeps (frozen C) (resolve_disk_id E u secs)"
proof (induction secs)
  case (Cons sec secs)
  then show ?case
    by (auto simp: list_by_user_section_def all_files_def intro!: keep_rules split: list.split)
qed (auto simp: get_write_disk_def intro!: keep_rules frozen_candidates)

lemma frozen_except: "keeps I m \<Longrightarrow> keeps I h \<Longrightarrow> keeps I (except_not_found m h)"
  unfolding except_not_found_def by (intro keep_rules)

lemma frozen_body: "keeps I (body_of r)"
  by (simp add: body_of_def split: s3_reply.split)

lemma frozen_s3:
  "keeps (frozen C) (st_mkdir (s3_storage A) p)" "keeps (frozen C) (st_exists (s3_storage A) p)"
  "keeps (frozen C) (st_read (s3_storage A) p)"
  by (auto simp: s3_storage_def s3_mkdir_def s3_exists_def s3_read_def head_exists_def exists_prefix_or_marker_def
      send_unit_def Let_def intro!: keep_rules frozen_except frozen_body split: prod.split)

lemma frozen_vault: "keeps (frozen C) (build_vault E u key)"
  unfolding build_vault_def private_disk_id_def build_section_adapter_def create_storage_adapter_def Let_def
  by (intro keep_rules frozen_disk frozen_s3)

lemma build_vault_inner: "build_vault E u key w = (Inr A, w') \<Longrightarrow> \<exists>B. ea_inner A = s3_storage B"
  by (auto simp: build_vault_def bind_Inr build_section_adapter_def Let_def create_storage_adapter_def)

lemma unlock_failed_frozen:
  assumes "unlock E u sid p w = (Inr False, w')" and "frozen C w"
  shows "frozen C w'"
proof -
  obtain A w1 marked w2 where A: "build_vault E u (derive_encryption_key E p u) w = (Inr A, w1)"
    and m: "marker_exists A w1 = (Inr marked, w2)"
    and v: "(if marked then validate_marker A else bind (write_marker A) (\<lambda>_. ret True)) w2 = (Inr False, w')"
    using assms(1) unfolding unlock_def Let_def bind_Inr by (auto simp: bind_Inr split: if_splits)
  obtain B where B: "ea_inner A = s3_storage B" using build_vault_inner [OF A] by blast
  have "frozen C w1" using keepsD_run [OF frozen_vault assms(2) A] .
  moreover have "keeps (frozen C) (marker_exists A)"
    unfolding marker_exists_def B by (rule frozen_s3)
  ultimately have "frozen C w2" using m by (metis keepsD_run)
  moreover have "marked" using v by (auto simp: bind_Inr split: if_splits)
  moreover have "keeps (frozen C) (validate_marker A)"
    unfolding validate_marker_def marker_exists_def B by (intro keep_rules frozen_s3)
  ultimately show ?thesis using v keepsD_run [of "frozen C" "validate_marker A" w2] by auto
qed

text \<open>One passphrase after another from the same session and address, and what each answers.\<close>

fun try_passphrases :: "env \<Rightarrow> user \<Rightarrow> origin \<Rightarrow> string list \<Rightarrow> (exn + bool) list action" where
  "try_passphrases E u og [] = ret []"
| "try_passphrases E u og (p # ps) = (\<lambda>w. case unlock_private_section E u og p w of
     (r, w1) \<Rightarrow> bind (try_passphrases E u og ps) (\<lambda>rs. ret (r # rs)) w1)"

definition wrong :: "env \<Rightarrow> uuid \<Rightarrow> string \<Rightarrow> string \<Rightarrow> bool" where
  "wrong E u sid p \<longleftrightarrow> p \<noteq> [] \<and> (\<forall>v. \<not> broken v \<longrightarrow> fst (unlock E u sid p v) = Inr False)"

text \<open>\<open>counted E k n w\<close>: the counter \<open>k\<close> stands at \<open>n\<close> at every moment of the period.\<close>

definition counted :: "env \<Rightarrow> string \<Rightarrow> nat \<Rightarrow> world \<Rightarrow> bool" where
  "counted E k n w \<longleftrightarrow> \<not> broken w \<and> (if n = 0 then \<forall>t. entry (cache w) (clock E t) k = None
     else \<exists>x. \<forall>t. entry (cache w) (clock E t) k = Some (decimal n, Some x))"

text \<open>A period of less than fifteen minutes.\<close>

definition one_window :: "env \<Rightarrow> bool" where
  "one_window E \<longleftrightarrow> (\<forall>s t. clock E t < clock E s + UNLOCK_RATE_LIMIT_TTL_SECONDS * SECOND)"

lemma attempts_counted:
  "counted E (unlock_key u ip) n w \<Longrightarrow>
    get_unlock_attempts E u ip w = (Inr (int n), w\<lparr>tick := Suc (tick w)\<rparr>)"
  by (auto simp: get_unlock_attempts_def redis_get_def counted_def run split: if_splits)

lemma counted_tick [simp]: "counted E k n (w\<lparr>tick := t\<rparr>) = counted E k n w"
  by (simp add: counted_def)

lemma increment_counted:
  assumes "one_window E" and "counted E (unlock_key u ip) n w"
  obtains w' where "increment_unlock_attempts E u ip w = (Inr (int (Suc n)), w')"
    "counted E (unlock_key u ip) (Suc n) w'"
proof (cases n)
  case 0
  let ?k = "unlock_key u ip"
  let ?w = "w\<lparr>tick := Suc (Suc (tick w)), cache := put_key ?k (decimal 1)
      (Some (clock E (Suc (tick w)) + UNLOCK_RATE_LIMIT_TTL_SECONDS * SECOND)) (put_key ?k (decimal 1) None (cache w))\<rparr>"
  have "increment_unlock_attempts E u ip w = (Inr 1, ?w)"
    using assms(2) 0 by (simp add: increment_unlock_attempts_def redis_incr_def redis_expire_def run counted_def
        entry_put live_def UNLOCK_RATE_LIMIT_TTL_SECONDS_def)
  moreover have "counted E ?k (Suc n) ?w"
    using assms 0 by (auto simp: counted_def entry_put live_def one_window_def)
  ultimately show ?thesis using 0 that by simp
next
  case (Suc m)
  let ?k = "unlock_key u ip"
  obtain x where x: "\<And>t. entry (cache w) (clock E t) ?k = Some (decimal n, Some x)"
    using assms(2) Suc by (auto simp: counted_def)
  have "live (clock E t) (Some x)" for t
    using x [of t] by (auto simp: entry_def split: option.splits if_splits)
  then have "counted E ?k (Suc n) (w\<lparr>tick := Suc (tick w), cache := put_key ?k (decimal (Suc n)) (Some x) (cache w)\<rparr>)"
    using assms(2) by (auto simp: counted_def entry_put)
  moreover have "increment_unlock_attempts E u ip w =
      (Inr (int (Suc n)), w\<lparr>tick := Suc (tick w), cache := put_key ?k (decimal (Suc n)) (Some x) (cache w)\<rparr>)"
    using x [of "tick w"] Suc by (simp add: increment_unlock_attempts_def redis_incr_def run)
  ultimately show ?thesis by (rule that [rotated])
qed

lemma wrong_attempt:
  assumes "one_window E" and "session_id_of og = Inr sid" and "wrong E (us_id u) sid p"
    and "counted E (unlock_key (uuid_str (us_id u)) (client_ip og)) n w" and "n < 5"
  obtains w' where "unlock_private_section E u og p w = (if n < 4 then Inr False else Inl TOO_MANY_ATTEMPTS_429, w')"
    "counted E (unlock_key (uuid_str (us_id u)) (client_ip og)) (Suc n) w'"
proof -
  let ?k = "unlock_key (uuid_str (us_id u)) (client_ip og)" and ?w = "w\<lparr>tick := Suc (tick w)\<rparr>"
  have b: "\<not> broken ?w" using assms(4) by (simp add: counted_def)
  then obtain w1 where un: "unlock E (us_id u) sid p ?w = (Inr False, w1)"
    using assms(3) by (metis prod.collapse wrong_def)
  have "frozen (cache w) ?w" using b by (simp add: frozen_def)
  with un have "frozen (cache w) w1" by (rule unlock_failed_frozen)
  then have "counted E ?k n (rollback ?w w1)"
    using assms(4) by (auto simp: counted_def frozen_def rollback_def)
  then obtain w2 where i: "increment_unlock_attempts E (uuid_str (us_id u)) (client_ip og) (rollback ?w w1) = (Inr (int (Suc n)), w2)"
    and c: "counted E ?k (Suc n) w2" by (rule increment_counted [OF assms(1)])
  have "unlock_private_section E u og p w =
      (if n < 4 then Inr False else Inl TOO_MANY_ATTEMPTS_429, w2\<lparr>tick := Suc (tick w2)\<rparr>)"
    using assms(3,5) un i attempts_counted [OF assms(4)] attempts_counted [OF c]
    by (simp add: unlock_private_section_def assms(2) lift_def bind_def Let_def without_commit_def wrong_def
        UNLOCK_RATE_LIMIT_MAX_ATTEMPTS_def)
  then show ?thesis by (rule that) (use c in simp)
qed

lemma refused_attempt:
  assumes "session_id_of og = Inr sid" and "p \<noteq> []"
    and "counted E (unlock_key (uuid_str (us_id u)) (client_ip og)) n w" and "5 \<le> n"
  shows "unlock_private_section E u og p w = (Inl TOO_MANY_ATTEMPTS_429, w\<lparr>tick := Suc (tick w)\<rparr>)"
  using assms attempts_counted [OF assms(3)]
  by (simp add: unlock_private_section_def lift_def bind_def Let_def UNLOCK_RATE_LIMIT_MAX_ATTEMPTS_def)

lemma guesses_counted:
  assumes "one_window E" and "session_id_of og = Inr sid" and "\<forall>p \<in> set ps. wrong E (us_id u) sid p"
    and "counted E (unlock_key (uuid_str (us_id u)) (client_ip og)) n w" and "n \<le> 5"
  shows "\<exists>w'. try_passphrases E u og ps w =
      (Inr (map (\<lambda>i. if i < 4 then Inr False else Inl TOO_MANY_ATTEMPTS_429) [n..<n + length ps]), w') \<and>
    s3_log w' = s3_log (snd (try_passphrases E u og (take (5 - n) ps) w))"
  using assms(3-5)
proof (induction ps arbitrary: n w)
  case (Cons p ps)
  let ?k = "unlock_key (uuid_str (us_id u)) (client_ip og)"
  show ?case
  proof (cases "n < 5")
    case True
    obtain w1 where 1: "unlock_private_section E u og p w = (if n < 4 then Inr False else Inl TOO_MANY_ATTEMPTS_429, w1)"
      and c: "counted E ?k (Suc n) w1"
      using wrong_attempt [OF assms(1,2) _ Cons.prems(2) True] Cons.prems(1) by auto
    obtain w2 where 2: "try_passphrases E u og ps w1 =
        (Inr (map (\<lambda>i. if i < 4 then Inr False else Inl TOO_MANY_ATTEMPTS_429) [Suc n..<Suc n + length ps]), w2)"
      "s3_log w2 = s3_log (snd (try_passphrases E u og (take (5 - Suc n) ps) w1))"
      using Cons.IH [OF _ c] Cons.prems(1) True by auto
    have t: "take (5 - n) (p # ps) = p # take (5 - Suc n) ps" using True by (simp add: take_Cons' )
    have "snd (try_passphrases E u og (p # take (5 - Suc n) ps) w) = snd (try_passphrases E u og (take (5 - Suc n) ps) w1)"
      by (simp add: 1 bind_def split: prod.split sum.split)
    moreover have "[n..<n + length (p # ps)] = n # [Suc n..<Suc n + length ps]"
      by (simp add: upt_conv_Cons del: upt_Suc)
    ultimately show ?thesis unfolding t using 1 2 by (simp add: bind_def del: upt_Suc)
  next
    case False
    then have n: "n = 5" using Cons.prems(3) by simp
    let ?w = "w\<lparr>tick := Suc (tick w)\<rparr>"
    have 1: "unlock_private_section E u og p w = (Inl TOO_MANY_ATTEMPTS_429, ?w)"
      using refused_attempt [OF assms(2) _ Cons.prems(2)] Cons.prems(1) n by (simp add: wrong_def)
    have more: "\<exists>w'. try_passphrases E u og qs v =
        (Inr (map (\<lambda>i. if i < 4 then Inr False else Inl TOO_MANY_ATTEMPTS_429) [m..<m + length qs]), w') \<and>
        s3_log w' = s3_log v"
      if "\<forall>p \<in> set qs. p \<noteq> []" "counted E ?k 5 v" "5 \<le> m" for qs v m
      using that
    proof (induction qs arbitrary: v m)
      case (Cons q qs)
      let ?v = "v\<lparr>tick := Suc (tick v)\<rparr>"
      obtain w' where "try_passphrases E u og qs ?v =
          (Inr (map (\<lambda>i. if i < 4 then Inr False else Inl TOO_MANY_ATTEMPTS_429) [Suc m..<Suc m + length qs]), w')"
        "s3_log w' = s3_log v"
        using Cons.IH [of ?v "Suc m"] Cons.prems by auto
      moreover have "[m..<m + length (q # qs)] = m # [Suc m..<Suc m + length qs]"
        by (simp add: upt_conv_Cons del: upt_Suc)
      ultimately show ?case
        using refused_attempt [OF assms(2) _ Cons.prems(2)] Cons.prems(1,3) by (simp add: bind_def del: upt_Suc)
    qed simp
    show ?thesis
      using more [of "p # ps" w 5] Cons.prems n by (simp add: wrong_def)
  qed
qed simp


text \<open>A store whose marker decrypts under no key.\<close>

definition sealed_env :: env where
  "sealed_env = (sample_env (\<lambda>_ _. Reply_Crash) (\<lambda>_ c. case c of
       Head_Object k \<Rightarrow> S3_Length 0 | Get_Object k \<Rightarrow> S3_Body [] | _ \<Rightarrow> S3_Done))\<lparr>clock := (\<lambda>_. 0)\<rparr>"

lemma sealed_write_disk: "get_write_disk sealed_env w = (Inr (hd disk_volumes), w\<lparr>tick := Suc (tick w)\<rparr>)"
  unfolding get_write_disk_run
  by (simp add: probe_s3_disk_space_def sealed_env_def sample_env_def s3_resolve_capacity_def Let_def
      S3_FALLBACK_TOTAL_BYTES_def min_free_bytes_def)

lemma marker_key: "\<exists>k. file_key B MARKER_FILENAME = Some k"
proof -
  have s: "safe_logical_key MARKER_FILENAME = Inr ''.marker''" by code_simp
  have "\<not> ends_with (pre @ ''.marker'') ''/''" for pre by (simp add: ends_with_def starts_with_def)
  from this [of "sa_root_prefix B @ ''/''"] this [of "[]"] show ?thesis
    by (auto simp: file_key_def object_key_def s Let_def DIR_MARKER_SUFFIX_def)
qed

lemma sealed_wrong: "p \<noteq> [] \<Longrightarrow> wrong sealed_env 3 ''s1'' p"
proof -
  assume p: "p \<noteq> []"
  let ?key = "derive_encryption_key sealed_env p 3"
  have disk: "\<exists>d w'. private_disk_id sealed_env 3 v = (Inr d, w')" if "\<not> broken v" for v
    using that by (cases "filter (\<lambda>r. fr_user_id r = 3 \<and> fr_section r = PRIVATE \<and> fr_status r = S_COMMITTED) (files v)";
      cases "filter (\<lambda>r. fr_user_id r = 3 \<and> fr_section r = FILES \<and> fr_status r = S_COMMITTED) (files v)")
      (simp_all add: private_disk_id_def list_by_user_section_def all_files_def run sealed_write_disk)
  have send: "s3_send sealed_env c w = (Inr (s3_service sealed_env [] c), w\<lparr>s3_log := s3_log w @ [(c, s3_service sealed_env [] c)]\<rparr>)" for c w
    by (simp add: s3_send_def sealed_env_def sample_env_def Let_def split: s3_call.split)
  have body: "s3_service sealed_env [] (Get_Object k) = S3_Body []" for k
    by (simp add: sealed_env_def sample_env_def)
  have "fst (unlock sealed_env 3 ''s1'' p v) = Inr False" if v: "\<not> broken v" for v
  proof -
    obtain d w1 where d: "private_disk_id sealed_env 3 v = (Inr d, w1)" using disk [OF v] by blast
    let ?B = "new_s3_adapter sealed_env d (user_private_root_prefix 3)"
    let ?A = "\<lparr>ea_inner = s3_storage ?B, ea_key = ?key, ea_env = sealed_env\<rparr>"
    have b: "build_vault sealed_env 3 ?key v = (Inr ?A, w1)"
      using d by (simp add: build_vault_def build_section_adapter_def create_storage_adapter_def bind_def
          s3_storage_def s3_mkdir_def lift_def safe_logical_key_def strip_def strip_by_def rstrip_by_def
          lstrip_by_def backslash_to_slash_def)
    obtain k where k: "file_key ?B MARKER_FILENAME = Some k" using marker_key by blast
    note fk = file_keyD [OF k]
    have E: "sa_env ?B = sealed_env" by (simp add: new_s3_adapter_def)
    have m: "\<exists>w'. marker_exists ?A w = (Inr True, w')" for w
      using fk by (simp add: marker_exists_def s3_storage_def s3_exists_def lift_def bind_def head_exists_def E
          except_not_found_def try_except_def send)
    have r: "\<exists>w'. st_read (s3_storage ?B) MARKER_FILENAME w = (Inr [], w')" for w
      using fk by (simp add: s3_storage_def s3_read_def lift_def bind_def E
          except_not_found_def try_except_def send body_of_def body)
    have n: "decrypt_blob sealed_env ?key [] = None"
      using p by (simp add: decrypt_blob_def sealed_env_def sample_env_def derive_encryption_key_def)
    have val: "\<exists>w'. validate_marker ?A w = (Inr False, w')" for w
    proof -
      obtain w1 w2 where "marker_exists ?A w = (Inr True, w1)"
        "st_read (s3_storage ?B) MARKER_FILENAME w1 = (Inr [], w2)" using m r by blast
      then show ?thesis by (simp add: validate_marker_def run n)
    qed
    obtain w2 w3 where "marker_exists ?A w1 = (Inr True, w2)" "validate_marker ?A w2 = (Inr False, w3)"
      using m val by blast
    with b show ?thesis by (simp add: unlock_def Let_def bind_def)
  qed
  with p show ?thesis by (simp add: wrong_def)
qed

definition sealed_user :: user where
  "sealed_user = \<lparr>us_id = 3, us_email = ''a@b'', us_role = FAMILY, us_is_active = True, us_created_at = 0\<rparr>"


end
