(* ===== verification/SectionRouters.thy ===== *)
theory SectionRouters
  imports FileApi
begin

text \<open>
  The other two copies of the file endpoints: the handlers of \<open>shared_router\<close> in \<open>file_router.py\<close>, and those
  that \<open>build_file_router\<close> of \<open>file_router_factory.py\<close> makes for a section, which serve the resumes. They are
  translated one by one here, and shown to do what the endpoints of \<open>FileApi\<close> do for their section.
\<close>

section \<open>The shared router\<close>

definition list_shared_files :: "file_service \<Rightarrow> user \<Rightarrow> string \<Rightarrow> node_response list action" where
  "list_shared_files S u path =
     bind (list_directory S (us_id u) (normalize_api_path path)) (\<lambda>nodes.
     let stripped = rstrip_slash (backslash_to_slash (strip path));
         api_base = (if stripped = [] then ''/'' else stripped) in
     map_act (\<lambda>n. lift (node_response n (build_api_path api_base (fn_name n)))) nodes)"

definition upload_shared_file ::
  "env \<Rightarrow> file_service \<Rightarrow> user \<Rightarrow> string \<Rightarrow> uploaded_file \<Rightarrow> record_response action" where
  "upload_shared_file E S u path f =
     bind (lift (validated_filename (uf_filename f))) (\<lambda>filename.
     bind (in_session
       (bind (ensure_upload_quota E (us_id u) (file_size_of f)) (\<lambda>_.
        upload_file S (us_id u) (normalize_api_path path) filename (iter_upload_chunks f)
          (file_size_of f) SHARED))) (\<lambda>r.
     lift (file_record_response r)))"

text \<open>The \<open>except\<close> clauses of the ZIP handlers.\<close>

definition zip_failure :: "exn \<Rightarrow> exn" where
  "zip_failure e = (case e of
       Quota_Exceeded free \<Rightarrow> Http_Exception 413 ''QUOTA_EXCEEDED'' free
     | Value_Error \<Rightarrow> Http_Exception 400 ''UNSUPPORTED_FORMAT'' None
     | _ \<Rightarrow> e)"

definition upload_shared_zip_folder ::
  "env \<Rightarrow> file_service \<Rightarrow> user \<Rightarrow> string \<Rightarrow> string option \<Rightarrow> zip_entry list option \<Rightarrow> zip_response action" where
  "upload_shared_zip_folder E S u path given packed =
     bind (lift (validated_filename given)) (\<lambda>filename.
     if \<not> ends_with (lower filename) ''.zip'' then raise (Http_Exception 400 ''UNSUPPORTED_FORMAT'' None)
     else
       bind (lift (validate_zip_archive packed)) (\<lambda>unpacked.
       bind (try_except
         (in_session
           (bind (ensure_upload_quota E (us_id u) unpacked) (\<lambda>q.
            upload_zip_folder S (us_id u) (normalize_api_path path) filename packed unpacked
              (available_upload_bytes q unpacked))))
         (\<lambda>e. raise (zip_failure e))) (\<lambda>stats.
       ret \<lparr>zr_files = zs_files stats, zr_dirs = int (card (set (zs_dirs stats))),
            zr_total_bytes = zs_total_bytes stats\<rparr>)))"

definition download_shared_file :: "env \<Rightarrow> file_service \<Rightarrow> user \<Rightarrow> string \<Rightarrow> file_response action" where
  "download_shared_file E S u path =
     (let normalized = normalize_api_path path; filename = path_name normalized in
      bind (read_by_path S (us_id u) normalized) (\<lambda>b.
      ret \<lparr>fp_media_type = mime_type_of E filename,
           fp_disposition = build_attachment_content_disposition filename, fp_body = b\<rparr>))"

definition download_shared_folder :: "nat \<Rightarrow> file_service \<Rightarrow> user \<Rightarrow> string \<Rightarrow> file_response action" where
  "download_shared_folder depth S u path =
     (let normalized = normalize_api_path path;
          dir_name = (if path_name normalized = [] then ''folder'' else path_name normalized) in
      bind (download_directory_as_zip depth S (us_id u) normalized) (\<lambda>b.
      ret \<lparr>fp_media_type = ''application/zip'',
           fp_disposition = build_attachment_content_disposition (dir_name @ ''.zip''), fp_body = b\<rparr>))"

definition delete_shared_file :: "file_service \<Rightarrow> user \<Rightarrow> string \<Rightarrow> unit action" where
  "delete_shared_file S u path = in_session (delete_by_path S (us_id u) path (Some (us_role u)))"

definition create_shared_directory :: "file_service \<Rightarrow> user \<Rightarrow> string \<Rightarrow> string \<Rightarrow> (string \<times> string) action" where
  "create_shared_directory S u path name =
     (if name = [] then raise (Http_Exception 422 [] None)
      else
        bind (in_session (create_directory S (normalize_api_path path) name)) (\<lambda>_.
        ret (build_api_path path name, name)))"

definition rename_shared_file :: "file_service \<Rightarrow> user \<Rightarrow> string \<Rightarrow> string \<Rightarrow> record_response option action" where
  "rename_shared_file S u path new_name =
     (if new_name = [] then raise (Http_Exception 422 [] None)
      else
        bind (in_session (rename_by_path S (us_id u) path new_name)) (\<lambda>renamed.
        case renamed of
          None \<Rightarrow> ret None
        | Some r \<Rightarrow> bind (lift (file_record_response r)) (\<lambda>x. ret (Some x))))"

definition search_shared_files :: "string \<Rightarrow> unit action" where
  "search_shared_files q =
     (if q = [] then raise (Http_Exception 422 [] None)
      else raise (Http_Exception 501 ''NOT_IMPLEMENTED'' None))"

section \<open>The router factory\<close>

text \<open>A router is the section it was built for; \<open>resume_files\<close> is the only one the program builds.\<close>

definition resume_files :: file_section where "resume_files = RESUMES"

definition factory_list :: "file_service \<Rightarrow> user \<Rightarrow> string \<Rightarrow> node_response list action" where
  "factory_list S u path =
     bind (list_directory S (us_id u) (normalize_api_path path)) (\<lambda>nodes.
     let stripped = rstrip_slash (backslash_to_slash (strip path));
         api_base = (if stripped = [] then ''/'' else stripped) in
     map_act (\<lambda>n. lift (node_response n (build_api_path api_base (fn_name n)))) nodes)"

definition factory_upload ::
  "file_section \<Rightarrow> env \<Rightarrow> file_service \<Rightarrow> user \<Rightarrow> string \<Rightarrow> uploaded_file \<Rightarrow> record_response action" where
  "factory_upload sec E S u path f =
     bind (lift (validated_filename (uf_filename f))) (\<lambda>filename.
     bind (in_session
       (bind (ensure_upload_quota E (us_id u) (file_size_of f)) (\<lambda>_.
        upload_file S (us_id u) (normalize_api_path path) filename (iter_upload_chunks f)
          (file_size_of f) sec))) (\<lambda>r.
     lift (file_record_response r)))"

definition factory_upload_zip ::
  "env \<Rightarrow> file_service \<Rightarrow> user \<Rightarrow> string \<Rightarrow> string option \<Rightarrow> zip_entry list option \<Rightarrow> zip_response action" where
  "factory_upload_zip E S u path given packed =
     bind (lift (validated_filename given)) (\<lambda>filename.
     if \<not> ends_with (lower filename) ''.zip'' then raise (Http_Exception 400 ''UNSUPPORTED_FORMAT'' None)
     else
       bind (lift (validate_zip_archive packed)) (\<lambda>unpacked.
       bind (try_except
         (in_session
           (bind (ensure_upload_quota E (us_id u) unpacked) (\<lambda>q.
            upload_zip_folder S (us_id u) (normalize_api_path path) filename packed unpacked
              (available_upload_bytes q unpacked))))
         (\<lambda>e. raise (zip_failure e))) (\<lambda>stats.
       ret \<lparr>zr_files = zs_files stats, zr_dirs = int (card (set (zs_dirs stats))),
            zr_total_bytes = zs_total_bytes stats\<rparr>)))"

definition factory_download :: "env \<Rightarrow> file_service \<Rightarrow> user \<Rightarrow> string \<Rightarrow> file_response action" where
  "factory_download E S u path =
     (let normalized = normalize_api_path path; filename = path_name normalized in
      bind (read_by_path S (us_id u) normalized) (\<lambda>b.
      ret \<lparr>fp_media_type = mime_type_of E filename,
           fp_disposition = build_attachment_content_disposition filename, fp_body = b\<rparr>))"

definition factory_download_folder :: "nat \<Rightarrow> file_service \<Rightarrow> user \<Rightarrow> string \<Rightarrow> file_response action" where
  "factory_download_folder depth S u path =
     (let normalized = normalize_api_path path;
          dir_name = (if path_name normalized = [] then ''folder'' else path_name normalized) in
      bind (download_directory_as_zip depth S (us_id u) normalized) (\<lambda>b.
      ret \<lparr>fp_media_type = ''application/zip'',
           fp_disposition = build_attachment_content_disposition (dir_name @ ''.zip''), fp_body = b\<rparr>))"

definition factory_delete :: "file_service \<Rightarrow> user \<Rightarrow> string \<Rightarrow> unit action" where
  "factory_delete S u path = in_session (delete_by_path S (us_id u) path (Some (us_role u)))"

definition factory_mkdir :: "file_service \<Rightarrow> user \<Rightarrow> string \<Rightarrow> string \<Rightarrow> (string \<times> string) action" where
  "factory_mkdir S u path name =
     (if name = [] then raise (Http_Exception 422 [] None)
      else
        bind (in_session (create_directory S (normalize_api_path path) name)) (\<lambda>_.
        ret (build_api_path path name, name)))"

definition factory_rename :: "file_service \<Rightarrow> user \<Rightarrow> string \<Rightarrow> string \<Rightarrow> record_response option action" where
  "factory_rename S u path new_name =
     (if new_name = [] then raise (Http_Exception 422 [] None)
      else
        bind (in_session (rename_by_path S (us_id u) path new_name)) (\<lambda>renamed.
        case renamed of
          None \<Rightarrow> ret None
        | Some r \<Rightarrow> bind (lift (file_record_response r)) (\<lambda>x. ret (Some x))))"

definition factory_search :: "string \<Rightarrow> unit action" where
  "factory_search q =
     (if q = [] then raise (Http_Exception 422 [] None)
      else raise (Http_Exception 501 ''NOT_IMPLEMENTED'' None))"

section \<open>Dispatch\<close>

fun handle_shared :: "env \<Rightarrow> nat \<Rightarrow> file_request \<Rightarrow> file_service \<Rightarrow> user \<Rightarrow> unit action" where
  "handle_shared E depth (R_List path) S u =
     without_commit (bind (list_shared_files S u path) (\<lambda>_. ret ()))"
| "handle_shared E depth (R_Upload path f) S u = bind (upload_shared_file E S u path f) (\<lambda>_. ret ())"
| "handle_shared E depth (R_Upload_Zip path name packed) S u =
     bind (upload_shared_zip_folder E S u path name packed) (\<lambda>_. ret ())"
| "handle_shared E depth (R_Download path) S u =
     without_commit (bind (download_shared_file E S u path) (\<lambda>_. ret ()))"
| "handle_shared E depth (R_Download_Folder path) S u =
     without_commit (bind (download_shared_folder depth S u path) (\<lambda>_. ret ()))"
| "handle_shared E depth (R_Delete path) S u = delete_shared_file S u path"
| "handle_shared E depth (R_Mkdir path name) S u = bind (create_shared_directory S u path name) (\<lambda>_. ret ())"
| "handle_shared E depth (R_Rename path name) S u = bind (rename_shared_file S u path name) (\<lambda>_. ret ())"
| "handle_shared E depth (R_Search q) S u = search_shared_files q"

fun handle_factory ::
  "file_section \<Rightarrow> env \<Rightarrow> nat \<Rightarrow> file_request \<Rightarrow> file_service \<Rightarrow> user \<Rightarrow> unit action" where
  "handle_factory sec E depth (R_List path) S u = without_commit (bind (factory_list S u path) (\<lambda>_. ret ()))"
| "handle_factory sec E depth (R_Upload path f) S u = bind (factory_upload sec E S u path f) (\<lambda>_. ret ())"
| "handle_factory sec E depth (R_Upload_Zip path name packed) S u =
     bind (factory_upload_zip E S u path name packed) (\<lambda>_. ret ())"
| "handle_factory sec E depth (R_Download path) S u =
     without_commit (bind (factory_download E S u path) (\<lambda>_. ret ()))"
| "handle_factory sec E depth (R_Download_Folder path) S u =
     without_commit (bind (factory_download_folder depth S u path) (\<lambda>_. ret ()))"
| "handle_factory sec E depth (R_Delete path) S u = factory_delete S u path"
| "handle_factory sec E depth (R_Mkdir path name) S u = bind (factory_mkdir S u path name) (\<lambda>_. ret ())"
| "handle_factory sec E depth (R_Rename path name) S u = bind (factory_rename S u path name) (\<lambda>_. ret ())"
| "handle_factory sec E depth (R_Search q) S u = factory_search q"

section \<open>Agreement\<close>

lemma committed_plain: "\<not> fa_notifies api \<Longrightarrow> committed E api m = in_session m"
  by (simp add: committed_def)

lemmas shared_handlers = list_shared_files_def upload_shared_file_def upload_shared_zip_folder_def
  download_shared_file_def download_shared_folder_def delete_shared_file_def create_shared_directory_def
  rename_shared_file_def search_shared_files_def zip_failure_def

lemmas factory_handlers = factory_list_def factory_upload_def factory_upload_zip_def factory_download_def
  factory_download_folder_def factory_delete_def factory_mkdir_def factory_rename_def factory_search_def
  zip_failure_def

lemmas file_handlers = list_files_def upload_endpoint_def upload_zip_endpoint_def download_endpoint_def
  download_folder_endpoint_def delete_endpoint_def mkdir_endpoint_def rename_endpoint_def search_endpoint_def

lemma handle_shared_agrees: "handle_shared E depth req S u = handle E depth (shared_api E) req S u"
  by (cases req) (simp_all add: shared_handlers file_handlers committed_plain shared_api_def cong: if_cong)

lemma handle_factory_agrees:
  "\<not> fa_notifies api \<Longrightarrow> handle_factory (fa_section api) E depth req S u = handle E depth api req S u"
  by (cases req) (simp_all add: factory_handlers file_handlers committed_plain cong: if_cong)

end
