(* ===== verification/SectionProps.thy ===== *)
theory SectionProps
  imports SectionRouters ResumeService PhotoService RoundTrips "HOL-Library.Multiset"
begin

text \<open>
  Properties of the sections: the copies of the file endpoints agree, the tree of the resumes has three
  levels, the pages of the photos show every photo once, and a preview follows its upload.
\<close>

section \<open>The copies of the file endpoints\<close>


section \<open>The tree of the resumes\<close>

lemma split_on_both: "split_on c (s @ c # t) = split_on c s @ split_on c t"
  by (induction s) (auto split: list.split)

lemma resume_depth_join:
  assumes "clean \<noteq> []" and "CHR ''/'' \<notin> set clean"
  shows "resume_depth (resume_join parent clean) = Suc (resume_depth parent)"
  using assms by (simp add: resume_join_def resume_depth_def split_on_single split_on_both)

lemma path_name_join:
  assumes "clean \<noteq> []" and "CHR ''/'' \<notin> set clean" and "clean \<noteq> ''.''"
  shows "path_name (resume_join parent clean) = clean"
proof -
  have "path_parts (resume_join parent clean) = path_parts parent @ [clean]"
    using assms by (simp add: resume_join_def path_parts_def split_on_single split_on_both)
  then show ?thesis by (cases "path_parts parent") (simp_all add: path_name_def)
qed

lemma join_empty: "join_on c ys = [] \<Longrightarrow> ys = [] \<or> ys = [[]]"
  by (cases "(c, ys)" rule: join_on.cases) auto

lemma resume_depth_parent:
  assumes "1 \<le> resume_depth (resume_path path)"
  shows "Suc (resume_depth (resume_parent (resume_path path))) = resume_depth (resume_path path)"
proof -
  define p where "p = resume_path path"
  have p: "p \<noteq> []" using assms by (auto simp: p_def resume_depth_def)
  then have "hd p \<noteq> CHR ''/''"
    using strip_by_hd [of "\<lambda>c. c = CHR ''/''"] unfolding p_def resume_path_def strip_slash_def by blast
  then have hd: "hd (split_on (CHR ''/'') p) \<noteq> []" using p by (cases p) (auto split: list.splits)
  let ?ys = "butlast (split_on (CHR ''/'') p)"
  show ?thesis
  proof (cases "?ys = []")
    case True
    then have "length (split_on (CHR ''/'') p) = 1" using split_on_nonempty [of "CHR ''/''" p] by (cases "split_on (CHR ''/'') p") (auto split: if_splits)
    then show ?thesis using p True by (simp add: resume_depth_def resume_parent_def flip: p_def)
  next
    case False
    have "?ys \<noteq> [[]]" using hd False by (cases "split_on (CHR ''/'') p") (auto split: if_splits)
    then have "join_on (CHR ''/'') ?ys \<noteq> []" using False join_empty by blast
    moreover have "split_on (CHR ''/'') (join_on (CHR ''/'') ?ys) = ?ys"
      by (rule split_join) (use False in \<open>auto dest: in_set_butlastD split_on_no_sep\<close>)
    ultimately show ?thesis using p False by (simp add: resume_depth_def resume_parent_def flip: p_def)
  qed
qed

lemma build_node_fields:
  "build_node Y S u p level t w = (Inr n, w') \<Longrightarrow> rn_path n = p \<and> rn_level n = level \<and> rn_name n = path_name p"
  by (auto simp: build_node_def bind_run run split: prod.splits sum.splits)

lemma validate_node_name_Inr:
  "validate_node_name name = Inr clean \<Longrightarrow> clean = strip name \<and> clean \<noteq> [] \<and> CHR ''/'' \<notin> set clean \<and> clean \<noteq> ''.''"
  by (auto simp: validate_node_name_def Let_def split: if_splits)

lemma create_node_fields:
  assumes "create_node Y S u path name status_id w = (Inr n, w')"
  shows "resume_depth (resume_path path) < 3" "validate_node_name name = Inr (strip name)"
    "rn_path n = resume_join (resume_path path) (strip name)" "rn_name n = path_name (rn_path n)"
    "rn_level n = Some (LEVEL_BY_DEPTH ! resume_depth (resume_path path))"
proof -
  let ?depth = "resume_depth (resume_path path)"
  show deep: "?depth < 3"
    using assms by (cases "3 \<le> ?depth") (simp_all add: create_node_def Let_def MAX_TREE_DEPTH_def run)
  obtain clean v where clean: "validate_node_name name = Inr clean"
    and node: "build_node Y S u (resume_join (resume_path path) clean) (Some (LEVEL_BY_DEPTH ! ?depth)) None v = (Inr n, w')"
    using assms deep unfolding create_node_def Let_def MAX_TREE_DEPTH_def if_not_P [OF deep [unfolded not_le [symmetric]]] bind_Inr lift_Inr by blast
  have "clean = strip name" using validate_node_name_Inr [OF clean] by simp
  then show "validate_node_name name = Inr (strip name)"
    "rn_path n = resume_join (resume_path path) (strip name)" "rn_name n = path_name (rn_path n)"
    "rn_level n = Some (LEVEL_BY_DEPTH ! ?depth)"
    using clean build_node_fields [OF node] by simp_all
qed

lemma rename_node_fields:
  assumes "rename_node Y S u path name w = (Inr n, w')"
  shows "ensure_node_depth (resume_depth (resume_path path)) = Inr ()" "validate_node_name name = Inr (strip name)"
    "rn_path n = resume_join (resume_parent (resume_path path)) (strip name)" "rn_name n = path_name (rn_path n)"
proof -
  obtain x clean v level where depth: "ensure_node_depth (resume_depth (resume_path path)) = Inr x"
    and clean: "validate_node_name name = Inr clean"
    and node: "build_node Y S u (resume_join (resume_parent (resume_path path)) clean) level None v = (Inr n, w')"
    using assms unfolding rename_node_def Let_def bind_Inr lift_Inr by blast
  have "clean = strip name" using validate_node_name_Inr [OF clean] by simp
  then show "ensure_node_depth (resume_depth (resume_path path)) = Inr ()" "validate_node_name name = Inr (strip name)"
    "rn_path n = resume_join (resume_parent (resume_path path)) (strip name)" "rn_name n = path_name (rn_path n)"
    using depth clean build_node_fields [OF node] by simp_all
qed


section \<open>The pages of the photos\<close>

definition listed_photos :: "uuid \<Rightarrow> world \<Rightarrow> file_record list" where
  "listed_photos u w = sort_key (\<lambda>r. - fr_created_at r)
     (filter (\<lambda>r. fr_user_id r = u \<and> fr_section r = PHOTOS \<and> fr_status r = S_COMMITTED) (files w))"

lemma one_page:
  assumes "\<not> broken w" and "1 \<le> n"
  shows "list_photos u (int (Suc i)) n w =
    (Inr \<lparr>pg_items = map to_photo_item (take (nat n) (drop (i * nat n) (listed_photos u w))),
          pg_total = int (length (listed_photos u w)),
          pg_has_next = Suc i * nat n < length (listed_photos u w)\<rparr>, w)"
proof -
  let ?L = "listed_photos u w" and ?N = "nat n"
  have n: "n = int ?N" "0 < ?N" using assms(2) by simp_all
  have offset: "nat ((int (Suc i) - 1) * n) = i * ?N" by (subst n(1)) (simp add: nat_mult_distrib)
  have next_page: "i * ?N + min (length ?L - i * ?N) ?N < length ?L \<longleftrightarrow> Suc i * ?N < length ?L"
    using n(2) by (cases "i * ?N < length ?L") (auto simp: min_def)
  have "int i * n = int (i * ?N)" by (subst n(1)) simp
  then have "(int (Suc i) - 1) * n + int (length (take ?N (drop (i * ?N) ?L))) < int (length ?L) \<longleftrightarrow> Suc i * ?N < length ?L"
    unfolding next_page [symmetric] by (simp add: min.commute flip: of_nat_add del: of_nat_mult)
  then show ?thesis
    using assms offset
    by (simp add: list_photos_def Let_def count_by_user_section_def list_by_user_section_paginated_def list_by_user_section_def
        all_files_def query_def bind_run listed_photos_def run)
qed

lemma pages_from:
  assumes "\<not> broken w" and "1 \<le> n"
  shows "\<exists>pages. map_act (\<lambda>p. list_photos u (int p) n) [Suc i..<Suc (i + k)] w = (Inr pages, w) \<and>
    concat (map pg_items pages) = map to_photo_item (take (k * nat n) (drop (i * nat n) (listed_photos u w))) \<and>
    map pg_has_next pages = map (\<lambda>p. p * nat n < length (listed_photos u w)) [Suc i..<Suc (i + k)]"
proof (induction k arbitrary: i)
  case (Suc k)
  let ?L = "listed_photos u w"
  obtain pages where pages: "map_act (\<lambda>p. list_photos u (int p) n) [Suc (Suc i)..<Suc (Suc i + k)] w = (Inr pages, w)"
    "concat (map pg_items pages) = map to_photo_item (take (k * nat n) (drop (Suc i * nat n) ?L))"
    "map pg_has_next pages = map (\<lambda>p. p * nat n < length ?L) [Suc (Suc i)..<Suc (Suc i + k)]"
    using Suc.IH [of "Suc i"] by blast
  have range: "[Suc i..<Suc (i + Suc k)] = Suc i # [Suc (Suc i)..<Suc (Suc i + k)]" by (simp add: upt_conv_Cons)
  have parts: "take (Suc k * nat n) xs = take (nat n) xs @ take (k * nat n) (drop (nat n) xs)" for xs :: "file_record list"
    by (simp add: take_add)
  have shift: "drop (nat n) (drop (i * nat n) ?L) = drop (Suc i * nat n) ?L" by (simp add: add.commute)
  show ?case
    unfolding range parts shift using pages one_page [OF assms, of u i] by (simp add: bind_run run del: of_nat_Suc upt_Suc)
qed (simp add: run)

text \<open>
  C13. The pages of the photos show every photo once: whatever the size of a page, the first \<open>k\<close> pages
  together are the first \<open>k\<close> times that many of the user's committed photos, from the newest to the oldest,
  and a page says that there is a next one exactly if photos remain. Nothing changes.
\<close>

theorem photo_pages_cover:
  assumes "\<not> broken w" and "1 \<le> n"
  shows "\<exists>pages photos. map_act (\<lambda>p. list_photos u (int p) n) [1..<Suc k] w = (Inr pages, w) \<and>
    mset photos = filter_mset (\<lambda>r. fr_user_id r = u \<and> fr_section r = PHOTOS \<and> fr_status r = S_COMMITTED) (mset (files w)) \<and>
    sorted (map (\<lambda>r. - fr_created_at r) photos) \<and>
    concat (map pg_items pages) = map to_photo_item (take (k * nat n) photos) \<and>
    map pg_has_next pages = map (\<lambda>p. p * nat n < length photos) [1..<Suc k]"
proof -
  have "mset (listed_photos u w) = filter_mset (\<lambda>r. fr_user_id r = u \<and> fr_section r = PHOTOS \<and> fr_status r = S_COMMITTED) (mset (files w))"
    by (simp add: listed_photos_def mset_filter)
  moreover have "sorted (map (\<lambda>r. - fr_created_at r) (listed_photos u w))" by (simp add: listed_photos_def)
  ultimately show ?thesis using pages_from [OF assms, of u 0 k] by auto
qed

theorem photo_pages_cover_witness:
  "\<exists>pages. map_act (\<lambda>p. list_photos 3 (int p) 2) [1..<3]
      (empty_world\<lparr>files := map (\<lambda>i. sample_record\<lparr>fr_id := of_nat i, fr_section := PHOTOS, fr_created_at := int i\<rparr>) [1..<4]\<rparr>) = (Inr pages, empty_world\<lparr>files := map (\<lambda>i. sample_record\<lparr>fr_id := of_nat i, fr_section := PHOTOS, fr_created_at := int i\<rparr>) [1..<4]\<rparr>) \<and>
    length (concat (map pg_items pages)) = 3 \<and> map pg_has_next pages = [True, False]"
proof -
  let ?w = "empty_world\<lparr>files := map (\<lambda>i. sample_record\<lparr>fr_id := of_nat i, fr_section := PHOTOS, fr_created_at := int i\<rparr>) [1..<4]\<rparr>"
  have "\<not> broken ?w" by (simp add: empty_world_def)
  from photo_pages_cover [OF this, of 2 3 2] obtain pages photos where
    p: "map_act (\<lambda>p. list_photos 3 (int p) 2) [1..<Suc 2] ?w = (Inr pages, ?w)"
    "mset photos = filter_mset (\<lambda>r. fr_user_id r = 3 \<and> fr_section r = PHOTOS \<and> fr_status r = S_COMMITTED) (mset (files ?w))"
    "concat (map pg_items pages) = map to_photo_item (take (2 * nat 2) photos)"
    "map pg_has_next pages = map (\<lambda>p. p * nat 2 < length photos) [1..<Suc 2]"
    by auto
  have "length photos = 3" using arg_cong [OF p(2), of size] by (simp add: sample_record_def upt_rec)
  with p show ?thesis by (intro exI [of _ pages]) (simp add: upt_rec numeral_3_eq_3)
qed

section \<open>A photo and its preview\<close>

lemma previews_mkdir:
  assumes "reliable B (sa_env A)" and "sa_root_prefix A \<noteq> []"
  obtains w' m where "st_mkdir (s3_storage A) PREVIEWS_DIR w = (Inr (), w')" "same_rows w w'"
    "objects (stored B w') = (objects (stored B w))(m := Some [])" "ends_with m ''/''"
proof -
  have dir: "safe_logical_key PREVIEWS_DIR = Inr PREVIEWS_DIR" "split_on (CHR ''/'') PREVIEWS_DIR = [PREVIEWS_DIR]"
    "PREVIEWS_DIR \<noteq> []" "\<not> ends_with PREVIEWS_DIR ''/''" by code_simp+
  let ?m = "sa_root_prefix A @ CHR ''/'' # PREVIEWS_DIR @ ''/''"
  have "\<not> ends_with (sa_root_prefix A @ CHR ''/'' # PREVIEWS_DIR) ''/''"
    by (auto simp: ends_with_iff PREVIEWS_DIR_def)
  then have key: "object_key (sa_root_prefix A) PREVIEWS_DIR True = Inr ?m"
    using dir(1,3) assms(2) by (simp add: object_key_def DIR_MARKER_SUFFIX_def)
  obtain w' where w': "send_unit (sa_env A) (Put_Object ?m []) w = (Inr (), w')"
    "stored B w' = (stored B w)\<lparr>objects := (objects (stored B w))(?m := Some [])\<rparr>"
    by (rule send_put [OF assms(1)])
  then have m: "s3_mkdir A PREVIEWS_DIR w = (Inr (), w')"
    using dir key by (simp add: s3_mkdir_def bind_run lift_def run)
  have "rowless (s3_mkdir A PREVIEWS_DIR)" using s3.storage_rowless(5) [of A PREVIEWS_DIR] by (simp add: s3_storage_def)
  then have "same_rows w w'" using m by (rule rowlessD)
  with m w'(2) show ?thesis by (intro that [of w' ?m]) (simp_all add: s3_storage_def ends_with_iff)
qed

lemma upload_photo_ok:
  fixes A :: s3_adapter
  assumes S: "po_adapter S = s3_storage A" "po_env S = sa_env A" "queue_of (sa_env A) (po_index S) = None"
    and rel: "reliable B (sa_env A)" and src: "source_error data = None" and ext: "validate_photo_filename filename = Inr ()"
    and r: "r = committed_record (sa_env A) u (sa_disk_id A) dp filename n PHOTOS (source_bytes data) w"
    and sp: "sp = original_path (fr_id r) (lower (path_suffix filename))"
      "to_disk_relative_path (s3_storage A) sp = Inr dp" "file_key A sp = Some k"
    and new: "fr_id r \<notin> fr_id ` set (files w)" "u \<in> ur_id ` set (users w)" "\<not> broken w" "row_fits r"
    and quota: "get_quota u w = Some q" "quota_fits (charge n PHOTOS q)"
  obtains w' where "upload_photo S u filename data n w = (Inr r, w')" "files w' = files w @ [r]" "\<not> broken w'"
    "objects (stored B w') = (objects (stored B w))(k := Some (source_bytes data))"
    "last (background w') = (sa_root_prefix A, sp, preview_path (fr_id r))"
proof -
  let ?E = "sa_env A" and ?b = "source_bytes data"
  let ?r0 = "r\<lparr>fr_status := S_PENDING, fr_checksum_sha256 := None, fr_relative_path := []\<rparr>"
  let ?w1 = "w\<lparr>tick := Suc (tick w), minted := Suc (minted w), files := files w @ [?r0]\<rparr>"
  have 1: "create_file ?E u (sa_disk_id A) [] filename n (mime_type_of ?E filename) False PHOTOS S_PENDING w = (Inr ?r0, ?w1)"
    using new by (auto simp: create_file_def insert_file_def run r committed_record_def row_fits_def Let_def)
  obtain w2 where 2: "st_write (s3_storage A) sp data n ?w1 = (Inr (sha256_hex ?E ?b), w2)" "same_rows ?w1 w2"
    "objects (stored B w2) = (objects (stored B ?w1))(k := Some ?b)"
    by (rule write_reached [OF rel sp(3) src])
  have rows: "files w2 = files w @ [?r0]" "quotas w2 = quotas w" "\<not> broken w2"
    using 2(2) new by (simp_all add: same_rows_def)
  let ?w3 = "w2\<lparr>files := files w @ [r]\<rparr>"
  have g: "get_file (fr_id r) w2 = Some ?r0" using new(1) by (simp add: get_file_def rows find_append_new)
  have up: "?r0\<lparr>fr_status := S_COMMITTED, fr_checksum_sha256 := Some (sha256_hex ?E ?b), fr_relative_path := dp,
      fr_original_name := filename\<rparr> = r"
    by (simp add: r committed_record_def)
  have 3: "update_status (fr_id r) S_COMMITTED (Some (sha256_hex ?E ?b)) (Some dp) None w2 = (Inr (Some r), ?w3)"
    using g rows new replace_last [of r "files w" ?r0] up
    by (simp add: update_status_def change_file_def flush_file_def run)
       (simp add: r committed_record_def)
  let ?w4 = "?w3\<lparr>quotas := map (\<lambda>x. if qu_user_id x = u then charge n PHOTOS q else x) (quotas w)\<rparr>"
  have q3: "get_quota u ?w3 = Some q" using quota(1) rows by (simp add: get_quota_def)
  have 4: "increment ?E u n PHOTOS ?w3 = (Inr (charge n PHOTOS q), ?w4)"
    using quota_found [OF q3, of ?E] q3 quota(2) rows
    by (simp add: increment_def bind_run update_quota_def charge_def)
  let ?w5 = "?w4\<lparr>background := background ?w4 @ [(sa_root_prefix A, sp, preview_path (fr_id r))]\<rparr>"
  have store: "store_photo S u ?r0 sp dp data n ?w1 = (Inr r, ?w5)"
    using 2(1) 3 4 by (simp add: store_photo_def S bind_run schedule_preview_def enqueue_upload_def run) (simp add: s3_storage_def)
  have disk: "st_disk_id (s3_storage A) = sa_disk_id A" by (simp add: s3_storage_def)
  have "upload_photo S u filename data n w = (Inr r, ?w5)"
    using ext 1 sp(2) store disk
    by (simp add: upload_photo_def S Let_def bind_run try_run lift_def sp(1) [symmetric])
  moreover have "objects (stored B ?w5) = (objects (stored B w))(k := Some ?b)" using 2(3) by (simp add: stored_def)
  ultimately show ?thesis using rows by (intro that [of ?w5]) simp_all
qed

lemma photo_found:
  assumes "get_file f w = Some r" and "\<not> broken w" and "fr_status r = S_COMMITTED" "fr_user_id r = u" "fr_section r = PHOTOS"
  shows "downloadable_photo u f w = (Inr r, w)"
  using assms by (simp add: downloadable_photo_def get_by_id_def query_def bind_run run)

text \<open>
  C10. Over a reliable store, a photo that is uploaded schedules exactly the task that makes its preview; its
  original reads back byte for byte, and once the task has run the preview endpoint answers with the scaled
  image instead of the original.
\<close>

theorem photo_then_preview:
  fixes A :: s3_adapter
  assumes S: "po_adapter S = s3_storage A" "po_env S = sa_env A" "queue_of (sa_env A) (po_index S) = None"
    and rel: "reliable B (sa_env A)" and src: "source_error data = None" and ext: "validate_photo_filename filename = Inr ()"
    and r: "r = committed_record (sa_env A) u (sa_disk_id A) dp filename n PHOTOS (source_bytes data) w"
    and pre: "sa_root_prefix A \<noteq> []"
    and sp: "sp = original_path (fr_id r) (lower (path_suffix filename))" "safe_logical_key sp = Inr sp" "sp \<noteq> []"
      "dp = sa_root_prefix A @ CHR ''/'' # sp" "file_key A sp = Some k"
    and pp: "file_key A (preview_path (fr_id r)) = Some kp" "kp \<noteq> k"
    and new: "fr_id r \<notin> fr_id ` set (files w)" "u \<in> ur_id ` set (users w)" "\<not> broken w" "row_fits r"
    and quota: "get_quota u w = Some q" "quota_fits (charge n PHOTOS q)"
    and scaled: "thumbnail (sa_env A) (source_bytes data) = Some preview"
  shows "\<exists>w1 w2 w3 w4. upload_photo S u filename data n w = (Inr r, w1) \<and>
    last (background w1) = (sa_root_prefix A, sp, preview_path (fr_id r)) \<and>
    get_original S u (fr_id r) w1 = (Inr (source_bytes data), w2) \<and>
    generate_preview S sp (preview_path (fr_id r)) w1 = (Inr (), w3) \<and>
    get_preview S u (fr_id r) w3 = (Inr (preview, ''image/jpeg''), w4)"
proof -
  have disk: "to_disk_relative_path (s3_storage A) sp = Inr dp"
    using sp by (simp add: to_disk_relative_path_def s3_storage_def)
  obtain w1 where 1: "upload_photo S u filename data n w = (Inr r, w1)" "files w1 = files w @ [r]" "\<not> broken w1"
    "objects (stored B w1) = (objects (stored B w))(k := Some (source_bytes data))"
    "last (background w1) = (sa_root_prefix A, sp, preview_path (fr_id r))"
    by (rule upload_photo_ok [OF S rel src ext r sp(1) disk sp(5) new quota])
  have fields: "fr_status r = S_COMMITTED" "fr_user_id r = u" "fr_section r = PHOTOS" "\<not> fr_is_archived r"
    "fr_relative_path r = sa_root_prefix A @ CHR ''/'' # sp"
    by (simp_all add: r committed_record_def sp(4))
  have found: "downloadable_photo u (fr_id r) v = (Inr r, v)" if "same_rows w1 v" for v
    by (rule photo_found) (use that 1(2,3) new(1) fields in \<open>auto simp: same_rows_def get_file_def find_append_new\<close>)
  have path: "photo_section_path S r = sp"
    by (simp add: photo_section_path_def S s3_storage_def fields(5) starts_with_def)
  have body: "objects (stored B w1) k = Some (source_bytes data)" using 1(4) by simp
  obtain w2 where 2: "st_read (s3_storage A) sp w1 = (Inr (source_bytes data), w2)" "same_rows w1 w2"
    by (rule read_reached [OF rel sp(5) body])
  have g: "get_file (fr_id r) w2 = Some r" "\<not> broken w2"
    using 2(2) 1(2,3) new(1) by (simp_all add: same_rows_def get_file_def find_append_new)
  obtain w2' where touch: "touch_last_accessed (sa_env A) (fr_id r) w2 = (Inr (), w2')"
    using touch_ok [OF g(1) new(4) g(2)] by metis
  have original: "get_original S u (fr_id r) w1 = (Inr (source_bytes data), w2')"
    using found [of w1] 2(1) touch fields(4) by (simp add: get_original_def bind_run run S path)
  obtain v1 m where v1: "st_mkdir (s3_storage A) PREVIEWS_DIR w1 = (Inr (), v1)" "same_rows w1 v1"
    "objects (stored B v1) = (objects (stored B w1))(m := Some [])" "ends_with m ''/''"
    by (rule previews_mkdir [OF rel pre])
  have "\<not> ends_with k ''/''" using file_keyD [OF sp(5)] by (simp add: DIR_MARKER_SUFFIX_def)
  then have "m \<noteq> k" using v1(4) by auto
  then have body1: "objects (stored B v1) k = Some (source_bytes data)" using v1(3) body by simp
  obtain v2 where v2: "st_read (s3_storage A) sp v1 = (Inr (source_bytes data), v2)" "same_rows v1 v2"
    by (rule read_reached [OF rel sp(5) body1])
  have whole: "source_error (whole_source preview) = None" "source_bytes (whole_source preview) = preview"
    by (simp_all add: whole_source_def)
  obtain v3 where v3: "st_write (s3_storage A) (preview_path (fr_id r)) (whole_source preview) (int (length preview)) v2 =
      (Inr (sha256_hex (sa_env A) (source_bytes (whole_source preview))), v3)" "same_rows v2 v3"
    "objects (stored B v3) = (objects (stored B v2))(kp := Some (source_bytes (whole_source preview)))"
    by (rule write_reached [OF rel pp(1) whole(1)])
  have gen: "generate_preview S sp (preview_path (fr_id r)) w1 = (Inr (), v3)"
    using v1(1) v2(1) v3(1) scaled by (simp add: generate_preview_def S Let_def bind_run try_run run)
  have rows: "same_rows w1 v3" using v1(2) v2(2) v3(2) by (simp add: same_rows_def)
  have small: "objects (stored B v3) kp = Some preview" using v3(3) whole(2) by simp
  obtain v4 where v4: "st_exists (s3_storage A) (preview_path (fr_id r)) v3 = (Inr True, v4)" "stored B v4 = stored B v3"
    by (rule exists_reached [OF rel pp(1) small])
  have "objects (stored B v4) kp = Some preview" using small v4(2) by simp
  then obtain v5 where v5: "st_read (s3_storage A) (preview_path (fr_id r)) v4 = (Inr preview, v5)"
    by (rule read_reached [OF rel pp(1)])
  have "get_preview S u (fr_id r) v3 = (Inr (preview, ''image/jpeg''), v5)"
    using found [OF rows] v4(1) v5 by (simp add: get_preview_def S bind_run run)
  with 1(1,5) original gen show ?thesis by blast
qed

definition photos_adapter :: s3_adapter where
  "photos_adapter = \<lparr>sa_env = store_env, sa_disk_id = ''storage'', sa_root_prefix = ''users/3/photos''\<rparr>"

definition sample_photos :: photo_service where
  "sample_photos = \<lparr>po_env = store_env, po_adapter = s3_storage photos_adapter, po_archive_manager = True, po_index = None\<rparr>"

theorem photo_then_preview_witness:
  "\<exists>r w1 w3 w4. upload_photo sample_photos 3 ''Cat.PNG'' (Source_Chunk [1, 2] Source_End) 2 ledger_world = (Inr r, w1) \<and>
    generate_preview sample_photos (original_path 100 ''.png'') (preview_path 100) w1 = (Inr (), w3) \<and>
    get_preview sample_photos 3 100 w3 = (Inr ([1, 2], ''image/jpeg''), w4)"
proof -
  let ?data = "Source_Chunk [1, 2] Source_End" and ?sp = "original_path 100 ''.png''"
  let ?dp = "''users/3/photos/'' @ ?sp"
  define r where "r = committed_record (sa_env photos_adapter) 3 (sa_disk_id photos_adapter) ?dp ''Cat.PNG'' 2 PHOTOS
    (source_bytes ?data) ledger_world"
  have i: "fr_id r = 100" by (simp add: r_def committed_record_def photos_adapter_def store_env_def sample_env_def
      ledger_world_def sample_world_def empty_world_def)
  have S: "po_adapter sample_photos = s3_storage photos_adapter" "po_env sample_photos = sa_env photos_adapter"
    "queue_of (sa_env photos_adapter) (po_index sample_photos) = None"
    by (simp_all add: sample_photos_def photos_adapter_def queue_of_def)
  have rel: "reliable empty_bucket (sa_env photos_adapter)" using store_env_reliable by (simp add: photos_adapter_def)
  have src: "source_error ?data = None" by simp
  have ext: "validate_photo_filename ''Cat.PNG'' = Inr ()" "lower (path_suffix ''Cat.PNG'') = ''.png''" by code_simp+
  have paths: "safe_logical_key ?sp = Inr ?sp" "?sp \<noteq> []" by code_simp+
  have keys: "file_key photos_adapter ?sp = Some ?dp"
    "file_key photos_adapter (preview_path 100) = Some (''users/3/photos/'' @ preview_path 100)"
    "''users/3/photos/'' @ preview_path 100 \<noteq> ?dp"
    by code_simp+
  have rows: "fr_id r \<notin> fr_id ` set (files ledger_world)" "3 \<in> ur_id ` set (users ledger_world)" "\<not> broken ledger_world" "row_fits r"
    by (simp_all add: i) (simp_all add: ledger_world_def sample_world_def empty_world_def sample_record_def r_def committed_record_def
        photos_adapter_def store_env_def sample_env_def row_fits_def big_int_def mime_type_of_def or_else_def non_empty_def DEFAULT_MIME_TYPE_def)
  obtain q where q: "get_quota 3 ledger_world = Some q" "quota_fits (charge 2 PHOTOS q)"
    by (simp add: ledger_world_def get_quota_def charge_def quota_fits_def big_int_def)
  have scaled: "thumbnail (sa_env photos_adapter) (source_bytes ?data) = Some [1, 2]"
    by (simp add: photos_adapter_def store_env_def sample_env_def)
  have pre: "sa_root_prefix photos_adapter = ''users/3/photos''" by (simp add: photos_adapter_def)
  have place: "sa_root_prefix photos_adapter \<noteq> []" "?sp = original_path (fr_id r) (lower (path_suffix ''Cat.PNG''))"
    "?dp = sa_root_prefix photos_adapter @ CHR ''/'' # ?sp"
    unfolding i ext(2) pre by simp_all
  have preview: "file_key photos_adapter (preview_path (fr_id r)) = Some (''users/3/photos/'' @ preview_path 100)"
    unfolding i by (rule keys(2))
  from photo_then_preview [OF S rel src ext(1) r_def place(1,2) paths place(3) keys(1) preview keys(3) rows q scaled]
  show ?thesis unfolding i by blast
qed

end
