(* ===== verification/TaggedYaml.thy ===== *)
theory TaggedYaml
  imports Yaml
begin

text \<open>
  A YAML library that keeps the promise \<open>yaml_faithful\<close>, so that what is proved under it is about
  something: documents as tagged text, counts in unary, lists that end with a stop.
\<close>

definition tally :: "nat \<Rightarrow> string" where
  "tally n = replicate n (CHR ''1'') @ ''0''"

definition signed :: "int \<Rightarrow> string" where
  "signed n = (if n < 0 then CHR ''-'' else CHR ''+'') # tally (nat \<bar>n\<bar>)"

fun tagged :: "yaml \<Rightarrow> string" where
  "tagged Y_Null = ''z''"
| "tagged (Y_Bool b) = (if b then ''t'' else ''f'')"
| "tagged (Y_Int n) = CHR ''i'' # signed n"
| "tagged (Y_Float Not_Finite) = ''n''"
| "tagged (Y_Float (Finite q)) = (case quotient_of q of (a, b) \<Rightarrow> CHR ''r'' # signed a @ signed b)"
| "tagged (Y_Str s) = CHR ''s'' # tally (length s) @ s"
| "tagged (Y_Scalar s) = ''z''"
| "tagged (Y_Sequence ys) = CHR ''q'' # concat (map (\<lambda>y. CHR ''*'' # tagged y) ys) @ ''.''"
| "tagged (Y_Mapping ms) = CHR ''m'' # concat (map (\<lambda>(k, v). CHR ''*'' # tagged k @ tagged v) ms) @ ''.''"

definition read_tally :: "string \<Rightarrow> nat \<times> string" where
  "read_tally s = (length (takeWhile ((=) (CHR ''1'')) s), tl (dropWhile ((=) (CHR ''1'')) s))"

definition read_signed :: "string \<Rightarrow> int \<times> string" where
  "read_signed s = (let (n, t) = read_tally (tl s) in (if hd s = CHR ''-'' then - int n else int n, t))"

fun read_tagged :: "nat \<Rightarrow> string \<Rightarrow> (yaml \<times> string) option"
  and read_items :: "nat \<Rightarrow> string \<Rightarrow> (yaml list \<times> string) option"
  and read_pairs :: "nat \<Rightarrow> string \<Rightarrow> ((yaml \<times> yaml) list \<times> string) option" where
  "read_tagged 0 s = None"
| "read_tagged (Suc f) s = (case s of [] \<Rightarrow> None | c # t \<Rightarrow>
     if c = CHR ''z'' then Some (Y_Null, t)
     else if c = CHR ''t'' then Some (Y_Bool True, t)
     else if c = CHR ''f'' then Some (Y_Bool False, t)
     else if c = CHR ''n'' then Some (Y_Float Not_Finite, t)
     else if c = CHR ''i'' then (let (n, r) = read_signed t in Some (Y_Int n, r))
     else if c = CHR ''r'' then
       (let (a, r) = read_signed t; (b, r') = read_signed r in Some (Y_Float (Finite (of_int a / of_int b)), r'))
     else if c = CHR ''s'' then (let (n, r) = read_tally t in Some (Y_Str (take n r), drop n r))
     else if c = CHR ''q'' then map_option (\<lambda>(ys, r). (Y_Sequence ys, r)) (read_items f t)
     else if c = CHR ''m'' then map_option (\<lambda>(ms, r). (Y_Mapping ms, r)) (read_pairs f t)
     else None)"
| "read_items 0 s = None"
| "read_items (Suc f) s = (case s of [] \<Rightarrow> None | c # t \<Rightarrow>
     if c = CHR ''.'' then Some ([], t)
     else (case read_tagged f t of None \<Rightarrow> None
       | Some (y, r) \<Rightarrow> map_option (\<lambda>(ys, r'). (y # ys, r')) (read_items f r)))"
| "read_pairs 0 s = None"
| "read_pairs (Suc f) s = (case s of [] \<Rightarrow> None | c # t \<Rightarrow>
     if c = CHR ''.'' then Some ([], t)
     else (case read_tagged f t of None \<Rightarrow> None
       | Some (k, r) \<Rightarrow> (case read_tagged f r of None \<Rightarrow> None
           | Some (v, r') \<Rightarrow> map_option (\<lambda>(ms, r''). ((k, v) # ms, r'')) (read_pairs f r'))))"

definition tagged_yaml :: yaml_library where
  "tagged_yaml = \<lparr>yaml_dump = tagged, yaml_dump_quoted = tagged,
     yaml_safe_load = (\<lambda>s. map_option fst (read_tagged (Suc (length s)) s)),
     scalar_str = (\<lambda>_. []), float_parse = (\<lambda>s. map_option (\<lambda>n. Finite (of_nat n)) (parse_decimal s)),
     float_of_int = (\<lambda>n. Some (Finite (of_int n)))\<rparr>"

lemma read_tally [simp]: "read_tally (tally n @ r) = (n, r)"
proof -
  have "takeWhile ((=) (CHR ''1'')) (replicate n (CHR ''1'') @ CHR ''0'' # r) = replicate n (CHR ''1'')"
    "dropWhile ((=) (CHR ''1'')) (replicate n (CHR ''1'') @ CHR ''0'' # r) = CHR ''0'' # r"
    by (induction n) simp_all
  then show ?thesis by (simp add: read_tally_def tally_def)
qed

lemma read_signed [simp]: "read_signed (signed n @ r) = (n, r)"
  by (simp add: read_signed_def signed_def)

definition items :: "yaml list \<Rightarrow> string" where
  "items ys = concat (map (\<lambda>y. CHR ''*'' # tagged y) ys) @ ''.''"

definition pairs :: "(yaml \<times> yaml) list \<Rightarrow> string" where
  "pairs ms = concat (map (\<lambda>(k, v). CHR ''*'' # tagged k @ tagged v) ms) @ ''.''"

lemma items_simps: "items [] = ''.''" "items (y # ys) = CHR ''*'' # tagged y @ items ys"
  by (simp_all add: items_def)

lemma pairs_simps: "pairs [] = ''.''" "pairs ((k, v) # ms) = CHR ''*'' # tagged k @ tagged v @ pairs ms"
  by (simp_all add: pairs_def)

lemma tagged_lists: "tagged (Y_Sequence ys) = CHR ''q'' # items ys" "tagged (Y_Mapping ms) = CHR ''m'' # pairs ms"
  by (simp_all add: items_def pairs_def)

lemma tagged_nonempty: "tagged d \<noteq> []"
  by (cases d rule: tagged.cases) (simp_all split: prod.split)

lemma items_nonempty: "items ys \<noteq> []" "pairs ms \<noteq> []"
  by (simp_all add: items_def pairs_def)

lemma plain_key: "(case k of Y_Str s \<Rightarrow> True | _ \<Rightarrow> False) \<Longrightarrow> plain_document k"
  by (cases k) simp_all

lemma read_back:
  "(\<forall>d r. plain_document d \<and> length (tagged d) \<le> f \<longrightarrow> read_tagged f (tagged d @ r) = Some (d, r)) \<and>
   (\<forall>ys r. list_all plain_document ys \<and> length (items ys) \<le> f \<longrightarrow> read_items f (items ys @ r) = Some (ys, r)) \<and>
   (\<forall>ms r. list_all (\<lambda>m. plain_document (fst m) \<and> plain_document (snd m)) ms \<and> length (pairs ms) \<le> f \<longrightarrow>
      read_pairs f (pairs ms @ r) = Some (ms, r))"
proof (induction f)
  case 0
  then show ?case using tagged_nonempty items_nonempty by auto
next
  case (Suc f)
  have documents: "read_tagged (Suc f) (tagged d @ r) = Some (d, r)"
    if d: "plain_document d" "length (tagged d) \<le> Suc f" for d r
  proof (cases d)
    case (Y_Float x)
    then obtain q where q: "x = Finite q" using d(1) by (cases x) auto
    obtain a b where ab: "quotient_of q = (a, b)" by fastforce
    then show ?thesis by (simp add: Y_Float q quotient_of_div [OF ab, symmetric])
  next
    case (Y_Sequence ys)
    then have "list_all plain_document ys" "length (items ys) \<le> f" using d by (simp_all add: tagged_lists del: tagged.simps)
    with Suc.IH show ?thesis by (simp add: Y_Sequence tagged_lists del: tagged.simps)
  next
    case (Y_Mapping ms)
    then have "list_all (\<lambda>m. plain_document (fst m) \<and> plain_document (snd m)) ms" "length (pairs ms) \<le> f"
      using d plain_key by (auto simp: tagged_lists list_all_iff simp del: tagged.simps)
    with Suc.IH show ?thesis by (simp add: Y_Mapping tagged_lists del: tagged.simps)
  qed (use d in \<open>auto split: if_splits\<close>)
  have sequences: "read_items (Suc f) (items ys @ r) = Some (ys, r)"
    if "list_all plain_document ys" "length (items ys) \<le> Suc f" for ys r
    using that Suc.IH by (cases ys) (auto simp: items_simps)
  have mappings: "read_pairs (Suc f) (pairs ms @ r) = Some (ms, r)"
    if "list_all (\<lambda>m. plain_document (fst m) \<and> plain_document (snd m)) ms" "length (pairs ms) \<le> Suc f" for ms r
  proof (cases ms)
    case (Cons m rest)
    obtain k v where "m = (k, v)" by fastforce
    then show ?thesis using that Suc.IH by (auto simp: Cons pairs_simps)
  qed (simp add: pairs_simps)
  show ?case using documents sequences mappings by blast
qed

lemma strip_first: "\<not> is_space c \<Longrightarrow> strip (c # s) \<noteq> []"
  by (simp add: strip_def strip_by_def lstrip_by_def rstrip_by_def)

lemma tagged_yaml_faithful: "yaml_faithful tagged_yaml"
proof -
  have "strip (tagged d) \<noteq> [] \<and> map_option fst (read_tagged (Suc (length (tagged d))) (tagged d)) = Some d"
    if d: "plain_document d" "is_collection d" for d
  proof
    show "strip (tagged d) \<noteq> []"
      using d(2) by (cases d) (simp_all add: is_collection_def tagged_lists strip_first is_space_def char_code_def
          del: tagged.simps)
    have "read_tagged (Suc (length (tagged d))) (tagged d @ []) = Some (d, [])"
      by (rule read_back [THEN conjunct1, rule_format]) (simp add: d(1))
    then show "map_option fst (read_tagged (Suc (length (tagged d))) (tagged d)) = Some d" by simp
  qed
  then show ?thesis by (simp add: yaml_faithful_def tagged_yaml_def)
qed

end
