(* ===== verification/Documents.thy ===== *)
theory Documents
  imports KeysRegistry ResumeService GeneratedService TaggedYaml
begin

text \<open>
  The YAML documents of the services are read back as they were written: the mapping of the keys, the
  statuses and the vacancies of the resumes, the meta data of generated images. What the theorems ask
  of PyYAML is \<open>yaml_faithful\<close>.
\<close>

lemma and_then_if [simp]: "and_then (if b then x else y) f = (if b then and_then x f else and_then y f)"
  by simp

section \<open>Generated images\<close>

lemma faithful_quoted:
  assumes "yaml_faithful Y" and "plain_document d" and "is_collection d"
  shows "yaml_safe_load Y (decode_utf8_replace (encode_utf8 (yaml_dump_quoted Y d))) = Some d"
  using assms by (simp add: yaml_faithful_def)

lemma faithful_plain:
  assumes "yaml_faithful Y" and "plain_document d" and "is_collection d"
  shows "load_yaml Y (encode_utf8 (yaml_dump Y d)) = Inr (Some d)"
proof -
  have "d \<noteq> Y_Null" using assms(3) by (auto simp: is_collection_def)
  then show ?thesis
    using assms by (auto simp: yaml_faithful_def load_yaml_def Let_def split: yaml.splits)
qed

lemma all_digits_decimal: "all_digits (decimal n)"
proof (induction n rule: decimal.induct)
  case (1 n)
  then show ?case by (subst decimal.simps) (simp add: all_digits_def)
qed

lemma decimal_hd: "0 < n \<Longrightarrow> hd (decimal n) \<noteq> CHR ''0''"
proof (induction n rule: decimal.induct)
  case (1 n)
  have "digit d \<noteq> CHR ''0''" if "0 < d" "d < 10" for d
  proof
    assume "digit d = CHR ''0''"
    then have "digit_value (digit d) = digit_value (CHR ''0'')" by simp
    with that show False by (simp add: digit_value_def [of "CHR ''0''"] char_code_def Let_def)
  qed
  with 1 show ?case by (subst decimal.simps) (simp add: hd_append)
qed

lemma reference_name_pattern: "0 < i \<Longrightarrow> reference_name_pattern (reference_name i)"
  using decimal_hd [of i] decimal_nonempty [of i] all_digits_decimal [of i]
  by (cases "decimal i") (auto simp: reference_name_pattern_def reference_name_def starts_with_iff ends_with_iff
      Let_def simp del: decimal_nonempty)

lemma reference_name_inject: "reference_name i = reference_name j \<longleftrightarrow> i = j"
proof
  assume "reference_name i = reference_name j"
  then have "decimal i = decimal j" by (simp add: reference_name_def)
  then have "parse_decimal (decimal i) = parse_decimal (decimal j)" by simp
  then show "i = j" by simp
qed simp

lemma parse_references_back:
  "0 < i \<Longrightarrow> set seen \<inter> reference_name ` {i..} = {} \<Longrightarrow>
    parse_references_from seen (map Y_Str (map reference_name [i..<i + n])) = Inr (map reference_name [i..<i + n])"
proof (induction n arbitrary: i seen)
  case (Suc n)
  have range: "[i..<i + Suc n] = i # [Suc i..<Suc i + n]" by (simp add: upt_conv_Cons)
  have fresh: "reference_name i \<notin> set seen" using Suc.prems(2) by auto
  have "set (reference_name i # seen) \<inter> reference_name ` {Suc i..} = {}"
    using Suc.prems(2) by (auto simp: reference_name_inject)
  from Suc.IH [OF _ this] show ?case
    using fresh reference_name_pattern [OF Suc.prems(1)] unfolding range by simp
qed simp

lemma plain_strings: "list_all plain_document (map Y_Str xs)"
  by (induction xs) simp_all

lemma parse_run_Inr:
  assumes "parse_run Y f = Inr (m, b)"
  shows "strip (gm_prompt m) \<noteq> []" "gm_result m = RESULT_FILENAME" "rf_result f = Some b"
    "gm_references m = map reference_name [1..<1 + length (rf_references f)]"
    "length (rf_references f) \<le> MAX_REFERENCE_COUNT"
  using assms
  by (auto simp: parse_run_def and_then_Inr require_prompt_def require_reference_count_def split: option.splits if_splits)

text \<open>
  C11. The meta data that are stored with a generated image are read back from \<open>meta.yaml\<close> as they were
  written, whatever the form that was accepted, for every time until the year 9999 and every faithful
  YAML library: every number keeps its value and every reference its name.
\<close>

theorem generated_meta_reads_back:
  assumes faithful: "yaml_faithful Y" and parsed: "parse_run Y form = Inr (m, result)"
    and time: "0 \<le> created_at" "created_at < 253402300800"
  shows "parse_run_meta Y (render_meta Y (m\<lparr>gm_created_at := format_timestamp created_at\<rparr>)) =
    Inr (m\<lparr>gm_created_at := format_timestamp created_at\<rparr>)"
proof -
  let ?m = "m\<lparr>gm_created_at := format_timestamp created_at\<rparr>"
  note m = parse_run_Inr [OF parsed]
  have "plain_document (run_document ?m)" by (simp add: run_document_def plain_strings comp_def)
  moreover have "is_collection (run_document ?m)" by (simp add: run_document_def is_collection_def)
  ultimately have load: "yaml_safe_load Y (decode_utf8_replace (render_meta Y ?m)) = Some (run_document ?m)"
    unfolding render_meta_def by (rule faithful_quoted [OF faithful])
  have references: "parse_references (Y_Sequence (map Y_Str (gm_references m))) = Inr (gm_references m)"
    using parse_references_back [of 1 "[]"] by (simp add: parse_references_def m(4))
  show ?thesis
    using load m(1,2) references timestamp_round_trip [OF time]
    by (simp add: parse_run_meta_def run_document_def yaml_get_def meta_text_def parse_meta_int_def
        parse_meta_float_def finite_float_def parse_created_at_def)
qed

definition sample_form :: run_form where
  "sample_form = \<lparr>rf_prompt = Some ''a cat'', rf_negative_prompt = None, rf_seed = Some ''-7'', rf_steps = Some ''20'',
     rf_true_cfg_scale = Some ''4'', rf_width = Some ''512'', rf_height = Some ''512'', rf_duration = Some ''3'',
     rf_references = [[1], [2, 3]], rf_result = Some [9]\<rparr>"

theorem generated_meta_reads_back_witness:
  "\<exists>m. parse_run tagged_yaml sample_form = Inr (m, [9]) \<and> gm_references m = [''ref-1.png'', ''ref-2.png''] \<and>
     parse_run_meta tagged_yaml (render_meta tagged_yaml (m\<lparr>gm_created_at := ''2025-11-19T05:26:40Z''\<rparr>)) =
       Inr (m\<lparr>gm_created_at := ''2025-11-19T05:26:40Z''\<rparr>)"
proof -
  have "case parse_run tagged_yaml sample_form of Inl e \<Rightarrow> False | Inr (m, b) \<Rightarrow> b = [9]" by code_simp
  then obtain m where m: "parse_run tagged_yaml sample_form = Inr (m, [9])"
    by (auto split: sum.splits)
  have time: "format_timestamp 1763530000 = ''2025-11-19T05:26:40Z''" by code_simp
  have names: "map reference_name [1..<3] = [''ref-1.png'', ''ref-2.png'']" by code_simp
  have "gm_references m = [''ref-1.png'', ''ref-2.png'']"
    using parse_run_Inr(4) [OF m] names by (simp add: sample_form_def numeral_3_eq_3 [symmetric])
  with m generated_meta_reads_back [OF tagged_yaml_faithful m, of 1763530000] show ?thesis
    by (auto simp: time)
qed

section \<open>The keys\<close>

lemma saved_keys_read_back:
  assumes "yaml_faithful Y" and "validate_entries entries = Inr es"
  shows "es = map (\<lambda>(n, v). (strip n, strip v)) entries \<and>
    parse_mapping Y (encode_utf8 (dump_mapping Y es)) = Inr es"
proof -
  have es: "es = map (\<lambda>(n, v). (strip n, strip v)) entries" "distinct (map fst es)" "\<forall>(n, v) \<in> set es. n \<noteq> []"
    using validate_entries_Inr [of "[]" entries es] assms(2) by (fastforce simp: validate_entries_def)+
  then show ?thesis using mapping_round_trip [OF assms(1) es(2,3)] by blast
qed

section \<open>Statuses and vacancies\<close>

lemma optional_text_back: "optional_text (case s of None \<Rightarrow> Y_Null | Some t \<Rightarrow> Y_Str t) = Inr s"
  by (simp add: optional_text_def split: option.split)

lemma clean_status_idem: "clean_status_id (clean_status_id s) = clean_status_id s"
proof (cases "strip (or_else s []) = []")
  case True
  have "strip [] = []" by code_simp
  with True show ?thesis by (simp add: clean_status_id_def non_empty_def or_else_def)
next
  case False
  then have "clean_status_id s = Some (strip (or_else s []))" by (simp add: clean_status_id_def non_empty_def)
  then show ?thesis using False by (simp add: clean_status_id_def non_empty_def or_else_def)
qed

lemma validate_fields_named: "validate_fields_from seen fs = Inr gs \<Longrightarrow> \<forall>g \<in> set gs. strip (vf_name g) \<noteq> []"
  by (induction seen fs arbitrary: gs rule: validate_fields_from.induct)
     (auto simp: Let_def map_sum_Inr_iff split: if_splits)

lemma parse_fields_back:
  "\<forall>g \<in> set gs. strip (vf_name g) \<noteq> [] \<Longrightarrow>
    parse_fields Y (map (\<lambda>f. Y_Mapping [(Y_Str ''name'', Y_Str (vf_name f)), (Y_Str ''value'', Y_Str (vf_value f))]) gs) = Inr gs"
  by (induction gs) (simp_all add: yaml_get_def is_collection_def text_of_scalar_def)

lemma meta_document_back:
  assumes "yaml_faithful Y" and "\<forall>g \<in> set gs. strip (vf_name g) \<noteq> []"
  shows "parse_meta Y (encode_utf8 (yaml_dump Y (meta_document url s gs))) path =
    Inr \<lparr>vm_path = path, vm_name = path_name path, vm_website_url = url, vm_status_id = clean_status_id s, vm_fields = gs\<rparr>"
proof -
  have "plain_document (meta_document url s gs)"
    by (induction gs) (auto simp: meta_document_def split: option.split)
  moreover have "is_collection (meta_document url s gs)" by (simp add: meta_document_def is_collection_def)
  ultimately have "load_yaml Y (encode_utf8 (yaml_dump Y (meta_document url s gs))) = Inr (Some (meta_document url s gs))"
    by (rule faithful_plain [OF assms(1)])
  then show ?thesis
    using parse_fields_back [OF assms(2)] optional_text_back [of s] optional_text_back [of "Some url"]
    by (simp add: parse_meta_def meta_document_def yaml_get_def or_else_def non_empty_def)
qed

definition readable_status :: "resume_status \<Rightarrow> bool" where
  "readable_status s \<longleftrightarrow> strip (rs_id s) \<noteq> [] \<and> strip (rs_name s) \<noteq> [] \<and> color_pattern (rs_color s)"

lemma parse_status_entries_back:
  "\<forall>s \<in> set ss. readable_status s \<Longrightarrow>
    parse_status_entries (map (\<lambda>s. Y_Mapping [(Y_Str ''id'', Y_Str (rs_id s)), (Y_Str ''name'', Y_Str (rs_name s)),
      (Y_Str ''color'', Y_Str (rs_color s))]) ss) = Inr ss"
  by (induction ss) (simp_all add: yaml_get_def readable_status_def)

lemma statuses_document_back:
  assumes "yaml_faithful Y" and "\<forall>s \<in> set ss. readable_status s"
  shows "parse_statuses Y (encode_utf8 (yaml_dump Y (statuses_document ss))) = Inr ss"
proof -
  have "plain_document (statuses_document ss)" by (induction ss) (auto simp: statuses_document_def)
  moreover have "is_collection (statuses_document ss)" by (simp add: statuses_document_def is_collection_def)
  ultimately have "load_yaml Y (encode_utf8 (yaml_dump Y (statuses_document ss))) = Inr (Some (statuses_document ss))"
    by (rule faithful_plain [OF assms(1)])
  then show ?thesis
    using parse_status_entries_back [OF assms(2)] by (simp add: parse_statuses_def statuses_document_def)
qed

lemma strip_digits: "strip (hex_digits 32 n) = hex_digits 32 n"
  unfolding strip_def by (rule strip_by_id) (metis digits_not_space hd_in_set last_in_set)

lemma hex_digits_nonempty: "hex_digits 32 n \<noteq> []"
  using hex_digits_length [of 32 n] by (metis list.size(3) zero_neq_numeral)

lemma validate_statuses_readable:
  "validate_statuses_from E names ids ss w = (Inr ss', w') \<Longrightarrow>
    (\<forall>s \<in> set ss'. readable_status s) \<and> map rs_name ss' = map (\<lambda>s. strip (rs_name s)) ss"
proof (induction ss arbitrary: names ids w ss' w')
  case (Cons s ss)
  let ?id = "if strip (rs_id s) \<noteq> [] then ret (strip (rs_id s)) else uuid_hex E"
  obtain i v where i: "?id w = (Inr i, v)" using Cons.prems by (auto simp: Let_def bind_run split: prod.splits sum.splits if_splits)
  have "strip i \<noteq> []"
    using i by (auto simp: uuid_hex_def run new_uuid_def strip_digits hex_digits_nonempty split: if_splits)
  moreover obtain rest v' where "validate_statuses_from E (lower (strip (rs_name s)) # names) (i # ids) ss v = (Inr rest, v')"
    "ss' = \<lparr>rs_id = i, rs_name = strip (rs_name s), rs_color = strip (rs_color s)\<rparr> # rest"
    "strip (rs_name s) \<noteq> []" "color_pattern (strip (rs_color s))"
    using Cons.prems i by (auto simp: Let_def bind_run run split: prod.splits sum.splits if_splits)
  ultimately show ?case using Cons.IH by (fastforce simp: readable_status_def)
qed (simp add: run)



section \<open>Identifiers of generated images\<close>

lemma hex_digits_set: "c \<in> set (hex_digits k n) \<Longrightarrow> c \<in> set ''0123456789abcdef''"
proof (induction k arbitrary: n)
  case (Suc k)
  have "list_all (\<lambda>d. hex_char d \<in> set ''0123456789abcdef'') [0..<16]" by code_simp
  moreover have "n mod 16 \<in> set [0..<16]" by simp
  ultimately have h: "hex_char (n mod 16) \<in> set ''0123456789abcdef''" unfolding list_all_iff by (rule bspec)
  consider "c \<in> set (hex_digits k (n div 16))" | "c = hex_char (n mod 16)"
    using Suc.prems by (metis hex_digits.simps(2) Un_iff empty_iff empty_set insert_iff list.simps(15) set_append)
  then show ?case
  proof cases
    case 1
    then show ?thesis by (rule Suc.IH)
  next
    case 2
    then show ?thesis using h by (simp only:)
  qed
qed (simp only: hex_digits.simps list.set empty_iff)

lemma run_id_accepted: "run_id_pattern (format_stamp t @ CHR ''-'' # take RUN_ID_SUFFIX_HEX_CHARS (hex_digits 32 n))"
proof -
  obtain a b where ab: "format_stamp t = a @ ''T'' @ b @ ''Z''" "length a = 8" "length b = 6" "all_digits a" "all_digits b"
    by (rule format_stamp_parts)
  have "list_all (\<lambda>c. c \<in> set ''0123456789abcdef'') (take 8 (hex_digits 32 n))"
    by (auto simp only: list_all_iff dest!: in_set_takeD hex_digits_set)
  then show ?thesis
    using ab by (simp add: run_id_pattern_def RUN_ID_SUFFIX_HEX_CHARS_def nth_append)
qed

lemma try_run_ids_accepted: "try_run_ids S (format_stamp t) n w = (Inr i, w') \<Longrightarrow> run_id_pattern i"
  by (induction n arbitrary: w)
     (auto simp: bind_run run Let_def run_id_accepted split: prod.splits sum.splits if_splits)

lemma store_run_accepted: "store_run Y S u f w = (Inr r, w') \<Longrightarrow> run_id_pattern (sr_id r)"
  by (auto simp: store_run_def allocate_run_id_def Let_def bind_run run try_run_ids_accepted split: prod.splits sum.splits if_splits)

end
