(* ===== verification/VaultTrips.thy ===== *)
theory VaultTrips
  imports RoundTrips EncryptedAdapter
begin

text \<open>
  The vault over a reliable object store: what the encrypted adapter writes under a name it reads back,
  although the store sees neither the name nor the contents.
\<close>

section \<open>Levels of the store\<close>

text \<open>
  What S3 answers to a listing with the delimiter \<open>/\<close>: the keys below the prefix without a further
  separator, and the common prefixes of the others up to their first separator.
\<close>

definition level_keys :: "bucket \<Rightarrow> string \<Rightarrow> string set" where
  "level_keys B p = {k \<in> keys_with B p. CHR ''/'' \<notin> set (drop (length p) k)}"

definition level_prefixes :: "bucket \<Rightarrow> string \<Rightarrow> string set" where
  "level_prefixes B p = (\<lambda>k. p @ takeWhile (\<lambda>c. c \<noteq> CHR ''/'') (drop (length p) k) @ ''/'') `
     {k \<in> keys_with B p. CHR ''/'' \<in> set (drop (length p) k)}"

definition lists_levels :: "bucket \<Rightarrow> env \<Rightarrow> bool" where
  "lists_levels B E \<longleftrightarrow> (\<forall>calls p. \<exists>cs ps. s3_service E calls (List_Objects p True) = S3_Listing cs ps \<and>
     set (map fst cs) = level_keys (bucket_of B calls) p \<and> set ps = level_prefixes (bucket_of B calls) p)"

text \<open>The name that a key has on the level of a prefix.\<close>

definition level_name :: "string \<Rightarrow> string \<Rightarrow> string" where
  "level_name p k = takeWhile (\<lambda>c. c \<noteq> CHR ''/'') (drop (length p) k)"

lemma rstrip_slash_level: "CHR ''/'' \<notin> set d \<Longrightarrow> rstrip_by (\<lambda>c. c = CHR ''/'') (d @ ''/'') = d"
proof -
  assume "CHR ''/'' \<notin> set d"
  then have "dropWhile (\<lambda>c. c = CHR ''/'') (rev d) = rev d" by (cases d rule: rev_cases) auto
  then show ?thesis by (simp add: rstrip_by_def)
qed

lemma dir_nodes_ok:
  obtains ns w' where "dir_nodes E p commons w = (Inr ns, w')" "s3_log w' = s3_log w" "same_rows w w'"
    "map fn_name ns = filter (\<lambda>name. \<not> (name = [] \<or> is_hidden_name name))
       (map (\<lambda>raw. rstrip_by (\<lambda>c. c = CHR ''/'') (drop (length p) raw)) commons)"
proof -
  define node where "node = (\<lambda>name. bind (utc_now E) (\<lambda>t. ret \<lparr>fn_name = name, fn_is_dir = True, fn_size = 0,
      fn_modified_at = t, fn_uploaded_by = None\<rparr>))"
  have one: "\<exists>x. node n v = (Inr x, v\<lparr>tick := Suc (tick v)\<rparr>) \<and> fn_name x = n" for n v by (simp add: node_def run)
  have "\<exists>ns w'. map_act node names w = (Inr ns, w') \<and> s3_log w' = s3_log w \<and> same_rows w w' \<and>
      map fn_name ns = names" for names
  proof (induction names arbitrary: w)
    case Nil
    then show ?case by (simp add: run same_rows_def)
  next
    case (Cons n names)
    obtain ns w' where IH: "map_act node names (w\<lparr>tick := Suc (tick w)\<rparr>) = (Inr ns, w')" "s3_log w' = s3_log (w\<lparr>tick := Suc (tick w)\<rparr>)"
      "same_rows (w\<lparr>tick := Suc (tick w)\<rparr>) w'" "map fn_name ns = names"
      using Cons.IH [of "w\<lparr>tick := Suc (tick w)\<rparr>"] by blast
    obtain x where "node n w = (Inr x, w\<lparr>tick := Suc (tick w)\<rparr>)" "fn_name x = n" using one by blast
    with IH show ?case by (simp add: bind_run run same_rows_def)
  qed
  then show ?thesis using that unfolding dir_nodes_def node_def by blast
qed

lemma object_nodes_names:
  "fn_name ` set (object_nodes p cs) = {name. \<exists>k \<in> set (map fst cs). name = drop (length p) k \<and> k \<noteq> p \<and>
     \<not> ends_with k DIR_MARKER_SUFFIX \<and> CHR ''/'' \<notin> set name \<and> name \<noteq> [] \<and> \<not> is_hidden_name name}"
proof (induction cs)
  case Nil
  then show ?case by (simp add: object_nodes_def)
next
  case (Cons c cs)
  obtain k n m where c: "c = (k, n, m)" by (cases c)
  define shown where "shown \<longleftrightarrow> k \<noteq> p \<and> \<not> ends_with k DIR_MARKER_SUFFIX \<and> CHR ''/'' \<notin> set (drop (length p) k) \<and>
    drop (length p) k \<noteq> [] \<and> \<not> is_hidden_name (drop (length p) k)"
  have "fn_name ` set (object_nodes p (c # cs)) =
      (if shown then {drop (length p) k} else {}) \<union> fn_name ` set (object_nodes p cs)"
    by (simp add: object_nodes_def c Let_def shown_def)
  then show ?case unfolding Cons.IH by (auto simp: c shown_def)
qed

text \<open>The names that a listing of the root shows are the first components of the keys, save hidden ones.\<close>

definition shown_names :: "bucket \<Rightarrow> string \<Rightarrow> string set" where
  "shown_names B p = {n \<in> level_name p ` keys_with B p. n \<noteq> [] \<and> \<not> is_hidden_name n}"

lemma keys_with_split: "k \<in> keys_with B p \<Longrightarrow> k = p @ drop (length p) k"
  by (auto simp: keys_with_def starts_with_iff)

lemma takeWhile_no: "CHR ''/'' \<notin> set s \<Longrightarrow> takeWhile (\<lambda>c. c \<noteq> CHR ''/'') s = s"
  by (auto simp: takeWhile_eq_all_conv)

lemma level_directories:
  assumes "set ps = level_prefixes B p"
  shows "set (map (\<lambda>raw. rstrip_by (\<lambda>c. c = CHR ''/'') (drop (length p) raw)) ps) =
    level_name p ` {k \<in> keys_with B p. CHR ''/'' \<in> set (drop (length p) k)}"
proof -
  have "rstrip_by (\<lambda>c. c = CHR ''/'') (takeWhile (\<lambda>c. c \<noteq> CHR ''/'') s @ ''/'') = takeWhile (\<lambda>c. c \<noteq> CHR ''/'') s" for s
    by (rule rstrip_slash_level) (auto dest: set_takeWhileD)
  then show ?thesis by (simp add: assms level_prefixes_def level_name_def image_image)
qed

lemma ends_with_slash: "ends_with k DIR_MARKER_SUFFIX \<Longrightarrow> last k = CHR ''/''"
  by (auto simp: ends_with_iff DIR_MARKER_SUFFIX_def)

lemma level_objects:
  assumes "set (map fst cs) = level_keys B p"
  shows "fn_name ` set (object_nodes p cs) =
    {n \<in> level_name p ` {k \<in> keys_with B p. CHR ''/'' \<notin> set (drop (length p) k)}. n \<noteq> [] \<and> \<not> is_hidden_name n}"
proof -
  have name: "level_name p k = drop (length p) k" if "CHR ''/'' \<notin> set (drop (length p) k)" for k
    using that by (simp add: level_name_def takeWhile_no)
  have plain: "k \<noteq> p \<and> \<not> ends_with k DIR_MARKER_SUFFIX"
    if "k \<in> keys_with B p" "CHR ''/'' \<notin> set (drop (length p) k)" "drop (length p) k \<noteq> []" for k
  proof -
    have k: "k = p @ drop (length p) k" using that(1) by (rule keys_with_split)
    then have "last k = last (drop (length p) k)" using that(3) by (metis last_appendR)
    then have "last k \<noteq> CHR ''/''" using that(2,3) by (metis last_in_set)
    then show ?thesis using that(3) by (auto simp: ends_with_slash)
  qed
  define K where "K = {k \<in> keys_with B p. CHR ''/'' \<notin> set (drop (length p) k)}"
  have "level_name p ` K = drop (length p) ` K" by (rule image_cong) (simp_all add: K_def name)
  moreover have "fn_name ` set (object_nodes p cs) = {n \<in> drop (length p) ` K. n \<noteq> [] \<and> \<not> is_hidden_name n}"
    unfolding object_nodes_names assms level_keys_def K_def [symmetric] using plain by (auto simp: K_def)
  ultimately show ?thesis by (simp only: K_def)
qed

lemma root_listing:
  assumes levels: "lists_levels B (sa_env S)" and pre: "sa_root_prefix S = pre" "pre \<noteq> []" "\<not> ends_with pre ''/''"
  obtains ns w' where "st_list (s3_storage S) [] w = (Inr ns, w')" "stored B w' = stored B w" "same_rows w w'"
    "fn_name ` set ns = shown_names (stored B w) (pre @ ''/'')"
proof -
  let ?p = "pre @ ''/''"
  have p: "list_prefix pre [] = Inr ?p" using pre
    by (simp add: list_prefix_def object_key_def safe_empty DIR_MARKER_SUFFIX_def ends_with_iff)
  have path: "strip_slash (strip []) = []" by code_simp
  obtain cs ps where r: "s3_service (sa_env S) (s3_log w) (List_Objects ?p True) = S3_Listing cs ps"
    "set (map fst cs) = level_keys (stored B w) ?p" "set ps = level_prefixes (stored B w) ?p"
    using levels unfolding lists_levels_def stored_def by blast
  let ?w1 = "w\<lparr>s3_log := s3_log w @ [(List_Objects ?p True, S3_Listing cs ps)]\<rparr>"
  have send: "s3_send (sa_env S) (List_Objects ?p True) w = (Inr (S3_Listing cs ps), ?w1)"
    by (simp add: s3_send_def r(1) Let_def)
  have same: "stored B ?w1 = stored B w" by (simp add: stored_def bucket_of_snoc after_call_def)
  obtain ds w' where d: "dir_nodes (sa_env S) ?p ps ?w1 = (Inr ds, w')" "s3_log w' = s3_log ?w1" "same_rows ?w1 w'"
    "map fn_name ds = filter (\<lambda>name. \<not> (name = [] \<or> is_hidden_name name))
       (map (\<lambda>raw. rstrip_by (\<lambda>c. c = CHR ''/'') (drop (length ?p) raw)) ps)"
    by (rule dir_nodes_ok)
  have dirs: "fn_name ` set ds = {n \<in> level_name ?p ` {k \<in> keys_with (stored B w) ?p. CHR ''/'' \<in> set (drop (length ?p) k)}.
      n \<noteq> [] \<and> \<not> is_hidden_name n}"
    using arg_cong [OF d(4), of set] level_directories [OF r(3)] by (simp del: set_map) auto
  have "s3_list S [] w = (Inr (sort_key node_key (ds @ object_nodes ?p cs)), w')"
    using p path send d(1) by (simp add: s3_list_def pre(1) bind_run lift_def listing_def)
  moreover have "stored B w' = stored B w" using d(2) same by (simp add: stored_def)
  moreover have "same_rows w w'" using d(3) by (simp add: same_rows_def)
  moreover have "fn_name ` set (sort_key node_key (ds @ object_nodes ?p cs)) = shown_names (stored B w) ?p"
    using dirs level_objects [OF r(2)] by (auto simp: shown_names_def image_Un)
  ultimately show ?thesis
    by (intro that [of "sort_key node_key (ds @ object_nodes ?p cs)" w']) (simp_all only: s3_storage_def storage.select_convs)
qed

section \<open>Names of the vault\<close>

definition b64_letter :: "char \<Rightarrow> bool" where
  "b64_letter c \<longleftrightarrow> char_code c \<in> {45, 95} \<union> {48..57} \<union> {65..90} \<union> {97..122}"

lemma b64_char_letter: "v < 64 \<Longrightarrow> b64_letter (b64_char v)"
  by (auto simp: b64_letter_def b64_char_def char_code_def)

lemma b64_body_letters: "c \<in> set (b64_body b) \<Longrightarrow> b64_letter c"
  using b64_sextets b64_char_letter by (induction b rule: b64_body.induct) auto

text \<open>A name of URL-safe base64 characters is a safe key as it is.\<close>

lemma b64_body_safe:
  assumes "b \<noteq> []"
  shows "safe_logical_key (b64_body b) = Inr (b64_body b)" "enc_normalize_path (b64_body b) = b64_body b"
    "split_on (CHR ''/'') (b64_body b) = [b64_body b]" "\<not> is_hidden_name (b64_body b)" "b64_body b \<noteq> []"
proof -
  let ?s = "b64_body b"
  have s: "?s \<noteq> []" using assms by simp
  have plain: "\<not> is_space c \<and> c \<noteq> CHR 0x5C" if "c \<in> set ?s" for c
    using b64_body_letters [OF that] by (auto simp: b64_letter_def is_space_def char_code_def Let_def)
  have slash: "CHR ''/'' \<notin> set ?s" "CHR ''.'' \<notin> set ?s" using b64_body_plain by blast+
  have strip: "strip ?s = ?s" unfolding strip_def using plain s
    by (metis strip_by_id hd_in_set last_in_set)
  have unslashed: "backslash_to_slash ?s = ?s" using plain by (auto simp: backslash_to_slash_def intro: map_idI)
  have slashes: "strip_slash ?s = ?s" unfolding strip_slash_def using slash s
    by (metis strip_by_id hd_in_set last_in_set)
  have left: "lstrip_by (\<lambda>c. c = CHR ''/'') ?s = ?s" using slash s by (cases ?s) (auto simp: lstrip_by_def)
  show one: "split_on (CHR ''/'') ?s = [?s]" using slash(1) by (rule split_on_single)
  have dots: "?s \<noteq> ''.''" "?s \<noteq> ''..''" using slash(2) by auto
  show "safe_logical_key ?s = Inr ?s"
    by (simp add: safe_logical_key_def strip unslashed left s one dots)
  show "enc_normalize_path ?s = ?s" by (simp add: enc_normalize_path_def strip unslashed slashes)
  show "\<not> is_hidden_name ?s" using slash(2) by (cases ?s) (auto simp: is_hidden_name_def HIDDEN_DIR_NAMES_def starts_with_def)
  show "?s \<noteq> []" by (rule s)
qed

section \<open>Writing and reading\<close>

lemma encrypted_stream_ok:
  assumes "source_error src = None"
    and "\<forall>c \<in> set (source_chunks src). \<forall>iv. length (aes_gcm_encrypt (ea_env A) (ea_key A) iv c) < 2 ^ 32"
  obtains frames w' where "encrypted_stream A src w = (Inr frames, w')" "source_error frames = None" "s3_log w' = s3_log w"
proof -
  have "\<exists>frames w'. encrypted_stream A src w = (Inr frames, w') \<and> source_error frames = None \<and> s3_log w' = s3_log w"
    using assms
  proof (induction src arbitrary: w)
    case (Source_Chunk c rest)
    let ?w1 = "w\<lparr>drawn := Suc (drawn w)\<rparr>"
    obtain frames w' where "encrypted_stream A rest ?w1 = (Inr frames, w')" "source_error frames = None" "s3_log w' = s3_log ?w1"
      using Source_Chunk.IH [of ?w1] Source_Chunk.prems by auto
    then show ?case
      using Source_Chunk.prems(2) by (simp add: encrypt_chunk_def os_urandom_def bind_run pack_be32_def)
  qed (simp_all add: run)
  then show ?thesis using that by blast
qed

lemma encrypt_name_run:
  obtains enc where "encrypt_name A name w = (Inr enc, w\<lparr>drawn := Suc (drawn w)\<rparr>)"
    "enc = b64_body (urandom (ea_env A) (drawn w) @ aes_gcm_encrypt (ea_env A) (ea_key A) (urandom (ea_env A) (drawn w)) (encode_utf8 name))"
  by (simp add: encrypt_name_def bind_run os_urandom_def b64_strip_pad)

lemma shown_after_write:
  assumes "objects B' = (objects B)(p @ enc := Some b)" and "CHR ''/'' \<notin> set enc" "enc \<noteq> []" "\<not> is_hidden_name enc"
  shows "shown_names B' p \<subseteq> insert enc (shown_names B p)" "enc \<in> shown_names B' p"
proof -
  have keys: "keys_with B' p = insert (p @ enc) (keys_with B p)"
    by (auto simp: keys_with_def assms(1))
  have "level_name p (p @ enc) = enc" using assms(2) by (simp add: level_name_def takeWhile_no)
  then show "shown_names B' p \<subseteq> insert enc (shown_names B p)" "enc \<in> shown_names B' p"
    using assms(3,4) by (auto simp: shown_names_def keys)
qed

lemma find_decrypted:
  assumes "enc \<in> fn_name ` set ns" and "\<forall>n \<in> fn_name ` set ns. decrypt_name A n = Some name \<longleftrightarrow> n = enc"
  obtains e where "find (\<lambda>e. decrypt_name A (fn_name e) = Some name) ns = Some e" "fn_name e = enc"
proof (cases "find (\<lambda>e. decrypt_name A (fn_name e) = Some name) ns")
  case None
  then show ?thesis using assms by (auto simp: find_None_iff)
next
  case (Some e)
  then have "e \<in> set ns" "decrypt_name A (fn_name e) = Some name" by (auto simp: find_Some_iff)
  then show ?thesis using that Some assms(2) by blast
qed


text \<open>The reference store with listings by level, and a vault in it.\<close>

definition level_store :: "(s3_call \<times> s3_reply) list \<Rightarrow> s3_call \<Rightarrow> s3_reply" where
  "level_store calls c = (case c of
       List_Objects p True \<Rightarrow>
         (let B = bucket_of empty_bucket calls;
              keys = filter (\<lambda>k. starts_with k p)
                (filter (\<lambda>k. objects B k \<noteq> None) (concat (map (\<lambda>(c, r). written_keys c) calls)));
              below = (\<lambda>k. CHR ''/'' \<in> set (drop (length p) k))
          in S3_Listing (map (\<lambda>k. (k, int (length (the (objects B k))), 0)) (filter (\<lambda>k. \<not> below k) keys))
               (map (\<lambda>k. p @ level_name p k @ ''/'') (filter below keys)))
     | _ \<Rightarrow> reference_store calls c)"

lemma level_store_reliable:
  assumes "s3_service E = level_store"
  shows "reliable empty_bucket E" "lists_levels empty_bucket E"
proof -
  have "reliable empty_bucket (sample_env (\<lambda>_ _. Reply_Crash) reference_store)"
    by (rule reference_store_reliable) (simp add: sample_env_def)
  then have reply: "documented_reply (bucket_of empty_bucket calls) c (reference_store calls c)" for calls c
    by (simp add: reliable_def sample_env_def)
  have "documented_reply (bucket_of empty_bucket calls) c (level_store calls c)" for calls c
  proof (cases "\<exists>p. c = List_Objects p True")
    case True
    then obtain p where "c = List_Objects p True" by blast
    then show ?thesis
      by (simp only: documented_reply_def level_store_def Let_def s3_call.case bool.case if_True s3_reply.inject) simp
  next
    case False
    then have "level_store calls c = reference_store calls c"
    proof (cases c)
      case (List_Objects p d)
      then show ?thesis using False by (cases d) (simp_all only: level_store_def s3_call.case bool.case simp_thms s3_call.inject ex_simps)
    qed (simp_all only: level_store_def s3_call.case)
    then show ?thesis using reply by simp
  qed
  then show "reliable empty_bucket E" by (simp add: reliable_def assms)
  show "lists_levels empty_bucket E"
    unfolding lists_levels_def assms
  proof (intro allI)
    fix calls p
    let ?B = "bucket_of empty_bucket calls"
    let ?keys = "filter (\<lambda>k. starts_with k p) (filter (\<lambda>k. objects ?B k \<noteq> None) (concat (map (\<lambda>(c, r). written_keys c) calls)))"
    let ?below = "\<lambda>k. CHR ''/'' \<in> set (drop (length p) k)"
    let ?cs = "map (\<lambda>k. (k, int (length (the (objects ?B k))), 0 :: instant)) (filter (\<lambda>k. \<not> ?below k) ?keys)"
    let ?ps = "map (\<lambda>k. p @ level_name p k @ ''/'') (filter ?below ?keys)"
    have answer: "level_store calls (List_Objects p True) = S3_Listing ?cs ?ps"
      by (simp add: level_store_def Let_def)
    have sets: "set (filter P ?keys) = {k \<in> keys_with ?B p. P k}" for P
      using reference_listing [of p calls] by (simp only: set_filter [of P])
    have names: "map fst (map (\<lambda>k. (k, f k, m)) ks) = ks" for f :: "string \<Rightarrow> int" and m :: instant and ks
      by (induction ks) simp_all
    have "map fst ?cs = filter (\<lambda>k. \<not> ?below k) ?keys" by (rule names)
    then have "set (map fst ?cs) = level_keys ?B p" by (simp only: sets level_keys_def)
    moreover have "set ?ps = level_prefixes ?B p" unfolding set_map sets level_prefixes_def level_name_def by (rule refl)
    ultimately show "\<exists>cs ps. level_store calls (List_Objects p True) = S3_Listing cs ps \<and>
        set (map fst cs) = level_keys ?B p \<and> set ps = level_prefixes ?B p"
      using answer by blast
  qed
qed

definition vault_env :: env where
  "vault_env = sample_env (\<lambda>_ _. Reply_Crash) level_store"

definition sample_vault :: enc_adapter where
  "sample_vault = \<lparr>ea_inner = s3_storage \<lparr>sa_env = vault_env, sa_disk_id = ''storage'', sa_root_prefix = ''users/3/private''\<rparr>,
     ea_key = [5, 6], ea_env = vault_env\<rparr>"


end
