(* ===== verification/Schema.thy ===== *)
theory Schema
  imports Prelude "HOL-Library.AList"
begin

text \<open>
  The database schema: the tables that \<open>infrastructure/database/models.py\<close> declares and the migrations
  under \<open>alembic/versions\<close>, as the statements their \<open>upgrade\<close> and \<open>downgrade\<close> send. The meaning of a
  statement is that of the SQL command: a schema with its rows is changed, or the statement is
  refused. Rows are functions from column names to values; a column that a table does not have
  is null in its rows.
\<close>

section \<open>Schemas\<close>

datatype sql_type =
    Sql_Uuid
  | Sql_String nat
  | Sql_Char nat
  | Sql_Text
  | Sql_Boolean
  | Sql_Integer
  | Sql_Big_Integer
  | Sql_Timestamp
  | Sql_Enum string

datatype sql_default = Default_Literal string | Default_Now

datatype sql_value = Sql_Null | Sql_Data string | Sql_Now

datatype on_delete = Cascade | Set_Null

record db_column =
  dc_name :: string
  dc_type :: sql_type
  dc_nullable :: bool
  dc_default :: "sql_default option" \<comment> \<open>\<open>server_default\<close>\<close>

record db_key =
  dk_name :: "string option"
  dk_columns :: "string list"

record db_foreign_key =
  df_name :: "string option"
  df_column :: string
  df_table :: string
  df_target :: string
  df_on_delete :: on_delete

record db_table =
  dt_columns :: "db_column list"
  dt_primary_key :: "db_key option"
  dt_uniques :: "db_key list"
  dt_foreign_keys :: "db_foreign_key list"
  dt_rows :: "(string \<Rightarrow> sql_value) list"

record db_index =
  di_name :: string
  di_table :: string
  di_columns :: "string list"
  di_unique :: bool

record db_schema =
  ds_types :: "(string \<times> string list) list"
  ds_tables :: "(string \<times> db_table) list"
  ds_indexes :: "db_index list"

definition column_names :: "db_table \<Rightarrow> string list" where
  "column_names t = map dc_name (dt_columns t)"

text \<open>Constraints without a name get the one PostgreSQL derives from table and columns.\<close>

definition derived_name :: "string \<Rightarrow> string list \<Rightarrow> string \<Rightarrow> string" where
  "derived_name table columns kind = concat (map (\<lambda>c. c @ ''_'') (table # columns)) @ kind"

definition named_key :: "string \<Rightarrow> string \<Rightarrow> db_key \<Rightarrow> db_key" where
  "named_key table kind k = k\<lparr>dk_name := Some (case dk_name k of Some n \<Rightarrow> n
     | None \<Rightarrow> derived_name table (if kind = ''pkey'' then [] else dk_columns k) kind)\<rparr>"

definition named_foreign_key :: "string \<Rightarrow> db_foreign_key \<Rightarrow> db_foreign_key" where
  "named_foreign_key table f = f\<lparr>df_name := Some (case df_name f of Some n \<Rightarrow> n
     | None \<Rightarrow> derived_name table [df_column f] ''fkey'')\<rparr>"

definition named_table :: "string \<Rightarrow> db_table \<Rightarrow> db_table" where
  "named_table name t = t\<lparr>dt_primary_key := map_option (named_key name ''pkey'') (dt_primary_key t),
     dt_uniques := map (named_key name ''key'') (dt_uniques t),
     dt_foreign_keys := map (named_foreign_key name) (dt_foreign_keys t)\<rparr>"

text \<open>Tables, indexes and the indexes behind keys share one name space.\<close>

definition relation_names :: "db_schema \<Rightarrow> string list" where
  "relation_names s = concat (map (\<lambda>(n, t). n # List.map_filter dk_name
     ((case dt_primary_key t of None \<Rightarrow> [] | Some k \<Rightarrow> [k]) @ dt_uniques t)) (ds_tables s)) @
     map di_name (ds_indexes s)"

definition empty_schema :: db_schema where
  "empty_schema = \<lparr>ds_types = [], ds_tables = [], ds_indexes = []\<rparr>"

section \<open>Statements\<close>

datatype ddl =
    Create_Type string "string list" \<comment> \<open>with \<open>checkfirst\<close>\<close>
  | Drop_Type string \<comment> \<open>with \<open>checkfirst\<close>\<close>
  | Add_Value string string \<comment> \<open>\<open>ALTER TYPE ... ADD VALUE IF NOT EXISTS\<close>\<close>
  | Create_Table string db_table
  | Drop_Table string
  | Add_Column string db_column
  | Drop_Column string string
  | Set_Server_Default string string "sql_default option"
  | Create_Index db_index
  | Drop_Index string
  | Commit

definition uses_type :: "string \<Rightarrow> db_table \<Rightarrow> bool" where
  "uses_type n t = list_ex (\<lambda>c. dc_type c = Sql_Enum n) (dt_columns t)"

definition known_type :: "db_schema \<Rightarrow> db_column \<Rightarrow> bool" where
  "known_type s c = (case dc_type c of Sql_Enum n \<Rightarrow> map_of (ds_types s) n \<noteq> None | _ \<Rightarrow> True)"

definition target_exists :: "db_schema \<Rightarrow> db_foreign_key \<Rightarrow> bool" where
  "target_exists s f = (case map_of (ds_tables s) (df_table f) of
     None \<Rightarrow> False | Some t \<Rightarrow> List.member (column_names t) (df_target f))"

definition table_fits :: "db_schema \<Rightarrow> string \<Rightarrow> db_table \<Rightarrow> bool" where
  "table_fits s name t \<longleftrightarrow>
     \<not> List.member (relation_names s) name \<and>
     distinct (column_names t) \<and>
     list_all (known_type s) (dt_columns t) \<and>
     list_all (\<lambda>k. list_all (List.member (column_names t)) (dk_columns k))
       ((case dt_primary_key t of None \<Rightarrow> [] | Some k \<Rightarrow> [k]) @ dt_uniques t) \<and>
     list_all (\<lambda>f. List.member (column_names t) (df_column f) \<and> target_exists s f) (dt_foreign_keys t)"

definition references :: "string \<Rightarrow> string option \<Rightarrow> db_foreign_key \<Rightarrow> bool" where
  "references table c f \<longleftrightarrow> df_table f = table \<and> (case c of None \<Rightarrow> True | Some n \<Rightarrow> df_target f = n)"

definition referenced_elsewhere :: "db_schema \<Rightarrow> string \<Rightarrow> string option \<Rightarrow> bool" where
  "referenced_elsewhere s table c =
     list_ex (\<lambda>(n, t). n \<noteq> table \<and> list_ex (references table c) (dt_foreign_keys t)) (ds_tables s)"

definition default_value :: "sql_default option \<Rightarrow> sql_value" where
  "default_value d = (case d of None \<Rightarrow> Sql_Null | Some (Default_Literal v) \<Rightarrow> Sql_Data v | Some Default_Now \<Rightarrow> Sql_Now)"

text \<open>Two rows collide on a unique index if they agree on all its columns and none of these is null.\<close>

definition keys_distinct :: "string list \<Rightarrow> (string \<Rightarrow> sql_value) list \<Rightarrow> bool" where
  "keys_distinct cs rows \<longleftrightarrow> distinct (filter (\<lambda>k. \<not> List.member k Sql_Null) (map (\<lambda>r. map r cs) rows))"

definition without_column :: "string \<Rightarrow> db_table \<Rightarrow> db_table" where
  "without_column c t = t\<lparr>dt_columns := filter (\<lambda>d. dc_name d \<noteq> c) (dt_columns t),
     dt_primary_key := (case dt_primary_key t of None \<Rightarrow> None
       | Some k \<Rightarrow> if List.member (dk_columns k) c then None else Some k),
     dt_uniques := filter (\<lambda>k. \<not> List.member (dk_columns k) c) (dt_uniques t),
     dt_foreign_keys := filter (\<lambda>f. df_column f \<noteq> c) (dt_foreign_keys t),
     dt_rows := map (\<lambda>r. r(c := Sql_Null)) (dt_rows t)\<rparr>"

definition put_table :: "string \<Rightarrow> db_table \<Rightarrow> db_schema \<Rightarrow> db_schema" where
  "put_table name t s = s\<lparr>ds_tables := map (\<lambda>(n, u). (n, if n = name then t else u)) (ds_tables s)\<rparr>"

fun apply_ddl :: "ddl \<Rightarrow> db_schema \<Rightarrow> db_schema option" where
  "apply_ddl (Create_Type n vs) s = Some (case map_of (ds_types s) n of
     Some _ \<Rightarrow> s | None \<Rightarrow> s\<lparr>ds_types := ds_types s @ [(n, vs)]\<rparr>)"
| "apply_ddl (Drop_Type n) s = (case map_of (ds_types s) n of None \<Rightarrow> Some s
     | Some _ \<Rightarrow> if list_ex (\<lambda>(_, t). uses_type n t) (ds_tables s) then None
                 else Some (s\<lparr>ds_types := filter (\<lambda>p. fst p \<noteq> n) (ds_types s)\<rparr>))"
| "apply_ddl (Add_Value n v) s = (case map_of (ds_types s) n of None \<Rightarrow> None
     | Some vs \<Rightarrow> Some (if List.member vs v then s
                       else s\<lparr>ds_types := AList.update n (vs @ [v]) (ds_types s)\<rparr>))"
| "apply_ddl (Create_Table n t) s =
     (if table_fits s n t then Some (s\<lparr>ds_tables := ds_tables s @ [(n, named_table n t)]\<rparr>) else None)"
| "apply_ddl (Drop_Table n) s = (case map_of (ds_tables s) n of None \<Rightarrow> None
     | Some _ \<Rightarrow> if referenced_elsewhere s n None then None
                 else Some (s\<lparr>ds_tables := filter (\<lambda>p. fst p \<noteq> n) (ds_tables s),
                   ds_indexes := filter (\<lambda>i. di_table i \<noteq> n) (ds_indexes s)\<rparr>))"
| "apply_ddl (Add_Column n c) s = (case map_of (ds_tables s) n of None \<Rightarrow> None
     | Some t \<Rightarrow> if List.member (column_names t) (dc_name c) \<or> \<not> known_type s c \<or>
                    \<not> dc_nullable c \<and> dc_default c = None \<and> dt_rows t \<noteq> [] then None
                 else Some (put_table n (t\<lparr>dt_columns := dt_columns t @ [c],
                   dt_rows := map (\<lambda>r. r(dc_name c := default_value (dc_default c))) (dt_rows t)\<rparr>) s))"
| "apply_ddl (Drop_Column n c) s = (case map_of (ds_tables s) n of None \<Rightarrow> None
     | Some t \<Rightarrow> if \<not> List.member (column_names t) c \<or> referenced_elsewhere s n (Some c) then None
                 else Some ((put_table n (without_column c t) s)
                   \<lparr>ds_indexes := filter (\<lambda>i. di_table i \<noteq> n \<or> \<not> List.member (di_columns i) c) (ds_indexes s)\<rparr>))"
| "apply_ddl (Set_Server_Default n c d) s = (case map_of (ds_tables s) n of None \<Rightarrow> None
     | Some t \<Rightarrow> if \<not> List.member (column_names t) c then None
                 else Some (put_table n (t\<lparr>dt_columns :=
                   map (\<lambda>k. if dc_name k = c then k\<lparr>dc_default := d\<rparr> else k) (dt_columns t)\<rparr>) s))"
| "apply_ddl (Create_Index i) s = (case map_of (ds_tables s) (di_table i) of None \<Rightarrow> None
     | Some t \<Rightarrow> if List.member (relation_names s) (di_name i) \<or>
                    \<not> list_all (List.member (column_names t)) (di_columns i) \<or>
                    di_unique i \<and> \<not> keys_distinct (di_columns i) (dt_rows t) then None
                 else Some (s\<lparr>ds_indexes := ds_indexes s @ [i]\<rparr>))"
| "apply_ddl (Drop_Index n) s =
     (if List.member (map di_name (ds_indexes s)) n
      then Some (s\<lparr>ds_indexes := filter (\<lambda>i. di_name i \<noteq> n) (ds_indexes s)\<rparr>) else None)"
| "apply_ddl Commit s = Some s"

fun apply_all :: "ddl list \<Rightarrow> db_schema \<Rightarrow> db_schema option" where
  "apply_all [] s = Some s"
| "apply_all (d # ds) s = (case apply_ddl d s of None \<Rightarrow> None | Some s' \<Rightarrow> apply_all ds s')"

section \<open>The tables of \<open>models.py\<close>\<close>

definition required :: "string \<Rightarrow> sql_type \<Rightarrow> db_column" where
  "required n t = \<lparr>dc_name = n, dc_type = t, dc_nullable = False, dc_default = None\<rparr>"

definition optional :: "string \<Rightarrow> sql_type \<Rightarrow> db_column" where
  "optional n t = \<lparr>dc_name = n, dc_type = t, dc_nullable = True, dc_default = None\<rparr>"

definition stamped_now :: "string \<Rightarrow> db_column" where
  "stamped_now n = \<lparr>dc_name = n, dc_type = Sql_Timestamp, dc_nullable = False, dc_default = Some Default_Now\<rparr>"

definition key_on :: "string list \<Rightarrow> db_key" where
  "key_on cs = \<lparr>dk_name = None, dk_columns = cs\<rparr>"

definition owned_by_user :: db_foreign_key where
  "owned_by_user = \<lparr>df_name = None, df_column = ''user_id'', df_table = ''users'', df_target = ''id'',
     df_on_delete = Cascade\<rparr>"

definition plain_table :: "db_column list \<Rightarrow> string \<Rightarrow> db_foreign_key list \<Rightarrow> db_table" where
  "plain_table cs pk fks = \<lparr>dt_columns = cs, dt_primary_key = Some (key_on [pk]), dt_uniques = [],
     dt_foreign_keys = fks, dt_rows = []\<rparr>"

definition plain_index :: "string \<Rightarrow> string \<Rightarrow> string list \<Rightarrow> db_index" where
  "plain_index n t cs = \<lparr>di_name = n, di_table = t, di_columns = cs, di_unique = False\<rparr>"

definition DEFAULT_USER_QUOTA_BYTES :: int where "DEFAULT_USER_QUOTA_BYTES = 100 * 1024 * 1024"

definition FileSection_values :: "string list" where
  "FileSection_values = [''PHOTOS'', ''FILES'', ''PRIVATE'', ''SHARED'', ''RESUMES'', ''GENERATED'']"

definition FileStatus_values :: "string list" where
  "FileStatus_values = [''PENDING'', ''COMMITTED'', ''ARCHIVED'', ''DELETED'']"

text \<open>A column declared with \<open>unique=True\<close> and \<open>index=True\<close> gets one unique index and no constraint.\<close>

definition user_model :: db_table where
  "user_model = plain_table
     [required ''id'' Sql_Uuid, required ''email'' (Sql_String 255), required ''is_active'' Sql_Boolean,
      stamped_now ''created_at''] ''id'' []"

definition user_model_index :: db_index where
  "user_model_index = (plain_index ''ix_users_email'' ''users'' [''email''])\<lparr>di_unique := True\<rparr>"

definition file_record_model :: db_table where
  "file_record_model = plain_table
     [required ''id'' Sql_Uuid, required ''user_id'' Sql_Uuid, required ''disk_id'' (Sql_String 64),
      required ''relative_path'' Sql_Text, required ''original_name'' (Sql_String 512),
      required ''size_bytes'' Sql_Big_Integer, required ''mime_type'' (Sql_String 255),
      required ''is_encrypted'' Sql_Boolean, required ''section'' (Sql_Enum ''file_section''),
      required ''status'' (Sql_Enum ''file_status''), optional ''checksum_sha256'' (Sql_String 64),
      stamped_now ''created_at'', stamped_now ''last_accessed_at'', required ''is_archived'' Sql_Boolean,
      optional ''archive_path'' Sql_Text] ''id'' [owned_by_user]"

definition user_quota_usage_model :: db_table where
  "user_quota_usage_model = plain_table
     [required ''user_id'' Sql_Uuid, required ''total_bytes'' Sql_Big_Integer,
      required ''limit_bytes'' Sql_Big_Integer, required ''private_bytes'' Sql_Big_Integer,
      required ''private_limit_bytes'' Sql_Big_Integer, required ''photos_bytes'' Sql_Big_Integer,
      stamped_now ''updated_at''] ''user_id'' [owned_by_user]"

definition upload_session_model :: db_table where
  "upload_session_model = plain_table
     [required ''id'' Sql_Uuid, required ''user_id'' Sql_Uuid, required ''target_path'' Sql_Text,
      required ''total_size'' Sql_Big_Integer, required ''received_bytes'' Sql_Big_Integer,
      required ''is_encrypted'' Sql_Boolean, required ''expires_at'' Sql_Timestamp,
      stamped_now ''created_at''] ''id'' [owned_by_user]"

definition file_index_link_model :: db_table where
  "file_index_link_model = (plain_table
     [required ''id'' Sql_Uuid, optional ''file_record_id'' Sql_Uuid, required ''user_id'' Sql_Uuid,
      required ''section'' (Sql_Enum ''file_section''), required ''s3_key'' Sql_Text,
      optional ''content_sha256'' (Sql_Char 64), required ''content_type'' Sql_Text,
      optional ''rag_file_id'' Sql_Uuid, required ''state'' (Sql_String 16),
      required ''attempts'' Sql_Integer, optional ''next_attempt_at'' Sql_Timestamp,
      optional ''last_error_code'' Sql_Text, stamped_now ''created_at'', stamped_now ''updated_at''] ''id''
     [\<lparr>df_name = Some ''file_index_links_file_record_id_fkey'', df_column = ''file_record_id'',
       df_table = ''file_records'', df_target = ''id'', df_on_delete = Set_Null\<rparr>])
     \<lparr>dt_uniques :=
       [\<lparr>dk_name = Some ''file_index_links_file_record_id_key'', dk_columns = [''file_record_id'']\<rparr>,
        \<lparr>dk_name = Some ''file_index_links_rag_file_id_key'', dk_columns = [''rag_file_id'']\<rparr>]\<rparr>"

text \<open>\<open>Base.metadata\<close>: what the models declare.\<close>

definition models_schema :: db_schema where
  "models_schema =
     \<lparr>ds_types = [(''file_section'', FileSection_values), (''file_status'', FileStatus_values)],
      ds_tables = map (\<lambda>(n, t). (n, named_table n t))
        [(''users'', user_model), (''file_records'', file_record_model),
         (''user_quota_usage'', user_quota_usage_model), (''upload_sessions'', upload_session_model),
         (''file_index_links'', file_index_link_model)],
      ds_indexes =
        [user_model_index,
         plain_index ''ix_file_records_user_id'' ''file_records'' [''user_id''],
         plain_index ''ix_upload_sessions_user_id'' ''upload_sessions'' [''user_id''],
         plain_index ''ix_file_index_links_state_next_attempt_at'' ''file_index_links''
           [''state'', ''next_attempt_at''],
         plain_index ''ix_file_index_links_user_id_state'' ''file_index_links'' [''user_id'', ''state'']]\<rparr>"

end
