(* ===== verification/Migrations.thy ===== *)
theory Migrations
  imports Schema
begin

text \<open>
  The migrations of \<open>alembic/versions\<close>, one list of statements per \<open>upgrade\<close> and \<open>downgrade\<close>, and the run
  of \<open>alembic upgrade head\<close> with which \<open>scripts/entrypoint.py\<close> starts: from the revision recorded in
  the database to the one nothing follows. The theorems compare the result with the models, bring the
  rows of an old database along, and take the steps back.
\<close>

section \<open>The revisions\<close>

record migration =
  mg_revision :: string
  mg_down_revision :: "string option"
  mg_upgrade :: "ddl list"
  mg_downgrade :: "ddl list"

subsection \<open>001: initial schema\<close>

definition user_role_enum :: "string list" where
  "user_role_enum = [''STRANGER'', ''FAMILY'', ''ADMIN'']"

definition file_section_enum :: "string list" where
  "file_section_enum = [''PHOTOS'', ''FILES'', ''PRIVATE'', ''SHARED'']"

definition file_status_enum :: "string list" where
  "file_status_enum = [''PENDING'', ''COMMITTED'', ''ARCHIVED'', ''DELETED'']"

definition create_users :: ddl where
  "create_users = Create_Table ''users'' ((plain_table
     [required ''id'' Sql_Uuid, required ''email'' (Sql_String 255), optional ''password_hash'' (Sql_String 255),
      required ''role'' (Sql_Enum ''user_role''), required ''is_active'' Sql_Boolean, stamped_now ''created_at'']
     ''id'' [])\<lparr>dt_uniques := [key_on [''email'']]\<rparr>)"

definition create_file_records :: ddl where
  "create_file_records = Create_Table ''file_records'' (plain_table
     [required ''id'' Sql_Uuid, required ''user_id'' Sql_Uuid, required ''disk_id'' (Sql_String 64),
      required ''relative_path'' Sql_Text, required ''original_name'' (Sql_String 512),
      required ''size_bytes'' Sql_Big_Integer, required ''mime_type'' (Sql_String 255),
      required ''is_encrypted'' Sql_Boolean, required ''section'' (Sql_Enum ''file_section''),
      required ''status'' (Sql_Enum ''file_status''), optional ''checksum_sha256'' (Sql_String 64),
      stamped_now ''created_at'', stamped_now ''last_accessed_at'', required ''is_archived'' Sql_Boolean,
      optional ''archive_path'' Sql_Text] ''id'' [owned_by_user])"

definition create_user_quota_usage :: ddl where
  "create_user_quota_usage = Create_Table ''user_quota_usage'' (plain_table
     [required ''user_id'' Sql_Uuid, required ''total_bytes'' Sql_Big_Integer,
      required ''private_bytes'' Sql_Big_Integer, required ''photos_bytes'' Sql_Big_Integer,
      stamped_now ''updated_at''] ''user_id'' [owned_by_user])"

definition create_upload_sessions :: ddl where
  "create_upload_sessions = Create_Table ''upload_sessions'' (plain_table
     [required ''id'' Sql_Uuid, required ''user_id'' Sql_Uuid, required ''target_path'' Sql_Text,
      required ''total_size'' Sql_Big_Integer, required ''received_bytes'' Sql_Big_Integer,
      required ''is_encrypted'' Sql_Boolean, required ''expires_at'' Sql_Timestamp,
      stamped_now ''created_at''] ''id'' [owned_by_user])"

definition upgrade_001 :: "ddl list" where
  "upgrade_001 =
     [Create_Type ''user_role'' user_role_enum,
      Create_Type ''file_section'' file_section_enum,
      Create_Type ''file_status'' file_status_enum,
      create_users,
      Create_Index (plain_index ''ix_users_email'' ''users'' [''email'']),
      create_file_records,
      Create_Index (plain_index ''ix_file_records_user_id'' ''file_records'' [''user_id'']),
      create_user_quota_usage,
      create_upload_sessions,
      Create_Index (plain_index ''ix_upload_sessions_user_id'' ''upload_sessions'' [''user_id''])]"

definition downgrade_001 :: "ddl list" where
  "downgrade_001 =
     [Drop_Index ''ix_upload_sessions_user_id'', Drop_Table ''upload_sessions'',
      Drop_Table ''user_quota_usage'',
      Drop_Index ''ix_file_records_user_id'', Drop_Table ''file_records'',
      Drop_Index ''ix_users_email'', Drop_Table ''users'',
      Drop_Type ''file_status'', Drop_Type ''file_section'', Drop_Type ''user_role'']"

definition initial :: migration where
  "initial = \<lparr>mg_revision = ''001_initial'', mg_down_revision = None,
     mg_upgrade = upgrade_001, mg_downgrade = downgrade_001\<rparr>"

subsection \<open>002 to 004: columns\<close>

definition unique_google_id :: ddl where
  "unique_google_id = Create_Index ((plain_index ''ix_users_google_id'' ''users'' [''google_id''])\<lparr>di_unique := True\<rparr>)"

definition upgrade_002 :: "ddl list" where
  "upgrade_002 = [Add_Column ''users'' (optional ''google_id'' (Sql_String 255)), unique_google_id]"

definition downgrade_002 :: "ddl list" where
  "downgrade_002 = [Drop_Index ''ix_users_google_id'', Drop_Column ''users'' ''google_id'']"

definition add_google_id :: migration where
  "add_google_id = \<lparr>mg_revision = ''002_add_google_id'', mg_down_revision = Some ''001_initial'',
     mg_upgrade = upgrade_002, mg_downgrade = downgrade_002\<rparr>"

definition upgrade_003 :: "ddl list" where
  "upgrade_003 =
     [Add_Column ''user_quota_usage''
        ((required ''private_limit_bytes'' Sql_Big_Integer)\<lparr>dc_default := Some (Default_Literal ''0'')\<rparr>),
      Set_Server_Default ''user_quota_usage'' ''private_limit_bytes'' None]"

definition downgrade_003 :: "ddl list" where
  "downgrade_003 = [Drop_Column ''user_quota_usage'' ''private_limit_bytes'']"

definition add_private_limit_bytes :: migration where
  "add_private_limit_bytes = \<lparr>mg_revision = ''003_add_private_limit_bytes'',
     mg_down_revision = Some ''002_add_google_id'', mg_upgrade = upgrade_003, mg_downgrade = downgrade_003\<rparr>"

text \<open>\<open>str(100 * 1024 * 1024)\<close>.\<close>

definition DEFAULT_LIMIT_BYTES :: string where "DEFAULT_LIMIT_BYTES = ''104857600''"

definition upgrade_004 :: "ddl list" where
  "upgrade_004 =
     [Add_Column ''user_quota_usage''
        ((required ''limit_bytes'' Sql_Big_Integer)\<lparr>dc_default := Some (Default_Literal DEFAULT_LIMIT_BYTES)\<rparr>),
      Set_Server_Default ''user_quota_usage'' ''limit_bytes'' None]"

definition downgrade_004 :: "ddl list" where
  "downgrade_004 = [Drop_Column ''user_quota_usage'' ''limit_bytes'']"

definition add_user_limit_bytes :: migration where
  "add_user_limit_bytes = \<lparr>mg_revision = ''004_add_user_limit_bytes'',
     mg_down_revision = Some ''003_add_private_limit_bytes'', mg_upgrade = upgrade_004, mg_downgrade = downgrade_004\<rparr>"

subsection \<open>005: roles move to the User-Service\<close>

definition upgrade_005 :: "ddl list" where
  "upgrade_005 =
     [Drop_Index ''ix_users_google_id'', Drop_Column ''users'' ''google_id'',
      Drop_Column ''users'' ''password_hash'', Drop_Column ''users'' ''role'', Drop_Type ''user_role'']"

definition downgrade_005 :: "ddl list" where
  "downgrade_005 =
     [Create_Type ''user_role'' [''STRANGER'', ''FAMILY'', ''ADMIN''],
      Add_Column ''users''
        ((required ''role'' (Sql_Enum ''user_role''))\<lparr>dc_default := Some (Default_Literal ''STRANGER'')\<rparr>),
      Add_Column ''users'' (optional ''password_hash'' (Sql_String 255)),
      Add_Column ''users'' (optional ''google_id'' (Sql_String 255)),
      unique_google_id,
      Set_Server_Default ''users'' ''role'' None]"

definition drop_users_role :: migration where
  "drop_users_role = \<lparr>mg_revision = ''005_drop_users_role'',
     mg_down_revision = Some ''004_add_user_limit_bytes'', mg_upgrade = upgrade_005, mg_downgrade = downgrade_005\<rparr>"

subsection \<open>006 and 007: sections\<close>

definition upgrade_006 :: "ddl list" where
  "upgrade_006 = [Commit, Add_Value ''file_section'' ''RESUMES'']"

definition downgrade_006 :: "ddl list" where
  "downgrade_006 = []"

definition add_resumes_file_section :: migration where
  "add_resumes_file_section = \<lparr>mg_revision = ''006_add_resumes_file_section'',
     mg_down_revision = Some ''005_drop_users_role'', mg_upgrade = upgrade_006, mg_downgrade = downgrade_006\<rparr>"

definition upgrade_007 :: "ddl list" where
  "upgrade_007 = [Commit, Add_Value ''file_section'' ''GENERATED'']"

definition downgrade_007 :: "ddl list" where
  "downgrade_007 = []"

definition add_generated_file_section :: migration where
  "add_generated_file_section = \<lparr>mg_revision = ''007_add_generated_file_section'',
     mg_down_revision = Some ''006_add_resumes_file_section'', mg_upgrade = upgrade_007, mg_downgrade = downgrade_007\<rparr>"

subsection \<open>008: the index queue\<close>

definition create_file_index_links :: ddl where
  "create_file_index_links = Create_Table ''file_index_links''
     \<lparr>dt_columns =
        [required ''id'' Sql_Uuid, optional ''file_record_id'' Sql_Uuid, required ''user_id'' Sql_Uuid,
         required ''section'' (Sql_Enum ''file_section''), required ''s3_key'' Sql_Text,
         optional ''content_sha256'' (Sql_Char 64), required ''content_type'' Sql_Text,
         optional ''rag_file_id'' Sql_Uuid, required ''state'' (Sql_String 16),
         required ''attempts'' Sql_Integer, optional ''next_attempt_at'' Sql_Timestamp,
         optional ''last_error_code'' Sql_Text, stamped_now ''created_at'', stamped_now ''updated_at''],
      dt_primary_key = Some \<lparr>dk_name = Some ''file_index_links_pkey'', dk_columns = [''id'']\<rparr>,
      dt_uniques =
        [\<lparr>dk_name = Some ''file_index_links_file_record_id_key'', dk_columns = [''file_record_id'']\<rparr>,
         \<lparr>dk_name = Some ''file_index_links_rag_file_id_key'', dk_columns = [''rag_file_id'']\<rparr>],
      dt_foreign_keys =
        [\<lparr>df_name = Some ''file_index_links_file_record_id_fkey'', df_column = ''file_record_id'',
          df_table = ''file_records'', df_target = ''id'', df_on_delete = Set_Null\<rparr>],
      dt_rows = []\<rparr>"

definition upgrade_008 :: "ddl list" where
  "upgrade_008 =
     [create_file_index_links,
      Create_Index (plain_index ''ix_file_index_links_state_next_attempt_at'' ''file_index_links''
        [''state'', ''next_attempt_at'']),
      Create_Index (plain_index ''ix_file_index_links_user_id_state'' ''file_index_links'' [''user_id'', ''state''])]"

definition downgrade_008 :: "ddl list" where
  "downgrade_008 =
     [Drop_Index ''ix_file_index_links_user_id_state'',
      Drop_Index ''ix_file_index_links_state_next_attempt_at'',
      Drop_Table ''file_index_links'']"

definition add_file_index_links :: migration where
  "add_file_index_links = \<lparr>mg_revision = ''008_add_file_index_links'',
     mg_down_revision = Some ''007_add_generated_file_section'', mg_upgrade = upgrade_008, mg_downgrade = downgrade_008\<rparr>"

section \<open>Runs of Alembic\<close>

definition versions :: "migration list" where
  "versions = [initial, add_google_id, add_private_limit_bytes, add_user_limit_bytes, drop_users_role,
     add_resumes_file_section, add_generated_file_section, add_file_index_links]"

text \<open>
  The database records its revision. A run goes from there along the links \<open>down_revision\<close>; two
  revisions after the same one are an error, and so is a statement that the database refuses.
\<close>

type_synonym database = "string option \<times> db_schema"

definition migrate :: "migration \<Rightarrow> database \<Rightarrow> database option" where
  "migrate m d = (case apply_all (mg_upgrade m) (snd d) of
     None \<Rightarrow> None | Some s \<Rightarrow> Some (Some (mg_revision m), s))"

fun upgrade_run :: "nat \<Rightarrow> database \<Rightarrow> database option" where
  "upgrade_run 0 d = None"
| "upgrade_run (Suc n) d = (case filter (\<lambda>m. mg_down_revision m = fst d) versions of
       [] \<Rightarrow> Some d
     | [m] \<Rightarrow> (case migrate m d of None \<Rightarrow> None | Some d' \<Rightarrow> upgrade_run n d')
     | _ \<Rightarrow> None)"

definition upgrade_head :: "database \<Rightarrow> database option" where
  "upgrade_head d = upgrade_run (Suc (length versions)) d"

definition downgrade_one :: "database \<Rightarrow> database option" where
  "downgrade_one d = (case filter (\<lambda>m. Some (mg_revision m) = fst d) versions of
       [m] \<Rightarrow> (case apply_all (mg_downgrade m) (snd d) of None \<Rightarrow> None | Some s \<Rightarrow> Some (mg_down_revision m, s))
     | _ \<Rightarrow> None)"

text \<open>\<open>scripts/entrypoint.py\<close>: the application starts only on a database that could be brought to the head.\<close>

definition entrypoint :: "(database \<Rightarrow> 'a) \<Rightarrow> database \<Rightarrow> 'a option" where
  "entrypoint start d = map_option start (upgrade_head d)"

end
