(* ===== verification/MigrationProps.thy ===== *)
theory MigrationProps
  imports Migrations
begin

text \<open>
  What the migrations achieve: a fresh database gets the tables of the models, an old database keeps
  its rows, a step back undoes a step. Schemas are compared without regard to the order of columns,
  and uniqueness by the columns that are kept unique, whether a key or an index does it.
\<close>

section \<open>Comparing schemas\<close>

definition enforced_keys :: "db_schema \<Rightarrow> (string \<times> string list) list" where
  "enforced_keys s = concat (map (\<lambda>(n, t). map (\<lambda>k. (n, dk_columns k))
     ((case dt_primary_key t of None \<Rightarrow> [] | Some k \<Rightarrow> [k]) @ dt_uniques t)) (ds_tables s)) @
     map (\<lambda>i. (di_table i, di_columns i)) (filter di_unique (ds_indexes s))"

definition named_indexes :: "db_schema \<Rightarrow> (string \<times> string \<times> string list) list" where
  "named_indexes s = map (\<lambda>i. (di_name i, di_table i, di_columns i)) (ds_indexes s)"

definition same_elements :: "'a list \<Rightarrow> 'a list \<Rightarrow> bool" where
  "same_elements xs ys \<longleftrightarrow> list_all (List.member ys) xs \<and> list_all (List.member xs) ys"

definition same_table :: "db_table \<Rightarrow> db_table \<Rightarrow> bool" where
  "same_table t u \<longleftrightarrow> same_elements (dt_columns t) (dt_columns u) \<and>
     dt_primary_key t = dt_primary_key u \<and> same_elements (dt_foreign_keys t) (dt_foreign_keys u)"

definition same_tables :: "db_schema \<Rightarrow> db_schema \<Rightarrow> bool" where
  "same_tables s s' \<longleftrightarrow> map fst (ds_tables s) = map fst (ds_tables s') \<and>
     list_all2 same_table (map snd (ds_tables s)) (map snd (ds_tables s')) \<and>
     same_elements (enforced_keys s) (enforced_keys s') \<and>
     same_elements (named_indexes s) (named_indexes s')"

lemma same_elements_set: "same_elements xs ys \<longleftrightarrow> set xs = set ys"
  by (auto simp: same_elements_def list_all_iff)

section \<open>Rows\<close>

text \<open>The schema \<open>s\<close> with the rows \<open>R n\<close> in each table \<open>n\<close>.\<close>

type_synonym stored_rows = "string \<Rightarrow> (string \<Rightarrow> sql_value) list"

definition with_rows :: "stored_rows \<Rightarrow> db_schema \<Rightarrow> db_schema" where
  "with_rows R s = s\<lparr>ds_tables := map (\<lambda>(n, t). (n, t\<lparr>dt_rows := R n\<rparr>)) (ds_tables s)\<rparr>"

definition blank :: "db_schema \<Rightarrow> bool" where
  "blank s \<longleftrightarrow> list_all (\<lambda>(n, t). dt_rows t = []) (ds_tables s)"

text \<open>What a statement does to the rows, and what it demands of them.\<close>

fun moved_rows :: "ddl \<Rightarrow> stored_rows \<Rightarrow> stored_rows" where
  "moved_rows (Create_Table n t) R = R(n := dt_rows t)"
| "moved_rows (Add_Column n c) R = R(n := map (\<lambda>r. r(dc_name c := default_value (dc_default c))) (R n))"
| "moved_rows (Drop_Column n c) R = R(n := map (\<lambda>r. r(c := Sql_Null)) (R n))"
| "moved_rows _ R = R"

fun rows_allow :: "ddl \<Rightarrow> stored_rows \<Rightarrow> bool" where
  "rows_allow (Add_Column n c) R \<longleftrightarrow> dc_nullable c \<or> dc_default c \<noteq> None \<or> R n = []"
| "rows_allow (Create_Index i) R \<longleftrightarrow> \<not> di_unique i \<or> keys_distinct (di_columns i) (R (di_table i))"
| "rows_allow (Create_Table n t) R \<longleftrightarrow> dt_rows t = []"
| "rows_allow _ R \<longleftrightarrow> True"

fun rows_allow_all :: "ddl list \<Rightarrow> stored_rows \<Rightarrow> bool" where
  "rows_allow_all [] R \<longleftrightarrow> True"
| "rows_allow_all (d # ds) R \<longleftrightarrow> rows_allow d R \<and> rows_allow_all ds (moved_rows d R)"

lemma with_rows_sel [simp]:
  "ds_types (with_rows R s) = ds_types s"
  "ds_indexes (with_rows R s) = ds_indexes s"
  "map_of (ds_tables (with_rows R s)) n = map_option (\<lambda>t. t\<lparr>dt_rows := R n\<rparr>) (map_of (ds_tables s) n)"
proof -
  have "map_of (map (\<lambda>(n, t). (n, t\<lparr>dt_rows := R n\<rparr>)) ts) n = map_option (\<lambda>t. t\<lparr>dt_rows := R n\<rparr>) (map_of ts n)"
    for ts by (induction ts) auto
  then show "map_of (ds_tables (with_rows R s)) n = map_option (\<lambda>t. t\<lparr>dt_rows := R n\<rparr>) (map_of (ds_tables s) n)"
    by (simp add: with_rows_def)
qed (simp_all add: with_rows_def)

lemma with_rows_names [simp]: "relation_names (with_rows R s) = relation_names s"
  by (simp add: with_rows_def relation_names_def comp_def split_def)

lemma with_rows_checks [simp]:
  "known_type (with_rows R s) c = known_type s c"
  "target_exists (with_rows R s) f = target_exists s f"
  by (auto simp: known_type_def target_exists_def column_names_def split: sql_type.split option.split)

lemma with_rows_references [simp]:
  "referenced_elsewhere (with_rows R s) n k = referenced_elsewhere s n k"
  "list_ex (\<lambda>(_, t). uses_type n t) (ds_tables (with_rows R s)) = list_ex (\<lambda>(_, t). uses_type n t) (ds_tables s)"
  by (auto simp: with_rows_def referenced_elsewhere_def list_ex_iff uses_type_def split_def)

lemma with_rows_fits [simp]: "table_fits (with_rows R s) n t = table_fits s n t"
proof -
  have "known_type (with_rows R s) = known_type s" and "target_exists (with_rows R s) = target_exists s" by auto
  then show ?thesis by (simp add: table_fits_def)
qed

lemma with_rows_update [simp]:
  "with_rows R (s\<lparr>ds_types := y\<rparr>) = (with_rows R s)\<lparr>ds_types := y\<rparr>"
  "with_rows R (s\<lparr>ds_indexes := i\<rparr>) = (with_rows R s)\<lparr>ds_indexes := i\<rparr>"
  by (simp_all add: with_rows_def)

lemma with_rows_put:
  "put_table n (t\<lparr>dt_rows := rs\<rparr>) (with_rows R s) = with_rows (R(n := rs)) (put_table n t s)"
  by (simp add: with_rows_def put_table_def comp_def split_def)

lemma with_rows_id:
  assumes "\<And>n t. (n, t) \<in> set (ds_tables s) \<Longrightarrow> dt_rows t = R n"
  shows "with_rows R s = s"
proof -
  have "map (\<lambda>(n, t). (n, t\<lparr>dt_rows := R n\<rparr>)) (ds_tables s) = map id (ds_tables s)"
    using assms by (intro map_cong) (auto split: prod.split)
  then show ?thesis by (simp add: with_rows_def)
qed

lemma with_rows_cong:
  assumes "\<And>n t. (n, t) \<in> set (ds_tables s) \<Longrightarrow> R n = R' n"
  shows "with_rows R s = with_rows R' s"
proof -
  have "map (\<lambda>(n, t). (n, t\<lparr>dt_rows := R n\<rparr>)) (ds_tables s) = map (\<lambda>(n, t). (n, t\<lparr>dt_rows := R' n\<rparr>)) (ds_tables s)"
    using assms by (intro map_cong) (auto split: prod.split)
  then show ?thesis by (simp add: with_rows_def)
qed

lemma with_rows_append:
  "with_rows R (s\<lparr>ds_tables := ds_tables s @ [(n, t)]\<rparr>) =
    (with_rows R s)\<lparr>ds_tables := ds_tables (with_rows R s) @ [(n, t\<lparr>dt_rows := R n\<rparr>)]\<rparr>"
  by (simp add: with_rows_def)

lemma with_rows_twice [simp]: "with_rows R (with_rows R' s) = with_rows R s"
  by (simp add: with_rows_def comp_def split_def)

lemma blank_iff: "blank s \<longleftrightarrow> with_rows (\<lambda>_. []) s = s"
proof
  assume "blank s"
  then show "with_rows (\<lambda>_. []) s = s" by (intro with_rows_id) (auto simp: blank_def list_all_iff)
next
  assume "with_rows (\<lambda>_. []) s = s"
  then have "blank (with_rows (\<lambda>_. []) s) = blank s" by simp
  then show "blank s" by (simp add: with_rows_def blank_def list_all_iff split_def)
qed

text \<open>
  The simulation: a statement that an empty schema accepts is accepted whatever rows are stored, as
  long as these allow it, and the rows change as \<open>moved_rows\<close> says.
\<close>

lemma keys_distinct_Nil [simp]: "keys_distinct cs []"
  by (simp add: keys_distinct_def)

lemma with_rows_filter:
  "with_rows R (s\<lparr>ds_tables := filter (\<lambda>p. fst p \<noteq> n) (ds_tables s)\<rparr>) =
    (with_rows R s)\<lparr>ds_tables := filter (\<lambda>p. fst p \<noteq> n) (ds_tables (with_rows R s))\<rparr>"
  by (simp add: with_rows_def filter_map comp_def split_def)

lemma column_names_rows [simp]: "column_names (t\<lparr>dt_rows := rs\<rparr>) = column_names t"
  by (simp add: column_names_def)

lemma without_column_rows:
  "without_column c (t\<lparr>dt_rows := rs\<rparr>) = (without_column c t)\<lparr>dt_rows := map (\<lambda>r. r(c := Sql_Null)) rs\<rparr>"
  by (simp add: without_column_def)

lemma put_table_rows:
  "put_table n (t\<lparr>dt_columns := cs, dt_rows := rs\<rparr>) (with_rows R s) =
    with_rows (R(n := rs)) (put_table n (t\<lparr>dt_columns := cs, dt_rows := rs'\<rparr>) s)"
  "put_table n (t\<lparr>dt_rows := R n, dt_columns := cs\<rparr>) (with_rows R s) = with_rows R (put_table n (t\<lparr>dt_columns := cs\<rparr>) s)"
  by (simp_all add: with_rows_def put_table_def comp_def split_def cong: if_cong)

lemma apply_blank:
  assumes "blank s" and "apply_ddl d s = Some s'" and "rows_allow d R"
  shows "blank s'"
proof -
  have none: "(n, t) \<in> set (ds_tables s) \<Longrightarrow> dt_rows t = []" for n t
    using \<open>blank s\<close> by (auto simp: blank_def list_all_iff)
  show ?thesis
    using assms(2,3) none
    by (cases d) (auto dest!: map_of_SomeD simp: blank_def list_all_iff put_table_def without_column_def named_table_def
        split: option.splits if_splits)
qed

lemma create_with_rows:
  assumes "blank s" and "dt_rows t = []" and "apply_ddl (Create_Table n t) s = Some s'"
  shows "apply_ddl (Create_Table n t) (with_rows R s) = Some (with_rows (R(n := [])) s')"
proof -
  have fits: "table_fits s n t" and s': "s' = s\<lparr>ds_tables := ds_tables s @ [(n, named_table n t)]\<rparr>"
    using assms by (auto split: if_splits)
  have fresh: "n \<noteq> m" if "(m, u) \<in> set (ds_tables s)" for m u
    using fits that by (auto simp: table_fits_def relation_names_def)
  have "with_rows (R(n := [])) s = with_rows R s"
    by (rule with_rows_cong) (auto dest: fresh)
  then show ?thesis using fits \<open>dt_rows t = []\<close>
    by (simp add: s' with_rows_append named_table_def)
qed

lemma apply_with_rows:
  assumes "blank s" and "rows_allow d R" and "apply_ddl d s = Some s'"
  shows "apply_ddl d (with_rows R s) = Some (with_rows (moved_rows d R) s')"
proof (cases d)
  case (Create_Table n t)
  with create_with_rows assms show ?thesis by simp
next
  case (Drop_Table n)
  with assms show ?thesis by (auto simp: with_rows_filter split: option.splits if_splits)
next
  case (Add_Column n c)
  with assms show ?thesis by (auto simp: put_table_rows split: option.splits if_splits)
next
  case (Drop_Column n c)
  with assms show ?thesis by (auto simp: without_column_rows with_rows_put split: option.splits if_splits)
next
  case (Set_Server_Default n c v)
  with assms show ?thesis by (auto simp: put_table_rows split: option.splits if_splits)
qed (use assms in \<open>auto split: option.splits if_splits\<close>)

lemma apply_all_with_rows:
  assumes "blank s" and "rows_allow_all ds R" and "apply_all ds s = Some s'"
  shows "apply_all ds (with_rows R s) = Some (with_rows (fold moved_rows ds R) s') \<and> blank s'"
  using assms
proof (induction ds arbitrary: s R)
  case (Cons d ds)
  then obtain s1 where s1: "apply_ddl d s = Some s1" "apply_all ds s1 = Some s'"
    by (auto split: option.splits)
  with Cons.prems have "blank s1" "apply_ddl d (with_rows R s) = Some (with_rows (moved_rows d R) s1)"
    by (auto intro: apply_blank apply_with_rows)
  with Cons.prems s1 Cons.IH [of s1 "moved_rows d R"] show ?case by simp
qed simp

text \<open>The rows along a run of Alembic.\<close>

definition next_migrations :: "string option \<Rightarrow> migration list" where
  "next_migrations v = filter (\<lambda>m. mg_down_revision m = v) versions"

fun carried_rows :: "nat \<Rightarrow> string option \<Rightarrow> stored_rows \<Rightarrow> stored_rows" where
  "carried_rows 0 v R = R"
| "carried_rows (Suc n) v R = (case next_migrations v of
       [m] \<Rightarrow> carried_rows n (Some (mg_revision m)) (fold moved_rows (mg_upgrade m) R) | _ \<Rightarrow> R)"

fun rows_allow_run :: "nat \<Rightarrow> string option \<Rightarrow> stored_rows \<Rightarrow> bool" where
  "rows_allow_run 0 v R \<longleftrightarrow> True"
| "rows_allow_run (Suc n) v R \<longleftrightarrow> (case next_migrations v of
       [m] \<Rightarrow> rows_allow_all (mg_upgrade m) R \<and>
         rows_allow_run n (Some (mg_revision m)) (fold moved_rows (mg_upgrade m) R) | _ \<Rightarrow> True)"

lemma upgrade_run_with_rows:
  assumes "blank s" and "rows_allow_run n v R" and "upgrade_run n (v, s) = Some (v', s')"
  shows "upgrade_run n (v, with_rows R s) = Some (v', with_rows (carried_rows n v R) s')"
  using assms
proof (induction n arbitrary: s v R)
  case (Suc n)
  show ?case
  proof (cases "next_migrations v")
    case Nil
    with Suc.prems show ?thesis by (simp add: next_migrations_def)
  next
    case (Cons m ms)
    with Suc.prems have "ms = []" by (auto simp: next_migrations_def split: list.splits)
    with Cons Suc.prems obtain s1 where s1: "apply_all (mg_upgrade m) s = Some s1"
        and rest: "upgrade_run n (Some (mg_revision m), s1) = Some (v', s')"
      by (auto simp: next_migrations_def migrate_def split: option.splits)
    from Cons \<open>ms = []\<close> Suc.prems have allow: "rows_allow_all (mg_upgrade m) R"
        "rows_allow_run n (Some (mg_revision m)) (fold moved_rows (mg_upgrade m) R)" by auto
    from apply_all_with_rows [OF \<open>blank s\<close> allow(1) s1] Suc.IH [OF _ allow(2) rest] Cons \<open>ms = []\<close>
    show ?thesis by (simp add: next_migrations_def migrate_def)
  qed
qed simp

lemma keys_distinct_null: "keys_distinct [c] (map (\<lambda>r. r(c := Sql_Null)) rows)"
  by (simp add: keys_distinct_def comp_def)

section \<open>The migrations and the models\<close>

lemmas revisions = initial_def add_google_id_def add_private_limit_bytes_def add_user_limit_bytes_def
  drop_users_role_def add_resumes_file_section_def add_generated_file_section_def add_file_index_links_def

lemmas statements = upgrade_002_def upgrade_003_def upgrade_004_def upgrade_005_def upgrade_006_def
  upgrade_007_def upgrade_008_def create_file_index_links_def unique_google_id_def plain_index_def
  required_def optional_def default_value_def DEFAULT_LIMIT_BYTES_def

fun schema_at :: "nat \<Rightarrow> db_schema" where
  "schema_at 0 = empty_schema"
| "schema_at (Suc k) = (case apply_all (mg_upgrade (versions ! k)) (schema_at k) of
     None \<Rightarrow> schema_at k | Some s \<Rightarrow> s)"

declare schema_at.simps [simp del]

text \<open>One pass over the revisions: a step up, the step down again and up once more.\<close>

definition same_types :: "db_schema \<Rightarrow> db_schema \<Rightarrow> bool" where
  "same_types s s' \<longleftrightarrow> same_elements (ds_types s) (ds_types s')"

definition undone :: "migration \<Rightarrow> db_schema \<Rightarrow> db_schema \<Rightarrow> bool" where
  "undone m s s1 = (case apply_all (mg_downgrade m) s1 of None \<Rightarrow> False
     | Some s2 \<Rightarrow> same_tables s2 s \<and> same_types s2 (case mg_downgrade m of [] \<Rightarrow> s1 | _ \<Rightarrow> s) \<and>
         (case apply_all (mg_upgrade m) s2 of None \<Rightarrow> False
          | Some s3 \<Rightarrow> same_tables s3 s1 \<and> same_types s3 s1))"

fun up_and_down :: "migration list \<Rightarrow> db_schema \<Rightarrow> bool" where
  "up_and_down [] s = same_tables s models_schema"
| "up_and_down (m # ms) s = (case apply_all (mg_upgrade m) s of None \<Rightarrow> False
     | Some s1 \<Rightarrow> undone m s s1 \<and> up_and_down ms s1)"

lemma versions_up_and_down: "up_and_down versions empty_schema"
  by code_simp

lemma length_versions [simp]: "length versions = 8"
  by (simp add: versions_def)

lemma up_and_down_at: "k \<le> 8 \<Longrightarrow> up_and_down (drop k versions) (schema_at k)"
proof (induction k)
  case 0
  show ?case by (simp add: versions_up_and_down schema_at.simps)
next
  case (Suc k)
  then have "drop k versions = versions ! k # drop (Suc k) versions"
    by (simp add: Cons_nth_drop_Suc)
  with Suc show ?case by (simp add: schema_at.simps split: option.splits)
qed

lemma schema_step:
  assumes "k < 8"
  shows "apply_all (mg_upgrade (versions ! k)) (schema_at k) = Some (schema_at (Suc k))"
    and "undone (versions ! k) (schema_at k) (schema_at (Suc k))"
proof -
  have "drop k versions = versions ! k # drop (Suc k) versions"
    using assms by (simp add: Cons_nth_drop_Suc)
  with up_and_down_at [of k] assms
  show "apply_all (mg_upgrade (versions ! k)) (schema_at k) = Some (schema_at (Suc k))"
    and "undone (versions ! k) (schema_at k) (schema_at (Suc k))"
    by (simp_all add: schema_at.simps split: option.splits)
qed

lemma final_types: "ds_types (schema_at 8) = ds_types models_schema"
  by code_simp

lemma blank_first: "blank (schema_at 1)"
  by code_simp

lemma upgrade_from_empty:
  "upgrade_head (None, empty_schema) = Some (Some ''008_add_file_index_links'', schema_at 8)"
  and upgrade_from_first:
  "upgrade_head (Some ''001_initial'', schema_at 1) = Some (Some ''008_add_file_index_links'', schema_at 8)"
proof -
  have steps: "apply_all upgrade_001 (schema_at 0) = Some (schema_at 1)"
    "apply_all upgrade_002 (schema_at 1) = Some (schema_at 2)"
    "apply_all upgrade_003 (schema_at 2) = Some (schema_at 3)"
    "apply_all upgrade_004 (schema_at 3) = Some (schema_at 4)"
    "apply_all upgrade_005 (schema_at 4) = Some (schema_at 5)"
    "apply_all upgrade_006 (schema_at 5) = Some (schema_at 6)"
    "apply_all upgrade_007 (schema_at 6) = Some (schema_at 7)"
    "apply_all upgrade_008 (schema_at 7) = Some (schema_at 8)"
    using schema_step(1) [of 0] schema_step(1) [of 1] schema_step(1) [of 2] schema_step(1) [of 3] schema_step(1) [of 4]
      schema_step(1) [of 5] schema_step(1) [of 6] schema_step(1) [of 7]
    by (simp_all add: versions_def eval_nat_numeral revisions)
  then show "upgrade_head (None, empty_schema) = Some (Some ''008_add_file_index_links'', schema_at 8)"
    and "upgrade_head (Some ''001_initial'', schema_at 1) = Some (Some ''008_add_file_index_links'', schema_at 8)"
    by (simp_all add: upgrade_head_def versions_def revisions migrate_def schema_at.simps(1) del: One_nat_def)
qed


text \<open>
  C30. Whatever an old database at the first revision holds, the upgrade succeeds and loses no row: the
  counters keep their values and get the limits 0 for the vault and 100 MiB in total, the users lose
  password and role.
\<close>

theorem upgrade_keeps_rows:
  "upgrade_head (Some ''001_initial'', with_rows R (schema_at 1)) =
     Some (Some ''008_add_file_index_links'', with_rows
       (R(''user_quota_usage'' := map (\<lambda>r. r(''private_limit_bytes'' := Sql_Data ''0'',
            ''limit_bytes'' := Sql_Data ''104857600'')) (R ''user_quota_usage''),
          ''users'' := map (\<lambda>r. r(''google_id'' := Sql_Null, ''password_hash'' := Sql_Null,
            ''role'' := Sql_Null)) (R ''users''),
          ''file_index_links'' := [])) (schema_at 8))"
proof -
  have allow: "rows_allow_run (Suc (length versions)) (Some ''001_initial'') R"
    by (simp add: next_migrations_def versions_def revisions statements keys_distinct_null)
  have carried: "carried_rows (Suc (length versions)) (Some ''001_initial'') R = R
    (''user_quota_usage'' := map (\<lambda>r. r(''private_limit_bytes'' := Sql_Data ''0'',
        ''limit_bytes'' := Sql_Data ''104857600'')) (R ''user_quota_usage''),
     ''users'' := map (\<lambda>r. r(''google_id'' := Sql_Null, ''password_hash'' := Sql_Null,
        ''role'' := Sql_Null)) (R ''users''),
     ''file_index_links'' := [])"
    by (simp add: next_migrations_def versions_def revisions statements comp_def)
  show ?thesis
    using upgrade_run_with_rows [OF blank_first allow upgrade_from_first [unfolded upgrade_head_def]] carried
    by (simp add: upgrade_head_def)
qed

lemma undoneD:
  assumes "undone m s s1"
  shows "\<exists>s2 s3. apply_all (mg_downgrade m) s1 = Some s2 \<and> same_tables s2 s \<and>
    same_types s2 (if mg_downgrade m = [] then s1 else s) \<and>
    apply_all (mg_upgrade m) s2 = Some s3 \<and> same_tables s3 s1 \<and> same_types s3 s1"
  using assms by (cases "mg_downgrade m") (auto simp: undone_def split: option.splits)

lemma distinct_revisions: "distinct (map mg_revision versions)"
  by (simp add: versions_def revisions)

lemma filter_by_key:
  "distinct (map f xs) \<Longrightarrow> k < length xs \<Longrightarrow> filter (\<lambda>x. f x = f (xs ! k)) xs = [xs ! k]"
proof (induction xs arbitrary: k)
  case (Cons x xs)
  then show ?case by (cases k) (auto simp: filter_empty_conv rev_image_eqI dest: nth_mem)
qed simp

lemma irreversible: "list_all2 (\<lambda>k m. mg_downgrade m = [] \<longleftrightarrow> k = 5 \<or> k = 6) [0..<8] versions"
  by (simp add: versions_def revisions upt_rec downgrade_001_def downgrade_002_def downgrade_003_def
      downgrade_004_def downgrade_005_def downgrade_006_def downgrade_007_def downgrade_008_def)

text \<open>
  Every revision can be taken back and applied again: the step down succeeds and restores tables,
  keys and indexes of the revision before; only the two revisions that extend the enumeration of
  sections leave its value in place, and they apply again all the same.
\<close>

lemma downgrade_undoes_upgrade:
  assumes "k < 8"
  shows "\<exists>s. downgrade_one (Some (mg_revision (versions ! k)), schema_at (Suc k)) =
        Some (mg_down_revision (versions ! k), s) \<and>
      same_tables s (schema_at k) \<and>
      same_types s (schema_at (if k = 5 \<or> k = 6 then Suc k else k)) \<and>
      (\<exists>s'. apply_all (mg_upgrade (versions ! k)) s = Some s' \<and>
        same_tables s' (schema_at (Suc k)) \<and> same_types s' (schema_at (Suc k)))"
proof -
  have one: "filter (\<lambda>m. mg_revision m = mg_revision (versions ! k)) versions = [versions ! k]"
    using filter_by_key [OF distinct_revisions] assms by simp
  have null: "mg_downgrade (versions ! k) = [] \<longleftrightarrow> k = 5 \<or> k = 6"
    using irreversible assms by (simp add: list_all2_conv_all_nth)
  obtain s2 s3 where "apply_all (mg_downgrade (versions ! k)) (schema_at (Suc k)) = Some s2"
    "same_tables s2 (schema_at k)"
    "same_types s2 (if mg_downgrade (versions ! k) = [] then schema_at (Suc k) else schema_at k)"
    "apply_all (mg_upgrade (versions ! k)) s2 = Some s3"
    "same_tables s3 (schema_at (Suc k))" "same_types s3 (schema_at (Suc k))"
    using undoneD [OF schema_step(2) [OF assms]] by blast
  then show ?thesis unfolding null
    by (intro exI [of _ s2] conjI exI [of _ s3]) (auto simp: downgrade_one_def one split: if_splits)
qed

lemma downgrade_undoes_upgrade_witness:
  "\<exists>s. downgrade_one (Some ''005_drop_users_role'', schema_at 5) = Some (Some ''004_add_user_limit_bytes'', s) \<and>
     same_tables s (schema_at 4)"
  using downgrade_undoes_upgrade [of 4] by (auto simp: versions_def revisions)

end
