(* ===== verification/ErrorHandlers.thy ===== *)
theory ErrorHandlers
  imports FileApi
begin

text \<open>
  \<open>presentation/exception_handlers.py\<close>: the handlers that turn an exception into a response, each with
  the text of the exception, and the choice among them by the class of the exception. The response is
  its status and its JSON body. The last section reads from that body the summary
  \<open>error_response_of\<close> on which the endpoints are modelled.
\<close>

type_synonym json_response = "int \<times> json"

definition ErrorCode :: "string list" where
  "ErrorCode = [''QUOTA_EXCEEDED'', ''UNSUPPORTED_FORMAT'', ''PRIVATE_SESSION_EXPIRED'', ''DISK_UNAVAILABLE'',
     ''PATH_TRAVERSAL_DETECTED'', ''FILE_NOT_FOUND'', ''ACCESS_DENIED'', ''TOO_MANY_ATTEMPTS'',
     ''EMAIL_ALREADY_EXISTS'', ''INVALID_CREDENTIALS'', ''UNAUTHORIZED'', ''USER_NOT_FOUND'',
     ''INTERNAL_ERROR'', ''USER_SERVICE_UNAVAILABLE'', ''KEY_NAME_EMPTY'', ''KEY_VALUE_EMPTY'',
     ''KEY_NAME_DUPLICATE'', ''KEYS_YAML_INVALID'', ''RESUME_NAME_INVALID'', ''RESUME_DEPTH_INVALID'',
     ''RESUME_STATUS_INVALID'', ''RESUME_FIELD_INVALID'', ''RESUME_NODE_EXISTS'', ''RESUME_META_INVALID'',
     ''GENERATED_INVALID'', ''GENERATED_META_INVALID'', ''INDEXING_UNAVAILABLE'', ''SEARCH_QUERY_INVALID'']"

section \<open>Handlers\<close>

definition json_error_response :: "int \<Rightarrow> (string \<times> json) list \<Rightarrow> json_response" where
  "json_error_response status detail = (status, J_Object [(''detail'', J_Object detail)])"

definition code_and_message :: "string \<Rightarrow> string \<Rightarrow> (string \<times> json) list" where
  "code_and_message error_code message = [(''error_code'', J_Str error_code), (''message'', J_Str message)]"

text \<open>\<open>str(exc) or fallback\<close>.\<close>

definition text_or :: "string \<Rightarrow> string \<Rightarrow> string" where
  "text_or message fallback = (if message = [] then fallback else message)"

definition storage_unavailable_handler :: "string \<Rightarrow> json_response" where
  "storage_unavailable_handler message = json_error_response 503 (code_and_message ''DISK_UNAVAILABLE'' message)"

definition quota_exceeded_handler :: "int option \<Rightarrow> string \<Rightarrow> json_response" where
  "quota_exceeded_handler available message =
     (let detail = code_and_message ''QUOTA_EXCEEDED'' message in
      json_error_response 413 (case available of
        None \<Rightarrow> detail | Some n \<Rightarrow> detail @ [(''available_bytes'', J_Int n)]))"

definition path_traversal_handler :: "string \<Rightarrow> json_response" where
  "path_traversal_handler message = json_error_response 400 (code_and_message ''PATH_TRAVERSAL_DETECTED'' message)"

definition private_session_expired_handler :: "string \<Rightarrow> json_response" where
  "private_session_expired_handler message =
     json_error_response 401 (code_and_message ''PRIVATE_SESSION_EXPIRED'' message)"

definition file_not_found_handler :: "string \<Rightarrow> json_response" where
  "file_not_found_handler message = json_error_response 404 (code_and_message ''FILE_NOT_FOUND'' message)"

definition access_denied_handler :: "string \<Rightarrow> json_response" where
  "access_denied_handler message = json_error_response 403 (code_and_message ''ACCESS_DENIED'' message)"

definition permission_error_handler :: "string \<Rightarrow> json_response" where
  "permission_error_handler message =
     json_error_response 403 (code_and_message ''ACCESS_DENIED'' (text_or message ''Access denied''))"

definition auth_unauthenticated_handler :: "string \<Rightarrow> json_response" where
  "auth_unauthenticated_handler message =
     json_error_response 401 (code_and_message ''UNAUTHORIZED'' (text_or message ''Authentication required''))"

definition auth_blocked_handler :: "string \<Rightarrow> json_response" where
  "auth_blocked_handler message =
     json_error_response 403 (code_and_message ''ACCESS_DENIED'' (text_or message ''Access denied''))"

definition auth_access_denied_handler :: "string \<Rightarrow> json_response" where
  "auth_access_denied_handler message =
     json_error_response 403 (code_and_message ''ACCESS_DENIED'' (text_or message ''Access denied''))"

definition user_service_unavailable_handler :: "string \<Rightarrow> json_response" where
  "user_service_unavailable_handler message =
     json_error_response 503 (code_and_message ''USER_SERVICE_UNAVAILABLE''
       (text_or message ''User directory is unavailable''))"

definition keys_validation_handler :: "string \<Rightarrow> string \<Rightarrow> json_response" where
  "keys_validation_handler error_code message = json_error_response 400 (code_and_message error_code message)"

definition keys_yaml_invalid_handler :: "string \<Rightarrow> json_response" where
  "keys_yaml_invalid_handler message = json_error_response 409 (code_and_message ''KEYS_YAML_INVALID'' message)"

definition resume_validation_handler :: "string \<Rightarrow> string \<Rightarrow> json_response" where
  "resume_validation_handler error_code message = json_error_response 400 (code_and_message error_code message)"

definition resume_node_exists_handler :: "string \<Rightarrow> json_response" where
  "resume_node_exists_handler message = json_error_response 409 (code_and_message ''RESUME_NODE_EXISTS'' message)"

definition resume_meta_invalid_handler :: "string \<Rightarrow> json_response" where
  "resume_meta_invalid_handler message = json_error_response 409 (code_and_message ''RESUME_META_INVALID'' message)"

definition generated_validation_handler :: "string \<Rightarrow> string \<Rightarrow> json_response" where
  "generated_validation_handler error_code message = json_error_response 400 (code_and_message error_code message)"

definition generated_meta_invalid_handler :: "string \<Rightarrow> json_response" where
  "generated_meta_invalid_handler message =
     json_error_response 409 (code_and_message ''GENERATED_META_INVALID'' message)"

definition search_query_invalid_handler :: "string \<Rightarrow> json_response" where
  "search_query_invalid_handler message =
     json_error_response 400 (code_and_message ''SEARCH_QUERY_INVALID'' message)"

definition indexing_unavailable_handler :: "string \<Rightarrow> json_response" where
  "indexing_unavailable_handler message =
     json_error_response 503 (code_and_message ''INDEXING_UNAVAILABLE''
       (text_or message ''Search is unavailable right now''))"

definition auth_misconfigured_handler :: "string \<Rightarrow> json_response" where
  "auth_misconfigured_handler message =
     json_error_response 500 (code_and_message ''INTERNAL_ERROR'' ''Internal server error'')"

definition unhandled_exception_handler :: "string \<Rightarrow> json_response" where
  "unhandled_exception_handler message =
     json_error_response 500 (code_and_message ''INTERNAL_ERROR'' ''Internal server error'')"

text \<open>
  The handler registered for the class of the exception; every other class has the one for
  \<open>Exception\<close>. An \<open>HTTPException\<close> carries its status and detail and is FastAPI's to answer.
\<close>

fun handle_exception :: "exn \<Rightarrow> string \<Rightarrow> json_response" where
  "handle_exception Storage_Unavailable msg = storage_unavailable_handler msg"
| "handle_exception (Quota_Exceeded available) msg = quota_exceeded_handler available msg"
| "handle_exception Path_Traversal msg = path_traversal_handler msg"
| "handle_exception Private_Session_Expired msg = private_session_expired_handler msg"
| "handle_exception Storage_File_Not_Found msg = file_not_found_handler msg"
| "handle_exception Access_Denied msg = access_denied_handler msg"
| "handle_exception Permission_Error msg = permission_error_handler msg"
| "handle_exception Auth_Unauthenticated msg = auth_unauthenticated_handler msg"
| "handle_exception Auth_Blocked msg = auth_blocked_handler msg"
| "handle_exception Auth_Access_Denied msg = auth_access_denied_handler msg"
| "handle_exception User_Service_Unavailable msg = user_service_unavailable_handler msg"
| "handle_exception (Keys_Validation error_code) msg = keys_validation_handler error_code msg"
| "handle_exception Keys_Yaml_Invalid msg = keys_yaml_invalid_handler msg"
| "handle_exception (Resume_Validation error_code) msg = resume_validation_handler error_code msg"
| "handle_exception Resume_Node_Exists msg = resume_node_exists_handler msg"
| "handle_exception Resume_Meta_Invalid msg = resume_meta_invalid_handler msg"
| "handle_exception (Generated_Validation error_code) msg = generated_validation_handler error_code msg"
| "handle_exception Generated_Meta_Invalid msg = generated_meta_invalid_handler msg"
| "handle_exception Search_Query_Invalid msg = search_query_invalid_handler msg"
| "handle_exception Indexing_Unavailable msg = indexing_unavailable_handler msg"
| "handle_exception Auth_Misconfigured msg = auth_misconfigured_handler msg"
| "handle_exception (Http_Exception status error_code available) msg =
     json_error_response status (code_and_message error_code msg @
       (case available of None \<Rightarrow> [] | Some n \<Rightarrow> [(''available_bytes'', J_Int n)]))"
| "handle_exception e msg = unhandled_exception_handler msg"

lemmas handler_defs = storage_unavailable_handler_def quota_exceeded_handler_def path_traversal_handler_def
  private_session_expired_handler_def file_not_found_handler_def access_denied_handler_def
  permission_error_handler_def auth_unauthenticated_handler_def auth_blocked_handler_def
  auth_access_denied_handler_def user_service_unavailable_handler_def keys_validation_handler_def
  keys_yaml_invalid_handler_def resume_validation_handler_def resume_node_exists_handler_def
  resume_meta_invalid_handler_def generated_validation_handler_def generated_meta_invalid_handler_def
  search_query_invalid_handler_def indexing_unavailable_handler_def auth_misconfigured_handler_def
  unhandled_exception_handler_def

section \<open>What a client reads\<close>

text \<open>The status, the code and the available bytes in a response to an error.\<close>

definition read_error :: "json_response \<Rightarrow> error_response option" where
  "read_error r = (case snd r of
     J_Object body \<Rightarrow> (case member body ''detail'' of
       J_Object detail \<Rightarrow> (case (member detail ''error_code'', member detail ''message'') of
         (J_Str error_code, J_Str msg) \<Rightarrow> Some \<lparr>er_status = fst r, er_code = error_code,
           er_available_bytes = (case member detail ''available_bytes'' of J_Int n \<Rightarrow> Some n | _ \<Rightarrow> None)\<rparr>
       | _ \<Rightarrow> None)
     | _ \<Rightarrow> None)
   | _ \<Rightarrow> None)"

lemmas reply_defs = handler_defs json_error_response_def code_and_message_def read_error_def plain_error_def

text \<open>The exceptions that bring their own code, and those that bring their own status as well.\<close>

fun carries_code :: "exn \<Rightarrow> bool" where
  "carries_code (Keys_Validation error_code) \<longleftrightarrow> True"
| "carries_code (Resume_Validation error_code) \<longleftrightarrow> True"
| "carries_code (Generated_Validation error_code) \<longleftrightarrow> True"
| "carries_code (Http_Exception status error_code available) \<longleftrightarrow> True"
| "carries_code e \<longleftrightarrow> False"



end
