(* ===== verification/Startup.thy ===== *)
theory Startup
  imports SystemBooks RagClient Config Migrations
begin

text \<open>
  \<open>main.py\<close>: what starts with the application. \<open>lifespan\<close> registers the scheduled jobs and runs one
  backfill, the index tick runs at most once at a time, the built user interface is served from its
  directory and from nowhere else.
\<close>

section \<open>The scheduler\<close>

datatype trigger = Cron int int \<comment> \<open>hour, minute\<close> | Interval_Hours int | Interval_Seconds int

record job =
  jb_id :: string
  jb_trigger :: trigger
  jb_max_instances :: int
  jb_coalesce :: bool
  jb_action :: "unit action"

text \<open>\<open>add_job(..., replace_existing=True)\<close>.\<close>

definition add_job :: "job \<Rightarrow> job list \<Rightarrow> job list" where
  "add_job j js = filter (\<lambda>k. jb_id k \<noteq> jb_id j) js @ [j]"

definition plain_job :: "string \<Rightarrow> trigger \<Rightarrow> unit action \<Rightarrow> job" where
  "plain_job i t m = \<lparr>jb_id = i, jb_trigger = t, jb_max_instances = 1, jb_coalesce = True, jb_action = m\<rparr>"

text \<open>
  \<open>RagIndexClient(...)\<close> is built from the settings at the start of a tick, outside its \<open>try\<close>: an address or a
  timeout it refuses ends the tick with the exception.
\<close>

definition rag_client_of :: "settings \<Rightarrow> exn + string" where
  "rag_client_of S = (case normalize_base_url (rs_base_url (set_rag S)) of
     Inl e \<Rightarrow> Inl e
   | Inr url \<Rightarrow> if rs_timeout_seconds (set_rag S) \<le> 0 then Inl Other_Error else Inr url)"

definition index_sync_tick :: "settings \<Rightarrow> env \<Rightarrow> unit action" where
  "index_sync_tick S E = bind (lift (rag_client_of S)) (\<lambda>_. run_index_sync_job E)"

definition lifespan_jobs :: "settings \<Rightarrow> backup_tools \<Rightarrow> env \<Rightarrow> job list" where
  "lifespan_jobs S T E =
     (let jobs = add_job (plain_job ''db_backup'' (Cron 2 0) (run_db_backup_job T))
        (add_job (plain_job ''reconcile_quotas'' (Cron 4 0) (run_reconcile_quotas_job E))
        (add_job (plain_job ''cleanup_tmp'' (Interval_Hours 1) (run_cleanup_tmp_job E))
        (add_job (plain_job ''cleanup_pending'' (Interval_Hours 1) (run_cleanup_pending_job E))
        (add_job (plain_job ''daily_archive'' (Cron 3 0) (run_daily_archive_job E)) [])))) in
      if rs_enabled (set_rag S)
      then add_job (plain_job ''index_sync'' (Interval_Seconds (rs_sync_interval_seconds (set_rag S)))
             (index_sync_tick S E)) jobs
      else jobs)"

definition lifespan_startup :: "settings \<Rightarrow> env \<Rightarrow> unit action" where
  "lifespan_startup S E = (if rs_enabled (set_rag S) then run_startup_index_backfill E else ret ())"

text \<open>At the end the clients are closed and the directory of users is forgotten.\<close>

definition lifespan_shutdown :: "unit action" where
  "lifespan_shutdown = modify (\<lambda>w. w\<lparr>directory_cache := []\<rparr>)"

section \<open>Jobs in progress\<close>

text \<open>
  The process between its start and its end: the shared state, the jobs in progress, those that have
  ended, and \<open>_index_sync_lock\<close>. The scheduler starts a job while fewer than \<open>max_instances\<close> of it are
  in progress. \<open>_run_index_sync_job\<close> returns at once if the lock is taken; otherwise nothing is awaited
  between the test and the taking of the lock. The changes of a job become visible when it ends, and
  the lock is released however it ends.
\<close>

record process =
  pr_world :: world
  pr_running :: "string list"
  pr_ended :: "string list"
  pr_locked :: bool

inductive process_step :: "job list \<Rightarrow> process \<Rightarrow> process \<Rightarrow> bool" for js where
  job_started:
    "j \<in> set js \<Longrightarrow> jb_id j \<noteq> ''index_sync'' \<Longrightarrow> count_list (pr_running p) (jb_id j) < jb_max_instances j \<Longrightarrow>
     process_step js p (p\<lparr>pr_running := jb_id j # pr_running p\<rparr>)"
| tick_started:
    "j \<in> set js \<Longrightarrow> jb_id j = ''index_sync'' \<Longrightarrow> count_list (pr_running p) (jb_id j) < jb_max_instances j \<Longrightarrow>
     \<not> pr_locked p \<Longrightarrow> process_step js p (p\<lparr>pr_running := jb_id j # pr_running p, pr_locked := True\<rparr>)"
| tick_skipped:
    "j \<in> set js \<Longrightarrow> jb_id j = ''index_sync'' \<Longrightarrow> pr_locked p \<Longrightarrow> process_step js p p"
| job_ended:
    "j \<in> set js \<Longrightarrow> jb_id j \<in> set (pr_running p) \<Longrightarrow>
     process_step js p (p\<lparr>pr_world := snd (jb_action j (pr_world p)), pr_running := remove1 (jb_id j) (pr_running p),
       pr_ended := jb_id j # pr_ended p, pr_locked := pr_locked p \<and> jb_id j \<noteq> ''index_sync''\<rparr>)"

inductive_cases process_stepE: "process_step js p p'"

section \<open>The user interface\<close>

text \<open>
  Paths as lists of names; \<open>None\<close> as head marks an absolute path. Which paths are files and where a
  path leads once links are followed is the file system's to say.
\<close>

record file_system =
  fs_is_file :: "string list \<Rightarrow> bool"
  fs_resolve :: "string list \<Rightarrow> string list"

datatype spa_response = Spa_File "string list" | Spa_Index "string list" \<comment> \<open>with \<open>Cache-Control: no-cache\<close>\<close>

definition spa_index :: "file_system \<Rightarrow> string list \<Rightarrow> string list option" where
  "spa_index F spa_dir = (let index = spa_dir @ [''index.html''] in if fs_is_file F index then Some index else None)"

text \<open>\<open>spa_dir / full_path\<close>: an absolute path replaces the directory. \<open>p.parents\<close>: the proper prefixes.\<close>

definition path_join :: "string list \<Rightarrow> bool \<times> string list \<Rightarrow> string list" where
  "path_join d p = (if fst p then snd p else d @ snd p)"

definition path_parents :: "string list \<Rightarrow> string list list" where
  "path_parents p = map (\<lambda>n. take n p) [0..<length p]"

definition spa_fallback :: "file_system \<Rightarrow> string list \<Rightarrow> string list \<Rightarrow> bool \<times> string list \<Rightarrow> spa_response" where
  "spa_fallback F index spa_dir full_path =
     (let candidate = path_join spa_dir full_path in
      if fs_is_file F candidate \<and> List.member (path_parents (fs_resolve F candidate)) spa_dir
      then Spa_File candidate else Spa_Index index)"

text \<open>A file system without links: \<open>..\<close> leads to the parent, \<open>.\<close> nowhere.\<close>

fun walk :: "string list \<Rightarrow> string list \<Rightarrow> string list" where
  "walk at_dir [] = at_dir"
| "walk at_dir (n # ns) = walk (if n = ''..'' then butlast at_dir else if n = ''.'' then at_dir else at_dir @ [n]) ns"

definition health :: "(string \<times> string) list" where
  "health = [(''status'', ''ok'')]"

section \<open>What holds of a running process\<close>

lemma member_parents: "d \<in> set (path_parents p) \<longleftrightarrow> (\<exists>r. r \<noteq> [] \<and> p = d @ r)"
proof -
  have "d \<in> set (path_parents p) \<longleftrightarrow> (\<exists>n < length p. d = take n p)"
    by (auto simp: path_parents_def image_iff)
  also have "\<dots> \<longleftrightarrow> (\<exists>r. r \<noteq> [] \<and> p = d @ r)"
  proof
    assume "\<exists>n < length p. d = take n p"
    then obtain n where "n < length p" "d = take n p" by blast
    then show "\<exists>r. r \<noteq> [] \<and> p = d @ r" by (intro exI [of _ "drop n p"]) simp
  next
    assume "\<exists>r. r \<noteq> [] \<and> p = d @ r"
    then show "\<exists>n < length p. d = take n p" by (auto intro!: exI [of _ "length d"])
  qed
  finally show ?thesis by simp
qed

text \<open>
  The jobs of \<open>lifespan\<close>: six identifiers, each once, the tick of the index only with RAG switched on.
\<close>

lemma lifespan_job_ids:
  "map jb_id (lifespan_jobs S T E) =
     [''daily_archive'', ''cleanup_pending'', ''cleanup_tmp'', ''reconcile_quotas'', ''db_backup''] @
     (if rs_enabled (set_rag S) then [''index_sync''] else [])"
  by (simp add: lifespan_jobs_def add_job_def plain_job_def)

lemma lifespan_single: "j \<in> set (lifespan_jobs S T E) \<Longrightarrow> jb_max_instances j = 1"
  by (auto simp: lifespan_jobs_def add_job_def plain_job_def Let_def split: if_splits)

lemma sound_tick: "sound UNIV (index_sync_tick S E)"
  unfolding index_sync_tick_def by (intro sound_rules sound_index_jobs)

lemma lifespan_sound:
  "j \<in> set (lifespan_jobs S T E) \<Longrightarrow> jb_id j \<noteq> ''reconcile_quotas'' \<Longrightarrow> sound UNIV (jb_action j)"
  by (auto simp: lifespan_jobs_def add_job_def plain_job_def Let_def sound_jobs sound_tick sound_backup split: if_splits)

definition process_ok :: "job list \<Rightarrow> process \<Rightarrow> bool" where
  "process_ok js p \<longleftrightarrow> distinct (pr_running p) \<and> set (pr_running p) \<subseteq> jb_id ` set js \<and>
     (pr_locked p \<longleftrightarrow> ''index_sync'' \<in> set (pr_running p)) \<and>
     (''reconcile_quotas'' \<in> set (pr_ended p) \<or> \<not> broken (pr_world p) \<and> balanced (pr_world p))"

lemma process_step_ok:
  assumes "process_step (lifespan_jobs S T E) p p'" and "process_ok (lifespan_jobs S T E) p"
  shows "process_ok (lifespan_jobs S T E) p'"
  using assms(1)
proof cases
  case (job_started j)
  with assms(2) lifespan_single show ?thesis by (auto simp: process_ok_def count_list_0_iff)
next
  case (tick_started j)
  then have "''index_sync'' \<in> jb_id ` set (lifespan_jobs S T E)" by force
  with tick_started assms(2) show ?thesis by (auto simp: process_ok_def)
next
  case (tick_skipped j)
  with assms(2) show ?thesis by simp
next
  case (job_ended j)
  have "\<not> broken (snd (jb_action j (pr_world p))) \<and> balanced (snd (jb_action j (pr_world p)))"
    if "jb_id j \<noteq> ''reconcile_quotas''" "\<not> broken (pr_world p)" "balanced (pr_world p)"
    using lifespan_sound [OF job_ended(2) that(1)] that by (simp add: sound_def settled_def)
  with job_ended assms(2) show ?thesis by (auto simp: process_ok_def dest: notin_set_remove1)
qed

lemma distinct_count: "distinct xs \<Longrightarrow> count_list xs x \<le> Suc 0"
  by (induction xs) (auto simp: count_list_0_iff)


definition sample_settings :: settings where
  "sample_settings = \<lparr>set_database_url = [], set_redis_url = [],
     set_storage = \<lparr>disk_strategy = ''most_free_space'', space_cache_ttl = 30, free_space_floor_mb = 500\<rparr>,
     set_s3 = \<lparr>endpoint_url = [], access_key = [], secret_key = [], region = [], use_ssl = False,
       s3_bucket = ''storage'', path_style = True\<rparr>,
     set_auth = \<lparr>cookie_name = ''auth_session'', session_ttl_hours = 4\<rparr>,
     set_user_service = \<lparr>us_url = [], us_timeout_ms = 2000, us_cache_ttl_seconds = 60\<rparr>,
     set_business_logic = \<lparr>bl_photo_batch_size = 30, bl_thumbnail_max_px = 400, bl_default_user_quota_mb = 100,
       bl_archive_days_threshold = 180\<rparr>,
     set_logging = \<lparr>log_level = ''INFO'', log_file_enabled = False, log_file_path = [], log_file_rotation = [],
       log_file_retention = []\<rparr>,
     set_spa_static_dir = ''/opt/spa'',
     set_rag = \<lparr>rs_enabled = True, rs_base_url = ''http://rag'', rs_timeout_seconds = 10, rs_sync_interval_seconds = 60,
       rs_index_batch_size = 20, rs_max_attempts = 8, rs_index_max_wait_seconds = 3600,
       rs_max_image_bytes = 10, rs_backfill_enabled = True\<rparr>\<rparr>"

definition sample_tools :: backup_tools where
  "sample_tools = \<lparr>bt_env = dark_env, bt_database_url = [], bt_pg_dump = (\<lambda>_ _. None), bt_compress = id\<rparr>"


section \<open>What the user interface serves\<close>

lemma walk_append: "walk d (p @ q) = walk (walk d p) q"
  by (induction p arbitrary: d) auto

lemma walk_plain: "''.'' \<notin> set p \<Longrightarrow> ''..'' \<notin> set p \<Longrightarrow> walk d p = d @ p"
  by (induction p arbitrary: d) auto

text \<open>
  Without links, exactly the files below the directory are served: a path that climbs out of it with
  \<open>..\<close>, or names another place outright, gets the start page.
\<close>

lemma spa_serves_its_directory:
  assumes "fs_resolve F = walk []" and "''.'' \<notin> set d" and "''..'' \<notin> set d"
  shows "spa_fallback F index d (absolute, p) =
    (if fs_is_file F (path_join d (absolute, p)) \<and>
        (\<exists>r. r \<noteq> [] \<and> walk (if absolute then [] else d) p = d @ r)
     then Spa_File (path_join d (absolute, p)) else Spa_Index index)"
  using assms by (simp add: spa_fallback_def path_join_def Let_def member_parents walk_append walk_plain)

text \<open>A directory that is reached through a link serves the start page only: its files resolve elsewhere.\<close>

lemma spa_linked_directory:
  assumes "\<And>p. take (length d) (fs_resolve F (d @ p)) \<noteq> d"
  shows "spa_fallback F index d (False, p) = Spa_Index index"
proof -
  have "fs_resolve F (d @ p) \<noteq> d @ r" for r using assms [of p] by force
  then show ?thesis by (simp add: spa_fallback_def path_join_def Let_def member_parents)
qed

section \<open>Defaults\<close>

text \<open>
  Without variables the process starts: RAG is off, so that uploads queue nothing and no tick is
  registered; and the default quota of the settings, of the model and of migration 004 is one number.
\<close>

lemma default_start:
  "\<exists>S. load_settings P (\<lambda>_. None) = Some S \<and> \<not> index_enqueue_active (configured S E) (Some L) \<and>
     map jb_id (lifespan_jobs S T E) =
       [''daily_archive'', ''cleanup_pending'', ''cleanup_tmp'', ''reconcile_quotas'', ''db_backup''] \<and>
     default_user_quota_bytes (configured S E) = DEFAULT_USER_QUOTA_BYTES"
  by (simp add: load_defs int_setting_def bool_setting_def lifespan_job_ids configured_def quota_bytes_of_def
      index_enqueue_active_def queue_of_def DEFAULT_USER_QUOTA_BYTES_def)

text \<open>Settings and client each strip a slash from the address of the RAG service, two in all.\<close>

lemma two_slashes_stripped:
  "normalize_base_url (strip_one_trailing_slash ''http://rag//'') = Inr ''http://rag''"
  by code_simp

lemma default_quota_migrated: "parse_decimal DEFAULT_LIMIT_BYTES = Some (nat DEFAULT_USER_QUOTA_BYTES)"
  by (simp add: parse_decimal_def DEFAULT_LIMIT_BYTES_def DEFAULT_USER_QUOTA_BYTES_def digit_value_def
      char_code_def Let_def)

end
