(* ===== verification/AdminApi.thy ===== *)
theory AdminApi
  imports SystemBooks
begin

text \<open>
  The request and response models of administration and indexing (\<open>presentation/schemas/admin.py\<close>,
  \<open>schemas/indexing.py\<close>) and the routes that answer with them. A response model with a field outside
  its bound raises in the handler, after the session has committed.
\<close>

definition validated :: "int list \<Rightarrow> 'a \<Rightarrow> exn + 'a" where
  "validated bounded x = (if list_all (\<lambda>n. 0 \<le> n) bounded then Inr x else Inl Other_Error)"

lemma validated_Inr [simp]: "validated ns x = Inr y \<longleftrightarrow> y = x \<and> (\<forall>n \<in> set ns. 0 \<le> n)"
  by (auto simp: validated_def list_all_iff)

fun validated_all :: "('a \<Rightarrow> exn + 'b) \<Rightarrow> 'a list \<Rightarrow> exn + 'b list" where
  "validated_all f [] = Inr []"
| "validated_all f (x # xs) = (case f x of Inl e \<Rightarrow> Inl e
     | Inr y \<Rightarrow> (case validated_all f xs of Inl e \<Rightarrow> Inl e | Inr ys \<Rightarrow> Inr (y # ys)))"

section \<open>Users\<close>

record user_admin_view_response =
  uvr_id :: uuid
  uvr_email :: string
  uvr_role :: role
  uvr_is_active :: bool
  uvr_created_at :: instant
  uvr_quota_used_bytes :: int
  uvr_limit_bytes :: int
  uvr_private_limit_bytes :: int

definition user_admin_view_from_view :: "user_admin_view \<Rightarrow> exn + user_admin_view_response" where
  "user_admin_view_from_view v =
     validated [uv_quota_used_bytes v, uv_limit_bytes v, uv_private_limit_bytes v]
       \<lparr>uvr_id = uv_id v, uvr_email = uv_email v, uvr_role = uv_role v, uvr_is_active = uv_is_active v,
        uvr_created_at = uv_created_at v, uvr_quota_used_bytes = uv_quota_used_bytes v,
        uvr_limit_bytes = uv_limit_bytes v, uvr_private_limit_bytes = uv_private_limit_bytes v\<rparr>"

record user_list_response =
  ul_items :: "user_admin_view_response list"
  ul_total :: int

definition user_list_response :: "user_admin_view list \<times> nat \<Rightarrow> exn + user_list_response" where
  "user_list_response r = (case validated_all user_admin_view_from_view (fst r) of
     Inl e \<Rightarrow> Inl e
   | Inr items \<Rightarrow> validated [int (snd r)] \<lparr>ul_items = items, ul_total = int (snd r)\<rparr>)"

text \<open>A request that the model refuses does not reach the handler.\<close>

record update_user_quota_request =
  uq_limit_mb :: "rat option"
  uq_private_limit_gb :: "rat option"

definition require_at_least_one_limit :: "update_user_quota_request \<Rightarrow> bool" where
  "require_at_least_one_limit b \<longleftrightarrow> \<not> (uq_limit_mb b = None \<and> uq_private_limit_gb b = None)"

definition quota_request_accepted :: "update_user_quota_request \<Rightarrow> bool" where
  "quota_request_accepted b \<longleftrightarrow>
     (case uq_limit_mb b of None \<Rightarrow> True | Some x \<Rightarrow> 0 \<le> x) \<and>
     (case uq_private_limit_gb b of None \<Rightarrow> True | Some x \<Rightarrow> 0 \<le> x) \<and> require_at_least_one_limit b"

section \<open>Storage\<close>

record disk_stat_response =
  dr_id :: string
  dr_bucket :: string
  dr_total_bytes :: int
  dr_used_bytes :: int
  dr_free_bytes :: int
  dr_status :: string

definition disk_stat_from_stat :: "string \<Rightarrow> disk_stat \<Rightarrow> exn + disk_stat_response" where
  "disk_stat_from_stat bucket s =
     validated [dk_total_bytes s, dk_used_bytes s, dk_free_bytes s]
       \<lparr>dr_id = dk_id s, dr_bucket = bucket, dr_total_bytes = dk_total_bytes s, dr_used_bytes = dk_used_bytes s,
        dr_free_bytes = dk_free_bytes s, dr_status = dk_status s\<rparr>"

definition storage_stats_response :: "string \<Rightarrow> disk_stat list \<Rightarrow> exn + disk_stat_response list" where
  "storage_stats_response bucket stats = validated_all (disk_stat_from_stat bucket) stats"

section \<open>Archive, maintenance and backups\<close>

record archive_report_response =
  arr_processed :: int
  arr_skipped :: int
  arr_errors :: int

definition archive_report_from_report :: "archive_report \<Rightarrow> exn + archive_report_response" where
  "archive_report_from_report r =
     validated [ar_processed r, ar_skipped r, ar_errors r]
       \<lparr>arr_processed = ar_processed r, arr_skipped = ar_skipped r, arr_errors = ar_errors r\<rparr>"

record archive_stats_response =
  asr_last_run :: "instant option"
  asr_processed :: int
  asr_skipped :: int
  asr_errors :: int
  asr_total_archived_bytes :: int

definition archive_stats_from_stats :: "archive_stats \<Rightarrow> exn + archive_stats_response" where
  "archive_stats_from_stats s =
     validated [xs_processed s, xs_skipped s, xs_errors s, xs_total_archived_bytes s]
       \<lparr>asr_last_run = xs_last_run s, asr_processed = xs_processed s, asr_skipped = xs_skipped s,
        asr_errors = xs_errors s, asr_total_archived_bytes = xs_total_archived_bytes s\<rparr>"

record reconcile_report_response =
  rrr_checked :: int
  rrr_fixed :: int

definition reconcile_report_from_report :: "reconcile_report \<Rightarrow> exn + reconcile_report_response" where
  "reconcile_report_from_report r =
     validated [rr_checked r, rr_fixed r] \<lparr>rrr_checked = rr_checked r, rrr_fixed = rr_fixed r\<rparr>"

record maintenance_run_response =
  mrr_pending_deleted :: int
  mrr_tmp_deleted :: int
  mrr_reconcile :: reconcile_report_response
  mrr_archive :: archive_report_response

definition maintenance_run_response ::
  "int \<times> int \<times> reconcile_report \<times> archive_report \<Rightarrow> exn + maintenance_run_response" where
  "maintenance_run_response r = (case r of (pending, tmp, reconcile, archive) \<Rightarrow>
     (case reconcile_report_from_report reconcile of
        Inl e \<Rightarrow> Inl e
      | Inr rc \<Rightarrow> (case archive_report_from_report archive of
          Inl e \<Rightarrow> Inl e
        | Inr ac \<Rightarrow> validated [pending, tmp]
            \<lparr>mrr_pending_deleted = pending, mrr_tmp_deleted = tmp, mrr_reconcile = rc, mrr_archive = ac\<rparr>)))"

record maintenance_stats_response =
  msr_last_pending_cleanup :: "instant option"
  msr_pending_deleted :: int
  msr_last_tmp_cleanup :: "instant option"
  msr_tmp_deleted :: int
  msr_last_quota_reconcile :: "instant option"
  msr_quota_checked :: int
  msr_quota_fixed :: int

definition maintenance_stats_from_stats :: "maintenance_stats \<Rightarrow> exn + maintenance_stats_response" where
  "maintenance_stats_from_stats s =
     validated [ms_pending_deleted s, ms_tmp_deleted s, ms_quota_checked s, ms_quota_fixed s]
       \<lparr>msr_last_pending_cleanup = ms_last_pending_cleanup s, msr_pending_deleted = ms_pending_deleted s,
        msr_last_tmp_cleanup = ms_last_tmp_cleanup s, msr_tmp_deleted = ms_tmp_deleted s,
        msr_last_quota_reconcile = ms_last_quota_reconcile s, msr_quota_checked = ms_quota_checked s,
        msr_quota_fixed = ms_quota_fixed s\<rparr>"

record backup_entry_response =
  ber_filename :: string
  ber_created_at :: instant
  ber_size_bytes :: int

definition backup_entry_from_entry :: "backup_entry \<Rightarrow> exn + backup_entry_response" where
  "backup_entry_from_entry e = validated [be_size_bytes e]
     \<lparr>ber_filename = be_filename e, ber_created_at = be_created_at e, ber_size_bytes = be_size_bytes e\<rparr>"

definition backup_list_response :: "backup_entry list \<Rightarrow> exn + backup_entry_response list" where
  "backup_list_response es = validated_all backup_entry_from_entry es"

record backup_run_response =
  brr_filename :: string
  brr_path :: string
  brr_size_bytes :: int

definition backup_run_response :: "backup_result \<Rightarrow> exn + backup_run_response" where
  "backup_run_response r = validated [bk_size_bytes r]
     \<lparr>brr_filename = bk_filename r, brr_path = bk_logical_path r, brr_size_bytes = bk_size_bytes r\<rparr>"

section \<open>Indexing\<close>

record search_response =
  sres_items :: "photo_search_hit list"
  sres_query :: string
  sres_total :: int

definition search_response :: "photo_search_page \<Rightarrow> exn + search_response" where
  "search_response p = validated [pp_total p]
     \<lparr>sres_items = map (\<lambda>i. \<lparr>ph_id = ph_id i, ph_file_name = ph_file_name i, ph_preview_url = ph_preview_url i,
        ph_original_url = ph_original_url i, ph_score = ph_score i\<rparr>) (pp_items p),
      sres_query = pp_query p, sres_total = pp_total p\<rparr>"

definition status_response :: "user_index_counts \<Rightarrow> exn + user_index_counts" where
  "status_response c = validated [uc_indexed c, uc_pending c, uc_failed c, uc_skipped c, uc_total c]
     \<lparr>uc_indexed = uc_indexed c, uc_pending = uc_pending c, uc_failed = uc_failed c, uc_skipped = uc_skipped c,
      uc_total = uc_total c\<rparr>"

definition error_count_response :: "string \<times> int \<Rightarrow> exn + (string \<times> int)" where
  "error_count_response i = validated [snd i] (fst i, snd i)"

definition admin_response :: "admin_index_view \<Rightarrow> exn + admin_index_view" where
  "admin_response s = (case validated_all error_count_response (ai_last_errors s) of
     Inl e \<Rightarrow> Inl e
   | Inr errors \<Rightarrow> Inr \<lparr>ai_by_state = ai_by_state s, ai_oldest_pending_seconds = ai_oldest_pending_seconds s,
       ai_last_errors = errors, ai_rag_reachable = ai_rag_reachable s\<rparr>)"

definition backfill_response :: "backfill_result \<Rightarrow> exn + backfill_result" where
  "backfill_response r =
     (let next_cursor = (case bf_next_cursor r of None \<Rightarrow> None
        | Some c \<Rightarrow> Some \<lparr>bc_created_at = bc_created_at c, bc_record_id = bc_record_id c\<rparr>) in
      validated [bf_examined r, bf_enqueued r, bf_skipped r, bf_remaining r]
        \<lparr>bf_examined = bf_examined r, bf_enqueued = bf_enqueued r, bf_skipped = bf_skipped r,
         bf_next_cursor = next_cursor, bf_remaining = bf_remaining r, bf_status = bf_status r\<rparr>)"

definition retry_response :: "int \<Rightarrow> exn + int" where
  "retry_response requeued = validated [requeued] requeued"

section \<open>Routes\<close>

definition users_route ::
  "env \<Rightarrow> headers \<Rightarrow> nat \<Rightarrow> nat \<Rightarrow> role option \<Rightarrow> string option \<Rightarrow> user_list_response action" where
  "users_route E H page limit r email =
     bind (list_users_endpoint E H page limit r email) (\<lambda>x. lift (user_list_response x))"

definition user_quota_route :: "env \<Rightarrow> headers \<Rightarrow> uuid \<Rightarrow> update_user_quota_request \<Rightarrow> unit action" where
  "user_quota_route E H target b =
     (if quota_request_accepted b
      then update_user_quota_endpoint E H target (uq_limit_mb b) (uq_private_limit_gb b)
      else as_admin E H (\<lambda>_. raise (Http_Exception 422 [] None)))"

definition maintenance_route :: "env \<Rightarrow> headers \<Rightarrow> maintenance_run_response action" where
  "maintenance_route E H = bind (run_maintenance_endpoint E H) (\<lambda>x. lift (maintenance_run_response x))"

definition archive_route :: "env \<Rightarrow> headers \<Rightarrow> archive_report_response action" where
  "archive_route E H = bind (run_archive_endpoint E H) (\<lambda>x. lift (archive_report_from_report x))"

definition indexing_status_route :: "env \<Rightarrow> headers \<Rightarrow> user_index_counts action" where
  "indexing_status_route E H = bind (indexing_status E H) (\<lambda>x. lift (status_response x))"

definition backfill_route :: "env \<Rightarrow> headers \<Rightarrow> int option \<Rightarrow> backfill_result action" where
  "backfill_route E H limit = bind (admin_indexing_backfill E H limit) (\<lambda>x. lift (backfill_response x))"

section \<open>When a response can be built\<close>

lemma validated_all_Inr:
  "validated_all f xs = Inr ys \<longleftrightarrow> list_all2 (\<lambda>x y. f x = Inr y) xs ys"
proof (induction xs arbitrary: ys)
  case (Cons x xs)
  show ?case
    by (cases "f x"; cases "validated_all f xs") (auto simp: list_all2_Cons1 simp flip: Cons.IH)
qed auto

text \<open>One user with a negative counter is enough to make the whole page of users fail.\<close>

lemma negative_counter_hides_users:
  assumes "v \<in> set vs" and "uv_quota_used_bytes v < 0"
  shows "\<exists>e. user_list_response (vs, n) = Inl e"
proof (cases "validated_all user_admin_view_from_view vs")
  case (Inr items)
  then obtain i where "user_admin_view_from_view v = Inr i"
    using assms(1) by (auto simp: validated_all_Inr list_all2_conv_all_nth in_set_conv_nth)
  with assms(2) show ?thesis by (simp add: user_admin_view_from_view_def)
qed (simp add: user_list_response_def)

lemma users_listed:
  assumes "\<And>v. v \<in> set vs \<Longrightarrow> 0 \<le> uv_quota_used_bytes v \<and> 0 \<le> uv_limit_bytes v \<and> 0 \<le> uv_private_limit_bytes v"
  shows "\<exists>r. user_list_response (vs, n) = Inr r \<and> length (ul_items r) = length vs \<and> ul_total r = int n"
proof -
  have "\<exists>items. validated_all user_admin_view_from_view vs = Inr items \<and> length items = length vs"
    using assms
  proof (induction vs)
    case (Cons v vs)
    then show ?case by (auto simp: user_admin_view_from_view_def validated_def)
  qed simp
  then show ?thesis by (auto simp: user_list_response_def validated_def)
qed

text \<open>What the counting queries and the backfill return always fits its model.\<close>

lemma status_response_fits:
  "counts_for_user u w = (Inr c, w') \<Longrightarrow> status_response c = Inr c"
  by (auto simp: counts_for_user_def query_def status_response_def validated_def count_state_def Let_def
      intro!: sum_list_nonneg add_nonneg_nonneg split: if_splits)

lemma backfill_response_fits:
  assumes "backfill E (sql_links E) limit after enabled batch cap w = (Inr r, w')"
  shows "backfill_response r = Inr r"
proof -
  have "0 \<le> bf_examined r \<and> 0 \<le> bf_enqueued r \<and> 0 \<le> bf_skipped r \<and> 0 \<le> bf_remaining r"
    using assms
    by (auto simp: backfill_def backfill_skipped_result_def bind_Inr Let_def count_remaining_def query_def
        split: if_splits)
  then show ?thesis
    by (cases "bf_next_cursor r") (simp_all add: backfill_response_def validated_def)
qed

end
