(* ===== verification/VerifyScript.thy ===== *)
theory VerifyScript
  imports OtherApi
begin

text \<open>
  \<open>scripts/verify_private_storage.py\<close>: a client that logs in, unlocks the vault, stores and reads a file
  and provokes the rate limit, counting the checks that pass. The server is a parameter: from its
  state and a call to a status with a body, or to an exception of \<open>urllib\<close>.
\<close>

section \<open>Calls\<close>

datatype call_body =
    Call_Empty
  | Call_Json json
  | Call_Multipart string bytes \<comment> \<open>boundary and body\<close>

record http_call =
  hc_method :: string
  hc_path :: string
  hc_body :: call_body

datatype answer_body = Answer_Empty | Answer_Json json | Answer_Text string

type_synonym 's server = "'s \<Rightarrow> http_call \<Rightarrow> (int \<times> answer_body) option \<times> 's"

definition crlf :: string where "crlf = [CHR 0x0D, CHR 0x0A]"

definition multipart :: "string \<Rightarrow> (string \<times> string \<times> bytes \<times> string) list \<Rightarrow> bytes" where
  "multipart boundary parts =
     concat (map (\<lambda>(field, filename, content, content_type).
       encode_utf8 (''--'' @ boundary @ crlf) @
       encode_utf8 (''Content-Disposition: form-data; name='' @ [CHR 0x22] @ field @ [CHR 0x22] @ ''; filename='' @
         [CHR 0x22] @ filename @ [CHR 0x22] @ crlf @ ''Content-Type: '' @ content_type @ crlf @ crlf) @
       content @ encode_utf8 crlf) parts) @
     encode_utf8 (''--'' @ boundary @ ''--'' @ crlf)"

text \<open>A JSON object under \<open>detail\<close> is unwrapped; a status other than the expected one is an \<open>AssertionError\<close>.\<close>

definition unwrap_detail :: "answer_body \<Rightarrow> answer_body" where
  "unwrap_detail b = (case b of
     Answer_Json (J_Object ms) \<Rightarrow> (case member ms ''detail'' of J_Object d \<Rightarrow> Answer_Json (J_Object d) | _ \<Rightarrow> b)
   | _ \<Rightarrow> b)"

definition send :: "'s server \<Rightarrow> int option \<Rightarrow> http_call \<Rightarrow> 's \<Rightarrow> (int \<times> answer_body) option \<times> 's" where
  "send V expected c s = (case V s c of
     (None, s') \<Rightarrow> (None, s')
   | (Some (status, b), s') \<Rightarrow>
       if (case expected of Some e \<Rightarrow> status \<noteq> e | None \<Rightarrow> False) then (None, s')
       else (Some (status, unwrap_detail b), s'))"

definition get_call :: "string \<Rightarrow> http_call" where
  "get_call path = \<lparr>hc_method = ''GET'', hc_path = path, hc_body = Call_Empty\<rparr>"

definition post_json :: "string \<Rightarrow> (string \<times> json) list \<Rightarrow> http_call" where
  "post_json path data = \<lparr>hc_method = ''POST'', hc_path = path, hc_body = Call_Json (J_Object data)\<rparr>"

section \<open>Checks\<close>

record check_result =
  cr_passed :: nat
  cr_failed :: nat
  cr_errors :: "string list"

definition ok_check :: "string \<Rightarrow> check_result \<Rightarrow> check_result" where
  "ok_check name r = r\<lparr>cr_passed := Suc (cr_passed r)\<rparr>"

definition fail_check :: "string \<Rightarrow> check_result \<Rightarrow> check_result" where
  "fail_check name r = r\<lparr>cr_failed := Suc (cr_failed r), cr_errors := cr_errors r @ [name]\<rparr>"

definition field_of :: "answer_body \<Rightarrow> string \<Rightarrow> json" where
  "field_of b k = (case b of Answer_Json (J_Object ms) \<Rightarrow> member ms k | _ \<Rightarrow> J_Null)"

definition truthy_field :: "json \<Rightarrow> bool" where
  "truthy_field v \<longleftrightarrow> (case v of J_Null \<Rightarrow> False | J_Bool b \<Rightarrow> b | J_Int n \<Rightarrow> n \<noteq> 0 | J_Float x \<Rightarrow> x \<noteq> 0
     | J_Str s \<Rightarrow> s \<noteq> [] | J_List l \<Rightarrow> l \<noteq> [] | J_Object l \<Rightarrow> l \<noteq> [])"

definition positive :: "json \<Rightarrow> bool" where
  "positive v \<longleftrightarrow> (case v of J_Int n \<Rightarrow> 0 < n | J_Float x \<Rightarrow> 0 < x | J_Bool b \<Rightarrow> b | _ \<Rightarrow> False)"

text \<open>A check: a call with its expected status and what the body must satisfy.\<close>

type_synonym check = "string \<times> http_call \<times> int \<times> (answer_body \<Rightarrow> bool)"

definition run_check :: "'s server \<Rightarrow> check \<Rightarrow> check_result \<times> 's \<Rightarrow> check_result \<times> 's" where
  "run_check V k p = (case k of (name, c, expected, good) \<Rightarrow>
     (case send V (Some expected) c (snd p) of
        (Some (_, b), s') \<Rightarrow> (if good b then ok_check name (fst p) else fail_check name (fst p), s')
      | (None, s') \<Rightarrow> (fail_check name (fst p), s')))"

definition SECRET_CONTENT :: string where "SECRET_CONTENT = ''HomeCloud private verification content''"

text \<open>The names in a listing; an entry without one fails the check.\<close>

definition lists_name :: "string \<Rightarrow> answer_body \<Rightarrow> bool" where
  "lists_name name b \<longleftrightarrow> (case b of
     Answer_Json (J_List items) \<Rightarrow>
       list_all (\<lambda>i. case i of J_Object ms \<Rightarrow> map_of ms ''name'' \<noteq> None | _ \<Rightarrow> False) items \<and>
       list_ex (\<lambda>i. case i of J_Object ms \<Rightarrow> map_of ms ''name'' = Some (J_Str name) | _ \<Rightarrow> False) items
   | _ \<Rightarrow> False)"

definition login_check :: "string \<Rightarrow> string \<Rightarrow> check" where
  "login_check email password = (''login'',
     post_json ''/api/auth/login'' [(''email'', J_Str email), (''password'', J_Str password)], 200,
     \<lambda>b. truthy_field (field_of b ''user_id''))"

definition vault_checks :: "string \<Rightarrow> string \<Rightarrow> check list" where
  "vault_checks passphrase boundary =
     [(''session inactive before unlock'', get_call ''/api/private/session'', 200,
        \<lambda>b. field_of b ''active'' = J_Bool False),
      (''unlock success'', post_json ''/api/private/unlock'' [(''passphrase'', J_Str passphrase)], 200,
        \<lambda>b. field_of b ''success'' = J_Bool True),
      (''session active after unlock'', get_call ''/api/private/session'', 200,
        \<lambda>b. field_of b ''active'' = J_Bool True \<and> positive (field_of b ''expires_in_seconds'')),
      (''upload private file'',
        \<lparr>hc_method = ''POST'', hc_path = ''/api/private/upload?path=/'',
         hc_body = Call_Multipart boundary
           (multipart boundary [(''file'', ''secret.txt'', encode_utf8 SECRET_CONTENT, ''text/plain'')])\<rparr>, 201,
        \<lambda>b. field_of b ''name'' = J_Str ''secret.txt''),
      (''list shows decrypted filename'', get_call ''/api/private?path=/'', 200,
        lists_name ''secret.txt''),
      (''download returns decrypted content'', get_call ''/api/private/download?path=/secret.txt'', 200,
        \<lambda>b. b = Answer_Text SECRET_CONTENT)]"

text \<open>The lock, two calls in one check; the expired session, whose status is read; the rate limit.\<close>

definition lock_check :: "'s server \<Rightarrow> check_result \<times> 's \<Rightarrow> check_result \<times> 's" where
  "lock_check V p = (let name = ''lock clears private session'' in
     (case send V (Some 204) \<lparr>hc_method = ''POST'', hc_path = ''/api/private/lock'', hc_body = Call_Empty\<rparr> (snd p) of
        (None, s1) \<Rightarrow> (fail_check name (fst p), s1)
      | (Some _, s1) \<Rightarrow> run_check V (name, get_call ''/api/private/session'', 200,
          \<lambda>b. field_of b ''active'' = J_Bool False) (fst p, s1)))"

definition expired_check :: "'s server \<Rightarrow> check_result \<times> 's \<Rightarrow> check_result \<times> 's" where
  "expired_check V p = (case send V None (get_call ''/api/private?path=/'') (snd p) of
     (Some (status, b), s') \<Rightarrow>
       (if status = 401 \<and> field_of b ''error_code'' = J_Str ''PRIVATE_SESSION_EXPIRED''
        then ok_check ''expired session returns 401 PRIVATE_SESSION_EXPIRED'' (fst p)
        else fail_check ''expired session returns 401'' (fst p), s')
   | (None, s') \<Rightarrow> (fail_check ''expired session returns 401'' (fst p), s'))"

text \<open>\<open>None\<close>: an answer that is neither the refusal nor a failed attempt, which ends the script.\<close>

fun provoke_limit :: "'s server \<Rightarrow> nat \<Rightarrow> 's \<Rightarrow> bool option \<times> 's" where
  "provoke_limit V 0 s = (Some False, s)"
| "provoke_limit V (Suc n) s =
     (case send V None (post_json ''/api/private/unlock'' [(''passphrase'', J_Str ''definitely-wrong-passphrase'')]) s of
        (None, s') \<Rightarrow> (None, s')
      | (Some (status, b), s') \<Rightarrow>
          if status = 429 then
            (if field_of b ''error_code'' = J_Str ''TOO_MANY_ATTEMPTS'' then (Some True, s') else provoke_limit V n s')
          else if status = 200 \<and> field_of b ''success'' = J_Bool False then provoke_limit V n s'
          else (None, s'))"

definition limit_check :: "'s server \<Rightarrow> check_result \<times> 's \<Rightarrow> (check_result \<times> 's) option" where
  "limit_check V p = (let name = ''rate limit after failed unlock attempts'' in
     (case provoke_limit V 6 (snd p) of
        (None, s') \<Rightarrow> None
      | (Some blocked, s') \<Rightarrow> Some (if blocked then ok_check name (fst p) else fail_check name (fst p), s')))"

definition report :: "check_result \<Rightarrow> int" where
  "report r = (if cr_failed r = 0 then 0 else 1)"

text \<open>The exit code with what was counted; \<open>None\<close> where the script ends in a traceback.\<close>

definition verify_main ::
  "'s server \<Rightarrow> string \<Rightarrow> string \<Rightarrow> string \<Rightarrow> string \<Rightarrow> 's \<Rightarrow> ((int \<times> check_result) \<times> 's) option" where
  "verify_main V email password passphrase boundary s =
     (let r0 = \<lparr>cr_passed = 0, cr_failed = 0, cr_errors = []\<rparr>;
          p1 = run_check V (login_check email password) (r0, s) in
      if cr_failed (fst p1) \<noteq> 0 then Some ((report (fst p1), fst p1), snd p1)
      else
        map_option (\<lambda>p. ((report (fst p), fst p), snd p))
          (limit_check V (expired_check V (lock_check V
            (fold (run_check V) (vault_checks passphrase boundary) p1)))))"

section \<open>The script and the backend\<close>

text \<open>
  The backend answers the login with 410 in every state (\<open>retired_auth_endpoint\<close>): the script counts one
  failure, ends with exit code 1 after its first call, and checks nothing of the vault.
\<close>

lemma login_is_retired:
  assumes "V s (post_json ''/api/auth/login'' [(''email'', J_Str email), (''password'', J_Str password)]) = (Some (410, b), s')"
  shows "verify_main V email password passphrase boundary s =
    Some ((1, \<lparr>cr_passed = 0, cr_failed = 1, cr_errors = [''login'']\<rparr>), s')"
  using assms by (simp add: verify_main_def run_check_def login_check_def send_def fail_check_def report_def)

lemma backend_retires_login: "retired_auth_endpoint w = (Inl (Http_Exception 410 ''UNAUTHORIZED'' None), w)"
  by (simp add: retired_auth_endpoint_def)

text \<open>A server that does what the script expects passes all ten checks.\<close>

datatype vault_state = No_Vault | Open_Vault | Closed_Vault nat

definition told :: "(string \<times> json) list \<Rightarrow> (int \<times> answer_body) option" where
  "told ms = Some (200, Answer_Json (J_Object ms))"

definition expected_server :: "vault_state server" where
  "expected_server s c =
     (if hc_path c = ''/api/auth/login'' then (told [(''user_id'', J_Str ''u'')], s)
      else if hc_path c = ''/api/private/session'' then
        (told [(''active'', J_Bool (s = Open_Vault)), (''expires_in_seconds'', J_Int 60)], s)
      else if hc_path c = ''/api/private/unlock'' then
        (case s of No_Vault \<Rightarrow> (told [(''success'', J_Bool True)], Open_Vault)
         | Open_Vault \<Rightarrow> (told [(''success'', J_Bool True)], Open_Vault)
         | Closed_Vault n \<Rightarrow> if n < 5 then (told [(''success'', J_Bool False)], Closed_Vault (Suc n))
             else (Some (429, Answer_Json (J_Object
               [(''detail'', J_Object [(''error_code'', J_Str ''TOO_MANY_ATTEMPTS'')])])), s))
      else if hc_path c = ''/api/private/upload?path=/'' then
        (Some (201, Answer_Json (J_Object [(''name'', J_Str ''secret.txt'')])), s)
      else if hc_path c = ''/api/private/lock'' then (Some (204, Answer_Empty), Closed_Vault 0)
      else if hc_path c = ''/api/private?path=/'' then
        (if s = Open_Vault then (Some (200, Answer_Json (J_List [J_Object [(''name'', J_Str ''secret.txt'')]])), s)
         else (Some (401, Answer_Json (J_Object
           [(''detail'', J_Object [(''error_code'', J_Str ''PRIVATE_SESSION_EXPIRED'')])])), s))
      else (Some (200, Answer_Text SECRET_CONTENT), s))"

lemma expected_server_passes:
  "\<exists>r s. verify_main expected_server email password passphrase boundary No_Vault = Some ((0, r), s) \<and>
     cr_passed r = 10 \<and> cr_failed r = 0"
  by (simp add: verify_main_def run_check_def login_check_def vault_checks_def lock_check_def expired_check_def
      limit_check_def send_def expected_server_def told_def post_json_def get_call_def unwrap_detail_def field_of_def
      truthy_field_def positive_def lists_name_def ok_check_def fail_check_def report_def eval_nat_numeral Let_def)

end
