(* ===== verification/Routes.thy ===== *)
theory Routes
  imports Prelude
begin

text \<open>
  The table of routes: what the decorators of \<open>presentation/routers\<close> declare, in the order in which
  \<open>main.py\<close> includes the routers, with the health check and the routes of the user interface after them.
  A request is a method and the components of its path; the first route whose method and pattern fit
  it is served, a path that fits with other methods only is a 405.
\<close>

datatype segment = Lit string | Param | Rest \<comment> \<open>\<open>{name}\<close> and \<open>{name:path}\<close>\<close>

record api_route =
  rt_method :: string
  rt_path :: "segment list"
  rt_handler :: string

definition route :: "string \<Rightarrow> segment list \<Rightarrow> string \<Rightarrow> api_route" where
  "route verb path handler = \<lparr>rt_method = verb, rt_path = Lit ''api'' # path, rt_handler = handler\<rparr>"

fun fits :: "segment list \<Rightarrow> string list \<Rightarrow> bool" where
  "fits [] xs \<longleftrightarrow> xs = []"
| "fits (Lit s # ps) xs \<longleftrightarrow> (case xs of [] \<Rightarrow> False | x # ys \<Rightarrow> x = s \<and> fits ps ys)"
| "fits (Param # ps) xs \<longleftrightarrow> (case xs of [] \<Rightarrow> False | x # ys \<Rightarrow> x \<noteq> [] \<and> fits ps ys)"
| "fits (Rest # ps) xs \<longleftrightarrow> True"

datatype dispatched = Handled api_route | Wrong_Method | Unknown_Path

definition dispatch :: "api_route list \<Rightarrow> string \<Rightarrow> string list \<Rightarrow> dispatched" where
  "dispatch routes verb path =
     (case find (\<lambda>r. fits (rt_path r) path \<and> rt_method r = verb) routes of
        Some r \<Rightarrow> Handled r
      | None \<Rightarrow> if list_ex (\<lambda>r. fits (rt_path r) path) routes then Wrong_Method else Unknown_Path)"

section \<open>The routers\<close>

definition auth_routes :: "api_route list" where
  "auth_routes = [
   route ''POST'' [Lit ''auth'', Lit ''register''] ''register'',
   route ''POST'' [Lit ''auth'', Lit ''login''] ''login'',
   route ''GET'' [Lit ''auth'', Lit ''google''] ''google_auth_start'',
   route ''GET'' [Lit ''auth'', Lit ''google'', Lit ''callback''] ''google_auth_callback'',
   route ''GET'' [Lit ''auth'', Lit ''google'', Lit ''session''] ''google_auth_session'',
   route ''POST'' [Lit ''auth'', Lit ''logout''] ''logout'',
   route ''GET'' [Lit ''auth'', Lit ''me''] ''me'']"

definition admin_routes :: "api_route list" where
  "admin_routes = [
   route ''GET'' [Lit ''admin'', Lit ''users''] ''list_users'',
   route ''PATCH'' [Lit ''admin'', Lit ''users'', Param, Lit ''role''] ''update_user_role'',
   route ''PATCH'' [Lit ''admin'', Lit ''users'', Param, Lit ''quota''] ''update_user_quota'',
   route ''POST'' [Lit ''admin'', Lit ''users'', Param, Lit ''block''] ''block_user'',
   route ''DELETE'' [Lit ''admin'', Lit ''users'', Param] ''delete_user'',
   route ''GET'' [Lit ''admin'', Lit ''storage''] ''get_storage_stats'',
   route ''GET'' [Lit ''admin'', Lit ''storage'', Lit ''health''] ''get_storage_health'',
   route ''GET'' [Lit ''admin'', Lit ''archive'', Lit ''run''] ''run_archive'',
   route ''GET'' [Lit ''admin'', Lit ''archive'', Lit ''stats''] ''get_archive_stats'',
   route ''GET'' [Lit ''admin'', Lit ''maintenance'', Lit ''run''] ''run_maintenance'',
   route ''GET'' [Lit ''admin'', Lit ''maintenance'', Lit ''stats''] ''get_maintenance_stats'',
   route ''GET'' [Lit ''admin'', Lit ''backup'', Lit ''run''] ''run_backup'',
   route ''GET'' [Lit ''admin'', Lit ''backup'', Lit ''list''] ''list_backups'']"

definition quota_routes :: "api_route list" where
  "quota_routes = [
   route ''GET'' [Lit ''quota'', Lit ''me''] ''get_my_quota'']"

definition file_routes :: "api_route list" where
  "file_routes = [
   route ''GET'' [Lit ''files''] ''list_files'',
   route ''POST'' [Lit ''files'', Lit ''upload''] ''upload_file'',
   route ''POST'' [Lit ''files'', Lit ''upload-zip''] ''upload_zip_folder'',
   route ''GET'' [Lit ''files'', Lit ''download''] ''download_file'',
   route ''GET'' [Lit ''files'', Lit ''download-folder''] ''download_folder'',
   route ''DELETE'' [Lit ''files''] ''delete_file'',
   route ''POST'' [Lit ''files'', Lit ''mkdir''] ''create_directory'',
   route ''PATCH'' [Lit ''files'', Lit ''rename''] ''rename_file'',
   route ''GET'' [Lit ''files'', Lit ''search''] ''search_files'']"

definition shared_routes :: "api_route list" where
  "shared_routes = [
   route ''GET'' [Lit ''shared''] ''list_shared_files'',
   route ''POST'' [Lit ''shared'', Lit ''upload''] ''upload_shared_file'',
   route ''POST'' [Lit ''shared'', Lit ''upload-zip''] ''upload_shared_zip_folder'',
   route ''GET'' [Lit ''shared'', Lit ''download''] ''download_shared_file'',
   route ''GET'' [Lit ''shared'', Lit ''download-folder''] ''download_shared_folder'',
   route ''DELETE'' [Lit ''shared''] ''delete_shared_file'',
   route ''POST'' [Lit ''shared'', Lit ''mkdir''] ''create_shared_directory'',
   route ''PATCH'' [Lit ''shared'', Lit ''rename''] ''rename_shared_file'',
   route ''GET'' [Lit ''shared'', Lit ''search''] ''search_shared_files'']"

definition photo_routes :: "api_route list" where
  "photo_routes = [
   route ''GET'' [Lit ''photos''] ''list_photos'',
   route ''POST'' [Lit ''photos'', Lit ''upload''] ''upload_photo'',
   route ''GET'' [Lit ''photos'', Param, Lit ''preview''] ''get_photo_preview'',
   route ''GET'' [Lit ''photos'', Param, Lit ''original''] ''get_photo_original'',
   route ''DELETE'' [Lit ''photos'', Param] ''delete_photo'']"

definition private_routes :: "api_route list" where
  "private_routes = [
   route ''POST'' [Lit ''private'', Lit ''unlock''] ''unlock_private_section'',
   route ''POST'' [Lit ''private'', Lit ''lock''] ''lock_private_section'',
   route ''POST'' [Lit ''private'', Lit ''reset''] ''reset_private_storage'',
   route ''GET'' [Lit ''private'', Lit ''quota''] ''get_private_quota'',
   route ''GET'' [Lit ''private'', Lit ''session''] ''get_private_session'',
   route ''GET'' [Lit ''private'', Lit ''keys''] ''get_keys_registry'',
   route ''PUT'' [Lit ''private'', Lit ''keys''] ''put_keys_registry'',
   route ''GET'' [Lit ''private''] ''list_private_files'',
   route ''POST'' [Lit ''private'', Lit ''upload''] ''upload_private_file'',
   route ''GET'' [Lit ''private'', Lit ''download''] ''download_private_file'',
   route ''DELETE'' [Lit ''private''] ''delete_private_file'',
   route ''POST'' [Lit ''private'', Lit ''mkdir''] ''create_private_directory'',
   route ''PATCH'' [Lit ''private'', Lit ''rename''] ''rename_private_file'',
   route ''GET'' [Lit ''private'', Lit ''search''] ''search_private_files'',
   route ''GET'' [Lit ''private'', Lit ''download-folder''] ''download_private_folder'']"

definition resume_routes :: "api_route list" where
  "resume_routes = [
   route ''GET'' [Lit ''resumes'', Lit ''tree''] ''list_resume_tree'',
   route ''POST'' [Lit ''resumes'', Lit ''tree''] ''create_resume_node'',
   route ''PATCH'' [Lit ''resumes'', Lit ''tree''] ''rename_resume_node'',
   route ''DELETE'' [Lit ''resumes'', Lit ''tree''] ''delete_resume_node'',
   route ''GET'' [Lit ''resumes'', Lit ''vacancy''] ''get_vacancy'',
   route ''PUT'' [Lit ''resumes'', Lit ''vacancy''] ''save_vacancy'',
   route ''GET'' [Lit ''resumes'', Lit ''vacancies''] ''list_all_vacancies'',
   route ''GET'' [Lit ''resumes'', Lit ''statuses''] ''list_statuses'',
   route ''PUT'' [Lit ''resumes'', Lit ''statuses''] ''save_statuses'']"

definition resume_file_routes :: "api_route list" where
  "resume_file_routes = [
   route ''GET'' [Lit ''resumes'', Lit ''files''] ''list_files'',
   route ''POST'' [Lit ''resumes'', Lit ''files'', Lit ''upload''] ''upload_file'',
   route ''POST'' [Lit ''resumes'', Lit ''files'', Lit ''upload-zip''] ''upload_zip_folder'',
   route ''GET'' [Lit ''resumes'', Lit ''files'', Lit ''download''] ''download_file'',
   route ''GET'' [Lit ''resumes'', Lit ''files'', Lit ''download-folder''] ''download_folder'',
   route ''DELETE'' [Lit ''resumes'', Lit ''files''] ''delete_file'',
   route ''POST'' [Lit ''resumes'', Lit ''files'', Lit ''mkdir''] ''create_directory'',
   route ''PATCH'' [Lit ''resumes'', Lit ''files'', Lit ''rename''] ''rename_file'',
   route ''GET'' [Lit ''resumes'', Lit ''files'', Lit ''search''] ''search_files'']"

definition generated_routes :: "api_route list" where
  "generated_routes = [
   route ''POST'' [Lit ''generated''] ''store_generated_run'',
   route ''GET'' [Lit ''generated''] ''list_generated_runs'',
   route ''GET'' [Lit ''generated'', Param] ''get_generated_run'',
   route ''GET'' [Lit ''generated'', Param, Lit ''files'', Param] ''get_generated_file'',
   route ''DELETE'' [Lit ''generated'', Param] ''delete_generated_run'']"

definition indexing_routes :: "api_route list" where
  "indexing_routes = [
   route ''GET'' [Lit ''photos'', Lit ''search''] ''search_photos'',
   route ''GET'' [Lit ''indexing'', Lit ''status''] ''indexing_status'',
   route ''GET'' [Lit ''admin'', Lit ''indexing''] ''admin_indexing'',
   route ''POST'' [Lit ''admin'', Lit ''indexing'', Lit ''backfill''] ''admin_indexing_backfill'',
   route ''POST'' [Lit ''admin'', Lit ''indexing'', Lit ''retry''] ''admin_indexing_retry'']"

definition api_routes :: "api_route list" where
  "api_routes = auth_routes @ admin_routes @ quota_routes @ file_routes @ shared_routes @ photo_routes @
     private_routes @ resume_routes @ resume_file_routes @ generated_routes @ indexing_routes"

definition health_route :: api_route where
  "health_route = \<lparr>rt_method = ''GET'', rt_path = [Lit ''health''], rt_handler = ''health''\<rparr>"

definition page_routes :: "bool \<Rightarrow> api_route list" where
  "page_routes spa_built =
     (if spa_built
      then [\<lparr>rt_method = ''GET'', rt_path = [Lit []], rt_handler = ''spa_root''\<rparr>,
            \<lparr>rt_method = ''GET'', rt_path = [Rest], rt_handler = ''spa_fallback''\<rparr>]
      else [\<lparr>rt_method = ''GET'', rt_path = [Lit []], rt_handler = ''root''\<rparr>])"

definition app_routes :: "bool \<Rightarrow> api_route list" where
  "app_routes spa_built = api_routes @ health_route # page_routes spa_built"

section \<open>No route hides another\<close>

fun meets :: "segment \<Rightarrow> segment \<Rightarrow> bool" where
  "meets (Lit a) (Lit b) \<longleftrightarrow> a = b"
| "meets _ _ \<longleftrightarrow> True"

fun overlap :: "segment list \<Rightarrow> segment list \<Rightarrow> bool" where
  "overlap (Rest # ps) qs \<longleftrightarrow> True"
| "overlap ps (Rest # qs) \<longleftrightarrow> True"
| "overlap [] [] \<longleftrightarrow> True"
| "overlap (p # ps) (q # qs) \<longleftrightarrow> meets p q \<and> overlap ps qs"
| "overlap _ _ \<longleftrightarrow> False"

lemma fits_overlap: "fits ps xs \<Longrightarrow> fits qs xs \<Longrightarrow> overlap ps qs"
proof (induction ps arbitrary: qs xs)
  case Nil
  then show ?case by (cases qs rule: fits.cases [of "(qs, xs)" for qs]) (auto split: list.splits)
next
  case (Cons p ps)
  then show ?case
    by (cases qs; cases p; cases "hd qs") (auto split: list.splits)
qed

fun unambiguous :: "api_route list \<Rightarrow> bool" where
  "unambiguous [] \<longleftrightarrow> True"
| "unambiguous (r # rs) \<longleftrightarrow>
     list_all (\<lambda>s. rt_method r \<noteq> rt_method s \<or> \<not> overlap (rt_path r) (rt_path s)) rs \<and> unambiguous rs"

lemma unambiguous_find:
  "unambiguous rs \<Longrightarrow> r \<in> set rs \<Longrightarrow> fits (rt_path r) path \<Longrightarrow>
    find (\<lambda>s. fits (rt_path s) path \<and> rt_method s = rt_method r) (rs @ others) = Some r"
  by (induction rs) (auto simp: list_all_iff dest: fits_overlap)

lemma api_routes_unambiguous: "unambiguous api_routes"
  by code_simp

text \<open>
  Every endpoint answers all requests to its path: whatever the parameters of the path are, no route
  before it, and not the catch-all of the user interface, takes them.
\<close>

lemma every_route_reached:
  assumes "r \<in> set api_routes" and "fits (rt_path r) path"
  shows "dispatch (app_routes spa_built) (rt_method r) path = Handled r"
  using unambiguous_find [OF api_routes_unambiguous assms] by (simp add: dispatch_def app_routes_def)

text \<open>
  With the user interface in place a \<open>GET\<close> of an unknown path is a page, under \<open>/api\<close> as well, and any
  other method is a 405; without it both are a 404.
\<close>

lemma unknown_paths:
  assumes "\<not> list_ex (\<lambda>r. fits (rt_path r) path) (api_routes @ [health_route])" and "path \<noteq> [[]]"
  shows "dispatch (app_routes True) ''GET'' path =
      Handled \<lparr>rt_method = ''GET'', rt_path = [Rest], rt_handler = ''spa_fallback''\<rparr>"
    and "dispatch (app_routes True) ''POST'' path = Wrong_Method"
    and "dispatch (app_routes False) ''GET'' path = Unknown_Path"
proof -
  have none: "find (\<lambda>r. fits (rt_path r) path \<and> rt_method r = m) (api_routes @ [health_route]) = None" for m
    using assms(1) by (auto simp: find_None_iff list_ex_iff)
  have split: "find P (xs @ ys) = (case find P xs of None \<Rightarrow> find P ys | Some r \<Rightarrow> Some r)" for P :: "api_route \<Rightarrow> bool" and xs ys
    by (induction xs) auto
  have routes: "app_routes b = (api_routes @ [health_route]) @ page_routes b" for b
    by (simp add: app_routes_def)
  have root: "\<not> fits [Lit []] path" using assms(2) by (cases path) auto
  show "dispatch (app_routes True) ''GET'' path =
      Handled \<lparr>rt_method = ''GET'', rt_path = [Rest], rt_handler = ''spa_fallback''\<rparr>"
    and "dispatch (app_routes True) ''POST'' path = Wrong_Method"
    and "dispatch (app_routes False) ''GET'' path = Unknown_Path"
    using assms(1) root none
    by (simp_all add: dispatch_def routes split page_routes_def del: append.simps append_assoc)
qed

end
