(* ===== verification/SectionApi.thy ===== *)
theory SectionApi
  imports Documents Json
begin

text \<open>
  The JSON bodies of the resumes and of the keys registry (\<open>presentation/schemas/resumes.py\<close>,
  \<open>schemas/private.py\<close>, \<open>schemas/generated.py\<close>, the response builders of \<open>routers/resume_router.py\<close>): what a request model
  accepts, with its defaults, and what a response holds. A moment is written by \<open>isoformat\<close>, a parameter.
  Members a request model does not name are ignored; \<open>None\<close> is a body refused with 422. The lemmas say
  that the answer of a GET can be sent back with PUT, and that saving it again changes nothing.
\<close>

section \<open>Members of a request body\<close>

text \<open>A member without default, one with a default, and one that may be \<open>null\<close>.\<close>

definition text_of_json :: "json option \<Rightarrow> string option" where
  "text_of_json v = (case v of Some (J_Str s) \<Rightarrow> Some s | _ \<Rightarrow> None)"

definition text_or_default :: "string \<Rightarrow> json option \<Rightarrow> string option" where
  "text_or_default d v = (case v of None \<Rightarrow> Some d | Some _ \<Rightarrow> text_of_json v)"

definition text_or_null :: "json option \<Rightarrow> string option option" where
  "text_or_null v = (case v of None \<Rightarrow> Some None | Some J_Null \<Rightarrow> Some None | Some _ \<Rightarrow> map_option Some (text_of_json v))"

definition json_of_optional :: "string option \<Rightarrow> json" where
  "json_of_optional s = (case s of None \<Rightarrow> J_Null | Some t \<Rightarrow> J_Str t)"

fun parse_items :: "((string \<times> json) list \<Rightarrow> 'a option) \<Rightarrow> json list \<Rightarrow> 'a list option" where
  "parse_items p [] = Some []"
| "parse_items p (J_Object ms # js) =
     (case p ms of None \<Rightarrow> None | Some x \<Rightarrow> map_option ((#) x) (parse_items p js))"
| "parse_items p (_ # js) = None"

lemma member_readings [simp]:
  "text_of_json (Some (J_Str s)) = Some s" "text_or_default d (Some (J_Str s)) = Some s"
  "text_or_default d None = Some d" "text_or_null (Some (json_of_optional t)) = Some t" "text_or_null None = Some None"
  by (simp_all add: text_of_json_def text_or_default_def text_or_null_def json_of_optional_def split: option.split)

lemma parse_items_back:
  "(\<And>x. x \<in> set xs \<Longrightarrow> p (m x) = Some x) \<Longrightarrow> parse_items p (map (\<lambda>x. J_Object (m x)) xs) = Some xs"
  by (induction xs) simp_all

section \<open>Resumes\<close>

definition level_name :: "resume_level \<Rightarrow> string" where
  "level_name l = (case l of COUNTRY \<Rightarrow> ''COUNTRY'' | COMPANY \<Rightarrow> ''COMPANY'' | VACANCY \<Rightarrow> ''VACANCY'')"

definition json_of_level :: "resume_level option \<Rightarrow> json" where
  "json_of_level l = json_of_optional (map_option level_name l)"

definition resume_node_response :: "(instant \<Rightarrow> string) \<Rightarrow> resume_node \<Rightarrow> json" where
  "resume_node_response isoformat n = J_Object
     [(''name'', J_Str (rn_name n)), (''path'', J_Str (rn_path n)), (''level'', json_of_level (rn_level n)),
      (''child_count'', J_Int (int (rn_child_count n))), (''modified_at'', J_Str (isoformat (rn_modified_at n))),
      (''status_id'', json_of_optional (rn_status_id n)), (''website_url'', json_of_optional (rn_website_url n))]"

definition resume_tree_response :: "(instant \<Rightarrow> string) \<Rightarrow> resume_tree \<Rightarrow> json" where
  "resume_tree_response isoformat t = J_Object
     [(''path'', J_Str (rt_path t)), (''level'', json_of_level (rt_level t)),
      (''items'', J_List (map (resume_node_response isoformat) (rt_items t)))]"

definition vacancy_field_members :: "vacancy_field \<Rightarrow> (string \<times> json) list" where
  "vacancy_field_members f = [(''name'', J_Str (vf_name f)), (''value'', J_Str (vf_value f))]"

definition vacancy_response :: "vacancy_meta \<Rightarrow> (string \<times> json) list" where
  "vacancy_response m =
     [(''path'', J_Str (vm_path m)), (''name'', J_Str (vm_name m)), (''website_url'', J_Str (vm_website_url m)),
      (''status_id'', json_of_optional (vm_status_id m)),
      (''fields'', J_List (map (\<lambda>f. J_Object (vacancy_field_members f)) (vm_fields m)))]"

definition vacancy_list_item :: "(instant \<Rightarrow> string) \<Rightarrow> vacancy_item \<Rightarrow> json" where
  "vacancy_list_item isoformat i = J_Object
     [(''country'', J_Str (vi_country i)), (''company'', J_Str (vi_company i)), (''name'', J_Str (vi_name i)),
      (''path'', J_Str (vi_path i)), (''status_id'', json_of_optional (vi_status_id i)),
      (''website_url'', J_Str (vi_website_url i)), (''modified_at'', J_Str (isoformat (vi_modified_at i)))]"

definition vacancy_list_response :: "(instant \<Rightarrow> string) \<Rightarrow> vacancy_item list \<Rightarrow> json" where
  "vacancy_list_response isoformat vs = J_Object [(''items'', J_List (map (vacancy_list_item isoformat) vs))]"

definition status_members :: "resume_status \<Rightarrow> (string \<times> json) list" where
  "status_members s = [(''id'', J_Str (rs_id s)), (''name'', J_Str (rs_name s)), (''color'', J_Str (rs_color s))]"

definition statuses_response :: "resume_status list \<Rightarrow> (string \<times> json) list" where
  "statuses_response ss = [(''statuses'', J_List (map (\<lambda>s. J_Object (status_members s)) ss))]"

text \<open>The request models; the result is the request as the handlers take it.\<close>

definition node_create_request :: "(string \<times> json) list \<Rightarrow> resume_request option" where
  "node_create_request ms =
     (case (text_or_default [] (map_of ms ''path''), text_of_json (map_of ms ''name''),
            text_or_null (map_of ms ''status_id'')) of
        (Some path, Some name, Some status_id) \<Rightarrow> Some (Resume_Create path name status_id)
      | _ \<Rightarrow> None)"

definition node_rename_request :: "(string \<times> json) list \<Rightarrow> resume_request option" where
  "node_rename_request ms =
     (case (text_of_json (map_of ms ''path''), text_of_json (map_of ms ''new_name'')) of
        (Some path, Some new_name) \<Rightarrow> Some (Resume_Rename path new_name)
      | _ \<Rightarrow> None)"

definition vacancy_field_item :: "(string \<times> json) list \<Rightarrow> vacancy_field option" where
  "vacancy_field_item ms =
     (case (text_of_json (map_of ms ''name''), text_or_default [] (map_of ms ''value'')) of
        (Some name, Some v) \<Rightarrow> Some \<lparr>vf_name = name, vf_value = v\<rparr>
      | _ \<Rightarrow> None)"

definition items_or_empty :: "((string \<times> json) list \<Rightarrow> 'a option) \<Rightarrow> json option \<Rightarrow> 'a list option" where
  "items_or_empty p v = (case v of None \<Rightarrow> Some [] | Some (J_List js) \<Rightarrow> parse_items p js | _ \<Rightarrow> None)"

definition vacancy_put_request :: "string \<Rightarrow> (string \<times> json) list \<Rightarrow> resume_request option" where
  "vacancy_put_request path ms =
     (case (text_or_default [] (map_of ms ''website_url''), text_or_null (map_of ms ''status_id''),
            items_or_empty vacancy_field_item (map_of ms ''fields'')) of
        (Some website_url, Some status_id, Some fs) \<Rightarrow> Some (Resume_Save_Vacancy path website_url status_id fs)
      | _ \<Rightarrow> None)"

definition status_item :: "(string \<times> json) list \<Rightarrow> (string option \<times> string \<times> string) option" where
  "status_item ms =
     (case (text_or_null (map_of ms ''id''), text_of_json (map_of ms ''name''), text_of_json (map_of ms ''color'')) of
        (Some i, Some name, Some color) \<Rightarrow> Some (i, name, color)
      | _ \<Rightarrow> None)"

definition statuses_put_request :: "(string \<times> json) list \<Rightarrow> resume_request option" where
  "statuses_put_request ms =
     (case map_of ms ''statuses'' of
        Some (J_List js) \<Rightarrow> map_option Resume_Save_Statuses (parse_items status_item js)
      | _ \<Rightarrow> None)"

section \<open>Keys, passphrase and generated runs\<close>

definition key_members :: "key_entry \<Rightarrow> (string \<times> json) list" where
  "key_members e = [(''name'', J_Str (fst e)), (''value'', J_Str (snd e))]"

definition keys_list_response :: "key_entry list \<Rightarrow> (string \<times> json) list" where
  "keys_list_response es = [(''keys'', J_List (map (\<lambda>e. J_Object (key_members e)) es))]"

definition key_item :: "(string \<times> json) list \<Rightarrow> key_entry option" where
  "key_item ms =
     (case (text_of_json (map_of ms ''name''), text_of_json (map_of ms ''value'')) of
        (Some name, Some v) \<Rightarrow> Some (name, v)
      | _ \<Rightarrow> None)"

definition keys_put_request :: "(string \<times> json) list \<Rightarrow> keys_request option" where
  "keys_put_request ms =
     (case map_of ms ''keys'' of
        Some (J_List js) \<Rightarrow> map_option Keys_Put (parse_items key_item js)
      | _ \<Rightarrow> None)"

definition unlock_request :: "(string \<times> json) list \<Rightarrow> string option" where
  "unlock_request ms =
     (case text_of_json (map_of ms ''passphrase'') of
        Some p \<Rightarrow> if length p < 1 then None else Some p
      | None \<Rightarrow> None)"

definition created_run_response :: "stored_run \<Rightarrow> json" where
  "created_run_response r = J_Object [(''id'', J_Str (sr_id r)), (''created_at'', J_Str (sr_created_at r))]"

definition run_item_response :: "generated_item \<Rightarrow> json" where
  "run_item_response i = J_Object
     [(''id'', J_Str (gi_id i)), (''created_at'', J_Str (gi_created_at i)), (''prompt'', J_Str (gi_prompt i))]"

definition run_list_response :: "generated_item list \<Rightarrow> json" where
  "run_list_response runs = J_Object [(''items'', J_List (map run_item_response runs))]"

text \<open>The moment of the run is not a member of the response.\<close>

definition run_body :: "generated_meta \<Rightarrow> json" where
  "run_body m = J_Object
     [(''prompt'', J_Str (gm_prompt m)), (''negative_prompt'', J_Str (gm_negative_prompt m)),
      (''seed'', J_Int (gm_seed m)), (''steps'', J_Int (gm_steps m)), (''true_cfg_scale'', J_Float (gm_true_cfg_scale m)),
      (''width'', J_Int (gm_width m)), (''height'', J_Int (gm_height m)), (''duration'', J_Float (gm_duration m)),
      (''references'', J_List (map J_Str (gm_references m))), (''result'', J_Str (gm_result m))]"

section \<open>Answers sent back\<close>

lemma keys_sent_back: "keys_put_request (keys_list_response es) = Some (Keys_Put es)"
proof -
  have "key_item (key_members e) = Some e" for e by (simp add: key_item_def key_members_def)
  then show ?thesis by (simp add: keys_put_request_def keys_list_response_def parse_items_back)
qed

lemma vacancy_sent_back:
  "vacancy_put_request path (vacancy_response m) =
    Some (Resume_Save_Vacancy path (vm_website_url m) (vm_status_id m) (vm_fields m))"
proof -
  have "vacancy_field_item (vacancy_field_members f) = Some f" for f
    by (simp add: vacancy_field_item_def vacancy_field_members_def)
  then show ?thesis
    by (simp add: vacancy_put_request_def vacancy_response_def items_or_empty_def parse_items_back)
qed

lemma parse_statuses_back:
  "parse_items status_item (map (\<lambda>s. J_Object (status_members s)) ss) =
    Some (map (\<lambda>s. (Some (rs_id s), rs_name s, rs_color s)) ss)"
proof -
  have "text_or_null (Some (J_Str i)) = Some (Some i)" for i using member_readings(4) [of "Some i"]
    by (simp add: json_of_optional_def)
  then have "status_item (status_members s) = Some (Some (rs_id s), rs_name s, rs_color s)" for s
    by (simp add: status_item_def status_members_def)
  then show ?thesis by (induction ss) simp_all
qed

lemma statuses_sent_back:
  "statuses_put_request (statuses_response ss) =
    Some (Resume_Save_Statuses (map (\<lambda>s. (Some (rs_id s), rs_name s, rs_color s)) ss))"
  by (simp add: statuses_put_request_def statuses_response_def parse_statuses_back)

lemma entries_of_statuses: "map status_entry (map (\<lambda>s. (Some (rs_id s), rs_name s, rs_color s)) ss) = ss"
  by (induction ss) (simp_all add: status_entry_def or_else_def non_empty_def)

text \<open>Saving once more keeps every value: the normal forms of the services are fixed points.\<close>

lemma https_has_scheme: "has_scheme (''https://'' @ url)"
  by (simp add: has_scheme_def ascii_letter_def scheme_char_def char_code_def starts_with_def)

lemma strip_https: "strip url = url \<Longrightarrow> url \<noteq> [] \<Longrightarrow> strip (''https://'' @ url) = ''https://'' @ url"
proof -
  assume same: "strip url = url" and url: "url \<noteq> []"
  have "\<not> is_space (last url)" using strip_by_last [of is_space url] same url by (simp add: strip_def)
  moreover have "\<not> is_space (CHR ''h'')" by code_simp
  ultimately show ?thesis unfolding strip_def using url by (intro strip_by_id) simp
qed

lemma normal_url_kept: "normalize_url (Some (normalize_url u)) = normalize_url u"
proof -
  define url where "url = strip (or_else u [])"
  have blank: "strip [] = []" by code_simp
  have given: "or_else (Some t) [] = t" for t :: string by (simp add: or_else_def non_empty_def)
  have same: "strip url = url" by (simp add: url_def)
  have normal: "normalize_url u = (if url = [] then [] else if has_scheme url then url else ''https://'' @ url)"
    by (simp add: normalize_url_def url_def Let_def)
  have keep: "normalize_url (Some t) = t" if "t = [] \<or> strip t = t \<and> has_scheme t" for t
    using that blank unfolding normalize_url_def given by (auto simp: Let_def)
  show ?thesis unfolding normal using same strip_https [OF same] https_has_scheme
    by (intro keep) auto
qed

lemma saved_keys_kept: "validate_entries_from seen es = Inr es' \<Longrightarrow> validate_entries_from seen es' = Inr es'"
  by (induction seen es arbitrary: es' rule: validate_entries_from.induct)
     (auto simp: Let_def map_sum_Inr_iff split: if_splits)

lemma saved_fields_kept: "validate_fields_from seen fs = Inr gs \<Longrightarrow> validate_fields_from seen gs = Inr gs"
  by (induction seen fs arbitrary: gs rule: validate_fields_from.induct)
     (auto simp: Let_def map_sum_Inr_iff split: if_splits)

lemma saved_statuses_kept:
  "validate_statuses_from E names ids ss w = (Inr ts, w') \<Longrightarrow> validate_statuses_from E names ids ts v = (Inr ts, v)"
proof (induction ss arbitrary: names ids w ts)
  case (Cons s ss)
  let ?id = "if strip (rs_id s) \<noteq> [] then ret (strip (rs_id s)) else uuid_hex E"
  obtain i u where i: "?id w = (Inr i, u)" using Cons.prems by (auto simp: Let_def bind_run split: prod.splits sum.splits if_splits)
  have id: "strip i = i" "i \<noteq> []"
    using i by (auto simp: uuid_hex_def run new_uuid_def strip_digits hex_digits_nonempty split: if_splits)
  obtain rest where rest: "validate_statuses_from E (lower (strip (rs_name s)) # names) (i # ids) ss u = (Inr rest, w')"
    "ts = \<lparr>rs_id = i, rs_name = strip (rs_name s), rs_color = strip (rs_color s)\<rparr> # rest"
    "strip (rs_name s) \<noteq> []" "color_pattern (strip (rs_color s))"
    "lower (strip (rs_name s)) \<notin> set names" "i \<notin> set ids"
    using Cons.prems i by (auto simp: Let_def bind_run run split: prod.splits sum.splits if_splits)
  show ?case using Cons.IH [OF rest(1)] rest(2-6) id by (simp add: Let_def bind_run run)
qed (simp add: run)

end
