(* ===== verification/Spec2Isabelle.thy ===== *)
theory Spec2Isabelle
  imports IndexServices S3Spec SyncProps LinkRepo RagClient SystemBooks RoundTrips PrivateProps
    KeysRegistry PhotoService ResumeService GeneratedService BackupService OtherApi SectionRouters
    SectionProps Documents VaultTrips MigrationProps ErrorHandlers Startup AdminApi VerifyScript Routes SectionApi
begin

text \<open>
  A verification development for the backend of WebStorage (\<open>src/backend\<close>), a FastAPI service that keeps
  the files, photos, resumes, generated images and an encrypted vault of each user in an S3-compatible
  object store, their records and byte counters in PostgreSQL, sessions in Redis, and a queue that offers
  files to a RAG service for search.

  The program and its parts. A request goes through a router (\<open>app/presentation/routers\<close>), which asks
  the dependencies for the user and for the service of a section, and runs the service inside one database
  session. A service (\<open>app/application\<close>) works on the storage through an adapter
  (\<open>app/infrastructure/storage\<close>) and on the tables through repositories
  (\<open>app/infrastructure/database/repositories\<close>). What a request changes is written to the queue of index
  rows, which the scheduled job of \<open>main.py\<close> moves along at the RAG service. Other jobs archive files that
  nobody has read, clean up, reconcile the counters and back up the database.

  How code is modelled. An asynchronous method is an action (\<open>Prelude\<close>): a function from a state to an
  exception or a value, together with the state it leaves, which an exception does not undo. \<open>bind\<close> is
  sequencing, \<open>try_except\<close> and \<open>raise\<close> are Python's, \<open>map_act\<close> and \<open>for_each\<close> are loops; exceptions are
  the constructors of \<open>exn\<close> (\<open>Domain\<close>). The state is the record \<open>world\<close> (\<open>World\<close>): the tables as the open
  session sees them, whether a failed flush has left that session unusable (\<open>broken\<close>), the entries of
  Redis, the caches, the background tasks that have been started, and the calls to the remote services with
  their answers. What is not code of the repository is a field of the record \<open>env\<close>: the clock, fresh
  identifiers and random bytes, settings, the RAG service, the object store and the User-Service as
  arbitrary functions from the calls so far to an answer, \<open>zstd\<close>, AES-GCM, PBKDF2, the ZIP format, MIME
  types and the scaling of images. PyYAML and the parsing of floats are the record \<open>yaml_library\<close>.
  \<open>in_session\<close> is the \<open>try: ... commit; except: rollback; raise\<close> of the handlers.
\<close>

text \<open>
  Theories and code. Text and codecs: \<open>PyText\<close> (\<open>str\<close>, \<open>PurePosixPath\<close>, \<open>UUID\<close>), \<open>Codecs\<close> (UTF-8, base64,
  big-endian words, decimals), \<open>Dates\<close> (the calendar, \<open>strftime\<close>, \<open>strptime\<close>), \<open>Json\<close>, \<open>Yaml\<close>.

  Domain and index queue: \<open>Domain\<close> (\<open>app/domain\<close>); \<open>IndexDecision\<close> (\<open>domain/indexing.py\<close>); \<open>IndexPorts\<close>
  (\<open>ports/index_links.py\<close>), the interface of the queue as a record of operations, with its laws as the
  locales \<open>link_reads\<close>, \<open>link_rows\<close>, \<open>link_invariant\<close> and \<open>object_port\<close>; \<open>LinkRepo\<close>
  (\<open>file_index_link_repo.py\<close>), which interprets them; \<open>SyncJob\<close> (\<open>indexing/sync_job.py\<close>) method by method;
  \<open>SyncSpec\<close>, the life cycle of a row as an inductive step relation, and the proof in the locale
  \<open>sync_machine\<close> that the job follows it; \<open>SyncProps\<close>, the job over the program's own repository;
  \<open>IndexServices\<close> (\<open>enqueue\<close>, \<open>immediate\<close>, \<open>backfill\<close>, \<open>search\<close>, \<open>status\<close>) with the history of the queue;
  \<open>RagClient\<close> (\<open>rag/client.py\<close>).

  Storage: \<open>Storage\<close> (\<open>base_adapter.py\<close>), the interface with the locale \<open>storage_port\<close>; \<open>S3Adapter\<close>
  (\<open>s3_adapter.py\<close>), its interpretation; \<open>S3Spec\<close>, the contents of a bucket as a function of the calls it has
  answered, and what the adapter does to them; \<open>EncryptedAdapter\<close> (\<open>encrypted_adapter.py\<close>) over any adapter;
  \<open>DiskRouter\<close> (\<open>disk_router.py\<close>).

  Files: \<open>FileRepo\<close>, \<open>QuotaRepo\<close> (the repositories), \<open>FileService\<close> and \<open>FileZip\<close> (\<open>file_service.py\<close>),
  \<open>ArchiveService\<close>, \<open>MaintenanceService\<close>, \<open>BackupService\<close>, \<open>AdminService\<close>, \<open>Accounts\<close> (the User-Service
  client, \<open>user_repo.py\<close>, \<open>dependencies/auth.py\<close>), \<open>FileApi\<close> and \<open>SectionRouters\<close> (\<open>file_router.py\<close>,
  \<open>file_router_factory.py\<close>, \<open>exception_handlers.py\<close>), \<open>OtherApi\<close> (indexing, quota and identity routers).

  The other sections: \<open>PhotoService\<close>, \<open>ResumeService\<close>, \<open>GeneratedService\<close>, \<open>KeysRegistry\<close>, and the vault in
  \<open>SessionStore\<close> (\<open>session_store.py\<close>, Redis as a table with expiry) and \<open>PrivateService\<close>, each with its
  router.

  The process: \<open>Config\<close> (\<open>config.py\<close>, \<open>logging_setup.py\<close>), the settings with their variables and defaults and the
  configuration of the services they give; \<open>Startup\<close> (\<open>main.py\<close>), the jobs that \<open>lifespan\<close> registers, their
  runs side by side as a step relation, and the served user interface; \<open>Routes\<close>, the table of routes
  and the choice among them; \<open>ErrorHandlers\<close>
  (\<open>exception_handlers.py\<close>), the JSON answer to every exception; \<open>AdminApi\<close> (\<open>schemas/admin.py\<close>,
  \<open>schemas/indexing.py\<close>), the request and response models with their bounds; \<open>SectionApi\<close>
  (\<open>schemas/resumes.py\<close>, \<open>schemas/private.py\<close>, \<open>schemas/generated.py\<close>), the JSON bodies of the sections with the
  lemmas that an answer can be sent back and that saving it once more keeps every value; \<open>Schema\<close>
  (\<open>models.py\<close>), database schemas with rows and the SQL statements that change them; \<open>Migrations\<close>
  (\<open>alembic/versions\<close>), every upgrade and downgrade; \<open>VerifyScript\<close>
  (\<open>scripts/verify_private_storage.py\<close>).
\<close>

text \<open>
  What the lemmas show. The index queue: a tick moves each claimed row by one step of the life cycle
  whatever the services answer; rows that were removed or archived stay so; attempts are bounded and an
  outage ends in \<open>FAILED\<close>; the queue stays consistent along every history (\<open>SyncProps\<close>,
  \<open>IndexServices\<close>, \<open>LinkRepo\<close>).

  The object store: under \<open>reliable\<close>, the documented answer to every call, what is written is read back,
  deletion and renaming change exactly the objects named, and keys stay below their section; without any
  assumption a failed write aborts its upload (\<open>S3Spec\<close>).

  The books: \<open>FileTables\<close> states by triples (\<open>Triples\<close>) how operations change records and counters;
  \<open>FileBooks\<close> (locale \<open>file_desk\<close>), \<open>ApiBooks\<close> (\<open>section_desk\<close>) and \<open>SectionBooks\<close> (\<open>photo_desk\<close>) carry the
  contract through services and endpoints and interpret the locales on the services that the program
  builds; \<open>Sessions\<close> composes it over sessions, and \<open>SystemBooks\<close> concludes over the relation
  \<open>storage_step\<close> that the counter of every user is the size of the user's active files after every
  history of requests, administration, background tasks and jobs, and over \<open>own_step\<close> that requests in
  one's own sections touch no row of others.

  Round trips through all layers: \<open>RoundTrips\<close> (upload and download, archive and read), \<open>VaultTrips\<close> (the
  encrypted adapter over the store), \<open>SectionProps\<close> (a photo and its preview), \<open>Documents\<close> (what the
  services write as YAML they read back; \<open>TaggedYaml\<close> is a library that satisfies the assumption). Access:
  \<open>Accounts\<close>, \<open>FileProps\<close>, \<open>PrivateProps\<close>.

  The database: \<open>MigrationProps\<close> proves that a statement acts on the rows of a table as \<open>moved_rows\<close> says
  whenever the empty schema accepts it, and concludes that an old database keeps its rows, that a fresh
  one gets the tables of the models, and that every step can be taken back. Scheduled jobs never overlap
  themselves (\<open>Startup\<close>); no route hides another (\<open>Routes\<close>); every exception is answered in the form the endpoints are modelled with
  (\<open>ErrorHandlers\<close>). Equivalences: the three copies of the file endpoints, the two
  checks of an archive, the update by path prefix and the reference by path components.
\<close>

text \<open>
  Bounds and fuel. Recursions follow the data, or carry a measure (\<open>decrypt_stream\<close>, \<open>batches\<close>,
  \<open>upload_full\<close>, \<open>copy_parts\<close>). The one number that bounds a recursion is \<open>depth\<close> of \<open>walk_directory\<close> in
  \<open>FileZip\<close>, the recursion limit of the interpreter: when it is used up the walk raises, as Python does
  with \<open>RecursionError\<close>, and the theorems hold for every value of it. Retries are counted as in the code.
  Python's integers are \<open>int\<close>; the columns of the tables have the range of \<open>BigInteger\<close>, and a flush beyond
  it fails; frames of the vault have lengths of four bytes; identifiers are 128-bit words.

  Limits of the model. Characters have code points below 256, with Python's \<open>strip\<close>, \<open>lower\<close> and UTF-8 on
  them; \<open>errors="replace"\<close> writes a question mark for what is outside. A stream that a handler yields is read to its
  end. Photos of the same moment keep the order of the table, which SQL leaves open. The nonces of a stream
  are drawn before the first frame is written. Negative zero is the number zero. Concurrency is
  interleaving of whole sessions; inside a session the rows that others lock or change are the parameters
  \<open>row_locked\<close> and \<open>race\<close> of the environment. The reset of the vault is modelled (\<open>reset_storage\<close>) but left out
  of the histories of \<open>storage_step\<close>: it releases the bytes of archived records without releasing the
  records, so the books do not balance after it.

  Not modelled: failures of the connection to Redis; the \<open>Retry-After\<close> header; the text of log lines; the
  database engine (\<open>session.py\<close>), the middleware stack and \<open>alembic/env.py\<close>, which are wiring around
  libraries; what PostgreSQL keeps of a migration that fails half way, after the \<open>COMMIT\<close> of revision
  006; the scaling of an image itself (\<open>thumbnail_service.py\<close>, a call to Pillow); the parsing of requests
  into parts (forms, uploads, queries);
  the frontend and the deployment files, which are not Python.
\<close>

end
